(* ===== verification/Prelude.thy ===== *)
theory Prelude
  imports Complex_Main
    "HOL-Library.AList"
    "HOL-Library.Char_ord"
    "HOL-Library.List_Lexorder"
    "HOL-Library.Product_Lexorder"
    "HOL-Library.Multiset"
begin

text \<open>
  Shared vocabulary of the development.

  Python data: a \<open>str\<close> is an Isabelle \<^typ>\<open>string\<close> (the code compares, concatenates and hashes the
  strings modelled here; non-ASCII literals are written as their UTF-8 bytes, which preserves
  equality, concatenation and the ordering by code point); an \<open>int\<close> is \<^typ>\<open>int\<close> or, where the code
  only counts, \<^typ>\<open>nat\<close>; a \<open>float\<close> is an exact rational (rounding to binary64 is not modelled);
  a \<open>dict\<close> is an association list in insertion order; a dynamically typed value is a \<open>pyval\<close>;
  an exception is a value of \<open>py_exc\<close> and a function that can raise returns a sum.
\<close>

section \<open>Collections of facts\<close>

named_theorems dict_simps \<open>reading and writing insertion-ordered dictionaries\<close>
named_theorems frame_simps \<open>fields that an operation leaves alone\<close>
named_theorems wf_intros \<open>an operation keeps the well-formedness of its state\<close>

section \<open>Exceptions\<close>

datatype py_exc =
    ValueError
  | TypeError
  | KeyError
  | IndexError
  | AttributeError
  | OverflowError
  | PermissionError
  | ProviderError
  | AclDenied
  | AuthError
  | TenantIsolationError
  | InvalidTransitionError
  | InvalidCallTransition
  | InvalidScenarioTransition
  | ProviderUnavailable

type_synonym 'a result = "py_exc + 'a"

fun rbind :: "'a result \<Rightarrow> ('a \<Rightarrow> 'b result) \<Rightarrow> 'b result" where
  "rbind (Inl e) f = Inl e"
| "rbind (Inr a) f = f a"

fun raises :: "'a result \<Rightarrow> bool" where
  "raises (Inl e) = True"
| "raises (Inr a) = False"

lemma rbind_Inr_iff: "rbind r f = Inr b \<longleftrightarrow> (\<exists>a. r = Inr a \<and> f a = Inr b)"
  by (cases r) auto

lemma rbind_Inl_iff: "rbind r f = Inl e \<longleftrightarrow> r = Inl e \<or> (\<exists>a. r = Inr a \<and> f a = Inl e)"
  by (cases r) auto

lemma raises_iff: "raises r \<longleftrightarrow> (\<exists>e. r = Inl e)"
  by (cases r) auto

section \<open>Dictionaries in insertion order\<close>

type_synonym ('k, 'v) dict = "('k \<times> 'v) list"

abbreviation dget :: "('k, 'v) dict \<Rightarrow> 'k \<Rightarrow> 'v option" where
  "dget m k \<equiv> map_of m k"

abbreviation dset :: "'k \<Rightarrow> 'v \<Rightarrow> ('k, 'v) dict \<Rightarrow> ('k, 'v) dict" where
  "dset k v m \<equiv> AList.update k v m"

abbreviation ddel :: "'k \<Rightarrow> ('k, 'v) dict \<Rightarrow> ('k, 'v) dict" where
  "ddel k m \<equiv> AList.delete k m"

definition wf_dict :: "('k, 'v) dict \<Rightarrow> bool" where
  "wf_dict m \<longleftrightarrow> distinct (map fst m)"

lemma wf_dict_Nil [simp]: "wf_dict []"
  by (simp add: wf_dict_def)

lemma wf_dict_dset [wf_intros]: "wf_dict m \<Longrightarrow> wf_dict (dset k v m)"
  by (simp add: wf_dict_def distinct_update)

lemma wf_dict_ddel [wf_intros]: "wf_dict m \<Longrightarrow> wf_dict (ddel k m)"
  by (simp add: wf_dict_def distinct_delete)

lemma wf_dict_filter [wf_intros]: "wf_dict m \<Longrightarrow> wf_dict (filter P m)"
  by (simp add: wf_dict_def distinct_map_filter)

lemma dget_dset [dict_simps]: "dget (dset k v m) j = (if j = k then Some v else dget m j)"
  by (simp add: update_conv')

lemma dget_ddel [dict_simps]: "dget (ddel k m) j = (if j = k then None else dget m j)"
  by (simp add: delete_conv')

lemma ddel_filter: "ddel k m = filter (\<lambda>p. fst p \<noteq> k) m"
  by (induction m) auto

lemma set_dset:
  "wf_dict m \<Longrightarrow> set (dset k v m) = insert (k, v) {p \<in> set m. fst p \<noteq> k}"
  by (induction m) (force simp: wf_dict_def)+

lemma dget_Some_in: "dget m k = Some v \<Longrightarrow> (k, v) \<in> set m"
  by (rule map_of_SomeD)

lemma in_dget_Some: "wf_dict m \<Longrightarrow> (k, v) \<in> set m \<Longrightarrow> dget m k = Some v"
  by (simp add: wf_dict_def)

lemma dset_append_new: "dget m k = None \<Longrightarrow> dset k v m = m @ [(k, v)]"
  by (induction m) (auto split: if_splits)

lemma keys_dset: "fst ` set (dset k v m) = insert k (fst ` set m)"
  by (simp add: dom_update)

lemma dget_filter_key:
  "dget (filter (\<lambda>p. P (fst p)) m) k = (if P k then dget m k else None)"
  by (induction m) auto

section \<open>Decimal digits, as f-strings print them\<close>

definition digit_char :: "nat \<Rightarrow> char" where
  "digit_char d = ''0123456789'' ! d"

fun nat_str :: "nat \<Rightarrow> string" where
  "nat_str n = (if n < 10 then [digit_char n] else nat_str (n div 10) @ [digit_char (n mod 10)])"

declare nat_str.simps [simp del]

definition int_str :: "int \<Rightarrow> string" where
  "int_str i = (if i < 0 then ''-'' @ nat_str (nat (- i)) else nat_str (nat i))"

definition digit_val :: "char \<Rightarrow> nat" where
  "digit_val c = of_char c - 48"

definition is_digit :: "char \<Rightarrow> bool" where
  "is_digit c \<longleftrightarrow> 48 \<le> (of_char c :: nat) \<and> (of_char c :: nat) \<le> 57"

definition str_nat :: "string \<Rightarrow> nat" where
  "str_nat s = foldl (\<lambda>a c. a * 10 + digit_val c) 0 s"

lemma digit_char_simps [simp]:
  "digit_char 0 = CHR ''0''" "digit_char (Suc 0) = CHR ''1''" "digit_char 1 = CHR ''1''"
  "digit_char 2 = CHR ''2''" "digit_char 3 = CHR ''3''" "digit_char 4 = CHR ''4''"
  "digit_char 5 = CHR ''5''" "digit_char 6 = CHR ''6''" "digit_char 7 = CHR ''7''"
  "digit_char 8 = CHR ''8''" "digit_char 9 = CHR ''9''"
  by (simp_all add: digit_char_def)

lemma less_10_cases:
  "(d :: nat) < 10 \<Longrightarrow> d = 0 \<or> d = 1 \<or> d = 2 \<or> d = 3 \<or> d = 4 \<or> d = 5 \<or> d = 6 \<or> d = 7 \<or> d = 8 \<or> d = 9"
  by arith

lemma of_char_digit_char: "d < 10 \<Longrightarrow> of_char (digit_char d) = (48 + d :: nat)"
  by (drule less_10_cases, elim disjE) simp_all

lemma digit_val_char [simp]: "d < 10 \<Longrightarrow> digit_val (digit_char d) = d"
  by (simp add: digit_val_def of_char_digit_char)

lemma is_digit_char [simp]: "d < 10 \<Longrightarrow> is_digit (digit_char d)"
  by (simp add: is_digit_def of_char_digit_char)

lemma str_nat_snoc [simp]: "str_nat (s @ [c]) = str_nat s * 10 + digit_val c"
  by (simp add: str_nat_def)

lemma str_nat_single: "str_nat [c] = digit_val c"
  by (simp add: str_nat_def)

lemma str_nat_nat_str [simp]: "str_nat (nat_str n) = n"
proof (induction n rule: nat_str.induct)
  case (1 n)
  then show ?case
    by (cases "n < 10") (simp_all add: nat_str.simps [of n] str_nat_single)
qed

lemma nat_str_inj [simp]: "nat_str m = nat_str n \<longleftrightarrow> m = n"
  by (metis str_nat_nat_str)

lemma nat_str_digits: "c \<in> set (nat_str n) \<Longrightarrow> is_digit c"
proof (induction n rule: nat_str.induct)
  case (1 n)
  then show ?case
    by (cases "n < 10") (auto simp: nat_str.simps [of n])
qed

lemma nat_str_nonempty [simp]: "nat_str n \<noteq> []"
  by (simp add: nat_str.simps [of n])

lemma length_filter_neq:
  "distinct ks \<Longrightarrow> k \<in> set ks \<Longrightarrow> Suc (length (filter (\<lambda>j. j \<noteq> k) ks)) = length ks"
proof (induction ks)
  case (Cons a ks)
  show ?case
  proof (cases "a = k")
    case True
    with Cons.prems have "filter (\<lambda>j. j \<noteq> k) ks = ks" by (intro filter_True) auto
    with True show ?thesis by simp
  qed (use Cons in auto)
qed simp

lemma distinct_singleton_list: "distinct xs \<Longrightarrow> set xs = {a} \<Longrightarrow> xs = [a]"
  by (cases xs) (auto simp: subset_singleton_iff dest: subset_singletonD)

lemma not_in_imageI: "\<forall>x\<in>A. f x \<noteq> y \<Longrightarrow> y \<notin> f ` A"
  by auto

section \<open>Slices\<close>

text \<open>\<open>xs[:k]\<close>, where a negative \<open>k\<close> counts from the end.\<close>

definition py_take :: "int \<Rightarrow> 'a list \<Rightarrow> 'a list" where
  "py_take k xs = (if 0 \<le> k then take (nat k) xs else take (length xs - nat (- k)) xs)"

lemma set_py_take: "set (py_take k xs) \<subseteq> set xs"
  by (auto simp: py_take_def dest: in_set_takeD)

lemma py_take_le: "0 \<le> k \<Longrightarrow> length (py_take k xs) \<le> nat k"
  by (simp add: py_take_def)

lemma sorted_py_take: "sorted_wrt P xs \<Longrightarrow> sorted_wrt P (py_take k xs)"
  by (simp add: py_take_def sorted_wrt_take)

section \<open>Counters\<close>

text \<open>\<open>d[k] = d.get(k, 0) + n\<close>.\<close>

definition dinc :: "'k \<Rightarrow> 'n \<Rightarrow> ('k, 'n :: monoid_add) dict \<Rightarrow> ('k, 'n) dict" where
  "dinc k n d = dset k ((case dget d k of None \<Rightarrow> 0 | Some m \<Rightarrow> m) + n) d"

definition dcount :: "('k, 'n :: zero) dict \<Rightarrow> 'k \<Rightarrow> 'n" where
  "dcount d k = (case dget d k of None \<Rightarrow> 0 | Some m \<Rightarrow> m)"

definition dtotal :: "('k, 'n :: monoid_add) dict \<Rightarrow> 'n" where
  "dtotal d = sum_list (map snd d)"

lemma dcount_dinc [dict_simps]: "dcount (dinc k n d) j = (if j = k then dcount d j + n else dcount d j)"
  by (simp add: dcount_def dinc_def dget_dset)

lemma dtotal_dinc [simp]: "dtotal (dinc k n d) = dtotal d + (n :: 'n :: comm_monoid_add)"
proof (induction d)
  case (Cons p d)
  then show ?case
    by (cases p) (auto simp: dtotal_def dinc_def ac_simps)
qed (simp add: dtotal_def dinc_def)

lemma wf_dinc [wf_intros]: "wf_dict d \<Longrightarrow> wf_dict (dinc k n d)"
  by (simp add: dinc_def wf_dict_dset)

lemma dtotal_Nil [simp]: "dtotal [] = 0"
  by (simp add: dtotal_def)

lemma dcount_Nil [simp]: "dcount [] k = 0"
  by (simp add: dcount_def)

text \<open>A loop whose body may raise.\<close>

fun rfold :: "('a \<Rightarrow> 's \<Rightarrow> 's result) \<Rightarrow> 'a list \<Rightarrow> 's \<Rightarrow> 's result" where
  "rfold f [] s = Inr s"
| "rfold f (x # xs) s = rbind (f x s) (rfold f xs)"

fun rmap :: "('a \<Rightarrow> 'b result) \<Rightarrow> 'a list \<Rightarrow> 'b list result" where
  "rmap f [] = Inr []"
| "rmap f (x # xs) = rbind (f x) (\<lambda>y. rbind (rmap f xs) (\<lambda>ys. Inr (y # ys)))"

lemma rfold_inv:
  assumes "rfold f xs s = Inr s'" and "P s"
    and "\<And>x s s'. x \<in> set xs \<Longrightarrow> P s \<Longrightarrow> f x s = Inr s' \<Longrightarrow> P s'"
  shows "P s'"
  using assms
proof (induction xs arbitrary: s)
  case (Cons x xs)
  from Cons.prems(1) obtain s1 where "f x s = Inr s1" "rfold f xs s1 = Inr s'"
    by (auto simp: rbind_Inr_iff)
  with Cons show ?case by (meson list.set_intros(1) list.set_intros(2))
qed simp

lemma find_SomeD: "find P xs = Some x \<Longrightarrow> x \<in> set xs \<and> P x"
  by (induction xs) (auto split: if_splits)

end
