(* ===== verification/PyVal.thy ===== *)
theory PyVal
  imports Prelude
begin

text \<open>
  Dynamically typed Python values: what the code keeps in \<open>metadata\<close> dictionaries and JSON bodies.
  A float carries its value and the text \<open>repr\<close> prints for it, so that no binary64 printing
  algorithm is needed; the operations are the truth test, \<open>str\<close> and \<open>dict.get\<close>.
\<close>

datatype pyval =
    PNone
  | PBool bool
  | PInt int
  | PFloat rat string
  | PStr string
  | PList "pyval list"
  | PDict "(string \<times> pyval) list"

type_synonym pydict = "(string, pyval) dict"

fun py_truthy :: "pyval \<Rightarrow> bool" where
  "py_truthy PNone = False"
| "py_truthy (PBool b) = b"
| "py_truthy (PInt i) = (i \<noteq> 0)"
| "py_truthy (PFloat r s) = (r \<noteq> 0)"
| "py_truthy (PStr s) = (s \<noteq> [])"
| "py_truthy (PList vs) = (vs \<noteq> [])"
| "py_truthy (PDict kvs) = (kvs \<noteq> [])"

section \<open>str and repr\<close>

fun str_join :: "string \<Rightarrow> string list \<Rightarrow> string" where
  "str_join sep [] = []"
| "str_join sep [x] = x"
| "str_join sep (x # y # xs) = x @ sep @ str_join sep (y # xs)"

definition hex_digit :: "nat \<Rightarrow> char" where
  "hex_digit d = (if d < 10 then char_of (48 + d) else char_of (87 + d))"

definition repr_char :: "char \<Rightarrow> char \<Rightarrow> string" where
  "repr_char q c =
     (let n = (of_char c :: nat) in
      if c = q \<or> n = 92 then [CHR 0x5C, c]
      else if n = 10 then [CHR 0x5C, CHR ''n'']
      else if n = 13 then [CHR 0x5C, CHR ''r'']
      else if n = 9 then [CHR 0x5C, CHR ''t'']
      else if n < 32 \<or> n = 127 then [CHR 0x5C, CHR ''x'', hex_digit (n div 16), hex_digit (n mod 16)]
      else [c])"

definition repr_str :: "string \<Rightarrow> string" where
  "repr_str s =
     (let q = (if CHR 0x27 \<in> set s \<and> CHR 0x22 \<notin> set s then CHR 0x22 else CHR 0x27)
      in [q] @ concat (map (repr_char q) s) @ [q])"

fun py_repr :: "pyval \<Rightarrow> string" where
  "py_repr PNone = ''None''"
| "py_repr (PBool b) = (if b then ''True'' else ''False'')"
| "py_repr (PInt i) = int_str i"
| "py_repr (PFloat r s) = s"
| "py_repr (PStr s) = repr_str s"
| "py_repr (PList vs) = ''['' @ str_join '', '' (map py_repr vs) @ '']''"
| "py_repr (PDict kvs) =
     ''{'' @ str_join '', '' (map (\<lambda>(k, v). repr_str k @ '': '' @ py_repr v) kvs) @ ''}''"

fun py_str :: "pyval \<Rightarrow> string" where
  "py_str (PStr s) = s"
| "py_str v = py_repr v"

section \<open>Reading dictionaries\<close>

text \<open>\<open>m.get(k)\<close>: the value, or \<open>None\<close> when the key is missing.\<close>

definition py_get :: "pydict \<Rightarrow> string \<Rightarrow> pyval" where
  "py_get m k = (case dget m k of None \<Rightarrow> PNone | Some v \<Rightarrow> v)"

text \<open>\<open>str(m.get(k) or "")\<close>.\<close>

definition py_get_str :: "pydict \<Rightarrow> string \<Rightarrow> string" where
  "py_get_str m k = (if py_truthy (py_get m k) then py_str (py_get m k) else [])"

text \<open>\<open>d.update(e)\<close> and \<open>{**d, **e}\<close>: the entries of the second one by one.\<close>

definition py_update :: "('k, 'v) dict \<Rightarrow> ('k, 'v) dict \<Rightarrow> ('k, 'v) dict" where
  "py_update m e = fold (\<lambda>(k, v). dset k v) e m"

lemma py_get_dset [dict_simps]: "py_get (dset k v m) j = (if j = k then v else py_get m j)"
  by (simp add: py_get_def dict_simps)

lemma py_update_Nil [simp]: "py_update m [] = m"
  by (simp add: py_update_def)

lemma py_update_Cons [simp]: "py_update m ((k, v) # e) = py_update (dset k v m) e"
  by (simp add: py_update_def)

lemma wf_py_update [wf_intros]: "wf_dict m \<Longrightarrow> wf_dict (py_update m e)"
  by (induction e arbitrary: m) (auto simp: wf_dict_dset)

lemma dget_py_update [dict_simps]:
  "wf_dict e \<Longrightarrow> dget (py_update m e) k = (case dget e k of None \<Rightarrow> dget m k | Some v \<Rightarrow> Some v)"
proof (induction e arbitrary: m)
  case Nil
  then show ?case by simp
next
  case (Cons p e)
  obtain j v where p: "p = (j, v)" by (cases p)
  from Cons.prems p have wf: "wf_dict e" and new: "dget e j = None"
    by (auto simp: wf_dict_def map_of_eq_None_iff)
  show ?case
    using Cons.IH [OF wf, of "dset j v m"] new p
    by (auto simp: dget_dset split: option.splits)
qed

end
