(* ===== verification/Domain.thy ===== *)
theory Domain
  imports PyVal
begin

text \<open>
  The entities of \<open>src/raku_rag/domain/models.py\<close> that the modelled services pass around. Every
  record keeps the field order of the dataclass; field names carry a short prefix of the class,
  because record fields share one name space in HOL.
\<close>

section \<open>Enumerations\<close>

datatype modality = TEXT | VISUAL

datatype scope_type = TENANT | COLLECTION | DOCUMENT

datatype subject_type = USER | GROUP | ROLE

datatype job_status = QUEUED | RUNNING | SUCCEEDED | FAILED | DEAD_LETTER

fun job_status_value :: "job_status \<Rightarrow> string" where
  "job_status_value QUEUED = ''queued''"
| "job_status_value RUNNING = ''running''"
| "job_status_value SUCCEEDED = ''succeeded''"
| "job_status_value FAILED = ''failed''"
| "job_status_value DEAD_LETTER = ''dead_letter''"

lemma job_status_value_inj: "job_status_value a = job_status_value b \<longleftrightarrow> a = b"
  by (cases a; cases b) simp_all

section \<open>Identity and permissions\<close>

record identity_claims =
  id_tenant_id :: string
  id_user_id :: string
  id_groups :: "string list"
  id_roles :: "string list"

record acl_grant =
  g_tenant_id :: string
  g_scope_type :: scope_type
  g_scope_id :: string
  g_subject_type :: subject_type
  g_subject_id :: string
  g_permission :: string

section \<open>Documents and chunks\<close>

record document =
  d_tenant_id :: string
  d_collection_id :: string
  d_document_id :: string
  d_source_id :: string
  d_version :: int
  d_checksum :: string
  d_metadata :: pydict
  d_created_at :: string
  d_updated_at :: string
  d_indexed_at :: string
  d_tombstone :: bool

record chunk =
  c_tenant_id :: string
  c_chunk_id :: string
  c_document_id :: string
  c_collection_id :: string
  c_text :: string
  c_position :: int
  c_token_count :: int
  c_heading_path :: "string list"
  c_modality :: modality
  c_embedding_model_version :: string
  c_offset_mapping :: "((int \<times> int) \<times> int) option"
  c_metadata :: pydict
  c_tombstone :: bool

record scored_chunk =
  sc_chunk :: chunk
  sc_retrieval_score :: rat

section \<open>Citations\<close>

record bounding_box =
  bb_x :: rat
  bb_y :: rat
  bb_width :: rat
  bb_height :: rat

record citation =
  ci_kind :: string
  ci_document_id :: string
  ci_source_id :: string
  ci_version :: int
  ci_retrieval_score :: rat
  ci_chunk_id :: "string option"
  ci_text_range :: "(int \<times> int) option"
  ci_asset_id :: string
  ci_page_number :: int
  ci_region_id :: string
  ci_bbox :: "bounding_box option"
  ci_crop_uri :: string
  ci_sheet_name :: string
  ci_cell_range :: string
  ci_row_id :: string
  ci_table_id :: string
  ci_form_id :: string
  ci_field_name :: string
  ci_chart_id :: string
  ci_series_name :: string
  ci_point_index :: int
  ci_column_name :: string
  ci_pixel_derived :: bool
  ci_visual_evidence_verified :: bool
  ci_visual_verifier_verdicts :: "pydict list"
  ci_metadata :: pydict

text \<open>\<open>Citation(kind, document_id, source_id, version, retrieval_score)\<close> with every default.\<close>

definition new_citation :: "string \<Rightarrow> string \<Rightarrow> string \<Rightarrow> int \<Rightarrow> rat \<Rightarrow> citation" where
  "new_citation kind document_id source_id version score =
     \<lparr>ci_kind = kind, ci_document_id = document_id, ci_source_id = source_id, ci_version = version,
      ci_retrieval_score = score, ci_chunk_id = None, ci_text_range = None, ci_asset_id = [],
      ci_page_number = 0, ci_region_id = [], ci_bbox = None, ci_crop_uri = [], ci_sheet_name = [],
      ci_cell_range = [], ci_row_id = [], ci_table_id = [], ci_form_id = [], ci_field_name = [],
      ci_chart_id = [], ci_series_name = [], ci_point_index = -1, ci_column_name = [],
      ci_pixel_derived = False, ci_visual_evidence_verified = False, ci_visual_verifier_verdicts = [],
      ci_metadata = []\<rparr>"

end
