(* ===== verification/Acl.thy ===== *)
theory Acl
  imports Domain
begin

text \<open>
  Access control: \<open>core/security/acl.py\<close> (the deny-by-default policy), \<open>core/tenancy.py\<close> (the
  tenant boundary) and \<open>manufacturing/domain/acl_mapping.py\<close> (the translation of manufacturing
  scopes into grants). A policy is its list of grants; \<open>add\<close> returns the new list.
\<close>

section \<open>The policy\<close>

record acl_policy =
  p_grants :: "acl_grant list"

definition add :: "acl_policy \<Rightarrow> acl_grant \<Rightarrow> acl_policy" where
  "add pol g = pol\<lparr>p_grants := p_grants pol @ [g]\<rparr>"

definition subjects_of :: "identity_claims \<Rightarrow> (subject_type \<times> string) set" where
  "subjects_of p =
     {(USER, id_user_id p)} \<union> set (map (Pair GROUP) (id_groups p)) \<union> set (map (Pair ROLE) (id_roles p))"

text \<open>The loop of \<open>can_read\<close>: the first grant that covers the read ends it.\<close>

fun can_read_loop ::
  "(subject_type \<times> string) set \<Rightarrow> string \<Rightarrow> string \<Rightarrow> string \<Rightarrow> acl_grant list \<Rightarrow> bool" where
  "can_read_loop subjects tenant_id collection_id document_id [] = False"
| "can_read_loop subjects tenant_id collection_id document_id (g # gs) =
     (if g_tenant_id g \<noteq> tenant_id \<or> g_permission g \<noteq> ''read'' then
        can_read_loop subjects tenant_id collection_id document_id gs
      else if (g_subject_type g, g_subject_id g) \<notin> subjects then
        can_read_loop subjects tenant_id collection_id document_id gs
      else if g_scope_type g = TENANT \<and> g_scope_id g = tenant_id then True
      else if g_scope_type g = COLLECTION \<and> g_scope_id g = collection_id then True
      else if g_scope_type g = DOCUMENT \<and> g_scope_id g = document_id then True
      else can_read_loop subjects tenant_id collection_id document_id gs)"

definition can_read ::
  "acl_policy \<Rightarrow> identity_claims \<Rightarrow> string \<Rightarrow> string \<Rightarrow> string \<Rightarrow> bool" where
  "can_read pol p tenant_id collection_id document_id =
     (if id_tenant_id p \<noteq> tenant_id then False
      else can_read_loop (subjects_of p) tenant_id collection_id document_id (p_grants pol))"

definition visibility :: "acl_policy \<Rightarrow> identity_claims \<Rightarrow> chunk \<Rightarrow> bool" where
  "visibility pol p c = can_read pol p (c_tenant_id c) (c_collection_id c) (c_document_id c)"

definition assert_visible :: "acl_policy \<Rightarrow> identity_claims \<Rightarrow> chunk \<Rightarrow> unit result" where
  "assert_visible pol p c = (if \<not> visibility pol p c then Inl AclDenied else Inr ())"

definition can_read_document :: "acl_policy \<Rightarrow> identity_claims \<Rightarrow> document \<Rightarrow> bool" where
  "can_read_document pol p d = can_read pol p (d_tenant_id d) (d_collection_id d) (d_document_id d)"

section \<open>The specification of a decision\<close>

text \<open>What a grant covers, stated without the loop.\<close>

definition grant_covers ::
  "(subject_type \<times> string) set \<Rightarrow> string \<Rightarrow> string \<Rightarrow> string \<Rightarrow> acl_grant \<Rightarrow> bool" where
  "grant_covers S t c d g \<longleftrightarrow>
     g_tenant_id g = t \<and> g_permission g = ''read'' \<and>
     (g_subject_type g, g_subject_id g) \<in> S \<and>
     (case g_scope_type g of
        TENANT \<Rightarrow> g_scope_id g = t
      | COLLECTION \<Rightarrow> g_scope_id g = c
      | DOCUMENT \<Rightarrow> g_scope_id g = d)"

lemma can_read_loop_Cons:
  "can_read_loop S t c d (g # gs) \<longleftrightarrow> grant_covers S t c d g \<or> can_read_loop S t c d gs"
  by (cases "g_scope_type g") (auto simp: grant_covers_def)

lemma can_read_loop_iff:
  "can_read_loop S t c d gs \<longleftrightarrow> (\<exists>g\<in>set gs. grant_covers S t c d g)"
  by (induction gs) (simp_all only: can_read_loop_Cons can_read_loop.simps(1), simp_all)

lemma can_read_iff:
  "can_read pol p t c d \<longleftrightarrow>
     id_tenant_id p = t \<and> (\<exists>g\<in>set (p_grants pol). grant_covers (subjects_of p) t c d g)"
  by (simp add: can_read_def can_read_loop_iff)

lemma can_read_tenant: "can_read pol p t c d \<Longrightarrow> id_tenant_id p = t"
  by (simp add: can_read_iff)

lemma visibility_tenant: "visibility pol p ch \<Longrightarrow> c_tenant_id ch = id_tenant_id p"
  by (simp add: visibility_def can_read_iff)

lemma can_read_add:
  "can_read (add pol g) p t c d \<longleftrightarrow>
     can_read pol p t c d \<or> (id_tenant_id p = t \<and> grant_covers (subjects_of p) t c d g)"
  by (auto simp: can_read_iff add_def)

end
