(* ===== verification/AuditLog.thy ===== *)
theory AuditLog
  imports Domain
begin

text \<open>
  The tamper-evident audit log: \<open>manufacturing/domain/audit.py\<close> with the value objects of
  \<open>manufacturing/domain/safety.py\<close>. The writer keeps one hash chain per tenant; its state is the
  dictionary \<open>_by_tenant\<close>. The digest function (\<open>hashlib.sha256(...).hexdigest()\<close>) and the injected
  \<open>Redactor\<close> are arguments, so every theorem holds for any digest and any redactor.
\<close>

section \<open>Safety value objects\<close>

datatype classification_source = SrcMETADATA | SrcRULE | SrcKEYWORD | SrcLLM

fun classification_source_value :: "classification_source \<Rightarrow> string" where
  "classification_source_value SrcMETADATA = ''metadata''"
| "classification_source_value SrcRULE = ''rule''"
| "classification_source_value SrcKEYWORD = ''keyword''"
| "classification_source_value SrcLLM = ''llm''"

datatype safety_block_reason =
  APPROVED_CITATION_MISSING | INSUFFICIENT_EVIDENCE | OTHER_BLOCK

fun block_reason_value :: "safety_block_reason \<Rightarrow> string" where
  "block_reason_value APPROVED_CITATION_MISSING = ''approved_citation_missing''"
| "block_reason_value INSUFFICIENT_EVIDENCE = ''insufficient_evidence''"
| "block_reason_value OTHER_BLOCK = ''other_block''"

record high_risk_classification =
  hr_is_high_risk :: bool
  hr_reason_codes :: "string list"
  hr_classification_source :: "classification_source option"

record safety_decision =
  sd_blocked :: bool
  sd_safety_block_reason :: "safety_block_reason option"
  sd_obsolete_warning :: bool
  sd_requires_onsite_confirmation :: bool
  sd_approval_status_at_use :: "string option"

section \<open>Entries\<close>

record audit_log_entry =
  al_tenant_id :: string
  al_log_id :: string
  al_timestamp :: string
  al_request_id :: "string option"
  al_trace_id :: "string option"
  al_actor_id :: "string option"
  al_actor_role :: "string option"
  al_actor_group :: "string option"
  al_app_id :: "string option"
  al_api_client_id :: "string option"
  al_source_ip :: "string option"
  al_client_metadata :: pydict
  al_factory_id :: "string option"
  al_department_id :: "string option"
  al_collection_id :: "string option"
  al_action :: string
  al_resource_type :: "string option"
  al_resource_id :: "string option"
  al_decision :: "string option"
  al_reason :: "string option"
  al_policy_version :: "string option"
  al_high_risk_classification_result :: "bool option"
  al_safety_block_reason :: "safety_block_reason option"
  al_approval_status_at_use :: "string option"
  al_citation_ids :: "string list"
  al_document_ids_used :: "string list"
  al_prev_hash :: "string option"
  al_entry_hash :: "string option"

text \<open>\<open>AuditLogEntry(tenant_id=..., log_id=..., timestamp=...)\<close> with every default.\<close>

definition audit_entry :: "string \<Rightarrow> string \<Rightarrow> string \<Rightarrow> audit_log_entry" where
  "audit_entry tenant_id log_id timestamp =
     \<lparr>al_tenant_id = tenant_id, al_log_id = log_id, al_timestamp = timestamp,
      al_request_id = None, al_trace_id = None, al_actor_id = None, al_actor_role = None,
      al_actor_group = None, al_app_id = None, al_api_client_id = None, al_source_ip = None,
      al_client_metadata = [], al_factory_id = None, al_department_id = None,
      al_collection_id = None, al_action = [], al_resource_type = None, al_resource_id = None,
      al_decision = None, al_reason = None, al_policy_version = None,
      al_high_risk_classification_result = None, al_safety_block_reason = None,
      al_approval_status_at_use = None, al_citation_ids = [], al_document_ids_used = [],
      al_prev_hash = None, al_entry_hash = None\<rparr>"

lemma audit_entry_reference [simp]:
  "al_tenant_id (audit_entry t l ts) = t" "al_log_id (audit_entry t l ts) = l"
  "al_timestamp (audit_entry t l ts) = ts"
  by (simp_all add: audit_entry_def)

section \<open>Organisational context\<close>

definition actor_org_context ::
  "identity_claims \<Rightarrow> string option \<Rightarrow> string option \<times> string option" where
  "actor_org_context p factory_id =
     (factory_id,
      case id_groups p of
        g # _ \<Rightarrow> Some g
      | [] \<Rightarrow> (case id_roles p of r # _ \<Rightarrow> Some r | [] \<Rightarrow> None))"

text \<open>\<open>entry.actor_id or principal.user_id\<close>: an empty actor id counts as unset.\<close>

definition stamp_org_context ::
  "audit_log_entry \<Rightarrow> identity_claims \<Rightarrow> string option \<Rightarrow> audit_log_entry" where
  "stamp_org_context e p factory_id =
     (let (fac, dept) = actor_org_context p factory_id in
      e\<lparr>al_actor_id :=
           (case al_actor_id e of
              Some (c # cs) \<Rightarrow> Some (c # cs)
            | _ \<Rightarrow> Some (id_user_id p)),
        al_factory_id := (case al_factory_id e of Some f \<Rightarrow> Some f | None \<Rightarrow> fac),
        al_department_id := (case al_department_id e of Some d \<Rightarrow> Some d | None \<Rightarrow> dept)\<rparr>)"

section \<open>The canonical rendering that is hashed\<close>

fun canonical :: "pyval \<Rightarrow> string" where
  "canonical PNone = [CHR 0x00]"
| "canonical (PBool b) = ''B:'' @ (if b then ''1'' else ''0'')"
| "canonical (PList vs) = ''L:['' @ str_join '','' (map canonical vs) @ '']''"
| "canonical (PDict kvs) =
     ''D:{'' @ str_join '',''
        (map (\<lambda>(k, v). k @ ''='' @ v) (sort (map (\<lambda>(k, v). (k, canonical v)) kvs))) @ ''}''"
| "canonical (PStr s) = ''S:'' @ s"
| "canonical (PInt i) = ''S:'' @ int_str i"
| "canonical (PFloat r s) = ''S:'' @ s"

definition canonical_opt :: "string option \<Rightarrow> string" where
  "canonical_opt v = (case v of None \<Rightarrow> canonical PNone | Some s \<Rightarrow> canonical (PStr s))"

definition canonical_strs :: "string list \<Rightarrow> string" where
  "canonical_strs xs = canonical (PList (map PStr xs))"

definition canonical_enum :: "safety_block_reason option \<Rightarrow> string" where
  "canonical_enum v = (case v of None \<Rightarrow> canonical PNone | Some r \<Rightarrow> ''E:'' @ block_reason_value r)"

definition canonical_bool :: "bool option \<Rightarrow> string" where
  "canonical_bool v = (case v of None \<Rightarrow> canonical PNone | Some b \<Rightarrow> canonical (PBool b))"

text \<open>\<open>fields(entry)\<close> without \<open>entry_hash\<close>, each with its canonical text.\<close>

definition entry_fields :: "audit_log_entry \<Rightarrow> (string \<times> string) list" where
  "entry_fields e =
     [(''tenant_id'', canonical (PStr (al_tenant_id e))),
      (''log_id'', canonical (PStr (al_log_id e))),
      (''timestamp'', canonical (PStr (al_timestamp e))),
      (''request_id'', canonical_opt (al_request_id e)),
      (''trace_id'', canonical_opt (al_trace_id e)),
      (''actor_id'', canonical_opt (al_actor_id e)),
      (''actor_role'', canonical_opt (al_actor_role e)),
      (''actor_group'', canonical_opt (al_actor_group e)),
      (''app_id'', canonical_opt (al_app_id e)),
      (''api_client_id'', canonical_opt (al_api_client_id e)),
      (''source_ip'', canonical_opt (al_source_ip e)),
      (''client_metadata'', canonical (PDict (al_client_metadata e))),
      (''factory_id'', canonical_opt (al_factory_id e)),
      (''department_id'', canonical_opt (al_department_id e)),
      (''collection_id'', canonical_opt (al_collection_id e)),
      (''action'', canonical (PStr (al_action e))),
      (''resource_type'', canonical_opt (al_resource_type e)),
      (''resource_id'', canonical_opt (al_resource_id e)),
      (''decision'', canonical_opt (al_decision e)),
      (''reason'', canonical_opt (al_reason e)),
      (''policy_version'', canonical_opt (al_policy_version e)),
      (''high_risk_classification_result'', canonical_bool (al_high_risk_classification_result e)),
      (''safety_block_reason'', canonical_enum (al_safety_block_reason e)),
      (''approval_status_at_use'', canonical_opt (al_approval_status_at_use e)),
      (''citation_ids'', canonical_strs (al_citation_ids e)),
      (''document_ids_used'', canonical_strs (al_document_ids_used e)),
      (''prev_hash'', canonical_opt (al_prev_hash e))]"

definition field_text :: "string \<times> string \<Rightarrow> string" where
  "field_text f = fst f @ [CHR 0x1F] @ snd f @ [CHR 0x1E]"

definition entry_preimage :: "audit_log_entry \<Rightarrow> string" where
  "entry_preimage e = concat (map field_text (entry_fields e))"

definition compute_entry_hash :: "(string \<Rightarrow> string) \<Rightarrow> audit_log_entry \<Rightarrow> string" where
  "compute_entry_hash sha e = sha (entry_preimage e)"

section \<open>Redaction\<close>

fun redact_metadata_value :: "(string \<Rightarrow> string) \<Rightarrow> pyval \<Rightarrow> pyval" where
  "redact_metadata_value red (PStr s) = PStr (red s)"
| "redact_metadata_value red (PDict kvs) =
     PDict (map (\<lambda>(k, v). (k, redact_metadata_value red v)) kvs)"
| "redact_metadata_value red (PList vs) = PList (map (redact_metadata_value red) vs)"
| "redact_metadata_value red v = v"

definition sanitize_audit_log_entry ::
  "(string \<Rightarrow> string) \<Rightarrow> audit_log_entry \<Rightarrow> audit_log_entry" where
  "sanitize_audit_log_entry red e =
     e\<lparr>al_client_metadata := map (\<lambda>(k, v). (k, redact_metadata_value red v)) (al_client_metadata e),
       al_action := red (al_action e),
       al_reason := map_option red (al_reason e),
       al_decision := map_option red (al_decision e),
       al_source_ip := map_option red (al_source_ip e),
       al_actor_role := map_option red (al_actor_role e),
       al_actor_group := map_option red (al_actor_group e)\<rparr>"

section \<open>The writer\<close>

type_synonym audit_store = "(string, audit_log_entry list) dict"

definition stored_chain :: "audit_store \<Rightarrow> string \<Rightarrow> audit_log_entry list" where
  "stored_chain st t = (case dget st t of None \<Rightarrow> [] | Some es \<Rightarrow> es)"

definition last_hash :: "audit_log_entry list \<Rightarrow> string option" where
  "last_hash es = (if es = [] then None else al_entry_hash (last es))"

text \<open>Linking a redacted entry after the entries already stored.\<close>

definition link_entry ::
  "(string \<Rightarrow> string) \<Rightarrow> audit_log_entry list \<Rightarrow> audit_log_entry \<Rightarrow> audit_log_entry" where
  "link_entry sha es e =
     (let safe = e\<lparr>al_prev_hash := last_hash es\<rparr>
      in safe\<lparr>al_entry_hash := Some (compute_entry_hash sha safe)\<rparr>)"

definition audit_record ::
  "(string \<Rightarrow> string) \<Rightarrow> (string \<Rightarrow> string) \<Rightarrow> audit_log_entry \<Rightarrow> audit_store \<Rightarrow> audit_store result" where
  "audit_record sha red e st =
     (if al_tenant_id e = [] then Inl TenantIsolationError
      else
        let safe = sanitize_audit_log_entry red e;
            es = stored_chain st (al_tenant_id safe)
        in Inr (dset (al_tenant_id safe) (es @ [link_entry sha es safe]) st))"

definition read_all :: "audit_store \<Rightarrow> identity_claims \<Rightarrow> audit_log_entry list" where
  "read_all st p = stored_chain st (id_tenant_id p)"

definition read_for_tenant ::
  "audit_store \<Rightarrow> identity_claims \<Rightarrow> string \<Rightarrow> audit_log_entry list result" where
  "read_for_tenant st p tenant_id =
     (if id_tenant_id p \<noteq> tenant_id then Inl TenantIsolationError
      else Inr (stored_chain st tenant_id))"

text \<open>The loop of \<open>verify_chain\<close>, from the expected previous hash.\<close>

fun verify_from ::
  "(string \<Rightarrow> string) \<Rightarrow> string option \<Rightarrow> audit_log_entry list \<Rightarrow> bool" where
  "verify_from sha prev [] = True"
| "verify_from sha prev (e # es) =
     (if al_prev_hash e \<noteq> prev then False
      else if al_entry_hash e \<noteq> Some (compute_entry_hash sha e) then False
      else verify_from sha (al_entry_hash e) es)"

definition verify_chain :: "(string \<Rightarrow> string) \<Rightarrow> audit_store \<Rightarrow> identity_claims \<Rightarrow> bool" where
  "verify_chain sha st p = verify_from sha None (stored_chain st (id_tenant_id p))"

section \<open>Chains verify\<close>

lemma preimage_entry_hash [simp]: "entry_preimage (e\<lparr>al_entry_hash := h\<rparr>) = entry_preimage e"
  by (simp add: entry_preimage_def entry_fields_def)

lemma link_entry_fields [frame_simps]:
  "al_tenant_id (link_entry sha es e) = al_tenant_id e"
  "al_prev_hash (link_entry sha es e) = last_hash es"
  "al_entry_hash (link_entry sha es e) = Some (compute_entry_hash sha (link_entry sha es e))"
  by (simp_all add: link_entry_def Let_def compute_entry_hash_def)

lemma verify_from_append:
  "verify_from sha prev (xs @ ys) \<longleftrightarrow>
     verify_from sha prev xs \<and> verify_from sha (if xs = [] then prev else last_hash xs) ys"
  by (induction xs arbitrary: prev) (auto simp: last_hash_def)

lemma verify_from_snoc:
  "verify_from sha None (xs @ [x]) \<longleftrightarrow>
     verify_from sha None xs \<and> al_prev_hash x = last_hash xs \<and>
     al_entry_hash x = Some (compute_entry_hash sha x)"
  by (auto simp: verify_from_append last_hash_def)

lemma verify_from_link:
  "verify_from sha None es \<Longrightarrow> verify_from sha None (es @ [link_entry sha es e])"
  by (simp add: verify_from_snoc frame_simps)

definition chains_ok :: "(string \<Rightarrow> string) \<Rightarrow> audit_store \<Rightarrow> bool" where
  "chains_ok sha st \<longleftrightarrow>
     (\<forall>t. verify_from sha None (stored_chain st t) \<and>
          (\<forall>e\<in>set (stored_chain st t). al_tenant_id e = t))"

lemma stored_chain_dset [dict_simps]:
  "stored_chain (dset t es st) u = (if u = t then es else stored_chain st u)"
  by (simp add: stored_chain_def dict_simps)

lemma sanitize_reference_fields [frame_simps]:
  "al_tenant_id (sanitize_audit_log_entry red e) = al_tenant_id e"
  by (simp add: sanitize_audit_log_entry_def)

lemma audit_record_Inr:
  "audit_record sha red e st = Inr st' \<longleftrightarrow>
     al_tenant_id e \<noteq> [] \<and>
     st' = dset (al_tenant_id e)
             (stored_chain st (al_tenant_id e) @
                [link_entry sha (stored_chain st (al_tenant_id e)) (sanitize_audit_log_entry red e)]) st"
  by (auto simp: audit_record_def Let_def frame_simps)

lemma chains_ok_record [wf_intros]:
  "chains_ok sha st \<Longrightarrow> audit_record sha red e st = Inr st' \<Longrightarrow> chains_ok sha st'"
  by (auto simp: chains_ok_def audit_record_Inr dict_simps frame_simps verify_from_link)

text \<open>The states a writer reaches from its constructor.\<close>

inductive audit_reachable ::
  "(string \<Rightarrow> string) \<Rightarrow> (string \<Rightarrow> string) \<Rightarrow> audit_store \<Rightarrow> bool" for sha red where
  audit_init: "audit_reachable sha red []"
| audit_step: "audit_reachable sha red st \<Longrightarrow> audit_record sha red e st = Inr st' \<Longrightarrow>
     audit_reachable sha red st'"

lemma reachable_chains_ok: "audit_reachable sha red st \<Longrightarrow> chains_ok sha st"
  by (induction rule: audit_reachable.induct)
    (auto simp: chains_ok_def [of _ "[]"] stored_chain_def intro: chains_ok_record)

section \<open>The last hash pins the whole history\<close>

definition digest_ok :: "(string \<Rightarrow> string) \<Rightarrow> bool" where
  "digest_ok sha \<longleftrightarrow> (\<forall>s. length (sha s) = 64)"

lemma concat_map_last:
  "xs \<noteq> [] \<Longrightarrow> concat (map f xs) = concat (map f (butlast xs)) @ f (last xs)"
  by (cases xs rule: rev_cases) simp_all

lemma preimage_prev_hash:
  "\<exists>p. entry_preimage e = p @ canonical_opt (al_prev_hash e) @ [CHR 0x1E]"
proof -
  have ne: "entry_fields e \<noteq> []"
    and last: "last (entry_fields e) = (''prev_hash'', canonical_opt (al_prev_hash e))"
    by (simp_all add: entry_fields_def)
  show ?thesis
    unfolding entry_preimage_def concat_map_last [OF ne] last field_text_def
    by simp
qed

lemma preimage_pins_prev:
  assumes "entry_preimage x = entry_preimage y"
    and "al_prev_hash x = Some h" and "al_prev_hash y = Some k" and "length h = length k"
  shows "h = k"
  using preimage_prev_hash [of x] preimage_prev_hash [of y] assms
  by (auto simp: canonical_opt_def simp flip: append_assoc)

lemma verified_last_hash:
  "verify_from sha None es \<Longrightarrow> es \<noteq> [] \<Longrightarrow> last_hash es = Some (sha (entry_preimage (last es)))"
  by (cases es rule: rev_cases) (auto simp: verify_from_snoc last_hash_def compute_entry_hash_def)

lemma chain_pinned_by_last_hash:
  assumes "digest_ok sha" and "length xs = length ys"
    and "verify_from sha None xs" and "verify_from sha None ys"
    and "inj_on sha (entry_preimage ` (set xs \<union> set ys))"
    and "last_hash xs = last_hash ys"
  shows "map entry_preimage xs = map entry_preimage ys"
  using assms
proof (induction xs arbitrary: ys rule: rev_induct)
  case Nil
  then show ?case by simp
next
  case (snoc x xs)
  then obtain ys' y where ys: "ys = ys' @ [y]" and len: "length xs = length ys'"
    by (cases ys rule: rev_cases) auto
  have vx: "verify_from sha None xs" "al_prev_hash x = last_hash xs"
    and vy: "verify_from sha None ys'" "al_prev_hash y = last_hash ys'"
    using snoc.prems ys by (auto simp: verify_from_snoc)
  have "sha (entry_preimage x) = sha (entry_preimage y)"
    using snoc.prems(3,4,6) ys by (auto simp: verify_from_snoc last_hash_def compute_entry_hash_def)
  then have eq: "entry_preimage x = entry_preimage y"
    by (rule inj_onD [OF snoc.prems(5)]) (simp_all add: ys)
  have "last_hash xs = last_hash ys'"
  proof (cases "xs = []")
    case True
    with len show ?thesis by (simp add: last_hash_def)
  next
    case False
    with len have "ys' \<noteq> []" by auto
    with False vx vy obtain h k where "last_hash xs = Some h" "last_hash ys' = Some k"
      "length h = 64" "length k = 64"
      using snoc.prems(1) by (auto simp: verified_last_hash digest_ok_def)
    with preimage_pins_prev [OF eq] vx(2) vy(2) show ?thesis by simp
  qed
  moreover have "inj_on sha (entry_preimage ` (set xs \<union> set ys'))"
    using snoc.prems(5) ys by (auto intro: inj_on_subset)
  ultimately have "map entry_preimage xs = map entry_preimage ys'"
    using snoc.IH [OF snoc.prems(1) len vx(1) vy(1)] by blast
  with eq ys show ?case by simp
qed

section \<open>Where the canonical rendering is ambiguous\<close>

lemma str_join_merge:
  "str_join sep (xs @ x # y # ys) = str_join sep (xs @ (x @ sep @ y) # ys)"
proof (induction xs)
  case Nil
  then show ?case by (cases ys) auto
next
  case (Cons a xs)
  then show ?case by (cases xs) auto
qed

lemma canonical_strs_merge:
  "canonical_strs (xs @ x # y # ys) = canonical_strs (xs @ (x @ '',S:'' @ y) # ys)"
  using str_join_merge [of "'',''" "map (canonical \<circ> PStr) xs" "canonical (PStr x)" "canonical (PStr y)"
      "map (canonical \<circ> PStr) ys"]
  by (simp add: canonical_strs_def comp_def)

lemma citation_merge_same_preimage:
  "entry_preimage (e\<lparr>al_citation_ids := xs @ x # y # ys\<rparr>) =
   entry_preimage (e\<lparr>al_citation_ids := xs @ (x @ '',S:'' @ y) # ys\<rparr>)"
  by (simp add: entry_preimage_def entry_fields_def canonical_strs_merge)

section \<open>The contract of an audit writer\<close>

text \<open>What every writer keeps verbatim: the reference fields (never the free text).\<close>

definition same_reference :: "audit_log_entry \<Rightarrow> audit_log_entry \<Rightarrow> bool" where
  "same_reference a b \<longleftrightarrow>
     al_tenant_id a = al_tenant_id b \<and> al_log_id a = al_log_id b \<and>
     al_timestamp a = al_timestamp b \<and> al_actor_id a = al_actor_id b \<and>
     al_factory_id a = al_factory_id b \<and> al_department_id a = al_department_id b \<and>
     al_collection_id a = al_collection_id b \<and> al_resource_type a = al_resource_type b \<and>
     al_resource_id a = al_resource_id b \<and>
     al_high_risk_classification_result a = al_high_risk_classification_result b \<and>
     al_safety_block_reason a = al_safety_block_reason b \<and>
     al_approval_status_at_use a = al_approval_status_at_use b \<and>
     al_citation_ids a = al_citation_ids b \<and> al_document_ids_used a = al_document_ids_used b"

locale audit_log_writer =
  fixes record_entry :: "audit_log_entry \<Rightarrow> 'w \<Rightarrow> 'w result"
    and entries_of :: "'w \<Rightarrow> string \<Rightarrow> audit_log_entry list"
  assumes untenanted: "al_tenant_id e = [] \<Longrightarrow> record_entry e w = Inl TenantIsolationError"
    and recorded: "al_tenant_id e \<noteq> [] \<Longrightarrow> \<exists>w' e'. record_entry e w = Inr w' \<and> same_reference e e' \<and>
      (\<forall>t. entries_of w' t = (if t = al_tenant_id e then entries_of w t @ [e'] else entries_of w t))"
begin

lemma record_total: "al_tenant_id e \<noteq> [] \<Longrightarrow> \<exists>w'. record_entry e w = Inr w'"
  using recorded by blast

lemma record_fails_iff: "record_entry e w = Inl x \<longleftrightarrow> al_tenant_id e = [] \<and> x = TenantIsolationError"
  using untenanted recorded by (metis Inl_Inr_False sum.inject(1))

lemma record_appends:
  assumes "record_entry e w = Inr w'"
  shows "\<exists>e'. same_reference e e' \<and> entries_of w' (al_tenant_id e) = entries_of w (al_tenant_id e) @ [e']"
  using assms recorded [of e w] untenanted [of e w] by (cases "al_tenant_id e = []") auto

lemma record_isolates:
  assumes "record_entry e w = Inr w'" and "t \<noteq> al_tenant_id e"
  shows "entries_of w' t = entries_of w t"
  using assms recorded [of e w] untenanted [of e w] by (cases "al_tenant_id e = []") auto

text \<open>A counter over reference fields grows exactly by the recorded entry.\<close>

lemma record_counts:
  assumes "record_entry e w = Inr w'" and "\<And>a b. same_reference a b \<Longrightarrow> P a \<longleftrightarrow> P b"
  shows "length (filter P (entries_of w' t)) =
    length (filter P (entries_of w t)) + (if t = al_tenant_id e \<and> P e then 1 else 0)"
  using record_appends [OF assms(1)] record_isolates [OF assms(1), of t] assms(2)
  by (cases "t = al_tenant_id e") auto

end

lemma link_same_reference: "same_reference e (link_entry sha es (sanitize_audit_log_entry red e))"
  by (simp add: same_reference_def link_entry_def Let_def sanitize_audit_log_entry_def)

interpretation memlog: audit_log_writer "audit_record sha red" stored_chain
proof
  fix e :: audit_log_entry and w
  assume "al_tenant_id e = []"
  then show "audit_record sha red e w = Inl TenantIsolationError" by (simp add: audit_record_def)
next
  fix e :: audit_log_entry and w
  assume "al_tenant_id e \<noteq> []"
  then show "\<exists>w' e'. audit_record sha red e w = Inr w' \<and> same_reference e e' \<and>
      (\<forall>t. stored_chain w' t = (if t = al_tenant_id e then stored_chain w t @ [e'] else stored_chain w t))"
    using link_same_reference [of e sha "stored_chain w (al_tenant_id e)" red]
    by (subst ex_comm, intro exI [of _ "link_entry sha (stored_chain w (al_tenant_id e)) (sanitize_audit_log_entry red e)"])
      (simp add: audit_record_Inr stored_chain_dset)
qed

section \<open>Properties\<close>

text \<open>Whatever sequence of entries is recorded, each tenant's log is an intact hash chain that
  \<open>verify_chain\<close> accepts, and it holds entries of that tenant only.\<close>

theorem audit_chain_reachable_verifies:
  assumes "audit_reachable sha red st"
  shows "verify_chain sha st p \<and> (\<forall>e\<in>set (read_all st p). al_tenant_id e = id_tenant_id p)"
  using reachable_chains_ok [OF assms] by (simp add: verify_chain_def read_all_def chains_ok_def)

theorem audit_chain_reachable_verifies_witness:
  "\<exists>st. audit_record rev (\<lambda>s. s) (audit_entry ''t1'' ''log1'' ''ts'') [] = Inr st \<and>
     verify_chain rev st \<lparr>id_tenant_id = ''t1'', id_user_id = ''u'', id_groups = [], id_roles = []\<rparr>"
proof -
  have "\<exists>st. audit_record rev (\<lambda>s. s) (audit_entry ''t1'' ''log1'' ''ts'') [] = Inr st"
    by (rule memlog.record_total) simp
  then obtain st where st: "audit_record rev (\<lambda>s. s) (audit_entry ''t1'' ''log1'' ''ts'') [] = Inr st"
    by blast
  with audit_chain_reachable_verifies [OF audit_step [OF audit_init st]] show ?thesis by blast
qed



text \<open>The canonical rendering joins list elements with an unescaped comma, so replacing two
  adjacent citation ids by one id with \<open>,S:\<close> inside leaves the hash as it was: a chain with that
  change verifies exactly when the original does, for every digest function.\<close>

theorem citation_merge_undetected:
  "verify_from sha prev (es @ e\<lparr>al_citation_ids := xs @ x # y # ys\<rparr> # fs) \<longleftrightarrow>
   verify_from sha prev (es @ e\<lparr>al_citation_ids := xs @ (x @ '',S:'' @ y) # ys\<rparr> # fs)"
  using citation_merge_same_preimage [where e = e and xs = xs and x = x and y = y and ys = ys]
  by (simp add: verify_from_append compute_entry_hash_def)

end
