(* ===== verification/AclMapping.thy ===== *)
theory AclMapping
  imports Acl AuditLog
begin

text \<open>
  The tenant boundary (\<open>core/tenancy.py\<close>) and the translation of manufacturing scopes into grants of
  the core policy, with the audited read (\<open>manufacturing/domain/acl_mapping.py\<close>).
\<close>

section \<open>Tenancy\<close>

definition enforce_same_tenant :: "identity_claims \<Rightarrow> string \<Rightarrow> unit result" where
  "enforce_same_tenant p resource_tenant_id =
     (if id_tenant_id p \<noteq> resource_tenant_id then Inl TenantIsolationError else Inr ())"

definition collection_belongs_to :: "identity_claims \<Rightarrow> string \<Rightarrow> bool" where
  "collection_belongs_to p collection_tenant_id \<longleftrightarrow> id_tenant_id p = collection_tenant_id"

section \<open>Scopes and their grants\<close>

record factory =
  fa_tenant_id :: string
  fa_factory_id :: string
  fa_name :: string

record mfg_process =
  pr_tenant_id :: string
  pr_process_id :: string
  pr_factory_id :: string
  pr_process_name :: string
  pr_line_id :: "string option"

record equipment =
  eq_tenant_id :: string
  eq_equipment_id :: string
  eq_factory_id :: string
  eq_equipment_name :: string
  eq_model_no :: "string option"
  eq_line_id :: "string option"
  eq_process_id :: "string option"

record manufacturing_scope =
  ms_tenant_id :: string
  ms_subject_type :: subject_type
  ms_department :: "string option"
  ms_roles :: "string list"
  ms_factory_ids :: "string list"
  ms_equipment_areas :: "string list"

text \<open>The unions \<open>Factory | str\<close> and \<open>Process | Equipment | str\<close> of the signatures.\<close>

datatype factory_ref = FactoryEntity factory | FactoryId string

datatype area_ref = AreaProcess mfg_process | AreaEquipment equipment | AreaId string

definition factory_collection_id :: "string \<Rightarrow> string" where
  "factory_collection_id factory_id = ''factory:'' @ factory_id"

definition department_subject :: "string \<Rightarrow> bool \<Rightarrow> subject_type \<times> string" where
  "department_subject department as_role = (if as_role then ROLE else GROUP, department)"

fun factory_scope :: "factory_ref \<Rightarrow> scope_type \<times> string" where
  "factory_scope (FactoryEntity f) = (COLLECTION, factory_collection_id (fa_factory_id f))"
| "factory_scope (FactoryId i) = (COLLECTION, factory_collection_id i)"

fun equipment_area_scope :: "area_ref \<Rightarrow> scope_type \<times> string" where
  "equipment_area_scope (AreaProcess p) = (DOCUMENT, pr_process_id p)"
| "equipment_area_scope (AreaEquipment e) = (DOCUMENT, eq_equipment_id e)"
| "equipment_area_scope (AreaId i) = (DOCUMENT, i)"

definition scope_subjects :: "manufacturing_scope \<Rightarrow> (subject_type \<times> string) list" where
  "scope_subjects s =
     (case ms_department s of Some d \<Rightarrow> [(ms_subject_type s, d)] | None \<Rightarrow> []) @
     map (\<lambda>r. (ROLE, r)) (ms_roles s)"

definition scope_targets :: "manufacturing_scope \<Rightarrow> (scope_type \<times> string) list" where
  "scope_targets s =
     (let targets = map (\<lambda>fid. factory_scope (FactoryId fid)) (ms_factory_ids s) @
                    map (\<lambda>a. equipment_area_scope (AreaId a)) (ms_equipment_areas s)
      in if targets = [] then [(TENANT, ms_tenant_id s)] else targets)"

definition grants_for_scope :: "manufacturing_scope \<Rightarrow> acl_grant list" where
  "grants_for_scope s =
     (if scope_subjects s = [] then []
      else concat (map (\<lambda>(subject_type, subject_id).
             map (\<lambda>(scope_type, scope_id).
                    \<lparr>g_tenant_id = ms_tenant_id s, g_scope_type = scope_type, g_scope_id = scope_id,
                     g_subject_type = subject_type, g_subject_id = subject_id,
                     g_permission = ''read''\<rparr>)
                 (scope_targets s))
             (scope_subjects s)))"

definition acl_policy_for_scopes :: "manufacturing_scope list \<Rightarrow> acl_policy" where
  "acl_policy_for_scopes scopes = \<lparr>p_grants = concat (map grants_for_scope scopes)\<rparr>"

definition visibility_filter :: "manufacturing_scope list \<Rightarrow> identity_claims \<Rightarrow> chunk \<Rightarrow> bool" where
  "visibility_filter scopes p = visibility (acl_policy_for_scopes scopes) p"

definition can_read_chunk ::
  "manufacturing_scope list \<Rightarrow> identity_claims \<Rightarrow> chunk \<Rightarrow> bool result" where
  "can_read_chunk scopes p c =
     (case enforce_same_tenant p (c_tenant_id c) of
        Inl e \<Rightarrow> Inl e
      | Inr _ \<Rightarrow> Inr (visibility_filter scopes p c))"

definition apply_scope :: "acl_policy \<Rightarrow> manufacturing_scope \<Rightarrow> acl_policy \<times> acl_grant list" where
  "apply_scope pol s = (foldl add pol (grants_for_scope s), grants_for_scope s)"

section \<open>Audited reads\<close>

definition record_denial ::
  "(string \<Rightarrow> string) \<Rightarrow> (string \<Rightarrow> string) \<Rightarrow> audit_store option \<Rightarrow> identity_claims \<Rightarrow> chunk \<Rightarrow>
     string \<Rightarrow> string \<Rightarrow> audit_store option result" where
  "record_denial sha red audit p c reason ts =
     (case audit of
        None \<Rightarrow> Inr None
      | Some st \<Rightarrow>
          (let (factory_id, department_id) = actor_org_context p None;
               e = (audit_entry (id_tenant_id p) (''acl.denied:'' @ c_document_id c @ '':'' @ ts) ts)
                     \<lparr>al_actor_id := Some (id_user_id p),
                      al_factory_id := factory_id,
                      al_department_id := department_id,
                      al_action := ''acl.denied'',
                      al_resource_type := Some ''document'',
                      al_resource_id := Some (c_document_id c),
                      al_decision := Some ''denied'',
                      al_reason := Some reason\<rparr>
           in case audit_record sha red e st of Inl x \<Rightarrow> Inl x | Inr st' \<Rightarrow> Inr (Some st')))"

text \<open>The audited read returns the log as it is left, also when it raises.\<close>

definition audited_read ::
  "(string \<Rightarrow> string) \<Rightarrow> (string \<Rightarrow> string) \<Rightarrow> manufacturing_scope list \<Rightarrow> identity_claims \<Rightarrow> chunk \<Rightarrow>
     audit_store option \<Rightarrow> string \<Rightarrow> audit_store option \<times> bool result" where
  "audited_read sha red scopes p c audit ts =
     (case enforce_same_tenant p (c_tenant_id c) of
        Inl TenantIsolationError \<Rightarrow>
          (case record_denial sha red audit p c ''tenant_isolation_denied'' ts of
             Inl x \<Rightarrow> (audit, Inl x)
           | Inr audit' \<Rightarrow> (audit', Inl TenantIsolationError))
      | Inl x \<Rightarrow> (audit, Inl x)
      | Inr _ \<Rightarrow>
          (if \<not> visibility_filter scopes p c then
             (case record_denial sha red audit p c ''acl_denied'' ts of
                Inl x \<Rightarrow> (audit, Inl x)
              | Inr audit' \<Rightarrow> (audit', Inr False))
           else (audit, Inr True)))"

section \<open>Lemmas\<close>

text \<open>A scope covers a read when one of its subjects is the principal's and one of its targets is hit.\<close>

definition target_covers :: "string \<Rightarrow> string \<Rightarrow> string \<Rightarrow> scope_type \<times> string \<Rightarrow> bool" where
  "target_covers t c d g \<longleftrightarrow>
     (case fst g of TENANT \<Rightarrow> snd g = t | COLLECTION \<Rightarrow> snd g = c | DOCUMENT \<Rightarrow> snd g = d)"

definition scope_allows :: "identity_claims \<Rightarrow> string \<Rightarrow> string \<Rightarrow> string \<Rightarrow> manufacturing_scope \<Rightarrow> bool" where
  "scope_allows p t c d s \<longleftrightarrow>
     ms_tenant_id s = t \<and>
     (\<exists>x\<in>set (scope_subjects s). x \<in> subjects_of p) \<and>
     (\<exists>g\<in>set (scope_targets s). target_covers t c d g)"

lemma grant_covers_record:
  "grant_covers S t c d \<lparr>g_tenant_id = u, g_scope_type = st, g_scope_id = sid, g_subject_type = bt,
      g_subject_id = bid, g_permission = ''read''\<rparr> \<longleftrightarrow>
     u = t \<and> (bt, bid) \<in> S \<and> target_covers t c d (st, sid)"
  by (cases st) (simp_all add: grant_covers_def target_covers_def)

lemma grants_for_scope_covers:
  "(\<exists>g\<in>set (grants_for_scope s). grant_covers S t c d g) \<longleftrightarrow>
     ms_tenant_id s = t \<and> (\<exists>x\<in>set (scope_subjects s). x \<in> S) \<and>
     (\<exists>g\<in>set (scope_targets s). target_covers t c d g)"
proof -
  have "(\<exists>g\<in>set (grants_for_scope s). grant_covers S t c d g) \<longleftrightarrow>
      (\<exists>x\<in>set (scope_subjects s). \<exists>y\<in>set (scope_targets s).
         grant_covers S t c d \<lparr>g_tenant_id = ms_tenant_id s, g_scope_type = fst y, g_scope_id = snd y,
           g_subject_type = fst x, g_subject_id = snd x, g_permission = ''read''\<rparr>)"
    by (auto simp: grants_for_scope_def split_beta)
  then show ?thesis unfolding grant_covers_record by force
qed

lemma can_read_scopes_iff:
  "can_read (acl_policy_for_scopes scopes) p t c d \<longleftrightarrow>
     id_tenant_id p = t \<and> (\<exists>s\<in>set scopes. scope_allows p t c d s)"
proof -
  have "(\<exists>g\<in>set (p_grants (acl_policy_for_scopes scopes)). grant_covers (subjects_of p) t c d g) \<longleftrightarrow>
      (\<exists>s\<in>set scopes. \<exists>g\<in>set (grants_for_scope s). grant_covers (subjects_of p) t c d g)"
    by (auto simp: acl_policy_for_scopes_def)
  then show ?thesis
    by (simp add: can_read_iff grants_for_scope_covers scope_allows_def)
qed

lemma scope_targets_cover:
  "(\<exists>g\<in>set (scope_targets s). target_covers t c d g) \<longleftrightarrow>
     (if ms_factory_ids s = [] \<and> ms_equipment_areas s = [] then ms_tenant_id s = t
      else (\<exists>f\<in>set (ms_factory_ids s). c = factory_collection_id f) \<or> d \<in> set (ms_equipment_areas s))"
  by (simp add: scope_targets_def Let_def bex_Un target_covers_def)
    (auto simp: eq_commute [of c] eq_commute [of d])

lemma foldl_add: "p_grants (foldl add pol gs) = p_grants pol @ gs"
  by (induction gs arbitrary: pol) (simp_all add: add_def)

lemma enforce_iff: "enforce_same_tenant p t = Inr u \<longleftrightarrow> id_tenant_id p = t"
  by (simp add: enforce_same_tenant_def)

lemma record_denial_effect:
  assumes "id_tenant_id p \<noteq> []"
  shows "\<exists>st' e. record_denial sha red (Some st) p c reason ts = Inr (Some st') \<and>
     read_all st' p = read_all st p @ [e] \<and> al_resource_id e = Some (c_document_id c) \<and>
     al_actor_id e = Some (id_user_id p)"
proof -
  obtain f d where fd: "actor_org_context p None = (f, d)" by (cases "actor_org_context p None")
  define e where "e = (audit_entry (id_tenant_id p) (''acl.denied:'' @ c_document_id c @ '':'' @ ts) ts)
                     \<lparr>al_actor_id := Some (id_user_id p), al_factory_id := f, al_department_id := d,
                      al_action := ''acl.denied'', al_resource_type := Some ''document'',
                      al_resource_id := Some (c_document_id c), al_decision := Some ''denied'',
                      al_reason := Some reason\<rparr>"
  have ten: "al_tenant_id e = id_tenant_id p" by (simp add: e_def)
  with assms obtain st' where st': "audit_record sha red e st = Inr st'"
    using memlog.record_total by metis
  then obtain e' where e': "same_reference e e'" "stored_chain st' (id_tenant_id p) = stored_chain st (id_tenant_id p) @ [e']"
    using memlog.record_appends [OF st'] ten by auto
  have "record_denial sha red (Some st) p c reason ts = Inr (Some st')"
    using st' by (simp add: record_denial_def fd e_def Let_def)
  with e' show ?thesis
    by (auto simp: read_all_def same_reference_def e_def)
qed

section \<open>Properties\<close>


text \<open>Wiring a scope into a live policy only ever adds the reads of that scope: every earlier read
  stays allowed, and a read that becomes allowed is one the scope covers for the principal's tenant.\<close>

theorem apply_scope_extends:
  "can_read (fst (apply_scope pol s)) p t c d \<longleftrightarrow>
     can_read pol p t c d \<or> (id_tenant_id p = t \<and> scope_allows p t c d s)"
  by (auto simp: apply_scope_def can_read_iff foldl_add grants_for_scope_covers scope_allows_def bex_Un)

text \<open>An audited read gives the same decision as the plain one and raises exactly across tenants;
  a denied read, and a raised one, leave exactly one more entry in the principal's own log, which names
  the document and the actor, while an allowed read leaves the log alone.\<close>

theorem audited_read_decides_and_journals:
  assumes "id_tenant_id p \<noteq> []"
    and "audited_read sha red scopes p c (Some st) ts = (Some st', r)"
  shows "r = can_read_chunk scopes p c \<and>
    (if r = Inr True then st' = st
     else \<exists>e. read_all st' p = read_all st p @ [e] \<and> al_resource_id e = Some (c_document_id c) \<and>
       al_actor_id e = Some (id_user_id p))"
proof -
  obtain s1 e1 where 1: "record_denial sha red (Some st) p c ''tenant_isolation_denied'' ts = Inr (Some s1)"
      "read_all s1 p = read_all st p @ [e1]" "al_resource_id e1 = Some (c_document_id c)"
      "al_actor_id e1 = Some (id_user_id p)"
    using record_denial_effect [OF assms(1)] by blast
  obtain s2 e2 where 2: "record_denial sha red (Some st) p c ''acl_denied'' ts = Inr (Some s2)"
      "read_all s2 p = read_all st p @ [e2]" "al_resource_id e2 = Some (c_document_id c)"
      "al_actor_id e2 = Some (id_user_id p)"
    using record_denial_effect [OF assms(1)] by blast
  show ?thesis
    using assms(2) 1 2
    by (cases "id_tenant_id p = c_tenant_id c"; cases "visibility_filter scopes p c")
      (auto simp: audited_read_def can_read_chunk_def enforce_same_tenant_def)
qed

theorem audited_read_decides_and_journals_witness:
  fixes p :: identity_claims and c :: chunk
  defines "p \<equiv> \<lparr>id_tenant_id = ''t1'', id_user_id = ''u'', id_groups = [''qa''], id_roles = []\<rparr>"
    and "c \<equiv> \<lparr>c_tenant_id = ''t1'', c_chunk_id = ''k'', c_document_id = ''d'', c_collection_id = ''c'',
      c_text = [], c_position = 0, c_token_count = 0, c_heading_path = [], c_modality = TEXT,
      c_embedding_model_version = [], c_offset_mapping = None, c_metadata = [], c_tombstone = False\<rparr>"
  shows "\<exists>st' e. audited_read rev (\<lambda>s. s) [] p c (Some []) ''ts'' = (Some st', Inr False) \<and>
    read_all st' p = [e] \<and> al_resource_id e = Some ''d''"
proof -
  have ne: "id_tenant_id p \<noteq> []" by (simp add: p_def)
  have vis: "\<not> visibility_filter [] p c"
    by (simp add: visibility_filter_def visibility_def can_read_scopes_iff)
  obtain st' where den: "record_denial rev (\<lambda>s. s) (Some []) p c ''acl_denied'' ''ts'' = Inr (Some st')"
    using record_denial_effect [OF ne] by blast
  have run: "audited_read rev (\<lambda>s. s) [] p c (Some []) ''ts'' = (Some st', Inr False)"
    using vis den by (simp add: audited_read_def enforce_same_tenant_def p_def c_def)
  from audited_read_decides_and_journals [OF ne run] run show ?thesis
    by (auto simp: read_all_def stored_chain_def c_def)
qed

end
