(* ===== verification/TaskQueue.thy ===== *)
theory TaskQueue
  imports PyVal
begin

text \<open>
  The in-memory message queue of \<open>providers/task_queue.py\<close>: receive with a receipt handle, then ack,
  fail (redeliver or dead-letter) or retry. A queued message sits in exactly one of the three
  containers, so the shared Python object is a value here.
\<close>

section \<open>State\<close>

record queue_envelope =
  qe_message_id :: string
  qe_receipt_handle :: string
  qe_body :: pydict
  qe_receive_count :: nat

record queued_message =
  qm_message_id :: string
  qm_body :: pydict
  qm_receive_count :: nat
  qm_last_error :: string

record message_queue =
  mq_max_receive_count :: int
  mq_seq :: nat
  mq_available :: "queued_message list"
  mq_inflight :: "(string, queued_message) dict"
  mq_dlq :: "queued_message list"

text \<open>The dataclass with its \<open>init=False\<close> fields; \<open>_seq\<close> is the next value of the counter.\<close>

definition new_queue :: "int \<Rightarrow> message_queue" where
  "new_queue max_receive_count =
     \<lparr>mq_max_receive_count = max_receive_count, mq_seq = 1, mq_available = [], mq_inflight = [],
      mq_dlq = []\<rparr>"

section \<open>Operations\<close>

text \<open>\<open>InlineTaskQueue.enqueue\<close> calls the function at once.\<close>

definition inline_enqueue :: "('a \<Rightarrow> 'b) \<Rightarrow> 'a \<Rightarrow> 'b" where
  "inline_enqueue fn args = fn args"

definition message_id_for :: "nat \<Rightarrow> string" where
  "message_id_for n = ''msg_'' @ nat_str n"

definition receipt_for :: "queued_message \<Rightarrow> string" where
  "receipt_for m = ''rh_'' @ qm_message_id m @ ''_'' @ nat_str (qm_receive_count m)"

definition enqueue_message :: "pydict \<Rightarrow> message_queue \<Rightarrow> message_queue \<times> string" where
  "enqueue_message body q =
     (let message_id = message_id_for (mq_seq q);
          m = \<lparr>qm_message_id = message_id, qm_body = body, qm_receive_count = 0, qm_last_error = []\<rparr>
      in (q\<lparr>mq_seq := Suc (mq_seq q), mq_available := mq_available q @ [m]\<rparr>, message_id))"

text \<open>One round of the loop of \<open>receive\<close>, on a queue with a first available message.\<close>

definition receive_one :: "queued_message \<Rightarrow> queued_message list \<Rightarrow> message_queue \<Rightarrow>
    message_queue \<times> queue_envelope" where
  "receive_one m rest q =
     (let queued = m\<lparr>qm_receive_count := Suc (qm_receive_count m)\<rparr>;
          receipt = receipt_for queued
      in (q\<lparr>mq_available := rest, mq_inflight := dset receipt queued (mq_inflight q)\<rparr>,
          \<lparr>qe_message_id = qm_message_id queued, qe_receipt_handle = receipt, qe_body = qm_body queued,
           qe_receive_count = qm_receive_count queued\<rparr>))"

fun receive_loop :: "nat \<Rightarrow> message_queue \<Rightarrow> message_queue \<times> queue_envelope list" where
  "receive_loop 0 q = (q, [])"
| "receive_loop (Suc n) q =
     (case mq_available q of
        [] \<Rightarrow> (q, [])
      | m # rest \<Rightarrow>
          (let (q1, env) = receive_one m rest q; (q2, envs) = receive_loop n q1
           in (q2, env # envs)))"

definition receive :: "int \<Rightarrow> message_queue \<Rightarrow> message_queue \<times> queue_envelope list" where
  "receive max_messages q = receive_loop (nat max_messages) q"

definition ack :: "queue_envelope \<Rightarrow> message_queue \<Rightarrow> message_queue" where
  "ack env q = q\<lparr>mq_inflight := ddel (qe_receipt_handle env) (mq_inflight q)\<rparr>"

definition fail :: "queue_envelope \<Rightarrow> string \<Rightarrow> message_queue \<Rightarrow> message_queue \<times> bool" where
  "fail env reason q =
     (case dget (mq_inflight q) (qe_receipt_handle env) of
        None \<Rightarrow> (q, False)
      | Some m \<Rightarrow>
          (let q' = q\<lparr>mq_inflight := ddel (qe_receipt_handle env) (mq_inflight q)\<rparr>;
               queued = m\<lparr>qm_last_error := reason\<rparr>
           in if int (qm_receive_count queued) \<ge> mq_max_receive_count q
              then (q'\<lparr>mq_dlq := mq_dlq q' @ [queued]\<rparr>, True)
              else (q'\<lparr>mq_available := mq_available q' @ [queued]\<rparr>, False)))"

definition retry_later :: "queue_envelope \<Rightarrow> string \<Rightarrow> message_queue \<Rightarrow> message_queue" where
  "retry_later env reason q =
     (case dget (mq_inflight q) (qe_receipt_handle env) of
        None \<Rightarrow> q
      | Some m \<Rightarrow>
          q\<lparr>mq_inflight := ddel (qe_receipt_handle env) (mq_inflight q),
            mq_available := mq_available q @ [m\<lparr>qm_last_error := reason\<rparr>]\<rparr>)"

definition available_count :: "message_queue \<Rightarrow> nat" where
  "available_count q = length (mq_available q)"

definition inflight_count :: "message_queue \<Rightarrow> nat" where
  "inflight_count q = length (mq_inflight q)"

definition dlq_count :: "message_queue \<Rightarrow> nat" where
  "dlq_count q = length (mq_dlq q)"

definition dlq_messages :: "message_queue \<Rightarrow> pydict list" where
  "dlq_messages q = map qm_body (mq_dlq q)"

section \<open>Where the messages are\<close>

definition all_messages :: "message_queue \<Rightarrow> queued_message list" where
  "all_messages q = mq_available q @ map snd (mq_inflight q) @ mq_dlq q"

definition owed :: "message_queue \<Rightarrow> string multiset" where
  "owed q = mset (map qm_message_id (all_messages q))"

definition receipts_ok :: "(string, queued_message) dict \<Rightarrow> bool" where
  "receipts_ok d \<longleftrightarrow> wf_dict d \<and> (\<forall>r m. dget d r = Some m \<longrightarrow> r = receipt_for m)"

text \<open>Identifiers are those handed out so far, each held once; dead letters used up their receives.\<close>

definition queue_ok :: "message_queue \<Rightarrow> bool" where
  "queue_ok q \<longleftrightarrow>
     0 < mq_seq q \<and> receipts_ok (mq_inflight q) \<and>
     (\<forall>i. count (owed q) i \<le> 1) \<and>
     set_mset (owed q) \<subseteq> message_id_for ` {0<..<mq_seq q} \<and>
     (\<forall>m\<in>set (mq_dlq q). mq_max_receive_count q \<le> int (qm_receive_count m))"

lemma message_id_for_inj [simp]: "message_id_for m = message_id_for n \<longleftrightarrow> m = n"
  by (simp add: message_id_for_def)

lemma owed_parts:
  "owed q = image_mset qm_message_id (mset (mq_available q)) +
     image_mset (qm_message_id \<circ> snd) (mset (mq_inflight q)) + image_mset qm_message_id (mset (mq_dlq q))"
  by (simp add: owed_def all_messages_def comp_def)

lemma mset_ddel:
  assumes "wf_dict d" and "dget d k = Some v"
  shows "mset d = add_mset (k, v) (mset (ddel k d))"
  using assms
proof (induction d)
  case Nil
  then show ?case by simp
next
  case (Cons p d)
  show ?case
  proof (cases "fst p = k")
    case True
    with Cons.prems have "k \<notin> fst ` set d" and p: "p = (k, v)"
      by (cases p; auto simp: wf_dict_def)+
    then have "ddel k d = d" by (simp add: delete_id)
    with p show ?thesis by simp
  next
    case False
    with Cons show ?thesis by (cases p) (auto simp: wf_dict_def)
  qed
qed

lemma receipts_ok_del [wf_intros]: "receipts_ok d \<Longrightarrow> receipts_ok (ddel k d)"
  by (auto simp: receipts_ok_def dict_simps intro: wf_intros)

lemma receipts_ok_set [wf_intros]: "receipts_ok d \<Longrightarrow> receipts_ok (dset (receipt_for m) m d)"
  by (auto simp: receipts_ok_def dict_simps intro: wf_intros)

lemma owed_ddel:
  assumes "receipts_ok (mq_inflight q)" and "dget (mq_inflight q) r = Some m"
  shows "owed q = add_mset (qm_message_id m) (owed (q\<lparr>mq_inflight := ddel r (mq_inflight q)\<rparr>))"
  using assms mset_ddel [of "mq_inflight q" r m] by (simp add: receipts_ok_def owed_parts)

section \<open>Receipts of different messages differ\<close>

lemma digits_split:
  assumes "\<forall>c\<in>set a. is_digit c" and "\<forall>c\<in>set b. is_digit c" and "\<not> is_digit x"
    and "a @ x # s = b @ x # t"
  shows "a = b \<and> s = t"
  using assms
proof (induction a arbitrary: b)
  case Nil
  then show ?case by (cases b) auto
next
  case (Cons c a)
  then show ?case by (cases b) auto
qed

lemma underscore_no_digit: "\<not> is_digit (CHR ''_'')"
  by (simp add: is_digit_def)

lemma receipt_for_id:
  assumes "qm_message_id m = message_id_for i" and "qm_message_id n = message_id_for j"
    and "receipt_for m = receipt_for n"
  shows "qm_message_id m = qm_message_id n"
proof -
  have "nat_str i @ CHR ''_'' # nat_str (qm_receive_count m) = nat_str j @ CHR ''_'' # nat_str (qm_receive_count n)"
    using assms by (simp add: receipt_for_def message_id_for_def)
  from digits_split [OF _ _ underscore_no_digit this] have "nat_str i = nat_str j"
    using nat_str_digits by blast
  with assms(1,2) show ?thesis by simp
qed

lemma receipt_new:
  assumes ok: "queue_ok q" and av: "mq_available q = m # rest"
  shows "dget (mq_inflight q) (receipt_for (m\<lparr>qm_receive_count := k\<rparr>)) = None"
proof (rule ccontr)
  assume "dget (mq_inflight q) (receipt_for (m\<lparr>qm_receive_count := k\<rparr>)) \<noteq> None"
  then obtain n where n: "dget (mq_inflight q) (receipt_for (m\<lparr>qm_receive_count := k\<rparr>)) = Some n"
    by blast
  from ok n have rec: "receipt_for (m\<lparr>qm_receive_count := k\<rparr>) = receipt_for n"
    by (simp add: queue_ok_def receipts_ok_def)
  have owed: "owed q = add_mset (qm_message_id n) (owed (q\<lparr>mq_inflight := ddel (receipt_for n) (mq_inflight q)\<rparr>))"
    using owed_ddel ok n rec by (metis queue_ok_def)
  have two: "qm_message_id m \<in># owed (q\<lparr>mq_inflight := ddel (receipt_for n) (mq_inflight q)\<rparr>)"
    using av by (simp add: owed_parts)
  then have "qm_message_id m \<in># owed q" "qm_message_id n \<in># owed q" using owed by simp_all
  with ok obtain i j where "qm_message_id m = message_id_for i" "qm_message_id n = message_id_for j"
    unfolding queue_ok_def by blast
  with rec have "qm_message_id m = qm_message_id n"
    using receipt_for_id [of "m\<lparr>qm_receive_count := k\<rparr>" i n j] by simp
  with two have "Suc 0 < count (owed q) (qm_message_id n)" using owed by simp
  with ok show False unfolding queue_ok_def by (metis One_nat_def not_le)
qed

section \<open>Every operation conserves the owed messages\<close>

lemma owed_enqueue:
  "owed (fst (enqueue_message body q)) = add_mset (snd (enqueue_message body q)) (owed q)"
  by (simp add: enqueue_message_def owed_parts Let_def)

lemma owed_receive_one:
  assumes "queue_ok q" and "mq_available q = m # rest"
  shows "owed (fst (receive_one m rest q)) = owed q"
  using receipt_new [OF assms, of "Suc (qm_receive_count m)"] assms(2)
  by (simp add: receive_one_def Let_def owed_parts dset_append_new)

lemma fail_cases:
  "fail env reason q =
     (case dget (mq_inflight q) (qe_receipt_handle env) of
        None \<Rightarrow> (q, False)
      | Some m \<Rightarrow>
          if mq_max_receive_count q \<le> int (qm_receive_count m)
          then (q\<lparr>mq_inflight := ddel (qe_receipt_handle env) (mq_inflight q),
                  mq_dlq := mq_dlq q @ [m\<lparr>qm_last_error := reason\<rparr>]\<rparr>, True)
          else (q\<lparr>mq_inflight := ddel (qe_receipt_handle env) (mq_inflight q),
                  mq_available := mq_available q @ [m\<lparr>qm_last_error := reason\<rparr>]\<rparr>, False))"
  by (simp add: fail_def Let_def split: option.splits)

lemma owed_fail:
  assumes "receipts_ok (mq_inflight q)"
  shows "owed (fst (fail env reason q)) = owed q"
  using owed_ddel [OF assms, of "qe_receipt_handle env"]
  by (simp add: fail_cases owed_parts split: option.splits)

lemma owed_retry_later:
  assumes "receipts_ok (mq_inflight q)"
  shows "owed (retry_later env reason q) = owed q"
  using owed_ddel [OF assms, of "qe_receipt_handle env"]
  by (simp add: retry_later_def owed_parts split: option.splits)

lemma owed_ack:
  assumes "receipts_ok (mq_inflight q)"
  shows "owed q = owed (ack env q) +
    (case dget (mq_inflight q) (qe_receipt_handle env) of None \<Rightarrow> {#} | Some m \<Rightarrow> {#qm_message_id m#})"
  using owed_ddel [OF assms, of "qe_receipt_handle env"]
  by (auto simp: ack_def delete_id dom_map_of_conv_image_fst [symmetric] domIff split: option.splits)

section \<open>The invariant\<close>

lemma queue_ok_new: "queue_ok (new_queue n)"
  by (simp add: queue_ok_def new_queue_def receipts_ok_def owed_parts)

lemma queue_ok_enqueue [wf_intros]:
  assumes "queue_ok q"
  shows "queue_ok (fst (enqueue_message body q))"
proof -
  have new: "message_id_for (mq_seq q) \<notin># owed q"
    using assms by (auto simp: queue_ok_def)
  have "count (owed (fst (enqueue_message body q))) i \<le> 1" for i
    using assms new by (auto simp: owed_enqueue queue_ok_def not_in_iff)
      (auto simp: enqueue_message_def Let_def)
  moreover have "set_mset (owed (fst (enqueue_message body q))) \<subseteq> message_id_for ` {0<..<Suc (mq_seq q)}"
    unfolding owed_enqueue using assms by (auto simp: queue_ok_def enqueue_message_def Let_def)
  ultimately show ?thesis
    using assms by (simp add: queue_ok_def) (simp add: enqueue_message_def Let_def)
qed

lemma queue_ok_same_owed:
  assumes "queue_ok q" and "owed q' \<subseteq># owed q" and "mq_seq q' = mq_seq q"
    and "mq_max_receive_count q' = mq_max_receive_count q" and "receipts_ok (mq_inflight q')"
    and "\<And>m. m \<in> set (mq_dlq q') \<Longrightarrow> m \<in> set (mq_dlq q) \<or> mq_max_receive_count q \<le> int (qm_receive_count m)"
  shows "queue_ok q'"
proof -
  have "count (owed q') i \<le> 1" for i
    using assms(1,2) mset_subset_eq_count [OF assms(2), of i] unfolding queue_ok_def
    by (meson order_trans)
  moreover have "set_mset (owed q') \<subseteq> message_id_for ` {0<..<mq_seq q'}"
    using assms(1,2,3) set_mset_mono [OF assms(2)] unfolding queue_ok_def by auto
  moreover have "\<forall>m\<in>set (mq_dlq q'). mq_max_receive_count q' \<le> int (qm_receive_count m)"
    using assms(1,4,6) unfolding queue_ok_def by metis
  ultimately show ?thesis using assms(1,3,5) unfolding queue_ok_def by simp
qed

lemma queue_ok_receive_one [wf_intros]:
  assumes "queue_ok q" and "mq_available q = m # rest"
  shows "queue_ok (fst (receive_one m rest q))"
  by (rule queue_ok_same_owed [OF assms(1)])
    (use assms owed_receive_one [OF assms] in \<open>auto simp: receive_one_def Let_def queue_ok_def intro: receipts_ok_set\<close>)

lemma receive_loop_ok:
  "queue_ok q \<Longrightarrow> queue_ok (fst (receive_loop n q)) \<and> owed (fst (receive_loop n q)) = owed q"
proof (induction n q rule: receive_loop.induct)
  case (2 n q)
  show ?case
  proof (cases "mq_available q")
    case (Cons m rest)
    obtain q1 env where r: "receive_one m rest q = (q1, env)" by (cases "receive_one m rest q")
    with queue_ok_receive_one [OF "2.prems" Cons] owed_receive_one [OF "2.prems" Cons]
    have "queue_ok q1" "owed q1 = owed q" by simp_all
    with "2.IH" [OF Cons r [symmetric]] r Cons show ?thesis by (simp add: split_beta)
  qed (use "2.prems" in simp)
qed simp

lemma queue_ok_receive [wf_intros]: "queue_ok q \<Longrightarrow> queue_ok (fst (receive n q))"
  by (simp add: receive_def receive_loop_ok)

lemma queue_ok_ack [wf_intros]:
  assumes "queue_ok q"
  shows "queue_ok (ack env q)"
proof (rule queue_ok_same_owed [OF assms])
  show "owed (ack env q) \<subseteq># owed q"
    using owed_ack [of q env] assms unfolding queue_ok_def by (metis mset_subset_eq_add_left)
qed (use assms in \<open>auto simp: ack_def queue_ok_def intro: receipts_ok_del\<close>)

lemma queue_ok_fail [wf_intros]:
  assumes "queue_ok q"
  shows "queue_ok (fst (fail env reason q))"
  by (rule queue_ok_same_owed [OF assms])
    (use assms owed_fail [of q env reason] in
      \<open>auto simp: queue_ok_def fail_cases split: option.splits if_splits intro: receipts_ok_del\<close>)

lemma queue_ok_retry_later [wf_intros]:
  assumes "queue_ok q"
  shows "queue_ok (retry_later env reason q)"
  by (rule queue_ok_same_owed [OF assms])
    (use assms owed_retry_later [of q env reason] in
      \<open>auto simp: queue_ok_def retry_later_def split: option.splits intro: receipts_ok_del\<close>)

section \<open>The contract of a queue\<close>

text \<open>
  What the worker relies on: a message that was enqueued stays owed (available, in flight or dead
  lettered) until it is acknowledged, whatever deliveries, failures and retries happen in between.
\<close>

datatype delivery = Deliver int | Fail queue_envelope string | Retry queue_envelope string

fun deliver :: "(int \<Rightarrow> 'q \<Rightarrow> 'q \<times> queue_envelope list) \<Rightarrow> (queue_envelope \<Rightarrow> string \<Rightarrow> 'q \<Rightarrow> 'q \<times> bool) \<Rightarrow>
    (queue_envelope \<Rightarrow> string \<Rightarrow> 'q \<Rightarrow> 'q) \<Rightarrow> delivery \<Rightarrow> 'q \<Rightarrow> 'q" where
  "deliver rcv fl rty (Deliver n) q = fst (rcv n q)"
| "deliver rcv fl rty (Fail env r) q = fst (fl env r q)"
| "deliver rcv fl rty (Retry env r) q = rty env r q"

locale message_queue_contract =
  fixes invar :: "'q \<Rightarrow> bool"
    and content :: "'q \<Rightarrow> string multiset"
    and enq :: "pydict \<Rightarrow> 'q \<Rightarrow> 'q \<times> string"
    and rcv :: "int \<Rightarrow> 'q \<Rightarrow> 'q \<times> queue_envelope list"
    and fl :: "queue_envelope \<Rightarrow> string \<Rightarrow> 'q \<Rightarrow> 'q \<times> bool"
    and rty :: "queue_envelope \<Rightarrow> string \<Rightarrow> 'q \<Rightarrow> 'q"
  assumes enq_law: "invar q \<Longrightarrow>
      invar (fst (enq b q)) \<and> content (fst (enq b q)) = add_mset (snd (enq b q)) (content q)"
    and rcv_law: "invar q \<Longrightarrow> invar (fst (rcv n q)) \<and> content (fst (rcv n q)) = content q"
    and fl_law: "invar q \<Longrightarrow> invar (fst (fl env r q)) \<and> content (fst (fl env r q)) = content q"
    and rty_law: "invar q \<Longrightarrow> invar (rty env r q) \<and> content (rty env r q) = content q"
begin

lemma deliver_keeps: "invar q \<Longrightarrow> invar (deliver rcv fl rty d q) \<and> content (deliver rcv fl rty d q) = content q"
  by (cases d) (simp_all add: rcv_law fl_law rty_law)

lemma deliveries_keep:
  "invar q \<Longrightarrow> invar (fold (deliver rcv fl rty) ds q) \<and> content (fold (deliver rcv fl rty) ds q) = content q"
  by (induction ds arbitrary: q) (auto simp: deliver_keeps)

lemma enqueued_stays_owed:
  assumes "invar q"
  shows "snd (enq b q) \<in># content (fold (deliver rcv fl rty) ds (fst (enq b q)))"
  using enq_law [OF assms, of b] deliveries_keep [of "fst (enq b q)" ds] by simp

end

interpretation memq: message_queue_contract queue_ok owed enqueue_message receive fail retry_later
  by unfold_locales
    (auto simp: owed_enqueue receive_loop_ok receive_def owed_fail owed_retry_later queue_ok_def [THEN iffD1]
      intro: wf_intros dest: queue_ok_def [THEN iffD1])

section \<open>Reachable queues\<close>

inductive queue_reachable :: "int \<Rightarrow> message_queue \<Rightarrow> bool" for n where
  q_new: "queue_reachable n (new_queue n)"
| q_enqueue: "queue_reachable n q \<Longrightarrow> queue_reachable n (fst (enqueue_message body q))"
| q_receive: "queue_reachable n q \<Longrightarrow> queue_reachable n (fst (receive k q))"
| q_ack: "queue_reachable n q \<Longrightarrow> queue_reachable n (ack env q)"
| q_fail: "queue_reachable n q \<Longrightarrow> queue_reachable n (fst (fail env reason q))"
| q_retry: "queue_reachable n q \<Longrightarrow> queue_reachable n (retry_later env reason q)"

lemma reachable_queue_ok: "queue_reachable n q \<Longrightarrow> queue_ok q"
  by (induction rule: queue_reachable.induct) (auto intro: queue_ok_new wf_intros)

section \<open>A poison message\<close>

text \<open>Deliver the only message and fail it, again and again.\<close>

definition fail_first :: "string \<Rightarrow> queue_envelope list \<times> message_queue \<Rightarrow> message_queue" where
  "fail_first reason r = (case r of ([], q) \<Rightarrow> q | (env # _, q) \<Rightarrow> fst (fail env reason q))"

fun poison :: "string \<Rightarrow> nat \<Rightarrow> message_queue \<Rightarrow> message_queue" where
  "poison reason 0 q = q"
| "poison reason (Suc k) q =
     poison reason k (let (q', envs) = receive 1 q in fail_first reason (envs, q'))"

definition lone :: "int \<Rightarrow> nat \<Rightarrow> queued_message \<Rightarrow> message_queue" where
  "lone n s m = \<lparr>mq_max_receive_count = n, mq_seq = s, mq_available = [m], mq_inflight = [], mq_dlq = []\<rparr>"

definition delivered :: "string \<Rightarrow> nat \<Rightarrow> queued_message \<Rightarrow> queued_message" where
  "delivered reason k m = (if k = 0 then m else
     m\<lparr>qm_receive_count := qm_receive_count m + k, qm_last_error := reason\<rparr>)"

lemma receive_fail_lone:
  "(let (q', envs) = receive 1 (lone n s m) in fail_first reason (envs, q')) =
   (if n \<le> int (Suc (qm_receive_count m))
    then (lone n s m)\<lparr>mq_available := [], mq_dlq := [delivered reason 1 m]\<rparr>
    else lone n s (delivered reason 1 m))"
  by (simp add: receive_def lone_def receive_one_def Let_def fail_first_def fail_cases delivered_def
      numeral_eq_Suc)

lemma receive_empty: "mq_available q = [] \<Longrightarrow> receive k q = (q, [])"
  by (cases "nat k") (simp_all add: receive_def)

lemma poison_empty: "mq_available q = [] \<Longrightarrow> poison reason k q = q"
  by (induction k arbitrary: q) (simp_all add: receive_empty fail_first_def)

lemma delivered_Suc: "delivered reason k (delivered reason 1 m) = delivered reason (Suc k) m"
  by (simp add: delivered_def)

lemma poison_lone:
  "int (qm_receive_count m) < n \<Longrightarrow>
   poison reason k (lone n s m) =
     (if int (qm_receive_count m + k) < n then lone n s (delivered reason k m)
      else (lone n s m)\<lparr>mq_available := [],
             mq_dlq := [delivered reason (nat n - qm_receive_count m) m]\<rparr>)"
proof (induction k arbitrary: m)
  case 0
  then show ?case by (simp add: delivered_def)
next
  case (Suc k)
  show ?case
  proof (cases "n \<le> int (Suc (qm_receive_count m))")
    case True
    with Suc.prems have "nat n - qm_receive_count m = 1" by linarith
    with True show ?thesis by (simp only: poison.simps receive_fail_lone) (simp add: poison_empty)
  next
    case False
    have cnt: "qm_receive_count (delivered reason 1 m) = Suc (qm_receive_count m)"
      by (simp add: delivered_def)
    from False have "nat n - qm_receive_count m = Suc (nat n - Suc (qm_receive_count m))" by linarith
    with False Suc.IH [of "delivered reason 1 m"] show ?thesis
      by (simp only: poison.simps receive_fail_lone cnt delivered_Suc)
        (simp add: lone_def)
  qed
qed

section \<open>Properties\<close>

text \<open>In every reachable queue no message is in two places and none is forged: each identifier that
  was handed out is held at most once over available, in-flight and dead-lettered messages, and every
  dead letter has used up its receives.\<close>

theorem queue_reachable_sound:
  assumes "queue_reachable n q"
  shows "distinct (map qm_message_id (mq_available q @ map snd (mq_inflight q) @ mq_dlq q)) \<and>
    (\<forall>m\<in>set (mq_dlq q). mq_max_receive_count q \<le> int (qm_receive_count m))"
proof -
  from reachable_queue_ok [OF assms] have ok: "queue_ok q" .
  let ?ids = "map qm_message_id (all_messages q)"
  have "count (mset ?ids) i \<le> 1" for i
    using ok by (simp add: queue_ok_def owed_def)
  then have "\<forall>i. count (mset ?ids) i = (if i \<in> set ?ids then 1 else 0)"
    by (metis One_nat_def count_mset_0_iff le_Suc_eq le_zero_eq)
  then have "distinct ?ids" by (rule distinct_count_atmost_1 [THEN iffD2])
  with ok show ?thesis by (simp add: queue_ok_def all_messages_def)
qed

theorem queue_reachable_sound_witness:
  "\<exists>q. queue_reachable 1 q \<and> mq_dlq q \<noteq> [] \<and>
     distinct (map qm_message_id (mq_available q @ map snd (mq_inflight q) @ mq_dlq q))"
proof -
  define q0 where "q0 = fst (enqueue_message [] (new_queue 1))"
  define q1 where "q1 = fst (receive 1 q0)"
  define env where "env = hd (snd (receive 1 q0))"
  define q2 where "q2 = fst (fail env ''boom'' q1)"
  have r: "queue_reachable 1 q2"
    unfolding q2_def q1_def q0_def by (intro queue_reachable.intros)
  have "mq_dlq q2 \<noteq> []"
    by (simp add: q2_def q1_def q0_def env_def enqueue_message_def new_queue_def receive_def
        receive_one_def Let_def fail_cases)
  with r queue_reachable_sound [OF r] show ?thesis by blast
qed

text \<open>C9: At-least-once delivery: after a message is enqueued in a reachable queue, no sequence of
  deliveries, failures and retries makes the queue forget it; only \<open>ack\<close> can.\<close>

theorem enqueued_message_never_lost:
  assumes "queue_reachable n q"
  shows "snd (enqueue_message body q) \<in>#
    owed (fold (deliver receive fail retry_later) ds (fst (enqueue_message body q)))"
  by (rule memq.enqueued_stays_owed [OF reachable_queue_ok [OF assms]])

theorem enqueued_message_never_lost_witness:
  "''msg_1'' \<in># owed (fold (deliver receive fail retry_later) [Deliver 1, Deliver 5]
      (fst (enqueue_message [] (new_queue 3))))"
  using enqueued_message_never_lost [OF q_new [of 3], of "[]" "[Deliver 1, Deliver 5]"]
  by (simp add: enqueue_message_def new_queue_def Let_def message_id_for_def nat_str.simps)



end
