(* ===== verification/Cache.thy ===== *)
theory Cache
  imports Prelude
begin

text \<open>
  The retrieval and answer cache of \<open>services/cache.py\<close>: entries keyed by tenant and key, in recency
  order (least recently used first), bounded per tenant, invalidated by document or visual artifact.
  The lock serialises the operations, so each is one atomic function on the store.
\<close>

section \<open>State\<close>

record 'v cache_entry =
  ce_value :: 'v
  ce_document_ids :: "string set"
  ce_asset_ids :: "string set"
  ce_crop_ids :: "string set"

type_synonym 'v cache_store = "(string \<times> string, 'v cache_entry) dict"

record 'v cache_service =
  cs_store :: "'v cache_store"
  cs_max_entries_per_tenant :: int

definition default_max_entries_per_tenant :: int where
  "default_max_entries_per_tenant = 1000"

section \<open>Operations\<close>

definition cache_get :: "string \<Rightarrow> string \<Rightarrow> 'v cache_service \<Rightarrow> 'v cache_service \<times> 'v option" where
  "cache_get tenant_id key cs =
     (case dget (cs_store cs) (tenant_id, key) of
        None \<Rightarrow> (cs, None)
      | Some entry \<Rightarrow>
          (cs\<lparr>cs_store := dset (tenant_id, key) entry (ddel (tenant_id, key) (cs_store cs))\<rparr>,
           Some (ce_value entry)))"

definition tenant_entry_count :: "string \<Rightarrow> 'v cache_store \<Rightarrow> nat" where
  "tenant_entry_count tenant_id st = length (filter (\<lambda>k. fst k = tenant_id) (map fst st))"

text \<open>The first key of the tenant in iteration order is dropped.\<close>

fun evict_lru :: "string \<Rightarrow> 'v cache_store \<Rightarrow> 'v cache_store" where
  "evict_lru tenant_id [] = []"
| "evict_lru tenant_id ((k, e) # st) =
     (if fst k = tenant_id then st else (k, e) # evict_lru tenant_id st)"

lemma evict_lru_count:
  "tenant_entry_count t (evict_lru t st) = tenant_entry_count t st - 1"
  by (induction t st rule: evict_lru.induct) (auto simp: tenant_entry_count_def)

text \<open>The \<open>while\<close> loop of \<open>put\<close>, entered only under its guard \<open>max_entries_per_tenant > 0\<close>.\<close>

function evict_until :: "string \<Rightarrow> int \<Rightarrow> 'v cache_store \<Rightarrow> 'v cache_store" where
  "evict_until tenant_id mx st =
     (if 0 < mx \<and> int (tenant_entry_count tenant_id st) \<ge> mx
      then evict_until tenant_id mx (evict_lru tenant_id st)
      else st)"
  by pat_completeness auto
termination
  by (relation "measure (\<lambda>(t, mx, st). tenant_entry_count t st)") (auto simp: evict_lru_count)

declare evict_until.simps [simp del]

definition cache_put ::
  "string \<Rightarrow> string \<Rightarrow> 'v \<Rightarrow> string set \<Rightarrow> string set option \<Rightarrow> string set option \<Rightarrow>
     'v cache_service \<Rightarrow> 'v cache_service" where
  "cache_put tenant_id key value document_ids asset_ids crop_ids cs =
     (let st = ddel (tenant_id, key) (cs_store cs);
          st = (if cs_max_entries_per_tenant cs > 0
                then evict_until tenant_id (cs_max_entries_per_tenant cs) st else st);
          entry = \<lparr>ce_value = value, ce_document_ids = document_ids,
                   ce_asset_ids = (case asset_ids of None \<Rightarrow> {} | Some a \<Rightarrow> a),
                   ce_crop_ids = (case crop_ids of None \<Rightarrow> {} | Some c \<Rightarrow> c)\<rparr>
      in cs\<lparr>cs_store := dset (tenant_id, key) entry st\<rparr>)"

definition invalidate_document ::
  "string \<Rightarrow> string \<Rightarrow> 'v cache_service \<Rightarrow> 'v cache_service \<times> nat" where
  "invalidate_document tenant_id document_id cs =
     (let to_del = map fst (filter (\<lambda>(k, e). fst k = tenant_id \<and> document_id \<in> ce_document_ids e) (cs_store cs))
      in (cs\<lparr>cs_store := foldl (\<lambda>st k. ddel k st) (cs_store cs) to_del\<rparr>, length to_del))"

definition invalidate_visual_artifacts ::
  "string \<Rightarrow> string set option \<Rightarrow> string set option \<Rightarrow> 'v cache_service \<Rightarrow> 'v cache_service \<times> nat" where
  "invalidate_visual_artifacts tenant_id asset_ids crop_ids cs =
     (let assets = (case asset_ids of None \<Rightarrow> {} | Some a \<Rightarrow> a);
          crops = (case crop_ids of None \<Rightarrow> {} | Some c \<Rightarrow> c);
          to_del = map fst (filter (\<lambda>(k, e). fst k = tenant_id \<and>
                       ((assets \<noteq> {} \<and> ce_asset_ids e \<inter> assets \<noteq> {}) \<or>
                        (crops \<noteq> {} \<and> ce_crop_ids e \<inter> crops \<noteq> {}))) (cs_store cs))
      in (cs\<lparr>cs_store := foldl (\<lambda>st k. ddel k st) (cs_store cs) to_del\<rparr>, length to_del))"

section \<open>The recency list of a tenant\<close>

definition tenant_keys :: "string \<Rightarrow> 'v cache_store \<Rightarrow> string list" where
  "tenant_keys t st = map snd (filter (\<lambda>k. fst k = t) (map fst st))"

lemma length_tenant_keys: "length (tenant_keys t st) = tenant_entry_count t st"
  by (simp add: tenant_keys_def tenant_entry_count_def)

lemma tenant_keys_Nil [simp]: "tenant_keys t [] = []"
  by (simp add: tenant_keys_def)

lemma tenant_keys_Cons [simp]:
  "tenant_keys t (p # st) = (if fst (fst p) = t then snd (fst p) # tenant_keys t st else tenant_keys t st)"
  by (simp add: tenant_keys_def)

lemma tenant_keys_append [simp]: "tenant_keys t (st @ st') = tenant_keys t st @ tenant_keys t st'"
  by (simp add: tenant_keys_def)

lemma tenant_keys_ddel:
  "tenant_keys u (ddel (t, k) st) = (if u = t then filter (\<lambda>j. j \<noteq> k) (tenant_keys u st) else tenant_keys u st)"
  by (induction st) auto

lemma tenant_keys_evict:
  "tenant_keys u (evict_lru t st) = (if u = t then tl (tenant_keys u st) else tenant_keys u st)"
  by (induction t st rule: evict_lru.induct) auto

lemma tenant_keys_evict_until:
  "0 < mx \<Longrightarrow> tenant_keys u (evict_until t mx st) =
     (if u = t then drop (Suc (tenant_entry_count t st) - nat mx) (tenant_keys u st) else tenant_keys u st)"
proof (induction t mx st rule: evict_until.induct)
  case (1 t mx st)
  show ?case
  proof (cases "int (tenant_entry_count t st) \<ge> mx")
    case True
    with "1.prems" have "0 < tenant_entry_count t st" by linarith
    then have "Suc (tenant_entry_count t st) - nat mx = Suc (tenant_entry_count t st - nat mx)"
      using True "1.prems" by linarith
    with True "1.prems" "1.IH" \<open>0 < tenant_entry_count t st\<close> show ?thesis
      by (simp add: evict_until.simps [of t mx st] tenant_keys_evict evict_lru_count drop_Suc)
  next
    case False
    then have "Suc (tenant_entry_count t st) - nat mx = 0" by linarith
    with False show ?thesis by (simp add: evict_until.simps [of t mx st])
  qed
qed

lemma wf_evict_lru [wf_intros]: "wf_dict st \<Longrightarrow> wf_dict (evict_lru t st)"
proof (induction t st rule: evict_lru.induct)
  case (2 t k e st)
  have "set (map fst (evict_lru t st)) \<subseteq> set (map fst st)"
    by (induction t st rule: evict_lru.induct) auto
  with 2 show ?case by (auto simp: wf_dict_def)
qed simp

lemma wf_evict_until [wf_intros]: "wf_dict st \<Longrightarrow> wf_dict (evict_until t mx st)"
proof (induction t mx st rule: evict_until.induct)
  case (1 t mx st)
  then show ?case by (simp add: evict_until.simps [of t mx st] wf_evict_lru)
qed

lemma wf_foldl_ddel [wf_intros]: "wf_dict st \<Longrightarrow> wf_dict (foldl (\<lambda>st k. ddel k st) st ks)"
  by (induction ks arbitrary: st) (auto simp: wf_dict_ddel)

lemma foldl_ddel: "foldl (\<lambda>st k. ddel k st) st ks = filter (\<lambda>p. fst p \<notin> set ks) st"
  by (induction ks arbitrary: st) (auto simp: ddel_filter intro!: filter_cong)

text \<open>A key that is absent is appended, so it becomes the most recent of its tenant.\<close>

lemma dget_None_keys: "dget st (t, k) = None \<longleftrightarrow> k \<notin> set (tenant_keys t st)"
  by (induction st) auto

section \<open>What each operation does to the entries\<close>

definition cache_ok :: "'v cache_service \<Rightarrow> bool" where
  "cache_ok cs \<longleftrightarrow> wf_dict (cs_store cs) \<and>
     (0 < cs_max_entries_per_tenant cs \<longrightarrow>
        (\<forall>t. int (tenant_entry_count t (cs_store cs)) \<le> cs_max_entries_per_tenant cs))"

lemma tenant_keys_filter:
  "j \<in> set (tenant_keys u (filter P st)) \<Longrightarrow> j \<in> set (tenant_keys u st)"
  by (auto simp: tenant_keys_def)

lemma dget_evict_lru:
  "wf_dict st \<Longrightarrow> dget (evict_lru t st) (u, j) =
     (if j \<in> set (tenant_keys u (evict_lru t st)) then dget st (u, j) else None)"
proof (induction t st rule: evict_lru.induct)
  case (2 t k e st)
  then have wf: "wf_dict st" and new: "dget st k = None"
    by (auto simp: wf_dict_def map_of_eq_None_iff)
  obtain a b where k: "k = (a, b)" by (cases k)
  with new have "b \<notin> set (tenant_keys a st)" by (simp add: dget_None_keys)
  moreover have "dget st (u, j) = (if j \<in> set (tenant_keys u st) then dget st (u, j) else None)"
    using dget_None_keys [of st u j] by auto
  ultimately show ?case using "2.IH" wf new k
    by (auto split: if_splits)
qed simp

lemma dget_evict_until:
  "wf_dict st \<Longrightarrow> dget (evict_until t mx st) (u, j) =
     (if j \<in> set (tenant_keys u (evict_until t mx st)) then dget st (u, j) else None)"
proof (induction t mx st rule: evict_until.induct)
  case (1 t mx st)
  show ?case
  proof (cases "0 < mx \<and> int (tenant_entry_count t st) \<ge> mx")
    case True
    have sub: "j \<in> set (tenant_keys u (evict_until t mx (evict_lru t st))) \<Longrightarrow>
        j \<in> set (tenant_keys u (evict_lru t st))"
      using True by (auto simp: tenant_keys_evict_until dest: in_set_dropD split: if_splits)
    with True "1.IH" [OF True wf_evict_lru [OF "1.prems"]] dget_evict_lru [OF "1.prems", of t u j] show ?thesis
      by (auto simp: evict_until.simps [of t mx st])
  next
    case False
    then show ?thesis using dget_None_keys [of st u j]
      by (auto simp: evict_until.simps [of t mx st])
  qed
qed

definition kept_keys :: "int \<Rightarrow> string \<Rightarrow> string list \<Rightarrow> string list" where
  "kept_keys mx key ks =
     (let others = filter (\<lambda>j. j \<noteq> key) ks
      in (if 0 < mx then drop (Suc (length others) - nat mx) others else others) @ [key])"

lemma put_keys:
  "tenant_keys u (cs_store (cache_put t key v ds as crs cs)) =
     (if u = t then kept_keys (cs_max_entries_per_tenant cs) key (tenant_keys t (cs_store cs))
      else tenant_keys u (cs_store cs))"
proof -
  let ?st = "if cs_max_entries_per_tenant cs > 0
     then evict_until t (cs_max_entries_per_tenant cs) (ddel (t, key) (cs_store cs))
     else ddel (t, key) (cs_store cs)"
  have k: "tenant_keys u ?st = (if u = t then butlast (kept_keys (cs_max_entries_per_tenant cs) key (tenant_keys t (cs_store cs)))
      else tenant_keys u (cs_store cs))" for u
    by (simp add: tenant_keys_evict_until tenant_keys_ddel kept_keys_def Let_def
        length_tenant_keys [symmetric])
  have "dget ?st (t, key) = None"
    unfolding dget_None_keys k by (auto simp: kept_keys_def Let_def dest: in_set_dropD)
  from dset_append_new [OF this] k show ?thesis
    by (simp add: cache_put_def Let_def kept_keys_def)
qed

lemma wf_put:
  "wf_dict (cs_store cs) \<Longrightarrow> wf_dict (cs_store (cache_put t key v ds as crs cs))"
  by (simp add: cache_put_def Let_def wf_dict_dset wf_dict_ddel wf_evict_until)

lemma put_lookup:
  assumes "wf_dict (cs_store cs)"
  shows "dget (cs_store (cache_put t key v ds as crs cs)) (u, j) =
    (if (u, j) = (t, key) then
       Some \<lparr>ce_value = v, ce_document_ids = ds,
             ce_asset_ids = (case as of None \<Rightarrow> {} | Some a \<Rightarrow> a),
             ce_crop_ids = (case crs of None \<Rightarrow> {} | Some c \<Rightarrow> c)\<rparr>
     else if j \<in> set (tenant_keys u (cs_store (cache_put t key v ds as crs cs)))
     then dget (cs_store cs) (u, j) else None)"
proof (cases "(u, j) = (t, key)")
  case True
  then show ?thesis by (simp add: cache_put_def Let_def dict_simps)
next
  case False
  define d where "d = ddel (t, key) (cs_store cs)"
  define st where "st = (if cs_max_entries_per_tenant cs > 0
     then evict_until t (cs_max_entries_per_tenant cs) d else d)"
  have "cs_store (cache_put t key v ds as crs cs) = dset (t, key)
      \<lparr>ce_value = v, ce_document_ids = ds, ce_asset_ids = (case as of None \<Rightarrow> {} | Some a \<Rightarrow> a),
       ce_crop_ids = (case crs of None \<Rightarrow> {} | Some c \<Rightarrow> c)\<rparr> st"
    by (simp add: cache_put_def Let_def st_def d_def)
  then obtain e where put: "cs_store (cache_put t key v ds as crs cs) = dset (t, key) e st"
    by blast
  have "j \<in> set (tenant_keys u (dset (t, key) e st)) \<longleftrightarrow> j \<in> set (tenant_keys u st)"
    using False dget_None_keys [of "dset (t, key) e st" u j] dget_None_keys [of st u j]
    by (auto simp: dict_simps)
  moreover have "dget st (u, j) = (if j \<in> set (tenant_keys u st) then dget d (u, j) else None)"
    using dget_evict_until [of d t "cs_max_entries_per_tenant cs" u j] dget_None_keys [of d u j] assms
    by (auto simp: st_def d_def wf_dict_ddel)
  moreover have "dget d (u, j) = dget (cs_store cs) (u, j)"
    using False by (auto simp: d_def dict_simps)
  ultimately show ?thesis
    using False unfolding put by (auto simp: dict_simps)
qed

lemma get_keys:
  "tenant_keys u (cs_store (fst (cache_get t key cs))) =
     (if u = t \<and> key \<in> set (tenant_keys t (cs_store cs))
      then filter (\<lambda>j. j \<noteq> key) (tenant_keys t (cs_store cs)) @ [key]
      else tenant_keys u (cs_store cs))"
proof (cases "dget (cs_store cs) (t, key)")
  case None
  then show ?thesis using dget_None_keys [of "cs_store cs" t key] by (auto simp: cache_get_def)
next
  case (Some e)
  then have "key \<in> set (tenant_keys t (cs_store cs))"
    using dget_None_keys [of "cs_store cs" t key] by auto
  moreover have "dget (ddel (t, key) (cs_store cs)) (t, key) = None" by (simp add: dict_simps)
  ultimately show ?thesis
    using Some by (simp add: cache_get_def dset_append_new tenant_keys_ddel)
qed

lemma get_lookup: "dget (cs_store (fst (cache_get t key cs))) p = dget (cs_store cs) p"
  by (auto simp: cache_get_def dict_simps split: option.splits)

lemma wf_get: "wf_dict (cs_store cs) \<Longrightarrow> wf_dict (cs_store (fst (cache_get t key cs)))"
  by (simp add: cache_get_def wf_dict_dset wf_dict_ddel split: option.splits)

lemma invalidate_store:
  "wf_dict (cs_store cs) \<Longrightarrow> cs_store (fst (invalidate_document t d cs)) =
     filter (\<lambda>(k, e). \<not> (fst k = t \<and> d \<in> ce_document_ids e)) (cs_store cs)"
  by (force simp: invalidate_document_def Let_def foldl_ddel wf_dict_def intro!: filter_cong
      dest: eq_key_imp_eq_value)

lemma invalidate_visual_store:
  "set (cs_store (fst (invalidate_visual_artifacts t as crs cs))) \<subseteq> set (cs_store cs)"
  by (auto simp: invalidate_visual_artifacts_def Let_def foldl_ddel)

lemma wf_filter: "wf_dict st \<Longrightarrow> wf_dict (filter P st)"
  by (auto simp: wf_dict_def intro: distinct_map_filter)

lemma count_filter_le: "tenant_entry_count t (filter P st) \<le> tenant_entry_count t st"
  by (induction st) (auto simp: tenant_entry_count_def)

lemma kept_keys_length: "0 < mx \<Longrightarrow> int (length (kept_keys mx key ks)) \<le> mx"
  by (auto simp: kept_keys_def Let_def)

lemma cache_ok_put [wf_intros]: "cache_ok cs \<Longrightarrow> cache_ok (cache_put t key v ds as crs cs)"
proof -
  assume ok: "cache_ok cs"
  have mx: "cs_max_entries_per_tenant (cache_put t key v ds as crs cs) = cs_max_entries_per_tenant cs"
    by (simp add: cache_put_def Let_def)
  have "int (tenant_entry_count u (cs_store (cache_put t key v ds as crs cs))) \<le> cs_max_entries_per_tenant cs"
    if "0 < cs_max_entries_per_tenant cs" for u
    using ok that kept_keys_length [OF that]
    by (simp add: length_tenant_keys [symmetric] put_keys cache_ok_def)
  with ok mx show ?thesis by (simp add: cache_ok_def wf_put)
qed

lemma cache_ok_get [wf_intros]: "cache_ok cs \<Longrightarrow> cache_ok (fst (cache_get t key cs))"
proof -
  assume ok: "cache_ok cs"
  then have d: "distinct (tenant_keys t (cs_store cs))"
    by (simp add: cache_ok_def wf_dict_def tenant_keys_def distinct_map inj_on_def)
  have "length (filter (\<lambda>j. j \<noteq> key) (tenant_keys t (cs_store cs)) @ [key]) = length (tenant_keys t (cs_store cs))"
    if "key \<in> set (tenant_keys t (cs_store cs))"
    using length_filter_neq [OF d that] by simp
  then have "tenant_entry_count u (cs_store (fst (cache_get t key cs))) = tenant_entry_count u (cs_store cs)" for u
    by (simp add: length_tenant_keys [symmetric] get_keys)
  moreover have "cs_max_entries_per_tenant (fst (cache_get t key cs)) = cs_max_entries_per_tenant cs"
    by (simp add: cache_get_def split: option.splits)
  ultimately show ?thesis using ok by (simp add: cache_ok_def wf_get)
qed

lemma cache_ok_filter:
  assumes "cache_ok cs"
  shows "cache_ok (cs\<lparr>cs_store := filter P (cs_store cs)\<rparr>)"
proof -
  have "int (tenant_entry_count t (filter P (cs_store cs))) \<le> cs_max_entries_per_tenant cs"
    if "0 < cs_max_entries_per_tenant cs" for t
    using assms that count_filter_le [of t P "cs_store cs"] unfolding cache_ok_def
    by (meson of_nat_mono order_trans)
  with assms show ?thesis by (simp add: cache_ok_def wf_filter)
qed

lemma cache_ok_invalidate [wf_intros]: "cache_ok cs \<Longrightarrow> cache_ok (fst (invalidate_document t d cs))"
  by (simp add: invalidate_document_def Let_def foldl_ddel cache_ok_filter)

lemma cache_ok_invalidate_visual [wf_intros]:
  "cache_ok cs \<Longrightarrow> cache_ok (fst (invalidate_visual_artifacts t as crs cs))"
  by (simp add: invalidate_visual_artifacts_def Let_def foldl_ddel cache_ok_filter)

section \<open>The contract of a cache that can forget a document\<close>

definition cached :: "'v cache_service \<Rightarrow> string \<Rightarrow> string \<Rightarrow> 'v cache_entry option" where
  "cached cs t k = dget (cs_store cs) (t, k)"

locale invalidating_cache =
  fixes invar :: "'c \<Rightarrow> bool"
    and entry :: "'c \<Rightarrow> string \<Rightarrow> string \<Rightarrow> 'e option"
    and docs :: "'e \<Rightarrow> string set"
    and inval :: "string \<Rightarrow> string \<Rightarrow> 'c \<Rightarrow> 'c \<times> nat"
  assumes inval_invar: "invar c \<Longrightarrow> invar (fst (inval t d c))"
    and inval_entry: "invar c \<Longrightarrow> entry (fst (inval t d c)) u k =
      (case entry c u k of None \<Rightarrow> None | Some e \<Rightarrow> if u = t \<and> d \<in> docs e then None else Some e)"
begin

lemma no_stale_entry: "invar c \<Longrightarrow> entry (fst (inval t d c)) t k = Some e \<Longrightarrow> d \<notin> docs e"
  by (auto simp: inval_entry split: option.splits if_splits)

lemma other_entries_kept:
  "invar c \<Longrightarrow> entry c u k = Some e \<Longrightarrow> u \<noteq> t \<or> d \<notin> docs e \<Longrightarrow> entry (fst (inval t d c)) u k = Some e"
  by (auto simp: inval_entry)

lemma forgets_all:
  assumes "invar c" and "entry (fold (\<lambda>d c. fst (inval t d c)) ds c) t k = Some e"
  shows "entry c t k = Some e \<and> docs e \<inter> set ds = {}"
  using assms
proof (induction ds arbitrary: c)
  case (Cons d ds)
  from Cons.IH [OF inval_invar [OF Cons.prems(1)]] Cons.prems(2)
  have "entry (fst (inval t d c)) t k = Some e" "docs e \<inter> set ds = {}" by simp_all
  with Cons.prems(1) show ?case by (auto simp: inval_entry split: option.splits if_splits)
qed simp

end

lemma dget_filter:
  "wf_dict m \<Longrightarrow> dget (filter (\<lambda>(k, e). P k e) m) k =
     (case dget m k of None \<Rightarrow> None | Some e \<Rightarrow> if P k e then Some e else None)"
proof (induction m)
  case (Cons p m)
  obtain j v where p: "p = (j, v)" by (cases p)
  from Cons.prems p have "wf_dict m" "dget m j = None" by (auto simp: wf_dict_def map_of_eq_None_iff)
  with Cons.IH p show ?case by (auto split: option.splits)
qed simp

interpretation doccache: invalidating_cache cache_ok cached ce_document_ids invalidate_document
proof
  fix c :: "'a cache_service" and t d
  assume "cache_ok c"
  then show "cache_ok (fst (invalidate_document t d c))" by (rule cache_ok_invalidate)
next
  fix c :: "'a cache_service" and t d u k
  assume "cache_ok c"
  then have wf: "wf_dict (cs_store c)" by (simp add: cache_ok_def)
  show "cached (fst (invalidate_document t d c)) u k = (case cached c u k of None \<Rightarrow> None
      | Some e \<Rightarrow> if u = t \<and> d \<in> ce_document_ids e then None else Some e)"
    using dget_filter [OF wf, of "\<lambda>k e. \<not> (fst k = t \<and> d \<in> ce_document_ids e)" "(u, k)"]
    by (auto simp: cached_def invalidate_store [OF wf] split: option.splits)
qed

section \<open>Reachable caches\<close>

inductive cache_reachable :: "int \<Rightarrow> 'v cache_service \<Rightarrow> bool" for mx where
  c_new: "cache_reachable mx \<lparr>cs_store = [], cs_max_entries_per_tenant = mx\<rparr>"
| c_get: "cache_reachable mx cs \<Longrightarrow> cache_reachable mx (fst (cache_get t k cs))"
| c_put: "cache_reachable mx cs \<Longrightarrow> cache_reachable mx (cache_put t k v ds as crs cs)"
| c_invalidate: "cache_reachable mx cs \<Longrightarrow> cache_reachable mx (fst (invalidate_document t d cs))"
| c_invalidate_visual: "cache_reachable mx cs \<Longrightarrow>
    cache_reachable mx (fst (invalidate_visual_artifacts t as crs cs))"

lemma max_entries_frame [frame_simps]:
  "cs_max_entries_per_tenant (fst (cache_get t k cs)) = cs_max_entries_per_tenant cs"
  "cs_max_entries_per_tenant (cache_put t k v ds as crs cs) = cs_max_entries_per_tenant cs"
  "cs_max_entries_per_tenant (fst (invalidate_document t d cs)) = cs_max_entries_per_tenant cs"
  "cs_max_entries_per_tenant (fst (invalidate_visual_artifacts t as crs cs)) = cs_max_entries_per_tenant cs"
  by (simp_all add: cache_get_def cache_put_def invalidate_document_def invalidate_visual_artifacts_def
      Let_def split: option.splits)

lemma cache_ok_new: "cache_ok \<lparr>cs_store = [], cs_max_entries_per_tenant = mx\<rparr>"
  by (simp add: cache_ok_def tenant_entry_count_def)

lemma cache_reachable_ok:
  "cache_reachable mx cs \<Longrightarrow> cache_ok cs \<and> cs_max_entries_per_tenant cs = mx"
  by (induction rule: cache_reachable.induct) (simp_all add: frame_simps cache_ok_new wf_intros)

section \<open>Properties\<close>

text \<open>Whatever the sequence of reads, writes and invalidations, a positive bound caps the number of
  entries of every tenant and no key is stored twice.\<close>

theorem cache_bounded_per_tenant:
  assumes "cache_reachable mx cs" and "0 < mx"
  shows "int (tenant_entry_count t (cs_store cs)) \<le> mx \<and> distinct (map fst (cs_store cs))"
  using cache_reachable_ok [OF assms(1)] assms(2) by (auto simp: cache_ok_def wf_dict_def)

theorem cache_bounded_per_tenant_witness:
  "int (tenant_entry_count ''t'' (cs_store
     (cache_put ''t'' ''b'' (2::nat) {} None None
       (cache_put ''t'' ''a'' 1 {} None None \<lparr>cs_store = [], cs_max_entries_per_tenant = 1\<rparr>)))) \<le> 1"
  by (rule cache_bounded_per_tenant [OF c_put [OF c_put [OF c_new]], THEN conjunct1]) simp

text \<open>C20: \<open>put\<close> refines least-recently-used eviction: in the tenant's recency list the key moves to the
  most recent end and only the oldest keys beyond the bound disappear; the recency lists of other
  tenants, and every stored entry that keeps its key, stay as they were; the new entry is stored.\<close>

theorem cache_put_refines_lru:
  assumes "cache_ok cs" and "cs' = cache_put t key v ds as crs cs"
    and "others = filter (\<lambda>j. j \<noteq> key) (tenant_keys t (cs_store cs))"
  shows "tenant_keys t (cs_store cs') =
      (if 0 < cs_max_entries_per_tenant cs
       then drop (Suc (length others) - nat (cs_max_entries_per_tenant cs)) others else others) @ [key]
    \<and> (\<forall>u. u \<noteq> t \<longrightarrow> tenant_keys u (cs_store cs') = tenant_keys u (cs_store cs))
    \<and> map_option ce_value (cached cs' t key) = Some v
    \<and> (\<forall>u j. (u, j) \<noteq> (t, key) \<and> j \<in> set (tenant_keys u (cs_store cs')) \<longrightarrow> cached cs' u j = cached cs u j)"
proof -
  have wf: "wf_dict (cs_store cs)" using assms(1) by (simp add: cache_ok_def)
  show ?thesis
    unfolding cached_def assms(2,3) put_keys put_lookup [OF wf] by (auto simp: kept_keys_def Let_def)
qed

theorem cache_put_refines_lru_witness:
  "tenant_keys ''t'' (cs_store (cache_put ''t'' ''c'' (3::nat) {} None None
     \<lparr>cs_store = [((''t'', ''a''), \<lparr>ce_value = 1, ce_document_ids = {}, ce_asset_ids = {}, ce_crop_ids = {}\<rparr>),
                  ((''t'', ''b''), \<lparr>ce_value = 2, ce_document_ids = {}, ce_asset_ids = {}, ce_crop_ids = {}\<rparr>)],
      cs_max_entries_per_tenant = 2\<rparr>)) = [''b'', ''c'']"
proof -
  let ?cs = "\<lparr>cs_store = [((''t'', ''a''), \<lparr>ce_value = 1, ce_document_ids = {}, ce_asset_ids = {}, ce_crop_ids = {}\<rparr>),
                  ((''t'', ''b''), \<lparr>ce_value = 2, ce_document_ids = {}, ce_asset_ids = {}, ce_crop_ids = {}\<rparr>)],
      cs_max_entries_per_tenant = 2\<rparr> :: nat cache_service"
  have "cache_ok ?cs" by (simp add: cache_ok_def wf_dict_def tenant_entry_count_def)
  from cache_put_refines_lru [OF this refl refl, of "''t''" "''c''" 3 "{}" None None] show ?thesis
    by (simp add: tenant_keys_def)
qed

text \<open>A read returns what is stored, makes the key the most recent of its tenant and changes no
  entry of any tenant.\<close>

theorem cache_get_refreshes:
  "snd (cache_get t key cs) = map_option ce_value (cached cs t key) \<and>
   (\<forall>u k. cached (fst (cache_get t key cs)) u k = cached cs u k) \<and>
   tenant_keys t (cs_store (fst (cache_get t key cs))) =
     (if cached cs t key = None then tenant_keys t (cs_store cs)
      else filter (\<lambda>j. j \<noteq> key) (tenant_keys t (cs_store cs)) @ [key])"
  using dget_None_keys [of "cs_store cs" t key]
  by (auto simp: cached_def get_lookup get_keys) (auto simp: cache_get_def split: option.splits)

end
