(* ===== verification/VectorStore.thy ===== *)
theory VectorStore
  imports Acl
begin

text \<open>
  The in-memory vector store of \<open>providers/vectorstores.py\<close>: a primary index and a quarantine, both
  keyed by chunk id, with tenant, tombstone and visibility applied before any scoring. Scores are
  exact rationals. The lexical helpers of \<open>core/hybrid_retrieval.py\<close> (identifier extraction, term
  extraction, the scorer) enter the two keyword legs as arguments. A chunk is stored by value: the
  code keeps a reference; the one caller that mutates it in place, the metadata enricher, is modelled as
  an update of the store.
\<close>

section \<open>State\<close>

type_synonym vector = "rat list"

type_synonym items = "(string, chunk \<times> vector) dict"

record vector_store =
  vs_items :: items
  vs_quarantine :: items
  vs_last_prefiltered_count :: nat

definition new_store :: vector_store where
  "new_store = \<lparr>vs_items = [], vs_quarantine = [], vs_last_prefiltered_count = 0\<rparr>"

definition cosine :: "vector \<Rightarrow> vector \<Rightarrow> rat" where
  "cosine a b = sum_list (map (\<lambda>(x, y). x * y) (zip a b))"

definition metadata_exact_match_score :: rat where
  "metadata_exact_match_score = 125 / 100"

definition lexical_pool_factor :: int where
  "lexical_pool_factor = 50"

definition lexical_pool_min :: int where
  "lexical_pool_min = 1000"

section \<open>Writing\<close>

definition upsert :: "(chunk \<times> vector) list \<Rightarrow> vector_store \<Rightarrow> vector_store" where
  "upsert chunks st =
     foldl (\<lambda>st (c, v).
        st\<lparr>vs_quarantine := ddel (c_chunk_id c) (vs_quarantine st),
           vs_items := dset (c_chunk_id c) (c, v) (vs_items st)\<rparr>) st chunks"

definition quarantine :: "(chunk \<times> vector) list \<Rightarrow> vector_store \<Rightarrow> vector_store" where
  "quarantine chunks st =
     foldl (\<lambda>st (c, v).
        st\<lparr>vs_items := ddel (c_chunk_id c) (vs_items st),
           vs_quarantine := dset (c_chunk_id c) (c, v) (vs_quarantine st)\<rparr>) st chunks"

text \<open>The update a review applies to one chunk, as the code edits it field by field.\<close>

definition reviewed_chunk ::
  "pydict option \<Rightarrow> string option \<Rightarrow> bool option \<Rightarrow> chunk \<Rightarrow> chunk" where
  "reviewed_chunk metadata text tombstone c =
     (let c = (case metadata of None \<Rightarrow> c | Some m \<Rightarrow>
                 if m = [] then c else c\<lparr>c_metadata := py_update (c_metadata c) m\<rparr>);
          c = (case text of None \<Rightarrow> c | Some t \<Rightarrow> c\<lparr>c_text := t\<rparr>)
      in (case tombstone of None \<Rightarrow> c | Some b \<Rightarrow> c\<lparr>c_tombstone := b\<rparr>))"

definition update_chunk_review ::
  "string \<Rightarrow> string \<Rightarrow> pydict option \<Rightarrow> string option \<Rightarrow> vector option \<Rightarrow> bool option \<Rightarrow>
     vector_store \<Rightarrow> vector_store \<times> bool" where
  "update_chunk_review tenant_id chunk_id metadata text vector tombstone st =
     (let item = dget (vs_items st) chunk_id;
          quarantined = (item = None \<and> dget (vs_quarantine st) chunk_id \<noteq> None);
          item = (if item = None then dget (vs_quarantine st) chunk_id else item)
      in case item of
           None \<Rightarrow> (st, False)
         | Some (c0, v0) \<Rightarrow>
             if c_tenant_id c0 \<noteq> tenant_id then (st, False)
             else
               let c = reviewed_chunk metadata text tombstone c0;
                   v = (case vector of None \<Rightarrow> v0 | Some v \<Rightarrow> v);
                   status = py_get_str (c_metadata c) ''extraction_quality_status''
               in if quarantined \<and> status = ''manual_approved'' \<and> \<not> c_tombstone c then
                    (st\<lparr>vs_quarantine := ddel chunk_id (vs_quarantine st),
                        vs_items := dset chunk_id (c, v) (vs_items st)\<rparr>, True)
                  else if quarantined then
                    (st\<lparr>vs_quarantine := dset chunk_id (c, v) (vs_quarantine st)\<rparr>, True)
                  else
                    (st\<lparr>vs_items := dset chunk_id (c, v) (vs_items st)\<rparr>, True))"

section \<open>Reading\<close>

definition iter_items :: "vector_store \<Rightarrow> (chunk \<times> vector) list" where
  "iter_items st = map snd (vs_items st)"

definition iter_quarantine_items :: "vector_store \<Rightarrow> (chunk \<times> vector) list" where
  "iter_quarantine_items st = map snd (vs_quarantine st)"

definition iter_all_items :: "vector_store \<Rightarrow> (chunk \<times> vector) list" where
  "iter_all_items st = map snd (vs_items st) @ map snd (vs_quarantine st)"

definition list_extraction_review_chunks :: "string option \<Rightarrow> vector_store \<Rightarrow> chunk list" where
  "list_extraction_review_chunks tenant_id st =
     filter (\<lambda>c.
        (tenant_id = None \<or> tenant_id = Some (c_tenant_id c)) \<and>
        (py_get_str (c_metadata c) ''extraction_quality_status'' \<in> {''review_required'', ''draft_visual''} \<or>
         py_truthy (py_get (c_metadata c) ''quality_review_required'')))
       (map fst (iter_quarantine_items st))"

text \<open>The filter every retrieval leg applies before scoring.\<close>

definition prefilter :: "string \<Rightarrow> (chunk \<Rightarrow> bool) \<Rightarrow> chunk \<Rightarrow> bool" where
  "prefilter tenant_id visible c \<longleftrightarrow> c_tenant_id c = tenant_id \<and> \<not> c_tombstone c \<and> visible c"

definition search ::
  "string \<Rightarrow> vector \<Rightarrow> (chunk \<Rightarrow> bool) \<Rightarrow> int \<Rightarrow> vector_store \<Rightarrow> vector_store \<times> scored_chunk list" where
  "search tenant_id query_vec visible top_k st =
     (let candidates = filter (\<lambda>(c, v). prefilter tenant_id visible c) (iter_items st);
          scored = map (\<lambda>(c, v). \<lparr>sc_chunk = c, sc_retrieval_score = cosine query_vec v\<rparr>) candidates
      in (st\<lparr>vs_last_prefiltered_count := length candidates\<rparr>,
          py_take top_k (sort_key (\<lambda>s. - sc_retrieval_score s) scored)))"

definition metadata_exact_matches ::
  "(string \<Rightarrow> string list) \<Rightarrow> (pydict \<Rightarrow> string list \<Rightarrow> int) \<Rightarrow>
     string \<Rightarrow> string \<Rightarrow> (chunk \<Rightarrow> bool) \<Rightarrow> int \<Rightarrow> vector_store \<Rightarrow> scored_chunk list" where
  "metadata_exact_matches query_identifiers match_count tenant_id query visible top_k st =
     (let identifiers = query_identifiers query in
      if identifiers = [] \<or> top_k \<le> 0 then []
      else
        let candidates = filter (prefilter tenant_id visible) (map fst (iter_items st));
            counted = map (\<lambda>c. (match_count (c_metadata c) identifiers, c)) candidates;
            matches = map (\<lambda>(n, c). (n, \<lparr>sc_chunk = c, sc_retrieval_score = metadata_exact_match_score\<rparr>))
                        (filter (\<lambda>(n, c). \<not> n \<le> 0) counted);
            ordered = sort_key (\<lambda>(n, s). (- n, c_position (sc_chunk s), c_chunk_id (sc_chunk s))) matches
        in map snd (py_take top_k ordered))"

definition lexical_matches ::
  "(string \<Rightarrow> string list) \<Rightarrow> (string list \<Rightarrow> string set) \<Rightarrow> (string \<Rightarrow> string set) \<Rightarrow>
     (string list \<Rightarrow> string set \<Rightarrow> int) \<Rightarrow> (string \<Rightarrow> string \<Rightarrow> pydict \<Rightarrow> rat) \<Rightarrow>
     string \<Rightarrow> string \<Rightarrow> (chunk \<Rightarrow> bool) \<Rightarrow> int \<Rightarrow> vector_store \<Rightarrow> scored_chunk list" where
  "lexical_matches query_terms candidate_tokens token_set direct_match_count match_score
       tenant_id query visible top_k st =
     (if top_k \<le> 0 then []
      else
        let terms = query_terms query in
        if terms = [] then []
        else
          let cand = candidate_tokens terms;
              pool_limit = max (top_k * lexical_pool_factor) lexical_pool_min;
              eligible = filter (\<lambda>c. prefilter tenant_id visible c \<and> cand \<inter> token_set (c_text c) \<noteq> {})
                           (map fst (iter_items st));
              pool = map (\<lambda>c. (direct_match_count terms (token_set (c_text c)), c)) eligible;
              ordered = sort_key (\<lambda>(n, c). (- n, c_position c, c_chunk_id c)) pool;
              scored = map (\<lambda>(n, c). \<lparr>sc_chunk = c, sc_retrieval_score = match_score query (c_text c) (c_metadata c)\<rparr>)
                         (py_take pool_limit ordered);
              matches = filter (\<lambda>s. \<not> sc_retrieval_score s \<le> 0) scored
          in py_take top_k
               (sort_key (\<lambda>s. (- sc_retrieval_score s, c_position (sc_chunk s), c_chunk_id (sc_chunk s))) matches))"

section \<open>Tombstones and purging\<close>

definition of_document :: "string \<Rightarrow> string \<Rightarrow> chunk \<Rightarrow> bool" where
  "of_document tenant_id document_id c \<longleftrightarrow> c_tenant_id c = tenant_id \<and> c_document_id c = document_id"

definition mark_items :: "string \<Rightarrow> string \<Rightarrow> bool \<Rightarrow> items \<Rightarrow> items" where
  "mark_items tenant_id document_id value =
     map (\<lambda>(cid, (c, v)). (cid, (if of_document tenant_id document_id c then c\<lparr>c_tombstone := value\<rparr> else c, v)))"

definition count_items :: "string \<Rightarrow> string \<Rightarrow> items \<Rightarrow> nat" where
  "count_items tenant_id document_id d = length (filter (\<lambda>(cid, (c, v)). of_document tenant_id document_id c) d)"

definition set_tombstone :: "string \<Rightarrow> string \<Rightarrow> bool \<Rightarrow> vector_store \<Rightarrow> vector_store \<times> nat" where
  "set_tombstone tenant_id document_id value st =
     (st\<lparr>vs_items := mark_items tenant_id document_id value (vs_items st),
         vs_quarantine := mark_items tenant_id document_id value (vs_quarantine st)\<rparr>,
      count_items tenant_id document_id (vs_items st @ vs_quarantine st))"

definition purge :: "string \<Rightarrow> string \<Rightarrow> vector_store \<Rightarrow> vector_store \<times> nat" where
  "purge tenant_id document_id st =
     (let to_del = map fst (filter (\<lambda>(cid, (c, v)). of_document tenant_id document_id c) (vs_items st))
      in (st\<lparr>vs_items := foldl (\<lambda>d k. ddel k d) (vs_items st) to_del\<rparr>, length to_del))"

definition purge_quarantine :: "string \<Rightarrow> string \<Rightarrow> vector_store \<Rightarrow> vector_store \<times> nat" where
  "purge_quarantine tenant_id document_id st =
     (let to_del = map fst (filter (\<lambda>(cid, (c, v)). of_document tenant_id document_id c) (vs_quarantine st))
      in (st\<lparr>vs_quarantine := foldl (\<lambda>d k. ddel k d) (vs_quarantine st) to_del\<rparr>, length to_del))"

definition visual_chunks_for_asset :: "string \<Rightarrow> string \<Rightarrow> vector_store \<Rightarrow> chunk list" where
  "visual_chunks_for_asset tenant_id asset_id st =
     filter (\<lambda>c. c_tenant_id c = tenant_id \<and> \<not> c_tombstone c \<and> c_modality c = VISUAL \<and>
        (case dget (c_metadata c) ''asset_id'' of None \<Rightarrow> [] | Some v \<Rightarrow> py_str v) = asset_id)
       (map fst (iter_all_items st))"

definition visual_chunks_for_document :: "string \<Rightarrow> string \<Rightarrow> vector_store \<Rightarrow> chunk list" where
  "visual_chunks_for_document tenant_id document_id st =
     filter (\<lambda>c. c_tenant_id c = tenant_id \<and> c_document_id c = document_id \<and> \<not> c_tombstone c \<and>
        c_modality c = VISUAL)
       (map fst (iter_all_items st))"

section \<open>What the store holds\<close>

text \<open>No id is stored twice, none is in both indexes, and every entry is filed under its chunk's id.\<close>

definition keyed :: "items \<Rightarrow> bool" where
  "keyed d \<longleftrightarrow> (\<forall>(cid, (c, v)) \<in> set d. c_chunk_id c = cid)"

definition store_ok :: "vector_store \<Rightarrow> bool" where
  "store_ok st \<longleftrightarrow> wf_dict (vs_items st) \<and> wf_dict (vs_quarantine st) \<and>
     fst ` set (vs_items st) \<inter> fst ` set (vs_quarantine st) = {} \<and>
     keyed (vs_items st) \<and> keyed (vs_quarantine st)"

definition live_docs :: "vector_store \<Rightarrow> string \<Rightarrow> string set" where
  "live_docs st t = {c_document_id c |cid c v. (cid, (c, v)) \<in> set (vs_items st) \<and> c_tenant_id c = t \<and> \<not> c_tombstone c}"

lemma keys_ddel: "fst ` set (ddel k d) = fst ` set d - {k}"
  by (force simp: ddel_filter)

lemma keyed_dset [wf_intros]: "wf_dict d \<Longrightarrow> keyed d \<Longrightarrow> c_chunk_id c = k \<Longrightarrow> keyed (dset k (c, v) d)"
  by (auto simp: keyed_def set_dset)

lemma keyed_ddel [wf_intros]: "keyed d \<Longrightarrow> keyed (ddel k d)"
  by (auto simp: keyed_def ddel_filter)

lemma keys_mark_items: "map fst (mark_items t d b its) = map fst its"
  by (induction its) (auto simp: mark_items_def)

lemma set_mark_items:
  "set (mark_items t d b its) =
     (\<lambda>(cid, (c, v)). (cid, (if of_document t d c then c\<lparr>c_tombstone := b\<rparr> else c, v))) ` set its"
  by (simp add: mark_items_def)

lemma keyed_mark_items [wf_intros]: "keyed its \<Longrightarrow> keyed (mark_items t d b its)"
  by (auto simp: keyed_def set_mark_items)

lemma foldl_ddel_items: "foldl (\<lambda>d k. ddel k d) d ks = filter (\<lambda>p. fst p \<notin> set ks) d"
  by (induction ks arbitrary: d) (auto simp: ddel_filter intro!: filter_cong)

lemma foldl_ddel_selected:
  assumes "wf_dict d"
  shows "foldl (\<lambda>d k. ddel k d) d (map fst (filter P d)) = filter (\<lambda>p. \<not> P p) d"
proof -
  have "fst p \<in> fst ` set (filter P d) \<longleftrightarrow> P p" if p: "p \<in> set d" for p
  proof
    assume "fst p \<in> fst ` set (filter P d)"
    then obtain q where q: "q \<in> set d" "P q" "fst q = fst p" by auto
    then have "(fst p, snd q) \<in> set d" "(fst p, snd p) \<in> set d" using p by (metis prod.collapse)+
    then have "Some (snd q) = Some (snd p)" using in_dget_Some [OF assms] by metis
    with q show "P p" by (metis option.inject prod.collapse)
  next
    assume "P p"
    with p show "fst p \<in> fst ` set (filter P d)" by simp
  qed
  then show ?thesis unfolding foldl_ddel_items set_map by (intro filter_cong refl) simp
qed

lemma purge_items:
  "wf_dict its \<Longrightarrow> foldl (\<lambda>d k. ddel k d) its (map fst (filter (\<lambda>(cid, (c, v)). of_document t d c) its)) =
     filter (\<lambda>(cid, (c, v)). \<not> of_document t d c) its"
  by (simp add: foldl_ddel_selected split_def)

lemma store_ok_new: "store_ok new_store"
  by (simp add: store_ok_def new_store_def keyed_def)

lemma store_ok_upsert [wf_intros]: "store_ok st \<Longrightarrow> store_ok (upsert cs st)"
proof (induction cs arbitrary: st)
  case (Cons x cs)
  obtain c v where x: "x = (c, v)" by (cases x)
  from Cons.prems have "store_ok (st\<lparr>vs_quarantine := ddel (c_chunk_id c) (vs_quarantine st),
      vs_items := dset (c_chunk_id c) (c, v) (vs_items st)\<rparr>)"
    by (auto simp: store_ok_def keys_dset keys_ddel wf_dict_dset wf_dict_ddel keyed_dset keyed_ddel)
  from Cons.IH [OF this] x show ?case by (simp add: upsert_def)
qed (simp add: upsert_def)

lemma store_ok_quarantine [wf_intros]: "store_ok st \<Longrightarrow> store_ok (quarantine cs st)"
proof (induction cs arbitrary: st)
  case (Cons x cs)
  obtain c v where x: "x = (c, v)" by (cases x)
  from Cons.prems have "store_ok (st\<lparr>vs_items := ddel (c_chunk_id c) (vs_items st),
      vs_quarantine := dset (c_chunk_id c) (c, v) (vs_quarantine st)\<rparr>)"
    by (auto simp: store_ok_def keys_dset keys_ddel wf_dict_dset wf_dict_ddel keyed_dset keyed_ddel)
  from Cons.IH [OF this] x show ?case by (simp add: quarantine_def)
qed (simp add: quarantine_def)

lemma store_ok_set_tombstone [wf_intros]: "store_ok st \<Longrightarrow> store_ok (fst (set_tombstone t d b st))"
proof -
  have keys: "fst ` set (mark_items t d b its) = fst ` set its" for its
    using keys_mark_items [of t d b its] by (metis list.set_map)
  assume "store_ok st"
  then show ?thesis
    by (simp add: store_ok_def set_tombstone_def wf_dict_def keys_mark_items keys keyed_mark_items)
qed

lemma keys_filter: "fst ` set (filter P d) \<subseteq> fst ` set d"
  by auto

lemma store_ok_purge [wf_intros]: "store_ok st \<Longrightarrow> store_ok (fst (purge t d st))"
  unfolding purge_def Let_def store_ok_def foldl_ddel_items
  by (auto simp: wf_dict_def keyed_def distinct_map_filter)

lemma store_ok_purge_quarantine [wf_intros]: "store_ok st \<Longrightarrow> store_ok (fst (purge_quarantine t d st))"
  unfolding purge_quarantine_def Let_def store_ok_def foldl_ddel_items
  by (auto simp: wf_dict_def keyed_def distinct_map_filter)

lemma reviewed_chunk_frame [frame_simps]:
  "c_chunk_id (reviewed_chunk m t b c) = c_chunk_id c"
  "c_tenant_id (reviewed_chunk m t b c) = c_tenant_id c"
  "c_document_id (reviewed_chunk m t b c) = c_document_id c"
  by (simp_all add: reviewed_chunk_def Let_def split: option.splits)

lemma store_ok_update_chunk_review [wf_intros]:
  assumes ok: "store_ok st"
  shows "store_ok (fst (update_chunk_review t k m tx vec b st))"
proof -
  have id: "c_chunk_id c = k" if "dget (vs_items st) k = Some (c, v) \<or> dget (vs_quarantine st) k = Some (c, v)" for c v
    using that ok by (auto simp: store_ok_def keyed_def dest!: dget_Some_in)
  have keys: "k \<in> fst ` set d \<longleftrightarrow> dget d k \<noteq> None" for d :: items
    by (simp add: map_of_eq_None_iff)
  show ?thesis
    using ok id keys [of "vs_items st"] keys [of "vs_quarantine st"]
    by (auto simp: update_chunk_review_def Let_def store_ok_def keys_dset keys_ddel frame_simps
        wf_dict_dset wf_dict_ddel intro!: keyed_dset keyed_ddel split: option.splits)
qed

lemma update_chunk_review_cases:
  assumes upd: "update_chunk_review t cid m tx vec b st = (st', applied)"
  obtains (rejected) "st' = st" "\<not> applied"
  | (edited) c v where "applied" "dget (vs_items st) cid \<noteq> None" "st' = st\<lparr>vs_items := dset cid (c, v) (vs_items st)\<rparr>"
  | (held) c v where "applied" "st' = st\<lparr>vs_quarantine := dset cid (c, v) (vs_quarantine st)\<rparr>"
  | (released) c v where "applied" "c_tenant_id c = t" "\<not> c_tombstone c"
      "py_get_str (c_metadata c) ''extraction_quality_status'' = ''manual_approved''"
      "st' = st\<lparr>vs_quarantine := ddel cid (vs_quarantine st), vs_items := dset cid (c, v) (vs_items st)\<rparr>"
proof (cases "dget (vs_items st) cid")
  case (Some x)
  obtain c v where "x = (c, v)" by (cases x)
  with Some upd show ?thesis
    by (cases "c_tenant_id c = t") (auto simp: update_chunk_review_def Let_def intro: rejected edited)
next
  case None
  note n = None
  show ?thesis
  proof (cases "dget (vs_quarantine st) cid")
    case None
    with n upd show ?thesis by (auto simp: update_chunk_review_def Let_def intro: rejected)
  next
    case (Some x)
    obtain c v where x: "x = (c, v)" by (cases x)
    let ?c = "reviewed_chunk m tx b c" and ?v = "case vec of None \<Rightarrow> v | Some v \<Rightarrow> v"
    let ?ok = "py_get_str (c_metadata ?c) ''extraction_quality_status'' = ''manual_approved'' \<and> \<not> c_tombstone ?c"
    show ?thesis
    proof (cases "c_tenant_id c = t")
      case True
      then have "(st', applied) = (if ?ok then
          (st\<lparr>vs_quarantine := ddel cid (vs_quarantine st), vs_items := dset cid (?c, ?v) (vs_items st)\<rparr>, True)
          else (st\<lparr>vs_quarantine := dset cid (?c, ?v) (vs_quarantine st)\<rparr>, True))"
        using upd n Some x by (simp add: update_chunk_review_def Let_def cong: if_cong)
      with True show ?thesis by (cases ?ok) (auto intro: held released [of ?c ?v] simp: frame_simps)
    qed (use upd n Some x in \<open>auto simp: update_chunk_review_def Let_def intro: rejected\<close>)
  qed
qed

inductive store_reachable :: "vector_store \<Rightarrow> bool" where
  s_new: "store_reachable new_store"
| s_upsert: "store_reachable st \<Longrightarrow> store_reachable (upsert cs st)"
| s_quarantine: "store_reachable st \<Longrightarrow> store_reachable (quarantine cs st)"
| s_review: "store_reachable st \<Longrightarrow> store_reachable (fst (update_chunk_review t k m tx vec b st))"
| s_search: "store_reachable st \<Longrightarrow> store_reachable (fst (search t q vis k st))"
| s_tombstone: "store_reachable st \<Longrightarrow> store_reachable (fst (set_tombstone t d b st))"
| s_purge: "store_reachable st \<Longrightarrow> store_reachable (fst (purge t d st))"
| s_purge_quarantine: "store_reachable st \<Longrightarrow> store_reachable (fst (purge_quarantine t d st))"

lemma search_frame [frame_simps]:
  "vs_items (fst (search t q vis k st)) = vs_items st"
  "vs_quarantine (fst (search t q vis k st)) = vs_quarantine st"
  by (simp_all add: search_def Let_def)

lemma store_ok_search [wf_intros]: "store_ok st \<Longrightarrow> store_ok (fst (search t q vis k st))"
  by (simp add: store_ok_def frame_simps)

lemma store_reachable_ok: "store_reachable st \<Longrightarrow> store_ok st"
  by (induction rule: store_reachable.induct) (simp_all add: store_ok_new wf_intros)

section \<open>The contract of a store that can hide a document\<close>

locale hiding_store =
  fixes invar :: "'s \<Rightarrow> bool"
    and live :: "'s \<Rightarrow> string \<Rightarrow> string set"
    and hide :: "string \<Rightarrow> string \<Rightarrow> 's \<Rightarrow> 's"
    and erase :: "string \<Rightarrow> string \<Rightarrow> 's \<Rightarrow> 's"
  assumes hide_invar: "invar s \<Longrightarrow> invar (hide t d s)"
    and erase_invar: "invar s \<Longrightarrow> invar (erase t d s)"
    and live_hide: "invar s \<Longrightarrow> live (hide t d s) u = (if u = t then live s u - {d} else live s u)"
    and live_erase: "invar s \<Longrightarrow> live (erase t d s) u = (if u = t then live s u - {d} else live s u)"
begin

lemma hide_erase: "invar s \<Longrightarrow> live (erase t d (hide t d s)) u = (if u = t then live s u - {d} else live s u)"
  by (simp add: hide_invar live_hide live_erase)

lemma invar_hide_all: "invar s \<Longrightarrow> invar (fold (hide t) ds s)"
  by (induction ds arbitrary: s) (simp_all add: hide_invar)

lemma live_hide_all:
  "invar s \<Longrightarrow> live (fold (hide t) ds s) u = (if u = t then live s u - set ds else live s u)"
  by (induction ds arbitrary: s) (auto simp: hide_invar live_hide)

end

lemma in_live_docs:
  "x \<in> live_docs st t \<longleftrightarrow> (\<exists>p\<in>set (vs_items st). c_tenant_id (fst (snd p)) = t \<and>
     \<not> c_tombstone (fst (snd p)) \<and> c_document_id (fst (snd p)) = x)"
  by (force simp: live_docs_def)

lemma live_docs_set_tombstone:
  "live_docs (fst (set_tombstone t d True st)) u = (if u = t then live_docs st u - {d} else live_docs st u)"
proof (rule set_eqI)
  fix x
  have "x \<in> live_docs (fst (set_tombstone t d True st)) u \<longleftrightarrow>
      (\<exists>p\<in>set (vs_items st). c_tenant_id (fst (snd p)) = u \<and> \<not> of_document t d (fst (snd p)) \<and>
         \<not> c_tombstone (fst (snd p)) \<and> c_document_id (fst (snd p)) = x)"
  proof -
    have items: "vs_items (fst (set_tombstone t d True st)) = mark_items t d True (vs_items st)"
      by (simp add: set_tombstone_def)
    have bex: "(\<exists>p\<in>f ` A. P p) \<longleftrightarrow> (\<exists>p\<in>A. P (f p))" for f :: "string \<times> chunk \<times> vector \<Rightarrow> string \<times> chunk \<times> vector" and A P
      by blast
    show ?thesis unfolding in_live_docs items set_mark_items bex
      by (intro bex_cong refl) (auto split: prod.splits if_splits)
  qed
  then show "x \<in> live_docs (fst (set_tombstone t d True st)) u \<longleftrightarrow>
      x \<in> (if u = t then live_docs st u - {d} else live_docs st u)"
    by (auto simp: in_live_docs of_document_def)
qed

lemma live_docs_purge:
  assumes "store_ok st"
  shows "live_docs (fst (purge t d st)) u = (if u = t then live_docs st u - {d} else live_docs st u)"
proof -
  have "vs_items (fst (purge t d st)) = filter (\<lambda>(cid, (c, v)). \<not> of_document t d c) (vs_items st)"
    using assms by (simp add: purge_def Let_def purge_items store_ok_def)
  then show ?thesis by (auto simp: live_docs_def of_document_def)
qed

interpretation vstore: hiding_store store_ok live_docs "\<lambda>t d st. fst (set_tombstone t d True st)" "\<lambda>t d st. fst (purge t d st)"
  by unfold_locales (simp_all add: wf_intros live_docs_set_tombstone live_docs_purge)

section \<open>The retrieval legs\<close>

lemma sorted_wrt_sort_key: "sorted_wrt (\<lambda>x y. f x \<le> f y) (sort_key f xs)"
  using sorted_sort_key [of f xs] by (simp add: sorted_map)

lemma py_take_omitted:
  assumes "sorted_wrt R xs" and "x \<in> set xs" and "x \<notin> set (py_take k xs)" and "y \<in> set (py_take k xs)"
  shows "R y x"
proof -
  have "R y x" if "x \<in> set xs" "x \<notin> set (take n xs)" "y \<in> set (take n xs)" for n
  proof -
    have "sorted_wrt R (take n xs @ drop n xs)" using assms(1) by simp
    moreover have "x \<in> set (drop n xs)" using that(1,2) by (metis Un_iff append_take_drop_id set_append)
    ultimately show ?thesis using that(3) unfolding sorted_wrt_append by blast
  qed
  with assms show ?thesis by (simp add: py_take_def split: if_splits)
qed

lemma length_py_take: "0 \<le> k \<Longrightarrow> length (py_take k xs) = min (nat k) (length xs)"
  by (simp add: py_take_def)

lemma set_candidates:
  "c \<in> set (filter (prefilter t vis) (map fst (iter_items st))) \<longleftrightarrow>
     prefilter t vis c \<and> (\<exists>cid v. (cid, (c, v)) \<in> set (vs_items st))"
  by (force simp: iter_items_def)

lemma search_hits:
  "s \<in> set (snd (search t q vis k st)) \<Longrightarrow>
     \<exists>cid v. (cid, (sc_chunk s, v)) \<in> set (vs_items st) \<and> prefilter t vis (sc_chunk s) \<and>
       sc_retrieval_score s = cosine q v"
  unfolding search_def Let_def snd_conv by (drule subsetD [OF set_py_take]) (auto simp: iter_items_def, blast)

lemma metadata_hits:
  "s \<in> set (metadata_exact_matches qi mc t q vis k st) \<Longrightarrow>
     prefilter t vis (sc_chunk s) \<and> (\<exists>cid v. (cid, (sc_chunk s, v)) \<in> set (vs_items st))"
  unfolding metadata_exact_matches_def Let_def
  by (auto split: if_splits simp: iter_items_def dest!: subsetD [OF set_py_take], blast)

lemma lexical_hits:
  "s \<in> set (lexical_matches qt ct ts dm ms t q vis k st) \<Longrightarrow>
     prefilter t vis (sc_chunk s) \<and> (\<exists>cid v. (cid, (sc_chunk s, v)) \<in> set (vs_items st))"
  unfolding lexical_matches_def Let_def
  by (auto split: if_splits simp: iter_items_def dest!: subsetD [OF set_py_take])

lemma search_hits_live: "s \<in> set (snd (search t q vis k st)) \<Longrightarrow> c_document_id (sc_chunk s) \<in> live_docs st t"
  by (drule search_hits) (auto simp: live_docs_def prefilter_def)

lemma metadata_hits_live:
  "s \<in> set (metadata_exact_matches qi mc t q vis k st) \<Longrightarrow> c_document_id (sc_chunk s) \<in> live_docs st t"
  by (drule metadata_hits) (auto simp: live_docs_def prefilter_def)

lemma lexical_hits_live:
  "s \<in> set (lexical_matches qt ct ts dm ms t q vis k st) \<Longrightarrow> c_document_id (sc_chunk s) \<in> live_docs st t"
  by (drule lexical_hits) (auto simp: live_docs_def prefilter_def)

section \<open>Properties\<close>

text \<open>Vector search returns the best in-tenant, live, visible chunks: every hit passed the pre-filter and
  carries its own score, hits come in descending score order, a candidate that is left out scores no
  higher than any hit, and a non-negative \<open>top_k\<close> caps the number of hits at the candidates there are.\<close>

theorem vector_search_is_prefiltered_top_k:
  assumes "search t q visible k st = (st', hits)"
  shows "(\<forall>s\<in>set hits. prefilter t visible (sc_chunk s) \<and>
            (\<exists>cid v. (cid, (sc_chunk s, v)) \<in> set (vs_items st) \<and> sc_retrieval_score s = cosine q v))
    \<and> sorted_wrt (\<lambda>x y. sc_retrieval_score y \<le> sc_retrieval_score x) hits
    \<and> (\<forall>(cid, (c, v))\<in>set (vs_items st). prefilter t visible c \<longrightarrow>
          \<lparr>sc_chunk = c, sc_retrieval_score = cosine q v\<rparr> \<in> set hits \<or>
          (\<forall>s\<in>set hits. cosine q v \<le> sc_retrieval_score s))
    \<and> (0 \<le> k \<longrightarrow> length hits = min (nat k) (vs_last_prefiltered_count st'))"
proof -
  let ?scored = "map (\<lambda>(c, v). \<lparr>sc_chunk = c, sc_retrieval_score = cosine q v\<rparr>)
     (filter (\<lambda>(c, v). prefilter t visible c) (iter_items st))"
  let ?all = "sort_key (\<lambda>s. - sc_retrieval_score s) ?scored"
  have hits: "hits = py_take k ?all" and st': "vs_last_prefiltered_count st' = length ?scored"
    using assms by (auto simp: search_def Let_def)
  have sorted: "sorted_wrt (\<lambda>x y. sc_retrieval_score y \<le> sc_retrieval_score x) ?all"
    using sorted_wrt_sort_key [of "\<lambda>s. - sc_retrieval_score s" ?scored] by simp
  have omitted: "\<lparr>sc_chunk = c, sc_retrieval_score = cosine q v\<rparr> \<in> set hits \<or>
      (\<forall>s\<in>set hits. cosine q v \<le> sc_retrieval_score s)"
    if "(cid, (c, v)) \<in> set (vs_items st)" "prefilter t visible c" for cid c v
  proof -
    have "\<lparr>sc_chunk = c, sc_retrieval_score = cosine q v\<rparr> \<in> set ?all"
      using that by (force simp: iter_items_def)
    from py_take_omitted [OF sorted this] show ?thesis unfolding hits by auto
  qed
  have len: "0 \<le> k \<longrightarrow> length hits = min (nat k) (vs_last_prefiltered_count st')"
    unfolding st' hits by (simp add: length_py_take)
  show ?thesis
    using search_hits [of _ t q visible k st] assms sorted_py_take [OF sorted, of k] omitted len
    by (fastforce simp: hits)
qed

theorem vector_search_is_prefiltered_top_k_witness:
  "map (\<lambda>s. c_chunk_id (sc_chunk s)) (snd (search ''t'' [2] (\<lambda>_. True) 1
     (upsert [(\<lparr>c_tenant_id = ''t'', c_chunk_id = ''c1'', c_document_id = ''d'', c_collection_id = ''col'', c_text = [],
        c_position = 0, c_token_count = 0, c_heading_path = [], c_modality = TEXT, c_embedding_model_version = [],
        c_offset_mapping = None, c_metadata = [], c_tombstone = False\<rparr>, [3])] new_store))) = [''c1'']
   \<and> length (snd (search ''t'' [2] (\<lambda>_. True) 1 new_store)) = 0"
proof -
  have "length (snd (search ''t'' [2] (\<lambda>_. True) 1 new_store)) =
      min (nat 1) (vs_last_prefiltered_count (fst (search ''t'' [2] (\<lambda>_. True) 1 new_store)))"
    using vector_search_is_prefiltered_top_k [of "''t''" "[2]" "\<lambda>_. True" 1 new_store,
      OF prod.collapse [symmetric], THEN conjunct2, THEN conjunct2, THEN conjunct2] by simp
  then show ?thesis
    by (simp add: search_def upsert_def new_store_def iter_items_def prefilter_def py_take_def)
qed

text \<open>No retrieval leg leaks: with the ACL visibility predicate of a principal, every chunk any of the
  three legs returns is a live chunk of the searched tenant, that tenant is the principal's own, and
  some grant of the policy covers the read.\<close>

theorem retrieval_legs_respect_acl:
  assumes "s \<in> set (snd (search t qv (visibility pol p) k st))
         \<union> set (metadata_exact_matches qi mc t q (visibility pol p) k st)
         \<union> set (lexical_matches qt ct ts dm ms t q (visibility pol p) k st)"
  shows "c_tenant_id (sc_chunk s) = t \<and> id_tenant_id p = t \<and> \<not> c_tombstone (sc_chunk s) \<and>
     (\<exists>g\<in>set (p_grants pol). grant_covers (subjects_of p) t (c_collection_id (sc_chunk s)) (c_document_id (sc_chunk s)) g)"
proof -
  have "prefilter t (visibility pol p) (sc_chunk s)"
    using assms by (elim UnE) (drule search_hits metadata_hits lexical_hits, blast)+
  then show ?thesis by (auto simp: prefilter_def visibility_def can_read_iff)
qed

theorem retrieval_legs_respect_acl_witness:
  "id_tenant_id \<lparr>id_tenant_id = ''t'', id_user_id = ''u'', id_groups = [], id_roles = []\<rparr> = ''t''"
proof -
  let ?c = "\<lparr>c_tenant_id = ''t'', c_chunk_id = ''c1'', c_document_id = ''d'', c_collection_id = ''col'', c_text = [],
     c_position = 0, c_token_count = 0, c_heading_path = [], c_modality = TEXT, c_embedding_model_version = [],
     c_offset_mapping = None, c_metadata = [], c_tombstone = False\<rparr>"
  let ?p = "\<lparr>id_tenant_id = ''t'', id_user_id = ''u'', id_groups = [], id_roles = []\<rparr>"
  let ?pol = "\<lparr>p_grants = [\<lparr>g_tenant_id = ''t'', g_scope_type = COLLECTION, g_scope_id = ''col'',
     g_subject_type = USER, g_subject_id = ''u'', g_permission = ''read''\<rparr>]\<rparr>"
  have "\<lparr>sc_chunk = ?c, sc_retrieval_score = 6\<rparr> \<in>
     set (snd (search ''t'' [2] (visibility ?pol ?p) 5 (upsert [(?c, [3])] new_store)))"
    by (simp add: search_def upsert_def new_store_def iter_items_def prefilter_def visibility_def can_read_def
        subjects_of_def cosine_def py_take_def)
  from retrieval_legs_respect_acl [OF UnI1 [OF UnI1 [OF this]]] show ?thesis by blast
qed



text \<open>The primary index is keyed by the chunk id alone, and ingestion derives that id from the document id
  and the position only. Writing a chunk therefore drops whatever either index held under the same id,
  also when it belongs to another tenant: the old entry is gone from the whole store.\<close>

theorem upsert_displaces_same_chunk_id:
  assumes "store_ok st" and "c_chunk_id c = c_chunk_id c0" and "c0 \<noteq> c"
  shows "(c0, v0) \<notin> set (iter_all_items (upsert [(c, v)] st))
    \<and> (c, v) \<in> set (iter_items (upsert [(c, v)] st))
    \<and> (\<forall>k. k \<noteq> c_chunk_id c \<longrightarrow> dget (vs_items (upsert [(c, v)] st)) k = dget (vs_items st) k)"
proof -
  have "c_chunk_id x = cid" if "(cid, (x, w)) \<in> set (vs_items st) \<union> set (vs_quarantine st)" for cid x w
    using that assms(1) by (auto simp: store_ok_def keyed_def)
  with assms show ?thesis
    by (fastforce simp: upsert_def iter_all_items_def iter_items_def store_ok_def set_dset ddel_filter dict_simps)
qed

theorem upsert_displaces_same_chunk_id_witness:
  "let c = \<lparr>c_tenant_id = ''tenant-a'', c_chunk_id = ''manual:0'', c_document_id = ''manual'', c_collection_id = ''col'',
       c_text = [], c_position = 0, c_token_count = 0, c_heading_path = [], c_modality = TEXT,
       c_embedding_model_version = [], c_offset_mapping = None, c_metadata = [], c_tombstone = False\<rparr>
   in (c, [1]) \<in> set (iter_all_items (upsert [(c, [1])] new_store)) \<and>
      (c, [1]) \<notin> set (iter_all_items (upsert [(c\<lparr>c_tenant_id := ''tenant-b''\<rparr>, [2])] (upsert [(c, [1])] new_store)))"
  unfolding Let_def
  by (rule conjI, simp add: upsert_def new_store_def iter_all_items_def,
      rule upsert_displaces_same_chunk_id [OF store_ok_upsert [OF store_ok_new], THEN conjunct1]) simp_all

end
