(* ===== verification/Deletion.thy ===== *)
theory Deletion
  imports VectorStore Cache
begin

text \<open>
  Document deletion: the service of \<open>services/deletion.py\<close> over the document registry
  (\<open>services/ingestion.py\<close>), the vector store, the cache and the crop store (\<open>services/crop.py\<close>).
  The state holds them together, because the service mutates all of them; a service built without a
  crop store has \<open>ds_crops = None\<close>. The wall clock is an argument of \<open>delete\<close>.
\<close>

section \<open>The document registry\<close>

type_synonym registry = "(string \<times> string, document) dict"

definition registry_get :: "string \<Rightarrow> string \<Rightarrow> registry \<Rightarrow> document option" where
  "registry_get tenant_id document_id reg = dget reg (tenant_id, document_id)"

definition registry_put :: "document \<Rightarrow> registry \<Rightarrow> registry" where
  "registry_put doc reg = dset (d_tenant_id doc, d_document_id doc) doc reg"

definition documents_for_tenant :: "string \<Rightarrow> registry \<Rightarrow> document list" where
  "documents_for_tenant tenant_id reg = map snd (filter (\<lambda>(k, d). fst k = tenant_id) reg)"

section \<open>Visual crops\<close>

record crop_artifact =
  cr_tenant_id :: string
  cr_collection_id :: string
  cr_document_id :: string
  cr_asset_id :: string
  cr_region_id :: string
  cr_crop_id :: string
  cr_bbox :: bounding_box
  cr_crop_uri :: string
  cr_redaction_policy_ref :: string
  cr_metadata :: pydict
  cr_tombstone :: bool

type_synonym crop_store = "(string \<times> string, crop_artifact) dict"

definition crop_put :: "crop_artifact \<Rightarrow> crop_store \<Rightarrow> crop_store" where
  "crop_put crop cs = dset (cr_tenant_id crop, cr_crop_id crop) crop cs"

definition crop_get :: "string \<Rightarrow> string \<Rightarrow> crop_store \<Rightarrow> crop_artifact option" where
  "crop_get tenant_id crop_id cs =
     (case dget cs (tenant_id, crop_id) of
        None \<Rightarrow> None
      | Some crop \<Rightarrow> if cr_tombstone crop then None else Some crop)"

definition crop_matches :: "string \<Rightarrow> string \<Rightarrow> (string \<times> string) \<times> crop_artifact \<Rightarrow> bool" where
  "crop_matches tenant_id document_id = (\<lambda>((t, i), crop).
     t = tenant_id \<and> cr_document_id crop = document_id \<and> \<not> cr_tombstone crop)"

definition list_document :: "string \<Rightarrow> string \<Rightarrow> crop_store \<Rightarrow> crop_artifact list" where
  "list_document tenant_id document_id cs = map snd (filter (crop_matches tenant_id document_id) cs)"

definition tombstone_document :: "string \<Rightarrow> string \<Rightarrow> crop_store \<Rightarrow> crop_store \<times> nat" where
  "tombstone_document tenant_id document_id cs =
     (map (\<lambda>(k, crop). (k, if crop_matches tenant_id document_id (k, crop)
                           then crop\<lparr>cr_tombstone := True\<rparr> else crop)) cs,
      length (filter (crop_matches tenant_id document_id) cs))"

section \<open>The deletion service\<close>

record deletion_result =
  dr_tombstoned_chunks :: nat
  dr_invalidated_cache_entries :: nat
  dr_purged_chunks :: nat
  dr_tombstoned_crops :: nat
  dr_invalidated_visual_cache_entries :: nat
  dr_tombstoned_visual_assets :: nat
  dr_tombstoned_visual_regions :: nat
  dr_tombstoned_visual_embeddings :: nat

record deletion_record =
  del_tenant_id :: string
  del_document_id :: string
  del_deleted_at :: string
  del_reason :: string

record visual_refs =
  vr_asset_ids :: "string set"
  vr_region_ids :: "string set"
  vr_crop_ids :: "string set"

record 'v deletion_state =
  ds_store :: vector_store
  ds_registry :: registry
  ds_cache :: "'v cache_service"
  ds_log :: "deletion_record list"
  ds_crops :: "crop_store option"

definition purge_quality_partitioned_document ::
  "string \<Rightarrow> string \<Rightarrow> vector_store \<Rightarrow> vector_store \<times> nat" where
  "purge_quality_partitioned_document tenant_id document_id st =
     (let (st1, n) = purge tenant_id document_id st;
          (st2, m) = purge_quarantine tenant_id document_id st1
      in (st2, n + m))"

definition metadata_ids :: "string \<Rightarrow> chunk list \<Rightarrow> string set" where
  "metadata_ids key chunks =
     set (map (\<lambda>c. py_str (py_get (c_metadata c) key)) (filter (\<lambda>c. py_truthy (py_get (c_metadata c) key)) chunks))"

definition visual_refs_of :: "string \<Rightarrow> string \<Rightarrow> 'v deletion_state \<Rightarrow> visual_refs" where
  "visual_refs_of tenant_id document_id s =
     (let chunks = visual_chunks_for_document tenant_id document_id (ds_store s)
      in \<lparr>vr_asset_ids = metadata_ids ''asset_id'' chunks,
          vr_region_ids = metadata_ids ''region_id'' chunks,
          vr_crop_ids = (case ds_crops s of None \<Rightarrow> {}
             | Some cs \<Rightarrow> set (map cr_crop_id (list_document tenant_id document_id cs)))\<rparr>)"

definition record_deletion :: "string \<Rightarrow> string \<Rightarrow> string \<Rightarrow> deletion_record list \<Rightarrow> deletion_record list" where
  "record_deletion now tenant_id document_id entries =
     (if list_ex (\<lambda>r. del_tenant_id r = tenant_id \<and> del_document_id r = document_id) entries then entries
      else entries @ [\<lparr>del_tenant_id = tenant_id, del_document_id = document_id, del_deleted_at = now,
                   del_reason = ''delete_request''\<rparr>])"

definition tombstone_crops :: "string \<Rightarrow> string \<Rightarrow> crop_store option \<Rightarrow> crop_store option \<times> nat" where
  "tombstone_crops tenant_id document_id crops =
     (case crops of
        None \<Rightarrow> (None, 0)
      | Some cs \<Rightarrow> (let (cs', n) = tombstone_document tenant_id document_id cs in (Some cs', n)))"

definition tombstone_registered :: "string \<Rightarrow> string \<Rightarrow> registry \<Rightarrow> registry" where
  "tombstone_registered tenant_id document_id reg =
     (case registry_get tenant_id document_id reg of
        None \<Rightarrow> reg
      | Some doc \<Rightarrow> registry_put (doc\<lparr>d_tombstone := True\<rparr>) reg)"

definition delete :: "string \<Rightarrow> string \<Rightarrow> string \<Rightarrow> 'v deletion_state \<Rightarrow> 'v deletion_state \<times> deletion_result" where
  "delete now tenant_id document_id s =
     (let refs = visual_refs_of tenant_id document_id s;
          reg = tombstone_registered tenant_id document_id (ds_registry s);
          entries = record_deletion now tenant_id document_id (ds_log s);
          (store, tombstoned) = set_tombstone tenant_id document_id True (ds_store s);
          (cache, invalidated) = invalidate_document tenant_id document_id (ds_cache s);
          (cache, invalidated_visual) =
             invalidate_visual_artifacts tenant_id (Some (vr_asset_ids refs)) (Some (vr_crop_ids refs)) cache;
          (crops, tombstoned_crops) = tombstone_crops tenant_id document_id (ds_crops s);
          (store, purged) = purge_quality_partitioned_document tenant_id document_id store
      in (\<lparr>ds_store = store, ds_registry = reg, ds_cache = cache, ds_log = entries, ds_crops = crops\<rparr>,
          \<lparr>dr_tombstoned_chunks = tombstoned,
           dr_invalidated_cache_entries = invalidated + invalidated_visual,
           dr_purged_chunks = purged,
           dr_tombstoned_crops = tombstoned_crops,
           dr_invalidated_visual_cache_entries = invalidated_visual,
           dr_tombstoned_visual_assets = card (vr_asset_ids refs),
           dr_tombstoned_visual_regions = card (vr_region_ids refs),
           dr_tombstoned_visual_embeddings = card (vr_region_ids refs)\<rparr>))"

definition deletion_log :: "string \<Rightarrow> 'v deletion_state \<Rightarrow> deletion_record list" where
  "deletion_log tenant_id s = filter (\<lambda>r. del_tenant_id r = tenant_id) (ds_log s)"

definition reapply_one :: "deletion_record \<Rightarrow> 'v deletion_state \<Rightarrow> 'v deletion_state" where
  "reapply_one r s =
     (let t = del_tenant_id r; d = del_document_id r;
          refs = visual_refs_of t d s;
          reg = tombstone_registered t d (ds_registry s);
          store = fst (set_tombstone t d True (ds_store s));
          cache = fst (invalidate_document t d (ds_cache s));
          cache = fst (invalidate_visual_artifacts t (Some (vr_asset_ids refs)) (Some (vr_crop_ids refs)) cache)
      in s\<lparr>ds_store := store, ds_registry := reg, ds_cache := cache,
           ds_crops := fst (tombstone_crops t d (ds_crops s))\<rparr>)"

definition reapply_tombstones :: "string \<Rightarrow> 'v deletion_state \<Rightarrow> 'v deletion_state \<times> nat" where
  "reapply_tombstones tenant_id s =
     (let entries = deletion_log tenant_id s in (fold reapply_one entries s, length entries))"

section \<open>Effect on each component\<close>

lemma filter_mark_items:
  "filter (\<lambda>(cid, (c, v)). \<not> of_document t d c) (mark_items t d b its) =
     filter (\<lambda>(cid, (c, v)). \<not> of_document t d c) its"
  by (induction its) (auto simp: mark_items_def of_document_def)

lemma count_mark_items: "count_items t d (mark_items t d b its) = count_items t d its"
  by (induction its) (auto simp: mark_items_def count_items_def of_document_def split: if_splits)

lemma purge_frame [frame_simps]:
  "vs_quarantine (fst (purge t d st)) = vs_quarantine st"
  "vs_items (fst (purge_quarantine t d st)) = vs_items st"
  by (simp_all add: purge_def purge_quarantine_def Let_def)

lemma store_after_purge:
  assumes "store_ok st"
  shows "vs_items (fst (purge_quality_partitioned_document t d st)) =
      filter (\<lambda>(cid, (c, v)). \<not> of_document t d c) (vs_items st)"
    and "vs_quarantine (fst (purge_quality_partitioned_document t d st)) =
      filter (\<lambda>(cid, (c, v)). \<not> of_document t d c) (vs_quarantine st)"
    and "snd (purge_quality_partitioned_document t d st) = count_items t d (vs_items st @ vs_quarantine st)"
  using assms
  by (simp_all add: purge_quality_partitioned_document_def purge_def purge_quarantine_def Let_def split_def
      purge_items [unfolded split_def] store_ok_def count_items_def)

lemma store_ok_purge_both [wf_intros]:
  "store_ok st \<Longrightarrow> store_ok (fst (purge_quality_partitioned_document t d st))"
  by (simp add: purge_quality_partitioned_document_def Let_def split_def wf_intros)

definition keyed_registry :: "registry \<Rightarrow> bool" where
  "keyed_registry reg \<longleftrightarrow> (\<forall>k doc. dget reg k = Some doc \<longrightarrow> k = (d_tenant_id doc, d_document_id doc))"

lemma tombstone_registered_eq:
  assumes "keyed_registry reg"
  shows "dget (tombstone_registered t d reg) k =
     (if k = (t, d) then map_option (\<lambda>doc. doc\<lparr>d_tombstone := True\<rparr>) (dget reg k) else dget reg k)"
proof (cases "dget reg (t, d)")
  case None
  then show ?thesis by (simp add: tombstone_registered_def registry_get_def)
next
  case (Some doc)
  with assms have "d_tenant_id doc = t" "d_document_id doc = d" by (auto simp: keyed_registry_def)
  with Some show ?thesis
    by (simp add: tombstone_registered_def registry_get_def registry_put_def dget_dset)
qed

lemma keyed_tombstone_registered [wf_intros]:
  assumes "keyed_registry reg"
  shows "keyed_registry (tombstone_registered t d reg)"
  using assms unfolding keyed_registry_def [of "tombstone_registered t d reg"] tombstone_registered_eq [OF assms]
  by (auto simp: keyed_registry_def)

lemma dget_map_val: "dget (map (\<lambda>(k, v). (k, f k v)) m) k = map_option (f k) (dget m k)"
  by (induction m) auto

lemma crop_get_tombstone_document:
  "crop_get u i (fst (tombstone_document t d cs)) =
     (case crop_get u i cs of None \<Rightarrow> None
      | Some crop \<Rightarrow> if u = t \<and> cr_document_id crop = d then None else Some crop)"
  unfolding crop_get_def tombstone_document_def fst_conv dget_map_val
  by (cases "dget cs (u, i)") (simp_all add: crop_matches_def)

section \<open>The invariant of the service\<close>

definition deletion_ok :: "'v deletion_state \<Rightarrow> bool" where
  "deletion_ok s \<longleftrightarrow> store_ok (ds_store s) \<and> cache_ok (ds_cache s) \<and>
     keyed_registry (ds_registry s)"

lemma delete_components:
  fixes s :: "'v deletion_state"
  assumes "delete now t d s = (s', r)"
  shows "ds_store s' = fst (purge_quality_partitioned_document t d (fst (set_tombstone t d True (ds_store s))))"
    and "ds_registry s' = tombstone_registered t d (ds_registry s)"
    and "ds_log s' = record_deletion now t d (ds_log s)"
    and "ds_crops s' = fst (tombstone_crops t d (ds_crops s))"
    and "ds_cache s' = fst (invalidate_visual_artifacts t (Some (vr_asset_ids (visual_refs_of t d s)))
           (Some (vr_crop_ids (visual_refs_of t d s))) (fst (invalidate_document t d (ds_cache s))))"
    and "dr_tombstoned_chunks r = snd (set_tombstone t d True (ds_store s))"
    and "dr_purged_chunks r = snd (purge_quality_partitioned_document t d (fst (set_tombstone t d True (ds_store s))))"
proof -
  have s': "s' = fst (delete now t d s)" and r: "r = snd (delete now t d s)" using assms by simp_all
  note defs = delete_def Let_def split_def
  show "ds_store s' = fst (purge_quality_partitioned_document t d (fst (set_tombstone t d True (ds_store s))))"
    "ds_registry s' = tombstone_registered t d (ds_registry s)"
    "ds_log s' = record_deletion now t d (ds_log s)"
    "ds_crops s' = fst (tombstone_crops t d (ds_crops s))"
    "ds_cache s' = fst (invalidate_visual_artifacts t (Some (vr_asset_ids (visual_refs_of t d s)))
           (Some (vr_crop_ids (visual_refs_of t d s))) (fst (invalidate_document t d (ds_cache s))))"
    unfolding s' defs by simp_all
  show "dr_tombstoned_chunks r = snd (set_tombstone t d True (ds_store s))"
    "dr_purged_chunks r = snd (purge_quality_partitioned_document t d (fst (set_tombstone t d True (ds_store s))))"
    unfolding r defs by simp_all
qed

lemma deletion_ok_delete [wf_intros]: "deletion_ok s \<Longrightarrow> deletion_ok (fst (delete now t d s))"
proof -
  assume ok: "deletion_ok s"
  obtain s' r where d: "delete now t d s = (s', r)" by (cases "delete now t d s")
  show ?thesis
    using ok by (simp add: d deletion_ok_def delete_components [OF d] wf_intros)
qed

lemma reapply_components:
  "ds_store (reapply_one r s) = fst (set_tombstone (del_tenant_id r) (del_document_id r) True (ds_store s))"
  "ds_registry (reapply_one r s) = tombstone_registered (del_tenant_id r) (del_document_id r) (ds_registry s)"
  "ds_log (reapply_one r s) = ds_log s"
  by (simp_all add: reapply_one_def Let_def)

lemma deletion_ok_reapply [wf_intros]: "deletion_ok s \<Longrightarrow> deletion_ok (reapply_one r s)"
  by (simp add: deletion_ok_def reapply_components reapply_one_def Let_def wf_intros)

section \<open>What is gone, and what is kept\<close>

lemma dget_drop_keys: "dget (filter (\<lambda>p. fst p \<notin> S) m) k = (if k \<in> S then None else dget m k)"
  using dget_filter_key [of "\<lambda>k. k \<notin> S" m k] by simp

lemma cached_invalidate_visual:
  "cached (fst (invalidate_visual_artifacts t as crs c)) u k = Some e \<Longrightarrow> cached c u k = Some e"
  unfolding cached_def invalidate_visual_artifacts_def Let_def foldl_ddel fst_conv
  by (simp add: dget_drop_keys split: if_splits)

definition gone :: "string \<Rightarrow> string \<Rightarrow> 'v deletion_state \<Rightarrow> bool" where
  "gone t d s \<longleftrightarrow> d \<notin> live_docs (ds_store s) t
    \<and> (\<forall>k e. cached (ds_cache s) t k = Some e \<longrightarrow> d \<notin> ce_document_ids e)
    \<and> (\<forall>doc. registry_get t d (ds_registry s) = Some doc \<longrightarrow> d_tombstone doc)
    \<and> (\<forall>cs i crop. ds_crops s = Some cs \<and> crop_get t i cs = Some crop \<longrightarrow> cr_document_id crop \<noteq> d)"

lemma crops_tombstoned:
  "fst (tombstone_crops t d crops) = Some cs \<Longrightarrow> crop_get u i cs = Some crop \<Longrightarrow>
     (u = t \<longrightarrow> cr_document_id crop \<noteq> d) \<and> (\<exists>cs0. crops = Some cs0 \<and> crop_get u i cs0 = Some crop)"
  by (auto simp: tombstone_crops_def split_def crop_get_tombstone_document Let_def split: option.splits if_splits)

lemma invalidated_cache:
  assumes "cache_ok c" "cached (fst (invalidate_visual_artifacts t as crs (fst (invalidate_document t d c)))) t k = Some e"
  shows "d \<notin> ce_document_ids e \<and> cached c t k = Some e"
  using cached_invalidate_visual [OF assms(2)] doccache.no_stale_entry [OF assms(1)]
    doccache.inval_entry [OF assms(1), of t d t k]
  by (auto split: option.splits if_splits)

lemma gone_registry:
  assumes "keyed_registry reg"
  shows "registry_get t d (tombstone_registered t d reg) = Some doc \<Longrightarrow> d_tombstone doc"
  using tombstone_registered_eq [OF assms, of t d "(t, d)"] by (auto simp: registry_get_def)

lemma registry_still_tombstoned:
  assumes "keyed_registry reg" "\<forall>doc. registry_get t e reg = Some doc \<longrightarrow> d_tombstone doc"
  shows "\<forall>doc. registry_get t e (tombstone_registered u d reg) = Some doc \<longrightarrow> d_tombstone doc"
  using assms(2) unfolding registry_get_def tombstone_registered_eq [OF assms(1)] by auto

lemma gone_delete:
  assumes "deletion_ok s"
  shows "gone t d (fst (delete now t d s))"
proof -
  obtain s' r where d: "delete now t d s = (s', r)" by (cases "delete now t d s")
  have st: "store_ok (ds_store s)" and c: "cache_ok (ds_cache s)" and reg: "keyed_registry (ds_registry s)"
    using assms by (simp_all add: deletion_ok_def)
  have "live_docs (ds_store s') t = live_docs (fst (set_tombstone t d True (ds_store s))) t - {d}"
    unfolding delete_components [OF d]
    by (auto simp: live_docs_def store_after_purge(1) [OF store_ok_set_tombstone [OF st]] of_document_def)
  then have live: "d \<notin> live_docs (ds_store s') t" by simp
  show ?thesis unfolding gone_def d fst_conv
  proof (intro conjI allI impI live)
    show "d \<notin> ce_document_ids e" if "cached (ds_cache s') t k = Some e" for k e
      using invalidated_cache [OF c] that unfolding delete_components(5) [OF d] by blast
    show "d_tombstone doc" if "registry_get t d (ds_registry s') = Some doc" for doc
      using gone_registry [OF reg] that unfolding delete_components(2) [OF d] by blast
    show "cr_document_id crop \<noteq> d" if "ds_crops s' = Some cs \<and> crop_get t i cs = Some crop" for cs i crop
      using crops_tombstoned [of t d "ds_crops s" cs t i crop] that unfolding delete_components(4) [OF d] by blast
  qed
qed

lemma gone_reapply:
  assumes "deletion_ok s" and t: "del_tenant_id r = t"
  shows "gone t (del_document_id r) (reapply_one r s) \<and> (gone t e s \<longrightarrow> gone t e (reapply_one r s))"
proof -
  let ?d = "del_document_id r"
  have st: "store_ok (ds_store s)" and c: "cache_ok (ds_cache s)" and reg: "keyed_registry (ds_registry s)"
    using assms by (simp_all add: deletion_ok_def)
  have live: "live_docs (ds_store (reapply_one r s)) t = live_docs (ds_store s) t - {?d}"
    using vstore.live_hide [OF st, of t ?d t] by (simp add: reapply_components t)
  have ca: "cached (ds_cache (reapply_one r s)) t k = Some e \<Longrightarrow> ?d \<notin> ce_document_ids e \<and> cached (ds_cache s) t k = Some e" for k e
    using invalidated_cache [OF c] by (auto simp: reapply_one_def Let_def t)
  have cr: "ds_crops (reapply_one r s) = fst (tombstone_crops t ?d (ds_crops s))"
    by (simp add: reapply_one_def Let_def t)
  have stays: "gone t x (reapply_one r s)" if x: "x = ?d \<or> gone t x s" for x
    unfolding gone_def [of t x "reapply_one r s"]
  proof (intro conjI allI impI)
    show "x \<notin> live_docs (ds_store (reapply_one r s)) t" using x live by (auto simp: gone_def)
    show "x \<notin> ce_document_ids y" if "cached (ds_cache (reapply_one r s)) t k = Some y" for k y
      using ca [OF that] x by (auto simp: gone_def)
    show "d_tombstone doc" if get: "registry_get t x (ds_registry (reapply_one r s)) = Some doc" for doc
    proof (cases "x = ?d")
      case True
      with get gone_registry [OF reg] show ?thesis unfolding reapply_components t by blast
    next
      case False
      with x have "\<forall>doc. registry_get t x (ds_registry s) = Some doc \<longrightarrow> d_tombstone doc" by (simp add: gone_def)
      from registry_still_tombstoned [OF reg this, of t ?d] get show ?thesis
        unfolding reapply_components t by blast
    qed
    show "cr_document_id crop \<noteq> x" if get: "ds_crops (reapply_one r s) = Some cs \<and> crop_get t i cs = Some crop" for cs i crop
    proof -
      from get have "cr_document_id crop \<noteq> ?d" "\<exists>cs0. ds_crops s = Some cs0 \<and> crop_get t i cs0 = Some crop"
        using crops_tombstoned [of t ?d "ds_crops s" cs t i crop] unfolding cr by simp_all
      with x show ?thesis unfolding gone_def by blast
    qed
  qed
  show ?thesis using stays [of ?d] stays [of e] by simp
qed

lemma gone_reapply_all:
  "deletion_ok s \<Longrightarrow> \<forall>r\<in>set rs. del_tenant_id r = t \<Longrightarrow> e \<in> del_document_id ` set rs \<or> gone t e s \<Longrightarrow>
     gone t e (fold reapply_one rs s)"
proof (induction rs arbitrary: s)
  case (Cons r rs)
  have "gone t (del_document_id r) (reapply_one r s)" "gone t e s \<Longrightarrow> gone t e (reapply_one r s)"
    using gone_reapply [OF Cons.prems(1), of r t e] Cons.prems(2) by auto
  with Cons.prems(3) have "e \<in> del_document_id ` set rs \<or> gone t e (reapply_one r s)" by auto
  with Cons.IH [OF deletion_ok_reapply [OF Cons.prems(1)]] Cons.prems(2) show ?case by simp
qed simp

section \<open>The deletion log\<close>

lemma record_deletion_log:
  "(t, d) \<in> (\<lambda>r. (del_tenant_id r, del_document_id r)) ` set (record_deletion now t d entries)"
  "set entries \<subseteq> set (record_deletion now t d entries)"
  by (auto simp: record_deletion_def list_ex_iff image_iff)

lemma log_after_deletes:
  "set (ds_log s) \<subseteq> set (ds_log (fold (\<lambda>d s. fst (delete now t d s)) ds s)) \<and>
   (\<forall>d\<in>set ds. \<exists>r\<in>set (ds_log (fold (\<lambda>d s. fst (delete now t d s)) ds s)). del_tenant_id r = t \<and> del_document_id r = d)"
proof (induction ds arbitrary: s)
  case (Cons d ds)
  obtain s' r where d: "delete now t d s = (s', r)" by (cases "delete now t d s")
  have log: "ds_log s' = record_deletion now t d (ds_log s)" by (rule delete_components(3) [OF d])
  have "\<exists>r\<in>set (ds_log s'). del_tenant_id r = t \<and> del_document_id r = d"
    using record_deletion_log(1) [of t d now "ds_log s"] unfolding log by auto
  moreover have "set (ds_log s) \<subseteq> set (ds_log s')" unfolding log by (rule record_deletion_log(2))
  ultimately show ?case using Cons.IH [of s'] by (auto simp: d)
qed simp

section \<open>Properties\<close>

text \<open>C3: A deleted document is never served again (SC-003): after \<open>delete\<close> neither index holds a chunk of the
  document, so no vector search of the tenant returns it, no cached answer depends on it, its registry
  row is tombstoned, no crop of it can be fetched, and the deletion is on the log for a later restore.\<close>

theorem deleted_document_never_served:
  assumes "deletion_ok s" and "delete now t d s = (s', r)"
  shows "deletion_ok s'
    \<and> (\<forall>(c, v)\<in>set (iter_all_items (ds_store s')). \<not> (c_tenant_id c = t \<and> c_document_id c = d))
    \<and> (\<forall>hit\<in>set (snd (search t qv vis k (ds_store s'))). c_document_id (sc_chunk hit) \<noteq> d)
    \<and> (\<forall>key e. cached (ds_cache s') t key = Some e \<longrightarrow> d \<notin> ce_document_ids e)
    \<and> (\<forall>doc. registry_get t d (ds_registry s') = Some doc \<longrightarrow> d_tombstone doc)
    \<and> (\<forall>cs i crop. ds_crops s' = Some cs \<and> crop_get t i cs = Some crop \<longrightarrow> cr_document_id crop \<noteq> d)
    \<and> (\<exists>rec\<in>set (deletion_log t s'). del_document_id rec = d)"
proof -
  have ok: "deletion_ok s'" using deletion_ok_delete [OF assms(1), of now t d] assms(2) by simp
  have g: "gone t d s'" using gone_delete [OF assms(1), of t d now] assms(2) by simp
  have st: "store_ok (fst (set_tombstone t d True (ds_store s)))"
    using assms(1) by (simp add: deletion_ok_def store_ok_set_tombstone)
  have "\<forall>(c, v)\<in>set (iter_all_items (ds_store s')). \<not> (c_tenant_id c = t \<and> c_document_id c = d)"
    by (auto simp: iter_all_items_def delete_components(1) [OF assms(2)] store_after_purge [OF st] of_document_def)
  moreover have "\<forall>hit\<in>set (snd (search t qv vis k (ds_store s'))). c_document_id (sc_chunk hit) \<noteq> d"
    using g search_hits_live [of _ t qv vis k "ds_store s'"] by (auto simp: gone_def)
  moreover have "\<exists>rec\<in>set (deletion_log t s'). del_document_id rec = d"
    using record_deletion_log(1) [of t d now "ds_log s"] delete_components(3) [OF assms(2)]
    by (auto simp: deletion_log_def)
  ultimately show ?thesis using ok g unfolding gone_def by (intro conjI) auto
qed

definition sample_chunk :: "string \<Rightarrow> string \<Rightarrow> chunk" where
  "sample_chunk t d = \<lparr>c_tenant_id = t, c_chunk_id = d @ '':0'', c_document_id = d, c_collection_id = ''col'', c_text = [],
     c_position = 0, c_token_count = 0, c_heading_path = [], c_modality = TEXT, c_embedding_model_version = [],
     c_offset_mapping = None, c_metadata = [], c_tombstone = False\<rparr>"

definition sample_state :: "string deletion_state" where
  "sample_state = \<lparr>ds_store = upsert [(sample_chunk ''t'' ''d1'', [1]), (sample_chunk ''t'' ''d2'', [2])] new_store,
     ds_registry = [],
     ds_cache = cache_put ''t'' ''q'' ''answer'' {''d1''} None None \<lparr>cs_store = [], cs_max_entries_per_tenant = 10\<rparr>,
     ds_log = [], ds_crops = None\<rparr>"

lemma sample_state_ok: "deletion_ok sample_state"
  by (simp add: deletion_ok_def sample_state_def wf_intros store_ok_new cache_ok_new keyed_registry_def)

theorem deleted_document_never_served_witness:
  "map (\<lambda>h. c_document_id (sc_chunk h)) (snd (search ''t'' [1] (\<lambda>_. True) 5 (ds_store sample_state))) = [''d2'', ''d1''] \<and>
   ''d1'' \<notin> (\<lambda>h. c_document_id (sc_chunk h)) `
      set (snd (search ''t'' [1] (\<lambda>_. True) 5 (ds_store (fst (delete ''now'' ''t'' ''d1'' sample_state)))))"
proof (rule conjI)
  show "map (\<lambda>h. c_document_id (sc_chunk h)) (snd (search ''t'' [1] (\<lambda>_. True) 5 (ds_store sample_state))) = [''d2'', ''d1'']"
    by (simp add: sample_state_def sample_chunk_def search_def upsert_def new_store_def iter_items_def prefilter_def
        cosine_def py_take_def)
  show "''d1'' \<notin> (\<lambda>h. c_document_id (sc_chunk h)) `
      set (snd (search ''t'' [1] (\<lambda>_. True) 5 (ds_store (fst (delete ''now'' ''t'' ''d1'' sample_state)))))"
    by (rule not_in_imageI, rule deleted_document_never_served [OF sample_state_ok prod.collapse [symmetric],
          THEN conjunct2, THEN conjunct2, THEN conjunct1])
qed

text \<open>A deletion touches nothing else: every other chunk stays in its index unchanged, the live documents
  and registry rows of other documents and tenants stay, and exactly the chunks that were tombstoned are
  purged.\<close>

theorem delete_leaves_other_documents:
  assumes "deletion_ok s" and "delete now t d s = (s', r)"
  shows "vs_items (ds_store s') = filter (\<lambda>(cid, (c, v)). \<not> of_document t d c) (vs_items (ds_store s))
    \<and> vs_quarantine (ds_store s') = filter (\<lambda>(cid, (c, v)). \<not> of_document t d c) (vs_quarantine (ds_store s))
    \<and> live_docs (ds_store s') u = (if u = t then live_docs (ds_store s) u - {d} else live_docs (ds_store s) u)
    \<and> ((u, e) \<noteq> (t, d) \<longrightarrow> registry_get u e (ds_registry s') = registry_get u e (ds_registry s))
    \<and> dr_purged_chunks r = dr_tombstoned_chunks r"
proof -
  have st: "store_ok (ds_store s)" and reg: "keyed_registry (ds_registry s)"
    using assms(1) by (simp_all add: deletion_ok_def)
  note st' = store_ok_set_tombstone [OF st, of t d True]
  have items: "vs_items (ds_store s') = filter (\<lambda>(cid, (c, v)). \<not> of_document t d c) (vs_items (ds_store s))"
    "vs_quarantine (ds_store s') = filter (\<lambda>(cid, (c, v)). \<not> of_document t d c) (vs_quarantine (ds_store s))"
    unfolding delete_components(1) [OF assms(2)] store_after_purge [OF st']
    by (simp_all add: set_tombstone_def filter_mark_items)
  have "live_docs (ds_store s') u = (if u = t then live_docs (ds_store s) u - {d} else live_docs (ds_store s) u)"
    by (auto simp: live_docs_def items of_document_def)
  moreover have "registry_get u e (ds_registry s') = registry_get u e (ds_registry s)" if "(u, e) \<noteq> (t, d)"
    using that unfolding registry_get_def delete_components(2) [OF assms(2)] tombstone_registered_eq [OF reg] by auto
  moreover have "dr_purged_chunks r = dr_tombstoned_chunks r"
    unfolding delete_components(6,7) [OF assms(2)] store_after_purge(3) [OF st']
    by (simp add: set_tombstone_def) (simp add: count_items_def count_mark_items [unfolded count_items_def])
  ultimately show ?thesis using items by blast
qed

theorem delete_leaves_other_documents_witness:
  "live_docs (ds_store (fst (delete ''now'' ''t'' ''d1'' sample_state))) ''t'' = live_docs (ds_store sample_state) ''t'' - {''d1''}"
  using delete_leaves_other_documents [OF sample_state_ok prod.collapse [symmetric], of "''now''" "''t''" "''d1''" "''t''" "''x''"] by simp

text \<open>Deletions survive a restore (FR-008a): take any restored stores, registry, crops and cache in which
  deleted documents may be live again, with the deletion log that a run of deletions left; re-applying
  the log hides every document of the tenant that was deleted.\<close>

theorem reapply_hides_all_deleted:
  assumes "ds_log restored = ds_log (fold (\<lambda>d s. fst (delete now t d s)) ds initial)"
    and "deletion_ok restored" and "reapply_tombstones t restored = (s', n)" and "d \<in> set ds"
  shows "d \<notin> live_docs (ds_store s') t
    \<and> (\<forall>hit\<in>set (snd (search t qv vis k (ds_store s'))). c_document_id (sc_chunk hit) \<noteq> d)
    \<and> (\<forall>key e. cached (ds_cache s') t key = Some e \<longrightarrow> d \<notin> ce_document_ids e)
    \<and> (\<forall>doc. registry_get t d (ds_registry s') = Some doc \<longrightarrow> d_tombstone doc)
    \<and> (\<forall>cs i crop. ds_crops s' = Some cs \<and> crop_get t i cs = Some crop \<longrightarrow> cr_document_id crop \<noteq> d)"
proof -
  have s': "s' = fold reapply_one (deletion_log t restored) restored"
    using assms(3) by (simp add: reapply_tombstones_def Let_def)
  have "d \<in> del_document_id ` set (deletion_log t restored)"
    using log_after_deletes [of initial now t ds] assms(1,4) by (force simp: deletion_log_def)
  then have "gone t d s'"
    unfolding s' using gone_reapply_all [OF assms(2), of "deletion_log t restored" t d] by (auto simp: deletion_log_def)
  then show ?thesis using search_hits_live [of _ t qv vis k "ds_store s'"] unfolding gone_def by blast
qed

theorem reapply_hides_all_deleted_witness:
  "''d1'' \<notin> live_docs (ds_store (fst (reapply_tombstones ''t''
     (sample_state\<lparr>ds_log := ds_log (fst (delete ''now'' ''t'' ''d1'' sample_state))\<rparr>)))) ''t''"
  by (rule reapply_hides_all_deleted [where ds = "[''d1'']" and now = "''now''" and initial = sample_state
        and n = "snd (reapply_tombstones ''t'' (sample_state\<lparr>ds_log := ds_log (fst (delete ''now'' ''t'' ''d1'' sample_state))\<rparr>))", THEN conjunct1])
    (use sample_state_ok in \<open>simp_all add: deletion_ok_def\<close>)

end
