(* ===== verification/PyStr.thy ===== *)
theory PyStr
  imports PyVal
begin

text \<open>
  The string and number operations of Python that the services use. A string is its UTF-8 encoding,
  so that operations on characters (length, slices, stripping) work on whole encoded characters:
  \<open>utf8_len\<close> counts the bytes that start one, \<open>py_strip\<close> removes the encodings of Unicode white
  space. \<open>py_lower\<close> and \<open>py_upper\<close> change ASCII letters only; Python also folds other scripts, and two
  characters outside ASCII into ASCII letters (the Kelvin sign and the dotted capital I), so a text that
  holds such a character is outside the model.
\<close>

text \<open>A literal outside ASCII, by its bytes.\<close>

definition utf8 :: "nat list \<Rightarrow> string" where
  "utf8 ns = map char_of ns"

section \<open>White space\<close>

definition ws_encodings :: "string list" where
  "ws_encodings =
     map (\<lambda>n. [char_of (n :: nat)]) [9, 10, 11, 12, 13, 28, 29, 30, 31, 32] @
     map (map (char_of :: nat \<Rightarrow> char))
       ([[0xC2, 0x85], [0xC2, 0xA0], [0xE1, 0x9A, 0x80], [0xE2, 0x80, 0xA8], [0xE2, 0x80, 0xA9],
         [0xE2, 0x80, 0xAF], [0xE2, 0x81, 0x9F], [0xE3, 0x80, 0x80]] @
        map (\<lambda>n. [0xE2, 0x80, n]) [0x80..<0x8B])"

fun strip_prefix :: "string \<Rightarrow> string \<Rightarrow> string option" where
  "strip_prefix [] s = Some s"
| "strip_prefix (p # ps) [] = None"
| "strip_prefix (p # ps) (c # s) = (if p = c then strip_prefix ps s else None)"

lemma strip_prefix_length: "strip_prefix p s = Some r \<Longrightarrow> length s = length p + length r"
  by (induction p s rule: strip_prefix.induct) (auto split: if_splits)

lemma strip_prefix_append: "strip_prefix p s = Some r \<longleftrightarrow> s = p @ r"
  by (induction p s rule: strip_prefix.induct) auto

fun first_stripped :: "string list \<Rightarrow> string \<Rightarrow> string option" where
  "first_stripped [] s = None"
| "first_stripped (w # ws) s = (case strip_prefix w s of Some r \<Rightarrow> Some r | None \<Rightarrow> first_stripped ws s)"

lemma first_stripped_less: "[] \<notin> set ws \<Longrightarrow> first_stripped ws s = Some r \<Longrightarrow> length r < length s"
  by (induction ws) (auto split: option.splits dest: strip_prefix_length)

function lstrip_with :: "string list \<Rightarrow> string \<Rightarrow> string" where
  "lstrip_with ws s =
     (if [] \<in> set ws then s
      else case first_stripped ws s of None \<Rightarrow> s | Some r \<Rightarrow> lstrip_with ws r)"
  by pat_completeness auto
termination
  by (relation "measure (\<lambda>(ws, s). length s)") (auto simp: first_stripped_less)

declare lstrip_with.simps [simp del]

definition py_strip :: "string \<Rightarrow> string" where
  "py_strip s = rev (lstrip_with (map rev ws_encodings) (rev (lstrip_with ws_encodings s)))"

lemma first_stripped_None:
  "(\<And>w c. w \<in> set ws \<Longrightarrow> w \<noteq> [] \<and> hd w \<noteq> c0) \<Longrightarrow> first_stripped ws (c0 # s) = None"
proof (induction ws)
  case (Cons w ws)
  then have "w \<noteq> []" "hd w \<noteq> c0" by auto
  then have "strip_prefix w (c0 # s) = None" by (cases w) auto
  with Cons show ?case by auto
qed simp

lemma lstrip_with_fix:
  "first_stripped ws s = None \<Longrightarrow> lstrip_with ws s = s"
  by (simp add: lstrip_with.simps [of ws s])

lemma py_strip_fix:
  "first_stripped ws_encodings s = None \<Longrightarrow> first_stripped (map rev ws_encodings) (rev s) = None \<Longrightarrow>
     py_strip s = s"
  by (simp add: py_strip_def lstrip_with_fix)

definition plain_char :: "char \<Rightarrow> bool" where
  "plain_char c \<longleftrightarrow> 33 \<le> (of_char c :: nat) \<and> (of_char c :: nat) < 127"

lemma ws_encodings_not_plain: "\<forall>w\<in>set ws_encodings. w \<noteq> [] \<and> \<not> plain_char (hd w) \<and> \<not> plain_char (last w)"
proof -
  have "w \<noteq> [] \<and> \<not> plain_char (hd w) \<and> \<not> plain_char (last w)"
    if "w \<in> set (map (\<lambda>n. [char_of (n :: nat)]) [9, 10, 11, 12, 13, 28, 29, 30, 31, 32])" for w
    using that by (auto simp: plain_char_def)
  moreover have "w \<noteq> [] \<and> \<not> plain_char (hd w) \<and> \<not> plain_char (last w)"
    if "w = map (char_of :: nat \<Rightarrow> char) ns" "ns \<noteq> []" "hd ns \<ge> 128" "hd ns < 256" "last ns \<ge> 128" "last ns < 256" for w ns
    using that by (auto simp: plain_char_def hd_map last_map)
  moreover have "\<forall>n\<in>set [0x80..<0x8B]. 128 \<le> n \<and> n < (256 :: nat)" by auto
  ultimately show ?thesis unfolding ws_encodings_def by (auto simp: plain_char_def)
qed

lemma py_strip_plain:
  assumes "s \<noteq> []" "plain_char (hd s)" "plain_char (last s)"
  shows "py_strip s = s"
proof (rule py_strip_fix)
  obtain c r where s: "s = c # r" using assms(1) by (cases s) auto
  show "first_stripped ws_encodings s = None"
    unfolding s by (rule first_stripped_None) (use assms(2) s ws_encodings_not_plain in auto)
  obtain c' r' where s': "rev s = c' # r'" using assms(1) by (cases "rev s") auto
  then have "last s = c'" by (metis hd_rev list.sel(1))
  with assms(3) have "plain_char c'" by simp
  then show "first_stripped (map rev ws_encodings) (rev s) = None"
    unfolding s' by (intro first_stripped_None) (use ws_encodings_not_plain in \<open>auto simp: hd_rev\<close>)
qed

lemma py_strip_Nil [simp]: "py_strip [] = []"
proof -
  have "first_stripped ws [] = None" if "[] \<notin> set ws" for ws
    using that
  proof (induction ws)
    case (Cons w ws)
    then show ?case by (cases w) auto
  qed simp
  moreover have "[] \<notin> set ws_encodings" "[] \<notin> set (map rev ws_encodings)"
    by (auto simp: ws_encodings_def)
  ultimately have "first_stripped ws_encodings [] = None" "first_stripped (map rev ws_encodings) (rev []) = None"
    by simp_all
  then show ?thesis by (rule py_strip_fix)
qed

section \<open>Case, length and slices\<close>

definition lower_char :: "char \<Rightarrow> char" where
  "lower_char c = (let n = (of_char c :: nat) in if 65 \<le> n \<and> n \<le> 90 then char_of (n + 32) else c)"

definition upper_char :: "char \<Rightarrow> char" where
  "upper_char c = (let n = (of_char c :: nat) in if 97 \<le> n \<and> n \<le> 122 then char_of (n - 32) else c)"

definition py_lower :: "string \<Rightarrow> string" where
  "py_lower s = map lower_char s"

definition py_upper :: "string \<Rightarrow> string" where
  "py_upper s = map upper_char s"

definition utf8_start :: "char \<Rightarrow> bool" where
  "utf8_start c \<longleftrightarrow> (of_char c :: nat) div 64 \<noteq> 2"

definition utf8_len :: "string \<Rightarrow> nat" where
  "utf8_len s = length (filter utf8_start s)"

text \<open>The first \<open>n\<close> characters.\<close>

fun utf8_take :: "nat \<Rightarrow> string \<Rightarrow> string" where
  "utf8_take n [] = []"
| "utf8_take n (c # s) =
     (if utf8_start c then (case n of 0 \<Rightarrow> [] | Suc m \<Rightarrow> c # utf8_take m s) else c # utf8_take n s)"

lemma utf8_len_take: "utf8_len (utf8_take n s) = min n (utf8_len s)"
  by (induction n s rule: utf8_take.induct) (auto simp: utf8_len_def split: nat.splits)

text \<open>\<open>p in s\<close> and \<open>s.count(p)\<close> for a non-empty \<open>p\<close>, and \<open>s.startswith(p)\<close>.\<close>

fun str_contains :: "string \<Rightarrow> string \<Rightarrow> bool" where
  "str_contains p [] = (p = [])"
| "str_contains p (c # s) = (strip_prefix p (c # s) \<noteq> None \<or> str_contains p s)"

function str_count :: "string \<Rightarrow> string \<Rightarrow> nat" where
  "str_count p s =
     (case s of [] \<Rightarrow> 0
      | c # r \<Rightarrow> (case strip_prefix p s of
           None \<Rightarrow> str_count p r
         | Some q \<Rightarrow> if p = [] then 0 else Suc (str_count p q)))"
  by pat_completeness auto
termination
  by (relation "measure (\<lambda>(p, s). length s)") (auto dest: strip_prefix_length split: if_splits)

declare str_count.simps [simp del]

definition starts_with :: "string \<Rightarrow> string \<Rightarrow> bool" where
  "starts_with s p \<longleftrightarrow> strip_prefix p s \<noteq> None"

section \<open>Iteration and conversion of dynamic values\<close>

text \<open>The characters of a string, as iteration yields them.\<close>

fun utf8_chars :: "string \<Rightarrow> string list" where
  "utf8_chars [] = []"
| "utf8_chars (c # s) =
     (case utf8_chars s of
        [] \<Rightarrow> [[c]]
      | w # ws \<Rightarrow> (if w \<noteq> [] \<and> \<not> utf8_start (hd w) then (c # w) # ws else [c] # w # ws))"

text \<open>\<open>for x in v\<close>: lists and tuples yield their elements, strings their characters, mappings their
  keys; a scalar is not iterable.\<close>

fun py_iter :: "pyval \<Rightarrow> pyval list result" where
  "py_iter (PList vs) = Inr vs"
| "py_iter (PStr s) = Inr (map PStr (utf8_chars s))"
| "py_iter (PDict kvs) = Inr (map (\<lambda>(k, v). PStr k) kvs)"
| "py_iter _ = Inl TypeError"

text \<open>\<open>dict(v)\<close>: a mapping is copied, any other value is read as a sequence of pairs. A pair whose key is not a
  string, which no reader of these dictionaries could look up, is refused here.\<close>

fun py_pair :: "pyval \<Rightarrow> (string \<times> pyval) result" where
  "py_pair (PList [PStr k, v]) = Inr (k, v)"
| "py_pair (PStr s) = (case utf8_chars s of [k, v] \<Rightarrow> Inr (k, PStr v) | _ \<Rightarrow> Inl ValueError)"
| "py_pair (PList vs) = (if length vs \<noteq> 2 then Inl ValueError else Inl TypeError)"
| "py_pair (PDict kvs) = (case kvs of [(j, _), (k, _)] \<Rightarrow> Inr (j, PStr k) | _ \<Rightarrow> Inl ValueError)"
| "py_pair _ = Inl TypeError"

fun py_dict :: "pyval \<Rightarrow> pydict result" where
  "py_dict (PDict kvs) = Inr kvs"
| "py_dict v = rbind (py_iter v) (\<lambda>vs. rbind (rmap py_pair vs) (\<lambda>kvs. Inr (py_update [] kvs)))"

text \<open>\<open>isinstance(v, (int, float))\<close> with the value of \<open>float(v)\<close>; a boolean is an integer.\<close>

fun py_number :: "pyval \<Rightarrow> rat option" where
  "py_number (PBool b) = Some (if b then 1 else 0)"
| "py_number (PInt i) = Some (of_int i)"
| "py_number (PFloat r s) = Some r"
| "py_number _ = None"

text \<open>\<open>int(x)\<close> of a finite float truncates towards zero.\<close>

definition py_trunc :: "rat \<Rightarrow> int" where
  "py_trunc r = (if 0 \<le> r then floor r else ceiling r)"

text \<open>\<open>int(value)\<close>: \<open>None\<close> stands for its \<open>TypeError\<close> and \<open>ValueError\<close>.\<close>

fun py_int :: "(string \<Rightarrow> int option) \<Rightarrow> pyval \<Rightarrow> int option" where
  "py_int parse_int (PBool b) = Some (if b then 1 else 0)"
| "py_int parse_int (PInt i) = Some i"
| "py_int parse_int (PFloat r s) = Some (py_trunc r)"
| "py_int parse_int (PStr s) = parse_int s"
| "py_int parse_int v = None"

text \<open>\<open>round(x)\<close> and \<open>round(x, n)\<close>: to the nearest, ties to the even neighbour.\<close>

definition py_round_int :: "rat \<Rightarrow> int" where
  "py_round_int x =
     (let f = floor x; d = x - of_int f
      in if d < 1 / 2 then f else if d > 1 / 2 then f + 1 else if even f then f else f + 1)"

definition py_round :: "nat \<Rightarrow> rat \<Rightarrow> rat" where
  "py_round n x = of_int (py_round_int (x * 10 ^ n)) / 10 ^ n"

lemma py_round_int_of_int [simp]: "py_round_int (of_int i) = i"
  by (simp add: py_round_int_def)

lemma py_round_int_near: "\<bar>of_int (py_round_int x) - x\<bar> \<le> 1 / 2"
proof -
  have "of_int (floor x) \<le> x" "x < of_int (floor x) + 1" by linarith+
  then show ?thesis by (auto simp: py_round_int_def Let_def abs_le_iff)
qed

lemma py_round_int_mono: "x \<le> y \<Longrightarrow> py_round_int x \<le> py_round_int y"
proof (cases "floor x = floor y")
  case True
  assume "x \<le> y"
  with True show ?thesis by (auto simp: py_round_int_def Let_def)
next
  case False
  assume "x \<le> y"
  then have "floor x \<le> floor y" by (rule floor_mono)
  with False have "floor x + 1 \<le> floor y" by simp
  then show ?thesis by (auto simp: py_round_int_def Let_def)
qed

lemma py_round_near: "\<bar>py_round n x - x\<bar> \<le> 1 / 2 / 10 ^ n"
proof -
  have "py_round n x - x = (of_int (py_round_int (x * 10 ^ n)) - x * 10 ^ n) / 10 ^ n"
    by (simp add: py_round_def diff_divide_distrib)
  then have "\<bar>py_round n x - x\<bar> = \<bar>of_int (py_round_int (x * 10 ^ n)) - x * 10 ^ n\<bar> / 10 ^ n"
    by simp
  also have "\<dots> \<le> 1 / 2 / 10 ^ n"
    by (rule divide_right_mono [OF py_round_int_near]) simp
  finally show ?thesis .
qed

lemma py_round_mono: "x \<le> y \<Longrightarrow> py_round n x \<le> py_round n y"
  unfolding py_round_def
  by (intro divide_right_mono of_int_le_iff [THEN iffD2] py_round_int_mono mult_right_mono) simp_all

lemma py_round_of_int [simp]: "py_round n (of_int i) = of_int i"
proof -
  have "of_int i * 10 ^ n = (of_int (i * 10 ^ n) :: rat)" by simp
  then have "py_round_int (of_int i * 10 ^ n) = i * 10 ^ n" by (metis py_round_int_of_int)
  then show ?thesis by (simp add: py_round_def)
qed

lemma py_round_01 [simp]: "py_round n 0 = 0" "py_round n 1 = 1"
  using py_round_of_int [of n 0] py_round_of_int [of n 1] by simp_all

text \<open>\<open>v or d\<close>.\<close>

definition py_or :: "pyval \<Rightarrow> pyval \<Rightarrow> pyval" where
  "py_or v d = (if py_truthy v then v else d)"

end
