(* ===== verification/AuditSink.thy ===== *)
theory AuditSink
  imports PyVal
begin

text \<open>
  The reference-only audit events of \<open>observability/audit.py\<close>: free text is redacted before an event
  is stored. The redactor (\<open>observability/redaction.py\<close>) is the argument \<open>redact\<close>.
\<close>

record audit_event =
  ae_tenant_id :: string
  ae_correlation_id :: string
  ae_action :: string
  ae_decision :: string
  ae_actor_id :: string
  ae_resource_type :: string
  ae_resource_id :: string
  ae_document_ids :: "string list"
  ae_chunk_ids :: "string list"
  ae_reason :: string
  ae_created_at :: string
  ae_metadata :: pydict

fun redact_metadata :: "(string \<Rightarrow> string) \<Rightarrow> pyval \<Rightarrow> pyval" where
  "redact_metadata redact (PStr s) = PStr (redact s)"
| "redact_metadata redact (PDict kvs) = PDict (map (\<lambda>(k, v). (k, redact_metadata redact v)) kvs)"
| "redact_metadata redact (PList vs) = PList (map (redact_metadata redact) vs)"
| "redact_metadata redact v = v"

definition sanitize_audit_event :: "(string \<Rightarrow> string) \<Rightarrow> audit_event \<Rightarrow> audit_event" where
  "sanitize_audit_event redact e =
     \<lparr>ae_tenant_id = ae_tenant_id e, ae_correlation_id = ae_correlation_id e, ae_action = ae_action e,
      ae_decision = redact (ae_decision e), ae_actor_id = ae_actor_id e, ae_resource_type = ae_resource_type e,
      ae_resource_id = ae_resource_id e, ae_document_ids = ae_document_ids e, ae_chunk_ids = ae_chunk_ids e,
      ae_reason = redact (ae_reason e), ae_created_at = ae_created_at e,
      ae_metadata = map (\<lambda>(k, v). (k, redact_metadata redact v)) (ae_metadata e)\<rparr>"

type_synonym audit_sink = "audit_event list"

definition sink_record :: "(string \<Rightarrow> string) \<Rightarrow> audit_event \<Rightarrow> audit_sink \<Rightarrow> audit_sink \<times> audit_event" where
  "sink_record redact e sink = (let r = sanitize_audit_event redact e in (sink @ [r], r))"

definition sink_events :: "string option \<Rightarrow> string \<Rightarrow> audit_sink \<Rightarrow> audit_event list" where
  "sink_events tenant_id correlation_id sink =
     (let es = (case tenant_id of None \<Rightarrow> sink | Some t \<Rightarrow> filter (\<lambda>e. ae_tenant_id e = t) sink)
      in if correlation_id \<noteq> [] then filter (\<lambda>e. ae_correlation_id e = correlation_id) es else es)"

section \<open>Redaction reaches every string\<close>

fun strings_of :: "pyval \<Rightarrow> string set" where
  "strings_of (PStr s) = {s}"
| "strings_of (PDict kvs) = (\<Union>(k, v) \<in> set kvs. strings_of v)"
| "strings_of (PList vs) = (\<Union>v \<in> set vs. strings_of v)"
| "strings_of v = {}"

lemma strings_of_redact: "strings_of (redact_metadata redact v) = redact ` strings_of v"
  by (induction redact v rule: redact_metadata.induct) (auto, blast+)

end
