(* ===== verification/IngestionQuality.thy ===== *)
theory IngestionQuality
  imports PyStr VectorStore AuditSink
begin

text \<open>
  Extraction quality (\<open>services/ingestion_quality.py\<close>): the metadata contract, the text gate, the
  physical split between primary index and quarantine, the eligibility tests, the review queue and
  the statistics over the stored metadata. The helper \<open>_metadata_mapping\<close> is the identity on the
  dictionaries the model passes (\<open>None\<close> is the empty one). Tuples and lists are both \<^const>\<open>PList\<close>.
\<close>

section \<open>The metadata contract\<close>

definition quality_metadata :: "string \<Rightarrow> string list \<Rightarrow> bool \<Rightarrow> bool \<Rightarrow> bool \<Rightarrow> pydict" where
  "quality_metadata status reasons retrieval high_risk review =
     [(''extraction_quality_schema_version'', PStr ''ingestion_quality.v1''),
      (''extraction_quality_status'', PStr status),
      (''extraction_quality_reasons'', PList (map PStr (filter (\<lambda>r. r \<noteq> []) reasons))),
      (''retrieval_eligible'', PBool retrieval),
      (''high_risk_citation_eligible'', PBool high_risk),
      (''quality_review_required'', PBool review)]"

definition accepted_quality_metadata :: "string \<Rightarrow> string list \<Rightarrow> bool \<Rightarrow> pydict" where
  "accepted_quality_metadata status reasons high_risk_citation_eligible =
     quality_metadata status reasons True high_risk_citation_eligible False"

definition review_required_quality_metadata :: "string list \<Rightarrow> string \<Rightarrow> pydict" where
  "review_required_quality_metadata reasons status = quality_metadata status reasons False False True"

definition accepted_with_warnings_quality_metadata :: "string list \<Rightarrow> pydict" where
  "accepted_with_warnings_quality_metadata reasons =
     quality_metadata ''accepted_with_warnings'' reasons True False False"

definition blocking_statuses :: "string set" where
  "blocking_statuses = {''review_required'', ''rejected'', ''draft_visual''}"

definition eligible_statuses :: "string set" where
  "eligible_statuses = {''accepted'', ''accepted_with_warnings'', ''manual_approved''}"

definition review_queue_statuses :: "string set" where
  "review_queue_statuses = {''review_required'', ''draft_visual''}"

definition quality_status :: "pydict \<Rightarrow> string" where
  "quality_status m = py_strip (py_get_str m ''extraction_quality_status'')"

fun is_explicit_false :: "pyval \<Rightarrow> bool" where
  "is_explicit_false (PBool b) = (\<not> b)"
| "is_explicit_false (PStr s) = (py_lower (py_strip s) \<in> {''false'', ''0'', ''no''})"
| "is_explicit_false _ = False"

section \<open>The text gate\<close>

record quality_thresholds =
  qt_mojibake_hard_ratio :: rat
  qt_control_char_hard_ratio :: rat
  qt_empty_yield_min_raw_bytes :: int
  qt_low_overall_confidence :: rat
  qt_low_layout_confidence :: rat
  qt_low_table_structure_confidence :: rat
  qt_low_ocr_confidence_p10 :: rat
  qt_high_empty_page_risk :: rat
  qt_high_reading_order_risk :: rat

definition default_thresholds :: quality_thresholds where
  "default_thresholds =
     \<lparr>qt_mojibake_hard_ratio = 2 / 100, qt_control_char_hard_ratio = 5 / 100,
      qt_empty_yield_min_raw_bytes = 512, qt_low_overall_confidence = 35 / 100,
      qt_low_layout_confidence = 30 / 100, qt_low_table_structure_confidence = 40 / 100,
      qt_low_ocr_confidence_p10 = 40 / 100, qt_high_empty_page_risk = 20 / 100,
      qt_high_reading_order_risk = 25 / 100\<rparr>"

definition replacement_char :: string where
  "replacement_char = [CHR 0xEF, CHR 0xBF, CHR 0xBD]"

definition is_control :: "char \<Rightarrow> bool" where
  "is_control c \<longleftrightarrow> (of_char c :: nat) < 32 \<and> (of_char c :: nat) \<notin> {9, 10, 13}"

definition hard_reasons :: "quality_thresholds \<Rightarrow> string \<Rightarrow> int option \<Rightarrow> string list" where
  "hard_reasons th body raw_size =
     (if (case raw_size of None \<Rightarrow> 0 | Some n \<Rightarrow> n) \<ge> qt_empty_yield_min_raw_bytes th \<and>
         utf8_len (py_strip body) < 1
      then [''empty_extraction''] else []) @
     (if str_contains ''(cid:'' body then [''cid_artifacts''] else []) @
     (if body \<noteq> [] \<and>
         (qt_mojibake_hard_ratio th \<le> of_nat (str_count replacement_char body) / of_nat (utf8_len body) \<or>
          qt_control_char_hard_ratio th \<le> of_nat (length (filter is_control body)) / of_nat (utf8_len body))
      then [''mojibake_suspected''] else [])"

definition soft_reasons :: "quality_thresholds \<Rightarrow> string \<Rightarrow> string list" where
  "soft_reasons th body =
     (if body \<noteq> [] \<and>
         \<not> (qt_mojibake_hard_ratio th \<le> of_nat (str_count replacement_char body) / of_nat (utf8_len body) \<or>
            qt_control_char_hard_ratio th \<le> of_nat (length (filter is_control body)) / of_nat (utf8_len body)) \<and>
         str_contains replacement_char body
      then [''minor_mojibake''] else [])"

definition classify_text_extraction_quality ::
  "quality_thresholds \<Rightarrow> string option \<Rightarrow> int option \<Rightarrow> pydict" where
  "classify_text_extraction_quality th text raw_size =
     (let body = (case text of None \<Rightarrow> [] | Some s \<Rightarrow> s) in
      if hard_reasons th body raw_size \<noteq> [] then
        review_required_quality_metadata (hard_reasons th body raw_size) ''review_required''
      else if soft_reasons th body \<noteq> [] then accepted_with_warnings_quality_metadata (soft_reasons th body)
      else accepted_quality_metadata ''accepted'' [] True)"

definition quality_metadata_from_ocr_metadata :: "pydict \<Rightarrow> pydict" where
  "quality_metadata_from_ocr_metadata m =
     (if py_truthy (py_get m ''ocr_quality_review_required'')
      then review_required_quality_metadata [''low_ocr_confidence''] ''review_required''
      else accepted_quality_metadata ''accepted'' [] True)"

definition with_quality_metadata :: "pydict option \<Rightarrow> pydict option \<Rightarrow> pydict" where
  "with_quality_metadata metadata quality =
     (let merged = (case metadata of None \<Rightarrow> [] | Some m \<Rightarrow> m);
          q = (case quality of None \<Rightarrow> accepted_quality_metadata ''accepted'' [] True
               | Some q \<Rightarrow> if q = [] then accepted_quality_metadata ''accepted'' [] True else q)
      in py_update merged q)"

section \<open>Eligibility\<close>

definition is_retrieval_eligible :: "pydict \<Rightarrow> bool" where
  "is_retrieval_eligible m =
     (if is_explicit_false (py_get m ''retrieval_eligible'') then False
      else if quality_status m \<in> blocking_statuses then False
      else if quality_status m \<noteq> [] \<and> quality_status m \<notin> eligible_statuses then False
      else True)"

definition is_high_risk_citation_quality_eligible :: "pydict \<Rightarrow> bool" where
  "is_high_risk_citation_quality_eligible m =
     (if \<not> is_retrieval_eligible m then False
      else if is_explicit_false (py_get m ''high_risk_citation_eligible'') then False
      else if py_truthy (py_get m ''parser_contract_version'') then
        (if \<not> (py_truthy (py_get m ''embedding_model_version'') \<and> py_truthy (py_get m ''parsed_chunk_kind''))
         then False
         else if py_get_str m ''parser_provider'' \<notin> {''text_parser'', ''docx_parser''} then
           (if \<not> py_truthy (py_or (py_get m ''anchor_type'') (py_get m ''cell_sheet'')) then False else True)
         else True)
      else True)"

definition quality_exclusion_reason :: "pydict \<Rightarrow> string" where
  "quality_exclusion_reason m =
     (if quality_status m \<noteq> [] then quality_status m
      else if is_explicit_false (py_get m ''retrieval_eligible'') then ''retrieval_ineligible''
      else [])"

definition extraction_review_status :: "pydict \<Rightarrow> string" where
  "extraction_review_status m =
     (if quality_status m \<in> review_queue_statuses then quality_status m
      else if quality_status m = [] \<and> py_truthy (py_get m ''quality_review_required'') then ''review_required''
      else [])"

section \<open>The physical split\<close>

definition must_quarantine :: "chunk \<Rightarrow> bool" where
  "must_quarantine c =
     (let status = (if extraction_review_status (c_metadata c) \<noteq> [] then extraction_review_status (c_metadata c)
                    else quality_status (c_metadata c))
      in status \<in> blocking_statuses)"

definition store_quality_partitioned_chunks ::
  "(chunk \<times> vector) list \<Rightarrow> vector_store \<Rightarrow> vector_store \<times> (nat \<times> nat)" where
  "store_quality_partitioned_chunks pairs st =
     (let primary = filter (\<lambda>(c, v). \<not> must_quarantine c) pairs;
          quarantined = filter (\<lambda>(c, v). must_quarantine c) pairs;
          st = (if primary \<noteq> [] then upsert primary st else st);
          st = (if quarantined \<noteq> [] then VectorStore.quarantine quarantined st else st)
      in (st, (length primary, length quarantined)))"

section \<open>The review queue\<close>

record extraction_review_item =
  ri_tenant_id :: string
  ri_document_id :: string
  ri_chunk_id :: string
  ri_status :: string
  ri_reasons :: "string list"
  ri_page_no :: "int option"
  ri_anchor_type :: string
  ri_bbox :: "rat list option"
  ri_text_snippet :: string
  ri_suggested_action :: string
  ri_route_trace :: "pydict list"
  ri_provider_details :: "pydict list"
  ri_block_provider_details :: "pydict list"

definition reprocess_reasons :: "string set" where
  "reprocess_reasons = {''empty_extraction'', ''cid_artifacts'', ''mojibake_suspected'', ''low_ocr_confidence'',
     ''language_mismatch''}"

definition escalate_reasons :: "string set" where
  "escalate_reasons = {''drawing_only_page'', ''handwriting_or_seal_detected''}"

definition edit_reasons :: "string set" where
  "edit_reasons = {''low_overall_confidence'', ''low_layout_confidence'', ''low_table_structure_confidence'',
     ''minor_mojibake''}"

definition suggest_review_action :: "string \<Rightarrow> string list \<Rightarrow> string" where
  "suggest_review_action status reasons =
     (if status = ''draft_visual'' then ''approve''
      else if set reasons \<inter> reprocess_reasons \<noteq> {} then ''reprocess''
      else if set reasons \<inter> escalate_reasons \<noteq> {} then ''escalate''
      else if set reasons \<inter> edit_reasons \<noteq> {} then ''edit_and_approve''
      else ''review'')"

text \<open>\<open>tuple(dict(s) for s in raw if isinstance(s, Mapping))\<close>, empty when \<open>raw\<close> is not a sequence.\<close>

fun mapping_entries :: "pyval \<Rightarrow> pydict list" where
  "mapping_entries (PList vs) = concat (map (\<lambda>v. case v of PDict kvs \<Rightarrow> [kvs] | _ \<Rightarrow> []) vs)"
| "mapping_entries _ = []"

text \<open>\<open>float(x)\<close>; parsing a numeric string is the argument \<open>parse\<close>.\<close>

definition py_float :: "(string \<Rightarrow> rat option) \<Rightarrow> pyval \<Rightarrow> rat result" where
  "py_float parse v =
     (case v of
        PStr s \<Rightarrow> (case parse s of None \<Rightarrow> Inl ValueError | Some r \<Rightarrow> Inr r)
      | _ \<Rightarrow> (case py_number v of None \<Rightarrow> Inl TypeError | Some r \<Rightarrow> Inr r))"

definition metadata_reasons :: "pydict \<Rightarrow> string list result" where
  "metadata_reasons m =
     rbind (py_iter (py_or (py_get m ''extraction_quality_reasons'') (PList [])))
       (\<lambda>vs. Inr (map py_str (filter py_truthy vs)))"

definition review_item :: "(string \<Rightarrow> rat option) \<Rightarrow> string \<Rightarrow> chunk \<Rightarrow> extraction_review_item result" where
  "review_item parse status c =
     (let m = c_metadata c in
      rbind (metadata_reasons m) (\<lambda>reasons.
      rbind (case py_get m ''bbox'' of
               PList vs \<Rightarrow> rbind (rmap (py_float parse) vs) (\<lambda>rs. Inr (Some rs))
             | _ \<Rightarrow> Inr None) (\<lambda>bbox.
        Inr \<lparr>ri_tenant_id = c_tenant_id c, ri_document_id = c_document_id c, ri_chunk_id = c_chunk_id c,
             ri_status = status, ri_reasons = reasons,
             ri_page_no = map_option py_trunc (py_number (py_get m ''page_number'')),
             ri_anchor_type = py_get_str m ''anchor_type'', ri_bbox = bbox,
             ri_text_snippet = utf8_take 240 (c_text c),
             ri_suggested_action = suggest_review_action status reasons,
             ri_route_trace = mapping_entries (py_get m ''route_trace''),
             ri_provider_details = mapping_entries (py_get m ''provider_details''),
             ri_block_provider_details = mapping_entries (py_get m ''block_provider_details'')\<rparr>)))"

definition extraction_review_items ::
  "(string \<Rightarrow> rat option) \<Rightarrow> string option \<Rightarrow> chunk list \<Rightarrow> extraction_review_item list result" where
  "extraction_review_items parse tenant_id chunks =
     rmap (\<lambda>c. review_item parse (extraction_review_status (c_metadata c)) c)
       (filter (\<lambda>c. (tenant_id = None \<or> tenant_id = Some (c_tenant_id c)) \<and>
                     extraction_review_status (c_metadata c) \<noteq> []) chunks)"

definition extraction_review_queue ::
  "(string \<Rightarrow> rat option) \<Rightarrow> string option \<Rightarrow> vector_store \<Rightarrow> extraction_review_item list result" where
  "extraction_review_queue parse tenant_id st =
     extraction_review_items parse tenant_id (list_extraction_review_chunks tenant_id st)"

section \<open>Statistics\<close>

fun step_map :: "pyval \<Rightarrow> pydict" where
  "step_map (PDict kvs) = kvs"
| "step_map _ = []"

fun route_provider_and_fallback :: "pyval \<Rightarrow> string \<times> bool" where
  "route_provider_and_fallback (PList steps) =
     foldl (\<lambda>(provider, had_fallback) step.
        (if py_truthy (py_get (step_map step) ''provider'') then py_str (py_get (step_map step) ''provider'')
         else provider,
         had_fallback \<or> py_get (step_map step) ''stage'' = PStr ''fallback'')) ([], False) steps"
| "route_provider_and_fallback _ = ([], False)"

record quality_counts =
  qc_total :: nat
  qc_by_status :: "(string, nat) dict"
  qc_by_reason :: "(string, nat) dict"
  qc_by_provider :: "(string, nat) dict"
  qc_fallbacks :: nat

record quality_stats =
  qs_total :: nat
  qs_by_status :: "(string, nat) dict"
  qs_rates :: "(string, rat) dict"
  qs_by_reason :: "(string, nat) dict"
  qs_by_provider :: "(string, nat) dict"
  qs_fallback_rate :: rat
  qs_provider_failure_rate :: rat
  qs_quarantined :: nat
  qs_quarantine_rate :: rat

definition status_or_accepted :: "pydict \<Rightarrow> string" where
  "status_or_accepted m = (if quality_status m \<noteq> [] then quality_status m else ''accepted'')"

definition no_counts :: quality_counts where
  "no_counts = \<lparr>qc_total = 0, qc_by_status = [], qc_by_reason = [], qc_by_provider = [], qc_fallbacks = 0\<rparr>"

definition count_chunk :: "chunk \<Rightarrow> quality_counts \<Rightarrow> quality_counts result" where
  "count_chunk c q =
     (let m = c_metadata c in
      rbind (metadata_reasons m) (\<lambda>reasons.
        let (provider, had_fallback) = route_provider_and_fallback (py_get m ''route_trace'') in
        Inr \<lparr>qc_total = qc_total q + 1,
             qc_by_status = dinc (status_or_accepted m) 1 (qc_by_status q),
             qc_by_reason = fold (\<lambda>r. dinc r 1) reasons (qc_by_reason q),
             qc_by_provider = (if provider \<noteq> [] then dinc provider 1 (qc_by_provider q) else qc_by_provider q),
             qc_fallbacks = (if had_fallback then qc_fallbacks q + 1 else qc_fallbacks q)\<rparr>))"

definition ratio :: "nat \<Rightarrow> nat \<Rightarrow> rat" where
  "ratio n m = (if m \<noteq> 0 then of_nat n / of_nat m else 0)"

definition quality_stats_of :: "quality_counts \<Rightarrow> quality_stats" where
  "quality_stats_of q =
     (let quarantined = dcount (qc_by_status q) ''review_required'' + dcount (qc_by_status q) ''rejected'' +
                        dcount (qc_by_status q) ''draft_visual''
      in \<lparr>qs_total = qc_total q, qs_by_status = qc_by_status q,
          qs_rates = map (\<lambda>(s, n). (s, ratio n (qc_total q))) (qc_by_status q),
          qs_by_reason = qc_by_reason q, qs_by_provider = qc_by_provider q,
          qs_fallback_rate = ratio (qc_fallbacks q) (qc_total q),
          qs_provider_failure_rate = ratio (dcount (qc_by_reason q) ''provider_error'') (qc_total q),
          qs_quarantined = quarantined,
          qs_quarantine_rate = ratio quarantined (qc_total q)\<rparr>)"

definition extraction_quality_stats :: "string option \<Rightarrow> vector_store \<Rightarrow> quality_stats result" where
  "extraction_quality_stats tenant_id st =
     rbind (rfold count_chunk
              (filter (\<lambda>c. tenant_id = None \<or> tenant_id = Some (c_tenant_id c)) (map fst (iter_all_items st)))
              no_counts)
       (\<lambda>q. Inr (quality_stats_of q))"

text \<open>The percentile rank \<open>p\<close> lies between 0 and 100 (the callers pass 50 and 95).\<close>

definition percentile :: "rat list \<Rightarrow> rat \<Rightarrow> rat option" where
  "percentile values p =
     (if values = [] then None
      else
        let ordered = sort values in
        if length ordered = 1 then Some (ordered ! 0)
        else
          let k = of_nat (length ordered - 1) * (p / 100);
              lo = nat (py_trunc k);
              hi = min (lo + 1) (length ordered - 1)
          in if lo = hi then Some (ordered ! lo)
             else Some (ordered ! lo + (ordered ! hi - ordered ! lo) * (k - of_nat lo)))"

record latency_counts =
  lc_seen_docs :: "string list"
  lc_latency_by_stage :: "(string, rat list) dict"
  lc_provider_calls :: "(string, nat) dict"
  lc_cost_by_provider :: "(string, rat) dict"
  lc_total_cost :: rat
  lc_pages_processed :: int
  lc_route_distribution :: "(string, int) dict"
  lc_artefact_pages :: "(string, int) dict"

definition artefact_keys :: "string list" where
  "artefact_keys = [''handwriting_detected_pages'', ''seal_detected_pages'', ''vertical_text_suspected_pages'',
     ''drawing_like_pages'']"

definition no_latency :: latency_counts where
  "no_latency = \<lparr>lc_seen_docs = [], lc_latency_by_stage = [], lc_provider_calls = [], lc_cost_by_provider = [],
     lc_total_cost = 0, lc_pages_processed = 0, lc_route_distribution = [],
     lc_artefact_pages = map (\<lambda>k. (k, 0)) artefact_keys\<rparr>"

definition add_number :: "string \<Rightarrow> pyval \<Rightarrow> (string, int) dict \<Rightarrow> (string, int) dict" where
  "add_number k v d = (case py_number v of None \<Rightarrow> d | Some r \<Rightarrow> dinc k (py_trunc r) d)"

definition count_step :: "(string, rat) dict \<Rightarrow> latency_counts \<Rightarrow> pyval \<Rightarrow> latency_counts" where
  "count_step cost_model s step =
     (let m = step_map step;
          stage = py_get_str m ''stage'';
          provider = py_get_str m ''provider'';
          s = (case py_number (py_get m ''latency_ms'') of
                 None \<Rightarrow> s
               | Some r \<Rightarrow> s\<lparr>lc_latency_by_stage := dset stage
                   ((case dget (lc_latency_by_stage s) stage of None \<Rightarrow> [] | Some rs \<Rightarrow> rs) @ [r])
                   (lc_latency_by_stage s)\<rparr>);
          unit = dcount cost_model provider
      in if provider \<noteq> [] \<and> stage \<in> {''extract'', ''ocr'', ''vlm''} then
           s\<lparr>lc_provider_calls := dinc provider 1 (lc_provider_calls s),
             lc_cost_by_provider := dinc provider unit (lc_cost_by_provider s),
             lc_total_cost := lc_total_cost s + unit\<rparr>
         else s)"

definition count_pages :: "chunk \<Rightarrow> pydict \<Rightarrow> latency_counts \<Rightarrow> latency_counts" where
  "count_pages c routes s =
     (let m = c_metadata c in
      s\<lparr>lc_seen_docs := lc_seen_docs s @ [c_document_id c],
        lc_pages_processed := lc_pages_processed s +
          (case py_number (py_get m ''page_count'') of None \<Rightarrow> 0 | Some r \<Rightarrow> py_trunc r),
        lc_route_distribution := foldl (\<lambda>d (k, v). add_number k v d) (lc_route_distribution s) routes,
        lc_artefact_pages := foldl (\<lambda>d k. add_number k (py_get m k) d) (lc_artefact_pages s) artefact_keys\<rparr>)"

definition count_document :: "(string, rat) dict \<Rightarrow> chunk \<Rightarrow> latency_counts \<Rightarrow> latency_counts result" where
  "count_document cost_model c s =
     (let m = c_metadata c in
      if c_document_id c \<in> set (lc_seen_docs s) then Inr s
      else case py_or (py_get m ''page_route_distribution'') (PDict []) of
        PDict kvs \<Rightarrow>
          Inr (case py_get m ''route_trace'' of
                 PList steps \<Rightarrow> foldl (count_step cost_model) (count_pages c kvs s) steps
               | _ \<Rightarrow> count_pages c kvs s)
      | _ \<Rightarrow> Inl AttributeError)"

record latency_stats =
  ls_documents :: nat
  ls_pages_processed :: int
  ls_route_distribution :: "(string, int) dict"
  ls_artefact_pages :: "(string, int) dict"
  ls_cost_per_page :: rat
  ls_latency_ms_by_stage :: "(string, rat option \<times> rat option \<times> nat) dict"
  ls_provider_calls :: "(string, nat) dict"
  ls_cost_by_provider :: "(string, rat) dict"
  ls_total_cost :: rat
  ls_cost_per_document :: rat

definition extraction_latency_cost_stats ::
  "string option \<Rightarrow> (string, rat) dict \<Rightarrow> vector_store \<Rightarrow> latency_stats result" where
  "extraction_latency_cost_stats tenant_id cost_model st =
     rbind (rfold (count_document cost_model)
              (filter (\<lambda>c. tenant_id = None \<or> tenant_id = Some (c_tenant_id c)) (map fst (iter_all_items st)))
              no_latency)
       (\<lambda>s. let docs = length (lc_seen_docs s) in
          Inr \<lparr>ls_documents = docs, ls_pages_processed = lc_pages_processed s,
               ls_route_distribution = lc_route_distribution s, ls_artefact_pages = lc_artefact_pages s,
               ls_cost_per_page = (if lc_pages_processed s \<noteq> 0
                  then lc_total_cost s / of_int (lc_pages_processed s) else 0),
               ls_latency_ms_by_stage = map (\<lambda>(stage, vs). (stage, (percentile vs 50, percentile vs 95, length vs)))
                  (lc_latency_by_stage s),
               ls_provider_calls = lc_provider_calls s, ls_cost_by_provider = lc_cost_by_provider s,
               ls_total_cost = lc_total_cost s,
               ls_cost_per_document = (if docs \<noteq> 0 then lc_total_cost s / of_nat docs else 0)\<rparr>)"

definition review_action_prefix :: string where
  "review_action_prefix = ''extraction_review.''"

definition event_chunk :: "audit_event \<Rightarrow> string" where
  "event_chunk e = (case ae_chunk_ids e of [] \<Rightarrow> ae_resource_id e | c # cs \<Rightarrow> c)"

definition decisions_by_chunk :: "string option \<Rightarrow> audit_event list \<Rightarrow> (string, string list) dict" where
  "decisions_by_chunk tenant_id events =
     foldl (\<lambda>d e. dset (event_chunk e)
              ((case dget d (event_chunk e) of None \<Rightarrow> [] | Some ds \<Rightarrow> ds) @ [ae_decision e]) d) []
       (filter (\<lambda>e. (tenant_id = None \<or> tenant_id = Some (ae_tenant_id e)) \<and>
                     starts_with (ae_action e) review_action_prefix \<and> event_chunk e \<noteq> []) events)"

definition review_overturn_stats :: "string option \<Rightarrow> audit_event list \<Rightarrow> nat \<times> nat \<times> rat" where
  "review_overturn_stats tenant_id events =
     (let multi = filter (\<lambda>ds. \<not> length ds < 2) (map snd (decisions_by_chunk tenant_id events));
          overturned = filter (\<lambda>ds. {''manual_approved'', ''rejected''} \<subseteq> set ds) multi
      in (length multi, length overturned, ratio (length overturned) (length multi)))"

section \<open>Signals per answer and their roll-up\<close>

record answer_signals =
  as_citations_total :: nat
  as_by_status :: "(string, nat) dict"
  as_review_approved :: nat
  as_review_approved_rate :: rat
  as_high_risk_eligible :: nat
  as_high_risk_blocked :: nat

definition answer_citation_quality_signals :: "pydict list \<Rightarrow> bool \<Rightarrow> bool \<Rightarrow> string \<Rightarrow> answer_signals" where
  "answer_citation_quality_signals citations is_high_risk blocked block_reason =
     (let by_status = foldl (\<lambda>d m. dinc (status_or_accepted m) 1 d) [] citations;
          total = length citations;
          used = dcount by_status ''manual_approved'';
          block = is_high_risk \<and> blocked \<and>
                  py_upper (py_strip block_reason) = ''APPROVED_CITATION_MISSING''
      in \<lparr>as_citations_total = total, as_by_status = by_status, as_review_approved = used,
          as_review_approved_rate = ratio used total,
          as_high_risk_eligible = length (filter is_high_risk_citation_quality_eligible citations),
          as_high_risk_blocked = (if block then 1 else 0)\<rparr>)"

record answer_totals =
  at_answers :: nat
  at_citations_total :: nat
  at_by_status :: "(string, nat) dict"
  at_review_approved :: nat
  at_review_approved_rate :: rat
  at_high_risk_eligible :: nat
  at_high_risk_blocked :: nat

definition add_signal :: "answer_totals \<Rightarrow> answer_signals \<Rightarrow> answer_totals" where
  "add_signal a s =
     a\<lparr>at_answers := at_answers a + 1,
       at_citations_total := at_citations_total a + as_citations_total s,
       at_review_approved := at_review_approved a + as_review_approved s,
       at_high_risk_eligible := at_high_risk_eligible a + as_high_risk_eligible s,
       at_high_risk_blocked := at_high_risk_blocked a + as_high_risk_blocked s,
       at_by_status := foldl (\<lambda>d (status, n). dinc status n d) (at_by_status a) (as_by_status s)\<rparr>"

definition aggregate_answer_quality_signals :: "answer_signals list \<Rightarrow> answer_totals" where
  "aggregate_answer_quality_signals signals =
     (let a = foldl add_signal \<lparr>at_answers = 0, at_citations_total = 0, at_by_status = [], at_review_approved = 0,
                at_review_approved_rate = 0, at_high_risk_eligible = 0, at_high_risk_blocked = 0\<rparr> signals
      in a\<lparr>at_review_approved_rate := ratio (at_review_approved a) (at_citations_total a)\<rparr>)"

section \<open>Facts about the metadata contract\<close>

lemma strip_known_statuses [simp]:
  "py_strip ''accepted'' = ''accepted''" "py_strip ''accepted_with_warnings'' = ''accepted_with_warnings''"
  "py_strip ''review_required'' = ''review_required''" "py_strip ''rejected'' = ''rejected''"
  "py_strip ''draft_visual'' = ''draft_visual''" "py_strip ''manual_approved'' = ''manual_approved''"
  by (simp_all add: py_strip_plain plain_char_def)

lemma py_get_quality_metadata:
  "py_get (quality_metadata st rs re hr rv) ''extraction_quality_status'' = PStr st"
  "py_get (quality_metadata st rs re hr rv) ''retrieval_eligible'' = PBool re"
  "py_get (quality_metadata st rs re hr rv) ''high_risk_citation_eligible'' = PBool hr"
  "py_get (quality_metadata st rs re hr rv) ''quality_review_required'' = PBool rv"
  "py_get (quality_metadata st rs re hr rv) ''parser_contract_version'' = PNone"
  by (simp_all add: quality_metadata_def py_get_def)

lemma quality_status_quality_metadata:
  "st \<in> blocking_statuses \<union> eligible_statuses \<Longrightarrow> quality_status (quality_metadata st rs re hr rv) = st"
  by (auto simp: quality_status_def py_get_str_def py_get_quality_metadata blocking_statuses_def eligible_statuses_def)

lemma statuses_disjoint: "blocking_statuses \<inter> eligible_statuses = {}" "[] \<notin> blocking_statuses" "[] \<notin> eligible_statuses"
  by (auto simp: blocking_statuses_def eligible_statuses_def)

lemma is_retrieval_eligible_iff:
  "is_retrieval_eligible m \<longleftrightarrow>
     \<not> is_explicit_false (py_get m ''retrieval_eligible'') \<and> (quality_status m = [] \<or> quality_status m \<in> eligible_statuses)"
  using statuses_disjoint by (auto simp: is_retrieval_eligible_def)

lemma must_quarantine_not_eligible:
  "must_quarantine c \<Longrightarrow> quality_status (c_metadata c) \<noteq> [] \<Longrightarrow> \<not> is_retrieval_eligible (c_metadata c)"
  using statuses_disjoint
  by (auto simp: must_quarantine_def Let_def extraction_review_status_def is_retrieval_eligible_def split: if_splits)

lemma must_quarantine_iff:
  "must_quarantine c \<longleftrightarrow> quality_status (c_metadata c) \<in> blocking_statuses \<or>
     (quality_status (c_metadata c) = [] \<and> py_truthy (py_get (c_metadata c) ''quality_review_required''))"
  by (auto simp: must_quarantine_def Let_def extraction_review_status_def blocking_statuses_def review_queue_statuses_def)

section \<open>Facts about writing to the two indexes\<close>

lemma upsert_Cons:
  "upsert ((c, v) # ps) st = upsert ps (st\<lparr>vs_quarantine := ddel (c_chunk_id c) (vs_quarantine st),
     vs_items := dset (c_chunk_id c) (c, v) (vs_items st)\<rparr>)"
  by (simp add: upsert_def)

lemma quarantine_Cons:
  "VectorStore.quarantine ((c, v) # ps) st = VectorStore.quarantine ps (st\<lparr>vs_items := ddel (c_chunk_id c) (vs_items st),
     vs_quarantine := dset (c_chunk_id c) (c, v) (vs_quarantine st)\<rparr>)"
  by (simp add: VectorStore.quarantine_def)

lemma upsert_lookup:
  "distinct (map (c_chunk_id \<circ> fst) ps) \<Longrightarrow>
     dget (vs_items (upsert ps st)) k =
       (case find (\<lambda>p. c_chunk_id (fst p) = k) ps of None \<Rightarrow> dget (vs_items st) k | Some p \<Rightarrow> Some p) \<and>
     dget (vs_quarantine (upsert ps st)) k =
       (case find (\<lambda>p. c_chunk_id (fst p) = k) ps of None \<Rightarrow> dget (vs_quarantine st) k | Some p \<Rightarrow> None)"
proof (induction ps arbitrary: st)
  case (Cons p ps)
  obtain c v where p: "p = (c, v)" by (cases p)
  from Cons.prems p have "find (\<lambda>q. c_chunk_id (fst q) = c_chunk_id c) ps = None"
    by (force simp: find_None_iff)
  with Cons p show ?case by (auto simp: upsert_Cons dict_simps split: option.splits)
qed (simp add: upsert_def)

lemma quarantine_lookup:
  "distinct (map (c_chunk_id \<circ> fst) ps) \<Longrightarrow>
     dget (vs_quarantine (VectorStore.quarantine ps st)) k =
       (case find (\<lambda>p. c_chunk_id (fst p) = k) ps of None \<Rightarrow> dget (vs_quarantine st) k | Some p \<Rightarrow> Some p) \<and>
     dget (vs_items (VectorStore.quarantine ps st)) k =
       (case find (\<lambda>p. c_chunk_id (fst p) = k) ps of None \<Rightarrow> dget (vs_items st) k | Some p \<Rightarrow> None)"
proof (induction ps arbitrary: st)
  case (Cons p ps)
  obtain c v where p: "p = (c, v)" by (cases p)
  from Cons.prems p have "find (\<lambda>q. c_chunk_id (fst q) = c_chunk_id c) ps = None"
    by (force simp: find_None_iff)
  with Cons p show ?case by (auto simp: quarantine_Cons dict_simps split: option.splits)
qed (simp add: VectorStore.quarantine_def)

lemma find_distinct:
  assumes "distinct (map f ps)" "p \<in> set ps" "P p"
  shows "find (\<lambda>q. f q = f p) (filter P ps) = Some p"
  using assms
proof (induction ps)
  case (Cons q ps)
  then show ?case by (cases "q = p") (auto simp: image_iff)
qed simp

lemma find_filter_other:
  assumes "distinct (map f ps)" "p \<in> set ps" "\<not> P p"
  shows "find (\<lambda>q. f q = f p) (filter P ps) = None"
proof -
  have "q = p" if "q \<in> set ps" "f q = f p" for q
    using assms(1,2) that by (auto simp: distinct_map inj_on_def)
  with assms(3) show ?thesis by (auto simp: find_None_iff)
qed

section \<open>Facts about the statistics\<close>

lemma count_chunk_frame:
  "count_chunk c q = Inr q' \<Longrightarrow>
     qc_total q' = qc_total q + 1 \<and> qc_by_status q' = dinc (status_or_accepted (c_metadata c)) 1 (qc_by_status q)"
  by (auto simp: count_chunk_def Let_def rbind_Inr_iff split_def)

lemma count_chunks:
  "rfold count_chunk cs q = Inr q' \<Longrightarrow>
     qc_total q' = qc_total q + length cs \<and> dtotal (qc_by_status q') = dtotal (qc_by_status q) + length cs \<and>
     (\<forall>st. dcount (qc_by_status q') st =
        dcount (qc_by_status q) st + length (filter (\<lambda>c. status_or_accepted (c_metadata c) = st) cs))"
proof (induction cs arbitrary: q)
  case (Cons c cs)
  from Cons.prems obtain q1 where q1: "count_chunk c q = Inr q1" "rfold count_chunk cs q1 = Inr q'"
    by (auto simp: rbind_Inr_iff)
  from Cons.IH [OF q1(2)] count_chunk_frame [OF q1(1)] show ?case by (auto simp: dict_simps)
qed simp

lemma rates_sum:
  "dtotal (map (\<lambda>(s, n). (s, ratio n m)) d) = ratio (dtotal d) m"
  by (induction d) (auto simp: dtotal_def ratio_def add_divide_distrib)

lemma dinc_fold_status:
  "dcount (foldl (\<lambda>d m. dinc (f m) 1 d) d0 ms) st = dcount d0 st + (length (filter (\<lambda>m. f m = st) ms) :: nat)"
  by (induction ms arbitrary: d0) (auto simp: dict_simps)

lemma wf_dinc_fold: "wf_dict d0 \<Longrightarrow> wf_dict (foldl (\<lambda>d m. dinc (f m) (1 :: nat) d) d0 ms)"
  by (induction ms arbitrary: d0) (simp_all add: wf_dinc)

lemma dcount_merge:
  "wf_dict e \<Longrightarrow> dcount (foldl (\<lambda>d (k, n). dinc k n d) d e) st = dcount d st + (dcount e st :: nat)"
proof (induction e arbitrary: d)
  case (Cons p e)
  obtain k n where p: "p = (k, n)" by (cases p)
  from Cons.prems p have wf: "wf_dict e" and new: "dget e k = None"
    by (auto simp: wf_dict_def map_of_eq_None_iff)
  from Cons.IH [OF wf] p new show ?case by (auto simp: dict_simps) (auto simp: dcount_def)
qed simp

lemma add_signals:
  "\<forall>s\<in>set ss. wf_dict (as_by_status s) \<Longrightarrow>
     at_answers (foldl add_signal a ss) = at_answers a + length ss \<and>
     at_citations_total (foldl add_signal a ss) = at_citations_total a + sum_list (map as_citations_total ss) \<and>
     at_review_approved (foldl add_signal a ss) = at_review_approved a + sum_list (map as_review_approved ss) \<and>
     at_high_risk_eligible (foldl add_signal a ss) = at_high_risk_eligible a + sum_list (map as_high_risk_eligible ss) \<and>
     dcount (at_by_status (foldl add_signal a ss)) st = dcount (at_by_status a) st + sum_list (map (\<lambda>s. dcount (as_by_status s) st) ss)"
  by (induction ss arbitrary: a) (simp_all add: add_signal_def dcount_merge)

lemma sum_length_concat: "sum_list (map (\<lambda>x. length (f x)) xs) = length (concat (map f xs))"
  by (induction xs) simp_all

lemma length_filter_three:
  "a \<noteq> b \<Longrightarrow> a \<noteq> c \<Longrightarrow> b \<noteq> c \<Longrightarrow> length (filter (\<lambda>x. f x \<in> {a, b, c}) xs) =
     length (filter (\<lambda>x. f x = a) xs) + length (filter (\<lambda>x. f x = b) xs) + length (filter (\<lambda>x. f x = c) xs)"
  by (induction xs) auto

text \<open>What the cost counters satisfy after every step.\<close>

definition costs_ok :: "(string, rat) dict \<Rightarrow> latency_counts \<Rightarrow> bool" where
  "costs_ok cm s \<longleftrightarrow> lc_total_cost s = dtotal (lc_cost_by_provider s) \<and>
     (\<forall>p. dcount (lc_cost_by_provider s) p = of_nat (dcount (lc_provider_calls s) p) * dcount cm p)"

lemma costs_ok_step: "costs_ok cm s \<Longrightarrow> costs_ok cm (count_step cm s step)"
  by (auto simp: count_step_def Let_def costs_ok_def dict_simps algebra_simps split: option.splits)

lemma costs_ok_steps: "costs_ok cm s \<Longrightarrow> costs_ok cm (foldl (count_step cm) s steps)"
  by (induction steps arbitrary: s) (simp_all add: costs_ok_step)

lemma seen_step: "lc_seen_docs (count_step cm s step) = lc_seen_docs s"
  by (simp add: count_step_def Let_def split: option.splits)

lemma seen_steps: "lc_seen_docs (foldl (count_step cm) s steps) = lc_seen_docs s"
  by (induction steps arbitrary: s) (simp_all add: seen_step)

lemma count_document_costs:
  assumes "costs_ok cm s" and "count_document cm c s = Inr s'"
  shows "costs_ok cm s' \<and>
     lc_seen_docs s' = (if c_document_id c \<in> set (lc_seen_docs s) then lc_seen_docs s else lc_seen_docs s @ [c_document_id c])"
proof (cases "c_document_id c \<in> set (lc_seen_docs s)")
  case True
  with assms show ?thesis by (simp add: count_document_def Let_def)
next
  case False
  let ?route = "py_get (c_metadata c) ''route_trace''"
  from assms(2) False obtain kvs where kvs: "py_or (py_get (c_metadata c) ''page_route_distribution'') (PDict []) = PDict kvs"
    by (auto simp: count_document_def Let_def split: pyval.splits)
  let ?s1 = "count_pages c kvs s"
  have s1: "costs_ok cm ?s1" "lc_seen_docs ?s1 = lc_seen_docs s @ [c_document_id c]"
    using assms(1) by (simp_all add: costs_ok_def count_pages_def Let_def)
  have "s' = (case ?route of PList steps \<Rightarrow> foldl (count_step cm) ?s1 steps | _ \<Rightarrow> ?s1)"
    using assms(2) False kvs by (simp add: count_document_def Let_def)
  with s1 False show ?thesis by (cases ?route) (simp_all add: costs_ok_steps seen_steps)
qed

lemma count_documents_costs:
  "costs_ok cm s \<Longrightarrow> distinct (lc_seen_docs s) \<Longrightarrow> rfold (count_document cm) cs s = Inr s' \<Longrightarrow>
     costs_ok cm s' \<and> distinct (lc_seen_docs s') \<and> set (lc_seen_docs s') = set (lc_seen_docs s) \<union> c_document_id ` set cs"
proof (induction cs arbitrary: s)
  case (Cons c cs)
  from Cons.prems(3) obtain s1 where s1: "count_document cm c s = Inr s1" "rfold (count_document cm) cs s1 = Inr s'"
    by (auto simp: rbind_Inr_iff)
  note c = count_document_costs [OF Cons.prems(1) s1(1)]
  have "costs_ok cm s1" "distinct (lc_seen_docs s1)" using c Cons.prems(2) by auto
  from Cons.IH [OF this s1(2)] c show ?case by auto
qed simp

lemma sorted_ends:
  assumes "sorted xs" "xs \<noteq> []"
  shows "Min (set xs) = xs ! 0" "Max (set xs) = xs ! (length xs - 1)"
proof -
  have "\<forall>x\<in>set xs. xs ! 0 \<le> x \<and> x \<le> xs ! (length xs - 1)"
    using assms by (auto simp: in_set_conv_nth intro!: sorted_nth_mono)
  moreover have "xs ! 0 \<in> set xs" "xs ! (length xs - 1) \<in> set xs" using assms(2) by simp_all
  ultimately show "Min (set xs) = xs ! 0" "Max (set xs) = xs ! (length xs - 1)"
    by (auto intro: Min_eqI Max_eqI)
qed

section \<open>Properties\<close>

text \<open>C22: The quality gate splits physically: storing a document's chunks (with distinct ids) puts every chunk
  whose metadata blocks retrieval or asks for review into the quarantine and nowhere else, every other
  chunk into the primary index and nowhere else, and leaves all other entries alone.\<close>

theorem quality_partition_is_physical:
  assumes "distinct (map (c_chunk_id \<circ> fst) pairs)" and "(c, v) \<in> set pairs"
    and "store_quality_partitioned_chunks pairs st = (st', (n, q))"
  shows "(dget (vs_items st') (c_chunk_id c), dget (vs_quarantine st') (c_chunk_id c)) =
      (if quality_status (c_metadata c) \<in> {''review_required'', ''rejected'', ''draft_visual''} \<or>
          (quality_status (c_metadata c) = [] \<and> py_truthy (py_get (c_metadata c) ''quality_review_required''))
       then (None, Some (c, v)) else (Some (c, v), None))
    \<and> (k \<notin> c_chunk_id ` fst ` set pairs \<longrightarrow>
         dget (vs_items st') k = dget (vs_items st) k \<and> dget (vs_quarantine st') k = dget (vs_quarantine st) k)
    \<and> n + q = length pairs"
proof -
  let ?bad = "\<lambda>p. must_quarantine (fst p)"
  let ?primary = "filter (\<lambda>p. \<not> ?bad p) pairs" and ?held = "filter ?bad pairs"
  have st': "st' = VectorStore.quarantine ?held (upsert ?primary st)" and n: "n = length ?primary" and q: "q = length ?held"
    using assms(3) by (auto simp: store_quality_partitioned_chunks_def Let_def split_def upsert_def VectorStore.quarantine_def)
  have d: "distinct (map (c_chunk_id \<circ> fst) ?primary)" "distinct (map (c_chunk_id \<circ> fst) ?held)"
    using assms(1) by (simp_all add: distinct_map_filter)
  note look = quarantine_lookup [OF d(2)] upsert_lookup [OF d(1)]
  have "(dget (vs_items st') (c_chunk_id c), dget (vs_quarantine st') (c_chunk_id c)) =
      (if must_quarantine c then (None, Some (c, v)) else (Some (c, v), None))"
  proof (cases "must_quarantine c")
    case True
    then show ?thesis
      using find_distinct [OF assms(1,2), of ?bad] find_filter_other [OF assms(1,2), of "\<lambda>p. \<not> ?bad p"]
      by (simp add: st' look)
  next
    case False
    then show ?thesis
      using find_distinct [OF assms(1,2), of "\<lambda>p. \<not> ?bad p"] find_filter_other [OF assms(1,2), of ?bad]
      by (simp add: st' look)
  qed
  moreover have "dget (vs_items st') k = dget (vs_items st) k \<and> dget (vs_quarantine st') k = dget (vs_quarantine st) k"
    if "k \<notin> c_chunk_id ` fst ` set pairs"
  proof -
    have "find (\<lambda>p. c_chunk_id (fst p) = k) (filter P pairs) = None" for P
      using that by (force simp: find_None_iff)
    then show ?thesis by (simp add: st' look)
  qed
  moreover have "n + q = length pairs"
    unfolding n q using sum_length_filter_compl [of "\<lambda>p. \<not> ?bad p" pairs] by simp
  ultimately show ?thesis unfolding must_quarantine_iff blocking_statuses_def by simp
qed

definition sample_quality_chunk :: "string \<Rightarrow> chunk" where
  "sample_quality_chunk status = \<lparr>c_tenant_id = ''t'', c_chunk_id = ''c1'', c_document_id = ''d'', c_collection_id = ''col'',
     c_text = [], c_position = 0, c_token_count = 0, c_heading_path = [], c_modality = TEXT,
     c_embedding_model_version = [], c_offset_mapping = None,
     c_metadata = [(''extraction_quality_status'', PStr status)], c_tombstone = False\<rparr>"

theorem quality_partition_is_physical_witness:
  "let c = sample_quality_chunk ''draft_visual'' in
   dget (vs_items (fst (store_quality_partitioned_chunks [(c, [1])] new_store))) ''c1'' = None"
proof -
  let ?c = "sample_quality_chunk ''draft_visual''"
  obtain st' n q where s: "store_quality_partitioned_chunks [(?c, [1])] new_store = (st', (n, q))"
    by (metis prod.exhaust)
  have "c_chunk_id ?c = ''c1''" "quality_status (c_metadata ?c) = ''draft_visual''"
    by (simp_all add: sample_quality_chunk_def quality_status_def py_get_str_def py_get_def)
  with quality_partition_is_physical [OF _ _ s, of ?c "[1]" "''x''", THEN conjunct1] show ?thesis
    by (simp add: s)
qed

text \<open>The text gate fails towards review: a chunk whose metadata is completed with the gate's verdict is
  quarantined, and not retrievable, exactly when the text has a hard defect (nothing extracted from a
  non-trivial file, CID artefacts, or replacement or control characters at or above the bar); it can be
  high-risk evidence only when it has no defect at all. Nothing already in the metadata overrides this.\<close>

theorem text_gate_decides_storage:
  assumes "c_metadata c = with_quality_metadata (Some m) (Some (classify_text_extraction_quality th (Some body) raw_size))"
    and "hard = (((case raw_size of None \<Rightarrow> 0 | Some n \<Rightarrow> n) \<ge> qt_empty_yield_min_raw_bytes th \<and> utf8_len (py_strip body) = 0)
           \<or> str_contains ''(cid:'' body
           \<or> (body \<noteq> [] \<and>
               (qt_mojibake_hard_ratio th \<le> of_nat (str_count replacement_char body) / of_nat (utf8_len body) \<or>
                qt_control_char_hard_ratio th \<le> of_nat (length (filter is_control body)) / of_nat (utf8_len body))))"
  shows "must_quarantine c = hard \<and> is_retrieval_eligible (c_metadata c) = (\<not> hard) \<and>
    (is_high_risk_citation_quality_eligible (c_metadata c) \<longrightarrow> \<not> hard \<and> \<not> str_contains replacement_char body)"
proof -
  let ?q = "classify_text_extraction_quality th (Some body) raw_size"
  have hard: "hard_reasons th body raw_size \<noteq> [] \<longleftrightarrow> hard" using assms(2) by (auto simp: hard_reasons_def)
  have soft: "\<not> hard \<Longrightarrow> soft_reasons th body \<noteq> [] \<longleftrightarrow> str_contains replacement_char body"
    using assms(2) by (auto simp: soft_reasons_def replacement_char_def)
  let ?st = "if hard then ''review_required'' else if soft_reasons th body \<noteq> [] then ''accepted_with_warnings'' else ''accepted''"
  define rs where "rs = (if hard then hard_reasons th body raw_size else soft_reasons th body)"
  have q: "?q = quality_metadata ?st rs (\<not> hard) (\<not> hard \<and> soft_reasons th body = []) hard"
    using hard by (cases hard; cases "soft_reasons th body = []") (simp_all add: rs_def classify_text_extraction_quality_def review_required_quality_metadata_def
        accepted_with_warnings_quality_metadata_def accepted_quality_metadata_def)
  have merged: "py_get (c_metadata c) k = py_get ?q k" if "k \<in> {''extraction_quality_status'', ''retrieval_eligible'',
      ''high_risk_citation_eligible'', ''quality_review_required''}" for k
  proof -
    have "wf_dict ?q" "?q \<noteq> []" "dget ?q k \<noteq> None" unfolding q
      using that by (auto simp: quality_metadata_def wf_dict_def)
    then show ?thesis
      unfolding assms(1) with_quality_metadata_def py_get_def by (auto simp: Let_def dget_py_update)
  qed
  have status: "quality_status (c_metadata c) = ?st"
    using quality_status_quality_metadata [of ?st] merged
    by (simp add: quality_status_def py_get_str_def q py_get_quality_metadata blocking_statuses_def eligible_statuses_def)
  have elig: "is_retrieval_eligible (c_metadata c) = (\<not> hard)"
    using statuses_disjoint merged
    by (auto simp: is_retrieval_eligible_iff status q py_get_quality_metadata eligible_statuses_def)
  have "is_explicit_false (py_get (c_metadata c) ''high_risk_citation_eligible'')" if "soft_reasons th body \<noteq> []"
    using merged that by (simp add: q py_get_quality_metadata)
  then have "is_high_risk_citation_quality_eligible (c_metadata c) \<longrightarrow> \<not> hard \<and> \<not> str_contains replacement_char body"
    using elig soft by (auto simp: is_high_risk_citation_quality_eligible_def)
  with elig show ?thesis
    using merged by (auto simp: must_quarantine_iff status blocking_statuses_def q py_get_quality_metadata)
qed

theorem text_gate_decides_storage_witness:
  "must_quarantine (sample_quality_chunk []\<lparr>c_metadata := with_quality_metadata (Some [])
     (Some (classify_text_extraction_quality default_thresholds (Some ''see (cid:7)'') None))\<rparr>)"
proof -
  have "str_contains ''(cid:'' ''see (cid:7)''" by simp
  with text_gate_decides_storage [OF _ refl, of _ "[]" default_thresholds "''see (cid:7)''" None, THEN conjunct1] show ?thesis
    by simp
qed

text \<open>The review queue is not a subset of what retrieval excludes: an item can be in the queue and at the
  same time pass the retrieval test, exactly when its metadata asks for a review without a status and does
  not switch retrieval off. (Such a chunk is kept out of search only by the physical quarantine.)\<close>

theorem review_queue_vs_retrieval:
  "(extraction_review_status m \<noteq> [] \<and> is_retrieval_eligible m) \<longleftrightarrow>
     quality_status m = [] \<and> py_truthy (py_get m ''quality_review_required'') \<and>
     \<not> is_explicit_false (py_get m ''retrieval_eligible'')"
  using statuses_disjoint
  by (auto simp: extraction_review_status_def is_retrieval_eligible_iff review_queue_statuses_def eligible_statuses_def)

text \<open>The quality snapshot is consistent: the status counts count the tenant's stored chunks of both
  indexes by status, they add up to the total, the rates add up to one unless nothing is stored, and the
  quarantined count is the number of chunks with a blocking status.\<close>

theorem quality_stats_consistent:
  assumes "extraction_quality_stats tenant st = Inr s"
    and "cs = filter (\<lambda>c. tenant = None \<or> tenant = Some (c_tenant_id c)) (map fst (iter_all_items st))"
  shows "qs_total s = length cs
    \<and> dtotal (qs_by_status s) = qs_total s
    \<and> (cs \<noteq> [] \<longrightarrow> dtotal (qs_rates s) = 1)
    \<and> qs_quarantined s = length (filter (\<lambda>c. quality_status (c_metadata c) \<in> {''review_required'', ''rejected'', ''draft_visual''}) cs)
    \<and> 0 \<le> qs_quarantine_rate s \<and> qs_quarantine_rate s \<le> 1"
proof -
  obtain q where q: "rfold count_chunk cs no_counts = Inr q" and s: "s = quality_stats_of q"
    using assms by (auto simp: extraction_quality_stats_def rbind_Inr_iff)
  note c = count_chunks [OF q]
  have total: "qc_total q = length cs" "dtotal (qc_by_status q) = length cs" using c by (simp_all add: no_counts_def)
  have n: "dcount (qc_by_status q) st = length (filter (\<lambda>c. quality_status (c_metadata c) = st) cs)"
    if "st \<noteq> ''accepted'' \<and> st \<noteq> []" for st
    using c that by (auto simp: no_counts_def status_or_accepted_def intro!: arg_cong [where f = length] filter_cong)
  have "qs_quarantined s = length (filter (\<lambda>c. quality_status (c_metadata c) \<in> {''review_required'', ''rejected'', ''draft_visual''}) cs)"
    unfolding s quality_stats_of_def Let_def quality_stats.simps using n by (subst length_filter_three) simp_all
  moreover have "dtotal (qs_rates s) = 1" if "cs \<noteq> []"
    unfolding s quality_stats_of_def Let_def quality_stats.simps rates_sum using total that by (simp add: ratio_def)
  moreover have "qs_total s = length cs" "dtotal (qs_by_status s) = qs_total s"
    "qs_quarantine_rate s = ratio (qs_quarantined s) (qs_total s)"
    using total by (simp_all add: s quality_stats_of_def Let_def)
  ultimately show ?thesis
    using length_filter_le [of "\<lambda>c. quality_status (c_metadata c) \<in> {''review_required'', ''rejected'', ''draft_visual''}" cs]
    by (auto simp: ratio_def divide_simps)
qed

theorem quality_stats_consistent_witness:
  "\<exists>s. extraction_quality_stats None (upsert [(sample_quality_chunk ''accepted'', [1])] new_store) = Inr s \<and> qs_total s = 1"
proof -
  have "\<exists>s. extraction_quality_stats None (upsert [(sample_quality_chunk ''accepted'', [1])] new_store) = Inr s"
    by (simp add: extraction_quality_stats_def upsert_def new_store_def iter_all_items_def count_chunk_def
        metadata_reasons_def py_or_def sample_quality_chunk_def py_get_def split_def)
  then obtain s where s: "extraction_quality_stats None (upsert [(sample_quality_chunk ''accepted'', [1])] new_store) = Inr s" ..
  from quality_stats_consistent [OF s refl, THEN conjunct1] have "qs_total s = 1"
    by (simp add: upsert_def new_store_def iter_all_items_def)
  with s show ?thesis by blast
qed

text \<open>Rolling up per-answer signals loses nothing: the totals over any list of answers are the signals of
  all their citations taken together (counts by status, approved usage and its rate, high-risk eligible
  citations), and the blocked count is the number of answers blocked for a missing approved citation.\<close>

theorem aggregate_signals_of_all_citations:
  fixes answers :: "(pydict list \<times> bool \<times> bool \<times> string) list"
  defines "a \<equiv> aggregate_answer_quality_signals
       (map (\<lambda>(cs, hr, bl, r). answer_citation_quality_signals cs hr bl r) answers)"
    and "whole \<equiv> answer_citation_quality_signals (concat (map fst answers)) False False []"
  shows "at_answers a = length answers
    \<and> at_citations_total a = as_citations_total whole
    \<and> dcount (at_by_status a) status = dcount (as_by_status whole) status
    \<and> at_review_approved a = as_review_approved whole
    \<and> at_review_approved_rate a = as_review_approved_rate whole
    \<and> at_high_risk_eligible a = as_high_risk_eligible whole"
proof -
  let ?sig = "\<lambda>(cs, hr, bl, r). answer_citation_quality_signals cs hr bl r"
  let ?z = "\<lparr>at_answers = 0, at_citations_total = 0, at_by_status = [], at_review_approved = 0,
    at_review_approved_rate = 0, at_high_risk_eligible = 0, at_high_risk_blocked = 0\<rparr>"
  have wf: "\<forall>s\<in>set (map ?sig answers). wf_dict (as_by_status s)"
    by (auto simp: answer_citation_quality_signals_def Let_def wf_dinc_fold [OF wf_dict_Nil, simplified])
  have proj: "as_citations_total (?sig x) = length (fst x)"
    "as_review_approved (?sig x) = length (filter (\<lambda>m. status_or_accepted m = ''manual_approved'') (fst x))"
    "as_high_risk_eligible (?sig x) = length (filter is_high_risk_citation_quality_eligible (fst x))"
    "dcount (as_by_status (?sig x)) st = length (filter (\<lambda>m. status_or_accepted m = st) (fst x))" for x st
    by (cases x; simp add: answer_citation_quality_signals_def Let_def dinc_fold_status [of status_or_accepted "[]", simplified])+
  have sums: "sum_list (map (length \<circ> (filter P \<circ> fst)) answers) = length (filter P (concat (map fst answers)))" for P
    by (induction answers) simp_all
  have len: "sum_list (map (length \<circ> fst) answers) = length (concat (map fst answers))"
    by (induction answers) simp_all
  note folds = add_signals [OF wf, of ?z] 
  have whole: "as_citations_total whole = length (concat (map fst answers))"
    "as_review_approved whole = length (filter (\<lambda>m. status_or_accepted m = ''manual_approved'') (concat (map fst answers)))"
    "as_high_risk_eligible whole = length (filter is_high_risk_citation_quality_eligible (concat (map fst answers)))"
    "dcount (as_by_status whole) st = length (filter (\<lambda>m. status_or_accepted m = st) (concat (map fst answers)))"
    "as_review_approved_rate whole = ratio (as_review_approved whole) (as_citations_total whole)" for st
    unfolding whole_def
    by (simp_all add: answer_citation_quality_signals_def Let_def dinc_fold_status [of status_or_accepted "[]", simplified])
  have a: "at_answers a = length answers" "at_citations_total a = length (concat (map fst answers))"
    "at_review_approved a = length (filter (\<lambda>m. status_or_accepted m = ''manual_approved'') (concat (map fst answers)))"
    "at_high_risk_eligible a = length (filter is_high_risk_citation_quality_eligible (concat (map fst answers)))"
    "dcount (at_by_status a) st = length (filter (\<lambda>m. status_or_accepted m = st) (concat (map fst answers)))"
    "at_review_approved_rate a = ratio (at_review_approved a) (at_citations_total a)" for st
    using folds [of st] sums len
    by (simp_all add: a_def aggregate_answer_quality_signals_def Let_def proj comp_def)
  show ?thesis using a whole by simp
qed

text \<open>The latency percentile interpolates inside the data: it exists for every non-empty sample, lies
  between the smallest and the largest value, is the smallest at rank 0 and the largest at rank 100.\<close>

theorem percentile_within_sample:
  assumes "values \<noteq> []" and "0 \<le> p" and "p \<le> 100"
  shows "\<exists>r. percentile values p = Some r \<and> Min (set values) \<le> r \<and> r \<le> Max (set values) \<and>
     (p = 0 \<longrightarrow> r = Min (set values)) \<and> (p = 100 \<longrightarrow> r = Max (set values))"
proof -
  let ?o = "sort values" and ?n = "length values"
  have n: "0 < ?n" using assms(1) by simp
  have mono: "i \<le> j \<Longrightarrow> j < ?n \<Longrightarrow> ?o ! i \<le> ?o ! j" for i j
    using sorted_nth_mono [OF sorted_sort] by simp
  have set_o: "set ?o = set values" by simp
  have mn: "Min (set values) = ?o ! 0" and mx: "Max (set values) = ?o ! (?n - 1)"
    using sorted_ends [of ?o] assms(1) set_o by (metis length_sort set_empty sorted_sort)+
  show ?thesis
  proof (cases "?n = 1")
    case True
    then show ?thesis using assms(1) mn mx by (simp add: percentile_def Let_def)
  next
    case False
    define k where "k = of_nat (?n - 1) * (p / 100)"
    define lo where "lo = nat (py_trunc k)"
    have eq: "percentile values p = (if lo = min (lo + 1) (?n - 1) then Some (?o ! lo)
        else Some (?o ! lo + (?o ! min (lo + 1) (?n - 1) - ?o ! lo) * (k - of_nat lo)))"
      using False assms(1) unfolding percentile_def Let_def k_def lo_def by (simp only: length_sort if_False)
    have k0: "0 \<le> k" using assms(2) by (simp add: k_def)
    have k1: "k \<le> of_nat (?n - 1)"
      using mult_left_mono [of "p / 100" 1 "of_nat (?n - 1)"] assms(3) by (simp add: k_def)
    have lo_k: "of_nat lo \<le> k" and k_lo: "k < of_nat lo + 1"
      using k0 unfolding lo_def py_trunc_def by simp_all linarith+
    have lo: "lo \<le> ?n - 1"
      using lo_k k1 by (meson of_nat_le_iff order_trans)
    show ?thesis
    proof (cases "lo = ?n - 1")
      case True
      with eq have "percentile values p = Some (?o ! (?n - 1))" by simp
      moreover have "p \<noteq> 0" using True False n by (cases "?n") (auto simp: lo_def k_def py_trunc_def)
      ultimately show ?thesis using mn mx mono [of 0 "?n - 1"] n by simp
    next
      case nlast: False
      with lo have lo': "lo + 1 \<le> ?n - 1" by simp
      then have mi: "min (lo + 1) (?n - 1) = lo + 1" by simp
      let ?r = "?o ! lo + (?o ! (lo + 1) - ?o ! lo) * (k - of_nat lo)"
      have r: "percentile values p = Some ?r" unfolding eq mi by simp
      have d: "0 \<le> ?o ! (lo + 1) - ?o ! lo" using mono [of lo "lo + 1"] lo' n by simp
      have f: "0 \<le> k - of_nat lo" "k - of_nat lo \<le> 1" using lo_k k_lo by simp_all
      have "?o ! lo \<le> ?r" using d f by simp
      moreover have "?r \<le> ?o ! (lo + 1)" using mult_left_mono [OF f(2) d] by simp
      moreover have "?o ! 0 \<le> ?o ! lo" "?o ! (lo + 1) \<le> ?o ! (?n - 1)"
        using mono [of 0 lo] mono [of "lo + 1" "?n - 1"] lo' n by simp_all
      moreover have "?r = ?o ! 0" if "p = 0" using that by (simp add: lo_def k_def py_trunc_def)
      moreover have "p \<noteq> 100"
      proof
        assume "p = 100"
        then have "k = of_nat (?n - 1)" by (simp add: k_def)
        with k_lo have "(of_nat (?n - 1) :: rat) < of_nat (lo + 1)" by simp
        with lo' show False by (simp only: of_nat_less_iff)
      qed
      ultimately show ?thesis using r mn mx by auto
    qed
  qed
qed

theorem percentile_within_sample_witness:
  "\<exists>r. percentile [30, 10, 20] 50 = Some r \<and> 10 \<le> r \<and> r \<le> 30"
  using percentile_within_sample [of "[30, 10, 20]" 50] by auto

text \<open>The cost report adds up: each document is counted once however many chunks it has, the total cost is
  the sum of the providers' costs, and a provider's cost is its number of calls times its unit cost in
  the configured model.\<close>

theorem extraction_costs_add_up:
  assumes "extraction_latency_cost_stats tenant cost_model st = Inr s"
    and "cs = filter (\<lambda>c. tenant = None \<or> tenant = Some (c_tenant_id c)) (map fst (iter_all_items st))"
  shows "ls_documents s = card (c_document_id ` set cs)
    \<and> ls_total_cost s = dtotal (ls_cost_by_provider s)
    \<and> dcount (ls_cost_by_provider s) p = of_nat (dcount (ls_provider_calls s) p) * dcount cost_model p
    \<and> (cs \<noteq> [] \<longrightarrow> ls_cost_per_document s * of_nat (ls_documents s) = ls_total_cost s)"
proof -
  obtain q where q: "rfold (count_document cost_model) cs no_latency = Inr q"
    and s: "ls_documents s = length (lc_seen_docs q)" "ls_total_cost s = lc_total_cost q"
      "ls_cost_by_provider s = lc_cost_by_provider q" "ls_provider_calls s = lc_provider_calls q"
      "ls_cost_per_document s = (if length (lc_seen_docs q) \<noteq> 0 then lc_total_cost q / of_nat (length (lc_seen_docs q)) else 0)"
    using assms by (auto simp: extraction_latency_cost_stats_def rbind_Inr_iff Let_def)
  have ok: "costs_ok cost_model q \<and> distinct (lc_seen_docs q) \<and> set (lc_seen_docs q) = c_document_id ` set cs"
    using count_documents_costs [OF _ _ q] by (simp add: no_latency_def costs_ok_def)
  then have len: "length (lc_seen_docs q) = card (c_document_id ` set cs)" using distinct_card by metis
  have "lc_seen_docs q \<noteq> []" if "cs \<noteq> []"
    using ok that by (metis image_is_empty set_empty)
  with ok len show ?thesis unfolding costs_ok_def s by simp
qed

theorem extraction_costs_add_up_witness:
  "\<exists>s. extraction_latency_cost_stats None [(''docling'', 2)] (upsert [(sample_quality_chunk ''accepted'', [1])] new_store) = Inr s
     \<and> ls_documents s = 1"
proof -
  have "\<exists>s. extraction_latency_cost_stats None [(''docling'', 2)] (upsert [(sample_quality_chunk ''accepted'', [1])] new_store) = Inr s"
    by (simp add: extraction_latency_cost_stats_def upsert_def new_store_def iter_all_items_def count_document_def count_pages_def
        py_or_def sample_quality_chunk_def py_get_def no_latency_def Let_def)
  then obtain s where s: "extraction_latency_cost_stats None [(''docling'', 2)]
      (upsert [(sample_quality_chunk ''accepted'', [1])] new_store) = Inr s" ..
  from extraction_costs_add_up [OF s refl, of "''docling''", THEN conjunct1] have "ls_documents s = 1"
    by (simp add: upsert_def new_store_def iter_all_items_def)
  with s show ?thesis by blast
qed

end
