(* ===== verification/ReviewActions.thy ===== *)
theory ReviewActions
  imports IngestionQuality
begin

text \<open>
  Reviewer actions on quarantined extractions (\<open>services/review_actions.py\<close>). The state is the vector
  store and the optional audit sink; the embedder and the two clock readings (the review time and the
  event's creation time) are arguments. An exception leaves the state as it was: every raise of the
  code comes before the store is changed.
\<close>

section \<open>The service\<close>

record review_decision =
  rd_chunk_id :: string
  rd_action :: string
  rd_status :: string
  rd_reviewed_by :: string
  rd_reviewed_at :: string
  rd_high_risk_citation_eligible :: bool
  rd_retrieval_eligible :: bool

record review_state =
  rs_store :: vector_store
  rs_audit :: "audit_sink option"

definition review_actions :: "string set" where
  "review_actions = {''approve'', ''edit_and_approve'', ''reject'', ''reprocess'', ''mark_as_non_content'', ''escalate''}"

definition has_citation_anchor :: "pydict \<Rightarrow> bool" where
  "has_citation_anchor m = py_truthy (py_get m ''anchor_type'')"

definition find_chunk :: "string \<Rightarrow> string \<Rightarrow> vector_store \<Rightarrow> chunk option" where
  "find_chunk tenant_id chunk_id st =
     (let mine = (\<lambda>c. c_chunk_id c = chunk_id \<and> c_tenant_id c = tenant_id) in
      case find mine (list_extraction_review_chunks (Some tenant_id) st) of
        Some c \<Rightarrow> Some c
      | None \<Rightarrow> find mine (map fst (iter_items st)))"

text \<open>The branch of an action: the quality metadata, its status, the extra review fields, the new text and
  vector and the tombstone flag handed to the store.\<close>

record review_effect =
  ef_quality :: pydict
  ef_status :: string
  ef_fields :: pydict
  ef_text :: "string option"
  ef_vector :: "vector option"
  ef_tombstone :: "bool option"

definition or_default :: "string \<Rightarrow> string \<Rightarrow> string" where
  "or_default s d = (if s \<noteq> [] then s else d)"

definition action_effect ::
  "(string \<Rightarrow> vector) \<Rightarrow> string \<Rightarrow> string option \<Rightarrow> string \<Rightarrow> chunk \<Rightarrow> review_effect result" where
  "action_effect embedder action corrected_text reason c =
     (if action = ''approve'' \<or> action = ''edit_and_approve'' then
        let was_visual = (py_get (c_metadata c) ''extraction_quality_status'' = PStr ''draft_visual'');
            high_risk = (if was_visual then has_citation_anchor (c_metadata c) else True);
            quality = accepted_quality_metadata ''manual_approved'' [] high_risk
        in if action = ''edit_and_approve'' then
             (case corrected_text of
                None \<Rightarrow> Inl ValueError
              | Some t \<Rightarrow>
                  if py_strip t = [] then Inl ValueError
                  else Inr \<lparr>ef_quality = quality, ef_status = ''manual_approved'',
                            ef_fields = [(''original_text'', PStr (c_text c))],
                            ef_text = Some t, ef_vector = Some (embedder t), ef_tombstone = None\<rparr>)
           else Inr \<lparr>ef_quality = quality, ef_status = ''manual_approved'', ef_fields = [],
                     ef_text = None, ef_vector = None, ef_tombstone = None\<rparr>
      else if action = ''reject'' then
        Inr \<lparr>ef_quality = review_required_quality_metadata [or_default reason ''reviewer_rejected''] ''rejected'',
             ef_status = ''rejected'', ef_fields = [], ef_text = None, ef_vector = None, ef_tombstone = None\<rparr>
      else if action = ''mark_as_non_content'' then
        Inr \<lparr>ef_quality = review_required_quality_metadata [''non_content''] ''rejected'',
             ef_status = ''rejected'', ef_fields = [], ef_text = None, ef_vector = None, ef_tombstone = Some True\<rparr>
      else if action = ''reprocess'' then
        Inr \<lparr>ef_quality = py_update (review_required_quality_metadata [or_default reason ''reprocess_requested''] ''review_required'')
                            [(''reprocess_requested'', PBool True)],
             ef_status = ''review_required'', ef_fields = [], ef_text = None, ef_vector = None, ef_tombstone = None\<rparr>
      else
        Inr \<lparr>ef_quality = py_update (review_required_quality_metadata [''escalated''] ''review_required'')
                            [(''review_escalated'', PBool True), (''escalated_to'', PStr reason)],
             ef_status = ''review_required'', ef_fields = [], ef_text = None, ef_vector = None, ef_tombstone = None\<rparr>)"

definition review_fields :: "string \<Rightarrow> string \<Rightarrow> string \<Rightarrow> string \<Rightarrow> pydict" where
  "review_fields actor reviewed_at action reason =
     [(''reviewed_by'', PStr actor), (''reviewed_at'', PStr reviewed_at), (''review_action'', PStr action)] @
     (if reason \<noteq> [] then [(''review_reason'', PStr reason)] else [])"

definition review_audit_event :: "string \<Rightarrow> string \<Rightarrow> chunk \<Rightarrow> string \<Rightarrow> string \<Rightarrow> string \<Rightarrow> string \<Rightarrow> string \<Rightarrow> audit_event" where
  "review_audit_event created_at tenant_id c action status actor reason correlation_id =
     \<lparr>ae_tenant_id = tenant_id,
      ae_correlation_id = or_default correlation_id (''review:'' @ c_chunk_id c),
      ae_action = ''extraction_review.'' @ action, ae_decision = status, ae_actor_id = actor,
      ae_resource_type = ''chunk'', ae_resource_id = c_chunk_id c, ae_document_ids = [c_document_id c],
      ae_chunk_ids = [c_chunk_id c], ae_reason = reason, ae_created_at = created_at, ae_metadata = []\<rparr>"

definition review_apply ::
  "(string \<Rightarrow> vector) \<Rightarrow> (string \<Rightarrow> string) \<Rightarrow> string \<Rightarrow> string \<Rightarrow>
     string \<Rightarrow> string \<Rightarrow> string \<Rightarrow> string \<Rightarrow> string option \<Rightarrow> string \<Rightarrow> string \<Rightarrow>
     review_state \<Rightarrow> (review_state \<times> review_decision) result" where
  "review_apply embedder redact reviewed_at created_at tenant_id chunk_id action0 actor corrected_text reason correlation_id s =
     (let action = py_strip action0 in
      if action \<notin> review_actions then Inl ValueError
      else if actor = [] then Inl ValueError
      else case find_chunk tenant_id chunk_id (rs_store s) of
        None \<Rightarrow> Inl KeyError
      | Some c \<Rightarrow>
          rbind (action_effect embedder action corrected_text reason c) (\<lambda>ef.
            let fields = review_fields actor reviewed_at action reason @ ef_fields ef;
                metadata = py_update (ef_quality ef) fields;
                (store, ok) = update_chunk_review tenant_id chunk_id (Some metadata) (ef_text ef) (ef_vector ef)
                                (ef_tombstone ef) (rs_store s)
            in if \<not> ok then Inl KeyError
               else Inr
                 (\<lparr>rs_store = store,
                   rs_audit = (case rs_audit s of None \<Rightarrow> None
                     | Some sink \<Rightarrow> Some (fst (sink_record redact
                         (review_audit_event created_at tenant_id c action (ef_status ef) actor reason correlation_id) sink)))\<rparr>,
                  \<lparr>rd_chunk_id = chunk_id, rd_action = action, rd_status = ef_status ef, rd_reviewed_by = actor,
                   rd_reviewed_at = reviewed_at,
                   rd_high_risk_citation_eligible = py_truthy (py_get metadata ''high_risk_citation_eligible''),
                   rd_retrieval_eligible = (ef_status ef = ''manual_approved'')\<rparr>)))"

section \<open>Facts\<close>

lemma find_chunk_mine:
  "find_chunk t cid st = Some c \<Longrightarrow> c_chunk_id c = cid \<and> c_tenant_id c = t \<and>
     (\<exists>k v. (k, (c, v)) \<in> set (vs_items st) \<union> set (vs_quarantine st))"
  by (force simp: find_chunk_def Let_def list_extraction_review_chunks_def iter_items_def iter_quarantine_items_def
      split: option.splits dest!: find_SomeD)

definition find_entry :: "vector_store \<Rightarrow> string \<Rightarrow> (chunk \<times> vector) option" where
  "find_entry st k = (case dget (vs_items st) k of Some e \<Rightarrow> Some e | None \<Rightarrow> dget (vs_quarantine st) k)"

text \<open>What the store does with a review: the chunk under the id is edited where it is, and nothing else.\<close>

lemma update_chunk_review_entry:
  assumes "store_ok st" and "find_entry st cid = Some (c, v)" and "c_tenant_id c = t"
    and "update_chunk_review t cid m tx vec b st = (st', applied)"
  shows "applied \<and> store_ok st' \<and>
    find_entry st' cid = Some (reviewed_chunk m tx b c, case vec of None \<Rightarrow> v | Some w \<Rightarrow> w) \<and>
    (\<forall>k. k \<noteq> cid \<longrightarrow> find_entry st' k = find_entry st k) \<and>
    (dget (vs_items st') cid \<noteq> None \<longleftrightarrow> dget (vs_items st) cid \<noteq> None \<or>
       (py_get_str (c_metadata (reviewed_chunk m tx b c)) ''extraction_quality_status'' = ''manual_approved'' \<and>
        \<not> c_tombstone (reviewed_chunk m tx b c)))"
proof -
  have ok: "store_ok st'" using store_ok_update_chunk_review [OF assms(1), of t cid m tx vec b] assms(4) by simp
  let ?w = "case vec of None \<Rightarrow> v | Some w \<Rightarrow> w" and ?c = "reviewed_chunk m tx b c"
  show ?thesis
  proof (cases "dget (vs_items st) cid")
    case (Some e)
    with assms(2) have e: "e = (c, v)" by (simp add: find_entry_def)
    have "(st', applied) = (st\<lparr>vs_items := dset cid (?c, ?w) (vs_items st)\<rparr>, True)"
      using assms(3,4) Some e by (simp add: update_chunk_review_def Let_def)
    with Some ok show ?thesis by (auto simp: find_entry_def dict_simps split: option.splits)
  next
    case None
    with assms(2) have q: "dget (vs_quarantine st) cid = Some (c, v)" by (simp add: find_entry_def)
    let ?rel = "py_get_str (c_metadata ?c) ''extraction_quality_status'' = ''manual_approved'' \<and> \<not> c_tombstone ?c"
    have eq: "(st', applied) = (if ?rel then
        (st\<lparr>vs_quarantine := ddel cid (vs_quarantine st), vs_items := dset cid (?c, ?w) (vs_items st)\<rparr>, True)
        else (st\<lparr>vs_quarantine := dset cid (?c, ?w) (vs_quarantine st)\<rparr>, True))"
      using assms(3,4) None q by (simp add: update_chunk_review_def Let_def cong: if_cong)
    show ?thesis
    proof (cases ?rel)
      case True
      with eq None ok show ?thesis by (auto simp: find_entry_def dict_simps split: option.splits)
    next
      case False
      with eq None ok show ?thesis by (auto simp: find_entry_def dict_simps split: option.splits)
    qed
  qed
qed

lemma reviewed_chunk_fields:
  "m \<noteq> [] \<Longrightarrow> c_metadata (reviewed_chunk (Some m) tx b c) = py_update (c_metadata c) m"
  "c_tombstone (reviewed_chunk m' tx b c) = (case b of None \<Rightarrow> c_tombstone c | Some x \<Rightarrow> x)"
  by (simp_all add: reviewed_chunk_def Let_def split: option.splits)

lemma find_chunk_entry:
  assumes "store_ok st" and "find_chunk t cid st = Some c"
  shows "\<exists>v. find_entry st cid = Some (c, v)"
proof -
  from find_chunk_mine [OF assms(2)] obtain k v where c: "c_chunk_id c = cid"
    and kv: "(k, (c, v)) \<in> set (vs_items st) \<union> set (vs_quarantine st)" by blast
  then have k: "k = cid" using assms(1) by (auto simp: store_ok_def keyed_def)
  have wf: "wf_dict (vs_items st)" "wf_dict (vs_quarantine st)"
    and disj: "fst ` set (vs_items st) \<inter> fst ` set (vs_quarantine st) = {}"
    using assms(1) by (simp_all add: store_ok_def)
  from kv show ?thesis
  proof
    assume "(k, (c, v)) \<in> set (vs_items st)"
    then show ?thesis using in_dget_Some [OF wf(1)] k by (auto simp: find_entry_def)
  next
    assume q: "(k, (c, v)) \<in> set (vs_quarantine st)"
    then have "dget (vs_items st) cid = None" using disj k by (force simp: map_of_eq_None_iff)
    with q show ?thesis using in_dget_Some [OF wf(2)] k by (auto simp: find_entry_def)
  qed
qed

lemma action_effect_status:
  assumes "action_effect embedder action tx reason c = Inr ef" and "action \<in> review_actions"
  shows "py_get (ef_quality ef) ''extraction_quality_status'' = PStr (ef_status ef)"
    and "ef_status ef = (if action \<in> {''approve'', ''edit_and_approve''} then ''manual_approved''
       else if action \<in> {''reject'', ''mark_as_non_content''} then ''rejected'' else ''review_required'')"
    and "py_get (ef_quality ef) ''high_risk_citation_eligible'' =
       PBool (action \<in> {''approve'', ''edit_and_approve''} \<and>
         (py_get (c_metadata c) ''extraction_quality_status'' = PStr ''draft_visual'' \<longrightarrow> has_citation_anchor (c_metadata c)))"
    and "ef_tombstone ef = (if action = ''mark_as_non_content'' then Some True else None)"
    and "set (map fst (ef_fields ef)) \<subseteq> {''original_text''} \<and> wf_dict (ef_fields ef)"
  using assms
  by (auto simp: action_effect_def Let_def review_actions_def accepted_quality_metadata_def
      review_required_quality_metadata_def py_get_quality_metadata dict_simps wf_dict_def split: option.splits if_splits)

lemma py_get_py_update: "wf_dict e \<Longrightarrow> py_get (py_update m e) k = (if dget e k = None then py_get m k else py_get e k)"
  by (auto simp: py_get_def dget_py_update split: option.splits)

lemma dset_nonempty: "dset k v d \<noteq> []"
  by (cases d) auto

lemma py_update_nonempty: "m \<noteq> [] \<Longrightarrow> py_update m e \<noteq> []"
proof (induction e arbitrary: m)
  case (Cons p e)
  then show ?case by (cases p) (simp add: dset_nonempty)
qed simp

lemma quality_metadata_wf: "wf_dict (quality_metadata st rs re hr rv)" "quality_metadata st rs re hr rv \<noteq> []"
  by (simp_all add: quality_metadata_def wf_dict_def)

lemma quality_wf:
  assumes "action_effect embedder action tx reason c = Inr ef"
  shows "wf_dict (ef_quality ef) \<and> ef_quality ef \<noteq> []"
proof -
  have upd: "wf_dict (py_update (quality_metadata st rs re hr rv) e)" "py_update (quality_metadata st rs re hr rv) e \<noteq> []"
    for st rs re hr rv e
    by (simp_all add: wf_py_update quality_metadata_wf py_update_nonempty)
  show ?thesis
    using assms unfolding action_effect_def Let_def accepted_quality_metadata_def review_required_quality_metadata_def
    by (auto split: if_splits option.splits simp: upd quality_metadata_wf simp del: py_update_Cons)
qed

lemma review_fields_wf: "wf_dict (review_fields actor tm action reason)"
  by (simp add: review_fields_def wf_dict_def)

lemma review_fields_keys:
  "fst ` set (review_fields actor tm action reason) \<inter>
     {''extraction_quality_status'', ''high_risk_citation_eligible'', ''original_text''} = {}"
  by (cases "reason = []") (simp_all add: review_fields_def)

lemma wf_dict_append: "wf_dict a \<Longrightarrow> wf_dict b \<Longrightarrow> fst ` set a \<inter> fst ` set b = {} \<Longrightarrow> wf_dict (a @ b)"
  by (simp add: wf_dict_def)

text \<open>The metadata a review writes: the verdict of the action survives the bookkeeping fields.\<close>

lemma review_metadata:
  assumes "action_effect embedder action tx reason c = Inr ef" and "action \<in> review_actions"
    and "k \<in> {''extraction_quality_status'', ''high_risk_citation_eligible''}"
  shows "py_get (py_update m (py_update (ef_quality ef) (review_fields actor tm action reason @ ef_fields ef))) k =
      py_get (ef_quality ef) k
    \<and> py_get (py_update (ef_quality ef) (review_fields actor tm action reason @ ef_fields ef)) k = py_get (ef_quality ef) k
    \<and> py_update (ef_quality ef) (review_fields actor tm action reason @ ef_fields ef) \<noteq> []"
proof -
  let ?f = "review_fields actor tm action reason @ ef_fields ef"
  note st = action_effect_status [OF assms(1,2)]
  have ks: "fst ` set (ef_fields ef) \<subseteq> {''original_text''}" using st(5) by simp
  have "k \<notin> fst ` set (review_fields actor tm action reason)" "k \<noteq> ''original_text''"
    using review_fields_keys [of actor tm action reason] assms(3) by blast+
  moreover have "fst ` set (review_fields actor tm action reason) \<inter> fst ` set (ef_fields ef) = {}"
    using ks review_fields_keys [of actor tm action reason] by blast
  moreover have "k \<notin> fst ` set (ef_fields ef)" using ks assms(3) by auto
  ultimately have f: "wf_dict ?f" "dget ?f k = None"
    using st(5) review_fields_wf [of actor tm action reason]
    by (simp_all add: wf_dict_append map_of_eq_None_iff image_Un)
  have inner: "py_get (py_update (ef_quality ef) ?f) k = py_get (ef_quality ef) k"
    unfolding py_get_py_update [OF f(1)] f(2) by simp
  have some: "dget (py_update (ef_quality ef) ?f) k \<noteq> None"
    using inner st(1,3) assms(3) by (auto simp: py_get_def split: option.splits)
  then have "py_update (ef_quality ef) ?f \<noteq> []" by auto
  moreover have "py_get (py_update m (py_update (ef_quality ef) ?f)) k = py_get (py_update (ef_quality ef) ?f) k"
    unfolding py_get_py_update [OF wf_py_update [OF quality_wf [OF assms(1), THEN conjunct1]]]
    by (rule if_not_P) (rule some)
  ultimately show ?thesis using inner by simp
qed

lemma review_apply_cases:
  assumes "store_ok (rs_store s)"
    and "review_apply embedder redact tm now t cid action0 actor tx reason corr s = Inr (s', dec)"
  obtains ef c v m where "py_strip action0 \<in> review_actions" "actor \<noteq> []"
    "find_entry (rs_store s) cid = Some (c, v)" "c_tenant_id c = t" "c_chunk_id c = cid"
    "action_effect embedder (py_strip action0) tx reason c = Inr ef"
    "m = py_update (ef_quality ef) (review_fields actor tm (py_strip action0) reason @ ef_fields ef)"
    "update_chunk_review t cid (Some m) (ef_text ef) (ef_vector ef) (ef_tombstone ef) (rs_store s) = (rs_store s', True)"
    "dec = \<lparr>rd_chunk_id = cid, rd_action = py_strip action0, rd_status = ef_status ef, rd_reviewed_by = actor,
       rd_reviewed_at = tm, rd_high_risk_citation_eligible = py_truthy (py_get m ''high_risk_citation_eligible''),
       rd_retrieval_eligible = (ef_status ef = ''manual_approved'')\<rparr>"
    "rs_audit s' = map_option (\<lambda>sink. sink @ [sanitize_audit_event redact
       (review_audit_event now t c (py_strip action0) (ef_status ef) actor reason corr)]) (rs_audit s)"
proof -
  from assms(2) obtain c where a: "py_strip action0 \<in> review_actions" "actor \<noteq> []"
    "find_chunk t cid (rs_store s) = Some c"
    by (auto simp: review_apply_def Let_def split: if_splits option.splits)
  from assms(2) a obtain ef where ef: "action_effect embedder (py_strip action0) tx reason c = Inr ef"
    by (auto simp: review_apply_def Let_def rbind_Inr_iff)
  let ?m = "py_update (ef_quality ef) (review_fields actor tm (py_strip action0) reason @ ef_fields ef)"
  obtain st ok where upd: "update_chunk_review t cid (Some ?m) (ef_text ef) (ef_vector ef) (ef_tombstone ef) (rs_store s) = (st, ok)"
    by (metis surj_pair)
  have res: ok "rs_store s' = st" "dec = \<lparr>rd_chunk_id = cid, rd_action = py_strip action0, rd_status = ef_status ef, rd_reviewed_by = actor,
       rd_reviewed_at = tm, rd_high_risk_citation_eligible = py_truthy (py_get ?m ''high_risk_citation_eligible''),
       rd_retrieval_eligible = (ef_status ef = ''manual_approved'')\<rparr>"
    "rs_audit s' = map_option (\<lambda>sink. sink @ [sanitize_audit_event redact
       (review_audit_event now t c (py_strip action0) (ef_status ef) actor reason corr)]) (rs_audit s)"
    using assms(2) a ef upd
    by (auto simp: review_apply_def Let_def sink_record_def split: if_splits option.splits)
  from find_chunk_entry [OF assms(1) a(3)] obtain v where "find_entry (rs_store s) cid = Some (c, v)" ..
  then show thesis using that a ef upd res find_chunk_mine [OF a(3)] by simp
qed

text \<open>Any number of successful reviews, of any chunks and by any reviewers.\<close>

inductive review_steps :: "review_state \<Rightarrow> review_state \<Rightarrow> bool" where
  reviews_none: "review_steps s s"
| reviews_one: "review_steps s s1 \<Longrightarrow>
    review_apply embedder redact tm now t cid action actor tx reason corr s1 = Inr (s2, dec) \<Longrightarrow> review_steps s s2"

definition hidden :: "string \<Rightarrow> vector_store \<Rightarrow> bool" where
  "hidden cid st \<longleftrightarrow> store_ok st \<and> (\<exists>c v. find_entry st cid = Some (c, v) \<and> c_tombstone c)"

lemma review_keeps_hidden:
  assumes "hidden k (rs_store s)"
    and "review_apply embedder redact tm now t cid action actor tx reason corr s = Inr (s', dec)"
  shows "hidden k (rs_store s')"
proof -
  from assms(1) have ok: "store_ok (rs_store s)" by (simp add: hidden_def)
  from review_apply_cases [OF ok assms(2)] obtain ef c v m where
    act: "py_strip action \<in> review_actions" "find_entry (rs_store s) cid = Some (c, v)" "c_tenant_id c = t"
      "action_effect embedder (py_strip action) tx reason c = Inr ef"
      "update_chunk_review t cid (Some m) (ef_text ef) (ef_vector ef) (ef_tombstone ef) (rs_store s) = (rs_store s', True)"
    by metis
  note upd = update_chunk_review_entry [OF ok act(2,3,5)]
  have "ef_tombstone ef = None \<or> ef_tombstone ef = Some True"
    using action_effect_status(4) [OF act(4,1)] by simp
  then have "c_tombstone c \<Longrightarrow> c_tombstone (reviewed_chunk (Some m) (ef_text ef) (ef_tombstone ef) c)"
    by (auto simp: reviewed_chunk_fields)
  then show ?thesis using upd assms(1) act(2) unfolding hidden_def by (cases "k = cid") auto
qed

lemma reviews_keep_hidden: "review_steps s s' \<Longrightarrow> hidden k (rs_store s) \<Longrightarrow> hidden k (rs_store s')"
  by (induction rule: review_steps.induct) (auto intro: review_keeps_hidden)

section \<open>Properties\<close>

text \<open>A review enacts its decision: when \<open>apply\<close> succeeds, the actor is named, the reviewed chunk belongs to the
  caller's tenant, its stored status is the decision's status, it is released for retrieval only by an
  approval, it is high-risk eligible only if approved and, for a visual draft, still anchored; it reaches
  the primary index only if it was there or is approved and not tombstoned; no other chunk changes; and
  the audit sink gains exactly one redacted event naming actor, chunk and decision.\<close>

theorem review_enacts_decision:
  assumes "store_ok (rs_store s)"
    and "review_apply embedder redact tm now t cid action actor tx reason corr s = Inr (s', dec)"
  shows "actor \<noteq> [] \<and> store_ok (rs_store s')
    \<and> (\<exists>c v c' v'. find_entry (rs_store s) cid = Some (c, v) \<and> find_entry (rs_store s') cid = Some (c', v')
        \<and> c_tenant_id c = t \<and> c_tenant_id c' = t
        \<and> py_get (c_metadata c') ''extraction_quality_status'' = PStr (rd_status dec)
        \<and> rd_retrieval_eligible dec = (py_strip action \<in> {''approve'', ''edit_and_approve''})
        \<and> rd_high_risk_citation_eligible dec =
            (rd_retrieval_eligible dec \<and>
             (py_get (c_metadata c) ''extraction_quality_status'' = PStr ''draft_visual'' \<longrightarrow> has_citation_anchor (c_metadata c)))
        \<and> (dget (vs_items (rs_store s')) cid \<noteq> None \<longrightarrow>
             dget (vs_items (rs_store s)) cid \<noteq> None \<or> (rd_status dec = ''manual_approved'' \<and> \<not> c_tombstone c')))
    \<and> (\<forall>k. k \<noteq> cid \<longrightarrow> find_entry (rs_store s') k = find_entry (rs_store s) k)
    \<and> (\<forall>sink. rs_audit s = Some sink \<longrightarrow>
         (\<exists>e. rs_audit s' = Some (sink @ [e]) \<and> ae_actor_id e = actor \<and> ae_chunk_ids e = [cid] \<and>
              ae_decision e = redact (rd_status dec) \<and> ae_tenant_id e = t))"
proof -
  from review_apply_cases [OF assms] obtain ef c v m where
    act: "py_strip action \<in> review_actions" "find_entry (rs_store s) cid = Some (c, v)" "c_tenant_id c = t"
      "action_effect embedder (py_strip action) tx reason c = Inr ef"
      "update_chunk_review t cid (Some m) (ef_text ef) (ef_vector ef) (ef_tombstone ef) (rs_store s) = (rs_store s', True)"
    and m: "m = py_update (ef_quality ef) (review_fields actor tm (py_strip action) reason @ ef_fields ef)"
    and dec: "dec = \<lparr>rd_chunk_id = cid, rd_action = py_strip action, rd_status = ef_status ef, rd_reviewed_by = actor,
       rd_reviewed_at = tm, rd_high_risk_citation_eligible = py_truthy (py_get m ''high_risk_citation_eligible''),
       rd_retrieval_eligible = (ef_status ef = ''manual_approved'')\<rparr>"
    and au: "actor \<noteq> []" "c_chunk_id c = cid" "rs_audit s' = map_option (\<lambda>sink. sink @ [sanitize_audit_event redact
       (review_audit_event now t c (py_strip action) (ef_status ef) actor reason corr)]) (rs_audit s)" .
  let ?c = "reviewed_chunk (Some m) (ef_text ef) (ef_tombstone ef) c"
  note upd = update_chunk_review_entry [OF assms(1) act(2,3,5)]
  note st = action_effect_status [OF act(4,1)]
  note md = review_metadata [OF act(4,1), folded m]
  have meta: "c_metadata ?c = py_update (c_metadata c) m"
    using md [of "''extraction_quality_status''"] by (simp add: reviewed_chunk_fields m)
  have status: "py_get (c_metadata ?c) ''extraction_quality_status'' = PStr (ef_status ef)"
    using md [of "''extraction_quality_status''"] st(1) meta by (simp add: m)
  have hr: "py_get m ''high_risk_citation_eligible'' = py_get (ef_quality ef) ''high_risk_citation_eligible''"
    using md [of "''high_risk_citation_eligible''"] by (simp add: m)
  have elig: "rd_retrieval_eligible dec = (py_strip action \<in> {''approve'', ''edit_and_approve''})"
    using st(2) by (simp add: dec)
  have hr': "rd_high_risk_citation_eligible dec = (rd_retrieval_eligible dec \<and>
      (py_get (c_metadata c) ''extraction_quality_status'' = PStr ''draft_visual'' \<longrightarrow> has_citation_anchor (c_metadata c)))"
    unfolding elig by (simp add: dec hr st(3))
  have rel: "dget (vs_items (rs_store s')) cid \<noteq> None \<longrightarrow>
      dget (vs_items (rs_store s)) cid \<noteq> None \<or> (rd_status dec = ''manual_approved'' \<and> \<not> c_tombstone ?c)"
    using upd status by (auto simp: dec py_get_str_def split: if_splits)
  have audit: "\<exists>e. rs_audit s' = Some (sink @ [e]) \<and> ae_actor_id e = actor \<and> ae_chunk_ids e = [cid] \<and>
      ae_decision e = redact (rd_status dec) \<and> ae_tenant_id e = t" if "rs_audit s = Some sink" for sink
    using that au by (simp add: dec sanitize_audit_event_def review_audit_event_def)
  have c': "c_tenant_id ?c = t" using act(3) by (simp add: frame_simps)
  have status': "py_get (c_metadata ?c) ''extraction_quality_status'' = PStr (rd_status dec)"
    using status by (simp add: dec)
  have new: "find_entry (rs_store s') cid = Some (?c, case ef_vector ef of None \<Rightarrow> v | Some w \<Rightarrow> w)"
    and others: "\<forall>k. k \<noteq> cid \<longrightarrow> find_entry (rs_store s') k = find_entry (rs_store s) k" and ok: "store_ok (rs_store s')"
    using upd by blast+
  have "\<exists>c v c' v'. find_entry (rs_store s) cid = Some (c, v) \<and> find_entry (rs_store s') cid = Some (c', v')
        \<and> c_tenant_id c = t \<and> c_tenant_id c' = t
        \<and> py_get (c_metadata c') ''extraction_quality_status'' = PStr (rd_status dec)
        \<and> rd_retrieval_eligible dec = (py_strip action \<in> {''approve'', ''edit_and_approve''})
        \<and> rd_high_risk_citation_eligible dec =
            (rd_retrieval_eligible dec \<and>
             (py_get (c_metadata c) ''extraction_quality_status'' = PStr ''draft_visual'' \<longrightarrow> has_citation_anchor (c_metadata c)))
        \<and> (dget (vs_items (rs_store s')) cid \<noteq> None \<longrightarrow>
             dget (vs_items (rs_store s)) cid \<noteq> None \<or> (rd_status dec = ''manual_approved'' \<and> \<not> c_tombstone c'))"
    by (intro exI conjI) (rule act(2) new act(3) c' status' elig hr' rel)+
  moreover have "\<forall>sink. rs_audit s = Some sink \<longrightarrow>
         (\<exists>e. rs_audit s' = Some (sink @ [e]) \<and> ae_actor_id e = actor \<and> ae_chunk_ids e = [cid] \<and>
              ae_decision e = redact (rd_status dec) \<and> ae_tenant_id e = t)"
    by (intro allI impI) (rule audit)
  ultimately show ?thesis using au(1) ok others by (intro conjI) assumption+
qed

text \<open>Marking a chunk as non-content is final: after it, no sequence of further reviews, by anybody, makes
  the chunk appear in a vector search again, not even an approval.\<close>

theorem non_content_is_final:
  assumes "store_ok (rs_store s)"
    and "review_apply embedder redact tm now t cid ''mark_as_non_content'' actor tx reason corr s = Inr (s1, dec)"
    and "review_steps s1 s2"
  shows "\<forall>hit\<in>set (snd (search u qv vis k (rs_store s2))). c_chunk_id (sc_chunk hit) \<noteq> cid"
proof -
  have strip: "py_strip ''mark_as_non_content'' = ''mark_as_non_content''"
    by (simp add: py_strip_plain plain_char_def)
  from review_apply_cases [OF assms(1,2)] obtain ef c v m where
    act: "''mark_as_non_content'' \<in> review_actions" "find_entry (rs_store s) cid = Some (c, v)" "c_tenant_id c = t"
      "action_effect embedder ''mark_as_non_content'' tx reason c = Inr ef"
      "update_chunk_review t cid (Some m) (ef_text ef) (ef_vector ef) (ef_tombstone ef) (rs_store s) = (rs_store s1, True)"
    unfolding strip by metis
  have "ef_tombstone ef = Some True" using action_effect_status(4) [OF act(4,1)] by simp
  then have "hidden cid (rs_store s1)"
    using update_chunk_review_entry [OF assms(1) act(2,3,5)] by (simp add: hidden_def reviewed_chunk_fields)
  from reviews_keep_hidden [OF assms(3) this] obtain c' v' where ok: "store_ok (rs_store s2)"
    and e: "find_entry (rs_store s2) cid = Some (c', v')" "c_tombstone c'" by (auto simp: hidden_def)
  show ?thesis
  proof
    fix hit assume "hit \<in> set (snd (search u qv vis k (rs_store s2)))"
    then obtain i w where h: "(i, (sc_chunk hit, w)) \<in> set (vs_items (rs_store s2))" "\<not> c_tombstone (sc_chunk hit)"
      using search_hits by (fastforce simp: prefilter_def)
    show "c_chunk_id (sc_chunk hit) \<noteq> cid"
    proof
      assume "c_chunk_id (sc_chunk hit) = cid"
      with h ok have "i = cid" by (auto simp: store_ok_def keyed_def)
      with h ok have "dget (vs_items (rs_store s2)) cid = Some (sc_chunk hit, w)"
        by (auto simp: store_ok_def intro: in_dget_Some)
      with e h(2) show False by (simp add: find_entry_def)
    qed
  qed
qed

definition sample_review_state :: review_state where
  "sample_review_state =
     \<lparr>rs_store = VectorStore.quarantine [(sample_quality_chunk ''draft_visual'', [1])] new_store, rs_audit = Some []\<rparr>"

lemma sample_review_ok: "store_ok (rs_store sample_review_state)"
  by (simp add: sample_review_state_def store_ok_quarantine store_ok_new)

lemma sample_find: "find_chunk ''t'' ''c1'' (rs_store sample_review_state) = Some (sample_quality_chunk ''draft_visual'')"
  by (simp add: sample_review_state_def find_chunk_def Let_def list_extraction_review_chunks_def iter_quarantine_items_def
      VectorStore.quarantine_def new_store_def sample_quality_chunk_def py_get_str_def py_get_def)

lemma sample_apply:
  assumes "action \<in> {''mark_as_non_content'', ''approve''}"
  shows "\<exists>s' dec. review_apply (\<lambda>_. []) (\<lambda>s. s) ''now'' ''now'' ''t'' ''c1'' action ''bob'' None [] [] sample_review_state = Inr (s', dec)"
proof -
  have strip: "py_strip action = action" using assms by (auto simp: py_strip_plain plain_char_def)
  have act: "action \<in> review_actions" using assms by (auto simp: review_actions_def)
  obtain ef where ef: "action_effect (\<lambda>_. []) action None [] (sample_quality_chunk ''draft_visual'') = Inr ef"
    using assms by (auto simp: action_effect_def Let_def)
  obtain v where e: "find_entry (rs_store sample_review_state) ''c1'' = Some (sample_quality_chunk ''draft_visual'', v)"
    using find_chunk_entry [OF sample_review_ok sample_find] by blast
  have t: "c_tenant_id (sample_quality_chunk ''draft_visual'') = ''t''" by (simp add: sample_quality_chunk_def)
  have "snd (update_chunk_review ''t'' ''c1'' m tx vec b (rs_store sample_review_state))" for m tx vec b
    by (rule update_chunk_review_entry [OF sample_review_ok e t prod.collapse [symmetric], THEN conjunct1])
  then show ?thesis
    by (simp add: review_apply_def Let_def strip act sample_find ef split_def)
qed

theorem review_enacts_decision_witness:
  "\<exists>s' dec. review_apply (\<lambda>_. []) (\<lambda>s. s) ''now'' ''now'' ''t'' ''c1'' ''approve'' ''bob'' None [] [] sample_review_state = Inr (s', dec)
     \<and> rd_retrieval_eligible dec \<and> \<not> rd_high_risk_citation_eligible dec"
proof -
  obtain s' dec where a: "review_apply (\<lambda>_. []) (\<lambda>s. s) ''now'' ''now'' ''t'' ''c1'' ''approve'' ''bob'' None [] [] sample_review_state = Inr (s', dec)"
    using sample_apply [of "''approve''"] by auto
  have strip: "py_strip ''approve'' = ''approve''" by (simp add: py_strip_plain plain_char_def)
  from review_enacts_decision [OF sample_review_ok a] obtain c v where
    "find_entry (rs_store sample_review_state) ''c1'' = Some (c, v)" "rd_retrieval_eligible dec"
    "rd_high_risk_citation_eligible dec \<longrightarrow>
      (py_get (c_metadata c) ''extraction_quality_status'' = PStr ''draft_visual'' \<longrightarrow> has_citation_anchor (c_metadata c))"
    unfolding strip by blast
  then have "rd_retrieval_eligible dec" "\<not> rd_high_risk_citation_eligible dec"
    by (auto simp: find_entry_def sample_review_state_def VectorStore.quarantine_def new_store_def sample_quality_chunk_def
        has_citation_anchor_def py_get_def)
  with a show ?thesis by blast
qed

theorem non_content_is_final_witness:
  "\<exists>s1 dec. review_apply (\<lambda>_. []) (\<lambda>s. s) ''now'' ''now'' ''t'' ''c1'' ''mark_as_non_content'' ''bob'' None [] [] sample_review_state
       = Inr (s1, dec) \<and>
     (\<forall>hit\<in>set (snd (search ''t'' [1] (\<lambda>_. True) 3 (rs_store s1))). c_chunk_id (sc_chunk hit) \<noteq> ''c1'')"
proof -
  obtain s1 dec where a: "review_apply (\<lambda>_. []) (\<lambda>s. s) ''now'' ''now'' ''t'' ''c1'' ''mark_as_non_content'' ''bob'' None [] [] sample_review_state = Inr (s1, dec)"
    using sample_apply [of "''mark_as_non_content''"] by auto
  from non_content_is_final [OF sample_review_ok a reviews_none] a show ?thesis by blast
qed

end
