(* ===== verification/PhoneDomain.thy ===== *)
theory PhoneDomain
  imports PyStr
begin

text \<open>
  The entities of the phone layer (\<open>phone/domain.py\<close>): the call and scenario state machines, the records
  and their public projections. States, actions and reasons are the strings the code uses. The clock
  (\<open>now_iso\<close>) and fresh identifiers (\<open>new_id\<close>) are arguments. Non-ASCII texts are written by their
  UTF-8 bytes with \<open>utf8\<close>.
\<close>

section \<open>State machines\<close>

definition call_states :: "string list" where
  "call_states = [''ringing'', ''active'', ''on_hold'', ''handoff_pending'', ''transferred'', ''completed'',
     ''abandoned'', ''failed'']"

definition terminal_call_states :: "string set" where
  "terminal_call_states = {''transferred'', ''completed'', ''abandoned'', ''failed''}"

definition call_transitions :: "(string, string set) dict" where
  "call_transitions =
     [(''ringing'', {''active'', ''abandoned'', ''failed''}),
      (''active'', {''on_hold'', ''handoff_pending'', ''completed'', ''abandoned'', ''failed''}),
      (''on_hold'', {''active'', ''handoff_pending'', ''abandoned'', ''failed''}),
      (''handoff_pending'', {''transferred'', ''active'', ''abandoned'', ''failed''}),
      (''transferred'', {}), (''completed'', {}), (''abandoned'', {}), (''failed'', {})]"

definition handoff_reasons :: "string list" where
  "handoff_reasons = [''customer_requested_human'', ''insufficient_evidence'', ''low_asr_confidence'',
     ''repeated_misunderstanding'', ''negative_sentiment'', ''high_risk_intent'', ''identity_required'',
     ''provider_failure'', ''ai_capability_boundary'']"

definition mandatory_handoff_reasons :: "string list" where
  "mandatory_handoff_reasons = [''customer_requested_human'', ''insufficient_evidence'']"

definition scenario_transitions :: "(string, string set) dict" where
  "scenario_transitions =
     [(''draft'', {''in_review'', ''archived''}),
      (''in_review'', {''approved'', ''draft'', ''archived''}),
      (''approved'', {''scheduled'', ''published'', ''archived''}),
      (''scheduled'', {''published'', ''archived''}),
      (''published'', {''archived''}),
      (''archived'', {})]"

definition targets :: "(string, string set) dict \<Rightarrow> string \<Rightarrow> string set" where
  "targets transitions current = (case dget transitions current of None \<Rightarrow> {} | Some s \<Rightarrow> s)"

definition assert_call_transition :: "string \<Rightarrow> string \<Rightarrow> unit result" where
  "assert_call_transition current tgt =
     (if tgt \<notin> targets call_transitions current then Inl InvalidCallTransition else Inr ())"

definition assert_scenario_transition :: "string \<Rightarrow> string \<Rightarrow> unit result" where
  "assert_scenario_transition current tgt =
     (if tgt \<notin> targets scenario_transitions current then Inl InvalidScenarioTransition else Inr ())"

section \<open>Values\<close>

definition opt_str :: "string option \<Rightarrow> pyval" where
  "opt_str s = (case s of None \<Rightarrow> PNone | Some t \<Rightarrow> PStr t)"

text \<open>A float field together with the text its \<open>repr\<close> prints.\<close>

type_synonym pyfloat = "rat \<times> string"

definition float_val :: "pyfloat \<Rightarrow> pyval" where
  "float_val x = PFloat (fst x) (snd x)"

definition opt_float :: "pyfloat option \<Rightarrow> pyval" where
  "opt_float s = (case s of None \<Rightarrow> PNone | Some x \<Rightarrow> float_val x)"

record phone_citation_ref =
  pc_source_id :: string
  pc_document_id :: string
  pc_chunk_id :: string
  pc_version :: "string option"
  pc_retrieval_score :: pyfloat
  pc_approval_status :: "string option"
  pc_effective_date :: "string option"
  pc_snippet_redacted :: "string option"

definition citation_public :: "phone_citation_ref \<Rightarrow> pydict" where
  "citation_public c =
     [(''source_id'', PStr (pc_source_id c)), (''document_id'', PStr (pc_document_id c)),
      (''chunk_id'', PStr (pc_chunk_id c)), (''version'', opt_str (pc_version c)),
      (''retrieval_score'', float_val (pc_retrieval_score c)),
      (''approval_status'', opt_str (pc_approval_status c)),
      (''effective_date'', opt_str (pc_effective_date c)),
      (''snippet_redacted'', opt_str (pc_snippet_redacted c))]"

section \<open>Turns\<close>

record conversation_turn =
  t_tenant_id :: string
  t_call_id :: string
  t_turn_id :: string
  t_sequence_no :: int
  t_speaker :: string
  t_event_type :: string
  t_asr_text_redacted :: "string option"
  t_asr_confidence :: "pyfloat option"
  t_dtmf_digits :: "string option"
  t_redacted_text :: "string option"
  t_ai_action :: "string option"
  t_ai_response_text :: "string option"
  t_speech_text :: "string option"
  t_tts_audio_ref :: "string option"
  t_intent :: "string option"
  t_sentiment :: "string option"
  t_citations :: "phone_citation_ref list"
  t_safety_decision :: "pydict option"
  t_handoff_reason :: "string option"
  t_latency_ms :: pydict
  t_barge_in :: bool
  t_created_at :: string

text \<open>\<open>if s:\<close> on an optional string.\<close>

definition opt_truthy :: "string option \<Rightarrow> bool" where
  "opt_truthy s \<longleftrightarrow> s \<noteq> None \<and> s \<noteq> Some []"

definition turn_public :: "conversation_turn \<Rightarrow> pydict" where
  "turn_public t =
     [(''turn_id'', PStr (t_turn_id t)), (''sequence_no'', PInt (t_sequence_no t)),
      (''speaker'', PStr (t_speaker t)), (''event_type'', PStr (t_event_type t)),
      (''redacted_text'', opt_str (t_redacted_text t)), (''created_at'', PStr (t_created_at t))] @
     (if t_speaker t = ''caller'' then
        [(''asr_confidence'', opt_float (t_asr_confidence t))] @
        (if opt_truthy (t_dtmf_digits t) then [(''dtmf_digits'', opt_str (t_dtmf_digits t))] else []) @
        (if t_barge_in t then [(''barge_in'', PBool True)] else [])
      else []) @
     (if t_speaker t = ''ai'' then
        [(''ai_action'', opt_str (t_ai_action t)), (''speech_text'', opt_str (t_speech_text t)),
         (''tts_audio_ref'', opt_str (t_tts_audio_ref t)),
         (''citations'', PList (map (\<lambda>c. PDict (citation_public c)) (t_citations t))),
         (''latency_ms'', PDict (t_latency_ms t))] @
        (case t_safety_decision t of None \<Rightarrow> [] | Some d \<Rightarrow> [(''safety'', PDict d)]) @
        (if opt_truthy (t_handoff_reason t) then [(''handoff_reason'', opt_str (t_handoff_reason t))] else [])
      else [])"

section \<open>Calls\<close>

record call_session =
  k_tenant_id :: string
  k_call_id :: string
  k_correlation_id :: string
  k_channel :: string
  k_provider :: string
  k_provider_call_id :: "string option"
  k_caller_phone_number_masked :: "string option"
  k_customer_id :: "string option"
  k_started_at :: string
  k_answered_at :: "string option"
  k_ended_at :: "string option"
  k_state :: string
  k_intent :: "string option"
  k_scenario_id :: "string option"
  k_scenario_version_id :: "string option"
  k_scenario_path :: "string list"
  k_summary :: string
  k_resolution_status :: "string option"
  k_handoff_required :: bool
  k_handoff_reason :: "string option"
  k_handoff_destination :: "string option"
  k_handoff_package_id :: "string option"
  k_recording_enabled :: bool
  k_recording_disclosure_played :: bool
  k_audio_object_ref :: "string option"
  k_transcript_redaction_status :: string
  k_turns :: "conversation_turn list"
  k_clarification_count :: int
  k_low_confidence_count :: int
  k_collected_slots :: "(string, string) dict"
  k_missing_slots :: "string list"
  k_awaiting_slot :: "string option"
  k_pending_query :: "string option"
  k_created_at :: string
  k_updated_at :: string

text \<open>A new session: the identifying arguments and the clock; every other field has its default.\<close>

definition new_call :: "string \<Rightarrow> string \<Rightarrow> string \<Rightarrow> string \<Rightarrow> call_session" where
  "new_call tenant_id call_id correlation_id now =
     \<lparr>k_tenant_id = tenant_id, k_call_id = call_id, k_correlation_id = correlation_id, k_channel = ''simulator'',
      k_provider = ''deterministic-simulator'', k_provider_call_id = None, k_caller_phone_number_masked = None,
      k_customer_id = None, k_started_at = now, k_answered_at = None, k_ended_at = None, k_state = ''ringing'',
      k_intent = None, k_scenario_id = None, k_scenario_version_id = None, k_scenario_path = [], k_summary = [],
      k_resolution_status = None, k_handoff_required = False, k_handoff_reason = None,
      k_handoff_destination = None, k_handoff_package_id = None, k_recording_enabled = False,
      k_recording_disclosure_played = False, k_audio_object_ref = None,
      k_transcript_redaction_status = ''not_needed'', k_turns = [], k_clarification_count = 0,
      k_low_confidence_count = 0, k_collected_slots = [], k_missing_slots = [], k_awaiting_slot = None,
      k_pending_query = None, k_created_at = now, k_updated_at = now\<rparr>"

definition resolution_for :: "(string, string) dict" where
  "resolution_for = [(''transferred'', ''transferred''), (''completed'', ''resolved''),
     (''abandoned'', ''abandoned''), (''failed'', ''failed'')]"

definition transition :: "string \<Rightarrow> string \<Rightarrow> call_session \<Rightarrow> call_session result" where
  "transition now tgt call =
     rbind (assert_call_transition (k_state call) tgt) (\<lambda>_.
       let call = call\<lparr>k_state := tgt, k_updated_at := now\<rparr> in
       if tgt \<in> terminal_call_states then
         let call = call\<lparr>k_ended_at := Some (k_updated_at call)\<rparr> in
         if k_resolution_status call = None then
           (case dget resolution_for tgt of
              None \<Rightarrow> Inl KeyError
            | Some r \<Rightarrow> Inr (call\<lparr>k_resolution_status := Some r\<rparr>))
         else Inr call
       else Inr call)"

definition is_terminal :: "call_session \<Rightarrow> bool" where
  "is_terminal call \<longleftrightarrow> k_state call \<in> terminal_call_states"

definition next_sequence_no :: "call_session \<Rightarrow> int" where
  "next_sequence_no call = int (length (k_turns call)) + 1"

definition summary_item :: "call_session \<Rightarrow> pydict" where
  "summary_item c =
     [(''call_id'', PStr (k_call_id c)), (''started_at'', PStr (k_started_at c)),
      (''ended_at'', opt_str (k_ended_at c)),
      (''caller_phone_number_masked'', opt_str (k_caller_phone_number_masked c)),
      (''customer_id'', opt_str (k_customer_id c)), (''intent'', opt_str (k_intent c)),
      (''state'', PStr (k_state c)), (''resolution_status'', opt_str (k_resolution_status c)),
      (''handoff_required'', PBool (k_handoff_required c)),
      (''handoff_reason'', opt_str (k_handoff_reason c)), (''scenario_id'', opt_str (k_scenario_id c)),
      (''scenario_version_id'', opt_str (k_scenario_version_id c))]"

section \<open>Scenarios\<close>

definition default_fallback_message :: string where
  "default_fallback_message =
     utf8 [0xE7, 0xA2, 0xBA, 0xE8, 0xAA, 0x8D, 0xE3, 0x81, 0x97, 0xE3, 0x81, 0xA6, 0xE6, 0x8B, 0x85, 0xE5, 0xBD, 0x93, 0xE8, 0x80, 0x85, 0xE3, 0x81, 0xAB, 0xE3, 0x81, 0x8A, 0xE3, 0x81, 0xA4, 0xE3, 0x81, 0xAA, 0xE3, 0x81, 0x8E, 0xE3, 0x81, 0x97, 0xE3, 0x81, 0xBE, 0xE3, 0x81, 0x99, 0xE3, 0x80, 0x82]"

record scenario_version =
  v_tenant_id :: string
  v_scenario_id :: string
  v_scenario_version_id :: string
  v_version_number :: int
  v_status :: string
  v_entry_conditions :: "pydict list"
  v_steps :: "pydict list"
  v_required_slots :: "pydict list"
  v_branch_conditions :: "pydict list"
  v_allowed_actions :: "string list"
  v_handoff_conditions :: "pydict list"
  v_fallback_message :: string
  v_response_templates :: "pydict list"
  v_approved_by :: "string option"
  v_approved_at :: "string option"
  v_published_by :: "string option"
  v_published_at :: "string option"
  v_scheduled_publish_at :: "string option"
  v_archived_by :: "string option"
  v_archived_at :: "string option"
  v_supersedes_version_id :: "string option"
  v_rollback_target_version_id :: "string option"
  v_created_by :: string
  v_created_at :: string

definition is_immutable :: "scenario_version \<Rightarrow> bool" where
  "is_immutable v \<longleftrightarrow> v_status v \<in> {''published'', ''archived''}"

definition dict_list :: "pydict list \<Rightarrow> pyval" where
  "dict_list ds = PList (map PDict ds)"

definition version_public :: "scenario_version \<Rightarrow> pydict" where
  "version_public v =
     [(''scenario_version_id'', PStr (v_scenario_version_id v)), (''version_number'', PInt (v_version_number v)),
      (''status'', PStr (v_status v)), (''entry_conditions'', dict_list (v_entry_conditions v)),
      (''steps'', dict_list (v_steps v)), (''required_slots'', dict_list (v_required_slots v)),
      (''branch_conditions'', dict_list (v_branch_conditions v)),
      (''allowed_actions'', PList (map PStr (v_allowed_actions v))),
      (''handoff_conditions'', dict_list (v_handoff_conditions v)),
      (''fallback_message'', PStr (v_fallback_message v)),
      (''response_templates'', dict_list (v_response_templates v)),
      (''approved_by'', opt_str (v_approved_by v)), (''approved_at'', opt_str (v_approved_at v)),
      (''published_by'', opt_str (v_published_by v)), (''published_at'', opt_str (v_published_at v)),
      (''scheduled_publish_at'', opt_str (v_scheduled_publish_at v)),
      (''supersedes_version_id'', opt_str (v_supersedes_version_id v)),
      (''rollback_target_version_id'', opt_str (v_rollback_target_version_id v)),
      (''created_by'', PStr (v_created_by v)), (''created_at'', PStr (v_created_at v))]"

record call_scenario =
  s_tenant_id :: string
  s_scenario_id :: string
  s_name :: string
  s_intent :: string
  s_description :: "string option"
  s_status :: string
  s_active_version_id :: "string option"
  s_owner_group :: "string option"
  s_created_by :: string
  s_versions :: "(string, scenario_version) dict"
  s_created_at :: string
  s_updated_at :: string

definition find_version :: "call_scenario \<Rightarrow> string \<Rightarrow> scenario_version option" where
  "find_version s version_id = dget (s_versions s) version_id"

definition active_version :: "call_scenario \<Rightarrow> scenario_version option" where
  "active_version s =
     (case s_active_version_id s of
        None \<Rightarrow> None
      | Some i \<Rightarrow> if i = [] then None else dget (s_versions s) i)"

definition next_version_number :: "call_scenario \<Rightarrow> int" where
  "next_version_number s =
     (case map (v_version_number \<circ> snd) (s_versions s) of [] \<Rightarrow> 0 | n # ns \<Rightarrow> foldl max n ns) + 1"

definition scenario_public :: "call_scenario \<Rightarrow> pydict" where
  "scenario_public s =
     [(''scenario_id'', PStr (s_scenario_id s)), (''name'', PStr (s_name s)), (''intent'', PStr (s_intent s)),
      (''description'', opt_str (s_description s)), (''status'', PStr (s_status s)),
      (''active_version_id'', opt_str (s_active_version_id s)), (''owner_group'', opt_str (s_owner_group s)),
      (''versions'', PList (map (\<lambda>(i, v). PDict (version_public v)) (s_versions s))),
      (''created_at'', PStr (s_created_at s)), (''updated_at'', PStr (s_updated_at s))]"

section \<open>Handoff packages and evaluations\<close>

record handoff_package =
  h_tenant_id :: string
  h_handoff_package_id :: string
  h_call_id :: string
  h_reason :: string
  h_destination_type :: string
  h_destination_id :: string
  h_status :: string
  h_priority :: string
  h_caller_phone_number_masked :: "string option"
  h_customer_id :: "string option"
  h_intent :: "string option"
  h_summary :: string
  h_transcript_excerpt_redacted :: string
  h_confirmed_slots :: "(string, string) dict"
  h_citations :: "phone_citation_ref list"
  h_sentiment :: "string option"
  h_recommended_next_action :: "string option"
  h_operator_id :: "string option"
  h_accepted_at :: "string option"
  h_failure_reason :: "string option"
  h_created_at :: string

definition handoff_public :: "handoff_package \<Rightarrow> pydict" where
  "handoff_public h =
     [(''handoff_package_id'', PStr (h_handoff_package_id h)), (''call_id'', PStr (h_call_id h)),
      (''status'', PStr (h_status h)), (''reason'', PStr (h_reason h)), (''priority'', PStr (h_priority h)),
      (''destination_type'', PStr (h_destination_type h)), (''destination_id'', PStr (h_destination_id h)),
      (''customer'', PDict [(''customer_id'', opt_str (h_customer_id h)),
                            (''phone_number_masked'', opt_str (h_caller_phone_number_masked h))]),
      (''intent'', opt_str (h_intent h)), (''summary'', PStr (h_summary h)),
      (''transcript_excerpt_redacted'', PStr (h_transcript_excerpt_redacted h)),
      (''confirmed_slots'', PDict (map (\<lambda>(k, v). (k, PStr v)) (h_confirmed_slots h))),
      (''citations'', PList (map (\<lambda>c. PDict (citation_public c)) (h_citations h))),
      (''sentiment'', opt_str (h_sentiment h)),
      (''recommended_next_action'', opt_str (h_recommended_next_action h)),
      (''operator_id'', opt_str (h_operator_id h)), (''accepted_at'', opt_str (h_accepted_at h)),
      (''failure_reason'', opt_str (h_failure_reason h)), (''created_at'', PStr (h_created_at h))]"

record quality_evaluation =
  q_tenant_id :: string
  q_evaluation_id :: string
  q_call_id :: string
  q_reviewer_id :: string
  q_reviewed_at :: string
  q_answer_correctness :: "int option"
  q_tone_score :: "int option"
  q_handoff_appropriateness :: "int option"
  q_compliance_issue :: bool
  q_hallucination_detected :: bool
  q_privacy_issue :: bool
  q_suggested_fix :: "string option"
  q_knowledge_gap_topics :: "string list"
  q_review_status :: string
  q_improvement_item_id :: "string option"

section \<open>The life of a call\<close>

lemma terminal_no_targets: "s \<in> terminal_call_states \<Longrightarrow> targets call_transitions s = {}"
  by (auto simp: terminal_call_states_def targets_def call_transitions_def)

lemma resolution_defined: "s \<in> terminal_call_states \<Longrightarrow> \<exists>r. dget resolution_for s = Some r"
  by (auto simp: terminal_call_states_def resolution_for_def)

lemma transition_Inr_iff:
  "transition now tgt call = Inr call' \<longleftrightarrow>
     tgt \<in> targets call_transitions (k_state call) \<and>
     call' = call\<lparr>k_state := tgt, k_updated_at := now,
       k_ended_at := (if tgt \<in> terminal_call_states then Some now else k_ended_at call),
       k_resolution_status := (if tgt \<in> terminal_call_states \<and> k_resolution_status call = None
          then dget resolution_for tgt else k_resolution_status call)\<rparr>"
  using resolution_defined [of tgt]
  by (auto simp: transition_def assert_call_transition_def Let_def)

text \<open>A call that moves by transitions from \<open>ringing\<close>; other handlers may set the resolution or the remaining
  fields in between, but not the state or the end of the call.\<close>

inductive call_reachable :: "call_session \<Rightarrow> bool" where
  call_start: "k_state call = ''ringing'' \<Longrightarrow> k_ended_at call = None \<Longrightarrow> call_reachable call"
| call_transition: "call_reachable call \<Longrightarrow> transition now tgt call = Inr call' \<Longrightarrow> call_reachable call'"
| call_edit: "call_reachable call \<Longrightarrow> k_state call' = k_state call \<Longrightarrow> k_ended_at call' = k_ended_at call \<Longrightarrow>
    (k_resolution_status call \<noteq> None \<longrightarrow> k_resolution_status call' \<noteq> None) \<Longrightarrow> call_reachable call'"

definition call_sound :: "call_session \<Rightarrow> bool" where
  "call_sound call \<longleftrightarrow> k_state call \<in> set call_states \<and>
     (k_state call \<in> terminal_call_states \<longleftrightarrow> k_ended_at call \<noteq> None) \<and>
     (k_state call \<in> terminal_call_states \<longrightarrow> k_resolution_status call \<noteq> None)"

lemma targets_are_states: "t \<in> targets call_transitions s \<Longrightarrow> t \<in> set call_states"
  by (auto simp: targets_def call_transitions_def call_states_def split: if_splits)

lemma call_sound_transition:
  assumes "call_sound call" "transition now tgt call = Inr call'"
  shows "call_sound call'"
proof -
  from assms(2) have t: "tgt \<in> targets call_transitions (k_state call)"
    and c: "k_state call' = tgt" "k_ended_at call' = (if tgt \<in> terminal_call_states then Some now else k_ended_at call)"
      "k_resolution_status call' = (if tgt \<in> terminal_call_states \<and> k_resolution_status call = None
          then dget resolution_for tgt else k_resolution_status call)"
    by (simp_all add: transition_Inr_iff)
  from t terminal_no_targets have "k_state call \<notin> terminal_call_states" by auto
  with assms(1) have "k_ended_at call = None" by (simp add: call_sound_def)
  with c targets_are_states [OF t] resolution_defined [of tgt] show ?thesis
    by (auto simp: call_sound_def)
qed

lemma call_reachable_sound: "call_reachable call \<Longrightarrow> call_sound call"
proof (induction rule: call_reachable.induct)
  case (call_start call)
  then show ?case by (simp add: call_sound_def call_states_def terminal_call_states_def)
next
  case (call_transition call now tgt call')
  then show ?case by (blast intro: call_sound_transition)
qed (auto simp: call_sound_def)

section \<open>Properties\<close>

text \<open>The life of a call is sound: in every reachable call the state is one of the eight, the call has an end
  time exactly when its state is terminal, a terminal call has a resolution, and from then on every
  further transition is refused.\<close>

theorem call_lifecycle_sound:
  assumes "call_reachable call"
  shows "k_state call \<in> set call_states
    \<and> (is_terminal call \<longleftrightarrow> k_ended_at call \<noteq> None)
    \<and> (is_terminal call \<longrightarrow> k_resolution_status call \<noteq> None \<and>
         (\<forall>now tgt. transition now tgt call = Inl InvalidCallTransition))"
  using call_reachable_sound [OF assms] terminal_no_targets [of "k_state call"]
  by (auto simp: call_sound_def is_terminal_def transition_def assert_call_transition_def)

theorem call_lifecycle_sound_witness:
  "\<exists>c1 c2. transition ''t1'' ''active'' (new_call ''t'' ''c'' ''corr'' ''t0'') = Inr c1 \<and>
     transition ''t2'' ''completed'' c1 = Inr c2 \<and> transition ''t3'' ''active'' c2 = Inl InvalidCallTransition"
proof -
  let ?c0 = "new_call ''t'' ''c'' ''corr'' ''t0''"
  have r0: "call_reachable ?c0" by (rule call_start) (simp_all add: new_call_def)
  obtain c1 where c1: "transition ''t1'' ''active'' ?c0 = Inr c1" "k_state c1 = ''active''"
    by (simp add: transition_Inr_iff targets_def call_transitions_def new_call_def)
  obtain c2 where c2: "transition ''t2'' ''completed'' c1 = Inr c2" "is_terminal c2"
    using c1(2) by (simp add: transition_Inr_iff targets_def call_transitions_def is_terminal_def terminal_call_states_def)
  from call_lifecycle_sound [OF call_transition [OF call_transition [OF r0 c1(1)] c2(1)]] c1 c2 show ?thesis by blast
qed

end
