(* ===== verification/PhoneScenarios.thy ===== *)
theory PhoneScenarios
  imports PhoneDomain Domain
begin

text \<open>
  The lifecycle of call scenarios (\<open>phone/scenarios.py\<close>) over the in-memory repository of
  \<open>persistence/phone_models.py\<close>. A request body is a record of the fields the code reads, with the empty
  value for a missing one; an operation reads the clock once, as the argument \<open>now\<close>. Errors carry the
  HTTP status and code of \<open>ScenarioError\<close>; every raise precedes the first change of state.
\<close>

section \<open>Repository and errors\<close>

datatype scenario_error = ScenarioError int string

type_synonym 'a scenario_result = "scenario_error + 'a"

type_synonym scenario_repo = "(string \<times> string, call_scenario) dict"

definition repo_save :: "call_scenario \<Rightarrow> scenario_repo \<Rightarrow> scenario_repo" where
  "repo_save s repo = dset (s_tenant_id s, s_scenario_id s) s repo"

definition repo_get :: "string \<Rightarrow> string \<Rightarrow> scenario_repo \<Rightarrow> call_scenario option" where
  "repo_get tenant_id scenario_id repo = dget repo (tenant_id, scenario_id)"

definition repo_list :: "string \<Rightarrow> scenario_repo \<Rightarrow> call_scenario list" where
  "repo_list tenant_id repo =
     sort_key s_scenario_id (map snd (filter (\<lambda>(k, s). fst k = tenant_id) repo))"

section \<open>Roles\<close>

definition scenario_manage_roles :: "string set" where
  "scenario_manage_roles = {''tenant_admin'', ''scenario_admin''}"

definition scenario_approve_roles :: "string set" where
  "scenario_approve_roles = {''tenant_admin'', ''scenario_approver''}"

definition scenario_read_roles :: "string set" where
  "scenario_read_roles = scenario_manage_roles \<union> scenario_approve_roles \<union> {''ops_owner''}"

definition can_manage :: "identity_claims \<Rightarrow> bool" where
  "can_manage p \<longleftrightarrow> set (id_roles p) \<inter> scenario_manage_roles \<noteq> {}"

definition can_approve :: "identity_claims \<Rightarrow> bool" where
  "can_approve p \<longleftrightarrow> set (id_roles p) \<inter> scenario_approve_roles \<noteq> {}"

definition can_read_scenarios :: "identity_claims \<Rightarrow> bool" where
  "can_read_scenarios p \<longleftrightarrow> set (id_roles p) \<inter> scenario_read_roles \<noteq> {}"

section \<open>Creating and editing\<close>

definition action_target :: "(string, string) dict" where
  "action_target = [(''submit-review'', ''in_review''), (''approve'', ''approved''), (''publish'', ''published''),
     (''schedule'', ''scheduled''), (''archive'', ''archived'')]"

definition ensure_mandatory_handoff_conditions :: "pydict list \<Rightarrow> pydict list" where
  "ensure_mandatory_handoff_conditions conditions =
     (let present = map (\<lambda>c. py_get_str c ''reason'') conditions
      in foldl (\<lambda>merged reason. if reason \<notin> set present
                 then merged @ [[(''reason'', PStr reason), (''enabled'', PBool True)]] else merged)
           conditions mandatory_handoff_reasons)"

record create_body =
  cb_intent :: string
  cb_scenario_id :: string
  cb_name :: string
  cb_description :: string
  cb_owner_group :: string

record version_body =
  b_entry_conditions :: "pydict list"
  b_steps :: "pydict list"
  b_required_slots :: "pydict list"
  b_branch_conditions :: "pydict list"
  b_allowed_actions :: "string list"
  b_handoff_conditions :: "pydict list"
  b_fallback_message :: string
  b_response_templates :: "pydict list"

definition blank_version :: "string \<Rightarrow> string \<Rightarrow> string \<Rightarrow> int \<Rightarrow> string \<Rightarrow> scenario_version" where
  "blank_version tenant_id scenario_id version_id number now =
     \<lparr>v_tenant_id = tenant_id, v_scenario_id = scenario_id, v_scenario_version_id = version_id,
      v_version_number = number, v_status = ''draft'', v_entry_conditions = [], v_steps = [],
      v_required_slots = [], v_branch_conditions = [], v_allowed_actions = [], v_handoff_conditions = [],
      v_fallback_message = default_fallback_message, v_response_templates = [], v_approved_by = None,
      v_approved_at = None, v_published_by = None, v_published_at = None, v_scheduled_publish_at = None,
      v_archived_by = None, v_archived_at = None, v_supersedes_version_id = None,
      v_rollback_target_version_id = None, v_created_by = [], v_created_at = now\<rparr>"

definition str_or :: "string \<Rightarrow> string \<Rightarrow> string" where
  "str_or s d = (if s \<noteq> [] then s else d)"

definition none_if_empty :: "string \<Rightarrow> string option" where
  "none_if_empty s = (if s \<noteq> [] then Some s else None)"

definition create ::
  "string \<Rightarrow> identity_claims \<Rightarrow> create_body \<Rightarrow> scenario_repo \<Rightarrow> (scenario_repo \<times> call_scenario) scenario_result" where
  "create now p body repo =
     (let intent = str_or (cb_intent body) ''faq'';
          scenario_id = str_or (cb_scenario_id body) (intent @ ''-basic'')
      in if repo_get (id_tenant_id p) scenario_id repo \<noteq> None
         then Inl (ScenarioError 409 ''scenario_already_exists'')
         else
           let initial = (blank_version (id_tenant_id p) scenario_id ''scv_1'' 1 now)
                 \<lparr>v_handoff_conditions := ensure_mandatory_handoff_conditions [],
                  v_created_by := id_user_id p\<rparr>;
               scenario = \<lparr>s_tenant_id = id_tenant_id p, s_scenario_id = scenario_id,
                  s_name = str_or (cb_name body) scenario_id, s_intent = intent,
                  s_description = none_if_empty (cb_description body), s_status = ''draft'',
                  s_active_version_id = None, s_owner_group = none_if_empty (cb_owner_group body),
                  s_created_by = id_user_id p,
                  s_versions = [(v_scenario_version_id initial, initial)],
                  s_created_at = now, s_updated_at = now\<rparr>
           in Inr (repo_save scenario repo, scenario))"

definition get_scenario :: "identity_claims \<Rightarrow> string \<Rightarrow> scenario_repo \<Rightarrow> call_scenario scenario_result" where
  "get_scenario p scenario_id repo =
     (case repo_get (id_tenant_id p) scenario_id repo of
        None \<Rightarrow> Inl (ScenarioError 404 ''not_found'')
      | Some s \<Rightarrow> Inr s)"

text \<open>\<open>body.get(k) or (existing.k if existing else [])\<close>.\<close>

definition or_existing :: "'a list \<Rightarrow> (scenario_version \<Rightarrow> 'a list) \<Rightarrow> 'a list \<Rightarrow> scenario_version option \<Rightarrow> 'a list" where
  "or_existing new field dflt existing =
     (if new \<noteq> [] then new else case existing of None \<Rightarrow> dflt | Some v \<Rightarrow> field v)"

definition edited_version ::
  "string \<Rightarrow> identity_claims \<Rightarrow> call_scenario \<Rightarrow> string \<Rightarrow> string \<Rightarrow> version_body \<Rightarrow> scenario_version" where
  "edited_version now p scenario scenario_id version_id body =
     (let existing = find_version scenario version_id;
          base = blank_version (id_tenant_id p) scenario_id version_id
            (case existing of None \<Rightarrow> next_version_number scenario | Some v \<Rightarrow> v_version_number v)
            (case existing of None \<Rightarrow> now | Some v \<Rightarrow> v_created_at v)
      in base
        \<lparr>v_status := (case existing of None \<Rightarrow> ''draft'' | Some v \<Rightarrow> v_status v),
         v_entry_conditions := or_existing (b_entry_conditions body) v_entry_conditions [] existing,
         v_steps := or_existing (b_steps body) v_steps [] existing,
         v_required_slots := or_existing (b_required_slots body) v_required_slots [] existing,
         v_branch_conditions := or_existing (b_branch_conditions body) v_branch_conditions [] existing,
         v_allowed_actions := or_existing (b_allowed_actions body) v_allowed_actions [] existing,
         v_handoff_conditions := ensure_mandatory_handoff_conditions
           (or_existing (b_handoff_conditions body) v_handoff_conditions [] existing),
         v_fallback_message := or_existing (b_fallback_message body) v_fallback_message default_fallback_message existing,
         v_response_templates := or_existing (b_response_templates body) v_response_templates [] existing,
         v_approved_by := (case existing of None \<Rightarrow> None | Some v \<Rightarrow> v_approved_by v),
         v_approved_at := (case existing of None \<Rightarrow> None | Some v \<Rightarrow> v_approved_at v),
         v_created_by := (case existing of None \<Rightarrow> id_user_id p | Some v \<Rightarrow> v_created_by v)\<rparr>)"

definition upsert_version ::
  "string \<Rightarrow> identity_claims \<Rightarrow> string \<Rightarrow> string \<Rightarrow> version_body \<Rightarrow> scenario_repo \<Rightarrow>
     (scenario_repo \<times> scenario_version) scenario_result" where
  "upsert_version now p scenario_id version_id body repo =
     (case get_scenario p scenario_id repo of
        Inl e \<Rightarrow> Inl e
      | Inr scenario \<Rightarrow>
          if (case find_version scenario version_id of None \<Rightarrow> False | Some v \<Rightarrow> is_immutable v)
          then Inl (ScenarioError 409 ''scenario_version_immutable'')
          else
            let version = edited_version now p scenario scenario_id version_id body;
                scenario = scenario\<lparr>s_versions := dset version_id version (s_versions scenario), s_updated_at := now\<rparr>
            in Inr (repo_save scenario repo, version))"

section \<open>Lifecycle\<close>

text \<open>What an action stamps on the version, after its status.\<close>

definition stamped ::
  "string \<Rightarrow> identity_claims \<Rightarrow> string \<Rightarrow> string \<Rightarrow> call_scenario \<Rightarrow> scenario_version \<Rightarrow> scenario_version" where
  "stamped stamp p action publish_at scenario v =
     (let v = (if action = ''approve'' then v\<lparr>v_approved_by := Some (id_user_id p), v_approved_at := Some stamp\<rparr> else v);
          v = (if action = ''schedule'' then v\<lparr>v_scheduled_publish_at := Some publish_at\<rparr> else v);
          v = (if action = ''publish'' then
                 let v = v\<lparr>v_published_by := Some (id_user_id p), v_published_at := Some stamp\<rparr> in
                 if opt_truthy (s_active_version_id scenario) \<and> s_active_version_id scenario \<noteq> Some (v_scenario_version_id v)
                 then v\<lparr>v_supersedes_version_id := s_active_version_id scenario\<rparr> else v
               else v)
      in if action = ''archive'' then v\<lparr>v_archived_by := Some (id_user_id p), v_archived_at := Some stamp\<rparr> else v)"

definition active_after :: "string \<Rightarrow> call_scenario \<Rightarrow> scenario_version \<Rightarrow> string option" where
  "active_after action scenario v =
     (if action = ''publish'' then Some (v_scenario_version_id v)
      else if action = ''archive'' \<and> s_active_version_id scenario = Some (v_scenario_version_id v) then None
      else s_active_version_id scenario)"

definition lifecycle_action ::
  "string \<Rightarrow> identity_claims \<Rightarrow> string \<Rightarrow> string \<Rightarrow> string \<Rightarrow> string \<Rightarrow> scenario_repo \<Rightarrow>
     (scenario_repo \<times> call_scenario \<times> scenario_version) scenario_result" where
  "lifecycle_action now p scenario_id version_id action publish_at repo =
     (case dget action_target action of
        None \<Rightarrow> Inl (ScenarioError 404 ''not_found'')
      | Some tgt \<Rightarrow>
     case get_scenario p scenario_id repo of
        Inl e \<Rightarrow> Inl e
      | Inr scenario \<Rightarrow>
     case find_version scenario version_id of
        None \<Rightarrow> Inl (ScenarioError 404 ''not_found'')
      | Some version \<Rightarrow>
          if action = ''publish'' \<and> v_status version \<notin> {''approved'', ''scheduled''}
          then Inl (ScenarioError 409 ''scenario_version_not_approved'')
          else if action = ''schedule'' \<and> v_status version \<noteq> ''approved''
          then Inl (ScenarioError 409 ''scenario_version_not_approved'')
          else if is_immutable version \<and> action \<noteq> ''archive''
          then Inl (ScenarioError 409 ''scenario_version_immutable'')
          else case assert_scenario_transition (v_status version) tgt of
            Inl e \<Rightarrow> Inl (ScenarioError 409 ''scenario_version_immutable'')
          | Inr _ \<Rightarrow>
              let version = stamped now p action publish_at scenario (version\<lparr>v_status := tgt\<rparr>);
                  scenario = scenario
                    \<lparr>s_active_version_id := active_after action scenario version,
                     s_versions := dset version_id version (s_versions scenario),
                     s_status := (if action \<noteq> ''archive'' then v_status version else s_status scenario),
                     s_updated_at := now\<rparr>
              in Inr (repo_save scenario repo, scenario, version))"

definition rolled_back :: "string \<Rightarrow> identity_claims \<Rightarrow> call_scenario \<Rightarrow> string \<Rightarrow> scenario_version \<Rightarrow> scenario_version" where
  "rolled_back stamp p scenario scenario_id tv =
     (blank_version (id_tenant_id p) scenario_id (''scv_'' @ int_str (next_version_number scenario))
        (next_version_number scenario) stamp)
       \<lparr>v_status := ''published'', v_entry_conditions := v_entry_conditions tv, v_steps := v_steps tv,
        v_required_slots := v_required_slots tv, v_branch_conditions := v_branch_conditions tv,
        v_allowed_actions := v_allowed_actions tv,
        v_handoff_conditions := ensure_mandatory_handoff_conditions (v_handoff_conditions tv),
        v_fallback_message := v_fallback_message tv, v_response_templates := v_response_templates tv,
        v_approved_by := v_approved_by tv, v_approved_at := v_approved_at tv,
        v_published_by := Some (id_user_id p), v_published_at := Some stamp,
        v_supersedes_version_id := s_active_version_id scenario,
        v_rollback_target_version_id := Some (v_scenario_version_id tv), v_created_by := id_user_id p\<rparr>"

definition rollback ::
  "string \<Rightarrow> identity_claims \<Rightarrow> string \<Rightarrow> string \<Rightarrow> scenario_repo \<Rightarrow>
     (scenario_repo \<times> call_scenario \<times> scenario_version) scenario_result" where
  "rollback now p scenario_id target_id repo =
     (case get_scenario p scenario_id repo of
        Inl e \<Rightarrow> Inl e
      | Inr scenario \<Rightarrow>
     case find_version scenario target_id of
        None \<Rightarrow> Inl (ScenarioError 404 ''not_found'')
      | Some tv \<Rightarrow>
          if v_status tv \<notin> {''published'', ''archived'', ''approved''} \<or> \<not> opt_truthy (v_approved_at tv)
          then Inl (ScenarioError 409 ''scenario_version_not_approved'')
          else
            let new_version = rolled_back now p scenario scenario_id tv;
                scenario = scenario
                  \<lparr>s_versions := dset (v_scenario_version_id new_version) new_version (s_versions scenario),
                   s_active_version_id := Some (v_scenario_version_id new_version),
                   s_status := ''published'', s_updated_at := now\<rparr>
            in Inr (repo_save scenario repo, scenario, new_version))"

definition resolve_for_call :: "string \<Rightarrow> string option \<Rightarrow> scenario_repo \<Rightarrow> scenario_version option" where
  "resolve_for_call tenant_id scenario_id repo =
     (case scenario_id of
        None \<Rightarrow> None
      | Some i \<Rightarrow>
          if i = [] then None
          else case repo_get tenant_id i repo of
            None \<Rightarrow> None
          | Some scenario \<Rightarrow>
              (case active_version scenario of
                 None \<Rightarrow> None
               | Some active \<Rightarrow> if v_status active = ''published'' then Some active else None))"

section \<open>The invariant of a scenario\<close>

definition version_ok :: "string \<Rightarrow> scenario_version \<Rightarrow> bool" where
  "version_ok i v \<longleftrightarrow> v_scenario_version_id v = i \<and> (v_approved_by v = None \<longleftrightarrow> v_approved_at v = None) \<and>
     (v_status v \<in> {''approved'', ''scheduled'', ''published''} \<longrightarrow> v_approved_at v \<noteq> None)"

definition scenario_ok :: "call_scenario \<Rightarrow> bool" where
  "scenario_ok s \<longleftrightarrow> (\<forall>i v. dget (s_versions s) i = Some v \<longrightarrow> version_ok i v) \<and>
     (\<forall>i. s_active_version_id s = Some i \<longrightarrow> (\<exists>v. dget (s_versions s) i = Some v \<and> v_status v = ''published''))"

definition repo_ok :: "scenario_repo \<Rightarrow> bool" where
  "repo_ok repo \<longleftrightarrow> (\<forall>k s. dget repo k = Some s \<longrightarrow> k = (s_tenant_id s, s_scenario_id s) \<and> scenario_ok s)"

lemma repo_ok_save [wf_intros]: "repo_ok repo \<Longrightarrow> scenario_ok s \<Longrightarrow> repo_ok (repo_save s repo)"
  by (auto simp: repo_ok_def repo_save_def dget_dset)

lemma get_scenario_ok: "repo_ok repo \<Longrightarrow> get_scenario p i repo = Inr s \<Longrightarrow> scenario_ok s"
  by (auto simp: get_scenario_def repo_get_def repo_ok_def split: option.splits)

lemma get_scenario_keys: "repo_ok repo \<Longrightarrow> get_scenario p i repo = Inr s \<Longrightarrow> s_tenant_id s = id_tenant_id p \<and> s_scenario_id s = i"
  by (auto simp: get_scenario_def repo_get_def repo_ok_def split: option.splits)

lemma create_ok [wf_intros]:
  assumes "repo_ok repo" and "create now p body repo = Inr (repo', s)"
  shows "repo_ok repo'"
proof -
  from assms(2) have s: "repo' = repo_save s repo" "s_active_version_id s = None"
    "\<exists>v. s_versions s = [(v_scenario_version_id v, v)] \<and> v_status v = ''draft'' \<and> v_approved_by v = None \<and> v_approved_at v = None"
    by (auto simp: create_def Let_def blank_version_def split: if_splits)
  then have "scenario_ok s" by (fastforce simp: scenario_ok_def version_ok_def split: if_splits)
  with assms(1) s(1) show ?thesis by (simp add: repo_ok_save)
qed

lemma edited_version_fields:
  "v_scenario_version_id (edited_version now p s i j body) = j"
  "v_status (edited_version now p s i j body) = (case find_version s j of None \<Rightarrow> ''draft'' | Some v \<Rightarrow> v_status v)"
  "v_approved_by (edited_version now p s i j body) = (case find_version s j of None \<Rightarrow> None | Some v \<Rightarrow> v_approved_by v)"
  "v_approved_at (edited_version now p s i j body) = (case find_version s j of None \<Rightarrow> None | Some v \<Rightarrow> v_approved_at v)"
  "v_steps (edited_version now p s i j body) = or_existing (b_steps body) v_steps [] (find_version s j)"
  by (simp_all add: edited_version_def blank_version_def Let_def)

lemma upsert_cases:
  assumes "upsert_version now p i j body repo = Inr (repo', v)"
  obtains s where "get_scenario p i repo = Inr s" "find_version s j = None \<or> (\<exists>w. find_version s j = Some w \<and> \<not> is_immutable w)"
    "v = edited_version now p s i j body"
    "repo' = repo_save (s\<lparr>s_versions := dset j v (s_versions s), s_updated_at := now\<rparr>) repo"
  using assms by (auto simp: upsert_version_def Let_def split: sum.splits if_splits option.splits)

lemma upsert_ok [wf_intros]:
  assumes ok: "repo_ok repo" and "upsert_version now p i j body repo = Inr (repo', v)"
  shows "repo_ok repo'"
proof -
  from assms(2) obtain s where s: "get_scenario p i repo = Inr s"
    "find_version s j = None \<or> (\<exists>w. find_version s j = Some w \<and> \<not> is_immutable w)" "v = edited_version now p s i j body"
    "repo' = repo_save (s\<lparr>s_versions := dset j v (s_versions s), s_updated_at := now\<rparr>) repo"
    by (rule upsert_cases)
  have sok: "scenario_ok s" by (rule get_scenario_ok [OF ok s(1)])
  then have v: "version_ok j v"
    unfolding s(3) version_ok_def edited_version_fields
    by (auto simp: scenario_ok_def version_ok_def find_version_def split: option.splits)
  have "scenario_ok (s\<lparr>s_versions := dset j v (s_versions s), s_updated_at := now\<rparr>)"
    using sok v s(2) by (auto simp: scenario_ok_def dget_dset find_version_def is_immutable_def)
  then show ?thesis using ok s(4) by (simp add: repo_ok_save)
qed

lemma action_cases:
  assumes "lifecycle_action now p i j action publish_at repo = Inr (repo', s', v')"
  obtains s v tgt where "dget action_target action = Some tgt" "get_scenario p i repo = Inr s" "find_version s j = Some v"
    "tgt \<in> targets scenario_transitions (v_status v)"
    "action = ''publish'' \<Longrightarrow> v_status v \<in> {''approved'', ''scheduled''}"
    "action = ''schedule'' \<Longrightarrow> v_status v = ''approved''"
    "is_immutable v \<Longrightarrow> action = ''archive''"
    "v' = stamped now p action publish_at s (v\<lparr>v_status := tgt\<rparr>)"
    "s' = s\<lparr>s_active_version_id := active_after action s v', s_versions := dset j v' (s_versions s),
       s_status := (if action \<noteq> ''archive'' then v_status v' else s_status s), s_updated_at := now\<rparr>"
    "repo' = repo_save s' repo"
proof -
  from assms obtain tgt where t: "dget action_target action = Some tgt"
    by (auto simp: lifecycle_action_def split: option.splits)
  from assms t obtain s where s: "get_scenario p i repo = Inr s"
    by (auto simp: lifecycle_action_def split: sum.splits)
  from assms t s obtain v where v: "find_version s j = Some v"
    by (auto simp: lifecycle_action_def split: option.splits)
  note body = assms [unfolded lifecycle_action_def t option.case s sum.case v option.case]
  have rest: "\<not> (action = ''publish'' \<and> v_status v \<notin> {''approved'', ''scheduled''})"
    "\<not> (action = ''schedule'' \<and> v_status v \<noteq> ''approved'')" "\<not> (is_immutable v \<and> action \<noteq> ''archive'')"
    using body by (meson Inl_Inr_False)+
  have tgt: "tgt \<in> targets scenario_transitions (v_status v)"
    using body rest by (simp add: assert_scenario_transition_def split: if_splits)
  have res: "v' = stamped now p action publish_at s (v\<lparr>v_status := tgt\<rparr>)"
    "s' = s\<lparr>s_active_version_id := active_after action s v', s_versions := dset j v' (s_versions s),
       s_status := (if action \<noteq> ''archive'' then v_status v' else s_status s), s_updated_at := now\<rparr>"
    "repo' = repo_save s' repo"
    using body unfolding if_not_P [OF rest(1)] if_not_P [OF rest(2)] if_not_P [OF rest(3)]
    using tgt by (auto simp: assert_scenario_transition_def Let_def)
  show thesis by (rule that [OF t s v tgt _ _ _ res]) (use rest in blast)+
qed

lemma stamped_fields:
  "v_status (stamped now p action pa s v) = v_status v"
  "v_scenario_version_id (stamped now p action pa s v) = v_scenario_version_id v"
  "v_approved_by (stamped now p action pa s v) = (if action = ''approve'' then Some (id_user_id p) else v_approved_by v)"
  "v_approved_at (stamped now p action pa s v) = (if action = ''approve'' then Some now else v_approved_at v)"
  "v_steps (stamped now p action pa s v) = v_steps v"
  "v_handoff_conditions (stamped now p action pa s v) = v_handoff_conditions v"
  "v_response_templates (stamped now p action pa s v) = v_response_templates v"
  "v_fallback_message (stamped now p action pa s v) = v_fallback_message v"
  "v_entry_conditions (stamped now p action pa s v) = v_entry_conditions v"
  "v_required_slots (stamped now p action pa s v) = v_required_slots v"
  "v_branch_conditions (stamped now p action pa s v) = v_branch_conditions v"
  "v_allowed_actions (stamped now p action pa s v) = v_allowed_actions v"
  "v_version_number (stamped now p action pa s v) = v_version_number v"
  by (simp_all add: stamped_def Let_def)

lemma action_targets:
  "dget action_target action = Some tgt \<Longrightarrow>
     (action, tgt) \<in> {(''submit-review'', ''in_review''), (''approve'', ''approved''), (''publish'', ''published''),
       (''schedule'', ''scheduled''), (''archive'', ''archived'')}"
  by (auto simp: action_target_def split: if_splits)

lemma action_ok [wf_intros]:
  assumes ok: "repo_ok repo" and "lifecycle_action now p i j action publish_at repo = Inr (repo', s', v')"
  shows "repo_ok repo' \<and> scenario_ok s'"
proof -
  from action_cases [OF assms(2)] obtain s v tgt where a: "dget action_target action = Some tgt"
    "get_scenario p i repo = Inr s" "find_version s j = Some v"
    "tgt \<in> targets scenario_transitions (v_status v)"
    "action = ''publish'' \<Longrightarrow> v_status v \<in> {''approved'', ''scheduled''}" "action = ''schedule'' \<Longrightarrow> v_status v = ''approved''"
    "is_immutable v \<Longrightarrow> action = ''archive''"
    "v' = stamped now p action publish_at s (v\<lparr>v_status := tgt\<rparr>)"
    "s' = s\<lparr>s_active_version_id := active_after action s v', s_versions := dset j v' (s_versions s),
       s_status := (if action \<noteq> ''archive'' then v_status v' else s_status s), s_updated_at := now\<rparr>"
    "repo' = repo_save s' repo" by metis
  have sok: "scenario_ok s" by (rule get_scenario_ok [OF ok a(2)])
  have vok: "version_ok j v" using sok a(3) by (simp add: scenario_ok_def find_version_def)
  note cases = action_targets [OF a(1)]
  have st: "v_status v' = tgt" "v_scenario_version_id v' = j"
    using vok by (simp_all add: a(8) stamped_fields version_ok_def)
  have v': "version_ok j v'"
  proof (cases "action = ''approve''")
    case True
    with st show ?thesis by (simp add: version_ok_def a(8) stamped_fields)
  next
    case False
    with cases a(5,6) have "tgt \<in> {''approved'', ''scheduled'', ''published''} \<Longrightarrow> v_status v \<in> {''approved'', ''scheduled''}"
      by auto
    with False st vok show ?thesis by (auto simp: version_ok_def a(8) stamped_fields)
  qed
  have act: "\<exists>w. dget (dset j v' (s_versions s)) k = Some w \<and> v_status w = ''published''"
    if k: "active_after action s v' = Some k" for k
  proof (cases "k = j")
    case True
    have "v_status v = ''published''" if "s_active_version_id s = Some j"
      using sok that a(3) by (auto simp: scenario_ok_def find_version_def)
    then have "action = ''publish''"
      using k True st a(7) by (auto simp: active_after_def is_immutable_def split: if_splits)
    then show ?thesis using True cases st by (auto simp: dget_dset)
  next
    case False
    then have "s_active_version_id s = Some k" using k st by (auto simp: active_after_def split: if_splits)
    then show ?thesis using sok False by (auto simp: dget_dset scenario_ok_def)
  qed
  have "scenario_ok s'" using sok v' act unfolding a(9) by (auto simp: scenario_ok_def dget_dset)
  with ok a(10) show ?thesis by (simp add: repo_ok_save)
qed

lemma rollback_cases:
  assumes "rollback now p i j repo = Inr (repo', s', v')"
  obtains s tv where "get_scenario p i repo = Inr s" "find_version s j = Some tv" "opt_truthy (v_approved_at tv)"
    "v_status tv \<in> {''published'', ''archived'', ''approved''}" "v' = rolled_back now p s i tv"
    "s' = s\<lparr>s_versions := dset (v_scenario_version_id v') v' (s_versions s), s_active_version_id := Some (v_scenario_version_id v'),
       s_status := ''published'', s_updated_at := now\<rparr>" "repo' = repo_save s' repo"
proof -
  from assms obtain s where s: "get_scenario p i repo = Inr s" by (auto simp: rollback_def split: sum.splits)
  from assms s obtain tv where tv: "find_version s j = Some tv" by (auto simp: rollback_def split: option.splits)
  note body = assms [unfolded rollback_def s sum.case tv option.case]
  have g: "\<not> (v_status tv \<notin> {''published'', ''archived'', ''approved''} \<or> \<not> opt_truthy (v_approved_at tv))"
    using body by (meson Inl_Inr_False)
  show thesis by (rule that [OF s tv]) (use g body [unfolded if_not_P [OF g] Let_def] in blast)+
qed

lemma rolled_back_fields:
  "v_scenario_version_id (rolled_back now p s i tv) = ''scv_'' @ int_str (next_version_number s)"
  "v_version_number (rolled_back now p s i tv) = next_version_number s"
  "v_status (rolled_back now p s i tv) = ''published''"
  "v_approved_by (rolled_back now p s i tv) = v_approved_by tv"
  "v_approved_at (rolled_back now p s i tv) = v_approved_at tv"
  by (simp_all add: rolled_back_def blank_version_def)

lemma rollback_ok [wf_intros]:
  assumes ok: "repo_ok repo" and "rollback now p i j repo = Inr (repo', s', v')"
  shows "repo_ok repo' \<and> scenario_ok s'"
proof -
  from rollback_cases [OF assms(2)] obtain s tv where r: "get_scenario p i repo = Inr s" "find_version s j = Some tv"
    "opt_truthy (v_approved_at tv)" "v' = rolled_back now p s i tv"
    "s' = s\<lparr>s_versions := dset (v_scenario_version_id v') v' (s_versions s), s_active_version_id := Some (v_scenario_version_id v'),
       s_status := ''published'', s_updated_at := now\<rparr>" "repo' = repo_save s' repo" by metis
  have sok: "scenario_ok s" by (rule get_scenario_ok [OF ok r(1)])
  then have "version_ok j tv" using r(2) by (simp add: scenario_ok_def find_version_def)
  then have "version_ok (v_scenario_version_id v') v'" "v_status v' = ''published''"
    using r(3) by (auto simp: version_ok_def r(4) rolled_back_fields opt_truthy_def)
  then have "scenario_ok s'" using sok unfolding r(5) by (auto simp: scenario_ok_def dget_dset)
  with ok r(6) show ?thesis by (simp add: repo_ok_save)
qed

inductive repo_reachable :: "scenario_repo \<Rightarrow> bool" where
  r_empty: "repo_reachable []"
| r_create: "repo_reachable repo \<Longrightarrow> create now p body repo = Inr (repo', s) \<Longrightarrow> repo_reachable repo'"
| r_upsert: "repo_reachable repo \<Longrightarrow> upsert_version now p i j vbody repo = Inr (repo', v) \<Longrightarrow> repo_reachable repo'"
| r_action: "repo_reachable repo \<Longrightarrow> lifecycle_action now p i j action pa repo = Inr (repo', s, v) \<Longrightarrow> repo_reachable repo'"
| r_rollback: "repo_reachable repo \<Longrightarrow> rollback now p i j repo = Inr (repo', s, v) \<Longrightarrow> repo_reachable repo'"

lemma repo_reachable_ok: "repo_reachable repo \<Longrightarrow> repo_ok repo"
  by (induction rule: repo_reachable.induct)
    (auto simp: repo_ok_def [of "[]"] intro: create_ok upsert_ok dest: action_ok rollback_ok)

section \<open>Properties\<close>


definition sample_admin :: identity_claims where
  "sample_admin = \<lparr>id_tenant_id = ''t'', id_user_id = ''u'', id_groups = [], id_roles = [''tenant_admin'']\<rparr>"

definition sample_version :: "string \<Rightarrow> scenario_version" where
  "sample_version status = (blank_version ''t'' ''faq-basic'' ''scv_1'' 1 ''t0'')
     \<lparr>v_status := status, v_approved_by := Some ''boss'', v_approved_at := Some ''t1''\<rparr>"

definition sample_scenario :: call_scenario where
  "sample_scenario = \<lparr>s_tenant_id = ''t'', s_scenario_id = ''faq-basic'', s_name = ''faq'', s_intent = ''faq'',
     s_description = None, s_status = ''draft'', s_active_version_id = None, s_owner_group = None, s_created_by = ''u'',
     s_versions = [(''scv_1'', sample_version ''approved'')], s_created_at = ''t0'', s_updated_at = ''t0''\<rparr>"

definition sample_repo :: scenario_repo where
  "sample_repo = [((''t'', ''faq-basic''), sample_scenario)]"

definition sample_edit :: version_body where
  "sample_edit = \<lparr>b_entry_conditions = [], b_steps = [[(''say'', PStr ''unreviewed'')]], b_required_slots = [],
     b_branch_conditions = [], b_allowed_actions = [], b_handoff_conditions = [], b_fallback_message = [],
     b_response_templates = []\<rparr>"

text \<open>Publishing what was not approved: editing an approved version replaces its content and keeps both its
  status and its approval, so a following publish succeeds and puts the edited steps live.\<close>

theorem approved_version_edited_then_published:
  assumes "repo_ok repo" and "get_scenario p i repo = Inr s" and "find_version s j = Some v"
    and "v_status v = ''approved''" and "b_steps body \<noteq> []" and "id_tenant_id q = id_tenant_id p"
  shows "\<exists>repo1 v1 repo2 s2 v2. upsert_version now p i j body repo = Inr (repo1, v1)
    \<and> lifecycle_action now2 q i j ''publish'' pa repo1 = Inr (repo2, s2, v2)
    \<and> v_status v2 = ''published'' \<and> v_steps v2 = b_steps body
    \<and> v_approved_by v2 = v_approved_by v \<and> v_approved_at v2 = v_approved_at v"
proof -
  have keys: "s_tenant_id s = id_tenant_id p" "s_scenario_id s = i" using get_scenario_keys [OF assms(1,2)] by auto
  define v1 where "v1 = edited_version now p s i j body"
  define s1 where "s1 = s\<lparr>s_versions := dset j v1 (s_versions s), s_updated_at := now\<rparr>"
  have up: "upsert_version now p i j body repo = Inr (repo_save s1 repo, v1)"
    using assms(2-4) by (simp add: upsert_version_def is_immutable_def v1_def s1_def Let_def)
  have v1: "v_status v1 = ''approved''" "v_steps v1 = b_steps body" "v_approved_by v1 = v_approved_by v" "v_approved_at v1 = v_approved_at v"
    using assms(3-5) by (simp_all add: v1_def edited_version_fields or_existing_def)
  have g: "get_scenario q i (repo_save s1 repo) = Inr s1" "find_version s1 j = Some v1"
    using keys assms(6) by (simp_all add: get_scenario_def repo_get_def repo_save_def dget_dset s1_def find_version_def)
  define v2 where "v2 = stamped now2 q ''publish'' pa s1 (v1\<lparr>v_status := ''published''\<rparr>)"
  have "\<exists>repo2 s2. lifecycle_action now2 q i j ''publish'' pa (repo_save s1 repo) = Inr (repo2, s2, v2)"
    using g v1(1)
    by (simp add: lifecycle_action_def action_target_def is_immutable_def assert_scenario_transition_def targets_def
        scenario_transitions_def Let_def v2_def)
  moreover have "v_status v2 = ''published''" "v_steps v2 = b_steps body" "v_approved_by v2 = v_approved_by v" "v_approved_at v2 = v_approved_at v"
    using v1 by (simp_all add: v2_def stamped_fields)
  ultimately show ?thesis using up by blast
qed

theorem approved_version_edited_then_published_witness:
  "\<exists>repo1 v1 repo2 s2 v2. upsert_version ''t3'' sample_admin ''faq-basic'' ''scv_1'' sample_edit sample_repo = Inr (repo1, v1)
    \<and> lifecycle_action ''t4'' sample_admin ''faq-basic'' ''scv_1'' ''publish'' [] repo1 = Inr (repo2, s2, v2)
    \<and> v_steps v2 = [[(''say'', PStr ''unreviewed'')]]"
proof -
  have g: "get_scenario sample_admin ''faq-basic'' sample_repo = Inr sample_scenario"
    by (simp add: get_scenario_def repo_get_def sample_repo_def sample_admin_def)
  have ok: "repo_ok sample_repo"
    by (auto simp: repo_ok_def sample_repo_def sample_scenario_def scenario_ok_def version_ok_def sample_version_def
        blank_version_def split: if_splits)
  have f: "find_version sample_scenario ''scv_1'' = Some (sample_version ''approved'')" "v_status (sample_version ''approved'') = ''approved''"
    by (simp_all add: find_version_def sample_scenario_def sample_version_def)
  have "b_steps sample_edit \<noteq> []" "id_tenant_id sample_admin = id_tenant_id sample_admin"
    by (simp_all add: sample_edit_def)
  from approved_version_edited_then_published [OF ok g f this, of "''t3''" "''t4''" "[]"] show ?thesis
    by (simp add: sample_edit_def) blast
qed

text \<open>The operations other than rollback.\<close>

inductive edit_step :: "scenario_repo \<Rightarrow> scenario_repo \<Rightarrow> bool" where
  e_create: "create now p body repo = Inr (repo', s) \<Longrightarrow> edit_step repo repo'"
| e_upsert: "upsert_version now p i j vbody repo = Inr (repo', v) \<Longrightarrow> edit_step repo repo'"
| e_action: "lifecycle_action now p i j action pa repo = Inr (repo', s, v) \<Longrightarrow> edit_step repo repo'"

definition frozen :: "string \<Rightarrow> string \<Rightarrow> string \<Rightarrow> scenario_version \<Rightarrow> scenario_repo \<Rightarrow> bool" where
  "frozen t i j v repo \<longleftrightarrow> repo_ok repo \<and>
     (\<exists>s w. repo_get t i repo = Some s \<and> find_version s j = Some w \<and> is_immutable w \<and>
        w = v\<lparr>v_status := v_status w, v_archived_by := v_archived_by w, v_archived_at := v_archived_at w\<rparr>)"

lemma repo_get_save: "repo_get t i (repo_save s repo) = (if (t, i) = (s_tenant_id s, s_scenario_id s) then Some s else repo_get t i repo)"
  by (simp add: repo_get_def repo_save_def dget_dset)

lemma frozen_create:
  assumes "frozen t i j v repo" and "create now p body repo = Inr (repo', s')"
  shows "frozen t i j v repo'"
proof -
  have ok: "repo_ok repo'" using create_ok [OF _ assms(2)] assms(1) by (simp add: frozen_def)
  have new: "repo' = repo_save s' repo" "repo_get (s_tenant_id s') (s_scenario_id s') repo = None"
    using assms(2) by (auto simp: create_def Let_def split: if_splits)
  have "repo_get t i repo' = repo_get t i repo" if "repo_get t i repo \<noteq> None"
    using that new(2) unfolding new(1) repo_get_save by auto
  with assms(1) ok show ?thesis unfolding frozen_def by force
qed

lemma frozen_upsert:
  assumes "frozen t i j v repo" and "upsert_version now p a b vbody repo = Inr (repo', w')"
  shows "frozen t i j v repo'"
proof -
  from assms(1) obtain s w where f: "repo_ok repo" "repo_get t i repo = Some s" "find_version s j = Some w" "is_immutable w"
    "w = v\<lparr>v_status := v_status w, v_archived_by := v_archived_by w, v_archived_at := v_archived_at w\<rparr>"
    by (auto simp: frozen_def)
  have ok: "repo_ok repo'" by (rule upsert_ok [OF f(1) assms(2)])
  from assms(2) obtain s1 where u: "get_scenario p a repo = Inr s1"
    "find_version s1 b = None \<or> (\<exists>w. find_version s1 b = Some w \<and> \<not> is_immutable w)"
    "repo' = repo_save (s1\<lparr>s_versions := dset b w' (s_versions s1), s_updated_at := now\<rparr>) repo"
    by (rule upsert_cases)
  note k = get_scenario_keys [OF f(1) u(1)]
  show ?thesis
  proof (cases "(t, i) = (s_tenant_id s1, s_scenario_id s1)")
    case True
    then have "s1 = s" using u(1) f(2) k by (auto simp: get_scenario_def split: option.splits)
    then have "b \<noteq> j" using u(2) f(3,4) by auto
    with True \<open>s1 = s\<close> f(3) have "repo_get t i repo' = Some (s1\<lparr>s_versions := dset b w' (s_versions s1), s_updated_at := now\<rparr>)"
      "find_version (s1\<lparr>s_versions := dset b w' (s_versions s1), s_updated_at := now\<rparr>) j = Some w"
      by (simp_all add: u(3) repo_get_save find_version_def dget_dset)
    with ok f show ?thesis unfolding frozen_def by blast
  next
    case False
    then have "repo_get t i repo' = Some s" using f(2) by (auto simp: u(3) repo_get_save)
    with ok f show ?thesis unfolding frozen_def by blast
  qed
qed

lemma stamped_archive:
  "stamped now p ''archive'' pa s v = v\<lparr>v_archived_by := Some (id_user_id p), v_archived_at := Some now\<rparr>"
  by (simp add: stamped_def)

lemma frozen_action:
  assumes "frozen t i j v repo" and "lifecycle_action now p a b action pa repo = Inr (repo', s', w')"
  shows "frozen t i j v repo'"
proof -
  from assms(1) obtain s w where f: "repo_ok repo" "repo_get t i repo = Some s" "find_version s j = Some w" "is_immutable w"
    "w = v\<lparr>v_status := v_status w, v_archived_by := v_archived_by w, v_archived_at := v_archived_at w\<rparr>"
    by (auto simp: frozen_def)
  have ok: "repo_ok repo'" using action_ok [OF f(1) assms(2)] by simp
  from action_cases [OF assms(2)] obtain s1 v1 tgt where u: "dget action_target action = Some tgt" "get_scenario p a repo = Inr s1"
    "find_version s1 b = Some v1" "is_immutable v1 \<Longrightarrow> action = ''archive''"
    "w' = stamped now p action pa s1 (v1\<lparr>v_status := tgt\<rparr>)"
    "s' = s1\<lparr>s_active_version_id := active_after action s1 w', s_versions := dset b w' (s_versions s1),
       s_status := (if action \<noteq> ''archive'' then v_status w' else s_status s1), s_updated_at := now\<rparr>"
    "repo' = repo_save s' repo" by metis
  note k = get_scenario_keys [OF f(1) u(2)]
  have keys: "s_tenant_id s' = s_tenant_id s1" "s_scenario_id s' = s_scenario_id s1" by (simp_all add: u(6))
  show ?thesis
  proof (cases "(t, i) = (s_tenant_id s1, s_scenario_id s1)")
    case False
    then have "repo_get t i repo' = Some s" using f(2) keys by (auto simp: u(7) repo_get_save)
    with ok f show ?thesis unfolding frozen_def by blast
  next
    case True
    then have s1: "s1 = s" using u(2) f(2) k by (auto simp: get_scenario_def split: option.splits)
    have get: "repo_get t i repo' = Some s'" using True keys by (simp add: u(7) repo_get_save)
    show ?thesis
    proof (cases "b = j")
      case False
      then have "find_version s' j = Some w" using f(3) s1 by (simp add: u(6) find_version_def dget_dset)
      with ok f get show ?thesis unfolding frozen_def by blast
    next
      case True
      with f(3) u(3) s1 have v1: "v1 = w" by simp
      with f(4) u(4) have arch: "action = ''archive''" by simp
      then have tgt: "tgt = ''archived''" using u(1) by (simp add: action_target_def)
      have w': "w' = w\<lparr>v_status := ''archived'', v_archived_by := Some (id_user_id p), v_archived_at := Some now\<rparr>"
        unfolding u(5) arch stamped_archive v1 tgt by simp
      have "w' = v\<lparr>v_status := v_status w', v_archived_by := v_archived_by w', v_archived_at := v_archived_at w'\<rparr>"
        unfolding w' by (subst f(5)) simp
      moreover have "find_version s' j = Some w'" "is_immutable w'"
        using True by (simp_all add: u(6) find_version_def dget_dset w' is_immutable_def)
      ultimately show ?thesis using ok get unfolding frozen_def by blast
    qed
  qed
qed

lemma frozen_step: "edit_step repo repo' \<Longrightarrow> frozen t i j v repo \<Longrightarrow> frozen t i j v repo'"
  by (induction rule: edit_step.induct) (auto intro: frozen_create frozen_upsert frozen_action)

lemma frozen_steps: "edit_step\<^sup>*\<^sup>* repo repo' \<Longrightarrow> frozen t i j v repo \<Longrightarrow> frozen t i j v repo'"
  by (induction rule: rtranclp_induct) (auto intro: frozen_step)

text \<open>A published or archived version is immutable (FR-021): whatever sequence of create, edit and lifecycle
  operations follows, by any principal, the version stays stored with every field as it was, except that
  archiving it may set its status to archived and stamp who archived it and when.\<close>

theorem immutable_version_frozen:
  assumes "repo_ok repo" and "repo_get t i repo = Some s" and "find_version s j = Some v"
    and "v_status v \<in> {''published'', ''archived''}" and "edit_step\<^sup>*\<^sup>* repo repo'"
  shows "\<exists>s' w. repo_get t i repo' = Some s' \<and> find_version s' j = Some w
    \<and> v_status w \<in> {''published'', ''archived''}
    \<and> w = v\<lparr>v_status := v_status w, v_archived_by := v_archived_by w, v_archived_at := v_archived_at w\<rparr>"
proof -
  have "frozen t i j v repo" using assms(1-4) unfolding frozen_def is_immutable_def by force
  from frozen_steps [OF assms(5) this] show ?thesis unfolding frozen_def is_immutable_def by blast
qed

lemma sample_repo_reachable:
  "\<exists>repo s. create ''t0'' sample_admin \<lparr>cb_intent = [], cb_scenario_id = [], cb_name = [], cb_description = [],
     cb_owner_group = []\<rparr> [] = Inr (repo, s)"
  by (simp add: create_def Let_def repo_get_def)


theorem immutable_version_frozen_witness:
  "\<exists>s' w. repo_get ''t'' ''faq-basic'' [((''t'', ''faq-basic''), sample_scenario\<lparr>s_versions := [(''scv_1'', sample_version ''published'')]\<rparr>)] = Some s'
    \<and> find_version s' ''scv_1'' = Some w \<and> v_status w \<in> {''published'', ''archived''}"
proof -
  let ?s = "sample_scenario\<lparr>s_versions := [(''scv_1'', sample_version ''published'')]\<rparr>"
  let ?repo = "[((''t'', ''faq-basic''), ?s)]"
  have ok: "repo_ok ?repo"
    by (auto simp: repo_ok_def sample_scenario_def scenario_ok_def version_ok_def sample_version_def
        blank_version_def split: if_splits)
  have g: "repo_get ''t'' ''faq-basic'' ?repo = Some ?s" "find_version ?s ''scv_1'' = Some (sample_version ''published'')"
    "v_status (sample_version ''published'') \<in> {''published'', ''archived''}"
    by (simp_all add: repo_get_def find_version_def sample_version_def)
  from immutable_version_frozen [OF ok g rtranclp.rtrancl_refl] show ?thesis by blast
qed

lemma le_foldl_max: "(n :: int) \<in> set (m # ns) \<Longrightarrow> n \<le> foldl max m ns"
proof (induction ns arbitrary: m n)
  case (Cons a ns)
  have "max m a \<le> foldl max (max m a) ns" by (rule Cons.IH) simp
  with Cons show ?case by (cases "n = m \<or> n = a") auto
qed simp

lemma less_next_version_number:
  assumes "find_version s k = Some w"
  shows "v_version_number w < next_version_number s"
proof -
  have "v_version_number w \<in> (v_version_number \<circ> snd) ` set (s_versions s)"
    using assms by (force simp: find_version_def dest: map_of_SomeD)
  then obtain m ns where ns: "map (v_version_number \<circ> snd) (s_versions s) = m # ns" "v_version_number w \<in> set (m # ns)"
    by (metis list.set_cases list.set_map)
  then have "next_version_number s = foldl max m ns + 1" by (simp add: next_version_number_def)
  with le_foldl_max [OF ns(2)] show ?thesis by simp
qed

text \<open>A rollback publishes a copy: the scenario's active version becomes a new published version with the
  target's content, approval and a higher number than every existing version. The history of the scenario
  survives exactly when no existing version already bears the id \<open>scv_<next number>\<close>, which the edit
  operation lets a caller choose; otherwise that version, immutable or not, is overwritten.\<close>

theorem rollback_publishes_copy:
  assumes "rollback now p i j repo = Inr (repo', s', v')" and "repo_ok repo"
    and "repo_get (id_tenant_id p) i repo = Some s" and "find_version s j = Some tv"
  shows "repo_get (id_tenant_id p) i repo' = Some s' \<and> active_version s' = Some v'
    \<and> v_status v' = ''published'' \<and> v_steps v' = v_steps tv \<and> v_approved_by v' = v_approved_by tv
    \<and> v_rollback_target_version_id v' = Some j
    \<and> (\<forall>k w. find_version s k = Some w \<longrightarrow> v_version_number w < v_version_number v')
    \<and> ((\<forall>k w. find_version s k = Some w \<longrightarrow> find_version s' k = Some w) \<longleftrightarrow>
         find_version s (''scv_'' @ int_str (next_version_number s)) = None)"
proof -
  from rollback_cases [OF assms(1)] obtain s1 tv1 where r: "get_scenario p i repo = Inr s1" "find_version s1 j = Some tv1"
    "v' = rolled_back now p s1 i tv1"
    "s' = s1\<lparr>s_versions := dset (v_scenario_version_id v') v' (s_versions s1), s_active_version_id := Some (v_scenario_version_id v'),
       s_status := ''published'', s_updated_at := now\<rparr>" "repo' = repo_save s' repo" by metis
  have eq: "s1 = s" "tv1 = tv" using r(1,2) assms(3,4) by (auto simp: get_scenario_def)
  note keys = get_scenario_keys [OF assms(2) r(1)]
  have get: "repo_get (id_tenant_id p) i repo' = Some s'" using keys by (simp add: r(4,5) repo_get_save)
  let ?id = "''scv_'' @ int_str (next_version_number s)"
  have id: "v_scenario_version_id v' = ?id" by (simp add: r(3) rolled_back_fields eq)
  have act: "active_version s' = Some v'" by (simp add: active_version_def r(4) id dget_dset)
  have tv: "v_scenario_version_id tv = j"
    using get_scenario_ok [OF assms(2) r(1)] assms(4) eq by (auto simp: scenario_ok_def version_ok_def find_version_def)
  have fields: "v_status v' = ''published''" "v_steps v' = v_steps tv" "v_approved_by v' = v_approved_by tv"
    "v_rollback_target_version_id v' = Some j"
    using tv by (simp_all add: r(3) eq rolled_back_def)
  have num: "v_version_number w < v_version_number v'" if w: "find_version s k = Some w" for k w
    using less_next_version_number [OF w] by (simp add: r(3) rolled_back_fields eq)
  have look: "find_version s' k = (if k = ?id then Some v' else find_version s k)" for k
    by (simp add: r(4) eq(1) find_version_def dget_dset id)
  have hist: "(\<forall>k w. find_version s k = Some w \<longrightarrow> find_version s' k = Some w) \<longleftrightarrow> find_version s ?id = None"
  proof
    assume all: "\<forall>k w. find_version s k = Some w \<longrightarrow> find_version s' k = Some w"
    show "find_version s ?id = None"
    proof (rule ccontr)
      assume "find_version s ?id \<noteq> None"
      then obtain w where w: "find_version s ?id = Some w" by blast
      with all have "find_version s' ?id = Some w" by blast
      with look [of ?id] have "w = v'" by (simp only: if_True refl option.inject)
      with num [OF w] show False by simp
    qed
  next
    assume "find_version s ?id = None"
    then show "\<forall>k w. find_version s k = Some w \<longrightarrow> find_version s' k = Some w" by (auto simp: look)
  qed
  show ?thesis using get act fields num hist by blast
qed

theorem rollback_publishes_copy_witness:
  "\<exists>repo' s' v'. rollback ''t5'' sample_admin ''faq-basic'' ''scv_1'' sample_repo = Inr (repo', s', v')
     \<and> active_version s' = Some v' \<and> v_version_number (sample_version ''approved'') < v_version_number v'"
proof -
  have g: "repo_get (id_tenant_id sample_admin) ''faq-basic'' sample_repo = Some sample_scenario"
    "find_version sample_scenario ''scv_1'' = Some (sample_version ''approved'')"
    by (simp_all add: repo_get_def sample_repo_def sample_admin_def find_version_def sample_scenario_def)
  have ok: "repo_ok sample_repo"
    by (auto simp: repo_ok_def sample_repo_def sample_scenario_def scenario_ok_def version_ok_def sample_version_def
        blank_version_def split: if_splits)
  have "\<exists>repo' s' v'. rollback ''t5'' sample_admin ''faq-basic'' ''scv_1'' sample_repo = Inr (repo', s', v')"
    using g by (simp add: rollback_def get_scenario_def sample_version_def opt_truthy_def Let_def)
  then obtain repo' s' v' where r: "rollback ''t5'' sample_admin ''faq-basic'' ''scv_1'' sample_repo = Inr (repo', s', v')"
    by blast
  from rollback_publishes_copy [OF r ok g] g(2) r show ?thesis by blast
qed

end
