(* ===== verification/PhoneHandoff.thy ===== *)
theory PhoneHandoff
  imports PhoneDomain
begin

text \<open>
  Handoff triggers, packages and their dispatch (\<open>phone/handoff.py\<close>). The handoff provider is an argument:
  \<open>None\<close> when the service has none, and a function returning \<open>None\<close> where the provider raises. Terms are
  matched on UTF-8 bytes, which is substring search on the characters.
\<close>

section \<open>Triggers\<close>

definition human_request_terms :: "string list" where
  "human_request_terms =
     [utf8 [0xE4, 0xBA, 0xBA, 0xE3, 0x81, 0xAB, 0xE3, 0x81, 0xA4, 0xE3, 0x81, 0xAA, 0xE3, 0x81, 0x84],
      utf8 [0xE4, 0xBA, 0xBA, 0xE3, 0x81, 0xAB, 0xE7, 0xB9, 0x8B, 0xE3, 0x81, 0x84],
      utf8 [0xE4, 0xBA, 0xBA, 0xE9, 0x96, 0x93],
      utf8 [0xE6, 0x8B, 0x85, 0xE5, 0xBD, 0x93, 0xE8, 0x80, 0x85],
      utf8 [0xE3, 0x82, 0xAA, 0xE3, 0x83, 0x9A, 0xE3, 0x83, 0xAC, 0xE3, 0x83, 0xBC, 0xE3, 0x82, 0xBF, 0xE3, 0x83, 0xBC],
      utf8 [0xE3, 0x82, 0xAA, 0xE3, 0x83, 0x9A, 0xE3, 0x83, 0xAC, 0xE3, 0x83, 0xBC, 0xE3, 0x82, 0xBF],
      utf8 [0xE4, 0xBF, 0x82, 0xE3, 0x81, 0xAE, 0xE4, 0xBA, 0xBA],
      ''human'',
      ''operator'',
      ''agent'']"

definition high_risk_terms :: "string list" where
  "high_risk_terms =
     [utf8 [0xE8, 0xBF, 0x94, 0xE9, 0x87, 0x91, 0xE3, 0x82, 0x92, 0xE7, 0xA2, 0xBA, 0xE7, 0xB4, 0x84],
      utf8 [0xE8, 0xBF, 0x94, 0xE9, 0x87, 0x91, 0xE4, 0xBF, 0x9D, 0xE8, 0xA8, 0xBC],
      utf8 [0xE7, 0xA2, 0xBA, 0xE7, 0xB4, 0x84],
      utf8 [0xE8, 0xA3, 0x9C, 0xE5, 0x84, 0x9F],
      utf8 [0xE8, 0xB3, 0xA0, 0xE5, 0x84, 0x9F],
      utf8 [0xE6, 0x90, 0x8D, 0xE5, 0xAE, 0xB3, 0xE8, 0xB3, 0xA0, 0xE5, 0x84, 0x9F],
      utf8 [0xE8, 0xA8, 0xB4, 0xE8, 0xA8, 0x9F],
      utf8 [0xE6, 0xB3, 0x95, 0xE7, 0x9A, 0x84],
      utf8 [0xE5, 0xBC, 0x81, 0xE8, 0xAD, 0xB7, 0xE5, 0xA3, 0xAB],
      utf8 [0xE5, 0x8C, 0xBB, 0xE7, 0x99, 0x82],
      utf8 [0xE8, 0xA8, 0xBA, 0xE6, 0x96, 0xAD],
      utf8 [0xE6, 0x8A, 0x95, 0xE8, 0xB3, 0x87, 0xE5, 0x8A, 0xA9, 0xE8, 0xA8, 0x80],
      utf8 [0xE5, 0xA5, 0x91, 0xE7, 0xB4, 0x84, 0xE3, 0x82, 0x92, 0xE4, 0xBF, 0x9D, 0xE8, 0xA8, 0xBC],
      utf8 [0xE3, 0x82, 0xBB, 0xE3, 0x82, 0xAD, 0xE3, 0x83, 0xA5, 0xE3, 0x83, 0xAA, 0xE3, 0x83, 0x86, 0xE3, 0x82, 0xA3, 0xE4, 0xBA, 0x8B, 0xE6, 0x95, 0x85],
      utf8 [0xE6, 0x83, 0x85, 0xE5, 0xA0, 0xB1, 0xE6, 0xBC, 0x8F, 0xE3, 0x81, 0x88, 0xE3, 0x81, 0x84],
      utf8 [0xE6, 0x83, 0x85, 0xE5, 0xA0, 0xB1, 0xE6, 0xBC, 0x8F, 0xE6, 0xB4, 0xA9],
      ''legal'',
      ''lawsuit'',
      ''medical'']"

definition negative_sentiment_terms :: "string list" where
  "negative_sentiment_terms =
     [utf8 [0xE3, 0x81, 0xB5, 0xE3, 0x81, 0x96, 0xE3, 0x81, 0x91, 0xE3, 0x82, 0x8B, 0xE3, 0x81, 0xAA],
      utf8 [0xE3, 0x81, 0x84, 0xE3, 0x81, 0x84, 0xE5, 0x8A, 0xA0, 0xE6, 0xB8, 0x9B, 0xE3, 0x81, 0xAB, 0xE3, 0x81, 0x97, 0xE3, 0x81, 0xA6],
      utf8 [0xE3, 0x81, 0x84, 0xE3, 0x81, 0x84, 0xE5, 0x8A, 0xA0, 0xE6, 0xB8, 0x9B, 0xE3, 0x81, 0xAB, 0xE3, 0x81, 0x97, 0xE3, 0x82, 0x8D],
      utf8 [0xE8, 0xA8, 0xB1, 0xE3, 0x81, 0x9B, 0xE3, 0x81, 0xAA, 0xE3, 0x81, 0x84],
      utf8 [0xE6, 0x9C, 0x80, 0xE6, 0x82, 0xAA],
      utf8 [0xE6, 0x80, 0x92],
      utf8 [0xE8, 0xA9, 0xB1, 0xE3, 0x81, 0xAB, 0xE3, 0x81, 0xAA, 0xE3, 0x82, 0x89, 0xE3, 0x81, 0xAA, 0xE3, 0x81, 0x84],
      utf8 [0xE8, 0xB2, 0xAC, 0xE4, 0xBB, 0xBB, 0xE8, 0x80, 0x85, 0xE3, 0x82, 0x92, 0xE5, 0x87, 0xBA, 0xE3, 0x81, 0x9B],
      utf8 [0xE3, 0x82, 0xAF, 0xE3, 0x83, 0xAC, 0xE3, 0x83, 0xBC, 0xE3, 0x83, 0xA0],
      utf8 [0xE8, 0x8B, 0xA6, 0xE6, 0x83, 0x85]]"

definition reason_priority :: "(string, string) dict" where
  "reason_priority = [(''high_risk_intent'', ''high''), (''negative_sentiment'', ''high''), (''provider_failure'', ''high'')]"

definition intent_queues :: "(string, string) dict" where
  "intent_queues = [(''refund_cancellation'', ''billing-support''), (''pricing_plan'', ''billing-support''),
     (''complaint'', ''escalation''), (''reservation_order_status'', ''order-support'')]"

definition detect_human_request :: "string \<Rightarrow> bool" where
  "detect_human_request text = list_ex (\<lambda>t. str_contains t (py_lower text)) human_request_terms"

definition detect_high_risk :: "string \<Rightarrow> bool" where
  "detect_high_risk text = list_ex (\<lambda>t. str_contains t (py_lower text)) high_risk_terms"

definition detect_sentiment :: "string \<Rightarrow> string" where
  "detect_sentiment text =
     (if list_ex (\<lambda>t. str_contains t (py_lower text)) negative_sentiment_terms then ''angry'' else ''neutral'')"

record handoff_rules =
  hr_low_asr_confidence :: rat
  hr_max_low_confidence_retries :: int
  hr_max_clarifications :: int

definition default_rules :: handoff_rules where
  "default_rules = \<lparr>hr_low_asr_confidence = 1 / 2, hr_max_low_confidence_retries = 2, hr_max_clarifications = 3\<rparr>"

definition enabled :: "string \<Rightarrow> string set \<Rightarrow> bool" where
  "enabled reason scenario_reasons = (if scenario_reasons = {} then True else reason \<in> scenario_reasons)"

definition pre_rag_reason :: "handoff_rules \<Rightarrow> call_session \<Rightarrow> string \<Rightarrow> rat option \<Rightarrow> string set \<Rightarrow> string option" where
  "pre_rag_reason rules call text asr_confidence scenario_reasons =
     (if detect_human_request text then Some ''customer_requested_human''
      else if detect_high_risk text \<and> enabled ''high_risk_intent'' scenario_reasons then Some ''high_risk_intent''
      else if detect_sentiment text = ''angry'' \<and> enabled ''negative_sentiment'' scenario_reasons then
        Some ''negative_sentiment''
      else if (case asr_confidence of None \<Rightarrow> False | Some c \<Rightarrow> c < hr_low_asr_confidence rules) \<and>
              hr_max_low_confidence_retries rules \<le> k_low_confidence_count call \<and>
              enabled ''low_asr_confidence'' scenario_reasons then Some ''low_asr_confidence''
      else if hr_max_clarifications rules \<le> k_clarification_count call \<and>
              enabled ''repeated_misunderstanding'' scenario_reasons then Some ''repeated_misunderstanding''
      else None)"

section \<open>Packages\<close>

definition priority_for :: "string \<Rightarrow> string" where
  "priority_for reason = (case dget reason_priority reason of None \<Rightarrow> ''normal'' | Some p \<Rightarrow> p)"

definition destination_for :: "string \<Rightarrow> string option \<Rightarrow> string \<times> string" where
  "destination_for reason intent =
     (''queue'',
      case intent of
        None \<Rightarrow> ''general-support''
      | Some i \<Rightarrow> (case dget intent_queues i of None \<Rightarrow> ''general-support'' | Some q \<Rightarrow> q))"

record dispatch_result =
  di_status :: string
  di_failure_reason :: "string option"

type_synonym handoff_provider = "handoff_package \<Rightarrow> dispatch_result option"

definition dispatch :: "handoff_provider option \<Rightarrow> handoff_package \<Rightarrow> dispatch_result" where
  "dispatch provider package =
     (case provider of
        None \<Rightarrow> \<lparr>di_status = ''queued'', di_failure_reason = None\<rparr>
      | Some send \<Rightarrow>
          (case send package of
             None \<Rightarrow> \<lparr>di_status = ''failed'', di_failure_reason = Some ''handoff_provider_error''\<rparr>
           | Some r \<Rightarrow> r))"

definition speaker_labels :: "(string, string) dict" where
  "speaker_labels = [(''caller'', utf8 [0xE9, 0xA1, 0xA7, 0xE5, 0xAE, 0xA2]), (''ai'', ''AI''), (''system'', utf8 [0xE3, 0x82, 0xB7, 0xE3, 0x82, 0xB9, 0xE3, 0x83, 0x86, 0xE3, 0x83, 0xA0]), (''operator'', utf8 [0xE6, 0x8B, 0x85, 0xE5, 0xBD, 0x93])]"

definition first_text :: "string option \<Rightarrow> string option \<Rightarrow> string" where
  "first_text a b =
     (case a of
        Some (c # cs) \<Rightarrow> c # cs
      | _ \<Rightarrow> (case b of Some s \<Rightarrow> s | None \<Rightarrow> []))"

definition transcript_line :: "conversation_turn \<Rightarrow> string list" where
  "transcript_line t =
     (let speaker = (case dget speaker_labels (t_speaker t) of None \<Rightarrow> t_speaker t | Some l \<Rightarrow> l);
          text = first_text (t_redacted_text t) (t_ai_response_text t)
      in if text \<noteq> [] then [speaker @ '': '' @ text] else [])"

definition transcript_excerpt :: "call_session \<Rightarrow> string" where
  "transcript_excerpt call =
     (let turns = drop (length (k_turns call) - 12) (k_turns call)
      in str_join [CHR 0x0A] (concat (map transcript_line turns)))"

definition default_next_action :: "string \<Rightarrow> string" where
  "default_next_action reason =
     (if reason = ''insufficient_evidence'' then utf8 [0xE6, 0x89, 0xBF, 0xE8, 0xAA, 0x8D, 0xE6, 0xB8, 0x88, 0xE3, 0x81, 0xBF, 0xE3, 0x83, 0x8A, 0xE3, 0x83, 0xAC, 0xE3, 0x83, 0x83, 0xE3, 0x82, 0xB8, 0xE3, 0x81, 0xAE, 0xE4, 0xB8, 0x8D, 0xE8, 0xB6, 0xB3, 0xE7, 0xAE, 0x87, 0xE6, 0x89, 0x80, 0xE3, 0x82, 0x92, 0xE7, 0xA2, 0xBA, 0xE8, 0xAA, 0x8D, 0xE3, 0x81, 0x97, 0xE3, 0x80, 0x81, 0xE5, 0xBF, 0x85, 0xE8, 0xA6, 0x81, 0xE3, 0x81, 0xAA, 0xE3, 0x82, 0x89, 0xE3, 0x83, 0x8A, 0xE3, 0x83, 0xAC, 0xE3, 0x83, 0x83, 0xE3, 0x82, 0xB8, 0xE6, 0x94, 0xB9, 0xE5, 0x96, 0x84, 0xE3, 0x81, 0xAB, 0xE5, 0x9B, 0x9E, 0xE3, 0x81, 0x97, 0xE3, 0x81, 0xA6, 0xE3, 0x81, 0x8F, 0xE3, 0x81, 0xA0, 0xE3, 0x81, 0x95, 0xE3, 0x81, 0x84, 0xE3, 0x80, 0x82]
     else if reason = ''customer_requested_human'' then utf8 [0xE4, 0xBC, 0x9A, 0xE8, 0xA9, 0xB1, 0xE8, 0xA6, 0x81, 0xE7, 0xB4, 0x84, 0xE3, 0x81, 0xA8, 0xE7, 0xA2, 0xBA, 0xE8, 0xAA, 0x8D, 0xE6, 0xB8, 0x88, 0xE3, 0x81, 0xBF, 0xE9, 0xA0, 0x85, 0xE7, 0x9B, 0xAE, 0xE3, 0x82, 0x92, 0xE7, 0xA2, 0xBA, 0xE8, 0xAA, 0x8D, 0xE3, 0x81, 0x97, 0xE3, 0x81, 0xA6, 0xE3, 0x81, 0x8B, 0xE3, 0x82, 0x89, 0xE5, 0xBF, 0x9C, 0xE5, 0xAF, 0xBE, 0xE3, 0x82, 0x92, 0xE5, 0xBC, 0x95, 0xE3, 0x81, 0x8D, 0xE7, 0xB6, 0x99, 0xE3, 0x81, 0x84, 0xE3, 0x81, 0xA7, 0xE3, 0x81, 0x8F, 0xE3, 0x81, 0xA0, 0xE3, 0x81, 0x95, 0xE3, 0x81, 0x84, 0xE3, 0x80, 0x82]
     else if reason = ''high_risk_intent'' then utf8 [0xE9, 0xAB, 0x98, 0xE3, 0x83, 0xAA, 0xE3, 0x82, 0xB9, 0xE3, 0x82, 0xAF, 0xE5, 0x95, 0x8F, 0xE3, 0x81, 0x84, 0xE5, 0x90, 0x88, 0xE3, 0x82, 0x8F, 0xE3, 0x81, 0x9B, 0xE3, 0x81, 0xA7, 0xE3, 0x81, 0x99, 0xE3, 0x80, 0x82, 0xE6, 0xA8, 0xA9, 0xE9, 0x99, 0x90, 0xE3, 0x81, 0xAE, 0xE3, 0x81, 0x82, 0xE3, 0x82, 0x8B, 0xE6, 0x8B, 0x85, 0xE5, 0xBD, 0x93, 0xE8, 0x80, 0x85, 0xE3, 0x81, 0xB8, 0xE3, 0x82, 0xA8, 0xE3, 0x82, 0xB9, 0xE3, 0x82, 0xAB, 0xE3, 0x83, 0xAC, 0xE3, 0x83, 0xBC, 0xE3, 0x82, 0xB7, 0xE3, 0x83, 0xA7, 0xE3, 0x83, 0xB3, 0xE3, 0x81, 0x97, 0xE3, 0x81, 0xA6, 0xE3, 0x81, 0x8F, 0xE3, 0x81, 0xA0, 0xE3, 0x81, 0x95, 0xE3, 0x81, 0x84, 0xE3, 0x80, 0x82]
     else if reason = ''negative_sentiment'' then utf8 [0xE6, 0x84, 0x9F, 0xE6, 0x83, 0x85, 0xE7, 0x8A, 0xB6, 0xE6, 0x85, 0x8B, 0xE3, 0x81, 0xAB, 0xE9, 0x85, 0x8D, 0xE6, 0x85, 0xAE, 0xE3, 0x81, 0x97, 0xE3, 0x81, 0x9F, 0xE5, 0x84, 0xAA, 0xE5, 0x85, 0x88, 0xE5, 0xBF, 0x9C, 0xE5, 0xAF, 0xBE, 0xE3, 0x82, 0x92, 0xE8, 0xA1, 0x8C, 0xE3, 0x81, 0xA3, 0xE3, 0x81, 0xA6, 0xE3, 0x81, 0x8F, 0xE3, 0x81, 0xA0, 0xE3, 0x81, 0x95, 0xE3, 0x81, 0x84, 0xE3, 0x80, 0x82]
     else if reason = ''provider_failure'' then utf8 [0xE3, 0x82, 0xB7, 0xE3, 0x82, 0xB9, 0xE3, 0x83, 0x86, 0xE3, 0x83, 0xA0, 0xE9, 0x9A, 0x9C, 0xE5, 0xAE, 0xB3, 0xE8, 0xBB, 0xA2, 0xE9, 0x80, 0x81, 0xE3, 0x81, 0xA7, 0xE3, 0x81, 0x99, 0xE3, 0x80, 0x82, 0xE6, 0x8A, 0x98, 0xE3, 0x82, 0x8A, 0xE8, 0xBF, 0x94, 0xE3, 0x81, 0x97, 0xE5, 0xAF, 0xBE, 0xE5, 0xBF, 0x9C, 0xE3, 0x82, 0x92, 0xE6, 0xA4, 0x9C, 0xE8, 0xA8, 0x8E, 0xE3, 0x81, 0x97, 0xE3, 0x81, 0xA6, 0xE3, 0x81, 0x8F, 0xE3, 0x81, 0xA0, 0xE3, 0x81, 0x95, 0xE3, 0x81, 0x84, 0xE3, 0x80, 0x82]
     else utf8 [0xE4, 0xBC, 0x9A, 0xE8, 0xA9, 0xB1, 0xE5, 0xB1, 0xA5, 0xE6, 0xAD, 0xB4, 0xE3, 0x81, 0xA8, 0xE8, 0xBB, 0xA2, 0xE9, 0x80, 0x81, 0xE7, 0x90, 0x86, 0xE7, 0x94, 0xB1, 0xE3, 0x82, 0x92, 0xE7, 0xA2, 0xBA, 0xE8, 0xAA, 0x8D, 0xE3, 0x81, 0x97, 0xE3, 0x81, 0xA6, 0xE3, 0x81, 0x8F, 0xE3, 0x81, 0xA0, 0xE3, 0x81, 0x95, 0xE3, 0x81, 0x84, 0xE3, 0x80, 0x82])"

definition drafted_package ::
  "string \<Rightarrow> string \<Rightarrow> string \<Rightarrow> string option \<Rightarrow> phone_citation_ref list \<Rightarrow> string option \<Rightarrow> call_session \<Rightarrow> handoff_package" where
  "drafted_package new_id now reason sentiment citations recommended call =
     \<lparr>h_tenant_id = k_tenant_id call, h_handoff_package_id = new_id, h_call_id = k_call_id call,
      h_reason = reason, h_destination_type = fst (destination_for reason (k_intent call)),
      h_destination_id = snd (destination_for reason (k_intent call)),
      h_status = ''created'', h_priority = priority_for reason,
      h_caller_phone_number_masked = k_caller_phone_number_masked call, h_customer_id = k_customer_id call,
      h_intent = k_intent call, h_summary = k_summary call,
      h_transcript_excerpt_redacted = transcript_excerpt call,
      h_confirmed_slots = k_collected_slots call, h_citations = citations, h_sentiment = sentiment,
      h_recommended_next_action = Some (first_text recommended (Some (default_next_action reason))),
      h_operator_id = None, h_accepted_at = None, h_failure_reason = None, h_created_at = now\<rparr>"

definition settled_status :: "string \<Rightarrow> string" where
  "settled_status status = (if status \<in> {''failed'', ''unavailable''} then ''callback_requested'' else status)"

definition create_package ::
  "handoff_provider option \<Rightarrow> string \<Rightarrow> string \<Rightarrow> string \<Rightarrow> string option \<Rightarrow> phone_citation_ref list \<Rightarrow> string option \<Rightarrow>
     call_session \<Rightarrow> call_session \<times> handoff_package" where
  "create_package provider new_id now reason sentiment citations recommended call =
     (let package = drafted_package new_id now reason sentiment citations recommended call;
          d = dispatch provider package;
          package = package\<lparr>h_status := settled_status (di_status d), h_failure_reason := di_failure_reason d\<rparr>
      in (call\<lparr>k_handoff_required := True, k_handoff_reason := Some reason,
               k_handoff_destination := Some (h_destination_id package),
               k_handoff_package_id := Some (h_handoff_package_id package)\<rparr>,
          package))"

definition accept :: "string \<Rightarrow> string \<Rightarrow> string option \<Rightarrow> handoff_package \<Rightarrow> handoff_package" where
  "accept now operator_id queue_id package =
     (let package = package\<lparr>h_status := ''accepted'', h_operator_id := Some operator_id, h_accepted_at := Some now\<rparr>
      in case queue_id of
           Some (c # cs) \<Rightarrow> package\<lparr>h_destination_id := c # cs\<rparr>
         | _ \<Rightarrow> package)"

section \<open>Properties\<close>

text \<open>The triggers with their conditions, most urgent first.\<close>

definition triggers :: "handoff_rules \<Rightarrow> call_session \<Rightarrow> string \<Rightarrow> rat option \<Rightarrow> string set \<Rightarrow> (string \<times> bool) list" where
  "triggers rules call text conf S =
     [(''customer_requested_human'', detect_human_request text),
      (''high_risk_intent'', detect_high_risk text \<and> (S = {} \<or> ''high_risk_intent'' \<in> S)),
      (''negative_sentiment'', detect_sentiment text = ''angry'' \<and> (S = {} \<or> ''negative_sentiment'' \<in> S)),
      (''low_asr_confidence'', (\<exists>c. conf = Some c \<and> c < hr_low_asr_confidence rules) \<and>
         hr_max_low_confidence_retries rules \<le> k_low_confidence_count call \<and> (S = {} \<or> ''low_asr_confidence'' \<in> S)),
      (''repeated_misunderstanding'', hr_max_clarifications rules \<le> k_clarification_count call \<and>
         (S = {} \<or> ''repeated_misunderstanding'' \<in> S))]"

lemma find_trigger: "map_option fst (find snd ((r, b) # ts)) = (if b then Some r else map_option fst (find snd ts))"
  by simp

lemma trigger_reasons: "fst ` set (triggers rules call text conf S) \<subseteq> set handoff_reasons"
  by (simp add: triggers_def handoff_reasons_def)

text \<open>Transfer decisions are hard rules: the reason returned before any answer is the first trigger of the
  priority list that fires, so a request for a human always transfers, whatever the scenario enables, the
  recognition confidence and the counters say, and nothing is returned only when no trigger fires; every
  reason returned is one of the reasons the domain names.\<close>

theorem handoff_is_first_trigger:
  "pre_rag_reason rules call text conf S = map_option fst (find snd (triggers rules call text conf S))
    \<and> (detect_human_request text \<longrightarrow> pre_rag_reason rules call text conf S = Some ''customer_requested_human'')
    \<and> set_option (pre_rag_reason rules call text conf S) \<subseteq> set handoff_reasons"
proof -
  have conf: "(case conf of None \<Rightarrow> False | Some c \<Rightarrow> c < hr_low_asr_confidence rules) \<longleftrightarrow>
      (\<exists>c. conf = Some c \<and> c < hr_low_asr_confidence rules)"
    by (cases conf) auto
  have en: "enabled r S \<longleftrightarrow> S = {} \<or> r \<in> S" for r by (simp add: enabled_def)
  have "pre_rag_reason rules call text conf S = map_option fst (find snd (triggers rules call text conf S))"
    unfolding pre_rag_reason_def triggers_def conf en
    by (simp only: find_trigger find.simps(1) option.map(1))
  moreover have "set_option (pre_rag_reason rules call text conf S) \<subseteq> set handoff_reasons"
    unfolding calculation using trigger_reasons [where call = call and rules = rules and conf = conf and S = S]
    by (auto dest!: find_SomeD)
  moreover have "detect_human_request text \<longrightarrow> pre_rag_reason rules call text conf S = Some ''customer_requested_human''"
    by (simp add: pre_rag_reason_def)
  ultimately show ?thesis by blast
qed

theorem handoff_is_first_trigger_witness:
  "pre_rag_reason default_rules (new_call ''t'' ''c'' ''x'' ''now'') ''operator'' None {''repeated_misunderstanding''}
     = Some ''customer_requested_human''"
proof -
  have "detect_human_request ''operator''"
    by (simp add: detect_human_request_def human_request_terms_def py_lower_def lower_char_def utf8_def)
  with handoff_is_first_trigger show ?thesis by blast
qed

text \<open>No handoff is lost: whatever the provider does (none configured, an exception, a failed or unavailable
  destination, any other status), a package exists that carries the call, its reason, summary, slots and
  citations to the destination recorded on the call, the call is marked as handed off with that reason, and
  a transfer that did not reach a live destination becomes a callback request.\<close>

theorem handoff_never_lost:
  assumes "create_package provider pid now reason sentiment citations recommended call = (call', package)"
  shows "h_call_id package = k_call_id call \<and> h_tenant_id package = k_tenant_id call
    \<and> h_reason package = reason \<and> h_confirmed_slots package = k_collected_slots call
    \<and> h_citations package = citations \<and> h_transcript_excerpt_redacted package = transcript_excerpt call
    \<and> k_handoff_required call' \<and> k_handoff_reason call' = Some reason
    \<and> k_handoff_destination call' = Some (h_destination_id package)
    \<and> k_handoff_package_id call' = Some (h_handoff_package_id package)
    \<and> k_state call' = k_state call
    \<and> h_status package \<notin> {''failed'', ''unavailable''}
    \<and> (provider = None \<longrightarrow> h_status package = ''queued'')
    \<and> (\<forall>send. provider = Some send \<and> (\<forall>p. send p = None) \<longrightarrow>
         h_status package = ''callback_requested'' \<and> h_failure_reason package = Some ''handoff_provider_error'')"
proof -
  let ?p = "drafted_package pid now reason sentiment citations recommended call"
  have p: "package = ?p\<lparr>h_status := settled_status (di_status (dispatch provider ?p)),
      h_failure_reason := di_failure_reason (dispatch provider ?p)\<rparr>"
    and c: "call' = call\<lparr>k_handoff_required := True, k_handoff_reason := Some reason,
      k_handoff_destination := Some (h_destination_id ?p), k_handoff_package_id := Some (h_handoff_package_id ?p)\<rparr>"
    using assms by (auto simp: create_package_def Let_def)
  have "settled_status st \<notin> {''failed'', ''unavailable''}" for st by (simp add: settled_status_def)
  moreover have "settled_status (di_status (dispatch None q)) = ''queued''" for q
    by (simp add: dispatch_def settled_status_def)
  moreover have "settled_status (di_status (dispatch (Some send) q)) = ''callback_requested''"
    "di_failure_reason (dispatch (Some send) q) = Some ''handoff_provider_error''" if "\<forall>p. send p = None" for send q
    using that by (simp_all add: dispatch_def settled_status_def)
  ultimately show ?thesis unfolding p c by (simp add: drafted_package_def)
qed

theorem handoff_never_lost_witness:
  "h_status (snd (create_package (Some (\<lambda>_. None)) ''h1'' ''now'' ''provider_failure'' None [] None
     (new_call ''t'' ''c'' ''x'' ''now''))) = ''callback_requested''"
  using handoff_never_lost [OF prod.collapse [symmetric], of "Some (\<lambda>_. None)" "''h1''" "''now''" "''provider_failure''" None "[]" None
      "new_call ''t'' ''c'' ''x'' ''now''"] by simp

end
