(* ===== verification/AuditEmit.thy ===== *)
theory AuditEmit
  imports AuditLog PyStr
begin

text \<open>
  The audit events of the answer path, of answer feedback and of phone reviews
  (\<open>manufacturing/api/audit.py\<close>), recorded through the audit log writer, and the readers that the
  dashboards derive their counters from. The clock is an argument.
\<close>

section \<open>Labels\<close>

definition low_rating_threshold :: int where
  "low_rating_threshold = 2"

definition answer_action :: string where
  "answer_action = ''answer.safety_evaluated''"

definition citation_action :: string where
  "citation_action = ''citation.access''"

definition feedback_action :: string where
  "feedback_action = ''feedback.low_rating''"

definition feedback_low_decision :: string where
  "feedback_low_decision = ''low_rating''"

definition phone_qa_action :: string where
  "phone_qa_action = ''phone.quality_evaluated''"

section \<open>Readers\<close>

definition answer_entries :: "audit_log_entry list \<Rightarrow> audit_log_entry list" where
  "answer_entries es = filter (\<lambda>e. al_action e = answer_action) es"

definition citation_entries :: "audit_log_entry list \<Rightarrow> audit_log_entry list" where
  "citation_entries es = filter (\<lambda>e. al_action e = citation_action) es"

definition feedback_entries :: "audit_log_entry list \<Rightarrow> audit_log_entry list" where
  "feedback_entries es = filter (\<lambda>e. al_action e = feedback_action) es"

definition low_rating_feedback_entries :: "audit_log_entry list \<Rightarrow> audit_log_entry list" where
  "low_rating_feedback_entries es =
     filter (\<lambda>e. al_action e = feedback_action \<and> al_decision e = Some feedback_low_decision) es"

definition phone_qa_entries :: "audit_log_entry list \<Rightarrow> audit_log_entry list" where
  "phone_qa_entries es =
     filter (\<lambda>e. al_action e = phone_qa_action \<and>
        al_decision e \<in> {Some ''hallucination'', Some ''knowledge_gap''}) es"

section \<open>Recorders\<close>

definition or_none :: "string \<Rightarrow> string option" where
  "or_none s = (if s \<noteq> [] then Some s else None)"

fun parse_block_reason :: "string \<Rightarrow> safety_block_reason result" where
  "parse_block_reason s =
     (if s = ''approved_citation_missing'' then Inr APPROVED_CITATION_MISSING
      else if s = ''insufficient_evidence'' then Inr INSUFFICIENT_EVIDENCE
      else if s = ''other_block'' then Inr OTHER_BLOCK
      else Inl ValueError)"

definition answer_decision_entry ::
  "string \<Rightarrow> string \<Rightarrow> string \<Rightarrow> string \<Rightarrow> string \<Rightarrow> string \<Rightarrow> high_risk_classification \<Rightarrow> safety_decision \<Rightarrow>
     safety_block_reason option \<Rightarrow> string list \<Rightarrow> string list \<Rightarrow> string option \<Rightarrow> pydict \<Rightarrow> audit_log_entry" where
  "answer_decision_entry id_now now tenant_id actor_id correlation_id status cls dec reason
       candidate_document_ids citation_ids collection_id extra =
     (let e = audit_entry tenant_id (''answer:'' @ (if correlation_id \<noteq> [] then correlation_id else id_now)) now in
      e\<lparr>al_request_id := or_none correlation_id, al_actor_id := Some actor_id, al_action := answer_action,
        al_resource_type := Some ''answer'', al_resource_id := or_none correlation_id,
        al_collection_id := collection_id, al_decision := Some status,
        al_reason := (if hr_reason_codes cls \<noteq> [] then Some (str_join '','' (hr_reason_codes cls)) else None),
        al_high_risk_classification_result := Some (hr_is_high_risk cls),
        al_safety_block_reason := reason, al_approval_status_at_use := sd_approval_status_at_use dec,
        al_citation_ids := citation_ids, al_document_ids_used := candidate_document_ids,
        al_client_metadata := py_update
          [(''obsolete_warning'', PBool (sd_obsolete_warning dec)),
           (''requires_onsite_confirmation'', PBool (sd_requires_onsite_confirmation dec)),
           (''classification_source'',
              case hr_classification_source cls of None \<Rightarrow> PNone | Some s \<Rightarrow> PStr (classification_source_value s))]
          extra\<rparr>)"

definition record_answer_decision ::
  "(string \<Rightarrow> string) \<Rightarrow> (string \<Rightarrow> string) \<Rightarrow> string \<Rightarrow> string \<Rightarrow>
     string \<Rightarrow> string \<Rightarrow> string \<Rightarrow> string \<Rightarrow> high_risk_classification \<Rightarrow> safety_decision \<Rightarrow> string option \<Rightarrow>
     string list \<Rightarrow> string list \<Rightarrow> identity_claims option \<Rightarrow> string option \<Rightarrow> string option \<Rightarrow> pydict \<Rightarrow>
     audit_store \<Rightarrow> audit_store result" where
  "record_answer_decision sha red id_now now tenant_id actor_id correlation_id status cls dec block_reason
       candidate_document_ids citation_ids claims factory_id collection_id extra st =
     rbind (case block_reason of None \<Rightarrow> Inr None
            | Some s \<Rightarrow> rbind (parse_block_reason s) (\<lambda>r. Inr (Some r))) (\<lambda>reason.
       let e = answer_decision_entry id_now now tenant_id actor_id correlation_id status cls dec reason
                 candidate_document_ids citation_ids collection_id extra;
           e = (case claims of None \<Rightarrow> e | Some p \<Rightarrow> stamp_org_context e p factory_id)
       in audit_record sha red e st)"

definition feedback_entry ::
  "string \<Rightarrow> string \<Rightarrow> string \<Rightarrow> int \<Rightarrow> string \<Rightarrow> string list \<Rightarrow> string option \<Rightarrow> audit_log_entry" where
  "feedback_entry ts tenant_id actor_id rating correlation_id document_ids collection_id =
     (audit_entry tenant_id (''feedback:'' @ (if correlation_id \<noteq> [] then correlation_id else ts) @ '':'' @ ts) ts)
       \<lparr>al_request_id := or_none correlation_id, al_actor_id := Some actor_id, al_action := feedback_action,
        al_resource_type := Some ''answer'', al_resource_id := or_none correlation_id,
        al_collection_id := collection_id,
        al_decision := Some (if rating \<le> low_rating_threshold then feedback_low_decision else ''rating''),
        al_reason := Some ''feedback'', al_document_ids_used := document_ids,
        al_client_metadata := [(''rating'', PInt rating), (''low_rating'', PBool (rating \<le> low_rating_threshold))]\<rparr>"

definition record_answer_feedback ::
  "(string \<Rightarrow> string) \<Rightarrow> (string \<Rightarrow> string) \<Rightarrow> string \<Rightarrow> string \<Rightarrow> string \<Rightarrow> int \<Rightarrow> string \<Rightarrow> string list \<Rightarrow>
     string option \<Rightarrow> audit_store \<Rightarrow> (audit_store \<times> bool) result" where
  "record_answer_feedback sha red ts tenant_id actor_id rating correlation_id document_ids collection_id st =
     rbind (audit_record sha red (feedback_entry ts tenant_id actor_id rating correlation_id document_ids collection_id) st)
       (\<lambda>st'. Inr (st', rating \<le> low_rating_threshold))"

definition phone_qa_entry ::
  "string \<Rightarrow> string \<Rightarrow> string \<Rightarrow> string \<Rightarrow> string \<Rightarrow> bool \<Rightarrow> bool \<Rightarrow> bool \<Rightarrow> bool \<Rightarrow> string option \<Rightarrow> audit_log_entry" where
  "phone_qa_entry ts tenant_id actor_id call_id evaluation_id hallucination gap compliance privacy improvement_item_id =
     (audit_entry tenant_id (''phone_qa:'' @ evaluation_id @ '':'' @ ts) ts)
       \<lparr>al_actor_id := Some actor_id, al_action := phone_qa_action, al_resource_type := Some ''phone_call'',
        al_resource_id := Some call_id,
        al_decision := Some (if hallucination then ''hallucination'' else if gap then ''knowledge_gap'' else ''reviewed''),
        al_reason := Some ''phone_quality_evaluation'',
        al_client_metadata :=
          [(''evaluation_id'', PStr evaluation_id), (''hallucination_detected'', PBool hallucination),
           (''knowledge_gap'', PBool gap), (''compliance_issue'', PBool compliance), (''privacy_issue'', PBool privacy)] @
          (case improvement_item_id of
             None \<Rightarrow> [] | Some i \<Rightarrow> if i \<noteq> [] then [(''improvement_item_id'', PStr i)] else [])\<rparr>"

definition record_phone_quality_evaluation ::
  "(string \<Rightarrow> string) \<Rightarrow> (string \<Rightarrow> string) \<Rightarrow> string \<Rightarrow> string \<Rightarrow> string \<Rightarrow> string \<Rightarrow> string \<Rightarrow>
     bool \<Rightarrow> bool \<Rightarrow> bool \<Rightarrow> bool \<Rightarrow> string option \<Rightarrow> audit_store \<Rightarrow> audit_store result" where
  "record_phone_quality_evaluation sha red ts tenant_id actor_id call_id evaluation_id hallucination gap compliance
       privacy improvement_item_id st =
     audit_record sha red
       (phone_qa_entry ts tenant_id actor_id call_id evaluation_id hallucination gap compliance privacy improvement_item_id) st"

section \<open>Best-effort recording\<close>

text \<open>The services outside the answer path record through a \<open>try\<close> that swallows every exception; the store is
  optional there.\<close>

definition audit_quietly ::
  "(string \<Rightarrow> string) \<Rightarrow> (string \<Rightarrow> string) \<Rightarrow> audit_log_entry \<Rightarrow> audit_store option \<Rightarrow> audit_store option" where
  "audit_quietly sha red e st =
     (case st of
        None \<Rightarrow> None
      | Some a \<Rightarrow> Some (case audit_record sha red e a of Inl _ \<Rightarrow> a | Inr a' \<Rightarrow> a'))"

lemma audit_quietly_None [simp]: "audit_quietly sha red e None = None"
  by (simp add: audit_quietly_def)

lemma audit_quietly_chain:
  "stored_chain (the (audit_quietly sha red e (Some a))) u =
     (if u = al_tenant_id e \<and> u \<noteq> []
      then stored_chain a u @ [link_entry sha (stored_chain a u) (sanitize_audit_log_entry red e)]
      else stored_chain a u)"
  by (auto simp: audit_quietly_def audit_record_def Let_def dict_simps frame_simps stored_chain_def)

section \<open>What the readers see\<close>

text \<open>The redactor leaves the labels alone: they are fixed words without personal data.\<close>

definition labels_survive :: "(string \<Rightarrow> string) \<Rightarrow> bool" where
  "labels_survive red \<longleftrightarrow> (\<forall>l \<in> {answer_action, citation_action, feedback_action, feedback_low_decision, phone_qa_action,
     ''rating'', ''hallucination'', ''knowledge_gap'', ''reviewed''}. red l = l)"

lemma stored_after_record:
  assumes "audit_record sha red e st = Inr st'"
  shows "\<exists>e'. stored_chain st' u = (if u = al_tenant_id e then stored_chain st u @ [e'] else stored_chain st u) \<and>
     al_action e' = red (al_action e) \<and> al_decision e' = map_option red (al_decision e) \<and>
     al_safety_block_reason e' = al_safety_block_reason e \<and>
     al_high_risk_classification_result e' = al_high_risk_classification_result e"
  using assms
  by (intro exI [of _ "link_entry sha (stored_chain st (al_tenant_id e)) (sanitize_audit_log_entry red e)"])
    (auto simp: audit_record_Inr dict_simps link_entry_def Let_def sanitize_audit_log_entry_def)

section \<open>Properties\<close>

text \<open>The feedback funnel counts right: recording a rating adds one feedback entry to the tenant's log, adds one
  low-rating entry exactly when the rating is at or below the threshold (and reports that), and changes
  neither the answer, citation and phone readers nor any other tenant's log.\<close>

theorem feedback_counted_once:
  assumes "record_answer_feedback sha red ts t actor rating corr docs col st = Inr (st', low)"
    and "labels_survive red"
  shows "low = (rating \<le> low_rating_threshold)
    \<and> length (feedback_entries (stored_chain st' t)) = length (feedback_entries (stored_chain st t)) + 1
    \<and> length (low_rating_feedback_entries (stored_chain st' t)) =
        length (low_rating_feedback_entries (stored_chain st t)) + (if low then 1 else 0)
    \<and> answer_entries (stored_chain st' t) = answer_entries (stored_chain st t)
    \<and> citation_entries (stored_chain st' t) = citation_entries (stored_chain st t)
    \<and> phone_qa_entries (stored_chain st' t) = phone_qa_entries (stored_chain st t)
    \<and> (u \<noteq> t \<longrightarrow> stored_chain st' u = stored_chain st u)"
proof -
  let ?e = "feedback_entry ts t actor rating corr docs col"
  have rec: "audit_record sha red ?e st = Inr st'" and low: "low = (rating \<le> low_rating_threshold)"
    using assms(1) by (auto simp: record_answer_feedback_def rbind_Inr_iff)
  have t: "al_tenant_id ?e = t" "al_action ?e = feedback_action"
    "al_decision ?e = Some (if rating \<le> low_rating_threshold then feedback_low_decision else ''rating'')"
    by (simp_all add: feedback_entry_def audit_entry_def)
  from stored_after_record [OF rec, of t] obtain e' where e: "stored_chain st' t = stored_chain st t @ [e']"
    "al_action e' = feedback_action"
    "al_decision e' = Some (if rating \<le> low_rating_threshold then feedback_low_decision else ''rating'')"
    using assms(2) t by (auto simp: labels_survive_def)
  have other: "stored_chain st' u = stored_chain st u" if "u \<noteq> t"
    using stored_after_record [OF rec, of u] that t(1) by auto
  have labels: "feedback_action \<noteq> answer_action" "feedback_action \<noteq> citation_action" "feedback_action \<noteq> phone_qa_action"
    "''rating'' \<noteq> feedback_low_decision"
    by (simp_all add: feedback_action_def answer_action_def citation_action_def phone_qa_action_def feedback_low_decision_def)
  show ?thesis
    using e other labels
    by (simp add: low feedback_entries_def low_rating_feedback_entries_def answer_entries_def citation_entries_def
        phone_qa_entries_def)
qed

theorem feedback_counted_once_witness:
  "\<exists>st' low. record_answer_feedback (\<lambda>s. s) (\<lambda>s. s) ''ts'' ''t'' ''u'' 1 [] [] None [] = Inr (st', low) \<and> low \<and>
     length (low_rating_feedback_entries (stored_chain st' ''t'')) = 1"
proof -
  have "\<exists>st'. record_answer_feedback (\<lambda>s. s) (\<lambda>s. s) ''ts'' ''t'' ''u'' 1 [] [] None [] = Inr (st', True)"
    by (simp add: record_answer_feedback_def audit_record_def feedback_entry_def audit_entry_def Let_def
        low_rating_threshold_def rbind_Inr_iff)
  then obtain st' where a: "record_answer_feedback (\<lambda>s. s) (\<lambda>s. s) ''ts'' ''t'' ''u'' 1 [] [] None [] = Inr (st', True)" ..
  have "labels_survive (\<lambda>s. s)" by (simp add: labels_survive_def)
  from feedback_counted_once [OF a this, of "[]"] have "length (low_rating_feedback_entries (stored_chain st' ''t'')) =
      length (low_rating_feedback_entries (stored_chain [] ''t'')) + 1" by simp
  then have "length (low_rating_feedback_entries (stored_chain st' ''t'')) = 1"
    by (simp add: low_rating_feedback_entries_def stored_chain_def)
  with a show ?thesis by blast
qed

end
