(* ===== verification/PhoneQuality.thy ===== *)
theory PhoneQuality
  imports PhoneDomain AuditEmit
begin

text \<open>
  Supervisor reviews of calls (\<open>phone/quality.py\<close>) over the in-memory repository of
  \<open>persistence/phone_models.py\<close> and the audit log. The state is the repository with the optional audit
  store; an operation returns it with the HTTP answer or the exception. \<open>int()\<close> of a string is the
  argument \<open>parse_int\<close>; identifiers and the clock are arguments.
\<close>

section \<open>Repository\<close>

type_synonym quality_repo = "(string \<times> string, quality_evaluation) dict"

definition quality_save :: "quality_evaluation \<Rightarrow> quality_repo \<Rightarrow> quality_repo" where
  "quality_save e repo = dset (q_tenant_id e, q_evaluation_id e) e repo"

definition quality_list_for_call :: "string \<Rightarrow> string \<Rightarrow> quality_repo \<Rightarrow> quality_evaluation list" where
  "quality_list_for_call tenant_id call_id repo =
     map snd (filter (\<lambda>(k, e). fst k = tenant_id \<and> q_call_id e = call_id) repo)"

definition quality_list_all :: "string \<Rightarrow> quality_repo \<Rightarrow> quality_evaluation list" where
  "quality_list_all tenant_id repo = map snd (filter (\<lambda>(k, e). fst k = tenant_id) repo)"

section \<open>The service\<close>

definition qa_review_roles :: "string set" where
  "qa_review_roles = {''qa_reviewer'', ''ops_owner'', ''tenant_admin''}"

definition opt_int :: "int option \<Rightarrow> pyval" where
  "opt_int i = (case i of None \<Rightarrow> PNone | Some n \<Rightarrow> PInt n)"

definition evaluation_public :: "quality_evaluation \<Rightarrow> pydict" where
  "evaluation_public e =
     [(''evaluation_id'', PStr (q_evaluation_id e)), (''call_id'', PStr (q_call_id e)),
      (''reviewer_id'', PStr (q_reviewer_id e)), (''reviewed_at'', PStr (q_reviewed_at e)),
      (''answer_correctness'', opt_int (q_answer_correctness e)), (''tone_score'', opt_int (q_tone_score e)),
      (''handoff_appropriateness'', opt_int (q_handoff_appropriateness e)),
      (''compliance_issue'', PBool (q_compliance_issue e)),
      (''hallucination_detected'', PBool (q_hallucination_detected e)),
      (''privacy_issue'', PBool (q_privacy_issue e)), (''suggested_fix'', opt_str (q_suggested_fix e)),
      (''knowledge_gap_topics'', PList (map PStr (q_knowledge_gap_topics e))),
      (''review_status'', PStr (q_review_status e)), (''improvement_item_id'', opt_str (q_improvement_item_id e))]"

definition can_review :: "identity_claims \<Rightarrow> bool" where
  "can_review p \<longleftrightarrow> set (id_roles p) \<inter> qa_review_roles \<noteq> {}"

text \<open>A score: absent, a value from 1 to 5, or invalid (\<open>None\<close>).\<close>

definition score_of :: "(string \<Rightarrow> int option) \<Rightarrow> pyval \<Rightarrow> int option option" where
  "score_of parse_int value =
     (if value = PNone \<or> value = PStr [] then Some None
      else case py_int parse_int value of
        None \<Rightarrow> None
      | Some score \<Rightarrow> if \<not> (1 \<le> score \<and> score \<le> 5) then None else Some (Some score))"

definition score_fields :: "string list" where
  "score_fields = [''answer_correctness'', ''tone_score'', ''handoff_appropriateness'']"

fun scores_of :: "(string \<Rightarrow> int option) \<Rightarrow> pydict \<Rightarrow> string list \<Rightarrow> string + (string, int option) dict" where
  "scores_of parse_int body [] = Inr []"
| "scores_of parse_int body (f # fs) =
     (case score_of parse_int (py_get body f) of
        None \<Rightarrow> Inl f
      | Some s \<Rightarrow> (case scores_of parse_int body fs of Inl g \<Rightarrow> Inl g | Inr d \<Rightarrow> Inr ((f, s) # d)))"

definition the_score :: "(string, int option) dict \<Rightarrow> string \<Rightarrow> int option" where
  "the_score d f = (case dget d f of None \<Rightarrow> None | Some s \<Rightarrow> s)"

definition topics_of :: "pydict \<Rightarrow> string list result" where
  "topics_of body =
     rbind (py_iter (py_or (py_get body ''knowledge_gap_topics'') (PList [])))
       (\<lambda>vs. Inr (filter (\<lambda>t. t \<noteq> []) (map (\<lambda>v. py_strip (py_str v)) vs)))"

record quality_state =
  qs_repo :: quality_repo
  qs_audit :: "audit_store option"

type_synonym quality_answer = "(int \<times> pydict \<times> quality_evaluation option) result"

definition new_evaluation ::
  "string \<Rightarrow> string \<Rightarrow> string \<Rightarrow> identity_claims \<Rightarrow> string \<Rightarrow> pydict \<Rightarrow> (string, int option) dict \<Rightarrow>
     string option \<Rightarrow> string list \<Rightarrow> quality_evaluation" where
  "new_evaluation imp_id eval_id now p call_id body scores suggested_fix topics =
     \<lparr>q_tenant_id = id_tenant_id p, q_evaluation_id = eval_id, q_call_id = call_id, q_reviewer_id = id_user_id p,
      q_reviewed_at = now, q_answer_correctness = the_score scores ''answer_correctness'',
      q_tone_score = the_score scores ''tone_score'',
      q_handoff_appropriateness = the_score scores ''handoff_appropriateness'',
      q_compliance_issue = py_truthy (py_get body ''compliance_issue''),
      q_hallucination_detected = py_truthy (py_get body ''hallucination_detected''),
      q_privacy_issue = py_truthy (py_get body ''privacy_issue''),
      q_suggested_fix = suggested_fix, q_knowledge_gap_topics = topics, q_review_status = ''open'',
      q_improvement_item_id =
        (if py_truthy (py_get body ''hallucination_detected'') \<or> topics \<noteq> [] then Some imp_id else None)\<rparr>"

definition store_evaluation ::
  "(string \<Rightarrow> string) \<Rightarrow> (string \<Rightarrow> string) \<Rightarrow> string \<Rightarrow> identity_claims \<Rightarrow> string \<Rightarrow> quality_evaluation \<Rightarrow>
     bool \<Rightarrow> quality_state \<Rightarrow> quality_state \<times> quality_answer" where
  "store_evaluation sha red ts p call_id e knowledge_gap s =
     (let s = s\<lparr>qs_repo := quality_save e (qs_repo s)\<rparr>
      in case qs_audit s of
           None \<Rightarrow> (s, Inr (201, evaluation_public e, Some e))
         | Some st \<Rightarrow>
             (case record_phone_quality_evaluation sha red ts (id_tenant_id p) (id_user_id p) call_id
                     (q_evaluation_id e) (q_hallucination_detected e) knowledge_gap (q_compliance_issue e)
                     (q_privacy_issue e) (q_improvement_item_id e) st of
                Inl x \<Rightarrow> (s, Inl x)
              | Inr st' \<Rightarrow> (s\<lparr>qs_audit := Some st'\<rparr>, Inr (201, evaluation_public e, Some e))))"

definition create_evaluation ::
  "(string \<Rightarrow> int option) \<Rightarrow> (string \<Rightarrow> string) \<Rightarrow> (string \<Rightarrow> string) \<Rightarrow> string \<Rightarrow> string \<Rightarrow> string \<Rightarrow> string \<Rightarrow>
     identity_claims \<Rightarrow> string \<Rightarrow> pydict \<Rightarrow> quality_state \<Rightarrow> quality_state \<times> quality_answer" where
  "create_evaluation parse_int sha red imp_id eval_id now ts p call_id body s =
     (if \<not> can_review p then (s, Inr (403, [(''error'', PStr ''forbidden'')], None))
      else case scores_of parse_int body score_fields of
        Inl f \<Rightarrow> (s, Inr (422, [(''error'', PStr ''invalid_score''), (''field'', PStr f)], None))
      | Inr scores \<Rightarrow>
      case topics_of body of
        Inl e \<Rightarrow> (s, Inl e)
      | Inr topics \<Rightarrow>
          let suggested_fix = or_none (py_strip (py_get_str body ''suggested_fix''));
              hallucination = py_truthy (py_get body ''hallucination_detected'')
          in if hallucination \<and> \<not> (suggested_fix \<noteq> None \<or> topics \<noteq> [])
             then (s, Inr (422, [(''error'', PStr ''hallucination_requires_fix_or_topics'')], None))
             else store_evaluation sha red ts p call_id
                    (new_evaluation imp_id eval_id now p call_id body scores suggested_fix topics) (topics \<noteq> []) s)"

definition list_for_call :: "identity_claims \<Rightarrow> string \<Rightarrow> quality_state \<Rightarrow> int \<times> pydict" where
  "list_for_call p call_id s =
     (if \<not> can_review p then (403, [(''error'', PStr ''forbidden'')])
      else (200, [(''items'', PList (map (\<lambda>e. PDict (evaluation_public e))
              (quality_list_for_call (id_tenant_id p) call_id (qs_repo s))))]))"

section \<open>Facts\<close>

lemma score_of_range: "score_of parse_int v = Some (Some n) \<Longrightarrow> 1 \<le> n \<and> n \<le> 5"
  by (auto simp: score_of_def split: option.splits if_splits)

lemma scores_in_range: "scores_of parse_int body fs = Inr d \<Longrightarrow> (f, Some n) \<in> set d \<Longrightarrow> 1 \<le> n \<and> n \<le> 5"
proof (induction fs arbitrary: d)
  case (Cons g fs)
  then show ?case using score_of_range by (auto split: option.splits sum.splits)
qed simp

lemma the_score_in_range: "scores_of parse_int body fs = Inr d \<Longrightarrow> the_score d f = Some n \<Longrightarrow> 1 \<le> n \<and> n \<le> 5"
  by (auto simp: the_score_def split: option.splits dest!: map_of_SomeD scores_in_range)

definition follow_up :: "pydict \<Rightarrow> string option" where
  "follow_up body = or_none (py_strip (py_get_str body ''suggested_fix''))"

lemma store_evaluation_201:
  assumes "store_evaluation sha red ts p call_id e gap s = (s', Inr (st, out, e'))"
  shows "st = 201 \<and> e' = Some e \<and> out = evaluation_public e \<and> qs_repo s' = quality_save e (qs_repo s) \<and>
    (case qs_audit s of None \<Rightarrow> qs_audit s' = None
     | Some a \<Rightarrow> \<exists>a'. qs_audit s' = Some a' \<and>
         record_phone_quality_evaluation sha red ts (id_tenant_id p) (id_user_id p) call_id
          (q_evaluation_id e) (q_hallucination_detected e) gap (q_compliance_issue e)
          (q_privacy_issue e) (q_improvement_item_id e) a = Inr a')"
  using assms by (auto simp: store_evaluation_def Let_def split: option.splits sum.splits)

lemma create_evaluation_answer:
  assumes "create_evaluation parse_int sha red imp_id eval_id now ts p call_id body s = (s', Inr (st, out, e'))"
  shows "(st \<in> {403, 422} \<and> e' = None \<and> s' = s) \<or>
    (\<exists>scores topics. can_review p \<and> scores_of parse_int body score_fields = Inr scores \<and> topics_of body = Inr topics \<and>
       (py_truthy (py_get body ''hallucination_detected'') \<longrightarrow> follow_up body \<noteq> None \<or> topics \<noteq> []) \<and>
       store_evaluation sha red ts p call_id
         (new_evaluation imp_id eval_id now p call_id body scores (follow_up body) topics) (topics \<noteq> []) s = (s', Inr (st, out, e')))"
  using assms
  by (auto simp: create_evaluation_def follow_up_def Let_def split: sum.splits if_splits)

section \<open>Properties\<close>

text \<open>A review is stored if and only if it is valid: the answer is 201 exactly when something was stored, and
  then the reviewer holds a review role, every score is between 1 and 5, a flagged hallucination carries a
  fix or topics, an improvement item exists exactly for a hallucination or a knowledge gap, and the audit
  log shows the review in the improvement queue exactly in that case; any other answer changes nothing.\<close>

theorem phone_review_stored_iff_valid:
  assumes "create_evaluation parse_int sha red imp_id eval_id now ts p call_id body s = (s', Inr (st, out, e'))"
    and "labels_survive red"
  shows "(st \<noteq> 201 \<longrightarrow> st \<in> {403, 422} \<and> e' = None \<and> s' = s)
    \<and> (st = 201 \<longrightarrow> (\<exists>e. e' = Some e \<and> can_review p
         \<and> dget (qs_repo s') (id_tenant_id p, eval_id) = Some e
         \<and> (\<forall>n \<in> set_option (q_answer_correctness e) \<union> set_option (q_tone_score e) \<union> set_option (q_handoff_appropriateness e).
              1 \<le> n \<and> n \<le> 5)
         \<and> (q_hallucination_detected e \<longrightarrow> q_suggested_fix e \<noteq> None \<or> q_knowledge_gap_topics e \<noteq> [])
         \<and> (q_improvement_item_id e \<noteq> None \<longleftrightarrow> q_hallucination_detected e \<or> q_knowledge_gap_topics e \<noteq> [])
         \<and> (\<forall>a. qs_audit s = Some a \<longrightarrow> (\<exists>a'. qs_audit s' = Some a' \<and>
              length (phone_qa_entries (stored_chain a' (id_tenant_id p))) =
              length (phone_qa_entries (stored_chain a (id_tenant_id p))) +
                (if q_improvement_item_id e \<noteq> None then 1 else 0)))))"
proof -
  from create_evaluation_answer [OF assms(1)] consider (refused) "st \<in> {403, 422}" "e' = None" "s' = s"
    | (stored) scores topics where "can_review p" "scores_of parse_int body score_fields = Inr scores"
      "py_truthy (py_get body ''hallucination_detected'') \<longrightarrow> follow_up body \<noteq> None \<or> topics \<noteq> []"
      "store_evaluation sha red ts p call_id
         (new_evaluation imp_id eval_id now p call_id body scores (follow_up body) topics) (topics \<noteq> []) s = (s', Inr (st, out, e'))"
    by blast
  then show ?thesis
  proof cases
    case refused
    then show ?thesis by auto
  next
    case stored
    let ?e = "new_evaluation imp_id eval_id now p call_id body scores (follow_up body) topics"
    note st = store_evaluation_201 [OF stored(4)]
    have fields: "q_tenant_id ?e = id_tenant_id p" "q_evaluation_id ?e = eval_id" "q_suggested_fix ?e = follow_up body"
      "q_knowledge_gap_topics ?e = topics" "q_hallucination_detected ?e = py_truthy (py_get body ''hallucination_detected'')"
      "q_improvement_item_id ?e \<noteq> None \<longleftrightarrow> q_hallucination_detected ?e \<or> topics \<noteq> []"
      by (simp_all add: new_evaluation_def)
    have range: "1 \<le> n \<and> n \<le> 5"
      if "n \<in> set_option (q_answer_correctness ?e) \<union> set_option (q_tone_score ?e) \<union> set_option (q_handoff_appropriateness ?e)" for n
      using that the_score_in_range [OF stored(2)] by (auto simp: new_evaluation_def)
    have audit: "\<exists>a'. qs_audit s' = Some a' \<and> length (phone_qa_entries (stored_chain a' (id_tenant_id p))) =
        length (phone_qa_entries (stored_chain a (id_tenant_id p))) + (if q_improvement_item_id ?e \<noteq> None then 1 else 0)"
      if a: "qs_audit s = Some a" for a
    proof -
      let ?q = "phone_qa_entry ts (id_tenant_id p) (id_user_id p) call_id (q_evaluation_id ?e) (q_hallucination_detected ?e)
          (topics \<noteq> []) (q_compliance_issue ?e) (q_privacy_issue ?e) (q_improvement_item_id ?e)"
      from st a obtain a' where a': "qs_audit s' = Some a'" "audit_record sha red ?q a = Inr a'"
        by (auto simp: record_phone_quality_evaluation_def)
      have q: "al_tenant_id ?q = id_tenant_id p" "al_action ?q = phone_qa_action"
        "al_decision ?q = Some (if q_hallucination_detected ?e then ''hallucination'' else if topics \<noteq> [] then ''knowledge_gap'' else ''reviewed'')"
        by (simp_all add: phone_qa_entry_def audit_entry_def)
      from stored_after_record [OF a'(2), of "id_tenant_id p"] obtain n where
        n: "stored_chain a' (id_tenant_id p) = stored_chain a (id_tenant_id p) @ [n]" "al_action n = phone_qa_action"
        "al_decision n = al_decision ?q"
        using q assms(2) by (auto simp: labels_survive_def)
      show ?thesis using a'(1) n q(3) fields(6) by (simp add: phone_qa_entries_def)
    qed
    have "dget (qs_repo s') (id_tenant_id p, eval_id) = Some ?e"
      using st fields by (simp add: quality_save_def dget_dset)
    then show ?thesis using st stored(1,3) fields range audit by (intro conjI impI exI [of _ ?e]) auto
  qed
qed

definition sample_reviewer :: identity_claims where
  "sample_reviewer = \<lparr>id_tenant_id = ''t'', id_user_id = ''u'', id_groups = [], id_roles = [''qa_reviewer'']\<rparr>"

definition sample_state :: quality_state where
  "sample_state = \<lparr>qs_repo = [], qs_audit = Some []\<rparr>"

definition sample_body :: pydict where
  "sample_body = [(''hallucination_detected'', PBool True), (''tone_score'', PInt 2), (''suggested_fix'', PStr ''fix'')]"

lemma sample_review:
  "\<exists>s' e out. create_evaluation (\<lambda>_. None) (\<lambda>x. x) (\<lambda>x. x) ''imp'' ''qe'' ''now'' ''ts'' sample_reviewer ''call'' sample_body
     sample_state = (s', Inr (201, out, Some e)) \<and> q_tone_score e = Some 2 \<and> q_improvement_item_id e = Some ''imp''"
proof -
  have "py_strip ''fix'' = ''fix''" by (rule py_strip_plain) (simp_all add: plain_char_def)
  then show ?thesis
    by (simp add: create_evaluation_def can_review_def qa_review_roles_def sample_reviewer_def sample_body_def
        score_fields_def score_of_def py_get_def py_get_str_def topics_of_def py_or_def or_none_def Let_def
        store_evaluation_def sample_state_def record_phone_quality_evaluation_def audit_record_def
        phone_qa_entry_def audit_entry_def new_evaluation_def the_score_def py_trunc_def)
qed

theorem phone_review_stored_iff_valid_witness:
  "\<exists>s' out e. create_evaluation (\<lambda>_. None) (\<lambda>x. x) (\<lambda>x. x) ''imp'' ''qe'' ''now'' ''ts'' sample_reviewer ''call'' sample_body
     sample_state = (s', Inr (201, out, Some e)) \<and> dget (qs_repo s') (''t'', ''qe'') = Some e \<and>
     (\<exists>a'. qs_audit s' = Some a' \<and> length (phone_qa_entries (stored_chain a' ''t'')) = 1)"
proof -
  obtain s' out e where c: "create_evaluation (\<lambda>_. None) (\<lambda>x. x) (\<lambda>x. x) ''imp'' ''qe'' ''now'' ''ts'' sample_reviewer
      ''call'' sample_body sample_state = (s', Inr (201, out, Some e))" and e: "q_improvement_item_id e = Some ''imp''"
    using sample_review by blast
  have "labels_survive (\<lambda>x. x)" by (simp add: labels_survive_def)
  from phone_review_stored_iff_valid [OF c this] have
    stored: "dget (qs_repo s') (id_tenant_id sample_reviewer, ''qe'') = Some e" and
    queue: "\<forall>a. qs_audit sample_state = Some a \<longrightarrow> (\<exists>a'. qs_audit s' = Some a' \<and>
       length (phone_qa_entries (stored_chain a' (id_tenant_id sample_reviewer))) =
       length (phone_qa_entries (stored_chain a (id_tenant_id sample_reviewer))) +
         (if q_improvement_item_id e \<noteq> None then 1 else 0))"
    by auto
  have "qs_audit sample_state = Some []" by (simp add: sample_state_def)
  with queue obtain a' where "qs_audit s' = Some a'"
    "length (phone_qa_entries (stored_chain a' (id_tenant_id sample_reviewer))) = 1"
    using e by (auto simp: stored_chain_def phone_qa_entries_def)
  with stored c show ?thesis by (auto simp: sample_reviewer_def)
qed

end
