(* ===== verification/PhoneMetrics.thy ===== *)
theory PhoneMetrics
  imports PhoneDomain
begin

text \<open>
  Call-centre figures (\<open>phone/metrics.py\<close>): a pure aggregation over the calls and reviews of a tenant.
  \<open>parse_iso\<close>, an argument, is \<open>datetime.fromisoformat\<close> after the code's replacement of \<open>Z\<close> and its
  UTC default: the instant in seconds, or \<open>None\<close> for a malformed text.
\<close>

definition terminal_states :: "string set" where
  "terminal_states = {''transferred'', ''completed'', ''abandoned'', ''failed''}"

definition unresolved_statuses :: "string set" where
  "unresolved_statuses = {''unresolved'', ''abandoned'', ''failed''}"

type_synonym clock = "string \<Rightarrow> rat option"

definition instant :: "clock \<Rightarrow> string option \<Rightarrow> rat option" where
  "instant parse_iso value = (case value of None \<Rightarrow> None | Some s \<Rightarrow> if s = [] then None else parse_iso s)"

definition p95 :: "rat list \<Rightarrow> rat option" where
  "p95 xs =
     (if xs = [] then None
      else
        let ordered = sort xs;
            n = int (length ordered) - 1;
            index = max 0 (min n (py_round_int (95 / 100 * of_int n)))
        in Some (py_round 3 (ordered ! nat index)))"

text \<open>\<open>Counter\<close> and its five most frequent keys, ties in the order of the keys.\<close>

definition count_all :: "string list \<Rightarrow> (string, int) dict" where
  "count_all ks = fold (\<lambda>k. dinc k 1) ks []"

definition top :: "(string, int) dict \<Rightarrow> (string \<times> int) list" where
  "top counter = take 5 (sort_key (\<lambda>(k, n). (- n, k)) counter)"

record call_metrics =
  cm_call_count :: nat
  cm_answered_count :: nat
  cm_answer_rate :: rat
  cm_ai_containment_rate :: rat
  cm_handoff_rate :: rat
  cm_unresolved_rate :: rat
  cm_terminal_count :: nat
  cm_average_handle_time_seconds :: rat
  cm_p95_total_turn_latency_ms :: "rat option"
  cm_p95_rag_latency_ms :: "rat option"
  cm_top_handoff_reasons :: "(string \<times> int) list"
  cm_top_intents :: "(string \<times> int) list"
  cm_knowledge_gap_topics :: "(string \<times> int) list"

definition in_range :: "clock \<Rightarrow> string option \<Rightarrow> string option \<Rightarrow> call_session \<Rightarrow> bool" where
  "in_range parse_iso range_from range_to call =
     (case instant parse_iso (Some (k_started_at call)) of
        None \<Rightarrow> True
      | Some started \<Rightarrow>
          (case instant parse_iso range_from of None \<Rightarrow> True | Some lower \<Rightarrow> \<not> started < lower) \<and>
          (case instant parse_iso range_to of None \<Rightarrow> True | Some upper \<Rightarrow> \<not> started > upper))"

definition answered_by_ai :: "call_session \<Rightarrow> bool" where
  "answered_by_ai c \<longleftrightarrow> list_ex (\<lambda>t. t_speaker t = ''ai'') (k_turns c)"

definition ai_contained :: "call_session \<Rightarrow> bool" where
  "ai_contained c \<longleftrightarrow> k_state c = ''completed'' \<and> \<not> k_handoff_required c"

definition unresolved :: "call_session \<Rightarrow> bool" where
  "unresolved c \<longleftrightarrow> (case k_resolution_status c of None \<Rightarrow> False | Some r \<Rightarrow> r \<in> unresolved_statuses)
     \<or> k_state c \<in> {''abandoned'', ''failed''}"

definition durations :: "clock \<Rightarrow> call_session \<Rightarrow> rat list" where
  "durations parse_iso c =
     (case (instant parse_iso (Some (k_started_at c)), instant parse_iso (k_ended_at c)) of
        (Some started, Some ended) \<Rightarrow> if ended \<ge> started then [ended - started] else []
      | _ \<Rightarrow> [])"

definition latencies :: "string \<Rightarrow> call_session \<Rightarrow> rat list" where
  "latencies key c =
     concat (map (\<lambda>t. if t_speaker t \<noteq> ''ai'' then []
                      else case py_number (py_get (t_latency_ms t) key) of None \<Rightarrow> [] | Some x \<Rightarrow> [x])
                 (k_turns c))"

definition present :: "string option \<Rightarrow> string list" where
  "present s = (case s of Some (c # cs) \<Rightarrow> [c # cs] | _ \<Rightarrow> [])"

definition rate :: "nat \<Rightarrow> nat \<Rightarrow> rat" where
  "rate numerator cnt = (if cnt \<noteq> 0 then py_round 4 (of_nat numerator / of_nat cnt) else 0)"

definition tally :: "('a \<Rightarrow> bool) \<Rightarrow> 'a list \<Rightarrow> nat" where
  "tally P xs = length (filter P xs)"

definition aggregate_call_metrics ::
  "clock \<Rightarrow> call_session list \<Rightarrow> quality_evaluation list \<Rightarrow> string option \<Rightarrow> string option \<Rightarrow> call_metrics" where
  "aggregate_call_metrics parse_iso calls evaluations range_from range_to =
     (let scoped = filter (in_range parse_iso range_from range_to) calls;
          n = length scoped;
          ds = concat (map (durations parse_iso) scoped)
      in \<lparr>cm_call_count = n,
          cm_answered_count = tally answered_by_ai scoped,
          cm_answer_rate = rate (tally answered_by_ai scoped) n,
          cm_ai_containment_rate = rate (tally ai_contained scoped) n,
          cm_handoff_rate = rate (tally k_handoff_required scoped) n,
          cm_unresolved_rate = rate (tally unresolved scoped) n,
          cm_terminal_count = tally (\<lambda>c. k_state c \<in> terminal_states) scoped,
          cm_average_handle_time_seconds =
            (if ds \<noteq> [] then py_round 1 (sum_list ds / of_nat (length ds)) else 0),
          cm_p95_total_turn_latency_ms = p95 (concat (map (latencies ''total'') scoped)),
          cm_p95_rag_latency_ms = p95 (concat (map (latencies ''rag'') scoped)),
          cm_top_handoff_reasons = top (count_all (concat (map (\<lambda>c. present (k_handoff_reason c)) scoped))),
          cm_top_intents = top (count_all (concat (map (\<lambda>c. present (k_intent c)) scoped))),
          cm_knowledge_gap_topics = top (count_all (concat (map q_knowledge_gap_topics evaluations)))\<rparr>)"

section \<open>Facts\<close>

lemma rate_bounds: "k \<le> n \<Longrightarrow> 0 \<le> rate k n \<and> rate k n \<le> 1"
  unfolding rate_def
  using py_round_mono [of 0 "of_nat k / of_nat n" 4] py_round_mono [of "of_nat k / of_nat n" 1 4]
  by (auto simp: divide_le_eq_1)

lemma tally_le: "tally P xs \<le> length xs"
  by (simp add: tally_def)

lemma tally_disjoint: "(\<And>x. \<not> (P x \<and> Q x)) \<Longrightarrow> tally P xs + tally Q xs \<le> length xs"
  by (induction xs) (auto simp: tally_def)

lemma rate_sum:
  assumes "j + k \<le> n"
  shows "rate j n + rate k n \<le> 1 + 1 / 10 ^ 4"
proof (cases "n = 0")
  case False
  have "rate j n + rate k n \<le> (of_nat j / of_nat n + 1 / 2 / 10 ^ 4) + (of_nat k / of_nat n + 1 / 2 / 10 ^ 4)"
    using py_round_near [of 4 "of_nat j / of_nat n"] py_round_near [of 4 "of_nat k / of_nat n"] False
    unfolding rate_def abs_le_iff by auto
  also have "\<dots> = of_nat (j + k) / of_nat n + 1 / 10 ^ 4"
    by (simp add: add_divide_distrib)
  also have "of_nat (j + k) / of_nat n \<le> (1 :: rat)"
    using assms False by (simp add: divide_le_eq_1 del: of_nat_add)
  finally show ?thesis by simp
qed (simp add: rate_def)

lemma dcount_count_all: "dcount (count_all ks) k = int (count (mset ks) k)"
proof -
  have "dcount (fold (\<lambda>k. dinc k 1) ks d) k = dcount d k + int (count (mset ks) k)" for d
    by (induction ks arbitrary: d) (auto simp: dict_simps)
  then show ?thesis by (simp add: count_all_def)
qed

lemma wf_count_all: "wf_dict (count_all ks)"
proof -
  have "wf_dict d \<Longrightarrow> wf_dict (fold (\<lambda>k. dinc k 1) ks d)" for d :: "(string, int) dict"
    by (induction ks arbitrary: d) (auto simp: wf_dinc)
  then show ?thesis by (simp add: count_all_def)
qed

lemma top_member:
  assumes "(k, n) \<in> set (top (count_all ks))"
  shows "n = int (count (mset ks) k)"
proof -
  from assms have "(k, n) \<in> set (count_all ks)" by (auto simp: top_def dest: in_set_takeD)
  then have "dget (count_all ks) k = Some n" by (rule in_dget_Some [OF wf_count_all])
  then have "dcount (count_all ks) k = n" by (simp add: dcount_def)
  with dcount_count_all show ?thesis by simp
qed

lemma keys_dinc: "fst ` set (dinc k n d) = insert k (fst ` set d)"
  by (simp add: dinc_def keys_dset)

lemma keys_count_all: "fst ` set (count_all ks) \<subseteq> set ks"
proof -
  have "fst ` set (fold (\<lambda>k. dinc k 1) ks d) \<subseteq> set ks \<union> fst ` set d" for d :: "(string, int) dict"
  proof (induction ks arbitrary: d)
    case (Cons k ks)
    from Cons.IH [of "dinc k 1 d"] show ?case unfolding keys_dinc by auto
  qed simp
  from this [of "[]"] show ?thesis by (simp add: count_all_def)
qed

lemma top_key: "(k, n) \<in> set (top (count_all ks)) \<Longrightarrow> k \<in> set ks"
proof -
  assume "(k, n) \<in> set (top (count_all ks))"
  then have "(k, n) \<in> set (count_all ks)" by (auto simp: top_def dest: in_set_takeD)
  then have "k \<in> fst ` set (count_all ks)" by force
  with keys_count_all show ?thesis by blast
qed

lemma top_length: "length (top d) \<le> 5"
  by (simp add: top_def)

lemma p95_sample:
  assumes "p95 xs = Some q"
  shows "\<exists>x\<in>set xs. q = py_round 3 x"
proof -
  from assms have ne: "xs \<noteq> []" by (auto simp: p95_def)
  let ?n = "int (length (sort xs)) - 1"
  let ?i = "max 0 (min ?n (py_round_int (95 / 100 * of_int ?n)))"
  have "nat ?i < length (sort xs)" using ne by (auto simp: nat_less_iff neq_Nil_conv)
  then have "sort xs ! nat ?i \<in> set xs" using nth_mem [of "nat ?i" "sort xs"] by simp
  moreover have "q = py_round 3 (sort xs ! nat ?i)" using assms ne by (simp add: p95_def Let_def)
  ultimately show ?thesis by blast
qed

section \<open>Properties\<close>

text \<open>The dashboard figures are consistent: no figure counts more calls than the period has, every rate lies
  between 0 and 1, a call is never counted both as contained by the AI and as handed off, so the two rates
  add up to at most 1 (within one unit of the fourth decimal), the latency figures are values measured in
  the period, and each of the at most five reasons listed has its true number of calls.\<close>

theorem call_metrics_consistent:
  "let m = aggregate_call_metrics parse_iso calls evaluations f t;
         scoped = filter (in_range parse_iso f t) calls in
      cm_call_count m = length scoped
    \<and> cm_answered_count m \<le> cm_call_count m \<and> cm_terminal_count m \<le> cm_call_count m
    \<and> {cm_answer_rate m, cm_ai_containment_rate m, cm_handoff_rate m, cm_unresolved_rate m} \<subseteq> {0..1}
    \<and> cm_ai_containment_rate m + cm_handoff_rate m \<le> 1 + 1 / 10 ^ 4
    \<and> set_option (cm_p95_total_turn_latency_ms m)
        \<subseteq> py_round 3 ` \<Union> (set ` latencies ''total'' ` set scoped)
    \<and> length (cm_top_handoff_reasons m) \<le> 5
    \<and> set (cm_top_handoff_reasons m) \<subseteq>
        {(r, int (tally (\<lambda>c. k_handoff_reason c = Some r) scoped)) | r. True}"
proof -
  let ?m = "aggregate_call_metrics parse_iso calls evaluations f t"
  let ?s = "filter (in_range parse_iso f t) calls"
  have reasons: "count (mset (concat (map (\<lambda>c. present (k_handoff_reason c)) cs))) r
      = tally (\<lambda>c. k_handoff_reason c = Some r) cs" if "r \<noteq> []" for r cs
    using that by (induction cs) (auto simp: tally_def present_def split: option.splits list.splits)
  have nonempty: "r \<noteq> []" if "(r, n) \<in> set (top (count_all (concat (map (\<lambda>c. present (k_handoff_reason c)) ?s))))" for r n
    using top_key [OF that] by (auto simp: present_def split: option.splits list.splits)
  have top: "set (top (count_all (concat (map (\<lambda>c. present (k_handoff_reason c)) ?s)))) \<subseteq>
      {(r, int (tally (\<lambda>c. k_handoff_reason c = Some r) ?s)) | r. True}"
  proof (rule subsetI)
    fix p
    assume p: "p \<in> set (top (count_all (concat (map (\<lambda>c. present (k_handoff_reason c)) ?s))))"
    obtain r n where rn: "p = (r, n)" by (cases p)
    from top_member [OF p [unfolded rn]] reasons [OF nonempty [OF p [unfolded rn]]]
    have "n = int (tally (\<lambda>c. k_handoff_reason c = Some r) ?s)" by simp
    with rn show "p \<in> {(r, int (tally (\<lambda>c. k_handoff_reason c = Some r) ?s)) | r. True}" by simp
  qed
  have lat: "set_option (p95 (concat (map (latencies ''total'') ?s))) \<subseteq> py_round 3 ` \<Union> (set ` latencies ''total'' ` set ?s)"
    by (auto dest!: p95_sample)
  have sum: "tally ai_contained ?s + tally k_handoff_required ?s \<le> length ?s"
    by (rule tally_disjoint) (simp add: ai_contained_def)
  have fields: "cm_call_count ?m = length ?s" "cm_answered_count ?m = tally answered_by_ai ?s"
    "cm_terminal_count ?m = tally (\<lambda>c. k_state c \<in> terminal_states) ?s"
    "cm_answer_rate ?m = rate (tally answered_by_ai ?s) (length ?s)"
    "cm_ai_containment_rate ?m = rate (tally ai_contained ?s) (length ?s)"
    "cm_handoff_rate ?m = rate (tally k_handoff_required ?s) (length ?s)"
    "cm_unresolved_rate ?m = rate (tally unresolved ?s) (length ?s)"
    "cm_p95_total_turn_latency_ms ?m = p95 (concat (map (latencies ''total'') ?s))"
    "cm_top_handoff_reasons ?m = top (count_all (concat (map (\<lambda>c. present (k_handoff_reason c)) ?s)))"
    by (simp_all add: aggregate_call_metrics_def Let_def)
  show ?thesis
    unfolding Let_def fields
  proof (intro conjI)
    show "{rate (tally answered_by_ai ?s) (length ?s), rate (tally ai_contained ?s) (length ?s),
        rate (tally k_handoff_required ?s) (length ?s), rate (tally unresolved ?s) (length ?s)} \<subseteq> {0..1}"
      by (simp add: rate_bounds [OF tally_le])
  qed (use rate_sum [OF sum] lat top in \<open>simp_all add: tally_le top_length\<close>)
qed

end
