(* ===== verification/Lexicon.thy ===== *)
theory Lexicon
  imports AuditEmit
begin

text \<open>
  The tenant lexicon: vocabulary and messages a tenant adds to the built-in defaults
  (\<open>services/lexicon.py\<close>) over the in-memory repository of \<open>persistence/lexicon.py\<close>. Lengths count
  characters. The audit store is optional and best effort; the two clock readings of an audit entry are
  arguments.
\<close>

section \<open>Repository\<close>

type_synonym words = "(string, string list) dict"
type_synonym lexicon_repo = "(string \<times> string \<times> string, string list) dict"

definition get_namespace :: "string \<Rightarrow> string \<Rightarrow> lexicon_repo \<Rightarrow> words" where
  "get_namespace tenant_id ns r =
     map (\<lambda>((t, n, key), values). (key, values)) (filter (\<lambda>((t, n, key), values). t = tenant_id \<and> n = ns) r)"

definition lexicon_upsert :: "string \<Rightarrow> string \<Rightarrow> string \<Rightarrow> string list \<Rightarrow> lexicon_repo \<Rightarrow> lexicon_repo" where
  "lexicon_upsert tenant_id ns key values r = dset (tenant_id, ns, key) values r"

definition lexicon_delete :: "string \<Rightarrow> string \<Rightarrow> string \<Rightarrow> lexicon_repo \<Rightarrow> lexicon_repo \<times> bool" where
  "lexicon_delete tenant_id ns key r =
     (ddel (tenant_id, ns, key) r, dget r (tenant_id, ns, key) \<noteq> None)"

section \<open>The service\<close>

definition editable_namespaces :: "string set" where
  "editable_namespaces = {''safety.high_risk_keywords'', ''chat.handoff_triggers'', ''phone.intents'',
     ''messages.chat'', ''messages.phone'', ''retrieval.synonyms''}"

definition max_values_per_key :: nat where
  "max_values_per_key = 200"

definition max_value_length :: nat where
  "max_value_length = 200"

record lexicon_state =
  lx_repo :: lexicon_repo
  lx_audit :: "audit_store option"

definition merge_words :: "words \<Rightarrow> words \<Rightarrow> words" where
  "merge_words defaults stored =
     fold (\<lambda>(key, values) merged.
         let base = (case dget merged key of None \<Rightarrow> [] | Some b \<Rightarrow> b);
             extras = filter (\<lambda>v. v \<notin> set base) values
         in dset key (base @ extras) merged)
       stored defaults"

definition resolve :: "string \<Rightarrow> string \<Rightarrow> words \<Rightarrow> lexicon_repo \<Rightarrow> words" where
  "resolve tenant_id ns defaults r = merge_words defaults (get_namespace tenant_id ns r)"

text \<open>\<open>dict.fromkeys\<close>: the distinct elements in the order of their first occurrence.\<close>

fun fromkeys :: "string list \<Rightarrow> string list" where
  "fromkeys [] = []"
| "fromkeys (x # xs) = x # filter (\<lambda>y. y \<noteq> x) (fromkeys xs)"

definition clean_values :: "pyval list \<Rightarrow> string list" where
  "clean_values values = fromkeys (filter (\<lambda>v. v \<noteq> []) (map (\<lambda>v. py_strip (py_str v)) values))"

definition lexicon_entry ::
  "string \<Rightarrow> string \<Rightarrow> string \<Rightarrow> string \<Rightarrow> string \<Rightarrow> string \<Rightarrow> nat \<Rightarrow> string \<Rightarrow> audit_log_entry" where
  "lexicon_entry ts1 ts2 tenant_id actor_id ns key n decision =
     (audit_entry tenant_id (''lexicon:'' @ ns @ '':'' @ key @ '':'' @ ts1) ts2)
       \<lparr>al_actor_id := Some actor_id, al_action := ''lexicon.updated'', al_resource_type := Some ''tenant_lexicon'',
        al_resource_id := Some (ns @ ''/'' @ key), al_decision := Some decision,
        al_reason := Some (''values='' @ nat_str n)\<rparr>"

definition lexicon_update ::
  "(string \<Rightarrow> string) \<Rightarrow> (string \<Rightarrow> string) \<Rightarrow> string \<Rightarrow> string \<Rightarrow> string \<Rightarrow> string \<Rightarrow> string \<Rightarrow> pyval list \<Rightarrow> string \<Rightarrow>
     lexicon_state \<Rightarrow> string + (lexicon_state \<times> string list)" where
  "lexicon_update sha red ts1 ts2 tenant_id ns key values actor_id s =
     (if ns \<notin> editable_namespaces then Inl ''unknown_namespace''
      else if key = [] \<or> 100 < utf8_len key then Inl ''invalid_key''
      else
        let cleaned = clean_values values in
        if cleaned = [] then Inl ''values_required''
        else if max_values_per_key < length cleaned \<or> list_ex (\<lambda>v. max_value_length < utf8_len v) cleaned
        then Inl ''values_too_large''
        else Inr (s\<lparr>lx_repo := lexicon_upsert tenant_id ns key cleaned (lx_repo s),
                    lx_audit := audit_quietly sha red
                      (lexicon_entry ts1 ts2 tenant_id actor_id ns key (length cleaned) ''updated'') (lx_audit s)\<rparr>,
                  cleaned))"

definition lexicon_remove ::
  "(string \<Rightarrow> string) \<Rightarrow> (string \<Rightarrow> string) \<Rightarrow> string \<Rightarrow> string \<Rightarrow> string \<Rightarrow> string \<Rightarrow> string \<Rightarrow> string \<Rightarrow>
     lexicon_state \<Rightarrow> string + (lexicon_state \<times> bool)" where
  "lexicon_remove sha red ts1 ts2 tenant_id ns key actor_id s =
     (if ns \<notin> editable_namespaces then Inl ''unknown_namespace''
      else
        let (r, removed) = lexicon_delete tenant_id ns key (lx_repo s);
            s = s\<lparr>lx_repo := r\<rparr>
        in Inr (if removed
                then s\<lparr>lx_audit := audit_quietly sha red
                         (lexicon_entry ts1 ts2 tenant_id actor_id ns key 0 ''removed'') (lx_audit s)\<rparr>
                else s,
                removed))"

section \<open>Facts\<close>

lemma set_fromkeys [simp]: "set (fromkeys xs) = set xs"
  by (induction xs) auto

lemma distinct_fromkeys [simp]: "distinct (fromkeys xs)"
  by (induction xs) auto

lemma wf_get_namespace: "wf_dict r \<Longrightarrow> wf_dict (get_namespace t n r)"
proof (induction r)
  case (Cons p r)
  obtain a b k v where p: "p = ((a, b, k), v)" by (metis prod.exhaust)
  from Cons have "wf_dict (get_namespace t n r)" by (simp add: wf_dict_def)
  with Cons.prems p show ?case
    by (force simp: wf_dict_def get_namespace_def)
qed (simp add: get_namespace_def)

lemma dget_get_namespace: "dget (get_namespace t n r) k = dget r (t, n, k)"
  by (induction r) (auto simp: get_namespace_def split: prod.splits)

definition word_list :: "words \<Rightarrow> string \<Rightarrow> string list" where
  "word_list d k = (case dget d k of None \<Rightarrow> [] | Some vs \<Rightarrow> vs)"

lemma merge_words_at:
  assumes "wf_dict stored"
  shows "dget (merge_words defaults stored) k =
    (case dget stored k of
       None \<Rightarrow> dget defaults k
     | Some vs \<Rightarrow> Some (word_list defaults k @ filter (\<lambda>v. v \<notin> set (word_list defaults k)) vs))"
  using assms
proof (induction stored arbitrary: defaults)
  case (Cons p stored)
  obtain j vs where p: "p = (j, vs)" by (cases p)
  from Cons.prems p have wf: "wf_dict stored" and new: "dget stored j = None"
    by (auto simp: wf_dict_def map_of_eq_None_iff)
  let ?d = "dset j (word_list defaults j @ filter (\<lambda>v. v \<notin> set (word_list defaults j)) vs) defaults"
  have "merge_words defaults (p # stored) = merge_words ?d stored"
    by (simp add: merge_words_def p word_list_def Let_def)
  moreover have "word_list ?d k = word_list defaults k" if "k \<noteq> j"
    using that by (simp add: word_list_def dget_dset)
  ultimately show ?case
    using Cons.IH [OF wf, of ?d] new p by (auto simp: dget_dset split: option.splits)
qed (simp add: merge_words_def)

lemma resolve_at:
  assumes "wf_dict r"
  shows "dget (resolve t n defaults r) k =
    (case dget r (t, n, k) of
       None \<Rightarrow> dget defaults k
     | Some vs \<Rightarrow> Some (word_list defaults k @ filter (\<lambda>v. v \<notin> set (word_list defaults k)) vs))"
  unfolding resolve_def merge_words_at [OF wf_get_namespace [OF assms]] by (simp add: dget_get_namespace)

inductive lexicon_reachable :: "(string \<Rightarrow> string) \<Rightarrow> (string \<Rightarrow> string) \<Rightarrow> lexicon_state \<Rightarrow> bool"
  for sha red where
  lexicon_init: "lexicon_reachable sha red \<lparr>lx_repo = [], lx_audit = a\<rparr>"
| lexicon_updated: "lexicon_reachable sha red s \<Longrightarrow>
    lexicon_update sha red ts1 ts2 t ns key values actor s = Inr (s', cleaned) \<Longrightarrow> lexicon_reachable sha red s'"
| lexicon_removed: "lexicon_reachable sha red s \<Longrightarrow>
    lexicon_remove sha red ts1 ts2 t ns key actor s = Inr (s', removed) \<Longrightarrow> lexicon_reachable sha red s'"

definition lexicon_item_ok :: "(string \<times> string \<times> string) \<times> string list \<Rightarrow> bool" where
  "lexicon_item_ok p \<longleftrightarrow> (case p of ((t, ns, key), values) \<Rightarrow>
     ns \<in> editable_namespaces \<and> key \<noteq> [] \<and> utf8_len key \<le> 100 \<and>
     values \<noteq> [] \<and> length values \<le> max_values_per_key \<and> distinct values \<and>
     (\<forall>v\<in>set values. v \<noteq> [] \<and> utf8_len v \<le> max_value_length))"

lemma clean_values_ok: "distinct (clean_values vs)" "[] \<notin> set (clean_values vs)"
  by (auto simp: clean_values_def)

lemma update_Inr:
  assumes "lexicon_update sha red ts1 ts2 t ns key values actor s = Inr (s', cleaned)"
  shows "cleaned = clean_values values \<and> lx_repo s' = dset (t, ns, key) cleaned (lx_repo s) \<and>
    lexicon_item_ok ((t, ns, key), cleaned)"
  using assms clean_values_ok
  by (auto simp: lexicon_update_def Let_def lexicon_upsert_def lexicon_item_ok_def list_ex_iff not_less
      split: if_splits)

lemma remove_Inr:
  assumes "lexicon_remove sha red ts1 ts2 t ns key actor s = Inr (s', removed)"
  shows "lx_repo s' = ddel (t, ns, key) (lx_repo s) \<and> removed = (dget (lx_repo s) (t, ns, key) \<noteq> None)"
  using assms by (auto simp: lexicon_remove_def lexicon_delete_def Let_def split: if_splits)

lemma lexicon_reachable_ok:
  "lexicon_reachable sha red s \<Longrightarrow> wf_dict (lx_repo s) \<and> (\<forall>p\<in>set (lx_repo s). lexicon_item_ok p)"
proof (induction rule: lexicon_reachable.induct)
  case (lexicon_updated s ts1 ts2 t ns key vals actor s' cleaned)
  with update_Inr [OF lexicon_updated.hyps(2)] show ?case
    by (auto simp: wf_dict_dset set_dset)
next
  case (lexicon_removed s ts1 ts2 t ns key actor s' removed)
  with remove_Inr [OF lexicon_removed.hyps(2)] show ?case
    by (auto simp: wf_dict_filter ddel_filter)
qed simp

section \<open>Properties\<close>

text \<open>A tenant can extend the built-in vocabulary and never weaken it: in every reachable state the
  resolution starts every key with all its defaults, in order, and adds only values the same tenant
  stored under the same namespace, each once; and what is stored is bounded (an editable namespace, a
  key of 1 to 100 characters, 1 to 200 distinct non-empty values of at most 200 characters).\<close>

theorem lexicon_only_extends:
  assumes "lexicon_reachable sha red s"
  shows "(\<exists>extras. word_list (resolve t ns defaults (lx_repo s)) k = word_list defaults k @ extras
            \<and> distinct extras \<and> set extras = set (word_list (get_namespace t ns (lx_repo s)) k) - set (word_list defaults k))
    \<and> list_all lexicon_item_ok (lx_repo s)"
proof -
  from lexicon_reachable_ok [OF assms] have wf: "wf_dict (lx_repo s)" and ok: "\<forall>p\<in>set (lx_repo s). lexicon_item_ok p"
    by auto
  show ?thesis
  proof (cases "dget (lx_repo s) (t, ns, k)")
    case None
    then show ?thesis using ok
      by (auto simp: word_list_def resolve_at [OF wf] dget_get_namespace list_all_iff)
  next
    case (Some vs)
    then have "lexicon_item_ok ((t, ns, k), vs)" using ok dget_Some_in by fastforce
    then have "distinct vs" by (simp add: lexicon_item_ok_def)
    with Some ok show ?thesis
      by (auto simp: word_list_def resolve_at [OF wf] dget_get_namespace list_all_iff)
  qed
qed

text \<open>Lexicon edits round-trip: after an accepted update the admin view shows exactly the cleaned values under
  that key, resolution offers them next to the defaults, and removing the key afterwards reports that
  something was removed and gives back the resolution every namespace and tenant had before, provided
  the key had no stored values; nothing of another tenant, namespace or key changes in between.\<close>

theorem lexicon_roundtrip:
  assumes "lexicon_update sha red ts1 ts2 t ns key values actor s = Inr (s', cleaned)"
    and "lexicon_remove sha red ts3 ts4 t ns key actor' s' = Inr (s'', removed)"
  shows "dget (get_namespace t ns (lx_repo s')) key = Some (clean_values values)
    \<and> (\<forall>u n k. (u, n, k) \<noteq> (t, ns, key) \<longrightarrow>
          dget (get_namespace u n (lx_repo s')) k = dget (get_namespace u n (lx_repo s)) k)
    \<and> removed
    \<and> (dget (get_namespace t ns (lx_repo s)) key = None \<longrightarrow>
        (\<forall>u n k. dget (get_namespace u n (lx_repo s'')) k = dget (get_namespace u n (lx_repo s)) k))"
  using update_Inr [OF assms(1)] remove_Inr [OF assms(2)]
  by (auto simp: dget_get_namespace dict_simps)

text \<open>An edit of the danger vocabulary, and its removal.\<close>

definition sample_lexicon :: lexicon_state where
  "sample_lexicon = \<lparr>lx_repo = [], lx_audit = None\<rparr>"

definition sample_words :: "pyval list" where
  "sample_words = [PStr ''press'', PStr ''press'']"

lemma sample_words_clean: "clean_values sample_words = [''press'']"
proof -
  have "py_strip ''press'' = ''press''" by (rule py_strip_plain) (simp_all add: plain_char_def)
  then show ?thesis by (simp add: clean_values_def sample_words_def)
qed

lemma sample_edit:
  "\<exists>s'. lexicon_update sha red ts1 ts2 ''t'' ''safety.high_risk_keywords'' ''machine'' sample_words ''u'' sample_lexicon
      = Inr (s', [''press'']) \<and> lx_repo s' = [((''t'', ''safety.high_risk_keywords'', ''machine''), [''press''])]"
  by (simp add: lexicon_update_def Let_def sample_words_clean editable_namespaces_def utf8_len_def utf8_start_def
      max_values_per_key_def max_value_length_def lexicon_upsert_def sample_lexicon_def)

theorem lexicon_only_extends_witness:
  "\<exists>s. lexicon_reachable (\<lambda>x. x) (\<lambda>x. x) s \<and>
     word_list (resolve ''t'' ''safety.high_risk_keywords'' [(''machine'', [''saw''])] (lx_repo s)) ''machine''
       = [''saw'', ''press'']"
proof -
  let ?ns = "''safety.high_risk_keywords''" and ?d = "[(''machine'', [''saw''])]"
  obtain s where e: "lexicon_update (\<lambda>x. x) (\<lambda>x. x) [] [] ''t'' ?ns ''machine'' sample_words ''u'' sample_lexicon
      = Inr (s, [''press''])" and r: "lx_repo s = [((''t'', ?ns, ''machine''), [''press''])]"
    using sample_edit [of "\<lambda>x. x" "\<lambda>x. x" "[]" "[]"] by blast
  have reach: "lexicon_reachable (\<lambda>x. x) (\<lambda>x. x) s"
    by (rule lexicon_updated [OF lexicon_init e [unfolded sample_lexicon_def]])
  obtain x where x: "word_list (resolve ''t'' ?ns ?d (lx_repo s)) ''machine'' = word_list ?d ''machine'' @ x"
    "distinct x" "set x = set (word_list (get_namespace ''t'' ?ns (lx_repo s)) ''machine'') - set (word_list ?d ''machine'')"
    using lexicon_only_extends [OF reach, of "''t''" ?ns ?d "''machine''"] by blast
  have "set x = {''press''}" using x(3) by (simp add: r get_namespace_def word_list_def)
  with x(2) have "x = [''press'']" by (rule distinct_singleton_list)
  with x(1) reach show ?thesis by (intro exI [of _ s]) (simp add: word_list_def)
qed

theorem lexicon_roundtrip_witness:
  "\<exists>s s' s''. lexicon_update (\<lambda>x. x) (\<lambda>x. x) [] [] ''t'' ''safety.high_risk_keywords'' ''machine'' sample_words ''u'' s
       = Inr (s', [''press'']) \<and>
     lexicon_remove (\<lambda>x. x) (\<lambda>x. x) [] [] ''t'' ''safety.high_risk_keywords'' ''machine'' ''u'' s' = Inr (s'', True) \<and>
     (\<forall>u n k. dget (get_namespace u n (lx_repo s'')) k = dget (get_namespace u n (lx_repo s)) k)"
proof -
  let ?ns = "''safety.high_risk_keywords''"
  obtain s' where e: "lexicon_update (\<lambda>x. x) (\<lambda>x. x) [] [] ''t'' ?ns ''machine'' sample_words ''u'' sample_lexicon
      = Inr (s', [''press''])"
    using sample_edit [of "\<lambda>x. x" "\<lambda>x. x" "[]" "[]"] by blast
  obtain s'' b where d: "lexicon_remove (\<lambda>x. x) (\<lambda>x. x) [] [] ''t'' ?ns ''machine'' ''u'' s' = Inr (s'', b)"
    by (simp add: lexicon_remove_def lexicon_delete_def editable_namespaces_def Let_def)
  have "dget (get_namespace ''t'' ?ns (lx_repo sample_lexicon)) ''machine'' = None"
    by (simp add: sample_lexicon_def get_namespace_def)
  note rt = lexicon_roundtrip [OF e d]
  have same: "dget (get_namespace u n (lx_repo s'')) k = dget (get_namespace u n (lx_repo sample_lexicon)) k" for u n k
    using rt \<open>dget (get_namespace ''t'' ?ns (lx_repo sample_lexicon)) ''machine'' = None\<close> by (elim conjE) simp
  have "b" using rt by (elim conjE)
  with d have d': "lexicon_remove (\<lambda>x. x) (\<lambda>x. x) [] [] ''t'' ?ns ''machine'' ''u'' s' = Inr (s'', True)" by simp
  show ?thesis by (intro exI conjI allI) (rule e, rule d', rule same)
qed

end
