(* ===== verification/PhoneTurns.thy ===== *)
theory PhoneTurns
  imports PhoneHandoff PhoneScenarios PhoneQuality PhoneMetrics Lexicon
begin

text \<open>
  The turns of a phone conversation (\<open>phone/orchestrator.py\<close>, \<open>_execute_turn\<close> and its helpers), with the
  deterministic providers of \<open>providers/telephony.py\<close>, \<open>providers/asr.py\<close> and \<open>providers/tts.py\<close> as instances
  of the provider fields of the environment.

  A turn works on the service state and on the call object, which it mutates; an exception keeps the
  mutations made so far, because the in-memory repository holds the same object. So a turn is a function
  on (state, call) that returns both next to a result. Fields of the environment: the providers and the
  answer gateway (which may raise), the rules, the lexicon (\<open>None\<close> where reading it raises), the text filters
  \<open>redact_text\<close>, \<open>mask_phone_number\<close>, \<open>render_for_voice\<close> and the identifier search of \<open>_slot_value\<close>, the clock,
  the random part of new identifiers, measured times, and the conversions of the language.
\<close>

section \<open>Providers\<close>

record telephony_event =
  te_event_type :: string
  te_text :: string
  te_dtmf_digits :: string
  te_asr_confidence :: "pyfloat option"
  te_barge_in :: bool
  te_failed_provider :: string

record asr_result =
  ar_text :: string
  ar_confidence :: pyfloat

record phone_state =
  ps_calls :: "(string \<times> string, call_session) dict"
  ps_handoffs :: "(string \<times> string, handoff_package) dict"
  ps_scenarios :: scenario_repo
  ps_quality :: "quality_repo option"
  ps_audit :: "audit_store option"
  ps_fresh :: nat
  ps_dispatched :: "handoff_package list"

record phone_env =
  pe_telephony_name :: string
  pe_normalize_event :: "pydict \<Rightarrow> telephony_event result"
  pe_transcribe :: "telephony_event \<Rightarrow> asr_result result"
  pe_synthesize :: "string \<Rightarrow> string \<Rightarrow> string \<Rightarrow> string \<Rightarrow> string result"
  pe_answer :: "identity_claims \<Rightarrow> string \<Rightarrow> pyval \<Rightarrow> pydict result"
  pe_handoff_provider :: "handoff_provider option"
  pe_rules :: handoff_rules
  pe_lexicon :: "(string \<Rightarrow> string \<Rightarrow> words option) option"
  pe_redact_text :: "string \<Rightarrow> string \<times> bool"
  pe_mask_phone_number :: "string \<Rightarrow> string option"
  pe_render_for_voice :: "string \<Rightarrow> string"
  pe_identifier :: "string \<Rightarrow> string option"
  pe_now :: string
  pe_uuid :: "nat \<Rightarrow> string"
  pe_timing :: "string \<Rightarrow> string \<Rightarrow> pyfloat"
  pe_parse_float :: "string \<Rightarrow> rat option"
  pe_float_repr :: "rat \<Rightarrow> string"
  pe_digits :: "string \<Rightarrow> string"
  pe_parse_int :: "string \<Rightarrow> int option"
  pe_parse_iso :: clock
  pe_sha :: "string \<Rightarrow> string"
  pe_audit_redact :: "string \<Rightarrow> string"
  pe_audit_now :: string
  pe_transcript_retention :: "int option"
  pe_export_retention :: "int option"
  pe_export_enabled :: bool

text \<open>\<open>float(v)\<close>.\<close>

fun py_float :: "(string \<Rightarrow> rat option) \<Rightarrow> (rat \<Rightarrow> string) \<Rightarrow> pyval \<Rightarrow> pyfloat result" where
  "py_float parse repr (PFloat r s) = Inr (r, s)"
| "py_float parse repr (PInt i) = Inr (of_int i, repr (of_int i))"
| "py_float parse repr (PBool b) = (let r = (if b then 1 else 0) in Inr (r, repr r))"
| "py_float parse repr (PStr s) = (case parse s of None \<Rightarrow> Inl ValueError | Some r \<Rightarrow> Inr (r, repr r))"
| "py_float parse repr _ = Inl TypeError"

definition event_types :: "string set" where
  "event_types = {''speech'', ''dtmf'', ''barge_in'', ''hold'', ''resume'', ''hangup'', ''provider_failure''}"

definition normalize_event :: "(string \<Rightarrow> rat option) \<Rightarrow> (rat \<Rightarrow> string) \<Rightarrow> pydict \<Rightarrow> telephony_event result" where
  "normalize_event parse repr raw =
     (let event_type = py_str (py_or (py_or (py_get raw ''event_type'') (py_get raw ''type'')) (PStr ''speech''));
          event_type = (if event_type \<notin> event_types then ''speech'' else event_type);
          text = py_get_str raw ''text'';
          dtmf = py_get_str raw ''dtmf_digits'';
          event_type = (if event_type = ''speech'' \<and> text = [] \<and> dtmf \<noteq> [] then ''dtmf'' else event_type);
          confidence = (if py_get raw ''force_asr_confidence'' \<noteq> PNone then py_get raw ''force_asr_confidence''
                        else py_get raw ''asr_confidence'')
      in rbind (if confidence \<noteq> PNone then rbind (py_float parse repr confidence) (\<lambda>c. Inr (Some c)) else Inr None)
          (\<lambda>conf. Inr \<lparr>te_event_type = event_type, te_text = text, te_dtmf_digits = dtmf, te_asr_confidence = conf,
             te_barge_in = (event_type = ''barge_in'' \<or> py_truthy (py_get raw ''barge_in'')),
             te_failed_provider = py_get_str raw ''failed_provider''\<rparr>))"

definition default_confidence :: pyfloat where
  "default_confidence = (95 / 100, ''0.95'')"

definition transcribe :: "telephony_event \<Rightarrow> asr_result result" where
  "transcribe event =
     (let c = (case te_asr_confidence event of None \<Rightarrow> default_confidence | Some c \<Rightarrow> c);
          c = (if fst c > 0 then c else (0, ''0.0''));
          c = (if fst c < 1 then c else (1, ''1.0''))
      in Inr \<lparr>ar_text = te_text event, ar_confidence = c\<rparr>)"

definition synthesize :: "string \<Rightarrow> string \<Rightarrow> string \<Rightarrow> string \<Rightarrow> string result" where
  "synthesize tenant_id call_id turn_id text = Inr (''deterministic://tts/'' @ call_id @ ''/'' @ turn_id)"

section \<open>Repository and identifiers\<close>

definition save_call :: "call_session \<Rightarrow> phone_state \<Rightarrow> phone_state" where
  "save_call call s = s\<lparr>ps_calls := dset (k_tenant_id call, k_call_id call) call (ps_calls s)\<rparr>"

definition get_call_row :: "string \<Rightarrow> string \<Rightarrow> phone_state \<Rightarrow> call_session option" where
  "get_call_row tenant_id call_id s = dget (ps_calls s) (tenant_id, call_id)"

definition list_call_rows :: "string \<Rightarrow> phone_state \<Rightarrow> call_session list" where
  "list_call_rows tenant_id s = map snd (filter (\<lambda>(k, c). fst k = tenant_id) (ps_calls s))"

definition save_handoff :: "handoff_package \<Rightarrow> phone_state \<Rightarrow> phone_state" where
  "save_handoff h s = s\<lparr>ps_handoffs := dset (h_tenant_id h, h_handoff_package_id h) h (ps_handoffs s)\<rparr>"

definition get_handoff_row :: "string \<Rightarrow> string \<Rightarrow> phone_state \<Rightarrow> handoff_package option" where
  "get_handoff_row tenant_id i s = dget (ps_handoffs s) (tenant_id, i)"

definition new_id :: "phone_env \<Rightarrow> string \<Rightarrow> phone_state \<Rightarrow> string" where
  "new_id env prefix s = prefix @ ''_'' @ pe_uuid env (ps_fresh s)"

definition tick :: "phone_state \<Rightarrow> phone_state" where
  "tick s = s\<lparr>ps_fresh := Suc (ps_fresh s)\<rparr>"

section \<open>Texts\<close>

definition blocked_approval_statuses :: "string set" where
  "blocked_approval_statuses = {''draft'', ''pending_review'', ''obsolete'', ''rejected''}"

definition min_answer_confidence :: rat where
  "min_answer_confidence = 2 / 10"

definition low_confidence_prompt :: string where
  "low_confidence_prompt = utf8 [0xE6, 0x81, 0x90, 0xE3, 0x82, 0x8C, 0xE5, 0x85, 0xA5, 0xE3, 0x82, 0x8A, 0xE3, 0x81, 0xBE, 0xE3, 0x81, 0x99, 0xE3, 0x80, 0x81, 0xE3, 0x81, 0x86, 0xE3, 0x81, 0xBE, 0xE3, 0x81, 0x8F, 0xE8, 0x81, 0x9E, 0xE3, 0x81, 0x8D, 0xE5, 0x8F, 0x96, 0xE3, 0x82, 0x8C, 0xE3, 0x81, 0xBE, 0xE3, 0x81, 0x9B, 0xE3, 0x82, 0x93, 0xE3, 0x81, 0xA7, 0xE3, 0x81, 0x97, 0xE3, 0x81, 0x9F, 0xE3, 0x80, 0x82, 0xE3, 0x82, 0x82, 0xE3, 0x81, 0x86, 0xE4, 0xB8, 0x80, 0xE5, 0xBA, 0xA6, 0xE3, 0x81, 0x8A, 0xE9, 0xA1, 0x98, 0xE3, 0x81, 0x84, 0xE3, 0x81, 0xA7, 0xE3, 0x81, 0x8D, 0xE3, 0x81, 0xBE, 0xE3, 0x81, 0x99, 0xE3, 0x81, 0x8B, 0xE3, 0x80, 0x82]"

definition handoff_notice :: string where
  "handoff_notice = utf8 [0xE6, 0x8B, 0x85, 0xE5, 0xBD, 0x93, 0xE8, 0x80, 0x85, 0xE3, 0x81, 0xAB, 0xE3, 0x81, 0x8A, 0xE3, 0x81, 0xA4, 0xE3, 0x81, 0xAA, 0xE3, 0x81, 0x8E, 0xE3, 0x81, 0x97, 0xE3, 0x81, 0xBE, 0xE3, 0x81, 0x99, 0xE3, 0x80, 0x82, 0xE3, 0x81, 0x93, 0xE3, 0x81, 0x93, 0xE3, 0x81, 0xBE, 0xE3, 0x81, 0xA7, 0xE3, 0x81, 0xAE, 0xE5, 0x86, 0x85, 0xE5, 0xAE, 0xB9, 0xE3, 0x82, 0x92, 0xE5, 0xBC, 0x95, 0xE3, 0x81, 0x8D, 0xE7, 0xB6, 0x99, 0xE3, 0x81, 0x8E, 0xE3, 0x81, 0xBE, 0xE3, 0x81, 0x99, 0xE3, 0x80, 0x82]"

definition insufficient_notice :: string where
  "insufficient_notice = utf8 [0xE6, 0x89, 0xBF, 0xE8, 0xAA, 0x8D, 0xE6, 0xB8, 0x88, 0xE3, 0x81, 0xBF, 0xE3, 0x81, 0xAE, 0xE6, 0x83, 0x85, 0xE5, 0xA0, 0xB1, 0xE3, 0x81, 0xA0, 0xE3, 0x81, 0x91, 0xE3, 0x81, 0xA7, 0xE3, 0x81, 0xAF, 0xE7, 0xA2, 0xBA, 0xE8, 0xAA, 0x8D, 0xE3, 0x81, 0xA7, 0xE3, 0x81, 0x8D, 0xE3, 0x81, 0xBE, 0xE3, 0x81, 0x9B, 0xE3, 0x82, 0x93, 0xE3, 0x81, 0xA7, 0xE3, 0x81, 0x97, 0xE3, 0x81, 0x9F, 0xE3, 0x80, 0x82, 0xE6, 0x8B, 0x85, 0xE5, 0xBD, 0x93, 0xE8, 0x80, 0x85, 0xE3, 0x81, 0xAB, 0xE3, 0x81, 0x8A, 0xE3, 0x81, 0xA4, 0xE3, 0x81, 0xAA, 0xE3, 0x81, 0x8E, 0xE3, 0x81, 0x97, 0xE3, 0x81, 0xBE, 0xE3, 0x81, 0x99, 0xE3, 0x80, 0x82]"

definition hold_notice :: string where
  "hold_notice = utf8 [0xE5, 0xB0, 0x91, 0xE3, 0x80, 0x85, 0xE3, 0x81, 0x8A, 0xE5, 0xBE, 0x85, 0xE3, 0x81, 0xA1, 0xE3, 0x81, 0x8F, 0xE3, 0x81, 0xA0, 0xE3, 0x81, 0x95, 0xE3, 0x81, 0x84, 0xE3, 0x80, 0x82, 0xE7, 0xA2, 0xBA, 0xE8, 0xAA, 0x8D, 0xE3, 0x81, 0x84, 0xE3, 0x81, 0x9F, 0xE3, 0x81, 0x97, 0xE3, 0x81, 0xBE, 0xE3, 0x81, 0x99, 0xE3, 0x80, 0x82]"

definition resume_notice :: string where
  "resume_notice = utf8 [0xE3, 0x81, 0x8A, 0xE5, 0xBE, 0x85, 0xE3, 0x81, 0x9F, 0xE3, 0x81, 0x9B, 0xE3, 0x81, 0x97, 0xE3, 0x81, 0xBE, 0xE3, 0x81, 0x97, 0xE3, 0x81, 0x9F, 0xE3, 0x80, 0x82]"

definition recording_disclosure :: string where
  "recording_disclosure = utf8 [0xE5, 0x93, 0x81, 0xE8, 0xB3, 0xAA, 0xE5, 0x90, 0x91, 0xE4, 0xB8, 0x8A, 0xE3, 0x81, 0xAE, 0xE3, 0x81, 0x9F, 0xE3, 0x82, 0x81, 0xE3, 0x80, 0x81, 0xE3, 0x81, 0x93, 0xE3, 0x81, 0xAE, 0xE9, 0x80, 0x9A, 0xE8, 0xA9, 0xB1, 0xE3, 0x81, 0xAF, 0xE8, 0xA8, 0x98, 0xE9, 0x8C, 0xB2, 0xE3, 0x81, 0x95, 0xE3, 0x82, 0x8C, 0xE3, 0x82, 0x8B, 0xE5, 0xA0, 0xB4, 0xE5, 0x90, 0x88, 0xE3, 0x81, 0x8C, 0xE3, 0x81, 0x82, 0xE3, 0x82, 0x8A, 0xE3, 0x81, 0xBE, 0xE3, 0x81, 0x99, 0xE3, 0x80, 0x82]"

definition intent_keywords :: words where
  "intent_keywords =
     [(''human_handoff'', [utf8 [0xE4, 0xBA, 0xBA, 0xE3, 0x81, 0xAB, 0xE3, 0x81, 0xA4, 0xE3, 0x81, 0xAA, 0xE3, 0x81, 0x84], utf8 [0xE4, 0xBA, 0xBA, 0xE3, 0x81, 0xAB, 0xE7, 0xB9, 0x8B, 0xE3, 0x81, 0x84], utf8 [0xE6, 0x8B, 0x85, 0xE5, 0xBD, 0x93, 0xE8, 0x80, 0x85], utf8 [0xE3, 0x82, 0xAA, 0xE3, 0x83, 0x9A, 0xE3, 0x83, 0xAC, 0xE3, 0x83, 0xBC, 0xE3, 0x82, 0xBF, 0xE3, 0x83, 0xBC], utf8 [0xE3, 0x82, 0xAA, 0xE3, 0x83, 0x9A, 0xE3, 0x83, 0xAC, 0xE3, 0x83, 0xBC, 0xE3, 0x82, 0xBF]]),
      (''business_hours'', [utf8 [0xE5, 0x96, 0xB6, 0xE6, 0xA5, 0xAD, 0xE6, 0x99, 0x82, 0xE9, 0x96, 0x93], utf8 [0xE4, 0xBD, 0x95, 0xE6, 0x99, 0x82, 0xE3, 0x81, 0xBE, 0xE3, 0x81, 0xA7], utf8 [0xE4, 0xBD, 0x95, 0xE6, 0x99, 0x82, 0xE3, 0x81, 0x8B, 0xE3, 0x82, 0x89], utf8 [0xE5, 0x96, 0xB6, 0xE6, 0xA5, 0xAD, 0xE6, 0x97, 0xA5], utf8 [0xE5, 0xAE, 0x9A, 0xE4, 0xBC, 0x91, 0xE6, 0x97, 0xA5]]),
      (''refund_cancellation'', [utf8 [0xE8, 0xBF, 0x94, 0xE9, 0x87, 0x91], utf8 [0xE8, 0xA7, 0xA3, 0xE7, 0xB4, 0x84], utf8 [0xE3, 0x82, 0xAD, 0xE3, 0x83, 0xA3, 0xE3, 0x83, 0xB3, 0xE3, 0x82, 0xBB, 0xE3, 0x83, 0xAB], utf8 [0xE9, 0x80, 0x80, 0xE4, 0xBC, 0x9A]]),
      (''pricing_plan'', [utf8 [0xE6, 0x96, 0x99, 0xE9, 0x87, 0x91], utf8 [0xE4, 0xBE, 0xA1, 0xE6, 0xA0, 0xBC], utf8 [0xE8, 0xB2, 0xBB, 0xE7, 0x94, 0xA8], utf8 [0xE3, 0x83, 0x97, 0xE3, 0x83, 0xA9, 0xE3, 0x83, 0xB3], utf8 [0xE5, 0x80, 0xA4, 0xE6, 0xAE, 0xB5], utf8 [0xE3, 0x81, 0x8A, 0xE8, 0xA6, 0x8B, 0xE7, 0xA9, 0x8D]]),
      (''reservation_order_status'', [utf8 [0xE4, 0xBA, 0x88, 0xE7, 0xB4, 0x84], utf8 [0xE6, 0xB3, 0xA8, 0xE6, 0x96, 0x87], utf8 [0xE9, 0x85, 0x8D, 0xE9, 0x80, 0x81], utf8 [0xE7, 0xB4, 0x8D, 0xE6, 0x9C, 0x9F], utf8 [0xE3, 0x82, 0xB9, 0xE3, 0x83, 0x86, 0xE3, 0x83, 0xBC, 0xE3, 0x82, 0xBF, 0xE3, 0x82, 0xB9], utf8 [0xE9, 0x80, 0xB2, 0xE6, 0x8D, 0x97], utf8 [0xE7, 0x8A, 0xB6, 0xE6, 0xB3, 0x81]]),
      (''document_request'', [utf8 [0xE8, 0xB3, 0x87, 0xE6, 0x96, 0x99], utf8 [0xE3, 0x82, 0xAB, 0xE3, 0x82, 0xBF, 0xE3, 0x83, 0xAD, 0xE3, 0x82, 0xB0], utf8 [0xE3, 0x83, 0x91, 0xE3, 0x83, 0xB3, 0xE3, 0x83, 0x95, 0xE3, 0x83, 0xAC, 0xE3, 0x83, 0x83, 0xE3, 0x83, 0x88], utf8 [0xE6, 0x9B, 0xB8, 0xE9, 0xA1, 0x9E], utf8 [0xE9, 0x80, 0x81, 0xE3, 0x81, 0xA3, 0xE3, 0x81, 0xA6, 0xE3, 0x81, 0x8F, 0xE3, 0x81, 0xA0, 0xE3, 0x81, 0x95, 0xE3, 0x81, 0x84], utf8 [0xE9, 0x80, 0x81, 0xE4, 0xBB, 0x98]]),
      (''complaint'', [utf8 [0xE3, 0x82, 0xAF, 0xE3, 0x83, 0xAC, 0xE3, 0x83, 0xBC, 0xE3, 0x83, 0xA0], utf8 [0xE8, 0x8B, 0xA6, 0xE6, 0x83, 0x85], utf8 [0xE4, 0xB8, 0x8D, 0xE6, 0xBA, 0x80]]),
      (''department_routing'', [utf8 [0xE9, 0x83, 0xA8, 0xE7, 0xBD, 0xB2], utf8 [0xE5, 0x96, 0xB6, 0xE6, 0xA5, 0xAD, 0xE9, 0x83, 0xA8], utf8 [0xE7, 0xB7, 0x8F, 0xE5, 0x8B, 0x99], utf8 [0xE7, 0xB5, 0x8C, 0xE7, 0x90, 0x86], utf8 [0xE7, 0xAA, 0x93, 0xE5, 0x8F, 0xA3], utf8 [0xE6, 0x8B, 0x85, 0xE5, 0xBD, 0x93, 0xE9, 0x83, 0xA8, 0xE9, 0x96, 0x80]])]"

definition mentions :: "string \<Rightarrow> string list \<Rightarrow> bool" where
  "mentions lowered keywords = list_ex (\<lambda>k. str_contains k lowered) keywords"

definition classify_intent :: "string \<Rightarrow> string option \<Rightarrow> words \<Rightarrow> string" where
  "classify_intent text current extras =
     (let lowered = py_lower text in
      case find (\<lambda>(intent, keywords). mentions lowered (keywords @ word_list extras intent)) intent_keywords of
        Some (intent, _) \<Rightarrow> intent
      | None \<Rightarrow>
          (case find (\<lambda>(intent, keywords). dget intent_keywords intent = None \<and> mentions lowered keywords) extras of
             Some (intent, _) \<Rightarrow> intent
           | None \<Rightarrow> (case current of Some (c # cs) \<Rightarrow> c # cs | _ \<Rightarrow> ''faq'')))"

definition lexicon_extras :: "phone_env \<Rightarrow> string \<Rightarrow> string \<Rightarrow> words" where
  "lexicon_extras env ns tenant_id =
     (case pe_lexicon env of
        None \<Rightarrow> []
      | Some entries \<Rightarrow> (case entries tenant_id ns of None \<Rightarrow> [] | Some d \<Rightarrow> d))"

definition lexicon_message :: "phone_env \<Rightarrow> string \<Rightarrow> string \<Rightarrow> string \<Rightarrow> string" where
  "lexicon_message env key tenant_id dflt =
     (case pe_lexicon env of
        None \<Rightarrow> dflt
      | Some entries \<Rightarrow>
          if tenant_id = [] then dflt
          else case entries tenant_id ''messages.phone'' of
            None \<Rightarrow> dflt
          | Some d \<Rightarrow> (case filter (\<lambda>t. t \<noteq> []) (map py_strip (word_list d key)) of [] \<Rightarrow> dflt | t # _ \<Rightarrow> t))"

section \<open>Turns as effects\<close>

type_synonym turn_ctx = "phone_state \<times> call_session"

type_synonym 'a turn = "turn_ctx \<Rightarrow> turn_ctx \<times> 'a result"

definition tret :: "'a \<Rightarrow> 'a turn" where
  "tret a x = (x, Inr a)"

definition tlift :: "'a result \<Rightarrow> 'a turn" where
  "tlift r x = (x, r)"

definition tbind :: "'a turn \<Rightarrow> ('a \<Rightarrow> 'b turn) \<Rightarrow> 'b turn" where
  "tbind m f x = (case m x of (y, Inl e) \<Rightarrow> (y, Inl e) | (y, Inr a) \<Rightarrow> f a y)"

definition tcall :: "call_session turn" where
  "tcall x = (x, Inr (snd x))"

definition tstate :: "phone_state turn" where
  "tstate x = (x, Inr (fst x))"

definition tupd :: "(call_session \<Rightarrow> call_session) \<Rightarrow> unit turn" where
  "tupd f x = ((fst x, f (snd x)), Inr ())"

definition tmove :: "phone_env \<Rightarrow> string \<Rightarrow> unit turn" where
  "tmove env tgt x =
     (case transition (pe_now env) tgt (snd x) of Inl e \<Rightarrow> (x, Inl e) | Inr call \<Rightarrow> ((fst x, call), Inr ()))"

section \<open>Records of a turn\<close>

definition turn_number :: "int \<Rightarrow> string" where
  "turn_number n = (let d = int_str n in ''turn_'' @ replicate (3 - length d) (CHR ''0'') @ d)"

definition blank_turn :: "phone_env \<Rightarrow> call_session \<Rightarrow> string \<Rightarrow> conversation_turn" where
  "blank_turn env call speaker =
     \<lparr>t_tenant_id = k_tenant_id call, t_call_id = k_call_id call, t_turn_id = turn_number (next_sequence_no call),
      t_sequence_no = next_sequence_no call, t_speaker = speaker, t_event_type = ''speech'',
      t_asr_text_redacted = None, t_asr_confidence = None, t_dtmf_digits = None, t_redacted_text = None,
      t_ai_action = None, t_ai_response_text = None, t_speech_text = None, t_tts_audio_ref = None,
      t_intent = None, t_sentiment = None, t_citations = [], t_safety_decision = None, t_handoff_reason = None,
      t_latency_ms = [], t_barge_in = False, t_created_at = pe_now env\<rparr>"

definition append_turn :: "conversation_turn \<Rightarrow> call_session \<Rightarrow> call_session" where
  "append_turn t call = call\<lparr>k_turns := k_turns call @ [t]\<rparr>"

definition updated_summary :: "call_session \<Rightarrow> string" where
  "updated_summary call =
     (let caller_lines = concat (map (\<lambda>t. if t_speaker t = ''caller'' then present (t_redacted_text t) else []) (k_turns call))
      in str_join '' / '' (drop (length caller_lines - 3) caller_lines))"

text \<open>The caller turn as it stands after the sentiment and the intent were set on it.\<close>

definition caller_turn ::
  "phone_env \<Rightarrow> telephony_event \<Rightarrow> asr_result \<Rightarrow> string option \<Rightarrow> string \<Rightarrow> call_session \<Rightarrow> conversation_turn" where
  "caller_turn env event asr intent sentiment call =
     (let redacted = fst (pe_redact_text env (ar_text asr)) in
      (blank_turn env call ''caller'')
        \<lparr>t_event_type := te_event_type event, t_asr_text_redacted := Some redacted,
         t_asr_confidence := Some (ar_confidence asr), t_dtmf_digits := none_if_empty (te_dtmf_digits event),
         t_redacted_text := Some redacted, t_barge_in := te_barge_in event,
         t_intent := intent, t_sentiment := Some sentiment\<rparr>)"

definition heard :: "phone_env \<Rightarrow> telephony_event \<Rightarrow> asr_result \<Rightarrow> string \<Rightarrow> string option \<Rightarrow> string \<Rightarrow> call_session \<Rightarrow> call_session" where
  "heard env event asr text intent sentiment call =
     (let call = (if snd (pe_redact_text env (ar_text asr))
                  then call\<lparr>k_transcript_redaction_status := ''redacted''\<rparr> else call);
          call = append_turn (caller_turn env event asr intent sentiment call) call;
          call = call\<lparr>k_summary := updated_summary call\<rparr>
      in case intent of
           Some i \<Rightarrow> if i \<noteq> ''human_handoff'' then call\<lparr>k_intent := Some i\<rparr> else call
         | None \<Rightarrow> call)"

definition no_time :: pyfloat where
  "no_time = (0, ''0.0'')"

definition ai_turn_record ::
  "phone_env \<Rightarrow> string \<Rightarrow> string \<Rightarrow> pyfloat \<Rightarrow> pyfloat \<Rightarrow> phone_citation_ref list \<Rightarrow> pydict option \<Rightarrow> string option \<Rightarrow>
     string \<Rightarrow> string \<Rightarrow> call_session \<Rightarrow> conversation_turn" where
  "ai_turn_record env action redacted asr_ms rag_ms citations safety handoff_reason trace_id audio_ref call =
     (let turn_id = turn_number (next_sequence_no call);
          latency = [(''asr'', float_val asr_ms), (''rag'', float_val rag_ms),
                     (''tts'', float_val (pe_timing env turn_id ''tts'')),
                     (''total'', float_val (pe_timing env turn_id ''total''))]
      in (blank_turn env call ''ai'')
           \<lparr>t_redacted_text := Some redacted, t_ai_action := Some action, t_ai_response_text := Some redacted,
            t_speech_text := Some (str_or (pe_render_for_voice env redacted) redacted),
            t_tts_audio_ref := Some audio_ref, t_intent := k_intent call, t_citations := citations,
            t_safety_decision := (case safety of Some [] \<Rightarrow> None | d \<Rightarrow> d),
            t_handoff_reason := handoff_reason,
            t_latency_ms := (if trace_id \<noteq> [] then latency @ [(''trace_id'', PStr trace_id)] else latency)\<rparr>)"

definition ai_turn ::
  "phone_env \<Rightarrow> string \<Rightarrow> string \<Rightarrow> pyfloat \<Rightarrow> pyfloat \<Rightarrow> phone_citation_ref list \<Rightarrow> pydict option \<Rightarrow> string option \<Rightarrow>
     string \<Rightarrow> conversation_turn turn" where
  "ai_turn env action text asr_ms rag_ms citations safety handoff_reason trace_id =
     tbind tcall (\<lambda>call.
       let redacted = fst (pe_redact_text env text);
           speech = str_or (pe_render_for_voice env redacted) redacted
       in tbind (tlift (pe_synthesize env (k_tenant_id call) (k_call_id call) (turn_number (next_sequence_no call)) speech))
            (\<lambda>audio_ref.
              let t = ai_turn_record env action redacted asr_ms rag_ms citations safety handoff_reason trace_id audio_ref call
              in tbind (tupd (append_turn t)) (\<lambda>_. tret t)))"

definition system_turn :: "phone_env \<Rightarrow> string \<Rightarrow> call_session \<Rightarrow> call_session" where
  "system_turn env text call = append_turn ((blank_turn env call ''system'')\<lparr>t_redacted_text := Some text\<rparr>) call"

definition envelope :: "identity_claims \<Rightarrow> string \<Rightarrow> pydict" where
  "envelope p correlation_id =
     [(''api_version'', PStr ''v1''), (''tenant_id'', PStr (id_tenant_id p)), (''correlation_id'', PStr correlation_id)]"

definition turn_payload ::
  "identity_claims \<Rightarrow> call_session \<Rightarrow> conversation_turn \<Rightarrow> handoff_package option \<Rightarrow> pydict" where
  "turn_payload p call t handoff =
     (let safety = (case t_safety_decision t of None \<Rightarrow> [] | Some d \<Rightarrow> d) in
      envelope p (k_correlation_id call) @
      [(''call_id'', PStr (k_call_id call)), (''turn_id'', PStr (t_turn_id t)), (''call_state'', PStr (k_state call)),
       (''ai_action'', opt_str (t_ai_action t)), (''ai_response_text'', opt_str (t_ai_response_text t)),
       (''speech_text'', opt_str (t_speech_text t)), (''tts_audio_ref'', opt_str (t_tts_audio_ref t)),
       (''citations'', PList (map (\<lambda>c. PDict (citation_public c)) (t_citations t))),
       (''handoff'', case handoff of
           None \<Rightarrow> PNone
         | Some h \<Rightarrow> PDict [(''handoff_package_id'', PStr (h_handoff_package_id h)), (''reason'', PStr (h_reason h)),
                          (''destination_type'', PStr (h_destination_type h)),
                          (''destination_id'', PStr (h_destination_id h)), (''status'', PStr (h_status h))]),
       (''safety'', PDict [(''answered_with_evidence'', PBool (py_truthy (py_get safety ''answered_with_evidence''))),
                         (''blocked_reason'', py_get safety ''blocked_reason'')])])"

definition reply :: "identity_claims \<Rightarrow> handoff_package option \<Rightarrow> conversation_turn turn \<Rightarrow> pydict turn" where
  "reply p handoff m = tbind m (\<lambda>t. tbind tcall (\<lambda>call. tret (turn_payload p call t handoff)))"

text \<open>An AI turn without citations, safety decision or measured stages.\<close>

definition say :: "phone_env \<Rightarrow> identity_claims \<Rightarrow> string \<Rightarrow> string \<Rightarrow> pyfloat \<Rightarrow> pydict turn" where
  "say env p action text asr_ms = reply p None (ai_turn env action text asr_ms no_time [] None None [])"

section \<open>Transfers\<close>

definition last_answer_citations :: "call_session \<Rightarrow> phone_citation_ref list" where
  "last_answer_citations call =
     (case find (\<lambda>t. t_speaker t = ''ai'' \<and> t_ai_action t = Some ''answer_with_citations'') (rev (k_turns call)) of
        None \<Rightarrow> [] | Some t \<Rightarrow> t_citations t)"

text \<open>The package of the call, or a new one. \<open>ps_dispatched\<close> collects what was handed to the provider.\<close>

definition existing_package :: "turn_ctx \<Rightarrow> handoff_package option" where
  "existing_package x =
     (case k_handoff_package_id (snd x) of
        Some (c # cs) \<Rightarrow> get_handoff_row (k_tenant_id (snd x)) (c # cs) (fst x)
      | _ \<Rightarrow> None)"

definition log_dispatch :: "phone_env \<Rightarrow> handoff_package \<Rightarrow> phone_state \<Rightarrow> phone_state" where
  "log_dispatch env draft s =
     (case pe_handoff_provider env of None \<Rightarrow> s | Some _ \<Rightarrow> s\<lparr>ps_dispatched := ps_dispatched s @ [draft]\<rparr>)"

definition open_package :: "phone_env \<Rightarrow> string \<Rightarrow> string option \<Rightarrow> bool \<Rightarrow> handoff_package turn" where
  "open_package env reason sentiment persist x =
     (case existing_package x of
        Some package \<Rightarrow> (x, Inr package)
      | None \<Rightarrow>
          let (s, call) = x;
              i = new_id env ''handoff'' s;
              citations = last_answer_citations call;
              draft = drafted_package i (pe_now env) reason sentiment citations None call;
              (call, package) = create_package (pe_handoff_provider env) i (pe_now env) reason sentiment citations None call;
              s = log_dispatch env draft (tick s)
          in ((if persist then save_handoff package s else s, call), Inr package))"

definition begin_transfer :: "phone_env \<Rightarrow> unit turn" where
  "begin_transfer env =
     tbind tcall (\<lambda>call.
       if k_state call \<in> {''active'', ''on_hold'', ''ringing''}
       then tbind (if k_state call = ''ringing'' then tmove env ''active'' else tret ())
              (\<lambda>_. tmove env ''handoff_pending'')
       else tret ())"

definition transfer_message :: "phone_env \<Rightarrow> string \<Rightarrow> string \<Rightarrow> scenario_version option \<Rightarrow> string" where
  "transfer_message env tenant_id reason version =
     (if reason = ''insufficient_evidence''
      then (case version of
              None \<Rightarrow> insufficient_notice
            | Some v \<Rightarrow> str_or (v_fallback_message v) insufficient_notice)
      else lexicon_message env ''handoff_announce'' tenant_id handoff_notice)"

definition handoff_safety :: "string option \<Rightarrow> string \<Rightarrow> pydict" where
  "handoff_safety blocked_reason reason =
     [(''answered_with_evidence'', PBool False),
      (''blocked_reason'',
         case blocked_reason of
           Some (c # cs) \<Rightarrow> PStr (c # cs)
         | _ \<Rightarrow> if reason = ''insufficient_evidence'' then PStr reason else PNone)]"

definition handoff_turn ::
  "phone_env \<Rightarrow> identity_claims \<Rightarrow> string \<Rightarrow> string option \<Rightarrow> scenario_version option \<Rightarrow> string option \<Rightarrow> bool \<Rightarrow> pydict turn" where
  "handoff_turn env p reason sentiment version blocked_reason persist =
     tbind (open_package env reason sentiment persist) (\<lambda>package.
     tbind (begin_transfer env) (\<lambda>_.
     tbind tcall (\<lambda>call.
       reply p (Some package)
         (ai_turn env ''handoff'' (transfer_message env (k_tenant_id call) reason version) no_time no_time []
            (Some (handoff_safety blocked_reason reason)) (Some reason) []))))"

section \<open>Answers\<close>

definition citation_ref :: "phone_env \<Rightarrow> pydict \<Rightarrow> string option \<Rightarrow> phone_citation_ref result" where
  "citation_ref env c approval =
     rbind (py_float (pe_parse_float env) (pe_float_repr env) (py_or (py_get c ''retrieval_score'') (PFloat 0 ''0.0''))) (\<lambda>score.
       Inr \<lparr>pc_source_id = py_get_str c ''source_id'', pc_document_id = py_get_str c ''document_id'',
            pc_chunk_id = py_get_str c ''chunk_id'',
            pc_version = (if py_get c ''version'' \<noteq> PNone then Some (py_str (py_get c ''version'')) else None),
            pc_retrieval_score = score, pc_approval_status = approval,
            pc_effective_date = (if py_truthy (py_get c ''effective_date'') then Some (py_str (py_get c ''effective_date'')) else None),
            pc_snippet_redacted = None\<rparr>)"

definition approval_of :: "pydict \<Rightarrow> string option" where
  "approval_of c =
     (let approval = py_get c ''approval_status''
      in if py_truthy approval then Some (py_lower (py_str approval)) else None)"

definition is_blocked :: "string option \<Rightarrow> bool" where
  "is_blocked approval \<longleftrightarrow> (case approval of None \<Rightarrow> False | Some a \<Rightarrow> a \<in> blocked_approval_statuses)"

fun phone_citations :: "phone_env \<Rightarrow> pyval list \<Rightarrow> (phone_citation_ref list \<times> bool) result" where
  "phone_citations env [] = Inr ([], False)"
| "phone_citations env (PDict c # cs) =
     (if is_blocked (approval_of c)
      then rbind (phone_citations env cs) (\<lambda>(refs, _). Inr (refs, True))
      else rbind (citation_ref env c (approval_of c)) (\<lambda>ref.
           rbind (phone_citations env cs) (\<lambda>(refs, dropped). Inr (ref # refs, dropped))))"
| "phone_citations env (_ # cs) = Inl AttributeError"

record gateway_reply =
  gr_status :: string
  gr_citations :: "phone_citation_ref list"
  gr_dropped :: bool
  gr_manufacturing :: pydict
  gr_answerable :: bool

definition read_response :: "phone_env \<Rightarrow> pydict \<Rightarrow> gateway_reply result" where
  "read_response env response =
     (let status = py_str (py_or (py_get response ''status'') (PStr ''temporarily_unavailable'')) in
      rbind (py_iter (py_or (py_get response ''citations'') (PList []))) (\<lambda>raw.
      rbind (phone_citations env raw) (\<lambda>(citations, dropped).
      rbind (py_dict (py_or (py_get response ''manufacturing'') (PDict []))) (\<lambda>manufacturing.
      rbind (if status = ''ok'' \<and> citations \<noteq> [] \<and> py_truthy (py_get response ''text'')
             then if py_get response ''confidence'' = PNone then Inr True
                  else rbind (py_float (pe_parse_float env) (pe_float_repr env) (py_get response ''confidence''))
                         (\<lambda>c. Inr (fst c \<ge> min_answer_confidence))
             else Inr False) (\<lambda>answerable.
        Inr \<lparr>gr_status = status, gr_citations = citations, gr_dropped = dropped, gr_manufacturing = manufacturing,
             gr_answerable = answerable\<rparr>)))))"

definition blocked_reason_of :: "gateway_reply \<Rightarrow> string" where
  "blocked_reason_of g =
     (if gr_status g = ''ok'' \<and> gr_dropped g \<and> gr_citations g = [] then ''stale_or_unapproved_evidence''
      else py_str (py_or (py_or (py_get (gr_manufacturing g) ''safety_block_reason'') (PStr (gr_status g)))
                     (PStr ''insufficient_evidence'')))"

definition answer_speech :: "pydict \<Rightarrow> gateway_reply \<Rightarrow> string" where
  "answer_speech response g =
     (let speech = py_strip (py_get_str response ''text'');
          notice = py_get_str (gr_manufacturing g) ''notice''
      in if notice \<noteq> [] then speech @ [CHR 0x0A] @ notice else speech)"

definition rag_turn ::
  "phone_env \<Rightarrow> identity_claims \<Rightarrow> string \<Rightarrow> pyval \<Rightarrow> pyfloat \<Rightarrow> scenario_version option \<Rightarrow> string \<Rightarrow> bool \<Rightarrow> pydict turn" where
  "rag_turn env p text collection_id asr_ms version sentiment persist =
     (case pe_answer env p text collection_id of
        Inl _ \<Rightarrow> handoff_turn env p ''provider_failure'' (Some sentiment) version None persist
      | Inr response \<Rightarrow>
          tbind (tlift (read_response env response)) (\<lambda>g.
            if gr_answerable g
            then tbind tcall (\<lambda>call.
              reply p None (ai_turn env ''answer_with_citations'' (answer_speech response g) asr_ms
                (pe_timing env (turn_number (next_sequence_no call)) ''rag'') (gr_citations g)
                (Some [(''answered_with_evidence'', PBool True), (''blocked_reason'', PNone),
                       (''high_risk'', PBool (py_truthy (py_get (gr_manufacturing g) ''high_risk'')))])
                None (py_get_str response ''correlation_id'')))
            else handoff_turn env p ''insufficient_evidence'' (Some sentiment) version (Some (blocked_reason_of g)) persist))"

definition provider_failure_turn ::
  "phone_env \<Rightarrow> identity_claims \<Rightarrow> telephony_event \<Rightarrow> scenario_version option \<Rightarrow> bool \<Rightarrow> pydict turn" where
  "provider_failure_turn env p event version persist =
     (if str_or (te_failed_provider event) ''telephony'' \<in> {''asr'', ''tts''}
      then say env p ''fallback''
             (case version of None \<Rightarrow> default_fallback_message | Some v \<Rightarrow> v_fallback_message v) no_time
      else handoff_turn env p ''provider_failure'' (Some ''unknown'') version None persist)"

section \<open>Slots\<close>

definition slot_value :: "phone_env \<Rightarrow> string \<Rightarrow> string" where
  "slot_value env text = (case pe_identifier env text of Some m \<Rightarrow> m | None \<Rightarrow> py_strip text)"

definition slot_prompt :: "scenario_version option \<Rightarrow> string \<Rightarrow> string" where
  "slot_prompt version slot =
     (let dflt = slot @ utf8 [0x20, 0xE3, 0x82, 0x92, 0xE6, 0x95, 0x99, 0xE3, 0x81, 0x88, 0xE3, 0x81, 0xA6, 0xE3, 0x81, 0x8F, 0xE3, 0x81, 0xA0, 0xE3, 0x81, 0x95, 0xE3, 0x81, 0x84, 0xE3, 0x80, 0x82] in
      case version of
        None \<Rightarrow> dflt
      | Some v \<Rightarrow>
          (case find (\<lambda>item. py_get_str item ''slot'' = slot \<and> py_truthy (py_get item ''prompt'')) (v_required_slots v) of
             None \<Rightarrow> dflt
           | Some item \<Rightarrow> py_str (py_get item ''prompt'')))"

text \<open>The awaited slot takes the value of the utterance.\<close>

definition fill_slot :: "phone_env \<Rightarrow> string \<Rightarrow> string \<Rightarrow> call_session \<Rightarrow> call_session" where
  "fill_slot env slot v call =
     (if v = [] then call
      else call\<lparr>k_collected_slots := dset slot (fst (pe_redact_text env v)) (k_collected_slots call),
                k_missing_slots := filter (\<lambda>s. s \<noteq> slot) (k_missing_slots call), k_awaiting_slot := None\<rparr>)"

definition ask_slot :: "phone_env \<Rightarrow> identity_claims \<Rightarrow> scenario_version option \<Rightarrow> pyfloat \<Rightarrow> pydict turn" where
  "ask_slot env p version asr_ms =
     tbind tcall (\<lambda>call.
       let slot = hd (k_missing_slots call) in
       tbind (tupd (\<lambda>c. c\<lparr>k_awaiting_slot := Some slot\<rparr>)) (\<lambda>_.
         say env p ''ask_clarification'' (slot_prompt version slot) asr_ms))"

text \<open>Either the turn ends with a prompt, or the dialogue goes on with a query.\<close>

definition slot_turn ::
  "phone_env \<Rightarrow> identity_claims \<Rightarrow> telephony_event \<Rightarrow> string \<Rightarrow> scenario_version option \<Rightarrow> pyfloat \<Rightarrow> (pydict + string) turn" where
  "slot_turn env p event text version asr_ms =
     tbind tcall (\<lambda>call.
       if k_missing_slots call = [] then tret (Inr text)
       else case k_awaiting_slot call of
         Some (c # cs) \<Rightarrow>
           tbind (tupd (fill_slot env (c # cs) (str_or (te_dtmf_digits event) (slot_value env text)))) (\<lambda>_.
           tbind tcall (\<lambda>call.
             if k_missing_slots call \<noteq> [] then tbind (ask_slot env p version asr_ms) (\<lambda>d. tret (Inl d))
             else case k_pending_query call of
               Some (d # ds) \<Rightarrow> tbind (tupd (\<lambda>c. c\<lparr>k_pending_query := None\<rparr>)) (\<lambda>_. tret (Inr (d # ds)))
             | _ \<Rightarrow> tret (Inr text)))
       | _ \<Rightarrow>
           tbind (tupd (\<lambda>c. c\<lparr>k_pending_query := (if text \<noteq> [] then Some text else k_pending_query c)\<rparr>)) (\<lambda>_.
           tbind (ask_slot env p version asr_ms) (\<lambda>d. tret (Inl d))))"

section \<open>The turn\<close>

definition enabled_reasons :: "scenario_version option \<Rightarrow> string set" where
  "enabled_reasons version =
     (case version of
        None \<Rightarrow> {}
      | Some v \<Rightarrow> set (map (\<lambda>c. py_get_str c ''reason'')
          (filter (\<lambda>c. case dget c ''enabled'' of None \<Rightarrow> True | Some e \<Rightarrow> py_truthy e) (v_handoff_conditions v))))"

definition has_answer :: "call_session \<Rightarrow> bool" where
  "has_answer call \<longleftrightarrow> list_ex (\<lambda>t. t_speaker t = ''ai'' \<and> t_ai_action t = Some ''answer_with_citations'') (k_turns call)"

definition closing_message :: string where
  "closing_message = utf8 [0xE3, 0x81, 0x8A, 0xE9, 0x9B, 0xBB, 0xE8, 0xA9, 0xB1, 0xE3, 0x81, 0x82, 0xE3, 0x82, 0x8A, 0xE3, 0x81, 0x8C, 0xE3, 0x81, 0xA8, 0xE3, 0x81, 0x86, 0xE3, 0x81, 0x94, 0xE3, 0x81, 0x96, 0xE3, 0x81, 0x84, 0xE3, 0x81, 0xBE, 0xE3, 0x81, 0x97, 0xE3, 0x81, 0x9F, 0xE3, 0x80, 0x82]"

definition hangup_turn :: "phone_env \<Rightarrow> identity_claims \<Rightarrow> pydict turn" where
  "hangup_turn env p =
     tbind tcall (\<lambda>call.
     tbind (tmove env (if k_state call = ''handoff_pending'' then ''abandoned''
                       else if has_answer call then ''completed'' else ''abandoned'')) (\<lambda>_.
       say env p ''end_call''
         (lexicon_message env ''closing'' (k_tenant_id call) closing_message) no_time))"

definition moved_turn :: "phone_env \<Rightarrow> identity_claims \<Rightarrow> string \<Rightarrow> string \<Rightarrow> string \<Rightarrow> pydict turn" where
  "moved_turn env p tgt key dflt =
     tbind (tmove env tgt) (\<lambda>_. tbind tcall (\<lambda>call.
       say env p ''fallback'' (lexicon_message env key (k_tenant_id call) dflt) no_time))"

definition dtmf_notice :: string where
  "dtmf_notice = utf8 [0xE7, 0x95, 0xAA, 0xE5, 0x8F, 0xB7, 0xE3, 0x82, 0x92, 0xE5, 0x8F, 0x97, 0xE3, 0x81, 0x91, 0xE4, 0xBB, 0x98, 0xE3, 0x81, 0x91, 0xE3, 0x81, 0xBE, 0xE3, 0x81, 0x97, 0xE3, 0x81, 0x9F, 0xE3, 0x80, 0x82, 0xE3, 0x81, 0x94, 0xE7, 0x94, 0xA8, 0xE4, 0xBB, 0xB6, 0xE3, 0x82, 0x92, 0xE3, 0x81, 0x8A, 0xE8, 0xA9, 0xB1, 0xE3, 0x81, 0x97, 0xE3, 0x81, 0x8F, 0xE3, 0x81, 0xA0, 0xE3, 0x81, 0x95, 0xE3, 0x81, 0x84, 0xE3, 0x80, 0x82]"

definition transfer_or ::
  "phone_env \<Rightarrow> identity_claims \<Rightarrow> string \<Rightarrow> string \<Rightarrow> asr_result \<Rightarrow> scenario_version option \<Rightarrow> bool \<Rightarrow> pydict turn \<Rightarrow> pydict turn" where
  "transfer_or env p text sentiment asr version persist go_on =
     tbind tcall (\<lambda>call.
       case pre_rag_reason (pe_rules env) call text (Some (fst (ar_confidence asr))) (enabled_reasons version) of
         Some reason \<Rightarrow> handoff_turn env p reason (Some sentiment) version None persist
       | None \<Rightarrow> go_on)"

definition ask_again :: "phone_env \<Rightarrow> identity_claims \<Rightarrow> pyfloat \<Rightarrow> pydict turn" where
  "ask_again env p asr_ms =
     tbind (tupd (\<lambda>c. c\<lparr>k_clarification_count := k_clarification_count c + 1\<rparr>)) (\<lambda>_.
       say env p ''ask_clarification'' low_confidence_prompt asr_ms)"

definition go_on_with ::
  "phone_env \<Rightarrow> identity_claims \<Rightarrow> telephony_event \<Rightarrow> pyval \<Rightarrow> scenario_version option \<Rightarrow> bool \<Rightarrow> pyfloat \<Rightarrow> string \<Rightarrow>
     pydict + string \<Rightarrow> pydict turn" where
  "go_on_with env p event collection_id version persist asr_ms sentiment r =
     (case r of
        Inl payload \<Rightarrow> tret payload
      | Inr text \<Rightarrow>
          if te_event_type event = ''dtmf'' then say env p ''ask_clarification'' dtmf_notice asr_ms
          else rag_turn env p text collection_id asr_ms version sentiment persist)"

definition spoken_turn ::
  "phone_env \<Rightarrow> identity_claims \<Rightarrow> telephony_event \<Rightarrow> pyval \<Rightarrow> scenario_version option \<Rightarrow> bool \<Rightarrow> pydict turn" where
  "spoken_turn env p event collection_id version persist =
     tbind (tlift (pe_transcribe env event)) (\<lambda>asr.
     tbind tcall (\<lambda>call.
       let asr_ms = pe_timing env (turn_number (next_sequence_no call)) ''asr'';
           text = py_strip (ar_text asr);
           sentiment = detect_sentiment text;
           intent = (if text \<noteq> [] then Some (classify_intent text (k_intent call)
                       (lexicon_extras env ''phone.intents'' (id_tenant_id p))) else None)
       in tbind (tupd (heard env event asr text intent sentiment)) (\<lambda>_.
          if te_event_type event \<noteq> ''dtmf'' \<and> fst (ar_confidence asr) < hr_low_asr_confidence (pe_rules env)
          then tbind (tupd (\<lambda>c. c\<lparr>k_low_confidence_count := k_low_confidence_count c + 1\<rparr>)) (\<lambda>_.
               transfer_or env p text sentiment asr version persist (ask_again env p asr_ms))
          else transfer_or env p text sentiment asr version persist
                 (tbind (slot_turn env p event text version asr_ms)
                    (go_on_with env p event collection_id version persist asr_ms sentiment)))))"

definition execute_turn ::
  "phone_env \<Rightarrow> identity_claims \<Rightarrow> pydict \<Rightarrow> pyval \<Rightarrow> scenario_version option \<Rightarrow> bool \<Rightarrow> pydict turn" where
  "execute_turn env p raw collection_id scenario_version persist =
     tbind (tlift (pe_normalize_event env raw)) (\<lambda>event.
     tbind tstate (\<lambda>s.
     tbind tcall (\<lambda>call.
       let version = (case scenario_version of
                        Some v \<Rightarrow> Some v
                      | None \<Rightarrow> resolve_for_call (k_tenant_id call) (k_scenario_id call) (ps_scenarios s))
       in if te_event_type event = ''provider_failure'' then provider_failure_turn env p event version persist
          else if te_event_type event = ''hangup'' then hangup_turn env p
          else if te_event_type event = ''hold'' then moved_turn env p ''on_hold'' ''hold_notice'' hold_notice
          else if te_event_type event = ''resume'' then moved_turn env p ''active'' ''resume_notice'' resume_notice
          else spoken_turn env p event collection_id version persist)))"

section \<open>What a turn may change\<close>

text \<open>A call is well formed: its state, end and resolution agree; its turns are numbered from 1 and carry the
  identifiers of the call; and an AI turn that asserts an answer carries evidence, none of it blocked.\<close>

definition grounded :: "conversation_turn \<Rightarrow> bool" where
  "grounded t \<longleftrightarrow> (t_ai_action t = Some ''answer_with_citations'' \<longrightarrow>
     t_citations t \<noteq> [] \<and> list_all (\<lambda>c. \<not> is_blocked (pc_approval_status c)) (t_citations t))"

definition numbered :: "call_session \<Rightarrow> bool" where
  "numbered call \<longleftrightarrow> map t_sequence_no (k_turns call) = map (\<lambda>i. int i + 1) [0..<length (k_turns call)] \<and>
     list_all (\<lambda>t. t_tenant_id t = k_tenant_id call \<and> t_call_id t = k_call_id call) (k_turns call)"

definition call_ok :: "call_session \<Rightarrow> bool" where
  "call_ok call \<longleftrightarrow> call_sound call \<and> numbered call \<and> list_all grounded (k_turns call)"

text \<open>A call that waits for an operator has its package in the repository.\<close>

definition pending_ok :: "turn_ctx \<Rightarrow> bool" where
  "pending_ok x \<longleftrightarrow> (k_state (snd x) = ''handoff_pending'' \<longrightarrow> existing_package x \<noteq> None)"

definition handoffs_keyed :: "phone_state \<Rightarrow> bool" where
  "handoffs_keyed s \<longleftrightarrow> (\<forall>k h. dget (ps_handoffs s) k = Some h \<longrightarrow> k = (h_tenant_id h, h_handoff_package_id h))"

lemma handoffs_keyed_save: "handoffs_keyed s \<Longrightarrow> handoffs_keyed (save_handoff h s)"
  by (auto simp: handoffs_keyed_def save_handoff_def dget_dset)

definition turn_frame :: "bool \<Rightarrow> turn_ctx \<Rightarrow> turn_ctx \<Rightarrow> bool" where
  "turn_frame persist x y \<longleftrightarrow>
     k_tenant_id (snd y) = k_tenant_id (snd x) \<and> k_call_id (snd y) = k_call_id (snd x) \<and>
     (call_ok (snd x) \<longrightarrow> call_ok (snd y)) \<and>
     (persist \<and> pending_ok x \<longrightarrow> pending_ok y) \<and>
     (handoffs_keyed (fst x) \<longrightarrow> handoffs_keyed (fst y)) \<and>
     ps_calls (fst y) = ps_calls (fst x) \<and> ps_scenarios (fst y) = ps_scenarios (fst x) \<and>
     ps_quality (fst y) = ps_quality (fst x) \<and> ps_audit (fst y) = ps_audit (fst x) \<and>
     (\<not> persist \<longrightarrow> ps_handoffs (fst y) = ps_handoffs (fst x)) \<and>
     (\<forall>k. dget (ps_handoffs (fst x)) k \<noteq> None \<longrightarrow> dget (ps_handoffs (fst y)) k \<noteq> None) \<and>
     (\<forall>t i. t \<noteq> k_tenant_id (snd x) \<longrightarrow> dget (ps_handoffs (fst y)) (t, i) = dget (ps_handoffs (fst x)) (t, i))"

definition framed :: "bool \<Rightarrow> 'a turn \<Rightarrow> bool" where
  "framed persist m \<longleftrightarrow> (\<forall>x. turn_frame persist x (fst (m x)))"

named_theorems framed_rules \<open>a turn stays in its frame\<close>

lemma turn_frame_refl: "turn_frame persist x x"
  by (simp add: turn_frame_def)

lemma turn_frame_trans: "turn_frame persist x y \<Longrightarrow> turn_frame persist y z \<Longrightarrow> turn_frame persist x z"
  by (simp add: turn_frame_def)

lemma framed_bind [framed_rules]:
  assumes "framed persist m" "\<And>a. framed persist (f a)"
  shows "framed persist (tbind m f)"
  unfolding framed_def
proof
  fix x
  show "turn_frame persist x (fst (tbind m f x))"
  proof (cases "m x")
    case (Pair y r)
    have "turn_frame persist x y" using assms(1) Pair unfolding framed_def by (metis fst_conv)
    moreover have "turn_frame persist y (fst (f a y))" for a using assms(2) unfolding framed_def by blast
    ultimately show ?thesis using Pair by (auto simp: tbind_def split: sum.splits intro: turn_frame_trans)
  qed
qed

lemma framed_basic [framed_rules]:
  "framed persist (tret a)" "framed persist (tlift r)" "framed persist tcall" "framed persist tstate"
  by (simp_all add: framed_def tret_def tlift_def tcall_def tstate_def turn_frame_refl)

lemma framed_if [framed_rules]:
  "framed persist m \<Longrightarrow> framed persist n \<Longrightarrow> framed persist (if b then m else n)"
  by simp

lemma framed_option [framed_rules]:
  "framed persist m \<Longrightarrow> (\<And>a. framed persist (f a)) \<Longrightarrow> framed persist (case v of None \<Rightarrow> m | Some a \<Rightarrow> f a)"
  by (cases v) auto

lemma framed_sum [framed_rules]:
  "(\<And>a. framed persist (f a)) \<Longrightarrow> (\<And>a. framed persist (g a)) \<Longrightarrow> framed persist (case v of Inl a \<Rightarrow> f a | Inr a \<Rightarrow> g a)"
  by (cases v) auto

lemma framed_prod [framed_rules]:
  "(\<And>a b. framed persist (f a b)) \<Longrightarrow> framed persist (case x of (a, b) \<Rightarrow> f a b)"
  by (cases x) auto

lemma framed_nonempty [framed_rules]:
  "framed persist n \<Longrightarrow> (\<And>c cs. framed persist (f c cs)) \<Longrightarrow>
     framed persist (case v of Some (c # cs) \<Rightarrow> f c cs | _ \<Rightarrow> n)"
  by (auto split: option.splits list.splits)

text \<open>Updates of the call that keep its identity, state, end, resolution, package and turns.\<close>

definition harmless :: "(call_session \<Rightarrow> call_session) \<Rightarrow> bool" where
  "harmless f \<longleftrightarrow> (\<forall>c. k_tenant_id (f c) = k_tenant_id c \<and> k_call_id (f c) = k_call_id c \<and> k_state (f c) = k_state c \<and>
     k_ended_at (f c) = k_ended_at c \<and> k_resolution_status (f c) = k_resolution_status c \<and>
     k_handoff_package_id (f c) = k_handoff_package_id c \<and> k_turns (f c) = k_turns c)"

lemma call_ok_cong:
  assumes "k_tenant_id d = k_tenant_id c" "k_call_id d = k_call_id c" "k_state d = k_state c"
    "k_ended_at d = k_ended_at c" "k_resolution_status d = k_resolution_status c" "k_turns d = k_turns c"
  shows "call_ok d = call_ok c"
  using assms by (simp add: call_ok_def call_sound_def numbered_def)

lemma existing_package_cong:
  "k_tenant_id d = k_tenant_id c \<Longrightarrow> k_handoff_package_id d = k_handoff_package_id c \<Longrightarrow>
     existing_package (s, d) = existing_package (s, c)"
  by (simp add: existing_package_def split: option.splits list.splits)

lemma framed_harmless [framed_rules]: "harmless f \<Longrightarrow> framed persist (tupd f)"
  unfolding framed_def
proof
  fix x :: turn_ctx
  assume h: "harmless f"
  obtain s c where x: "x = (s, c)" by (cases x)
  have same: "k_tenant_id (f c) = k_tenant_id c" "k_call_id (f c) = k_call_id c" "k_state (f c) = k_state c"
    "k_ended_at (f c) = k_ended_at c" "k_resolution_status (f c) = k_resolution_status c"
    "k_handoff_package_id (f c) = k_handoff_package_id c" "k_turns (f c) = k_turns c"
    using h by (simp_all add: harmless_def)
  from call_ok_cong [OF same(1-5,7)] existing_package_cong [OF same(1,6), of s] same
  show "turn_frame persist x (fst (tupd f x))"
    by (simp add: x tupd_def turn_frame_def pending_ok_def)
qed

lemma call_ok_append:
  assumes "call_ok c" "grounded t" "t_sequence_no t = next_sequence_no c" "t_tenant_id t = k_tenant_id c" "t_call_id t = k_call_id c"
  shows "call_ok (append_turn t c)"
  using assms by (simp add: call_ok_def append_turn_def call_sound_def numbered_def next_sequence_no_def)

lemma append_turn_fields [simp]:
  "k_tenant_id (append_turn t c) = k_tenant_id c" "k_call_id (append_turn t c) = k_call_id c"
  "k_state (append_turn t c) = k_state c" "k_ended_at (append_turn t c) = k_ended_at c"
  "k_resolution_status (append_turn t c) = k_resolution_status c"
  "k_handoff_package_id (append_turn t c) = k_handoff_package_id c" "k_turns (append_turn t c) = k_turns c @ [t]"
  by (simp_all add: append_turn_def)

lemma blank_turn_fields [simp]:
  "t_sequence_no (blank_turn env c sp) = next_sequence_no c" "t_tenant_id (blank_turn env c sp) = k_tenant_id c"
  "t_call_id (blank_turn env c sp) = k_call_id c" "t_ai_action (blank_turn env c sp) = None"
  by (simp_all add: blank_turn_def)

lemma framed_append:
  assumes "\<And>s c. fst (m (s, c)) = (s, c) \<or> (\<exists>t. fst (m (s, c)) = (s, append_turn t c) \<and> grounded t \<and>
     t_sequence_no t = next_sequence_no c \<and> t_tenant_id t = k_tenant_id c \<and> t_call_id t = k_call_id c)"
  shows "framed persist m"
  unfolding framed_def
proof
  fix x :: turn_ctx
  obtain s c where x: "x = (s, c)" by (cases x)
  from assms [of s c] show "turn_frame persist x (fst (m x))"
  proof (elim disjE exE conjE)
    fix t
    assume "fst (m (s, c)) = (s, append_turn t c)" "grounded t" "t_sequence_no t = next_sequence_no c"
      "t_tenant_id t = k_tenant_id c" "t_call_id t = k_call_id c"
    with call_ok_append [of c t] existing_package_cong [of "append_turn t c" c s]
    show ?thesis by (simp add: x turn_frame_def pending_ok_def)
  qed (simp add: x turn_frame_refl)
qed

lemma ai_turn_record_fields [simp]:
  "t_sequence_no (ai_turn_record env action red a r cites safety reason trace ref c) = next_sequence_no c"
  "t_tenant_id (ai_turn_record env action red a r cites safety reason trace ref c) = k_tenant_id c"
  "t_call_id (ai_turn_record env action red a r cites safety reason trace ref c) = k_call_id c"
  "t_ai_action (ai_turn_record env action red a r cites safety reason trace ref c) = Some action"
  "t_citations (ai_turn_record env action red a r cites safety reason trace ref c) = cites"
  by (simp_all add: ai_turn_record_def Let_def)

lemma ai_turn_effect:
  "ai_turn env action text a r cites safety reason trace (s, c) =
     (let red = fst (pe_redact_text env text) in
      case pe_synthesize env (k_tenant_id c) (k_call_id c) (turn_number (next_sequence_no c))
             (str_or (pe_render_for_voice env red) red) of
        Inl e \<Rightarrow> ((s, c), Inl e)
      | Inr ref \<Rightarrow>
          let t = ai_turn_record env action red a r cites safety reason trace ref c in ((s, append_turn t c), Inr t))"
  by (simp add: ai_turn_def tbind_def tcall_def tlift_def tupd_def tret_def Let_def split: sum.splits)

lemma framed_ai_turn [framed_rules]:
  assumes "action = ''answer_with_citations'' \<Longrightarrow> cites \<noteq> [] \<and> list_all (\<lambda>c. \<not> is_blocked (pc_approval_status c)) cites"
  shows "framed persist (ai_turn env action text a r cites safety reason trace)"
proof (rule framed_append)
  fix s c
  have "grounded (ai_turn_record env action red a r cites safety reason trace ref c)" for red ref
    using assms by (simp add: grounded_def)
  then show "fst (ai_turn env action text a r cites safety reason trace (s, c)) = (s, c) \<or>
    (\<exists>t. fst (ai_turn env action text a r cites safety reason trace (s, c)) = (s, append_turn t c) \<and> grounded t \<and>
       t_sequence_no t = next_sequence_no c \<and> t_tenant_id t = k_tenant_id c \<and> t_call_id t = k_call_id c)"
    by (auto simp only: ai_turn_effect Let_def ai_turn_record_fields fst_conv split: sum.splits)
qed

lemma framed_tmove [framed_rules]:
  assumes "tgt \<noteq> ''handoff_pending''"
  shows "framed persist (tmove env tgt)"
  unfolding framed_def
proof
  fix x :: turn_ctx
  obtain s c where x: "x = (s, c)" by (cases x)
  show "turn_frame persist x (fst (tmove env tgt x))"
  proof (cases "transition (pe_now env) tgt c")
    case (Inl e)
    then show ?thesis by (simp add: x tmove_def turn_frame_refl)
  next
    case (Inr c')
    from Inr have c': "k_state c' = tgt" "k_turns c' = k_turns c" "k_tenant_id c' = k_tenant_id c" "k_call_id c' = k_call_id c"
      by (simp_all add: transition_Inr_iff)
    have "call_sound c'" if "call_sound c" using call_sound_transition [OF that Inr] .
    with c' have "call_ok c'" if "call_ok c" using that by (simp add: call_ok_def numbered_def)
    with Inr c' assms show ?thesis by (simp add: x tmove_def turn_frame_def pending_ok_def)
  qed
qed

lemma open_package_new:
  assumes "existing_package (s, c) = None"
    and "create_package (pe_handoff_provider env) (new_id env ''handoff'' s) (pe_now env) reason sentiment
       (last_answer_citations c) None c = (c', package)"
  shows "open_package env reason sentiment persist (s, c) =
    (let s' = log_dispatch env (drafted_package (new_id env ''handoff'' s) (pe_now env) reason sentiment
                    (last_answer_citations c) None c) (tick s)
     in ((if persist then save_handoff package s' else s', c'), Inr package))"
  using assms by (simp add: open_package_def Let_def)

lemma log_dispatch_frame [simp]:
  "ps_calls (log_dispatch env d s) = ps_calls s" "ps_handoffs (log_dispatch env d s) = ps_handoffs s"
  "ps_scenarios (log_dispatch env d s) = ps_scenarios s" "ps_quality (log_dispatch env d s) = ps_quality s"
  "ps_audit (log_dispatch env d s) = ps_audit s"
  by (simp_all add: log_dispatch_def split: option.splits)

lemma tick_frame [simp]:
  "ps_calls (tick s) = ps_calls s" "ps_handoffs (tick s) = ps_handoffs s" "ps_scenarios (tick s) = ps_scenarios s"
  "ps_quality (tick s) = ps_quality s" "ps_audit (tick s) = ps_audit s" "ps_dispatched (tick s) = ps_dispatched s"
  by (simp_all add: tick_def)

lemma create_package_fields:
  assumes "create_package provider i now reason sentiment cites rec c = (c', package)"
  shows "k_tenant_id c' = k_tenant_id c" "k_call_id c' = k_call_id c" "k_state c' = k_state c" "k_ended_at c' = k_ended_at c"
    "k_resolution_status c' = k_resolution_status c" "k_turns c' = k_turns c" "k_handoff_package_id c' = Some i"
    "h_tenant_id package = k_tenant_id c" "h_handoff_package_id package = i" "h_call_id package = k_call_id c"
  using assms by (auto simp: create_package_def drafted_package_def Let_def)

lemma new_id_nonempty: "\<exists>d ds. new_id env ''handoff'' s = d # ds"
  by (simp add: new_id_def)

lemma open_package_frame:
  "turn_frame persist x (fst (open_package env reason sentiment persist x)) \<and>
     (persist \<longrightarrow> existing_package (fst (open_package env reason sentiment persist x)) \<noteq> None)"
proof -
  obtain s c where x: "x = (s, c)" by (cases x)
  show ?thesis
  proof (cases "existing_package x")
    case (Some package)
    then show ?thesis by (simp add: open_package_def turn_frame_refl)
  next
    case None
    obtain c' package where p: "create_package (pe_handoff_provider env) (new_id env ''handoff'' s) (pe_now env) reason sentiment
       (last_answer_citations c) None c = (c', package)" by force
    define s' where "s' = log_dispatch env (drafted_package (new_id env ''handoff'' s) (pe_now env) reason sentiment
                    (last_answer_citations c) None c) (tick s)"
    have s': "ps_calls s' = ps_calls s" "ps_handoffs s' = ps_handoffs s" "ps_scenarios s' = ps_scenarios s"
      "ps_quality s' = ps_quality s" "ps_audit s' = ps_audit s"
      by (simp_all add: s'_def)
    have y: "fst (open_package env reason sentiment persist x) = (if persist then save_handoff package s' else s', c')"
      using open_package_new [OF None [unfolded x] p] by (simp add: x s'_def Let_def)
    note f = create_package_fields [OF p]
    obtain d ds where i: "new_id env ''handoff'' s = d # ds" using new_id_nonempty by blast
    have ok: "call_ok c' = call_ok c" by (rule call_ok_cong) (simp_all add: f)
    have pk: "persist \<longrightarrow> existing_package (fst (open_package env reason sentiment persist x)) \<noteq> None"
      unfolding y existing_package_def by (simp add: f i get_handoff_row_def save_handoff_def s' dget_dset)
    moreover have "handoffs_keyed s \<Longrightarrow> handoffs_keyed (if persist then save_handoff package s' else s')"
      using handoffs_keyed_save [of s' package] by (simp add: handoffs_keyed_def s')
    ultimately have "turn_frame persist x (fst (open_package env reason sentiment persist x))"
      using ok unfolding turn_frame_def pending_ok_def y by (simp add: x f s' save_handoff_def dget_dset)
    with pk show ?thesis by blast
  qed
qed

lemma tmove_pending_frame:
  assumes "persist \<longrightarrow> existing_package x \<noteq> None"
  shows "turn_frame persist x (fst (tmove env tgt x)) \<and>
    (persist \<longrightarrow> existing_package (fst (tmove env tgt x)) \<noteq> None)"
proof -
  obtain s c where x: "x = (s, c)" by (cases x)
  show ?thesis
  proof (cases "transition (pe_now env) tgt c")
    case (Inl e)
    with assms show ?thesis by (simp add: x tmove_def turn_frame_refl)
  next
    case (Inr c')
    from Inr have c': "k_turns c' = k_turns c" "k_tenant_id c' = k_tenant_id c" "k_call_id c' = k_call_id c"
      "k_handoff_package_id c' = k_handoff_package_id c"
      by (simp_all add: transition_Inr_iff)
    have "call_sound c'" if "call_sound c" using call_sound_transition [OF that Inr] .
    with c' have "call_ok c'" if "call_ok c" using that by (simp add: call_ok_def numbered_def)
    moreover have "existing_package (s, c') = existing_package (s, c)" by (rule existing_package_cong) (simp_all add: c')
    ultimately show ?thesis using Inr c' assms by (simp add: x tmove_def turn_frame_def pending_ok_def)
  qed
qed

lemma begin_transfer_frame:
  assumes "persist \<longrightarrow> existing_package x \<noteq> None"
  shows "turn_frame persist x (fst (begin_transfer env x))"
proof -
  obtain s c where x: "x = (s, c)" by (cases x)
  have first: "turn_frame persist x y \<and> (persist \<longrightarrow> existing_package y \<noteq> None)"
    if "y = fst ((if k_state c = ''ringing'' then tmove env ''active'' else tret ()) x)" for y
    using that tmove_pending_frame [OF assms, of env "''active''"] assms turn_frame_refl
    by (auto simp: tret_def)
  show ?thesis
  proof (cases "k_state c \<in> {''active'', ''on_hold'', ''ringing''}")
    case True
    obtain y r where y: "(if k_state c = ''ringing'' then tmove env ''active'' else tret ()) x = (y, r)" by fastforce
    with first have f: "turn_frame persist x y" "persist \<longrightarrow> existing_package y \<noteq> None" by (metis fst_conv)+
    have "fst (begin_transfer env x) = (case r of Inl e \<Rightarrow> y | Inr a \<Rightarrow> fst (tmove env ''handoff_pending'' y))"
      using True y by (simp add: x begin_transfer_def tbind_def tcall_def split: sum.splits)
    with f(1) turn_frame_trans [OF f(1) conjunct1 [OF tmove_pending_frame [OF f(2)]]] show ?thesis
      by (simp split: sum.splits)
  next
    case False
    then show ?thesis by (simp add: x begin_transfer_def tbind_def tcall_def tret_def turn_frame_refl)
  qed
qed

lemma framed_transfer:
  assumes "\<And>package. framed persist (f package)"
  shows "framed persist (tbind (open_package env reason sentiment persist) (\<lambda>package. tbind (begin_transfer env) (\<lambda>_. f package)))"
  unfolding framed_def
proof
  fix x
  obtain y r where y: "open_package env reason sentiment persist x = (y, r)" by fastforce
  note o' = open_package_frame [of persist x env reason sentiment, unfolded y fst_conv]
  note o = conjunct1 [OF o'] conjunct2 [OF o']
  have b: "turn_frame persist y (fst (begin_transfer env y))" by (rule begin_transfer_frame [OF o(2)])
  have f: "turn_frame persist z (fst (f package z))" for package z using assms unfolding framed_def by blast
  have "turn_frame persist y (fst (tbind (begin_transfer env) (\<lambda>_. f package) y))" for package
    using b turn_frame_trans [OF b f] by (auto simp: tbind_def split: prod.splits sum.splits)
  then show "turn_frame persist x (fst (tbind (open_package env reason sentiment persist)
      (\<lambda>package. tbind (begin_transfer env) (\<lambda>_. f package)) x))"
    using o(1) y by (auto simp: tbind_def [of "open_package env reason sentiment persist"] split: sum.splits intro: turn_frame_trans)
qed

lemma framed_reply [framed_rules]: "framed persist m \<Longrightarrow> framed persist (reply p handoff m)"
  unfolding reply_def by (intro framed_rules)

lemma framed_say [framed_rules]: "action \<noteq> ''answer_with_citations'' \<Longrightarrow> framed persist (say env p action text a)"
  unfolding say_def by (intro framed_rules) simp

lemma framed_handoff_turn [framed_rules]: "framed persist (handoff_turn env p reason sentiment version blocked persist)"
  unfolding handoff_turn_def by (intro framed_transfer framed_rules) simp

lemma phone_citations_unblocked:
  "phone_citations env cs = Inr (refs, d) \<Longrightarrow> list_all (\<lambda>c. \<not> is_blocked (pc_approval_status c)) refs"
  by (induction env cs arbitrary: refs d rule: phone_citations.induct)
    (auto simp: rbind_Inr_iff citation_ref_def split: if_splits)

lemma read_response_answerable:
  "read_response env response = Inr g \<Longrightarrow> gr_answerable g \<Longrightarrow>
     gr_status g = ''ok'' \<and> gr_citations g \<noteq> [] \<and> py_truthy (py_get response ''text'') \<and>
     list_all (\<lambda>c. \<not> is_blocked (pc_approval_status c)) (gr_citations g)"
  by (auto simp: read_response_def rbind_Inr_iff Let_def dest!: phone_citations_unblocked split: if_splits)

lemma framed_rag_turn [framed_rules]:
  "framed persist (rag_turn env p text col a version sentiment persist)"
proof (cases "pe_answer env p text col")
  case (Inl e)
  then show ?thesis unfolding rag_turn_def by (simp add: framed_handoff_turn)
next
  case (Inr response)
  show ?thesis
  proof (cases "read_response env response")
    case (Inl e)
    then have "rag_turn env p text col a version sentiment persist = tlift (Inl e)"
      using Inr by (simp add: rag_turn_def tbind_def tlift_def fun_eq_iff)
    then show ?thesis by (simp add: framed_basic)
  next
    case (Inr g)
    note ok = read_response_answerable [OF Inr]
    have "framed persist (if gr_answerable g
            then tbind tcall (\<lambda>call.
              reply p None (ai_turn env ''answer_with_citations'' (answer_speech response g) a
                (pe_timing env (turn_number (next_sequence_no call)) ''rag'') (gr_citations g)
                (Some [(''answered_with_evidence'', PBool True), (''blocked_reason'', PNone),
                       (''high_risk'', PBool (py_truthy (py_get (gr_manufacturing g) ''high_risk'')))])
                None (py_get_str response ''correlation_id'')))
            else handoff_turn env p ''insufficient_evidence'' (Some sentiment) version (Some (blocked_reason_of g)) persist)"
    proof (cases "gr_answerable g")
      case True
      show ?thesis unfolding if_P [OF True] using ok [OF True] by (intro framed_rules) simp_all
    qed (simp add: framed_handoff_turn)
    then show ?thesis using \<open>pe_answer env p text col = Inr response\<close> Inr
      by (simp add: rag_turn_def tbind_def tlift_def framed_def)
  qed
qed

lemma harmless_rules [framed_rules]:
  "harmless (\<lambda>c. c\<lparr>k_low_confidence_count := k_low_confidence_count c + 1\<rparr>)"
  "harmless (\<lambda>c. c\<lparr>k_clarification_count := k_clarification_count c + 1\<rparr>)"
  "harmless (\<lambda>c. c\<lparr>k_awaiting_slot := Some slot\<rparr>)" "harmless (\<lambda>c. c\<lparr>k_pending_query := None\<rparr>)"
  "harmless (\<lambda>c. c\<lparr>k_pending_query := (if text \<noteq> [] then Some text else k_pending_query c)\<rparr>)"
  "harmless (fill_slot env slot v)"
  by (simp_all add: harmless_def fill_slot_def)

lemma framed_heard [framed_rules]: "framed persist (tupd (heard env event asr text intent sentiment))"
  unfolding framed_def
proof
  fix x :: turn_ctx
  obtain s c where x: "x = (s, c)" by (cases x)
  define c0 where "c0 = (if snd (pe_redact_text env (ar_text asr)) then c\<lparr>k_transcript_redaction_status := ''redacted''\<rparr> else c)"
  define t where "t = caller_turn env event asr intent sentiment c0"
  let ?c = "heard env event asr text intent sentiment c"
  have t: "grounded t" "t_sequence_no t = next_sequence_no c" "t_tenant_id t = k_tenant_id c" "t_call_id t = k_call_id c"
    by (simp_all add: t_def caller_turn_def grounded_def c0_def next_sequence_no_def Let_def)
  have same: "k_tenant_id ?c = k_tenant_id c" "k_call_id ?c = k_call_id c" "k_state ?c = k_state c"
    "k_ended_at ?c = k_ended_at c" "k_resolution_status ?c = k_resolution_status c"
    "k_handoff_package_id ?c = k_handoff_package_id c" "k_turns ?c = k_turns c @ [t]"
    by (simp_all add: heard_def Let_def t_def c0_def split: option.splits)
  have "call_ok ?c = call_ok (append_turn t c)" by (rule call_ok_cong) (simp_all add: same)
  with call_ok_append [OF _ t] existing_package_cong [OF same(1,6), of s] same
  show "turn_frame persist x (fst (tupd (heard env event asr text intent sentiment) x))"
    by (simp add: x tupd_def turn_frame_def pending_ok_def)
qed

lemma framed_ask_slot [framed_rules]: "framed persist (ask_slot env p version a)"
  unfolding ask_slot_def Let_def by (intro framed_rules) simp

lemma framed_slot_turn [framed_rules]: "framed persist (slot_turn env p event text version a)"
  unfolding slot_turn_def by (intro framed_rules)

lemma framed_transfer_or [framed_rules]:
  "framed persist m \<Longrightarrow> framed persist (transfer_or env p text sentiment asr version persist m)"
  unfolding transfer_or_def by (intro framed_bind framed_basic framed_option framed_handoff_turn)

lemma framed_ask_again [framed_rules]: "framed persist (ask_again env p a)"
  unfolding ask_again_def by (intro framed_rules) simp

lemma framed_go_on_with [framed_rules]: "framed persist (go_on_with env p event col version persist a sentiment r)"
  unfolding go_on_with_def by (intro framed_sum framed_if framed_basic framed_rag_turn framed_say) simp

lemma framed_spoken_turn [framed_rules]: "framed persist (spoken_turn env p event col version persist)"
  unfolding spoken_turn_def Let_def
  by (intro framed_bind framed_if framed_basic framed_heard framed_transfer_or framed_ask_again framed_slot_turn
      framed_go_on_with framed_harmless harmless_rules)

lemma framed_other_turns [framed_rules]:
  "framed persist (provider_failure_turn env p event version persist)" "framed persist (hangup_turn env p)"
  "tgt \<noteq> ''handoff_pending'' \<Longrightarrow> framed persist (moved_turn env p tgt key dflt)"
  unfolding provider_failure_turn_def hangup_turn_def moved_turn_def
  by (intro framed_rules; simp)+

lemma framed_execute_turn: "framed persist (execute_turn env p raw col override persist)"
  unfolding execute_turn_def Let_def
  by (intro framed_bind framed_if framed_basic framed_spoken_turn framed_other_turns) simp_all

end
