(* ===== verification/PhoneService.thy ===== *)
theory PhoneService
  imports PhoneTurns
begin

text \<open>
  The phone service (\<open>PhoneCallService\<close> of \<open>phone/orchestrator.py\<close>): starting calls, turns, call history, handoffs,
  reviews, metrics, retention, export and deletion requests, the scenario endpoints and their preview. An
  operation takes the principal and the request and returns the new state with the HTTP status and body, or
  the exception that escapes.
\<close>

section \<open>Roles\<close>

definition simulate_roles :: "string set" where
  "simulate_roles = {''tenant_admin'', ''ops_owner'', ''qa_reviewer'', ''phone_gateway''}"

definition call_read_roles :: "string set" where
  "call_read_roles = {''ops_owner'', ''tenant_admin'', ''qa_reviewer''}"

definition handoff_read_roles :: "string set" where
  "handoff_read_roles = {''operator'', ''ops_owner'', ''tenant_admin''}"

definition metrics_roles :: "string set" where
  "metrics_roles = {''ops_owner'', ''tenant_admin''}"

definition lifecycle_read_roles :: "string set" where
  "lifecycle_read_roles = {''ops_owner'', ''tenant_admin'', ''audit_admin''}"

definition delete_request_roles :: "string set" where
  "delete_request_roles = {''tenant_admin'', ''audit_admin''}"

definition has_any_role :: "identity_claims \<Rightarrow> string set \<Rightarrow> bool" where
  "has_any_role p roles \<longleftrightarrow> set (id_roles p) \<inter> roles \<noteq> {}"

type_synonym http = "int \<times> pydict"

type_synonym 'a served = "phone_state \<times> 'a result"

definition refuse :: "int \<Rightarrow> string \<Rightarrow> phone_state \<Rightarrow> http served" where
  "refuse status code s = (s, Inr (status, [(''error'', PStr code)]))"

text \<open>An answer in the envelope with a fresh correlation id.\<close>

definition answer_with :: "phone_env \<Rightarrow> identity_claims \<Rightarrow> int \<Rightarrow> pydict \<Rightarrow> phone_state \<Rightarrow> http served" where
  "answer_with env p status body s = (tick s, Inr (status, py_update (envelope p (new_id env ''corr'' s)) body))"

definition lifecycle_entry :: "phone_env \<Rightarrow> identity_claims \<Rightarrow> string \<Rightarrow> string \<Rightarrow> string \<Rightarrow> audit_log_entry" where
  "lifecycle_entry env p action resource_id decision =
     (audit_entry (id_tenant_id p) (''phone_lifecycle:'' @ resource_id @ '':'' @ pe_audit_now env) (pe_audit_now env))
       \<lparr>al_actor_id := Some (id_user_id p), al_action := action, al_resource_type := Some ''phone_call'',
        al_resource_id := Some resource_id, al_decision := Some decision, al_reason := Some ''phone_data_lifecycle''\<rparr>"

definition record_lifecycle_audit ::
  "phone_env \<Rightarrow> identity_claims \<Rightarrow> string \<Rightarrow> string \<Rightarrow> string \<Rightarrow> phone_state \<Rightarrow> phone_state" where
  "record_lifecycle_audit env p action resource_id decision s =
     s\<lparr>ps_audit := audit_quietly (pe_sha env) (pe_audit_redact env)
         (lifecycle_entry env p action resource_id decision) (ps_audit s)\<rparr>"

section \<open>Calls\<close>

definition opened_call ::
  "phone_env \<Rightarrow> identity_claims \<Rightarrow> pydict \<Rightarrow> pydict \<Rightarrow> pydict \<Rightarrow> string option \<Rightarrow> scenario_version option \<Rightarrow>
     phone_state \<Rightarrow> call_session" where
  "opened_call env p body caller options scenario_id version s =
     (new_call (id_tenant_id p) (new_id env ''call'' s) (new_id env ''corr'' (tick s)) (pe_now env))
       \<lparr>k_channel := str_or (py_get_str body ''channel'') ''simulator'',
        k_provider := str_or (py_get_str body ''provider'') (pe_telephony_name env),
        k_provider_call_id := none_if_empty (py_get_str body ''provider_call_id''),
        k_caller_phone_number_masked := pe_mask_phone_number env (py_get_str caller ''phone_number''),
        k_customer_id := none_if_empty (py_get_str caller ''customer_id''),
        k_scenario_id := scenario_id, k_scenario_version_id := map_option v_scenario_version_id version,
        k_recording_enabled := py_truthy (py_get options ''recording_enabled'')\<rparr>"

definition slots_of :: "scenario_version option \<Rightarrow> string list" where
  "slots_of version =
     (case version of None \<Rightarrow> [] | Some v \<Rightarrow> map (\<lambda>s. py_get_str s ''slot'') (v_required_slots v))"

definition start_call :: "phone_env \<Rightarrow> scenario_version option \<Rightarrow> call_session \<Rightarrow> call_session result" where
  "start_call env version call =
     rbind (transition (pe_now env) ''active'' call) (\<lambda>call.
       let call = call\<lparr>k_answered_at := Some (k_updated_at call)\<rparr>;
           call = (if k_recording_enabled call
                   then system_turn env (lexicon_message env ''recording_disclosure'' (k_tenant_id call) recording_disclosure)
                          (call\<lparr>k_recording_disclosure_played := True\<rparr>)
                   else call)
       in Inr (call\<lparr>k_missing_slots := slots_of version\<rparr>))"

fun run_utterances ::
  "phone_env \<Rightarrow> identity_claims \<Rightarrow> pydict \<Rightarrow> pyval \<Rightarrow> pyval list \<Rightarrow> pydict list turn" where
  "run_utterances env p options collection_id [] = tret []"
| "run_utterances env p options collection_id (u # us) =
     tbind (tlift (py_dict u)) (\<lambda>raw.
       let forced = py_get options ''force_asr_confidence'';
           raw = (if forced \<noteq> PNone \<and> dget raw ''asr_confidence'' = None then dset ''asr_confidence'' forced raw else raw)
       in tbind (execute_turn env p raw collection_id None True) (\<lambda>payload.
          tbind tcall (\<lambda>call.
            if is_terminal call then tret [payload]
            else tbind (run_utterances env p options collection_id us) (\<lambda>ds. tret (payload # ds)))))"

text \<open>Runs a turn on a stored call: the repository holds the object, so it keeps every mutation.\<close>

definition on_call :: "call_session \<Rightarrow> 'a turn \<Rightarrow> phone_state \<Rightarrow> (phone_state \<times> call_session) \<times> 'a result" where
  "on_call call m s = (case m (s, call) of ((s', call'), r) \<Rightarrow> ((save_call call' s', call'), r))"

definition conclude :: "(phone_state \<times> call_session) \<times> 'a result \<Rightarrow> (call_session \<Rightarrow> 'a \<Rightarrow> http) \<Rightarrow> http served" where
  "conclude x f = (fst (fst x), case snd x of Inl e \<Rightarrow> Inl e | Inr a \<Rightarrow> Inr (f (snd (fst x)) a))"

definition simulate_call :: "phone_env \<Rightarrow> identity_claims \<Rightarrow> pydict \<Rightarrow> phone_state \<Rightarrow> http served" where
  "simulate_call env p body s =
     (if \<not> has_any_role p simulate_roles then refuse 403 ''forbidden'' s
      else case py_dict (py_or (py_get body ''caller'') (PDict [])) of
        Inl e \<Rightarrow> (s, Inl e)
      | Inr caller \<Rightarrow>
      case py_dict (py_or (py_get body ''options'') (PDict [])) of
        Inl e \<Rightarrow> (s, Inl e)
      | Inr options \<Rightarrow>
          let scenario_id = none_if_empty (py_get_str body ''scenario_id'');
              version = resolve_for_call (id_tenant_id p) scenario_id (ps_scenarios s)
          in case start_call env version (opened_call env p body caller options scenario_id version s) of
               Inl e \<Rightarrow> (s, Inl e)
             | Inr call \<Rightarrow>
                 let s = save_call call (tick (tick s)) in
                 case py_iter (py_or (py_get body ''utterances'') (PList [])) of
                   Inl e \<Rightarrow> (s, Inl e)
                 | Inr us \<Rightarrow>
                     conclude (on_call call (run_utterances env p options (py_get body ''collection_id'') us) s)
                       (\<lambda>call turns. (202, py_update (envelope p (k_correlation_id call))
                         [(''call_id'', PStr (k_call_id call)), (''status'', PStr (k_state call)),
                          (''status_url'', PStr (''/v1/phone/calls/'' @ k_call_id call)),
                          (''turns'', PList (map PDict turns))])))"

definition submit_turn :: "phone_env \<Rightarrow> identity_claims \<Rightarrow> string \<Rightarrow> pydict \<Rightarrow> phone_state \<Rightarrow> http served" where
  "submit_turn env p call_id body s =
     (if \<not> has_any_role p simulate_roles then refuse 403 ''forbidden'' s
      else case get_call_row (id_tenant_id p) call_id s of
        None \<Rightarrow> refuse 404 ''not_found'' s
      | Some call \<Rightarrow>
          if is_terminal call then refuse 409 ''call_terminal'' s
          else conclude (on_call call (execute_turn env p body (py_get body ''collection_id'') None True) s)
                 (\<lambda>call payload. (200, payload)))"

definition call_detail :: "call_session \<Rightarrow> handoff_package option \<Rightarrow> pydict" where
  "call_detail call handoff =
     [(''call_id'', PStr (k_call_id call)), (''state'', PStr (k_state call)), (''started_at'', PStr (k_started_at call)),
      (''ended_at'', opt_str (k_ended_at call)),
      (''caller_phone_number_masked'', opt_str (k_caller_phone_number_masked call)),
      (''customer_id'', opt_str (k_customer_id call)), (''intent'', opt_str (k_intent call)),
      (''summary'', PStr (k_summary call)), (''resolution_status'', opt_str (k_resolution_status call)),
      (''scenario_id'', opt_str (k_scenario_id call)), (''scenario_version_id'', opt_str (k_scenario_version_id call)),
      (''recording_enabled'', PBool (k_recording_enabled call)),
      (''recording_disclosure_played'', PBool (k_recording_disclosure_played call)),
      (''transcript_redaction_status'', PStr (k_transcript_redaction_status call)),
      (''transcript'', PList (map (\<lambda>t. PDict (turn_public t)) (k_turns call))),
      (''handoff'', case handoff of None \<Rightarrow> PNone | Some h \<Rightarrow> PDict (handoff_public h))]"

definition get_call :: "phone_env \<Rightarrow> identity_claims \<Rightarrow> string \<Rightarrow> phone_state \<Rightarrow> http served" where
  "get_call env p call_id s =
     (case get_call_row (id_tenant_id p) call_id s of
        None \<Rightarrow> refuse 404 ''not_found'' s
      | Some call \<Rightarrow>
          if \<not> has_any_role p call_read_roles then refuse 403 ''forbidden'' s
          else (record_lifecycle_audit env p ''phone.transcript_viewed'' call_id ''redacted_view'' s,
                Inr (200, py_update (envelope p (k_correlation_id call))
                  (call_detail call
                    (case k_handoff_package_id call of
                       Some (c # cs) \<Rightarrow> get_handoff_row (id_tenant_id p) (c # cs) s
                     | _ \<Rightarrow> None)))))"

text \<open>A query parameter, possibly repeated.\<close>

definition query_str :: "pydict \<Rightarrow> string \<Rightarrow> string" where
  "query_str query name =
     (case py_get query name of
        PList [] \<Rightarrow> []
      | PList (v # _) \<Rightarrow> py_str v
      | _ \<Rightarrow> py_get_str query name)"

definition opt_matches :: "string option \<Rightarrow> string \<Rightarrow> bool" where
  "opt_matches v q \<longleftrightarrow> q = [] \<or> v = Some q"

definition ends_with :: "string \<Rightarrow> string \<Rightarrow> bool" where
  "ends_with s q = starts_with (rev s) (rev q)"

definition last_n :: "nat \<Rightarrow> 'a list \<Rightarrow> 'a list" where
  "last_n n xs = drop (length xs - n) xs"

definition listed :: "phone_env \<Rightarrow> pydict \<Rightarrow> call_session \<Rightarrow> bool" where
  "listed env query call \<longleftrightarrow>
     opt_matches (k_intent call) (query_str query ''intent'') \<and>
     opt_matches (Some (k_state call)) (query_str query ''state'') \<and>
     opt_matches (k_handoff_reason call) (query_str query ''handoff_reason'') \<and>
     opt_matches (k_scenario_id call) (query_str query ''scenario_id'') \<and>
     opt_matches (k_customer_id call) (query_str query ''customer_id'') \<and>
     (query_str query ''from'' = [] \<or> \<not> k_started_at call < query_str query ''from'') \<and>
     (query_str query ''to'' = [] \<or> \<not> k_started_at call > query_str query ''to'') \<and>
     (let phone_query = pe_digits env (query_str query ''phone_number'');
          masked = pe_digits env (case k_caller_phone_number_masked call of None \<Rightarrow> [] | Some m \<Rightarrow> m)
      in phone_query = [] \<or> ends_with masked (last_n 4 phone_query))"

text \<open>\<open>sort(reverse=True)\<close> keeps the order of items with the same time.\<close>

definition newest_first :: "call_session list \<Rightarrow> call_session list" where
  "newest_first cs = rev (sort_key k_started_at (rev cs))"

definition list_calls :: "phone_env \<Rightarrow> identity_claims \<Rightarrow> pydict \<Rightarrow> phone_state \<Rightarrow> http served" where
  "list_calls env p query s =
     (if \<not> has_any_role p call_read_roles then refuse 403 ''forbidden'' s
      else answer_with env p 200
        [(''items'', PList (map (\<lambda>c. PDict (summary_item c))
            (newest_first (filter (listed env query) (list_call_rows (id_tenant_id p) s))))),
         (''next_cursor'', PNone)] s)"

section \<open>Handoffs\<close>

definition get_handoff :: "phone_env \<Rightarrow> identity_claims \<Rightarrow> string \<Rightarrow> phone_state \<Rightarrow> http served" where
  "get_handoff env p i s =
     (if \<not> has_any_role p handoff_read_roles then refuse 403 ''forbidden'' s
      else case get_handoff_row (id_tenant_id p) i s of
        None \<Rightarrow> refuse 404 ''not_found'' s
      | Some package \<Rightarrow>
          answer_with env p 200 (handoff_public package)
            (record_lifecycle_audit env p ''phone.handoff_viewed'' i ''redacted_view'' s))"

definition accept_handoff :: "phone_env \<Rightarrow> identity_claims \<Rightarrow> string \<Rightarrow> pydict \<Rightarrow> phone_state \<Rightarrow> http served" where
  "accept_handoff env p i body s =
     (if \<not> has_any_role p handoff_read_roles then refuse 403 ''forbidden'' s
      else case get_handoff_row (id_tenant_id p) i s of
        None \<Rightarrow> refuse 404 ''not_found'' s
      | Some package \<Rightarrow>
          let package = accept (pe_now env) (py_str (py_or (py_get body ''operator_id'') (PStr (id_user_id p))))
                          (none_if_empty (py_get_str body ''queue_id'')) package;
              s = save_handoff package s;
              answer = answer_with env p 200
                [(''handoff_package_id'', PStr (h_handoff_package_id package)), (''status'', PStr (h_status package)),
                 (''accepted_at'', opt_str (h_accepted_at package))]
          in case get_call_row (id_tenant_id p) (h_call_id package) s of
               None \<Rightarrow> answer s
             | Some call \<Rightarrow>
                 if k_state call = ''handoff_pending''
                 then (case transition (pe_now env) ''transferred'' call of
                         Inl e \<Rightarrow> (s, Inl e)
                       | Inr call \<Rightarrow> answer (save_call call s))
                 else answer s)"

section \<open>Reviews, metrics, retention, export\<close>

definition create_quality_evaluation :: "phone_env \<Rightarrow> identity_claims \<Rightarrow> string \<Rightarrow> pydict \<Rightarrow> phone_state \<Rightarrow> http served" where
  "create_quality_evaluation env p call_id body s =
     (case ps_quality s of
        None \<Rightarrow> refuse 503 ''quality_service_unavailable'' s
      | Some repo \<Rightarrow>
          if \<not> can_review p then refuse 403 ''forbidden'' s
          else if get_call_row (id_tenant_id p) call_id s = None then refuse 404 ''not_found'' s
          else
            let (q, r) = create_evaluation (pe_parse_int env) (pe_sha env) (pe_audit_redact env) (new_id env ''imp'' s)
                           (new_id env ''eval'' (tick s)) (pe_now env) (pe_audit_now env) p call_id body
                           \<lparr>qs_repo = repo, qs_audit = ps_audit s\<rparr>;
                s = (tick (tick s))\<lparr>ps_quality := Some (qs_repo q), ps_audit := qs_audit q\<rparr>
            in case r of
                 Inl e \<Rightarrow> (s, Inl e)
               | Inr (status, payload, _) \<Rightarrow>
                   if status \<noteq> 201 then (s, Inr (status, payload)) else answer_with env p 201 payload s)"

definition list_quality_evaluations :: "phone_env \<Rightarrow> identity_claims \<Rightarrow> string \<Rightarrow> phone_state \<Rightarrow> http served" where
  "list_quality_evaluations env p call_id s =
     (case ps_quality s of
        None \<Rightarrow> refuse 503 ''quality_service_unavailable'' s
      | Some repo \<Rightarrow>
          let (status, payload) = list_for_call p call_id \<lparr>qs_repo = repo, qs_audit = ps_audit s\<rparr>
          in if status \<noteq> 200 then (s, Inr (status, payload))
             else answer_with env p 200 payload (record_lifecycle_audit env p ''phone.qa_reviews_viewed'' call_id ''viewed'' s))"

definition query_opt :: "pydict \<Rightarrow> string \<Rightarrow> string option" where
  "query_opt query name =
     (case py_get query name of
        PList [] \<Rightarrow> None
      | PList (v # _) \<Rightarrow> Some (py_str v)
      | v \<Rightarrow> if py_truthy v then Some (py_str v) else None)"

definition opt_num :: "rat option \<Rightarrow> (rat \<Rightarrow> string) \<Rightarrow> pyval" where
  "opt_num x repr = (case x of None \<Rightarrow> PNone | Some r \<Rightarrow> PFloat r (repr r))"

definition ranking :: "(string \<times> int) list \<Rightarrow> pyval" where
  "ranking xs = PList (map (\<lambda>(k, n). PDict [(''key'', PStr k), (''count'', PInt n)]) xs)"

definition metrics_body :: "(rat \<Rightarrow> string) \<Rightarrow> call_metrics \<Rightarrow> pydict" where
  "metrics_body repr m =
     (let num = (\<lambda>r. PFloat r (repr r)) in
      [(''summary'', PDict
         [(''call_count'', PInt (int (cm_call_count m))), (''answered_count'', PInt (int (cm_answered_count m))),
          (''answer_rate'', num (cm_answer_rate m)), (''ai_containment_rate'', num (cm_ai_containment_rate m)),
          (''handoff_rate'', num (cm_handoff_rate m)), (''unresolved_rate'', num (cm_unresolved_rate m)),
          (''terminal_count'', PInt (int (cm_terminal_count m))),
          (''average_handle_time_seconds'', num (cm_average_handle_time_seconds m)),
          (''p95_total_turn_latency_ms'', opt_num (cm_p95_total_turn_latency_ms m) repr),
          (''p95_rag_latency_ms'', opt_num (cm_p95_rag_latency_ms m) repr)]),
       (''top_handoff_reasons'', ranking (cm_top_handoff_reasons m)), (''top_intents'', ranking (cm_top_intents m)),
       (''knowledge_gap_topics'', ranking (cm_knowledge_gap_topics m))])"

definition metrics :: "phone_env \<Rightarrow> identity_claims \<Rightarrow> pydict \<Rightarrow> phone_state \<Rightarrow> http served" where
  "metrics env p query s =
     (if \<not> has_any_role p metrics_roles then refuse 403 ''forbidden'' s
      else
        let evaluations = (case ps_quality s of None \<Rightarrow> [] | Some repo \<Rightarrow> quality_list_all (id_tenant_id p) repo)
        in answer_with env p 200
             (metrics_body (pe_float_repr env)
               (aggregate_call_metrics (pe_parse_iso env) (list_call_rows (id_tenant_id p) s) evaluations
                 (query_opt query ''from'') (query_opt query ''to''))) s)"

definition retention_policy :: "phone_env \<Rightarrow> identity_claims \<Rightarrow> phone_state \<Rightarrow> http served" where
  "retention_policy env p s =
     (if \<not> has_any_role p lifecycle_read_roles then refuse 403 ''forbidden'' s
      else case (pe_transcript_retention env, pe_export_retention env) of
        (Some t, Some e) \<Rightarrow>
          answer_with env p 200
            [(''recording_enabled_default'', PBool False), (''transcript_retention_days'', PInt t),
             (''audio_retention_days'', PNone), (''export_retention_days'', PInt e),
             (''export_enabled'', PBool (pe_export_enabled env))] s
      | _ \<Rightarrow> (tick s, Inl ValueError))"

definition export_calls :: "phone_env \<Rightarrow> identity_claims \<Rightarrow> phone_state \<Rightarrow> http served" where
  "export_calls env p s =
     (if \<not> has_any_role p lifecycle_read_roles then refuse 403 ''forbidden'' s
      else
        let s = record_lifecycle_audit env p ''phone.export_requested'' ''calls''
                  (if pe_export_enabled env then ''queued'' else ''export_not_enabled'') s
        in if \<not> pe_export_enabled env then refuse 409 ''export_not_enabled'' s
           else answer_with env p 202
             [(''export_job_id'', PStr (new_id env ''phone_export'' (tick s))), (''status'', PStr ''queued''),
              (''redacted'', PBool True)] s)"

section \<open>Deletion requests\<close>

definition erased :: string where
  "erased = utf8 [0x5B, 0xE5, 0x89, 0x8A, 0xE9, 0x99, 0xA4, 0xE6, 0xB8, 0x88, 0xE3, 0x81, 0xBF, 0x5D]"

definition erase_text :: "string option \<Rightarrow> string option" where
  "erase_text t = (if opt_truthy t then Some erased else t)"

definition erase_turn :: "conversation_turn \<Rightarrow> conversation_turn" where
  "erase_turn t = t\<lparr>t_asr_text_redacted := erase_text (t_asr_text_redacted t),
     t_redacted_text := erase_text (t_redacted_text t), t_ai_response_text := erase_text (t_ai_response_text t),
     t_speech_text := erase_text (t_speech_text t)\<rparr>"

definition erase_call :: "call_session \<Rightarrow> call_session" where
  "erase_call call = call\<lparr>k_turns := map erase_turn (k_turns call), k_summary := [], k_collected_slots := [],
     k_transcript_redaction_status := ''redacted''\<rparr>"

definition erase_package :: "handoff_package \<Rightarrow> handoff_package" where
  "erase_package h = h\<lparr>h_summary := [], h_transcript_excerpt_redacted := erased, h_confirmed_slots := []\<rparr>"

definition delete_call_request :: "phone_env \<Rightarrow> identity_claims \<Rightarrow> string \<Rightarrow> pydict \<Rightarrow> phone_state \<Rightarrow> http served" where
  "delete_call_request env p call_id body s =
     (if \<not> has_any_role p delete_request_roles then refuse 403 ''forbidden'' s
      else case get_call_row (id_tenant_id p) call_id s of
        None \<Rightarrow> refuse 404 ''not_found'' s
      | Some call \<Rightarrow>
          let mode = py_str (py_or (py_get body ''mode'') (PStr ''redact''));
              s = save_call (erase_call call) s;
              s = (case k_handoff_package_id call of
                     Some (c # cs) \<Rightarrow>
                       (case get_handoff_row (id_tenant_id p) (c # cs) s of
                          None \<Rightarrow> s
                        | Some package \<Rightarrow> save_handoff (erase_package package) s)
                   | _ \<Rightarrow> s);
              s = record_lifecycle_audit env p ''phone.delete_request'' call_id mode s
          in answer_with env p 202
               [(''call_id'', PStr call_id), (''deletion_request_id'', PStr (new_id env ''del'' (tick s))),
                (''mode'', PStr mode), (''status'', PStr ''completed'')] s)"

section \<open>Scenario endpoints\<close>

definition with_repo :: "scenario_repo \<Rightarrow> phone_state \<Rightarrow> phone_state" where
  "with_repo repo s = s\<lparr>ps_scenarios := repo\<rparr>"

fun scenario_failure :: "scenario_error \<Rightarrow> phone_state \<Rightarrow> http served" where
  "scenario_failure (ScenarioError status code) s = refuse status code s"

definition list_scenarios :: "phone_env \<Rightarrow> identity_claims \<Rightarrow> phone_state \<Rightarrow> http served" where
  "list_scenarios env p s =
     (if \<not> can_read_scenarios p then refuse 403 ''forbidden'' s
      else answer_with env p 200
        [(''items'', PList (map (\<lambda>c. PDict (scenario_public c)) (repo_list (id_tenant_id p) (ps_scenarios s))))] s)"

definition create_scenario :: "phone_env \<Rightarrow> identity_claims \<Rightarrow> create_body \<Rightarrow> phone_state \<Rightarrow> http served" where
  "create_scenario env p body s =
     (if \<not> can_manage p then refuse 403 ''forbidden'' s
      else case create (pe_now env) p body (ps_scenarios s) of
        Inl e \<Rightarrow> scenario_failure e s
      | Inr (repo, c) \<Rightarrow>
          answer_with env p 201
            [(''scenario_id'', PStr (s_scenario_id c)), (''status'', PStr (s_status c)),
             (''active_version_id'', opt_str (s_active_version_id c)),
             (''versions'', PList (map (\<lambda>(i, v). PDict (version_public v)) (s_versions c)))] (with_repo repo s))"

definition upsert_scenario_version ::
  "phone_env \<Rightarrow> identity_claims \<Rightarrow> string \<Rightarrow> string \<Rightarrow> version_body \<Rightarrow> phone_state \<Rightarrow> http served" where
  "upsert_scenario_version env p scenario_id version_id body s =
     (if \<not> can_manage p then refuse 403 ''forbidden'' s
      else case upsert_version (pe_now env) p scenario_id version_id body (ps_scenarios s) of
        Inl e \<Rightarrow> scenario_failure e s
      | Inr (repo, v) \<Rightarrow>
          answer_with env p 200
            [(''scenario_id'', PStr scenario_id), (''scenario_version_id'', PStr (v_scenario_version_id v)),
             (''status'', PStr (v_status v))] (with_repo repo s))"

definition rollback_scenario :: "phone_env \<Rightarrow> identity_claims \<Rightarrow> string \<Rightarrow> string \<Rightarrow> phone_state \<Rightarrow> http served" where
  "rollback_scenario env p scenario_id target_id s =
     (if \<not> can_approve p then refuse 403 ''forbidden'' s
      else case rollback (pe_now env) p scenario_id target_id (ps_scenarios s) of
        Inl e \<Rightarrow> scenario_failure e s
      | Inr (repo, c, v) \<Rightarrow>
          answer_with env p 200
            [(''scenario_id'', PStr (s_scenario_id c)), (''active_version_id'', opt_str (s_active_version_id c)),
             (''rollback_target_version_id'', opt_str (v_rollback_target_version_id v)),
             (''status'', PStr (s_status c))] (with_repo repo s))"

text \<open>The preview conversation: a call object that is never stored.\<close>

definition preview_call :: "phone_env \<Rightarrow> identity_claims \<Rightarrow> string \<Rightarrow> string \<Rightarrow> phone_state \<Rightarrow> call_session" where
  "preview_call env p scenario_id version_id s =
     (new_call (id_tenant_id p) (new_id env ''preview'' s) (new_id env ''corr'' (tick s)) (pe_now env))
       \<lparr>k_scenario_id := Some scenario_id, k_scenario_version_id := Some version_id\<rparr>"

definition preview_raw :: "pyval \<Rightarrow> pydict" where
  "preview_raw u =
     (case u of PDict d \<Rightarrow> d | _ \<Rightarrow> [(''type'', PStr ''speech''), (''text'', PStr (py_str u))])"

fun run_preview ::
  "phone_env \<Rightarrow> identity_claims \<Rightarrow> pyval \<Rightarrow> scenario_version \<Rightarrow> pyval list \<Rightarrow> (pydict list \<times> bool) turn" where
  "run_preview env p collection_id version [] = tret ([], False)"
| "run_preview env p collection_id version (u # us) =
     tbind tcall (\<lambda>call.
       if is_terminal call then tret ([], False)
       else
         tbind (execute_turn env p (preview_raw u) collection_id (Some version) False) (\<lambda>payload.
         tbind (run_preview env p collection_id version us) (\<lambda>(ts, would).
           tret ([(''ai_action'', py_get payload ''ai_action''), (''ai_response_text'', py_get payload ''ai_response_text''),
                  (''citations'', py_or (py_get payload ''citations'') (PList []))] # ts,
                 py_get payload ''ai_action'' = PStr ''handoff'' \<or> would))))"

definition preview_scenario ::
  "phone_env \<Rightarrow> identity_claims \<Rightarrow> string \<Rightarrow> string \<Rightarrow> pydict \<Rightarrow> phone_state \<Rightarrow> http served" where
  "preview_scenario env p scenario_id version_id body s =
     (if \<not> can_manage p \<and> \<not> can_approve p then refuse 403 ''forbidden'' s
      else case repo_get (id_tenant_id p) scenario_id (ps_scenarios s) of
        None \<Rightarrow> refuse 404 ''not_found'' s
      | Some scenario \<Rightarrow>
      case find_version scenario version_id of
        None \<Rightarrow> refuse 404 ''not_found'' s
      | Some version \<Rightarrow>
      case transition (pe_now env) ''active'' (preview_call env p scenario_id version_id s) of
        Inl e \<Rightarrow> (s, Inl e)
      | Inr call \<Rightarrow>
      case py_iter (py_or (py_get body ''utterances'') (PList [])) of
        Inl e \<Rightarrow> (s, Inl e)
      | Inr us \<Rightarrow>
          conclude (run_preview env p (py_get body ''collection_id'') version us
                      (tick (tick s), call\<lparr>k_missing_slots := slots_of (Some version)\<rparr>))
            (\<lambda>call (turns, would). (200, py_update (envelope p (k_correlation_id call))
              [(''scenario_id'', PStr scenario_id), (''scenario_version_id'', PStr version_id),
               (''turns'', PList (map PDict turns)), (''would_handoff'', PBool would)])))"

definition approver_actions :: "string set" where
  "approver_actions = {''approve'', ''publish'', ''schedule'', ''archive''}"

definition scenario_action ::
  "phone_env \<Rightarrow> identity_claims \<Rightarrow> string \<Rightarrow> string \<Rightarrow> string \<Rightarrow> pydict \<Rightarrow> phone_state \<Rightarrow> http served" where
  "scenario_action env p scenario_id version_id action body s =
     (if action = ''test'' then preview_scenario env p scenario_id version_id body s
      else if action \<in> approver_actions \<and> \<not> can_approve p
      then refuse 403 ''forbidden'' s
      else if action \<notin> approver_actions \<and> \<not> can_manage p
      then refuse 403 ''forbidden'' s
      else case lifecycle_action (pe_now env) p scenario_id version_id action (py_get_str body ''publish_at'') (ps_scenarios s) of
        Inl e \<Rightarrow> scenario_failure e s
      | Inr (repo, c, v) \<Rightarrow>
          answer_with env p 200
            ([(''scenario_id'', PStr (s_scenario_id c)), (''scenario_version_id'', PStr (v_scenario_version_id v)),
              (''status'', PStr (v_status v))] @
             (if action = ''publish'' then [(''active_version_id'', opt_str (s_active_version_id c))] else []) @
             (if action = ''schedule'' then [(''scheduled_publish_at'', opt_str (v_scheduled_publish_at v))] else []))
            (with_repo repo s))"

section \<open>What an operation may change\<close>

definition phone_ok :: "phone_state \<Rightarrow> bool" where
  "phone_ok s \<longleftrightarrow> handoffs_keyed s \<and> repo_ok (ps_scenarios s) \<and>
     (\<forall>k c. dget (ps_calls s) k = Some c \<longrightarrow> k = (k_tenant_id c, k_call_id c) \<and> call_ok c \<and> pending_ok (s, c))"

definition tenant_log :: "phone_state \<Rightarrow> string \<Rightarrow> audit_log_entry list" where
  "tenant_log s u = (case ps_audit s of None \<Rightarrow> [] | Some a \<Rightarrow> stored_chain a u)"

definition evaluations :: "phone_state \<Rightarrow> quality_repo" where
  "evaluations s = (case ps_quality s of None \<Rightarrow> [] | Some repo \<Rightarrow> repo)"

text \<open>Everything the state holds for a tenant is the same.\<close>

definition same_tenant :: "string \<Rightarrow> phone_state \<Rightarrow> phone_state \<Rightarrow> bool" where
  "same_tenant u s s' \<longleftrightarrow>
     (\<forall>i. dget (ps_calls s') (u, i) = dget (ps_calls s) (u, i)) \<and>
     (\<forall>i. dget (ps_handoffs s') (u, i) = dget (ps_handoffs s) (u, i)) \<and>
     (\<forall>i. dget (ps_scenarios s') (u, i) = dget (ps_scenarios s) (u, i)) \<and>
     (\<forall>i. dget (evaluations s') (u, i) = dget (evaluations s) (u, i)) \<and>
     tenant_log s' u = tenant_log s u"

definition service_frame :: "identity_claims \<Rightarrow> phone_state \<Rightarrow> phone_state \<Rightarrow> bool" where
  "service_frame p s s' \<longleftrightarrow>
     (phone_ok s \<longrightarrow> phone_ok s' \<and> (\<forall>u. u \<noteq> id_tenant_id p \<longrightarrow> same_tenant u s s'))"

definition serves :: "identity_claims \<Rightarrow> (phone_state \<Rightarrow> 'a served) \<Rightarrow> bool" where
  "serves p f \<longleftrightarrow> (\<forall>s. service_frame p s (fst (f s)))"

lemma same_tenant_refl: "same_tenant u s s"
  by (simp add: same_tenant_def)

lemma service_frame_refl: "service_frame p s s"
  by (simp add: service_frame_def same_tenant_refl)

lemma service_frame_trans: "service_frame p s s' \<Longrightarrow> service_frame p s' s'' \<Longrightarrow> service_frame p s s''"
  by (auto simp: service_frame_def same_tenant_def)

lemma phone_ok_cong:
  assumes "ps_calls s' = ps_calls s" "ps_handoffs s' = ps_handoffs s" "ps_scenarios s' = ps_scenarios s"
  shows "phone_ok s' = phone_ok s"
proof -
  have "existing_package (s', c) = existing_package (s, c)" for c
    by (simp add: existing_package_def get_handoff_row_def assms(2) split: option.splits list.splits)
  then show ?thesis by (simp add: phone_ok_def handoffs_keyed_def pending_ok_def assms)
qed

lemma fst_conclude [simp]: "fst (conclude x f) = fst (fst x)"
  by (simp add: conclude_def)

lemma frame_tick: "service_frame p s (tick s)"
  using phone_ok_cong [of "tick s" s]
  by (simp add: service_frame_def same_tenant_def evaluations_def tenant_log_def)

lemma frame_audit: "service_frame p s (record_lifecycle_audit env p action i d s)"
proof -
  let ?s = "record_lifecycle_audit env p action i d s"
  have "tenant_log ?s u = tenant_log s u" if "u \<noteq> id_tenant_id p" for u
    using that audit_quietly_chain [of "pe_sha env" "pe_audit_redact env" "lifecycle_entry env p action i d" _ u]
    by (cases "ps_audit s") (simp_all add: tenant_log_def record_lifecycle_audit_def lifecycle_entry_def audit_quietly_def)
  moreover have "phone_ok ?s = phone_ok s" by (rule phone_ok_cong) (simp_all add: record_lifecycle_audit_def)
  ultimately show ?thesis
    by (simp add: service_frame_def same_tenant_def evaluations_def record_lifecycle_audit_def)
qed

lemma frame_refuse: "service_frame p s (fst (refuse status code s))"
  by (simp add: refuse_def service_frame_refl)

lemma frame_answer: "service_frame p s (fst (answer_with env p status body s))"
  by (simp add: answer_with_def frame_tick)

lemma frame_answer_after: "service_frame p s s' \<Longrightarrow> service_frame p s (fst (answer_with env p status body s'))"
  by (rule service_frame_trans [OF _ frame_answer])

lemma pending_ok_mono:
  assumes "\<And>k. dget (ps_handoffs s) k \<noteq> None \<Longrightarrow> dget (ps_handoffs s') k \<noteq> None" and "pending_ok (s, c)"
  shows "pending_ok (s', c)"
proof -
  have "existing_package (s', c) \<noteq> None" if "existing_package (s, c) \<noteq> None"
  proof -
    from that obtain d ds where d: "k_handoff_package_id c = Some (d # ds)" and "dget (ps_handoffs s) (k_tenant_id c, d # ds) \<noteq> None"
      by (auto simp: existing_package_def get_handoff_row_def split: option.splits list.splits)
    with assms(1) have "dget (ps_handoffs s') (k_tenant_id c, d # ds) \<noteq> None" by blast
    with d show ?thesis by (simp add: existing_package_def get_handoff_row_def)
  qed
  with assms(2) show ?thesis by (simp add: pending_ok_def)
qed

lemma frame_save_handoff:
  assumes "h_tenant_id h = id_tenant_id p"
  shows "service_frame p s (save_handoff h s)"
proof -
  have "pending_ok (save_handoff h s, c)" if "pending_ok (s, c)" for c
    by (rule pending_ok_mono [OF _ that]) (simp add: save_handoff_def dget_dset)
  moreover have "repo_ok (ps_scenarios (save_handoff h s)) = repo_ok (ps_scenarios s)" "ps_calls (save_handoff h s) = ps_calls s"
    by (simp_all add: save_handoff_def)
  ultimately show ?thesis using assms
    by (simp add: service_frame_def phone_ok_def handoffs_keyed_save)
      (simp add: same_tenant_def save_handoff_def dget_dset evaluations_def tenant_log_def)
qed

lemma frame_save_call:
  assumes "k_tenant_id c = id_tenant_id p" and "phone_ok s \<Longrightarrow> call_ok c \<and> pending_ok (s, c)"
  shows "service_frame p s (save_call c s)"
proof -
  have e: "existing_package (save_call c s, d) = existing_package (s, d)" for d
    by (simp add: existing_package_def get_handoff_row_def save_call_def split: option.splits list.splits)
  have k: "handoffs_keyed (save_call c s) = handoffs_keyed s" by (simp add: handoffs_keyed_def save_call_def)
  show ?thesis
  proof (unfold service_frame_def, intro impI conjI allI)
    assume "phone_ok s"
    with assms(2) show "phone_ok (save_call c s)"
      by (auto simp: phone_ok_def k pending_ok_def e) (auto simp: save_call_def dget_dset split: if_splits)
    fix u assume "u \<noteq> id_tenant_id p"
    then show "same_tenant u s (save_call c s)"
      using assms(1) by (simp add: same_tenant_def save_call_def dget_dset evaluations_def tenant_log_def)
  qed
qed

lemma frame_on_call:
  assumes "framed True m" and "k_tenant_id c = id_tenant_id p" and "phone_ok s \<Longrightarrow> call_ok c \<and> pending_ok (s, c)"
  shows "service_frame p s (fst (fst (on_call c m s)))"
proof -
  obtain s' c' r where m: "m (s, c) = ((s', c'), r)" by (metis prod.exhaust)
  from assms(1) have f: "turn_frame True (s, c) (s', c')" unfolding framed_def by (metis m fst_conv)
  have "service_frame p s s'"
  proof (unfold service_frame_def, intro impI conjI allI)
    assume ok: "phone_ok s"
    have "dget (ps_handoffs s') k \<noteq> None" if "dget (ps_handoffs s) k \<noteq> None" for k
      using f that by (cases k) (simp add: turn_frame_def)
    then have "pending_ok (s', d)" if "pending_ok (s, d)" for d
      by (rule pending_ok_mono [OF _ that])
    with ok f show "phone_ok s'" by (simp add: phone_ok_def turn_frame_def)
    fix u assume "u \<noteq> id_tenant_id p"
    then show "same_tenant u s s'" using f assms(2)
      by (simp add: same_tenant_def turn_frame_def evaluations_def tenant_log_def)
  qed
  moreover have "service_frame p s' (save_call c' s')" if "phone_ok s"
    by (rule frame_save_call) (use f assms(2,3) that in \<open>simp_all add: turn_frame_def\<close>)
  ultimately have "service_frame p s (save_call c' s')"
    using service_frame_trans [of p s s' "save_call c' s'"] by (auto simp: service_frame_def)
  then show ?thesis by (simp add: on_call_def m)
qed

lemma frame_repo:
  assumes "repo_ok (ps_scenarios s) \<Longrightarrow> repo_ok repo \<and> (\<exists>c. repo = repo_save c (ps_scenarios s) \<and> s_tenant_id c = id_tenant_id p)"
  shows "service_frame p s (with_repo repo s)"
proof (unfold service_frame_def, intro impI conjI allI)
  assume ok: "phone_ok s"
  then have "repo_ok (ps_scenarios s)" by (simp add: phone_ok_def)
  with assms obtain c where c: "repo_ok repo" "repo = repo_save c (ps_scenarios s)" "s_tenant_id c = id_tenant_id p" by blast
  have "existing_package (with_repo repo s, d) = existing_package (s, d)" for d
    by (simp add: existing_package_def get_handoff_row_def with_repo_def split: option.splits list.splits)
  then show "phone_ok (with_repo repo s)" using ok c(1)
    by (simp add: phone_ok_def pending_ok_def) (simp add: handoffs_keyed_def with_repo_def)
  fix u assume "u \<noteq> id_tenant_id p"
  then show "same_tenant u s (with_repo repo s)" using c
    by (simp add: same_tenant_def with_repo_def repo_save_def dget_dset evaluations_def tenant_log_def)
qed

section \<open>Every operation\<close>

lemma frame_create_scenario: "service_frame p s (fst (create_scenario env p body s))"
proof (cases "create (pe_now env) p body (ps_scenarios s)")
  case (Inl e)
  then show ?thesis by (cases e) (simp add: create_scenario_def frame_refuse)
next
  case (Inr r)
  obtain repo c where r: "r = (repo, c)" by (cases r)
  have "service_frame p s (with_repo repo s)"
  proof (rule frame_repo)
    assume "repo_ok (ps_scenarios s)"
    from create_ok [OF this Inr [unfolded r]] Inr r
    show "repo_ok repo \<and> (\<exists>c. repo = repo_save c (ps_scenarios s) \<and> s_tenant_id c = id_tenant_id p)"
      by (auto simp: create_def Let_def split: if_splits)
  qed
  with Inr r show ?thesis by (simp add: create_scenario_def frame_refuse frame_answer_after)
qed

lemma frame_upsert_scenario: "service_frame p s (fst (upsert_scenario_version env p i j body s))"
proof (cases "upsert_version (pe_now env) p i j body (ps_scenarios s)")
  case (Inl e)
  then show ?thesis by (cases e) (simp add: upsert_scenario_version_def frame_refuse)
next
  case (Inr r)
  obtain repo v where r: "r = (repo, v)" by (cases r)
  have "service_frame p s (with_repo repo s)"
  proof (rule frame_repo)
    assume ok: "repo_ok (ps_scenarios s)"
    from Inr r obtain c where c: "get_scenario p i (ps_scenarios s) = Inr c"
      "repo = repo_save (c\<lparr>s_versions := dset j v (s_versions c), s_updated_at := pe_now env\<rparr>) (ps_scenarios s)"
      by (auto elim: upsert_cases)
    from upsert_ok [OF ok Inr [unfolded r]] c get_scenario_keys [OF ok c(1)]
    show "repo_ok repo \<and> (\<exists>c. repo = repo_save c (ps_scenarios s) \<and> s_tenant_id c = id_tenant_id p)"
      by auto
  qed
  with Inr r show ?thesis by (simp add: upsert_scenario_version_def frame_refuse frame_answer_after)
qed

lemma frame_rollback_scenario: "service_frame p s (fst (rollback_scenario env p i j s))"
proof (cases "rollback (pe_now env) p i j (ps_scenarios s)")
  case (Inl e)
  then show ?thesis by (cases e) (simp add: rollback_scenario_def frame_refuse)
next
  case (Inr r)
  obtain repo c' v where r: "r = (repo, c', v)" by (cases r)
  have "service_frame p s (with_repo repo s)"
  proof (rule frame_repo)
    assume ok: "repo_ok (ps_scenarios s)"
    from Inr r obtain c where c: "get_scenario p i (ps_scenarios s) = Inr c" "s_tenant_id c' = s_tenant_id c"
      "repo = repo_save c' (ps_scenarios s)"
      by (auto elim: rollback_cases)
    from rollback_ok [OF ok Inr [unfolded r]] c get_scenario_keys [OF ok c(1)]
    show "repo_ok repo \<and> (\<exists>c. repo = repo_save c (ps_scenarios s) \<and> s_tenant_id c = id_tenant_id p)"
      by auto
  qed
  with Inr r show ?thesis by (simp add: rollback_scenario_def frame_refuse frame_answer_after)
qed

lemma framed_run_preview: "framed False (run_preview env p col version us)"
proof (induction us)
  case (Cons u us)
  then show ?case
    by simp (intro framed_bind framed_if framed_prod framed_basic framed_execute_turn)
qed (simp add: framed_basic)

lemma framed_run_utterances: "framed True (run_utterances env p options col us)"
proof (induction us)
  case (Cons u us)
  then show ?case
    by (simp add: Let_def) (intro framed_bind framed_if framed_basic framed_execute_turn)
qed (simp add: framed_basic)

lemma call_ok_new_call: "k_state c = ''ringing'' \<Longrightarrow> k_ended_at c = None \<Longrightarrow> k_turns c = [] \<Longrightarrow> call_ok c"
  by (simp add: call_ok_def call_sound_def numbered_def call_states_def terminal_call_states_def)

lemma call_ok_transition:
  assumes "call_ok c" "transition now tgt c = Inr c'"
  shows "call_ok c'"
proof -
  have "call_sound c'" by (rule call_sound_transition [OF _ assms(2)]) (use assms(1) in \<open>simp add: call_ok_def\<close>)
  with assms show ?thesis by (simp add: call_ok_def numbered_def transition_Inr_iff)
qed

lemma call_ok_system_turn: "call_ok c \<Longrightarrow> call_ok (system_turn env text c)"
  unfolding system_turn_def by (rule call_ok_append) (simp_all add: grounded_def)

lemma start_call_ok:
  assumes "start_call env version c = Inr c'" "k_state c = ''ringing''" "k_ended_at c = None" "k_turns c = []"
  shows "call_ok c' \<and> k_state c' = ''active'' \<and> k_tenant_id c' = k_tenant_id c"
proof -
  from assms(1) obtain d where d: "transition (pe_now env) ''active'' c = Inr d"
    and c': "c' = (let call = d\<lparr>k_answered_at := Some (k_updated_at d)\<rparr>;
           call = (if k_recording_enabled call
                   then system_turn env (lexicon_message env ''recording_disclosure'' (k_tenant_id call) recording_disclosure)
                          (call\<lparr>k_recording_disclosure_played := True\<rparr>)
                   else call)
       in call\<lparr>k_missing_slots := slots_of version\<rparr>)"
    by (auto simp: start_call_def rbind_Inr_iff Let_def)
  have ok: "call_ok d" using call_ok_transition [OF call_ok_new_call d] assms(2-4) by simp
  let ?e = "d\<lparr>k_answered_at := Some (k_updated_at d), k_recording_disclosure_played := True\<rparr>"
  have "call_ok ?e = call_ok d" by (rule call_ok_cong) simp_all
  with ok have "call_ok (system_turn env msg ?e)" for msg by (simp add: call_ok_system_turn)
  moreover have "call_ok (c\<lparr>k_missing_slots := ms\<rparr>) = call_ok c" "call_ok (d\<lparr>k_answered_at := a\<rparr>) = call_ok d" for c ms a
    by (rule call_ok_cong; simp)+
  moreover have "k_state d = ''active''" "k_tenant_id d = k_tenant_id c" using d by (simp_all add: transition_Inr_iff)
  ultimately show ?thesis using ok unfolding c' by (simp add: Let_def system_turn_def)
qed

lemma frame_simulate: "service_frame p s (fst (simulate_call env p body s))"
proof -
  show ?thesis
  proof (cases "has_any_role p simulate_roles \<and> (\<exists>caller options. py_dict (py_or (py_get body ''caller'') (PDict [])) = Inr caller \<and>
      py_dict (py_or (py_get body ''options'') (PDict [])) = Inr options)")
    case True
    then obtain caller options where role: "has_any_role p simulate_roles"
      and c: "py_dict (py_or (py_get body ''caller'') (PDict [])) = Inr caller"
      and opts: "py_dict (py_or (py_get body ''options'') (PDict [])) = Inr options" by blast
    let ?id = "none_if_empty (py_get_str body ''scenario_id'')"
    let ?v = "resolve_for_call (id_tenant_id p) ?id (ps_scenarios s)"
    let ?c = "opened_call env p body caller options ?id ?v s"
    show ?thesis
    proof (cases "start_call env ?v ?c")
      case (Inl e)
      with role c opts show ?thesis by (simp add: simulate_call_def Let_def service_frame_refl)
    next
      case (Inr call)
      have call: "call_ok call" "k_state call = ''active''" "k_tenant_id call = id_tenant_id p"
        using start_call_ok [OF Inr] by (simp_all add: opened_call_def new_call_def)
      let ?s1 = "save_call call (tick (tick s))"
      have "pending_ok (s0, call)" for s0 by (simp add: pending_ok_def call(2))
      then have f: "service_frame p s ?s1"
        using call by (intro service_frame_trans [OF frame_tick service_frame_trans [OF frame_tick frame_save_call]]) auto
      show ?thesis
      proof (cases "py_iter (py_or (py_get body ''utterances'') (PList []))")
        case (Inl e)
        with role c opts Inr f show ?thesis by (simp add: simulate_call_def Let_def)
      next
        case (Inr us)
        have "service_frame p s (fst (fst (on_call call
            (run_utterances env p options (py_get body ''collection_id'') us) ?s1)))"
          by (rule service_frame_trans [OF f frame_on_call [OF framed_run_utterances]]) (simp_all add: call pending_ok_def)
        with Inr role c opts \<open>start_call env ?v ?c = Inr call\<close>
        show ?thesis by (simp add: simulate_call_def Let_def)
      qed
    qed
  next
    case False
    then show ?thesis by (auto simp: simulate_call_def frame_refuse service_frame_refl split: sum.splits)
  qed
qed

lemma stored_call_ok:
  "phone_ok s \<Longrightarrow> get_call_row t i s = Some c \<Longrightarrow>
     k_tenant_id c = t \<and> k_call_id c = i \<and> call_ok c \<and> pending_ok (s, c)"
  by (auto simp: phone_ok_def get_call_row_def)

lemma frame_submit: "service_frame p s (fst (submit_turn env p i body s))"
proof (cases "phone_ok s")
  case ok: True
  show ?thesis
  proof (cases "get_call_row (id_tenant_id p) i s")
    case None
    then show ?thesis by (simp add: submit_turn_def frame_refuse)
  next
    case (Some call)
    note c = stored_call_ok [OF ok Some]
    have "service_frame p s (fst (fst (on_call call (execute_turn env p body (py_get body ''collection_id'') None True) s)))"
      by (rule frame_on_call [OF framed_execute_turn]) (use c in simp_all)
    with Some show ?thesis by (simp add: submit_turn_def frame_refuse)
  qed
qed (simp add: service_frame_def)

lemma frame_get_call: "service_frame p s (fst (get_call env p i s))"
  by (simp add: get_call_def frame_refuse frame_audit split: option.splits)

lemma frame_list_calls: "service_frame p s (fst (list_calls env p q s))"
  by (simp add: list_calls_def frame_refuse frame_answer)

lemma frame_get_handoff: "service_frame p s (fst (get_handoff env p i s))"
  by (simp add: get_handoff_def frame_refuse frame_answer_after frame_audit split: option.splits)

lemma accept_keeps_ids: "h_tenant_id (accept now o1 q h) = h_tenant_id h" "h_handoff_package_id (accept now o1 q h) = h_handoff_package_id h"
  "h_call_id (accept now o1 q h) = h_call_id h"
  by (simp_all add: accept_def Let_def split: option.splits list.splits)

lemma frame_accept: "service_frame p s (fst (accept_handoff env p i body s))"
proof (cases "phone_ok s \<and> has_any_role p handoff_read_roles")
  case False
  then show ?thesis by (auto simp: accept_handoff_def frame_refuse service_frame_def refuse_def same_tenant_refl)
next
  case ok: True
  show ?thesis
  proof (cases "get_handoff_row (id_tenant_id p) i s")
    case None
    with ok show ?thesis by (simp add: accept_handoff_def frame_refuse)
  next
    case (Some h)
    define h' where "h' = accept (pe_now env) (py_str (py_or (py_get body ''operator_id'') (PStr (id_user_id p))))
                          (none_if_empty (py_get_str body ''queue_id'')) h"
    from ok Some have "h_tenant_id h = id_tenant_id p"
      by (auto simp: phone_ok_def handoffs_keyed_def get_handoff_row_def)
    then have f: "service_frame p s (save_handoff h' s)"
      by (intro frame_save_handoff) (simp add: h'_def accept_keeps_ids)
    have ok': "phone_ok (save_handoff h' s)" using f ok by (simp add: service_frame_def)
    show ?thesis
    proof (cases "get_call_row (id_tenant_id p) (h_call_id h') (save_handoff h' s)")
      case None
      with ok Some f show ?thesis by (simp add: accept_handoff_def h'_def [symmetric] Let_def frame_answer_after)
    next
      case (Some call)
      note c = stored_call_ok [OF ok' Some]
      have t: "service_frame p s (save_call call' (save_handoff h' s))"
        if "transition (pe_now env) ''transferred'' call = Inr call'" for call'
        by (rule service_frame_trans [OF f frame_save_call])
          (use c that call_ok_transition [OF _ that] in \<open>simp_all add: pending_ok_def transition_Inr_iff\<close>)
      with ok \<open>get_handoff_row (id_tenant_id p) i s = Some h\<close> Some f show ?thesis
        by (simp add: accept_handoff_def h'_def [symmetric] Let_def frame_answer_after split: sum.splits)
    qed
  qed
qed

lemma frame_list_quality: "service_frame p s (fst (list_quality_evaluations env p i s))"
  by (simp add: list_quality_evaluations_def frame_refuse frame_answer_after frame_audit service_frame_refl Let_def
      split: option.splits prod.splits)

lemma create_evaluation_frame:
  assumes "create_evaluation parse_int sha red imp ev now ts p i body q = (q', r)" and "u \<noteq> id_tenant_id p"
  shows "dget (qs_repo q') (u, j) = dget (qs_repo q) (u, j) \<and>
    (case qs_audit q' of None \<Rightarrow> [] | Some a \<Rightarrow> stored_chain a u) = (case qs_audit q of None \<Rightarrow> [] | Some a \<Rightarrow> stored_chain a u)"
proof -
  have store: "dget (qs_repo q') (u, j) = dget (qs_repo q) (u, j) \<and>
    (case qs_audit q' of None \<Rightarrow> [] | Some a \<Rightarrow> stored_chain a u) = (case qs_audit q of None \<Rightarrow> [] | Some a \<Rightarrow> stored_chain a u)"
    if "store_evaluation sha red ts p i e gap q = (q', r)" "q_tenant_id e = id_tenant_id p" for e gap
  proof -
    have chain: "stored_chain a' u = stored_chain a u"
      if "record_phone_quality_evaluation sha red ts (id_tenant_id p) (id_user_id p) i x1 x2 gap x3 x4 x5 a = Inr a'" for a a' x1 x2 x3 x4 x5
      using stored_after_record [OF that [unfolded record_phone_quality_evaluation_def], of u] assms(2)
      by (simp add: phone_qa_entry_def)
    have "qs_repo q' = quality_save e (qs_repo q)"
      using that(1) by (auto simp: store_evaluation_def Let_def split: option.splits sum.splits)
    moreover have "(case qs_audit q' of None \<Rightarrow> [] | Some a \<Rightarrow> stored_chain a u) =
        (case qs_audit q of None \<Rightarrow> [] | Some a \<Rightarrow> stored_chain a u)"
      using that(1) by (auto simp: store_evaluation_def Let_def dest!: chain split: option.splits sum.splits)
    ultimately show ?thesis using that(2) assms(2) by (simp add: quality_save_def dget_dset)
  qed
  show ?thesis
    using assms(1) store
    by (auto simp: create_evaluation_def Let_def new_evaluation_def split: if_splits sum.splits)
qed

lemma frame_create_quality: "service_frame p s (fst (create_quality_evaluation env p i body s))"
proof (cases "ps_quality s")
  case None
  then show ?thesis by (simp add: create_quality_evaluation_def frame_refuse)
next
  case (Some repo)
  obtain q r where q: "create_evaluation (pe_parse_int env) (pe_sha env) (pe_audit_redact env) (new_id env ''imp'' s)
      (new_id env ''eval'' (tick s)) (pe_now env) (pe_audit_now env) p i body \<lparr>qs_repo = repo, qs_audit = ps_audit s\<rparr> = (q, r)"
    by force
  let ?s = "(tick (tick s))\<lparr>ps_quality := Some (qs_repo q), ps_audit := qs_audit q\<rparr>"
  have "phone_ok ?s = phone_ok s" by (rule phone_ok_cong) simp_all
  with create_evaluation_frame [OF q] Some have f: "service_frame p s ?s"
    by (simp add: service_frame_def same_tenant_def evaluations_def tenant_log_def)
  show ?thesis
    using Some q f by (simp add: create_quality_evaluation_def Let_def frame_refuse frame_answer_after split: sum.splits)
qed

lemma frame_reports:
  "service_frame p s (fst (metrics env p q s))" "service_frame p s (fst (retention_policy env p s))"
  "service_frame p s (fst (export_calls env p s))" "service_frame p s (fst (list_scenarios env p s))"
  by (simp_all add: metrics_def retention_policy_def export_calls_def list_scenarios_def Let_def frame_refuse
      frame_answer frame_answer_after frame_audit frame_tick service_frame_trans [OF frame_audit frame_refuse]
      split: option.splits)

lemma erase_call_ok: "call_ok c \<Longrightarrow> call_ok (erase_call c)"
proof -
  assume "call_ok c"
  moreover have "list_all grounded (map erase_turn ts) = list_all grounded ts" for ts
    by (induction ts) (simp_all add: grounded_def erase_turn_def)
  ultimately show ?thesis
    by (simp add: call_ok_def erase_call_def call_sound_def numbered_def comp_def erase_turn_def list.pred_map)
qed

lemma frame_delete: "service_frame p s (fst (delete_call_request env p i body s))"
proof (cases "phone_ok s \<and> has_any_role p delete_request_roles")
  case False
  then show ?thesis by (auto simp: delete_call_request_def service_frame_def refuse_def same_tenant_refl)
next
  case ok: True
  show ?thesis
  proof (cases "get_call_row (id_tenant_id p) i s")
    case None
    with ok show ?thesis by (simp add: delete_call_request_def frame_refuse)
  next
    case (Some call)
    with ok stored_call_ok have c: "k_tenant_id call = id_tenant_id p" "call_ok call" "pending_ok (s, call)" by blast+
    let ?s1 = "save_call (erase_call call) s"
    have pend: "pending_ok (s, erase_call call)" using c(3) existing_package_cong [of "erase_call call" call s]
      by (simp add: pending_ok_def erase_call_def)
    have f1: "service_frame p s ?s1"
    proof (rule frame_save_call)
      show "k_tenant_id (erase_call call) = id_tenant_id p" using c(1) by (simp add: erase_call_def)
      show "call_ok (erase_call call) \<and> pending_ok (s, erase_call call)" using erase_call_ok [OF c(2)] pend by blast
    qed
    have "phone_ok ?s1" using f1 ok unfolding service_frame_def by blast
    then have keyed: "handoffs_keyed ?s1" unfolding phone_ok_def by (elim conjE)
    define s2 where "s2 = (case k_handoff_package_id call of
                     Some (c # cs) \<Rightarrow>
                       (case get_handoff_row (id_tenant_id p) (c # cs) ?s1 of
                          None \<Rightarrow> ?s1
                        | Some package \<Rightarrow> save_handoff (erase_package package) ?s1)
                   | _ \<Rightarrow> ?s1)"
    have "service_frame p ?s1 (save_handoff (erase_package h) ?s1)" if "get_handoff_row (id_tenant_id p) j ?s1 = Some h" for j h
    proof (rule frame_save_handoff)
      have "(id_tenant_id p, j) = (h_tenant_id h, h_handoff_package_id h)"
        using keyed that unfolding handoffs_keyed_def get_handoff_row_def by blast
      then show "h_tenant_id (erase_package h) = id_tenant_id p" by (simp add: erase_package_def)
    qed
    then have "service_frame p ?s1 s2" by (auto simp: s2_def service_frame_refl split: option.splits list.splits)
    then have "service_frame p s (record_lifecycle_audit env p ''phone.delete_request'' i d s2)" for d
      using service_frame_trans [OF service_frame_trans [OF f1] frame_audit] by blast
    then show ?thesis using ok Some
      by (simp add: delete_call_request_def s2_def [symmetric] Let_def frame_answer_after)
  qed
qed

lemma frame_preview: "service_frame p s (fst (preview_scenario env p i j body s))"
proof -
  have quiet: "service_frame p s y" if "turn_frame False (tick (tick s), c) (y, c')" for c c' y
  proof -
    have same: "ps_calls y = ps_calls s" "ps_handoffs y = ps_handoffs s" "ps_scenarios y = ps_scenarios s"
      "ps_quality y = ps_quality s" "ps_audit y = ps_audit s"
      using that by (simp_all add: turn_frame_def)
    with phone_ok_cong [OF same(1-3)] show ?thesis
      by (simp add: service_frame_def same_tenant_def evaluations_def tenant_log_def)
  qed
  have run: "service_frame p s (fst (fst (run_preview env p col v us (tick (tick s), c))))" for col v us c
  proof -
    obtain y c' r where y: "run_preview env p col v us (tick (tick s), c) = ((y, c'), r)" by (metis prod.exhaust)
    have "turn_frame False (tick (tick s), c) (y, c')"
      using framed_run_preview [of env p col v us] y unfolding framed_def by (metis fst_conv)
    with quiet y show ?thesis by simp
  qed
  show ?thesis
    unfolding preview_scenario_def
    by (simp add: frame_refuse service_frame_refl run split: option.splits sum.splits)
qed

lemma frame_if:
  "service_frame p s (fst m) \<Longrightarrow> service_frame p s (fst n) \<Longrightarrow> service_frame p s (fst (if b then m else n))"
  by simp

lemma frame_scenario_action: "service_frame p s (fst (scenario_action env p i j action body s))"
proof (cases "lifecycle_action (pe_now env) p i j action (py_get_str body ''publish_at'') (ps_scenarios s)")
  case (Inl e)
  have "service_frame p s (fst (scenario_failure e s))" by (cases e) (simp add: frame_refuse)
  then show ?thesis unfolding scenario_action_def Inl sum.case
    by (intro frame_if frame_preview frame_refuse)
next
  case (Inr r)
  obtain repo c' v where r: "r = (repo, c', v)" by (cases r)
  have "service_frame p s (with_repo repo s)"
  proof (rule frame_repo)
    assume ok: "repo_ok (ps_scenarios s)"
    obtain c where c: "get_scenario p i (ps_scenarios s) = Inr c" "s_tenant_id c' = s_tenant_id c"
      "repo = repo_save c' (ps_scenarios s)"
    proof (rule action_cases [OF Inr [unfolded r]])
      fix c w t
      assume "get_scenario p i (ps_scenarios s) = Inr c" "repo = repo_save c' (ps_scenarios s)"
        "c' = c\<lparr>s_active_version_id := active_after action c v, s_versions := dset j v (s_versions c),
           s_status := (if action \<noteq> ''archive'' then v_status v else s_status c), s_updated_at := pe_now env\<rparr>"
      then show thesis by (intro that [of c]) simp_all
    qed
    from action_ok [OF ok Inr [unfolded r]] c get_scenario_keys [OF ok c(1)]
    show "repo_ok repo \<and> (\<exists>c. repo = repo_save c (ps_scenarios s) \<and> s_tenant_id c = id_tenant_id p)"
      by auto
  qed
  then show ?thesis unfolding scenario_action_def Inr r sum.case prod.case
    by (intro frame_if frame_preview frame_refuse frame_answer_after)
qed

section \<open>Reachable states\<close>

inductive phone_op :: "phone_env \<Rightarrow> identity_claims \<Rightarrow> (phone_state \<Rightarrow> http served) \<Rightarrow> bool"
  for env p where
  op_simulate: "phone_op env p (simulate_call env p body)"
| op_submit: "phone_op env p (submit_turn env p i body)"
| op_get_call: "phone_op env p (get_call env p i)"
| op_list_calls: "phone_op env p (list_calls env p q)"
| op_get_handoff: "phone_op env p (get_handoff env p i)"
| op_accept: "phone_op env p (accept_handoff env p i body)"
| op_create_quality: "phone_op env p (create_quality_evaluation env p i body)"
| op_list_quality: "phone_op env p (list_quality_evaluations env p i)"
| op_metrics: "phone_op env p (metrics env p q)"
| op_retention: "phone_op env p (retention_policy env p)"
| op_export: "phone_op env p (export_calls env p)"
| op_delete: "phone_op env p (delete_call_request env p i body)"
| op_list_scenarios: "phone_op env p (list_scenarios env p)"
| op_create_scenario: "phone_op env p (create_scenario env p cbody)"
| op_upsert: "phone_op env p (upsert_scenario_version env p i j vbody)"
| op_action: "phone_op env p (scenario_action env p i j action body)"
| op_rollback: "phone_op env p (rollback_scenario env p i j)"
| op_preview: "phone_op env p (preview_scenario env p i j body)"

lemma phone_op_frame: "phone_op env p f \<Longrightarrow> service_frame p s (fst (f s))"
  by (induction rule: phone_op.induct)
    (rule frame_simulate frame_submit frame_get_call frame_list_calls frame_get_handoff frame_accept
      frame_create_quality frame_list_quality frame_reports frame_delete frame_create_scenario frame_upsert_scenario
      frame_scenario_action frame_rollback_scenario frame_preview)+

definition new_phone :: "quality_repo option \<Rightarrow> audit_store option \<Rightarrow> phone_state" where
  "new_phone q a = \<lparr>ps_calls = [], ps_handoffs = [], ps_scenarios = [], ps_quality = q, ps_audit = a, ps_fresh = 0,
     ps_dispatched = []\<rparr>"

inductive phone_reachable :: "phone_state \<Rightarrow> bool" where
  phone_init: "phone_reachable (new_phone q a)"
| phone_step: "phone_reachable s \<Longrightarrow> phone_op env p f \<Longrightarrow> phone_reachable (fst (f s))"

lemma phone_reachable_ok: "phone_reachable s \<Longrightarrow> phone_ok s"
proof (induction rule: phone_reachable.induct)
  case (phone_init q a)
  then show ?case by (simp add: phone_ok_def new_phone_def handoffs_keyed_def repo_ok_def)
next
  case (phone_step s env p f)
  with phone_op_frame [of env p f s] show ?case by (simp add: service_frame_def)
qed

section \<open>Properties\<close>

text \<open>C8: Every stored call is sound, whatever requests were served and whatever the providers, the answer gateway
  and the lexicon did, exceptions included: it is stored under its own tenant and id, it has an end time
  exactly when its state is terminal and then a resolution, its turns are numbered 1, 2, 3, ... , every AI
  turn that asserts an answer carries at least one citation and none that is draft, pending, obsolete or
  rejected, and a call waiting for an operator has its handoff package stored under its tenant.\<close>

theorem phone_calls_sound:
  assumes "phone_reachable s" and "get_call_row t i s = Some c"
  shows "k_tenant_id c = t \<and> k_call_id c = i
    \<and> (is_terminal c \<longleftrightarrow> k_ended_at c \<noteq> None)
    \<and> (is_terminal c \<longrightarrow> k_resolution_status c \<noteq> None)
    \<and> map t_sequence_no (k_turns c) = map (\<lambda>n. int n + 1) [0..<length (k_turns c)]
    \<and> (\<forall>turn\<in>set (k_turns c). t_ai_action turn = Some ''answer_with_citations'' \<longrightarrow>
         t_citations turn \<noteq> [] \<and>
         (\<forall>r\<in>set (t_citations turn). \<forall>a. pc_approval_status r = Some a \<longrightarrow> a \<notin> blocked_approval_statuses))
    \<and> (k_state c = ''handoff_pending'' \<longrightarrow>
         (\<exists>h package. k_handoff_package_id c = Some h \<and> get_handoff_row t h s = Some package \<and>
            h_tenant_id package = t \<and> h_handoff_package_id package = h))"
proof -
  note c = stored_call_ok [OF phone_reachable_ok [OF assms(1)] assms(2)]
  have sound: "call_sound c" "numbered c" "list_all grounded (k_turns c)" using c by (simp_all add: call_ok_def)
  have keyed: "handoffs_keyed s" using phone_reachable_ok [OF assms(1)] unfolding phone_ok_def by (elim conjE)
  have "t_citations turn \<noteq> [] \<and> (\<forall>r\<in>set (t_citations turn). \<forall>a. pc_approval_status r = Some a \<longrightarrow> a \<notin> blocked_approval_statuses)"
    if "turn \<in> set (k_turns c)" "t_ai_action turn = Some ''answer_with_citations''" for turn
    using sound(3) that by (force simp: list_all_iff grounded_def is_blocked_def)
  moreover have "\<exists>h package. k_handoff_package_id c = Some h \<and> get_handoff_row t h s = Some package \<and>
      h_tenant_id package = t \<and> h_handoff_package_id package = h"
    if pending: "k_state c = ''handoff_pending''"
  proof -
    from c pending obtain package where "existing_package (s, c) = Some package" by (auto simp: pending_ok_def)
    then obtain h where "k_handoff_package_id c = Some h" "get_handoff_row (k_tenant_id c) h s = Some package"
      by (auto simp: existing_package_def split: option.splits list.splits)
    with c keyed show ?thesis by (auto simp: handoffs_keyed_def get_handoff_row_def)
  qed
  ultimately show ?thesis
    using c sound(1,2) by (auto simp: is_terminal_def call_sound_def numbered_def)
qed

text \<open>C25: Tenants are isolated: no operation of the phone service, whoever calls it and whatever it is asked, changes
  a call, a handoff package, a scenario, a review or the audit log of another tenant.\<close>

theorem phone_tenant_isolation:
  assumes "phone_reachable s" and "phone_op env p f" and "u \<noteq> id_tenant_id p"
  shows "get_call_row u i (fst (f s)) = get_call_row u i s
    \<and> get_handoff_row u h (fst (f s)) = get_handoff_row u h s
    \<and> repo_get u j (ps_scenarios (fst (f s))) = repo_get u j (ps_scenarios s)
    \<and> dget (evaluations (fst (f s))) (u, e) = dget (evaluations s) (u, e)
    \<and> tenant_log (fst (f s)) u = tenant_log s u"
proof -
  have "same_tenant u s (fst (f s))"
    using phone_op_frame [OF assms(2), of s] phone_reachable_ok [OF assms(1)] assms(3) unfolding service_frame_def by blast
  then show ?thesis by (simp add: same_tenant_def get_call_row_def get_handoff_row_def repo_get_def)
qed

text \<open>A concrete environment: the deterministic providers, no lexicon, an answer path that is down.\<close>

definition sample_env :: phone_env where
  "sample_env =
     \<lparr>pe_telephony_name = ''deterministic-simulator'', pe_normalize_event = normalize_event (\<lambda>_. None) (\<lambda>_. []),
      pe_transcribe = transcribe, pe_synthesize = synthesize, pe_answer = (\<lambda>_ _ _. Inl ProviderError),
      pe_handoff_provider = Some (\<lambda>_. None), pe_rules = default_rules, pe_lexicon = None,
      pe_redact_text = (\<lambda>t. (t, False)), pe_mask_phone_number = (\<lambda>_. None), pe_render_for_voice = (\<lambda>t. t),
      pe_identifier = (\<lambda>_. None), pe_now = ''now'', pe_uuid = nat_str, pe_timing = (\<lambda>_ _. no_time),
      pe_parse_float = (\<lambda>_. None), pe_float_repr = (\<lambda>_. []), pe_digits = (\<lambda>s. s), pe_parse_int = (\<lambda>_. None),
      pe_parse_iso = (\<lambda>_. None), pe_sha = (\<lambda>s. s), pe_audit_redact = (\<lambda>s. s), pe_audit_now = ''now'',
      pe_transcript_retention = Some 365, pe_export_retention = Some 30, pe_export_enabled = False\<rparr>"

definition sample_caller :: identity_claims where
  "sample_caller = \<lparr>id_tenant_id = ''t'', id_user_id = ''u'', id_groups = [], id_roles = [''tenant_admin'']\<rparr>"

definition failing_body :: pydict where
  "failing_body = [(''utterances'', PList [PDict [(''type'', PStr ''provider_failure'')]])]"

lemma py_dict_sample: "py_dict (py_or (py_get failing_body ''caller'') (PDict [])) = Inr []"
  "py_dict (py_or (py_get failing_body ''options'') (PDict [])) = Inr []"
  "py_iter (py_or (py_get failing_body ''utterances'') (PList [])) = Inr [PDict [(''type'', PStr ''provider_failure'')]]"
  "py_get_str failing_body ''scenario_id'' = []" "py_get failing_body ''collection_id'' = PNone"
  by (simp_all add: failing_body_def py_get_def py_or_def py_get_str_def)

lemma normalize_failure:
  "pe_normalize_event sample_env [(''type'', PStr ''provider_failure'')] = Inr
     \<lparr>te_event_type = ''provider_failure'', te_text = [], te_dtmf_digits = [], te_asr_confidence = None, te_barge_in = False,
      te_failed_provider = []\<rparr>"
  by (simp add: sample_env_def normalize_event_def py_or_def py_get_def py_get_str_def event_types_def Let_def)

definition after_failure :: phone_state where
  "after_failure = fst (simulate_call sample_env sample_caller failing_body (new_phone None None))"

lemma sample_transitions:
  "transition now ''active'' c = (if k_state c = ''ringing'' then Inr (c\<lparr>k_state := ''active'', k_updated_at := now\<rparr>)
     else transition now ''active'' c)"
  "k_state c = ''active'' \<Longrightarrow> transition now ''handoff_pending'' c = Inr (c\<lparr>k_state := ''handoff_pending'', k_updated_at := now\<rparr>)"
  by (simp_all add: transition_def assert_call_transition_def targets_def call_transitions_def terminal_call_states_def)

lemma sample_role: "has_any_role sample_caller simulate_roles" "id_tenant_id sample_caller = ''t''"
  by (simp_all add: has_any_role_def sample_caller_def simulate_roles_def)

lemma fst_on_call: "fst (on_call c m s) = (let y = fst (m (s, c)) in (save_call (snd y) (fst y), snd y))"
  by (simp add: on_call_def Let_def split: prod.splits)

lemma after_failure_row:
  "\<exists>c. get_call_row ''t'' ''call_0'' after_failure = Some c \<and> k_state c = ''handoff_pending'' \<and> length (k_turns c) = 1"
proof -
  let ?s = "new_phone None None"
  have id: "new_id sample_env ''call'' ?s = ''call_0''" by (simp add: new_id_def new_phone_def sample_env_def nat_str.simps)
  let ?c = "opened_call sample_env sample_caller failing_body [] [] None None ?s"
  have c: "k_state ?c = ''ringing''" "k_recording_enabled ?c = False" "k_tenant_id ?c = ''t''" "k_call_id ?c = ''call_0''"
    "k_turns ?c = []" "k_handoff_package_id ?c = None" "k_scenario_id ?c = None"
    by (simp_all add: opened_call_def new_call_def id sample_caller_def py_get_def)
  obtain d where d: "start_call sample_env None ?c = Inr d" "k_state d = ''active''" "k_tenant_id d = ''t''"
      "k_call_id d = ''call_0''" "k_turns d = []" "k_handoff_package_id d = None" "k_scenario_id d = None"
    using c by (simp add: start_call_def sample_transitions(1) slots_of_def Let_def)
  have env: "pe_handoff_provider sample_env = Some (\<lambda>_. None)" "pe_synthesize sample_env = synthesize" "pe_lexicon sample_env = None"
    by (simp_all add: sample_env_def)
  let ?ctx = "(save_call d (tick (tick ?s)), d)"
  obtain s' d' r where open': "open_package sample_env ''provider_failure'' (Some ''unknown'') True ?ctx = ((s', d'), Inr r)"
    "k_state d' = ''active''" "k_tenant_id d' = ''t''" "k_call_id d' = ''call_0''" "k_turns d' = []"
  proof -
    have e: "existing_package ?ctx = None" by (simp add: existing_package_def d)
    obtain d' r where p: "create_package (pe_handoff_provider sample_env) (new_id sample_env ''handoff'' (save_call d (tick (tick ?s))))
        (pe_now sample_env) ''provider_failure'' (Some ''unknown'') (last_answer_citations d) None d = (d', r)" by force
    note f = create_package_fields [OF p]
    show thesis using open_package_new [OF e p, of True] f d by (intro that) (simp_all add: Let_def)
  qed
  have begin': "begin_transfer sample_env (s', d') =
      ((s', d'\<lparr>k_state := ''handoff_pending'', k_updated_at := pe_now sample_env\<rparr>), Inr ())"
    using open'(2) by (simp add: begin_transfer_def tbind_def tcall_def tmove_def tret_def sample_transitions(2))
  have turn: "\<exists>payload c. execute_turn sample_env sample_caller [(''type'', PStr ''provider_failure'')] PNone None True ?ctx =
      ((s', c), Inr payload) \<and> k_state c = ''handoff_pending'' \<and> k_tenant_id c = ''t'' \<and> k_call_id c = ''call_0'' \<and> length (k_turns c) = 1"
    using open' begin'
    by (simp add: execute_turn_def tbind_def tlift_def tstate_def tcall_def tret_def normalize_failure
        provider_failure_turn_def str_or_def handoff_turn_def reply_def ai_turn_effect env synthesize_def
        resolve_for_call_def d Let_def)
  then obtain payload c where t: "execute_turn sample_env sample_caller [(''type'', PStr ''provider_failure'')] PNone None True ?ctx =
      ((s', c), Inr payload)" "k_state c = ''handoff_pending''" "k_tenant_id c = ''t''" "k_call_id c = ''call_0''" "length (k_turns c) = 1"
    by blast
  have "fst (run_utterances sample_env sample_caller [] PNone [PDict [(''type'', PStr ''provider_failure'')]] ?ctx) = (s', c)"
    using t(1) by (simp add: tbind_def tlift_def tcall_def tret_def py_get_def Let_def)
  then have "after_failure = save_call c s'"
    by (simp add: after_failure_def simulate_call_def sample_role py_dict_sample none_if_empty_def resolve_for_call_def
        Let_def fst_on_call d(1) del: run_utterances.simps)
  moreover have "get_call_row ''t'' ''call_0'' (save_call c s') = Some c"
    using t(3,4) by (simp add: get_call_row_def save_call_def dget_dset)
  ultimately show ?thesis using t(2,5) by (intro exI [of _ c]) simp
qed

theorem phone_calls_sound_witness:
  "\<exists>s c h package. phone_reachable s \<and> get_call_row ''t'' ''call_0'' s = Some c \<and> k_state c = ''handoff_pending'' \<and>
     map t_sequence_no (k_turns c) = [1] \<and> k_handoff_package_id c = Some h \<and> get_handoff_row ''t'' h s = Some package"
proof -
  have reach: "phone_reachable after_failure"
    unfolding after_failure_def by (rule phone_step [OF phone_init op_simulate])
  obtain c where c: "get_call_row ''t'' ''call_0'' after_failure = Some c" "k_state c = ''handoff_pending''" "length (k_turns c) = 1"
    using after_failure_row by blast
  note sound = phone_calls_sound [OF reach c(1)]
  then obtain h package where "k_handoff_package_id c = Some h" "get_handoff_row ''t'' h after_failure = Some package"
    using c(2) by blast
  moreover have "map t_sequence_no (k_turns c) = [1]" using sound c(3) by simp
  ultimately show ?thesis using reach c by (intro exI conjI)
qed

theorem phone_tenant_isolation_witness:
  "get_call_row ''other'' ''call_0'' (fst (simulate_call sample_env sample_caller failing_body (new_phone None None))) = None"
proof -
  have "''other'' \<noteq> id_tenant_id sample_caller" by (simp add: sample_caller_def)
  then have "get_call_row ''other'' ''call_0'' (fst (simulate_call sample_env sample_caller failing_body (new_phone None None)))
      = get_call_row ''other'' ''call_0'' (new_phone None None)"
    by (rule phone_tenant_isolation [OF phone_init op_simulate, THEN conjunct1])
  then show ?thesis by (simp add: get_call_row_def new_phone_def)
qed

lemma erase_text_cases: "erase_text t \<in> {None, Some [], Some erased}"
  by (cases t) (auto simp: erase_text_def opt_truthy_def)

lemma erase_turn_texts:
  "{t_asr_text_redacted (erase_turn u), t_redacted_text (erase_turn u), t_ai_response_text (erase_turn u), t_speech_text (erase_turn u)}
     \<subseteq> {None, Some [], Some erased}"
  using erase_text_cases [of "t_asr_text_redacted u"] erase_text_cases [of "t_redacted_text u"]
    erase_text_cases [of "t_ai_response_text u"] erase_text_cases [of "t_speech_text u"]
  by (simp add: erase_turn_def)

definition after_erasure :: "identity_claims \<Rightarrow> call_session \<Rightarrow> phone_state \<Rightarrow> phone_state" where
  "after_erasure p c s =
     (let s = save_call (erase_call c) s in
      case k_handoff_package_id c of
        Some (x # xs) \<Rightarrow>
          (case get_handoff_row (id_tenant_id p) (x # xs) s of
             None \<Rightarrow> s
           | Some package \<Rightarrow> save_handoff (erase_package package) s)
      | _ \<Rightarrow> s)"

lemma delete_effect:
  assumes "delete_call_request env p i body s = (s', Inr (202, out))"
  obtains c d where "has_any_role p delete_request_roles" "get_call_row (id_tenant_id p) i s = Some c"
    "s' = tick (record_lifecycle_audit env p ''phone.delete_request'' i d (after_erasure p c s))"
  using assms
  by (auto simp: delete_call_request_def refuse_def answer_with_def after_erasure_def Let_def split: if_splits option.splits)

lemma erased_package:
  assumes "handoffs_keyed s" "k_handoff_package_id c = Some h" "h \<noteq> []"
    and "get_handoff_row (id_tenant_id p) h (after_erasure p c s) = Some package"
  shows "\<exists>g. package = erase_package g"
proof -
  from assms(3) obtain x xs where x: "h = x # xs" by (cases h) auto
  show ?thesis
  proof (cases "get_handoff_row (id_tenant_id p) h (save_call (erase_call c) s)")
    case None
    with assms(2,4) x show ?thesis by (simp add: after_erasure_def Let_def)
  next
    case (Some g)
    then have "(id_tenant_id p, h) = (h_tenant_id g, h_handoff_package_id g)"
      using assms(1) unfolding handoffs_keyed_def get_handoff_row_def save_call_def by simp
    with Some assms(2,4) x have "package = erase_package g"
      by (simp add: get_handoff_row_def after_erasure_def save_handoff_def dget_dset erase_package_def Let_def)
    then show ?thesis ..
  qed
qed

text \<open>C26: A deletion request erases the conversation: in the stored call no text that was recorded, spoken or answered
  is left, nor the summary or the collected slots, the handoff package loses its summary, excerpt and slots, and
  the identifiers, numbers, actions and citations of the turns stay for the audit. But the request completes
  although two things the caller said stay as they were: the keyed digits of every turn and the parked,
  unredacted query of a call that waits for a slot.\<close>

theorem deletion_request_erases:
  assumes "delete_call_request env p i body s = (s', Inr (202, out))" and "phone_reachable s"
  shows "\<exists>c c'. get_call_row (id_tenant_id p) i s = Some c \<and> get_call_row (id_tenant_id p) i s' = Some c'
    \<and> has_any_role p delete_request_roles
    \<and> (\<forall>t\<in>set (k_turns c'). {t_asr_text_redacted t, t_redacted_text t, t_ai_response_text t, t_speech_text t}
          \<subseteq> {None, Some [], Some erased})
    \<and> k_summary c' = [] \<and> k_collected_slots c' = []
    \<and> map (\<lambda>t. (t_turn_id t, t_sequence_no t, t_ai_action t, t_citations t)) (k_turns c')
        = map (\<lambda>t. (t_turn_id t, t_sequence_no t, t_ai_action t, t_citations t)) (k_turns c)
    \<and> (\<forall>h package. k_handoff_package_id c = Some h \<and> h \<noteq> [] \<and> get_handoff_row (id_tenant_id p) h s' = Some package \<longrightarrow>
          h_summary package = [] \<and> h_transcript_excerpt_redacted package = erased \<and> h_confirmed_slots package = [])
    \<and> k_pending_query c' = k_pending_query c
    \<and> map t_dtmf_digits (k_turns c') = map t_dtmf_digits (k_turns c)"
proof -
  obtain c d where role: "has_any_role p delete_request_roles" and c: "get_call_row (id_tenant_id p) i s = Some c"
    and s': "s' = tick (record_lifecycle_audit env p ''phone.delete_request'' i d (after_erasure p c s))"
    by (rule delete_effect [OF assms(1)])
  note ok = stored_call_ok [OF phone_reachable_ok [OF assms(2)] c]
  have keyed: "handoffs_keyed s" using phone_reachable_ok [OF assms(2)] unfolding phone_ok_def by (elim conjE)
  have same: "ps_calls s' = ps_calls (save_call (erase_call c) s)" "ps_handoffs s' = ps_handoffs (after_erasure p c s)"
    by (simp_all add: s' record_lifecycle_audit_def after_erasure_def save_handoff_def Let_def split: option.splits list.splits)
  have c': "get_call_row (id_tenant_id p) i s' = Some (erase_call c)"
    using ok by (simp add: get_call_row_def same save_call_def dget_dset erase_call_def)
  have package: "h_summary package = [] \<and> h_transcript_excerpt_redacted package = erased \<and> h_confirmed_slots package = []"
    if "k_handoff_package_id c = Some h" "h \<noteq> []" "get_handoff_row (id_tenant_id p) h s' = Some package" for h package
    using erased_package [OF keyed that(1,2), of p package] that(3)
    by (auto simp: get_handoff_row_def same erase_package_def)
  have turns: "{t_asr_text_redacted t, t_redacted_text t, t_ai_response_text t, t_speech_text t} \<subseteq> {None, Some [], Some erased}"
    if "t \<in> set (k_turns (erase_call c))" for t
  proof -
    from that obtain u where "t = erase_turn u" by (auto simp: erase_call_def)
    with erase_turn_texts [of u] show ?thesis by simp
  qed
  have kept: "k_summary (erase_call c) = []" "k_collected_slots (erase_call c) = []" "k_pending_query (erase_call c) = k_pending_query c"
    "map t_dtmf_digits (k_turns (erase_call c)) = map t_dtmf_digits (k_turns c)"
    "map (\<lambda>t. (t_turn_id t, t_sequence_no t, t_ai_action t, t_citations t)) (k_turns (erase_call c))
      = map (\<lambda>t. (t_turn_id t, t_sequence_no t, t_ai_action t, t_citations t)) (k_turns c)"
    by (simp_all add: erase_call_def erase_turn_def comp_def)
  show ?thesis
  proof (rule exI [of _ c], rule exI [of _ "erase_call c"], intro conjI c c' role kept ballI allI impI)
    fix h package'
    assume "k_handoff_package_id c = Some h \<and> h \<noteq> [] \<and> get_handoff_row (id_tenant_id p) h s' = Some package'"
    then show "h_summary package' = []" "h_transcript_excerpt_redacted package' = erased" "h_confirmed_slots package' = []"
      using package by (elim conjE, simp)+
  qed (rule turns)
qed

theorem deletion_request_erases_witness:
  "\<exists>s' out c'. delete_call_request sample_env sample_caller ''call_0'' [] after_failure = (s', Inr (202, out)) \<and>
     get_call_row ''t'' ''call_0'' s' = Some c' \<and> k_summary c' = []"
proof -
  have role: "has_any_role sample_caller delete_request_roles"
    by (simp add: has_any_role_def sample_caller_def delete_request_roles_def)
  obtain c where "get_call_row ''t'' ''call_0'' after_failure = Some c" using after_failure_row by blast
  with role obtain s' out where d: "delete_call_request sample_env sample_caller ''call_0'' [] after_failure = (s', Inr (202, out))"
    by (simp add: delete_call_request_def sample_role(2) answer_with_def Let_def)
  have reach: "phone_reachable after_failure"
    unfolding after_failure_def by (rule phone_step [OF phone_init op_simulate])
  from deletion_request_erases [OF d reach] d show ?thesis unfolding sample_role(2) by blast
qed

text \<open>The gateway's answer may be spoken when it can be read and passes the answer checks.\<close>

definition may_answer :: "phone_env \<Rightarrow> identity_claims \<Rightarrow> string \<Rightarrow> pyval \<Rightarrow> bool" where
  "may_answer env p q col \<longleftrightarrow>
     (\<exists>response g. pe_answer env p q col = Inr response \<and> read_response env response = Inr g \<and> gr_answerable g)"

lemma reply_Inr:
  assumes "reply p h (ai_turn env action msg a r cites safety reason trace) (s, c) = ((s', c'), Inr payload)"
  shows "s' = s \<and> k_state c' = k_state c \<and> k_tenant_id c' = k_tenant_id c \<and>
    k_handoff_package_id c' = k_handoff_package_id c \<and> py_get payload ''ai_action'' = PStr action"
proof (cases "pe_synthesize env (k_tenant_id c) (k_call_id c) (turn_number (next_sequence_no c))
             (str_or (pe_render_for_voice env (fst (pe_redact_text env msg))) (fst (pe_redact_text env msg)))")
  case (Inl e)
  with assms show ?thesis by (simp add: reply_def tbind_def ai_turn_effect Let_def)
next
  case (Inr ref)
  let ?t = "ai_turn_record env action (fst (pe_redact_text env msg)) a r cites safety reason trace ref c"
  from assms Inr have "s' = s" "c' = append_turn ?t c" "payload = turn_payload p c' ?t h"
    by (auto simp: reply_def tbind_def ai_turn_effect tcall_def tret_def Let_def)
  then show ?thesis by (simp add: turn_payload_def envelope_def py_get_def opt_str_def Let_def)
qed

lemma handoff_turn_waits:
  assumes "handoff_turn env p reason sentiment version blocked True (s, c) = ((s', c'), Inr payload)"
    and "k_state c \<in> {''active'', ''on_hold''}"
  shows "py_get payload ''ai_action'' = PStr ''handoff'' \<and> k_state c' = ''handoff_pending'' \<and> existing_package (s', c') \<noteq> None"
proof -
  obtain s1 c1 r where o: "open_package env reason sentiment True (s, c) = ((s1, c1), r)" by (metis prod.exhaust)
  have st: "k_state c1 = k_state c \<and> (\<exists>package. r = Inr package)"
  proof (cases "existing_package (s, c)")
    case (Some package)
    with o show ?thesis by (auto simp: open_package_def)
  next
    case None
    obtain d package where "create_package (pe_handoff_provider env) (new_id env ''handoff'' s) (pe_now env) reason sentiment
       (last_answer_citations c) None c = (d, package)" by force
    from open_package_new [OF None this, of True] create_package_fields(3) [OF this] o show ?thesis
      by (auto simp: Let_def)
  qed
  then obtain package where r: "r = Inr package" by blast
  have e: "existing_package (s1, c1) \<noteq> None" using open_package_frame [of True "(s, c)" env reason sentiment] o by simp
  from st assms(2) have b: "begin_transfer env (s1, c1) =
      ((s1, c1\<lparr>k_state := ''handoff_pending'', k_updated_at := pe_now env\<rparr>), Inr ())"
    by (auto simp: begin_transfer_def tbind_def tcall_def tret_def tmove_def transition_def assert_call_transition_def
        targets_def call_transitions_def terminal_call_states_def Let_def)
  let ?c2 = "c1\<lparr>k_state := ''handoff_pending'', k_updated_at := pe_now env\<rparr>"
  have "reply p (Some package) (ai_turn env ''handoff'' (transfer_message env (k_tenant_id ?c2) reason version) no_time no_time []
      (Some (handoff_safety blocked reason)) (Some reason) []) (s1, ?c2) = ((s', c'), Inr payload)"
    using assms(1) o b r by (simp add: handoff_turn_def tbind_def tcall_def)
  from reply_Inr [OF this] have f: "s' = s1" "k_state c' = ''handoff_pending''" "k_tenant_id c' = k_tenant_id c1"
    "k_handoff_package_id c' = k_handoff_package_id c1" "py_get payload ''ai_action'' = PStr ''handoff''" by simp_all
  with e existing_package_cong [OF f(3,4), of s1] show ?thesis by simp
qed


lemma sample_handoff_answers:
  assumes "k_state d = ''active''" "k_handoff_package_id d = None"
  shows "\<exists>s' c payload. handoff_turn sample_env p reason sentiment None blocked True (s, d) = ((s', c), Inr payload)"
proof -
  have env: "pe_handoff_provider sample_env = Some (\<lambda>_. None)" "pe_synthesize sample_env = synthesize" "pe_lexicon sample_env = None"
    by (simp_all add: sample_env_def)
  have e: "existing_package (s, d) = None" by (simp add: existing_package_def assms)
  obtain d' r where p: "create_package (pe_handoff_provider sample_env) (new_id sample_env ''handoff'' s)
      (pe_now sample_env) reason sentiment (last_answer_citations d) None d = (d', r)" by force
  obtain s' where o: "open_package sample_env reason sentiment True (s, d) = ((s', d'), Inr r)"
    using open_package_new [OF e p, of True] by (auto simp: Let_def)
  have "k_state d' = ''active''" using create_package_fields [OF p] assms by simp
  then have "begin_transfer sample_env (s', d') =
      ((s', d'\<lparr>k_state := ''handoff_pending'', k_updated_at := pe_now sample_env\<rparr>), Inr ())"
    by (simp add: begin_transfer_def tbind_def tcall_def tmove_def tret_def sample_transitions(2))
  with o show ?thesis
    by (simp add: handoff_turn_def tbind_def tcall_def tret_def reply_def ai_turn_effect env synthesize_def Let_def)
qed


text \<open>C27: Refused requests change nothing and finished calls stay finished: submitting a turn answers 403, 404 or 409
  exactly without a role, without such a call in the caller's tenant, or on a terminal call, and then the state is
  unchanged; in particular a terminal call never takes another turn.\<close>

theorem submit_turn_refusals:
  assumes "submit_turn env p i body s = (s', Inr (status, out))"
  shows "(status = 403 \<longleftrightarrow> \<not> has_any_role p simulate_roles)
    \<and> (status = 404 \<longleftrightarrow> has_any_role p simulate_roles \<and> get_call_row (id_tenant_id p) i s = None)
    \<and> (status = 409 \<longleftrightarrow> has_any_role p simulate_roles \<and>
         (\<exists>c. get_call_row (id_tenant_id p) i s = Some c \<and> is_terminal c))
    \<and> (status \<noteq> 200 \<longrightarrow> s' = s \<and> status \<in> {403, 404, 409})"
  using assms by (auto simp: submit_turn_def refuse_def conclude_def split: if_splits option.splits sum.splits)

theorem submit_turn_refusals_witness:
  "\<exists>s' out. submit_turn sample_env sample_caller ''nope'' [] (new_phone None None) = (s', Inr (404, out)) \<and> s' = new_phone None None"
proof -
  obtain s' out where r: "submit_turn sample_env sample_caller ''nope'' [] (new_phone None None) = (s', Inr (404, out))"
    by (simp add: submit_turn_def sample_role refuse_def get_call_row_def new_phone_def)
  from submit_turn_refusals [OF r] r show ?thesis by auto
qed

text \<open>A preview stores nothing but reaches out: whatever is previewed, calls, packages, scenarios, reviews and the
  audit log stay as they are; yet a transfer in the preview hands a package to the live handoff provider, and
  that package is not in the repository.\<close>

theorem preview_reaches_provider:
  "(let s' = fst (preview_scenario env p i j body s) in
      ps_calls s' = ps_calls s \<and> ps_handoffs s' = ps_handoffs s \<and> ps_scenarios s' = ps_scenarios s \<and>
      ps_quality s' = ps_quality s \<and> ps_audit s' = ps_audit s)
    \<and> (case open_package env reason sentiment False (s, c) of ((s', _), _) \<Rightarrow>
        ps_handoffs s' = ps_handoffs s \<and>
        (pe_handoff_provider env = None \<or> existing_package (s, c) \<noteq> None \<or>
          (\<exists>package. ps_dispatched s' = ps_dispatched s @ [package] \<and> h_call_id package = k_call_id c)))"
proof (intro conjI)
  have run: "turn_frame False (tick (tick s), d) (fst (run_preview env p col v us (tick (tick s), d)))" for col v us d
    using framed_run_preview [of env p col v us] unfolding framed_def by blast
  show "let s' = fst (preview_scenario env p i j body s) in
      ps_calls s' = ps_calls s \<and> ps_handoffs s' = ps_handoffs s \<and> ps_scenarios s' = ps_scenarios s \<and>
      ps_quality s' = ps_quality s \<and> ps_audit s' = ps_audit s"
    using run by (simp add: preview_scenario_def refuse_def turn_frame_def Let_def split: option.splits sum.splits)
next
  obtain d package where p: "create_package (pe_handoff_provider env) (new_id env ''handoff'' s) (pe_now env) reason sentiment
       (last_answer_citations c) None c = (d, package)" by force
  show "case open_package env reason sentiment False (s, c) of ((s', _), _) \<Rightarrow>
        ps_handoffs s' = ps_handoffs s \<and>
        (pe_handoff_provider env = None \<or> existing_package (s, c) \<noteq> None \<or>
          (\<exists>package. ps_dispatched s' = ps_dispatched s @ [package] \<and> h_call_id package = k_call_id c))"
  proof (cases "existing_package (s, c)")
    case None
    from open_package_new [OF None p, of False] show ?thesis
      by (cases "pe_handoff_provider env") (simp_all add: Let_def log_dispatch_def drafted_package_def)
  qed (simp add: open_package_def)
qed

theorem preview_reaches_provider_witness:
  "\<exists>c package. existing_package (new_phone None None, c) = None \<and>
     ps_dispatched (fst (fst (open_package sample_env ''high_risk_intent'' None False (new_phone None None, c)))) = [package] \<and>
     h_call_id package = ''preview_1''"
proof -
  let ?c = "new_call ''t'' ''preview_1'' ''corr'' ''now''"
  have none: "existing_package (new_phone None None, ?c) = None" by (simp add: existing_package_def new_call_def)
  have "pe_handoff_provider sample_env \<noteq> None" by (simp add: sample_env_def)
  with none conjunct2 [OF preview_reaches_provider [where env = sample_env and reason = "''high_risk_intent''" and sentiment = None
        and s = "new_phone None None" and c = ?c]]
  obtain package where "ps_dispatched (fst (fst (open_package sample_env ''high_risk_intent'' None False (new_phone None None, ?c)))) = [package]"
    "h_call_id package = ''preview_1''"
    by (auto simp: new_phone_def new_call_def split: prod.splits)
  with none show ?thesis by blast
qed

end
