(* ===== verification/PyDate.thy ===== *)
theory PyDate
  imports PyStr
begin

text \<open>
  The part of Python's \<open>datetime.date\<close> that the services use. A date is its proleptic Gregorian
  ordinal (\<open>toordinal\<close>), so comparison is the comparison of integers; reading and printing follow
  \<open>date.fromisoformat\<close> (Python 3.11: calendar and week dates, with or without separators) and
  \<open>date.isoformat\<close>; adding days raises \<open>OverflowError\<close> outside the years 1 to 9999.
\<close>

section \<open>The calendar\<close>

definition leap_year :: "int \<Rightarrow> bool" where
  "leap_year y \<longleftrightarrow> y mod 4 = 0 \<and> (y mod 100 \<noteq> 0 \<or> y mod 400 = 0)"

definition days_in_month :: "int \<Rightarrow> int \<Rightarrow> int" where
  "days_in_month y m =
     (if m = 2 then (if leap_year y then 29 else 28)
      else if m \<in> {4, 6, 9, 11} then 30 else 31)"

definition days_before_year :: "int \<Rightarrow> int" where
  "days_before_year y = (y - 1) * 365 + (y - 1) div 4 - (y - 1) div 100 + (y - 1) div 400"

definition days_before_month :: "int \<Rightarrow> int \<Rightarrow> int" where
  "days_before_month y m = sum_list (map (days_in_month y) [1..m - 1])"

definition ymd_to_ordinal :: "int \<Rightarrow> int \<Rightarrow> int \<Rightarrow> int" where
  "ymd_to_ordinal y m d = days_before_year y + days_before_month y m + d"

definition min_ordinal :: int where
  "min_ordinal = 1"

definition max_ordinal :: int where
  "max_ordinal = 3652059"

text \<open>\<open>date(y, m, d)\<close>, \<open>None\<close> for its \<open>ValueError\<close>.\<close>

definition make_date :: "int \<Rightarrow> int \<Rightarrow> int \<Rightarrow> int option" where
  "make_date y m d =
     (if 1 \<le> y \<and> y \<le> 9999 \<and> 1 \<le> m \<and> m \<le> 12 \<and> 1 \<le> d \<and> d \<le> days_in_month y m
      then Some (ymd_to_ordinal y m d) else None)"

text \<open>The Monday of the first ISO week, and a date given by ISO week and day.\<close>

definition iso_week1_monday :: "int \<Rightarrow> int" where
  "iso_week1_monday y =
     (let first = ymd_to_ordinal y 1 1;
          first_weekday = (first + 6) mod 7;
          monday = first - first_weekday
      in if first_weekday > 3 then monday + 7 else monday)"

definition iso_weeks :: "int \<Rightarrow> int" where
  "iso_weeks y =
     (let first_weekday = days_before_year y mod 7
      in if first_weekday = 3 \<or> (first_weekday = 2 \<and> leap_year y) then 53 else 52)"

definition make_week_date :: "int \<Rightarrow> int \<Rightarrow> int \<Rightarrow> int option" where
  "make_week_date y w d =
     (if 1 \<le> y \<and> y \<le> 9999 \<and> 1 \<le> w \<and> w \<le> iso_weeks y \<and> 1 \<le> d \<and> d \<le> 7
      then let n = iso_week1_monday y + (w - 1) * 7 + (d - 1)
           in if min_ordinal \<le> n \<and> n \<le> max_ordinal then Some n else None
      else None)"

section \<open>fromisoformat\<close>

definition digits_value :: "string \<Rightarrow> int option" where
  "digits_value s = (if s \<noteq> [] \<and> list_all is_digit s then Some (int (str_nat s)) else None)"

definition parse_ymd :: "string \<Rightarrow> string \<Rightarrow> string \<Rightarrow> int option" where
  "parse_ymd ys ms ds =
     (case (digits_value ys, digits_value ms, digits_value ds) of
        (Some y, Some m, Some d) \<Rightarrow> make_date y m d
      | _ \<Rightarrow> None)"

definition parse_week :: "string \<Rightarrow> string \<Rightarrow> string \<Rightarrow> int option" where
  "parse_week ys ws ds =
     (case (digits_value ys, digits_value ws, digits_value ds) of
        (Some y, Some w, Some d) \<Rightarrow> make_week_date y w d
      | _ \<Rightarrow> None)"

definition slice :: "nat \<Rightarrow> nat \<Rightarrow> 'a list \<Rightarrow> 'a list" where
  "slice i j xs = drop i (take j xs)"

text \<open>\<open>YYYY-MM-DD\<close>, \<open>YYYYMMDD\<close>, \<open>YYYY-Www-D\<close>, \<open>YYYY-Www\<close>, \<open>YYYYWwwD\<close> and \<open>YYYYWww\<close>.\<close>

definition date_fromisoformat :: "string \<Rightarrow> int option" where
  "date_fromisoformat s =
     (let y = slice 0 4 s in
      if length s = 10 \<and> s ! 4 = CHR ''-'' \<and> s ! 5 = CHR ''W'' \<and> s ! 8 = CHR ''-''
      then parse_week y (slice 6 8 s) (slice 9 10 s)
      else if length s = 10 \<and> s ! 4 = CHR ''-'' \<and> s ! 7 = CHR ''-''
      then parse_ymd y (slice 5 7 s) (slice 8 10 s)
      else if length s = 8 \<and> s ! 4 = CHR ''-'' \<and> s ! 5 = CHR ''W''
      then parse_week y (slice 6 8 s) ''1''
      else if length s = 8 \<and> s ! 4 = CHR ''W''
      then parse_week y (slice 5 7 s) (slice 7 8 s)
      else if length s = 8 then parse_ymd y (slice 4 6 s) (slice 6 8 s)
      else if length s = 7 \<and> s ! 4 = CHR ''W'' then parse_week y (slice 5 7 s) ''1''
      else None)"

section \<open>isoformat and arithmetic\<close>

text \<open>\<open>date.fromordinal\<close>: 400-year, 100-year, 4-year and 1-year cycles, then the month by counting.\<close>

fun month_of :: "int \<Rightarrow> int \<Rightarrow> nat \<Rightarrow> int \<Rightarrow> int \<times> int" where
  "month_of y m 0 n = (m, n + 1)"
| "month_of y m (Suc fuel) n =
     (if n < days_in_month y m then (m, n + 1) else month_of y (m + 1) fuel (n - days_in_month y m))"

definition ordinal_to_ymd :: "int \<Rightarrow> int \<times> int \<times> int" where
  "ordinal_to_ymd ord =
     (let n = ord - 1;
          n400 = n div 146097; n = n mod 146097;
          n100 = n div 36524; n = n mod 36524;
          n4 = n div 1461; n = n mod 1461;
          n1 = n div 365; n = n mod 365;
          y = n400 * 400 + n100 * 100 + n4 * 4 + n1 + 1
      in if n1 = 4 \<or> n100 = 4 then (y - 1, 12, 31)
         else (y, month_of y 1 11 n))"

definition pad :: "nat \<Rightarrow> int \<Rightarrow> string" where
  "pad w i = (let s = int_str i in replicate (w - length s) (CHR ''0'') @ s)"

definition date_isoformat :: "int \<Rightarrow> string" where
  "date_isoformat ord =
     (case ordinal_to_ymd ord of (y, m, d) \<Rightarrow> pad 4 y @ ''-'' @ pad 2 m @ ''-'' @ pad 2 d)"

definition add_days :: "int \<Rightarrow> int \<Rightarrow> int result" where
  "add_days ord n =
     (if \<bar>n\<bar> > 999999999 then Inl OverflowError
      else if min_ordinal \<le> ord + n \<and> ord + n \<le> max_ordinal then Inr (ord + n)
      else Inl OverflowError)"

section \<open>Every date read is in the calendar\<close>

lemma days_in_month_pos: "0 < days_in_month y m"
  by (simp add: days_in_month_def)

lemma days_before_month_nonneg: "0 \<le> days_before_month y m"
  unfolding days_before_month_def
  by (rule sum_list_nonneg) (use days_in_month_pos less_imp_le in fastforce)

lemma days_before_year_nonneg: "1 \<le> y \<Longrightarrow> 0 \<le> days_before_year y"
  using zdiv_mono2 [of "y - 1" 1 100] pos_imp_zdiv_nonneg_iff [of 4 "y - 1"] pos_imp_zdiv_nonneg_iff [of 400 "y - 1"]
  unfolding days_before_year_def by simp

lemma make_date_pos: "make_date y m d = Some n \<Longrightarrow> min_ordinal \<le> n"
  using days_before_month_nonneg [of y m] days_before_year_nonneg [of y]
  by (simp add: make_date_def ymd_to_ordinal_def min_ordinal_def split: if_splits)

lemma make_week_date_pos: "make_week_date y w d = Some n \<Longrightarrow> min_ordinal \<le> n"
  by (simp add: make_week_date_def Let_def split: if_splits)

lemma parse_ymd_pos: "parse_ymd a b c = Some n \<Longrightarrow> min_ordinal \<le> n"
  unfolding parse_ymd_def by (cases "digits_value a"; cases "digits_value b"; cases "digits_value c") (simp_all, erule make_date_pos)

lemma parse_week_pos: "parse_week a b c = Some n \<Longrightarrow> min_ordinal \<le> n"
  unfolding parse_week_def by (cases "digits_value a"; cases "digits_value b"; cases "digits_value c") (simp_all, erule make_week_date_pos)

lemmas parse_pos = parse_ymd_pos parse_week_pos

lemma if_eqE: "(if b then x else y) = z \<Longrightarrow> (x = z \<Longrightarrow> P) \<Longrightarrow> (y = z \<Longrightarrow> P) \<Longrightarrow> P"
  by (cases b) simp_all

lemma date_fromisoformat_pos: "date_fromisoformat s = Some n \<Longrightarrow> min_ordinal \<le> n"
  unfolding date_fromisoformat_def Let_def
  by (elim if_eqE) (erule parse_pos | erule option.distinct(1) [THEN notE])+

lemma add_days_later:
  "min_ordinal \<le> d \<Longrightarrow> 0 < n \<Longrightarrow>
     add_days d n = (if d + n \<le> max_ordinal then Inr (d + n) else Inl OverflowError)"
  by (simp add: add_days_def min_ordinal_def max_ordinal_def)

lemma date_fromisoformat_Nil [simp]: "date_fromisoformat [] = None"
  by (simp add: date_fromisoformat_def slice_def Let_def)

end
