(* ===== verification/MfgMetadata.thy ===== *)
theory MfgMetadata
  imports Domain PyDate
begin

text \<open>
  \<open>manufacturing/domain/metadata.py\<close>: the manufacturing and approval metadata of a document and its
  JSON form, which the registry stores. A field the code passes on without looking at it is a dynamic
  value; \<open>int()\<close> of a string is the argument \<open>parse_int\<close>.
\<close>

section \<open>Enumerations\<close>

datatype document_kind =
  WORK_INSTRUCTION | INSPECTION | QUALITY_REPORT | TROUBLE_REPORT | MINUTES | LEDGER | DRAWING | TRAINING

fun document_kind_value :: "document_kind \<Rightarrow> string" where
  "document_kind_value WORK_INSTRUCTION = ''work_instruction''"
| "document_kind_value INSPECTION = ''inspection''"
| "document_kind_value QUALITY_REPORT = ''quality_report''"
| "document_kind_value TROUBLE_REPORT = ''trouble_report''"
| "document_kind_value MINUTES = ''minutes''"
| "document_kind_value LEDGER = ''ledger''"
| "document_kind_value DRAWING = ''drawing''"
| "document_kind_value TRAINING = ''training''"

definition document_kinds :: "document_kind list" where
  "document_kinds =
     [WORK_INSTRUCTION, INSPECTION, QUALITY_REPORT, TROUBLE_REPORT, MINUTES, LEDGER, DRAWING, TRAINING]"

datatype approval_status = DRAFT | PENDING_REVIEW | APPROVED | OBSOLETE

fun approval_status_value :: "approval_status \<Rightarrow> string" where
  "approval_status_value DRAFT = ''draft''"
| "approval_status_value PENDING_REVIEW = ''pending_review''"
| "approval_status_value APPROVED = ''approved''"
| "approval_status_value OBSOLETE = ''obsolete''"

definition approval_statuses :: "approval_status list" where
  "approval_statuses = [DRAFT, PENDING_REVIEW, APPROVED, OBSOLETE]"

datatype approval_source = IMPORTED | WORKFLOW

fun approval_source_value :: "approval_source \<Rightarrow> string" where
  "approval_source_value IMPORTED = ''imported''"
| "approval_source_value WORKFLOW = ''workflow''"

definition approval_sources :: "approval_source list" where
  "approval_sources = [IMPORTED, WORKFLOW]"

section \<open>The record\<close>

record mfg_metadata =
  mm_tenant_id :: string
  mm_document_id :: string
  mm_equipment :: pyval
  mm_model_no :: pyval
  mm_alarm_code :: pyval
  mm_defect_type :: pyval
  mm_process :: pyval
  mm_part_no :: pyval
  mm_customer :: pyval
  mm_document_kind :: "document_kind option"
  mm_process_id :: pyval
  mm_equipment_id :: pyval
  mm_safety_category :: pyval
  mm_quality_category :: pyval
  mm_equipment_operation_category :: pyval
  mm_hazard_tags :: "pyval list"
  mm_regulation_refs :: "pyval list"
  mm_approval_status :: approval_status
  mm_effective_date :: pyval
  mm_valid_until :: pyval
  mm_approved_by :: pyval
  mm_approved_at :: pyval
  mm_obsolete_at :: pyval
  mm_superseded_by :: pyval
  mm_approval_source :: approval_source
  mm_owner :: string
  mm_review_cycle_days :: int
  mm_last_verified_at :: string
  mm_extra :: pydict

text \<open>\<open>ManufacturingDocumentMetadata(tenant_id=..., document_id=...)\<close> with every default.\<close>

definition new_metadata :: "string \<Rightarrow> string \<Rightarrow> mfg_metadata" where
  "new_metadata tenant_id document_id =
     \<lparr>mm_tenant_id = tenant_id, mm_document_id = document_id, mm_equipment = PNone, mm_model_no = PNone,
      mm_alarm_code = PNone, mm_defect_type = PNone, mm_process = PNone, mm_part_no = PNone,
      mm_customer = PNone, mm_document_kind = None, mm_process_id = PNone, mm_equipment_id = PNone,
      mm_safety_category = PNone, mm_quality_category = PNone, mm_equipment_operation_category = PNone,
      mm_hazard_tags = [], mm_regulation_refs = [], mm_approval_status = DRAFT, mm_effective_date = PNone,
      mm_valid_until = PNone, mm_approved_by = PNone, mm_approved_at = PNone, mm_obsolete_at = PNone,
      mm_superseded_by = PNone, mm_approval_source = WORKFLOW, mm_owner = [], mm_review_cycle_days = 0,
      mm_last_verified_at = [], mm_extra = []\<rparr>"

section \<open>The JSON form\<close>

definition opt_value :: "('a \<Rightarrow> string) \<Rightarrow> 'a option \<Rightarrow> pyval" where
  "opt_value f v = (case v of None \<Rightarrow> PNone | Some x \<Rightarrow> PStr (f x))"

definition to_mapping :: "mfg_metadata \<Rightarrow> pydict" where
  "to_mapping m =
     [(''tenant_id'', PStr (mm_tenant_id m)), (''document_id'', PStr (mm_document_id m)),
      (''equipment'', mm_equipment m), (''model_no'', mm_model_no m), (''alarm_code'', mm_alarm_code m),
      (''defect_type'', mm_defect_type m), (''process'', mm_process m), (''part_no'', mm_part_no m),
      (''customer'', mm_customer m), (''document_kind'', opt_value document_kind_value (mm_document_kind m)),
      (''process_id'', mm_process_id m), (''equipment_id'', mm_equipment_id m),
      (''safety_category'', mm_safety_category m), (''quality_category'', mm_quality_category m),
      (''equipment_operation_category'', mm_equipment_operation_category m),
      (''hazard_tags'', PList (mm_hazard_tags m)), (''regulation_refs'', PList (mm_regulation_refs m)),
      (''approval_status'', PStr (approval_status_value (mm_approval_status m))),
      (''effective_date'', mm_effective_date m), (''valid_until'', mm_valid_until m),
      (''approved_by'', mm_approved_by m), (''approved_at'', mm_approved_at m),
      (''obsolete_at'', mm_obsolete_at m), (''superseded_by'', mm_superseded_by m),
      (''approval_source'', PStr (approval_source_value (mm_approval_source m))),
      (''owner'', PStr (mm_owner m)), (''review_cycle_days'', PInt (mm_review_cycle_days m)),
      (''last_verified_at'', PStr (mm_last_verified_at m)), (''extra'', PDict (mm_extra m))]"

definition int_or_zero :: "(string \<Rightarrow> int option) \<Rightarrow> pyval \<Rightarrow> int" where
  "int_or_zero parse_int v =
     (case py_int parse_int v of None \<Rightarrow> 0 | Some n \<Rightarrow> if n > 0 then n else 0)"

text \<open>\<open>_enum\<close>: the member with that value, else the default.\<close>

definition enum_member :: "('a \<Rightarrow> string) \<Rightarrow> 'a list \<Rightarrow> pyval \<Rightarrow> 'a option" where
  "enum_member f members v = find (\<lambda>e. v = PStr (f e)) members"

definition tuple_of :: "pyval \<Rightarrow> pyval list result" where
  "tuple_of v = (if py_truthy v then py_iter v else Inr [])"

definition from_mapping :: "(string \<Rightarrow> int option) \<Rightarrow> pyval \<Rightarrow> mfg_metadata result" where
  "from_mapping parse_int data =
     rbind (py_dict data) (\<lambda>m.
     rbind (tuple_of (py_get m ''hazard_tags'')) (\<lambda>hazard_tags.
     rbind (tuple_of (py_get m ''regulation_refs'')) (\<lambda>regulation_refs.
     rbind (py_dict (py_or (py_get m ''extra'') (PDict []))) (\<lambda>extra.
       Inr \<lparr>mm_tenant_id = py_get_str m ''tenant_id'', mm_document_id = py_get_str m ''document_id'',
         mm_equipment = py_get m ''equipment'', mm_model_no = py_get m ''model_no'',
         mm_alarm_code = py_get m ''alarm_code'', mm_defect_type = py_get m ''defect_type'',
         mm_process = py_get m ''process'', mm_part_no = py_get m ''part_no'',
         mm_customer = py_get m ''customer'',
         mm_document_kind = enum_member document_kind_value document_kinds (py_get m ''document_kind''),
         mm_process_id = py_get m ''process_id'', mm_equipment_id = py_get m ''equipment_id'',
         mm_safety_category = py_get m ''safety_category'', mm_quality_category = py_get m ''quality_category'',
         mm_equipment_operation_category = py_get m ''equipment_operation_category'',
         mm_hazard_tags = hazard_tags, mm_regulation_refs = regulation_refs,
         mm_approval_status =
           (case enum_member approval_status_value approval_statuses (py_get m ''approval_status'') of
              None \<Rightarrow> DRAFT | Some e \<Rightarrow> e),
         mm_effective_date = py_get m ''effective_date'', mm_valid_until = py_get m ''valid_until'',
         mm_approved_by = py_get m ''approved_by'', mm_approved_at = py_get m ''approved_at'',
         mm_obsolete_at = py_get m ''obsolete_at'', mm_superseded_by = py_get m ''superseded_by'',
         mm_approval_source =
           (case enum_member approval_source_value approval_sources (py_get m ''approval_source'') of
              None \<Rightarrow> WORKFLOW | Some e \<Rightarrow> e),
         mm_owner = py_get_str m ''owner'',
         mm_review_cycle_days = int_or_zero parse_int (py_get m ''review_cycle_days''),
         mm_last_verified_at = py_get_str m ''last_verified_at'', mm_extra = extra\<rparr>))))"

section \<open>What is read back\<close>

lemma approval_status_value_inj [simp]: "approval_status_value a = approval_status_value b \<longleftrightarrow> a = b"
  by (cases a; cases b) simp_all

lemma enum_member_value:
  "enum_member document_kind_value document_kinds (opt_value document_kind_value k) = k"
  "enum_member approval_status_value approval_statuses (PStr (approval_status_value s)) = Some s"
  "enum_member approval_source_value approval_sources (PStr (approval_source_value src)) = Some src"
proof -
  show "enum_member document_kind_value document_kinds (opt_value document_kind_value k) = k"
  proof (cases k)
    case (Some d)
    then show ?thesis by (cases d) (simp_all add: enum_member_def document_kinds_def opt_value_def)
  qed (simp add: enum_member_def document_kinds_def opt_value_def)
qed (cases s, simp_all add: enum_member_def approval_statuses_def, cases src, simp_all add: enum_member_def approval_sources_def)

lemma tuple_of_PList [simp]: "tuple_of (PList vs) = Inr vs"
  by (simp add: tuple_of_def)

lemma py_dict_extra: "py_dict (py_or (PDict kvs) (PDict [])) = Inr kvs"
  by (simp add: py_or_def)

lemma int_or_zero_PInt [simp]: "int_or_zero parse_int (PInt i) = max 0 i"
  by (simp add: int_or_zero_def)

lemma from_to_mapping:
  "from_mapping parse_int (PDict (to_mapping m)) = Inr (m\<lparr>mm_review_cycle_days := max 0 (mm_review_cycle_days m)\<rparr>)"
  by (simp add: from_mapping_def to_mapping_def py_get_def py_get_str_def enum_member_value py_dict_extra)

lemma from_mapping_cycle: "from_mapping parse_int v = Inr m \<Longrightarrow> 0 \<le> mm_review_cycle_days m"
  by (auto simp: from_mapping_def rbind_Inr_iff int_or_zero_def split: option.splits)

lemma from_mapping_to_mapping_id:
  "0 \<le> mm_review_cycle_days m \<Longrightarrow> from_mapping parse_int (PDict (to_mapping m)) = Inr m"
  by (simp add: from_to_mapping max_def)

text \<open>C28: Metadata survives its JSON form: a record that was stored is read back unchanged, every enum, tuple and
  free-form value included, except that a negative review cycle becomes no cycle; and whatever JSON value the
  registry holds, what is read from it is stable: storing and reading it again gives the same record.\<close>

theorem metadata_roundtrip:
  "from_mapping parse_int (PDict (to_mapping m)) = Inr (m\<lparr>mm_review_cycle_days := max 0 (mm_review_cycle_days m)\<rparr>) \<and>
   (case from_mapping parse_int v of Inl _ \<Rightarrow> True | Inr n \<Rightarrow> from_mapping parse_int (PDict (to_mapping n)) = Inr n)"
  by (auto simp: from_to_mapping from_mapping_to_mapping_id dest: from_mapping_cycle split: sum.split)

end
