(* ===== verification/Freshness.thy ===== *)
theory Freshness
  imports MfgMetadata
begin

text \<open>
  \<open>manufacturing/domain/freshness.py\<close>: when a document is overdue for its next review. The functions
  accept the metadata record and its JSON form; today is an argument, as in the code.
\<close>

datatype freshness_source = Record mfg_metadata | Mapping pydict

section \<open>The due date\<close>

text \<open>The caller has converted the cycle to an integer, so the conversion inside is the identity. Adding the
  cycle raises \<open>OverflowError\<close> past the year 9999.\<close>

definition review_due_date :: "string \<Rightarrow> int \<Rightarrow> int option result" where
  "review_due_date last_verified_at review_cycle_days =
     (if last_verified_at = [] \<or> review_cycle_days \<le> 0 then Inr None
      else case date_fromisoformat (utf8_take 10 last_verified_at) of
             None \<Rightarrow> Inr None
           | Some verified \<Rightarrow> rbind (add_days verified review_cycle_days) (\<lambda>due. Inr (Some due)))"

text \<open>\<open>_get\<close>, with \<open>None\<close> as the default of a missing key: every reader applies \<open>or\<close> to the result.\<close>

definition freshness_get :: "freshness_source \<Rightarrow> string \<Rightarrow> pyval" where
  "freshness_get meta key =
     (case meta of
        Mapping m \<Rightarrow> py_get m key
      | Record r \<Rightarrow> py_get (to_mapping r) key)"

definition freshness_str :: "freshness_source \<Rightarrow> string \<Rightarrow> string" where
  "freshness_str meta key =
     (if py_truthy (freshness_get meta key) then py_str (freshness_get meta key) else [])"

definition freshness_cycle :: "(string \<Rightarrow> int option) \<Rightarrow> freshness_source \<Rightarrow> int option" where
  "freshness_cycle parse_int meta = py_int parse_int (py_or (freshness_get meta ''review_cycle_days'') (PInt 0))"

definition is_review_overdue :: "(string \<Rightarrow> int option) \<Rightarrow> int \<Rightarrow> freshness_source \<Rightarrow> bool result" where
  "is_review_overdue parse_int today meta =
     (case freshness_cycle parse_int meta of
        None \<Rightarrow> Inr False
      | Some cycle \<Rightarrow>
          rbind (review_due_date (freshness_str meta ''last_verified_at'') cycle) (\<lambda>due.
            Inr (case due of None \<Rightarrow> False | Some d \<Rightarrow> d < today)))"

section \<open>The overdue list\<close>

record overdue_row =
  or_due :: int
  or_document_id :: string
  or_owner :: string
  or_last_verified_at :: string
  or_review_due_date :: string

definition overdue_row_of :: "(string \<Rightarrow> int option) \<Rightarrow> int \<Rightarrow> freshness_source option \<Rightarrow> overdue_row list result" where
  "overdue_row_of parse_int today meta =
     (case meta of
        None \<Rightarrow> Inr []
      | Some m \<Rightarrow>
          rbind (is_review_overdue parse_int today m) (\<lambda>overdue.
            if \<not> overdue then Inr []
            else case freshness_cycle parse_int m of
              None \<Rightarrow> Inl ValueError
            | Some cycle \<Rightarrow>
                rbind (review_due_date (freshness_str m ''last_verified_at'') cycle) (\<lambda>due.
                  Inr (case due of
                         None \<Rightarrow> []
                       | Some d \<Rightarrow>
                           [\<lparr>or_due = d, or_document_id = freshness_str m ''document_id'',
                             or_owner = freshness_str m ''owner'',
                             or_last_verified_at = freshness_str m ''last_verified_at'',
                             or_review_due_date = date_isoformat d\<rparr>]))))"

definition review_overdue_entries ::
  "(string \<Rightarrow> int option) \<Rightarrow> int \<Rightarrow> freshness_source option list \<Rightarrow> overdue_row list result" where
  "review_overdue_entries parse_int today metas =
     rbind (rmap (overdue_row_of parse_int today) metas) (\<lambda>rows.
       Inr (sort_key (\<lambda>r. (or_due r, or_document_id r)) (concat rows)))"

section \<open>What the list holds\<close>

definition due_of :: "(string \<Rightarrow> int option) \<Rightarrow> freshness_source \<Rightarrow> int option" where
  "due_of parse_int m =
     (case (freshness_cycle parse_int m, date_fromisoformat (utf8_take 10 (freshness_str m ''last_verified_at''))) of
        (Some cycle, Some verified) \<Rightarrow> if cycle > 0 then Some (verified + cycle) else None
      | _ \<Rightarrow> None)"

text \<open>The due date exists in the calendar.\<close>

definition due_representable :: "(string \<Rightarrow> int option) \<Rightarrow> freshness_source \<Rightarrow> bool" where
  "due_representable parse_int m \<longleftrightarrow>
     (case due_of parse_int m of None \<Rightarrow> True | Some d \<Rightarrow> d \<le> max_ordinal)"

definition row_at :: "freshness_source \<Rightarrow> int \<Rightarrow> overdue_row" where
  "row_at m d =
     \<lparr>or_due = d, or_document_id = freshness_str m ''document_id'', or_owner = freshness_str m ''owner'',
      or_last_verified_at = freshness_str m ''last_verified_at'', or_review_due_date = date_isoformat d\<rparr>"

definition overdue_rows_spec :: "(string \<Rightarrow> int option) \<Rightarrow> int \<Rightarrow> freshness_source option \<Rightarrow> overdue_row list" where
  "overdue_rows_spec parse_int today meta =
     (case meta of
        None \<Rightarrow> []
      | Some m \<Rightarrow> (case due_of parse_int m of None \<Rightarrow> [] | Some d \<Rightarrow> if d < today then [row_at m d] else []))"

lemma review_due_date_of:
  assumes "freshness_cycle parse_int m = Some cycle"
  shows "review_due_date (freshness_str m ''last_verified_at'') cycle =
    (if due_representable parse_int m then Inr (due_of parse_int m) else Inl OverflowError)"
proof (cases "date_fromisoformat (utf8_take 10 (freshness_str m ''last_verified_at''))")
  case None
  with assms show ?thesis by (simp add: review_due_date_def due_representable_def due_of_def)
next
  case (Some verified)
  then have "min_ordinal \<le> verified" "freshness_str m ''last_verified_at'' \<noteq> []"
    by (auto dest: date_fromisoformat_pos)
  with Some assms show ?thesis
    by (simp add: review_due_date_def due_representable_def due_of_def add_days_later)
qed

lemma overdue_row_of_spec:
  "overdue_row_of parse_int today meta =
     (if \<forall>m\<in>set_option meta. due_representable parse_int m then Inr (overdue_rows_spec parse_int today meta)
      else Inl OverflowError)"
proof (cases meta)
  case (Some m)
  show ?thesis
  proof (cases "freshness_cycle parse_int m")
    case None
    with Some show ?thesis
      by (simp add: overdue_row_of_def is_review_overdue_def due_representable_def due_of_def overdue_rows_spec_def)
  next
    case (Some cycle)
    with \<open>meta = Some m\<close> show ?thesis
      by (simp add: overdue_row_of_def is_review_overdue_def review_due_date_of overdue_rows_spec_def row_at_def
          split: option.splits)
  qed
qed (simp add: overdue_row_of_def overdue_rows_spec_def)

lemma rmap_guarded:
  "(\<And>x. f x = (if P x then Inr (g x) else Inl e)) \<Longrightarrow>
     rmap f xs = (if list_all P xs then Inr (map g xs) else Inl e)"
  by (induction xs) auto

text \<open>The freshness list is exact: when every due date lies in the calendar, the list holds one row for each
  document whose last verification plus its review cycle lies before today, ordered by due date and then by
  document; a document without a cycle or with an unreadable date has no row. A single document whose due date
  lies past the year 9999 makes the whole list fail with an overflow.\<close>

theorem freshness_list_exact:
  "review_overdue_entries parse_int today metas =
     (if list_all (\<lambda>meta. case meta of None \<Rightarrow> True | Some m \<Rightarrow> due_representable parse_int m) metas
      then Inr (sort_key (\<lambda>r. (or_due r, or_document_id r)) (concat (map (overdue_rows_spec parse_int today) metas)))
      else Inl OverflowError)"
proof -
  let ?P = "\<lambda>meta. case meta of None \<Rightarrow> True | Some m \<Rightarrow> due_representable parse_int m"
  have "overdue_row_of parse_int today meta =
      (if ?P meta then Inr (overdue_rows_spec parse_int today meta) else Inl OverflowError)" for meta
    by (cases meta) (simp_all add: overdue_row_of_spec)
  note rows = rmap_guarded [of "overdue_row_of parse_int today" ?P "overdue_rows_spec parse_int today" OverflowError, OF this]
  show ?thesis unfolding review_overdue_entries_def rows by simp
qed

end
