(* ===== verification/SafetyGate.thy ===== *)
theory SafetyGate
  imports MfgMetadata AuditLog IngestionQuality
begin

text \<open>
  \<open>manufacturing/safety/gate.py\<close>: the safety gate that decides whether an answer may be asserted on
  the evidence it cites. Today is an argument (the injected clock, or \<open>date.today()\<close>), and so is the
  promotion switch of the settings.
\<close>

section \<open>Evidence\<close>

definition promotable_extraction_sources :: "string set" where
  "promotable_extraction_sources =
     {''deterministic_ocr'', ''aws_textract'', ''google_docai'', ''azure_docintel'', ''oss_tesseract'',
      ''spreadsheet_parser''}"

definition visual_derived_citation_kinds :: "string set" where
  "visual_derived_citation_kinds = {''visual'', ''table_row'', ''form_field'', ''chart_series'', ''figure_caption''}"

definition is_promotable_evidence :: "pydict \<Rightarrow> bool" where
  "is_promotable_evidence metadata \<longleftrightarrow>
     (if metadata = [] then False
      else
        let v = py_or (py_or (py_get metadata ''primary_evidence_source'') (py_get metadata ''extraction_source'')) (PStr [])
        in py_str v \<in> promotable_extraction_sources)"

text \<open>\<open>date.fromisoformat(v[:10])\<close>; anything but a string fails.\<close>

definition date_prefix :: "pyval \<Rightarrow> int option" where
  "date_prefix v = (case v of PStr s \<Rightarrow> date_fromisoformat (utf8_take 10 s) | _ \<Rightarrow> None)"

definition is_effective :: "pyval \<Rightarrow> pyval \<Rightarrow> int \<Rightarrow> bool" where
  "is_effective effective_date valid_until today =
     (if \<not> py_truthy effective_date then False
      else case date_prefix effective_date of
        None \<Rightarrow> False
      | Some eff \<Rightarrow>
          if eff > today then False
          else if py_truthy valid_until then
            (case date_prefix valid_until of
               None \<Rightarrow> False
             | Some until \<Rightarrow> if today \<ge> until then False else True)
          else True)"

definition is_approved_effective :: "mfg_metadata option \<Rightarrow> int \<Rightarrow> bool" where
  "is_approved_effective meta today =
     (case meta of
        None \<Rightarrow> False
      | Some m \<Rightarrow>
          if mm_approval_status m \<noteq> APPROVED then False
          else is_effective (mm_effective_date m) (mm_valid_until m) today)"

definition citation_is_approved_effective :: "bool \<Rightarrow> int \<Rightarrow> citation \<Rightarrow> mfg_metadata option \<Rightarrow> bool" where
  "citation_is_approved_effective promotion today c meta =
     (if \<not> is_approved_effective meta today then False
      else if \<not> is_high_risk_citation_quality_eligible (ci_metadata c) then False
      else if ci_kind c = ''text'' then True
      else if \<not> is_promotable_evidence (ci_metadata c) then False
      else if ci_pixel_derived c \<or> ci_kind c \<in> visual_derived_citation_kinds
      then promotion \<and> ci_visual_evidence_verified c
      else True)"

section \<open>The gate\<close>

text \<open>\<open>by_doc\<close>: the last metadata record of a document wins.\<close>

definition by_doc :: "mfg_metadata option list \<Rightarrow> (string, mfg_metadata) dict" where
  "by_doc metas =
     foldl (\<lambda>d m. case m of None \<Rightarrow> d | Some r \<Rightarrow> dset (mm_document_id r) r d) [] metas"

definition usable_primary :: "mfg_metadata option \<Rightarrow> bool" where
  "usable_primary meta =
     (case meta of None \<Rightarrow> True | Some m \<Rightarrow> mm_approval_status m \<notin> {DRAFT, OBSOLETE})"

definition has_obsolete :: "(string, mfg_metadata) dict \<Rightarrow> citation list \<Rightarrow> bool" where
  "has_obsolete docs citations =
     list_ex (\<lambda>c. case dget docs (ci_document_id c) of None \<Rightarrow> False | Some m \<Rightarrow> mm_approval_status m = OBSOLETE) citations"

definition evaluate ::
  "bool \<Rightarrow> int \<Rightarrow> high_risk_classification \<Rightarrow> citation list \<Rightarrow> mfg_metadata option list \<Rightarrow> safety_decision" where
  "evaluate promotion today classification citations metas =
     (let docs = by_doc metas;
          approved = (\<lambda>c. citation_is_approved_effective promotion today c (dget docs (ci_document_id c)));
          has_approved_effective = list_ex approved citations;
          obsolete = has_obsolete docs citations;
          has_usable_primary = list_ex (\<lambda>c. usable_primary (dget docs (ci_document_id c))) citations;
          approval_status_at_use =
            (case find approved citations of None \<Rightarrow> None | Some _ \<Rightarrow> Some (approval_status_value APPROVED))
      in if hr_is_high_risk classification \<and> \<not> has_approved_effective
         then \<lparr>sd_blocked = True, sd_safety_block_reason = Some APPROVED_CITATION_MISSING,
                sd_obsolete_warning = obsolete, sd_requires_onsite_confirmation = True,
                sd_approval_status_at_use = None\<rparr>
         else if \<not> hr_is_high_risk classification \<and> \<not> has_usable_primary
         then \<lparr>sd_blocked = True, sd_safety_block_reason = Some INSUFFICIENT_EVIDENCE,
                sd_obsolete_warning = obsolete, sd_requires_onsite_confirmation = False,
                sd_approval_status_at_use = None\<rparr>
         else \<lparr>sd_blocked = False, sd_safety_block_reason = None, sd_obsolete_warning = obsolete,
                sd_requires_onsite_confirmation = hr_is_high_risk classification,
                sd_approval_status_at_use = approval_status_at_use\<rparr>)"

definition block_priority :: "safety_block_reason list" where
  "block_priority = [APPROVED_CITATION_MISSING, INSUFFICIENT_EVIDENCE, OTHER_BLOCK]"

definition normalize_block_reason :: "safety_block_reason option list \<Rightarrow> safety_block_reason option" where
  "normalize_block_reason reasons = find (\<lambda>r. Some r \<in> set reasons) block_priority"

section \<open>What the gate guarantees\<close>

text \<open>The window of an approval, as the manual states it.\<close>

definition in_force :: "mfg_metadata \<Rightarrow> int \<Rightarrow> bool" where
  "in_force m today \<longleftrightarrow>
     mm_approval_status m = APPROVED \<and>
     (\<exists>eff. py_truthy (mm_effective_date m) \<and> date_prefix (mm_effective_date m) = Some eff \<and> eff \<le> today) \<and>
     (py_truthy (mm_valid_until m) \<longrightarrow> (\<exists>u. date_prefix (mm_valid_until m) = Some u \<and> today < u))"

text \<open>Evidence a high-risk answer may rest on.\<close>

definition sound_evidence :: "bool \<Rightarrow> int \<Rightarrow> citation \<Rightarrow> mfg_metadata \<Rightarrow> bool" where
  "sound_evidence promotion today c m \<longleftrightarrow>
     in_force m today \<and> is_high_risk_citation_quality_eligible (ci_metadata c) \<and>
     (ci_kind c = ''text'' \<or>
        is_promotable_evidence (ci_metadata c) \<and>
        (ci_pixel_derived c \<or> ci_kind c \<in> visual_derived_citation_kinds \<longrightarrow> promotion \<and> ci_visual_evidence_verified c))"

lemma is_approved_effective_iff:
  "is_approved_effective meta today \<longleftrightarrow> (\<exists>m. meta = Some m \<and> in_force m today)"
  by (auto simp: is_approved_effective_def is_effective_def in_force_def split: option.splits)

lemma citation_is_approved_effective_iff:
  "citation_is_approved_effective promotion today c meta \<longleftrightarrow> (\<exists>m. meta = Some m \<and> sound_evidence promotion today c m)"
  by (auto simp: citation_is_approved_effective_def is_approved_effective_iff sound_evidence_def)

lemma by_doc_step:
  "dget (foldl (\<lambda>d m. case m of None \<Rightarrow> d | Some r \<Rightarrow> dset (mm_document_id r) r d) d0 metas) i =
     (case find (\<lambda>m. \<exists>r. m = Some r \<and> mm_document_id r = i) (rev metas) of
        Some m \<Rightarrow> m | None \<Rightarrow> dget d0 i)"
proof (induction metas rule: rev_induct)
  case (snoc m metas)
  then show ?case by (cases m) (auto simp: dget_dset)
qed simp

lemma by_doc_some: "dget (by_doc metas) i = Some m \<Longrightarrow> Some m \<in> set metas \<and> mm_document_id m = i"
  by (auto simp: by_doc_def by_doc_step dest: find_SomeD split: option.splits)

lemma usable_primary_iff:
  "usable_primary meta \<longleftrightarrow> (\<forall>m. meta = Some m \<longrightarrow> mm_approval_status m \<in> {PENDING_REVIEW, APPROVED})"
proof (cases meta)
  case (Some m)
  then show ?thesis by (cases "mm_approval_status m") (simp_all add: usable_primary_def)
qed (simp add: usable_primary_def)

lemma evaluate_reason:
  "sd_safety_block_reason (evaluate p n k cs ms) \<in> {None, Some APPROVED_CITATION_MISSING, Some INSUFFICIENT_EVIDENCE}"
  by (simp add: evaluate_def Let_def)

text \<open>C7: The safety gate blocks exactly the answers without sound evidence: a high-risk answer is blocked unless some
  cited document carries a metadata record that is approved and in force today and the citation itself is
  eligible (extraction quality, transcription provenance, verified pixels); an ordinary answer is blocked
  exactly when everything it cites is draft or obsolete. The reason names which rule blocked, a high-risk answer
  always asks for on-site confirmation, and the obsolete warning is raised exactly when obsolete evidence is cited.\<close>

theorem safety_gate_exact:
  assumes "evaluate promotion today classification citations metas = decision"
  shows "(sd_safety_block_reason decision = Some APPROVED_CITATION_MISSING \<longleftrightarrow>
            hr_is_high_risk classification \<and>
            \<not> (\<exists>c\<in>set citations. \<exists>m. dget (by_doc metas) (ci_document_id c) = Some m \<and> sound_evidence promotion today c m))
    \<and> (sd_safety_block_reason decision = Some INSUFFICIENT_EVIDENCE \<longleftrightarrow>
            \<not> hr_is_high_risk classification \<and>
            \<not> (\<exists>c\<in>set citations. \<forall>m. dget (by_doc metas) (ci_document_id c) = Some m \<longrightarrow> mm_approval_status m \<in> {PENDING_REVIEW, APPROVED}))
    \<and> (sd_blocked decision \<longleftrightarrow> sd_safety_block_reason decision \<noteq> None)
    \<and> sd_requires_onsite_confirmation decision = hr_is_high_risk classification
    \<and> (sd_obsolete_warning decision \<longleftrightarrow>
         (\<exists>c\<in>set citations. \<exists>m. dget (by_doc metas) (ci_document_id c) = Some m \<and> mm_approval_status m = OBSOLETE))
    \<and> (sd_approval_status_at_use decision = Some ''approved'' \<longleftrightarrow> \<not> sd_blocked decision \<and>
         (\<exists>c\<in>set citations. \<exists>m. dget (by_doc metas) (ci_document_id c) = Some m \<and> sound_evidence promotion today c m))"
proof -
  let ?docs = "by_doc metas"
  let ?sound = "\<exists>c\<in>set citations. \<exists>m. dget ?docs (ci_document_id c) = Some m \<and> sound_evidence promotion today c m"
  let ?usable = "\<exists>c\<in>set citations. \<forall>m. dget ?docs (ci_document_id c) = Some m \<longrightarrow> mm_approval_status m \<in> {PENDING_REVIEW, APPROVED}"
  let ?obsolete = "\<exists>c\<in>set citations. \<exists>m. dget ?docs (ci_document_id c) = Some m \<and> mm_approval_status m = OBSOLETE"
  let ?approved = "\<lambda>c. citation_is_approved_effective promotion today c (dget ?docs (ci_document_id c))"
  have s: "list_ex ?approved citations \<longleftrightarrow> ?sound"
    by (simp add: list_ex_iff citation_is_approved_effective_iff)
  have u: "list_ex (\<lambda>c. usable_primary (dget ?docs (ci_document_id c))) citations \<longleftrightarrow> ?usable"
    by (simp add: list_ex_iff usable_primary_iff)
  have o: "has_obsolete ?docs citations \<longleftrightarrow> ?obsolete"
    by (auto simp: has_obsolete_def list_ex_iff split: option.splits)
  have f: "(find ?approved citations \<noteq> None) \<longleftrightarrow> ?sound"
    using s by (auto simp: find_None_iff list_ex_iff)
  define status where "status = (case find ?approved citations of None \<Rightarrow> None | Some _ \<Rightarrow> Some ''approved'')"
  define S U Ob where "S = ?sound" and "U = ?usable" and "Ob = ?obsolete"
  have st: "status = Some ''approved'' \<longleftrightarrow> S" using f by (auto simp: status_def S_def split: option.splits)
  have d: "decision = (if hr_is_high_risk classification \<and> \<not> S
         then \<lparr>sd_blocked = True, sd_safety_block_reason = Some APPROVED_CITATION_MISSING,
                sd_obsolete_warning = Ob, sd_requires_onsite_confirmation = True, sd_approval_status_at_use = None\<rparr>
         else if \<not> hr_is_high_risk classification \<and> \<not> U
         then \<lparr>sd_blocked = True, sd_safety_block_reason = Some INSUFFICIENT_EVIDENCE,
                sd_obsolete_warning = Ob, sd_requires_onsite_confirmation = False, sd_approval_status_at_use = None\<rparr>
         else \<lparr>sd_blocked = False, sd_safety_block_reason = None, sd_obsolete_warning = Ob,
                sd_requires_onsite_confirmation = hr_is_high_risk classification, sd_approval_status_at_use = status\<rparr>)"
    unfolding assms [symmetric] evaluate_def Let_def s u o S_def U_def Ob_def status_def approval_status_value.simps by (rule refl)
  show ?thesis
    unfolding S_def [symmetric] U_def [symmetric] Ob_def [symmetric] d using st
    by (cases "hr_is_high_risk classification"; cases S; cases U) simp_all
qed

theorem safety_gate_exact_witness:
  "\<exists>c m. dget (by_doc [Some m]) (ci_document_id c) = Some m \<and> sound_evidence False 738945 c m \<and>
     sd_approval_status_at_use (evaluate False 738945 \<lparr>hr_is_high_risk = True, hr_reason_codes = [], hr_classification_source = None\<rparr> [c] [Some m])
       = Some ''approved''"
proof -
  let ?m = "(new_metadata ''t'' ''d'')\<lparr>mm_approval_status := APPROVED, mm_effective_date := PStr ''2024-02-29''\<rparr>"
  let ?c = "new_citation ''text'' ''d'' ''src'' 1 1"
  let ?h = "\<lparr>hr_is_high_risk = True, hr_reason_codes = [], hr_classification_source = None\<rparr>"
  have "date_fromisoformat ''2024-02-29'' = Some 738945" by code_simp
  then have date: "date_prefix (PStr ''2024-02-29'') = Some 738945" by (simp add: date_prefix_def utf8_start_def)
  have docs: "dget (by_doc [Some ?m]) (ci_document_id ?c) = Some ?m"
    by (simp add: by_doc_def new_metadata_def new_citation_def)
  have force': "in_force ?m 738945" by (simp add: in_force_def new_metadata_def date)
  have quality: "is_high_risk_citation_quality_eligible []"
    by (simp add: is_high_risk_citation_quality_eligible_def is_retrieval_eligible_def py_get_def py_get_str_def
        quality_status_def blocking_statuses_def eligible_statuses_def)
  have sound: "sound_evidence False 738945 ?c ?m"
    using force' quality by (simp add: sound_evidence_def new_citation_def)
  have e: "\<exists>c\<in>set [?c]. \<exists>m. dget (by_doc [Some ?m]) (ci_document_id c) = Some m \<and> sound_evidence False 738945 c m"
    using docs sound by simp
  note g = safety_gate_exact [of False 738945 ?h "[?c]" "[Some ?m]", OF refl]
  have "\<not> sd_blocked (evaluate False 738945 ?h [?c] [Some ?m])"
  proof -
    have "sd_safety_block_reason (evaluate False 738945 ?h [?c] [Some ?m]) \<noteq> Some APPROVED_CITATION_MISSING" using g e by blast
    moreover have "sd_safety_block_reason (evaluate False 738945 ?h [?c] [Some ?m]) \<noteq> Some INSUFFICIENT_EVIDENCE" using g by simp
    ultimately show ?thesis using g evaluate_reason [of False 738945 ?h "[?c]" "[Some ?m]"] by auto
  qed
  then have "sd_approval_status_at_use (evaluate False 738945 ?h [?c] [Some ?m]) = Some ''approved''" using g e by blast
  with docs sound show ?thesis by blast
qed

end
