(* ===== verification/Approval.thy ===== *)
theory Approval
  imports MfgMetadata Deletion AuditLog
begin

text \<open>
  The approval lifecycle of manufacturing documents: \<open>manufacturing/ingestion/approval.py\<close>,
  \<open>manufacturing/ingestion/metadata_enrichment.py\<close> and the entry points of \<open>manufacturing/app.py\<close> that
  guard it. The state is the document registry, the vector store, the legacy metadata map and the audit
  log. The metadata object placed in a metadata dictionary is represented by its JSON form, which is
  what \<open>from_mapping\<close> reads back. Clock, digest, redactor, integer parser and the processing state of the
  ingestion runs are fields of the environment.
\<close>

section \<open>State and environment\<close>

record processing_state =
  pr_status :: string
  pr_ingestion_run_id :: string
  pr_updated_at :: string
  pr_failure_reason :: string

record mfg_state =
  fs_registry :: registry
  fs_store :: vector_store
  fs_mfg_meta :: "(string \<times> string, mfg_metadata) dict"
  fs_audit :: audit_store

record mfg_env =
  fe_now :: string
  fe_today :: string
  fe_parse_int :: "string \<Rightarrow> int option"
  fe_sha :: "string \<Rightarrow> string"
  fe_redact :: "string \<Rightarrow> string"
  fe_acl :: acl_policy
  fe_processing_state :: "string \<Rightarrow> string \<Rightarrow> processing_state option"

record approval_state =
  ap_tenant_id :: string
  ap_document_id :: string
  ap_approval_status :: string
  ap_approval_source :: string
  ap_effective_date :: pyval
  ap_approved_by :: pyval
  ap_approved_at :: pyval
  ap_superseded_by :: pyval

type_synonym 'a mfg_outcome = "mfg_state \<times> 'a result"

section \<open>Metadata on documents and chunks\<close>

definition mfg_meta_key :: string where
  "mfg_meta_key = ''_mfg_meta''"

definition with_mfg_meta :: "mfg_metadata \<Rightarrow> pydict \<Rightarrow> pydict" where
  "with_mfg_meta meta m = dset mfg_meta_key (PDict (to_mapping meta)) m"

definition get_mfg_meta :: "mfg_env \<Rightarrow> string \<Rightarrow> string \<Rightarrow> mfg_state \<Rightarrow> mfg_metadata option result" where
  "get_mfg_meta env tenant_id document_id s =
     (case registry_get tenant_id document_id (fs_registry s) of
        None \<Rightarrow> Inr None
      | Some doc \<Rightarrow>
          if d_tombstone doc then Inr None
          else if py_get (d_metadata doc) mfg_meta_key = PNone then Inr None
          else rbind (from_mapping (fe_parse_int env) (py_get (d_metadata doc) mfg_meta_key)) (\<lambda>m. Inr (Some m)))"

definition put_doc_meta :: "string \<Rightarrow> string \<Rightarrow> mfg_metadata \<Rightarrow> registry \<Rightarrow> registry" where
  "put_doc_meta tenant_id document_id meta reg =
     (case registry_get tenant_id document_id reg of
        None \<Rightarrow> reg
      | Some doc \<Rightarrow> dset (tenant_id, document_id) (doc\<lparr>d_metadata := with_mfg_meta meta (d_metadata doc)\<rparr>) reg)"

definition set_mfg_meta :: "string \<Rightarrow> string \<Rightarrow> mfg_metadata \<Rightarrow> mfg_state \<Rightarrow> mfg_state" where
  "set_mfg_meta tenant_id document_id meta s =
     (let s = s\<lparr>fs_mfg_meta := dset (tenant_id, document_id) meta (fs_mfg_meta s)\<rparr>;
          reg = put_doc_meta tenant_id document_id meta (fs_registry s)
      in case registry_get tenant_id document_id reg of
           None \<Rightarrow> s
         | Some doc \<Rightarrow> s\<lparr>fs_registry := registry_put doc reg\<rparr>)"

definition propagate_to_chunks :: "string \<Rightarrow> string \<Rightarrow> mfg_metadata \<Rightarrow> vector_store \<Rightarrow> vector_store \<times> nat" where
  "propagate_to_chunks tenant_id document_id meta st =
     (st\<lparr>vs_items := map (\<lambda>(cid, (c, v)). (cid,
           (if of_document tenant_id document_id c then c\<lparr>c_metadata := with_mfg_meta meta (c_metadata c)\<rparr> else c, v)))
         (vs_items st)\<rparr>,
      count_items tenant_id document_id (vs_items st))"

definition attach :: "string \<Rightarrow> string \<Rightarrow> mfg_metadata \<Rightarrow> mfg_state \<Rightarrow> mfg_metadata mfg_outcome" where
  "attach tenant_id document_id meta s =
     (if mm_tenant_id meta \<noteq> [] \<and> mm_tenant_id meta \<noteq> tenant_id then (s, Inl TenantIsolationError)
      else (s\<lparr>fs_registry := put_doc_meta tenant_id document_id meta (fs_registry s),
              fs_store := fst (propagate_to_chunks tenant_id document_id meta (fs_store s))\<rparr>, Inr meta))"

section \<open>The workflow\<close>

definition lifecycle_rank :: "approval_status \<Rightarrow> nat" where
  "lifecycle_rank s = (case s of DRAFT \<Rightarrow> 0 | PENDING_REVIEW \<Rightarrow> 1 | APPROVED \<Rightarrow> 2 | OBSOLETE \<Rightarrow> 3)"

definition assert_legal_transition :: "approval_status \<Rightarrow> approval_status \<Rightarrow> unit result" where
  "assert_legal_transition current target =
     (if lifecycle_rank target < lifecycle_rank current then Inl ValueError else Inr ())"

definition coerce_status :: "string \<Rightarrow> approval_status result" where
  "coerce_status v =
     (case find (\<lambda>s. approval_status_value s = v) approval_statuses of None \<Rightarrow> Inl ValueError | Some s \<Rightarrow> Inr s)"

definition require_meta :: "mfg_env \<Rightarrow> string \<Rightarrow> string \<Rightarrow> mfg_state \<Rightarrow> mfg_metadata result" where
  "require_meta env tenant_id document_id s =
     rbind (get_mfg_meta env tenant_id document_id s) (\<lambda>m.
       Inr (case m of None \<Rightarrow> new_metadata tenant_id document_id | Some meta \<Rightarrow> meta))"

definition to_state :: "mfg_metadata \<Rightarrow> approval_state" where
  "to_state m =
     \<lparr>ap_tenant_id = mm_tenant_id m, ap_document_id = mm_document_id m,
      ap_approval_status = approval_status_value (mm_approval_status m),
      ap_approval_source = approval_source_value (mm_approval_source m),
      ap_effective_date = mm_effective_date m, ap_approved_by = mm_approved_by m,
      ap_approved_at = mm_approved_at m, ap_superseded_by = mm_superseded_by m\<rparr>"

definition actor_role :: "identity_claims option \<Rightarrow> string option" where
  "actor_role actor =
     (case actor of None \<Rightarrow> None | Some a \<Rightarrow> if id_roles a = [] then None else Some (str_join '','' (id_roles a)))"

definition approval_entry ::
  "mfg_env \<Rightarrow> string \<Rightarrow> string \<Rightarrow> string \<Rightarrow> mfg_metadata \<Rightarrow> identity_claims option \<Rightarrow> string \<Rightarrow> string list \<Rightarrow> audit_log_entry" where
  "approval_entry env tenant_id document_id action meta actor reason documents =
     (audit_entry tenant_id (action @ '':'' @ document_id @ '':'' @ fe_now env) (fe_now env))
       \<lparr>al_actor_id := map_option id_user_id actor, al_actor_role := actor_role actor, al_action := action,
        al_resource_type := Some ''document'', al_resource_id := Some document_id,
        al_decision := Some (approval_status_value (mm_approval_status meta)), al_reason := Some reason,
        al_approval_status_at_use := Some (approval_status_value (mm_approval_status meta)),
        al_document_ids_used := documents\<rparr>"

text \<open>\<open>_persist\<close>, then the audit entry; an audit log that refuses the entry raises after the write.\<close>

definition persist_and_audit ::
  "mfg_env \<Rightarrow> string \<Rightarrow> string \<Rightarrow> mfg_metadata \<Rightarrow> audit_log_entry \<Rightarrow> mfg_state \<Rightarrow> approval_state mfg_outcome" where
  "persist_and_audit env tenant_id document_id meta entry s =
     (case attach tenant_id document_id meta s of
        (s, Inl e) \<Rightarrow> (s, Inl e)
      | (s, Inr _) \<Rightarrow>
          (let s = set_mfg_meta tenant_id document_id meta s in
           case audit_record (fe_sha env) (fe_redact env) entry (fs_audit s) of
             Inl e \<Rightarrow> (s, Inl e)
           | Inr a \<Rightarrow> (s\<lparr>fs_audit := a\<rparr>, Inr (to_state meta))))"

definition transitioned :: "mfg_env \<Rightarrow> approval_status \<Rightarrow> identity_claims \<Rightarrow> mfg_metadata \<Rightarrow> mfg_metadata" where
  "transitioned env status actor meta =
     meta\<lparr>mm_approval_status := status, mm_approval_source := WORKFLOW,
          mm_approved_by := (if status = APPROVED then PStr (id_user_id actor) else mm_approved_by meta),
          mm_approved_at := (if status = APPROVED then PStr (fe_now env) else mm_approved_at meta),
          mm_obsolete_at := (if status = OBSOLETE then PStr (fe_now env) else mm_obsolete_at meta),
          mm_effective_date :=
            (if status = APPROVED \<and> \<not> py_truthy (mm_effective_date meta) then PStr (fe_today env)
             else mm_effective_date meta)\<rparr>"

definition approval_transition ::
  "mfg_env \<Rightarrow> string \<Rightarrow> string \<Rightarrow> string \<Rightarrow> identity_claims \<Rightarrow> mfg_state \<Rightarrow> approval_state mfg_outcome" where
  "approval_transition env tenant_id document_id to_status actor s =
     (case rbind (coerce_status to_status) (\<lambda>status.
           rbind (require_meta env tenant_id document_id s) (\<lambda>meta.
           rbind (assert_legal_transition (mm_approval_status meta) status) (\<lambda>_.
             Inr (transitioned env status actor meta)))) of
        Inl e \<Rightarrow> (s, Inl e)
      | Inr updated \<Rightarrow>
          persist_and_audit env tenant_id document_id updated
            (approval_entry env tenant_id document_id ''approval.transition'' updated (Some actor)
              (approval_source_value (mm_approval_source updated)) [document_id]) s)"

definition dget_or :: "pydict \<Rightarrow> string \<Rightarrow> pyval \<Rightarrow> pyval" where
  "dget_or m k d = (case dget m k of None \<Rightarrow> d | Some v \<Rightarrow> v)"

definition imported :: "mfg_env \<Rightarrow> approval_status \<Rightarrow> pydict \<Rightarrow> mfg_metadata \<Rightarrow> mfg_metadata" where
  "imported env status external meta =
     (let approving = (status = APPROVED) in
      meta\<lparr>mm_approval_status := status, mm_approval_source := IMPORTED,
           mm_effective_date := dget_or external ''effective_date'' (mm_effective_date meta),
           mm_valid_until := (if approving then py_get external ''valid_until'' else mm_valid_until meta),
           mm_approved_by := dget_or external ''approved_by'' (mm_approved_by meta),
           mm_approved_at := dget_or external ''approved_at'' (py_or (mm_approved_at meta) (PStr (fe_now env))),
           mm_obsolete_at := (if approving then PNone else mm_obsolete_at meta),
           mm_superseded_by := (if approving then PNone else mm_superseded_by meta)\<rparr>)"

definition import_external ::
  "mfg_env \<Rightarrow> string \<Rightarrow> string \<Rightarrow> pydict \<Rightarrow> identity_claims option \<Rightarrow> mfg_state \<Rightarrow> approval_state mfg_outcome" where
  "import_external env tenant_id document_id external actor s =
     (case rbind (require_meta env tenant_id document_id s) (\<lambda>meta.
           case dget external ''approval_status'' of
             None \<Rightarrow> Inl ValueError
           | Some v \<Rightarrow>
               rbind (coerce_status (py_str v)) (\<lambda>status.
                 if mm_approval_status meta = OBSOLETE \<and> status = APPROVED \<and> dget external ''effective_date'' = None
                 then Inl ValueError
                 else Inr (imported env status external meta))) of
        Inl e \<Rightarrow> (s, Inl e)
      | Inr updated \<Rightarrow>
          persist_and_audit env tenant_id document_id updated
            (approval_entry env tenant_id document_id ''approval.import_external'' updated actor
              (approval_source_value (mm_approval_source updated)) [document_id]) s)"

definition superseded :: "mfg_env \<Rightarrow> string \<Rightarrow> mfg_metadata \<Rightarrow> mfg_metadata" where
  "superseded env superseded_by meta =
     meta\<lparr>mm_approval_status := OBSOLETE, mm_approval_source := WORKFLOW,
          mm_obsolete_at := py_or (mm_obsolete_at meta) (PStr (fe_now env)),
          mm_superseded_by := PStr superseded_by\<rparr>"

definition supersede ::
  "mfg_env \<Rightarrow> string \<Rightarrow> string \<Rightarrow> string \<Rightarrow> identity_claims \<Rightarrow> mfg_state \<Rightarrow> approval_state mfg_outcome" where
  "supersede env tenant_id document_id superseded_by actor s =
     (case rbind (require_meta env tenant_id document_id s) (\<lambda>meta.
           rbind (assert_legal_transition (mm_approval_status meta) OBSOLETE) (\<lambda>_.
             Inr (superseded env superseded_by meta))) of
        Inl e \<Rightarrow> (s, Inl e)
      | Inr updated \<Rightarrow>
          persist_and_audit env tenant_id document_id updated
            (approval_entry env tenant_id document_id ''approval.supersede'' updated (Some actor)
              superseded_by [document_id, superseded_by]) s)"

section \<open>The guarded entry points\<close>

definition chunk_count_of :: "string \<Rightarrow> string \<Rightarrow> mfg_state \<Rightarrow> nat" where
  "chunk_count_of tenant_id document_id s =
     length (filter (\<lambda>(c, v). \<not> (c_tenant_id c \<noteq> tenant_id \<or> c_tombstone c) \<and> c_document_id c = document_id)
       (iter_items (fs_store s)))"

record processing_summary =
  su_status :: string
  su_chunk_count :: nat
  su_ingestion_run_id :: string
  su_last_indexed_at :: string
  su_last_error :: string
  su_approval_ready :: bool
  su_approval_block_reason :: string

definition document_processing_summary :: "mfg_env \<Rightarrow> string \<Rightarrow> string \<Rightarrow> mfg_state \<Rightarrow> processing_summary" where
  "document_processing_summary env tenant_id document_id s =
     (let chunks = chunk_count_of tenant_id document_id s;
          state = fe_processing_state env tenant_id document_id;
          known = (case state of None \<Rightarrow> [] | Some p \<Rightarrow> pr_status p);
          status = (if known = [] then (if chunks > 0 then job_status_value SUCCEEDED else ''unknown'') else known);
          indexed = (status = job_status_value SUCCEEDED \<and> chunks > 0);
          reason = (if indexed then []
                    else if status \<in> {job_status_value QUEUED, job_status_value RUNNING} then ''indexing_in_progress''
                    else if status \<in> {job_status_value FAILED, job_status_value DEAD_LETTER} then ''indexing_failed''
                    else if chunks \<le> 0 then ''no_indexed_chunks''
                    else ''index_not_ready'')
      in \<lparr>su_status = status, su_chunk_count = chunks,
          su_ingestion_run_id = (case state of None \<Rightarrow> [] | Some p \<Rightarrow> pr_ingestion_run_id p),
          su_last_indexed_at =
            (case state of None \<Rightarrow> [] | Some p \<Rightarrow> if status = job_status_value SUCCEEDED then pr_updated_at p else []),
          su_last_error = (case state of None \<Rightarrow> [] | Some p \<Rightarrow> pr_failure_reason p),
          su_approval_ready = indexed, su_approval_block_reason = reason\<rparr>)"

definition transition_approval ::
  "mfg_env \<Rightarrow> string \<Rightarrow> string \<Rightarrow> string \<Rightarrow> identity_claims \<Rightarrow> mfg_state \<Rightarrow> approval_state mfg_outcome" where
  "transition_approval env tenant_id document_id to_status actor s =
     (if to_status = approval_status_value APPROVED \<and>
         \<not> su_approval_ready (document_processing_summary env tenant_id document_id s)
      then (s, Inl ValueError)
      else approval_transition env tenant_id document_id to_status actor s)"

record batch_result =
  br_requested :: "string list"
  br_approved :: "(string \<times> approval_state) list"
  br_skipped :: "(string \<times> string) list"

definition add_requested :: "string list \<Rightarrow> pyval \<Rightarrow> string list" where
  "add_requested seen raw_id =
     (let document_id = py_strip (if py_truthy raw_id then py_str raw_id else [])
      in if document_id = [] \<or> document_id \<in> set seen then seen else seen @ [document_id])"

definition requested_ids :: "pyval list \<Rightarrow> string list" where
  "requested_ids raw = foldl add_requested [] raw"

text \<open>One round of the batch: the approval state, or the reason the document is skipped; only \<open>ValueError\<close> of
  the transition is caught.\<close>

definition batch_one ::
  "mfg_env \<Rightarrow> string \<Rightarrow> string \<Rightarrow> identity_claims \<Rightarrow> mfg_state \<Rightarrow> (string + approval_state) mfg_outcome" where
  "batch_one env tenant_id document_id actor s =
     (if (case registry_get tenant_id document_id (fs_registry s) of
            None \<Rightarrow> True
          | Some doc \<Rightarrow> d_tombstone doc \<or> \<not> can_read_document (fe_acl env) actor doc)
      then (s, Inr (Inl ''not_available''))
      else case get_mfg_meta env tenant_id document_id s of
        Inl e \<Rightarrow> (s, Inl e)
      | Inr meta \<Rightarrow>
          (let status = map_option mm_approval_status meta;
               summary = document_processing_summary env tenant_id document_id s
           in if status = Some APPROVED then (s, Inr (Inl ''already_approved''))
              else if status = Some OBSOLETE then (s, Inr (Inl ''not_in_review''))
              else if \<not> su_approval_ready summary
              then (s, Inr (Inl (if su_approval_block_reason summary = [] then ''not_ready''
                                 else su_approval_block_reason summary)))
              else case transition_approval env tenant_id document_id (approval_status_value APPROVED) actor s of
                (s, Inl ValueError) \<Rightarrow> (s, Inr (Inl ''not_in_review''))
              | (s, Inl e) \<Rightarrow> (s, Inl e)
              | (s, Inr state) \<Rightarrow> (s, Inr (Inr state))))"

fun batch_loop ::
  "mfg_env \<Rightarrow> string \<Rightarrow> identity_claims \<Rightarrow> string list \<Rightarrow> mfg_state \<Rightarrow>
     ((string \<times> approval_state) list \<times> (string \<times> string) list) mfg_outcome" where
  "batch_loop env tenant_id actor [] s = (s, Inr ([], []))"
| "batch_loop env tenant_id actor (i # is) s =
     (case batch_one env tenant_id i actor s of
        (s, Inl e) \<Rightarrow> (s, Inl e)
      | (s, Inr r) \<Rightarrow>
          (case batch_loop env tenant_id actor is s of
             (s, Inl e) \<Rightarrow> (s, Inl e)
           | (s, Inr (approved, skipped)) \<Rightarrow>
               (s, Inr (case r of
                          Inl reason \<Rightarrow> (approved, (i, reason) # skipped)
                        | Inr state \<Rightarrow> ((i, state) # approved, skipped)))))"

definition batch_transition_approval ::
  "mfg_env \<Rightarrow> string \<Rightarrow> pyval list \<Rightarrow> string \<Rightarrow> identity_claims \<Rightarrow> mfg_state \<Rightarrow> batch_result mfg_outcome" where
  "batch_transition_approval env tenant_id document_ids to_status actor s =
     (if to_status \<noteq> approval_status_value APPROVED then (s, Inl ValueError)
      else let requested = requested_ids document_ids in
        case batch_loop env tenant_id actor requested s of
          (s, Inl e) \<Rightarrow> (s, Inl e)
        | (s, Inr (approved, skipped)) \<Rightarrow>
            (s, Inr \<lparr>br_requested = requested, br_approved = approved, br_skipped = skipped\<rparr>))"

definition update_metadata ::
  "mfg_env \<Rightarrow> string \<Rightarrow> string \<Rightarrow> mfg_metadata \<Rightarrow> mfg_state \<Rightarrow> mfg_metadata mfg_outcome" where
  "update_metadata env tenant_id document_id meta s =
     (case attach tenant_id document_id meta s of
        (s, Inl e) \<Rightarrow> (s, Inl e)
      | (s, Inr result) \<Rightarrow>
          (let s = set_mfg_meta tenant_id document_id meta s;
               entry = (audit_entry tenant_id (''metadata.update:'' @ document_id @ '':'' @ fe_now env) (fe_now env))
                 \<lparr>al_action := ''metadata.update'', al_resource_type := Some ''document'',
                  al_resource_id := Some document_id, al_decision := Some ''updated'',
                  al_approval_status_at_use := Some (approval_status_value (mm_approval_status meta)),
                  al_document_ids_used := [document_id]\<rparr>
           in case audit_record (fe_sha env) (fe_redact env) entry (fs_audit s) of
                Inl e \<Rightarrow> (s, Inl e)
              | Inr a \<Rightarrow> (s\<lparr>fs_audit := a\<rparr>, Inr result)))"

section \<open>What a write changes\<close>

definition frozen_doc :: "document \<Rightarrow> document" where
  "frozen_doc doc = doc\<lparr>d_metadata := []\<rparr>"

text \<open>Nothing but metadata changes: the documents, and how many live chunks each one has.\<close>

definition same_documents :: "mfg_state \<Rightarrow> mfg_state \<Rightarrow> bool" where
  "same_documents s s' \<longleftrightarrow>
     (\<forall>k. map_option frozen_doc (dget (fs_registry s') k) = map_option frozen_doc (dget (fs_registry s) k)) \<and>
     (\<forall>t d. chunk_count_of t d s' = chunk_count_of t d s)"

lemma frozen_doc_metadata [simp]: "frozen_doc (doc\<lparr>d_metadata := m\<rparr>) = frozen_doc doc"
  by (simp add: frozen_doc_def)

lemma same_documents_refl [simp]: "same_documents s s"
  by (simp add: same_documents_def)

lemma same_documents_trans: "same_documents s s1 \<Longrightarrow> same_documents s1 s2 \<Longrightarrow> same_documents s s2"
  by (simp add: same_documents_def)

lemma same_document_fields:
  assumes "same_documents s s'" and "dget (fs_registry s) k = Some doc"
  shows "\<exists>doc'. dget (fs_registry s') k = Some doc' \<and> d_tombstone doc' = d_tombstone doc \<and>
    can_read_document acl p doc' = can_read_document acl p doc"
proof -
  from assms have "map_option frozen_doc (dget (fs_registry s') k) = Some (frozen_doc doc)"
    unfolding same_documents_def by (metis option.simps(9))
  then obtain doc' where d: "dget (fs_registry s') k = Some doc'" "frozen_doc doc' = frozen_doc doc" by blast
  then show ?thesis
    by (intro exI [of _ doc']) (cases doc, cases doc', simp add: frozen_doc_def can_read_document_def)
qed

lemma py_get_with_mfg_meta [simp]: "py_get (with_mfg_meta meta m) mfg_meta_key = PDict (to_mapping meta)"
  by (simp add: with_mfg_meta_def dict_simps)

lemma dget_put_doc_meta:
  "dget (put_doc_meta t d meta reg) k =
    (if k = (t, d) then map_option (\<lambda>doc. doc\<lparr>d_metadata := with_mfg_meta meta (d_metadata doc)\<rparr>) (dget reg k) else dget reg k)"
  by (auto simp: put_doc_meta_def registry_get_def dget_dset split: option.splits)

lemma keyed_put_doc_meta:
  assumes "keyed_registry reg"
  shows "keyed_registry (put_doc_meta t d meta reg)"
  using assms unfolding keyed_registry_def dget_put_doc_meta by (auto split: if_splits)

lemma dget_set_mfg_meta:
  assumes keyed: "keyed_registry (fs_registry s)"
  shows "dget (fs_registry (set_mfg_meta t d meta s)) k = dget (put_doc_meta t d meta (fs_registry s)) k"
proof (cases "dget (put_doc_meta t d meta (fs_registry s)) (t, d)")
  case None
  then have "put_doc_meta t d meta (fs_registry s) = fs_registry s"
    by (simp add: dget_put_doc_meta) (simp add: put_doc_meta_def registry_get_def)
  with None show ?thesis by (simp add: set_mfg_meta_def registry_get_def Let_def)
next
  case (Some doc)
  then have "(t, d) = (d_tenant_id doc, d_document_id doc)"
    using keyed_put_doc_meta [OF keyed, of t d meta] unfolding keyed_registry_def by blast
  with Some show ?thesis
    by (simp add: set_mfg_meta_def registry_put_def registry_get_def dget_dset Let_def)
qed

lemma length_filter_touched:
  "(\<And>c v. P (g c, v) = P (c, v)) \<Longrightarrow>
     length (filter P (map snd (map (\<lambda>(cid, (c, v)). (cid, (g c, v))) its))) = length (filter P (map snd its))"
  by (induction its) auto

lemma chunk_count_propagate:
  "length (filter (\<lambda>(c, v). \<not> (c_tenant_id c \<noteq> u \<or> c_tombstone c) \<and> c_document_id c = i)
      (iter_items (fst (propagate_to_chunks t d meta st)))) =
   length (filter (\<lambda>(c, v). \<not> (c_tenant_id c \<noteq> u \<or> c_tombstone c) \<and> c_document_id c = i) (iter_items st))"
proof -
  have "iter_items (fst (propagate_to_chunks t d meta st)) = map snd (map (\<lambda>(cid, (c, v)). (cid,
      (if of_document t d c then c\<lparr>c_metadata := with_mfg_meta meta (c_metadata c)\<rparr> else c, v))) (vs_items st))"
    by (simp add: propagate_to_chunks_def iter_items_def)
  then show ?thesis
    unfolding iter_items_def [of st] by (simp only: length_filter_touched split: if_split) (rule length_filter_touched, simp)
qed

definition live_document :: "string \<Rightarrow> string \<Rightarrow> mfg_state \<Rightarrow> bool" where
  "live_document t d s \<longleftrightarrow> (\<exists>doc. registry_get t d (fs_registry s) = Some doc \<and> \<not> d_tombstone doc)"

lemma get_mfg_meta_dead: "\<not> live_document t d s \<Longrightarrow> get_mfg_meta env t d s = Inr None"
  by (auto simp: get_mfg_meta_def live_document_def split: option.splits)

text \<open>The effect of a successful or failed write on every document.\<close>

lemma persist_effect:
  assumes p: "persist_and_audit env t d meta entry s = (s', r)"
    and keyed: "keyed_registry (fs_registry s)" and cycle: "0 \<le> mm_review_cycle_days meta"
  shows "s' = s \<and> r = Inl TenantIsolationError \<or>
    keyed_registry (fs_registry s') \<and> same_documents s s' \<and>
    (\<forall>u i. (u, i) \<noteq> (t, d) \<longrightarrow> get_mfg_meta env' u i s' = get_mfg_meta env' u i s) \<and>
    (live_document t d s \<longrightarrow> get_mfg_meta env' t d s' = Inr (Some meta)) \<and>
    (\<forall>doc. dget (fs_registry s) (t, d) = Some doc \<longrightarrow>
      (\<exists>doc'. dget (fs_registry s') (t, d) = Some doc' \<and> py_get (d_metadata doc') mfg_meta_key = PDict (to_mapping meta)))"
proof (cases "mm_tenant_id meta \<noteq> [] \<and> mm_tenant_id meta \<noteq> t")
  case True
  with p show ?thesis by (simp add: persist_and_audit_def attach_def)
next
  case False
  let ?s1 = "s\<lparr>fs_registry := put_doc_meta t d meta (fs_registry s),
    fs_store := fst (propagate_to_chunks t d meta (fs_store s))\<rparr>"
  have reg: "fs_registry s' = fs_registry (set_mfg_meta t d meta ?s1)"
    and store: "fs_store s' = fst (propagate_to_chunks t d meta (fs_store s))"
    using p False by (auto simp: persist_and_audit_def attach_def set_mfg_meta_def Let_def split: sum.splits option.splits)
  have get: "dget (fs_registry s') k =
      (if k = (t, d) then map_option (\<lambda>doc. doc\<lparr>d_metadata := with_mfg_meta meta (with_mfg_meta meta (d_metadata doc))\<rparr>)
         (dget (fs_registry s) k) else dget (fs_registry s) k)" for k
    unfolding reg using dget_set_mfg_meta [of ?s1 t d meta k] keyed_put_doc_meta [OF keyed]
    by (simp add: dget_put_doc_meta option.map_comp comp_def)
  have "keyed_registry (fs_registry s')"
    using keyed by (auto simp: keyed_registry_def get split: if_splits)
  moreover have "same_documents s s'"
    unfolding same_documents_def chunk_count_of_def store chunk_count_propagate
    by (simp add: get option.map_comp comp_def)
  moreover have "get_mfg_meta env' u i s' = get_mfg_meta env' u i s" if "(u, i) \<noteq> (t, d)" for u i
    using that unfolding get_mfg_meta_def registry_get_def get by (simp only: if_False)
  moreover have "get_mfg_meta env' t d s' = Inr (Some meta)" if "live_document t d s"
    using that by (auto simp: live_document_def get_mfg_meta_def registry_get_def get from_mapping_to_mapping_id [OF cycle])
  ultimately show ?thesis by (auto simp: get)
qed

section \<open>The workflow never goes back\<close>

text \<open>What one operation of the workflow does to the metadata of one document: nothing, or a legal move.\<close>

definition workflow_effect :: "(string \<Rightarrow> int option) \<Rightarrow> mfg_state \<Rightarrow> mfg_state \<Rightarrow> bool" where
  "workflow_effect parse_int s s' \<longleftrightarrow>
     keyed_registry (fs_registry s') \<and> same_documents s s' \<and>
     (\<forall>env t d m. fe_parse_int env = parse_int \<longrightarrow> get_mfg_meta env t d s = Inr (Some m) \<longrightarrow>
        (\<exists>m'. get_mfg_meta env t d s' = Inr (Some m') \<and>
           lifecycle_rank (mm_approval_status m) \<le> lifecycle_rank (mm_approval_status m')))"

lemma workflow_effect_refl: "keyed_registry (fs_registry s) \<Longrightarrow> workflow_effect parse_int s s"
  by (auto simp: workflow_effect_def)

lemma workflow_effect_moves:
  assumes "workflow_effect (fe_parse_int env) s s'" and "get_mfg_meta env t d s = Inr (Some m)"
  obtains m' where "get_mfg_meta env t d s' = Inr (Some m')"
    "lifecycle_rank (mm_approval_status m) \<le> lifecycle_rank (mm_approval_status m')"
  using assms unfolding workflow_effect_def by blast

lemma workflow_effect_trans:
  assumes a: "workflow_effect parse_int s s1" and b: "workflow_effect parse_int s1 s2"
  shows "workflow_effect parse_int s s2"
proof -
  have "\<exists>m'. get_mfg_meta env t d s2 = Inr (Some m') \<and> lifecycle_rank (mm_approval_status m) \<le> lifecycle_rank (mm_approval_status m')"
    if env: "fe_parse_int env = parse_int" and m: "get_mfg_meta env t d s = Inr (Some m)" for env t d m
  proof -
    obtain m1 where m1: "get_mfg_meta env t d s1 = Inr (Some m1)"
        "lifecycle_rank (mm_approval_status m) \<le> lifecycle_rank (mm_approval_status m1)"
      using workflow_effect_moves [OF a [folded env] m] .
    obtain m2 where "get_mfg_meta env t d s2 = Inr (Some m2)"
        "lifecycle_rank (mm_approval_status m1) \<le> lifecycle_rank (mm_approval_status m2)"
      using workflow_effect_moves [OF b [folded env] m1(1)] .
    with m1(2) show ?thesis by auto
  qed
  moreover have "same_documents s s2" using a b unfolding workflow_effect_def by (blast intro: same_documents_trans)
  ultimately show ?thesis using b unfolding workflow_effect_def by blast
qed

lemma get_mfg_meta_env:
  assumes "fe_parse_int env' = fe_parse_int env"
  shows "get_mfg_meta env' t d s = get_mfg_meta env t d s"
  unfolding get_mfg_meta_def assms by (rule refl)

lemma get_mfg_meta_live: "get_mfg_meta env t d s = Inr (Some m) \<Longrightarrow> live_document t d s"
  by (auto simp: get_mfg_meta_def live_document_def split: option.splits if_splits)

lemma require_meta_cases:
  assumes "require_meta env t d s = Inr meta"
  shows "0 \<le> mm_review_cycle_days meta \<and>
    (get_mfg_meta env t d s = Inr (Some meta) \<or> get_mfg_meta env t d s = Inr None \<and> meta = new_metadata t d)"
  using assms from_mapping_cycle
  by (auto simp: require_meta_def rbind_Inr_iff get_mfg_meta_def new_metadata_def split: option.splits if_splits)

lemma persist_workflow_effect:
  assumes p: "persist_and_audit env t d updated entry s = (s', r)" and keyed: "keyed_registry (fs_registry s)"
    and req: "require_meta env t d s = Inr meta" and cycle: "mm_review_cycle_days updated = mm_review_cycle_days meta"
    and rank: "lifecycle_rank (mm_approval_status meta) \<le> lifecycle_rank (mm_approval_status updated)"
  shows "workflow_effect (fe_parse_int env) s s'"
proof -
  have c: "0 \<le> mm_review_cycle_days updated" using require_meta_cases [OF req] cycle by simp
  note eff = persist_effect [OF p keyed c]
  show ?thesis
  proof (cases "s' = s")
    case True
    then show ?thesis using workflow_effect_refl [OF keyed] by simp
  next
    case False
    have other: "get_mfg_meta e u i s' = get_mfg_meta e u i s" if "(u, i) \<noteq> (t, d)" for e u i
      using eff [of e] False that by blast
    have own: "get_mfg_meta e t d s' = Inr (Some updated)" if "live_document t d s" for e
      using eff [of e] False that by blast
    have "\<exists>m'. get_mfg_meta e u i s' = Inr (Some m') \<and> lifecycle_rank (mm_approval_status m) \<le> lifecycle_rank (mm_approval_status m')"
      if e: "fe_parse_int e = fe_parse_int env" and g: "get_mfg_meta e u i s = Inr (Some m)" for e u i m
    proof (cases "(u, i) = (t, d)")
      case True
      then have "get_mfg_meta env t d s = Inr (Some m)" using g get_mfg_meta_env [OF e] by simp
      then have "m = meta" using require_meta_cases [OF req] by auto
      then show ?thesis using own [of e] get_mfg_meta_live [OF g] True rank by auto
    qed (use other g in auto)
    then show ?thesis using eff False unfolding workflow_effect_def by blast
  qed
qed

lemma approval_transition_effect:
  assumes "keyed_registry (fs_registry s)"
  shows "workflow_effect (fe_parse_int env) s (fst (approval_transition env t d to_status actor s))"
proof -
  let ?r = "rbind (coerce_status to_status) (\<lambda>status. rbind (require_meta env t d s) (\<lambda>meta.
     rbind (assert_legal_transition (mm_approval_status meta) status) (\<lambda>_. Inr (transitioned env status actor meta))))"
  show ?thesis
  proof (cases ?r)
    case (Inl e)
    then show ?thesis using workflow_effect_refl [OF assms] by (simp add: approval_transition_def)
  next
    case (Inr updated)
    then obtain status meta where m: "require_meta env t d s = Inr meta" "updated = transitioned env status actor meta"
        "lifecycle_rank (mm_approval_status meta) \<le> lifecycle_rank status"
      by (auto simp: rbind_Inr_iff assert_legal_transition_def split: if_splits)
    obtain s' r where p: "persist_and_audit env t d updated (approval_entry env t d ''approval.transition'' updated (Some actor)
        (approval_source_value (mm_approval_source updated)) [d]) s = (s', r)" by fastforce
    have "workflow_effect (fe_parse_int env) s s'"
      by (rule persist_workflow_effect [OF p assms m(1)]) (use m in \<open>simp_all add: transitioned_def\<close>)
    then show ?thesis using Inr p by (simp add: approval_transition_def)
  qed
qed

lemma transition_approval_effect:
  "keyed_registry (fs_registry s) \<Longrightarrow> workflow_effect (fe_parse_int env) s (fst (transition_approval env t d to_status actor s))"
  by (simp add: transition_approval_def approval_transition_effect workflow_effect_refl)

lemma supersede_effect:
  assumes "keyed_registry (fs_registry s)"
  shows "workflow_effect (fe_parse_int env) s (fst (supersede env t d by' actor s))"
proof (cases "require_meta env t d s")
  case (Inl e)
  then show ?thesis using workflow_effect_refl [OF assms] by (simp add: supersede_def)
next
  case (Inr meta)
  let ?updated = "superseded env by' meta"
  obtain s' r where p: "persist_and_audit env t d ?updated (approval_entry env t d ''approval.supersede'' ?updated (Some actor)
      by' [d, by']) s = (s', r)" by fastforce
  have le: "lifecycle_rank (mm_approval_status meta) \<le> lifecycle_rank OBSOLETE"
    by (cases "mm_approval_status meta") (simp_all add: lifecycle_rank_def)
  have "workflow_effect (fe_parse_int env) s s'"
    by (rule persist_workflow_effect [OF p assms Inr]) (use le in \<open>simp_all add: superseded_def\<close>)
  then show ?thesis using Inr p le by (simp add: supersede_def assert_legal_transition_def)
qed

lemma batch_one_state:
  "fst (batch_one env t d actor s) = s \<or>
   fst (batch_one env t d actor s) = fst (transition_approval env t d ''approved'' actor s)"
  by (auto simp: batch_one_def Let_def split_def split: option.splits sum.splits py_exc.splits prod.splits)

lemma batch_one_effect:
  "keyed_registry (fs_registry s) \<Longrightarrow> workflow_effect (fe_parse_int env) s (fst (batch_one env t d actor s))"
  using batch_one_state [of env t d actor s] transition_approval_effect [of s env t d "''approved''" actor]
  by (auto simp: workflow_effect_refl)

lemma workflow_effect_keyed: "workflow_effect parse_int s s' \<Longrightarrow> keyed_registry (fs_registry s')"
  by (simp add: workflow_effect_def)

lemma batch_loop_Cons_state:
  "fst (batch_loop env t actor (i # is) s) =
     (case snd (batch_one env t i actor s) of
        Inl e \<Rightarrow> fst (batch_one env t i actor s)
      | Inr r \<Rightarrow> fst (batch_loop env t actor is (fst (batch_one env t i actor s))))"
  by (simp add: split_def split: sum.split)

lemma batch_loop_effect:
  "keyed_registry (fs_registry s) \<Longrightarrow> workflow_effect (fe_parse_int env) s (fst (batch_loop env t actor is s))"
proof (induction "is" arbitrary: s)
  case (Cons i "is")
  note one = batch_one_effect [OF Cons.prems, of env t i actor]
  note rest = Cons.IH [OF workflow_effect_keyed [OF one]]
  show ?case
    unfolding batch_loop_Cons_state using one workflow_effect_trans [OF one rest] by (simp split: sum.split)
qed (simp add: workflow_effect_refl)

lemma batch_transition_state:
  "fst (batch_transition_approval env t ids st actor s) = s \<or>
   fst (batch_transition_approval env t ids st actor s) = fst (batch_loop env t actor (requested_ids ids) s)"
  by (auto simp: batch_transition_approval_def Let_def split_def split: sum.split)

inductive workflow_step :: "(string \<Rightarrow> int option) \<Rightarrow> mfg_state \<Rightarrow> mfg_state \<Rightarrow> bool" for parse_int where
  step_transition: "fe_parse_int env = parse_int \<Longrightarrow>
    workflow_step parse_int s (fst (transition_approval env t d to_status actor s))"
| step_supersede: "fe_parse_int env = parse_int \<Longrightarrow>
    workflow_step parse_int s (fst (supersede env t d superseded_by actor s))"
| step_batch: "fe_parse_int env = parse_int \<Longrightarrow>
    workflow_step parse_int s (fst (batch_transition_approval env t ids to_status actor s))"

lemma workflow_step_effect:
  assumes "workflow_step parse_int s s'" and keyed: "keyed_registry (fs_registry s)"
  shows "workflow_effect parse_int s s'"
  using assms
proof cases
  case (step_batch env t ids to_status actor)
  then show ?thesis
    using batch_transition_state [of env t ids to_status actor s] batch_loop_effect [OF keyed, of env t actor "requested_ids ids"]
      workflow_effect_refl [OF keyed] by auto
qed (use transition_approval_effect [OF keyed] supersede_effect [OF keyed] in auto)

lemma workflow_steps_effect:
  assumes "(workflow_step parse_int)\<^sup>*\<^sup>* s s'" and "keyed_registry (fs_registry s)"
  shows "workflow_effect parse_int s s'"
  using assms
proof (induction rule: rtranclp_induct)
  case (step s1 s2)
  then show ?case using workflow_effect_trans workflow_step_effect workflow_effect_keyed by blast
qed (rule workflow_effect_refl)

text \<open>C10: The approval workflow never goes back: whatever transitions, supersessions and batch approvals anyone makes
  on any documents, a live document keeps readable metadata and its lifecycle rank never falls; an obsolete
  document stays obsolete.\<close>

theorem approval_forward_only:
  assumes "(workflow_step (fe_parse_int env))\<^sup>*\<^sup>* s s'" and "keyed_registry (fs_registry s)"
    and "get_mfg_meta env t d s = Inr (Some m)"
  shows "\<exists>m'. get_mfg_meta env t d s' = Inr (Some m') \<and>
    lifecycle_rank (mm_approval_status m) \<le> lifecycle_rank (mm_approval_status m') \<and>
    (mm_approval_status m = OBSOLETE \<longrightarrow> mm_approval_status m' = OBSOLETE)"
proof -
  obtain m' where m': "get_mfg_meta env t d s' = Inr (Some m')"
      "lifecycle_rank (mm_approval_status m) \<le> lifecycle_rank (mm_approval_status m')"
    using workflow_effect_moves [OF workflow_steps_effect [OF assms(1,2)] assms(3)] .
  moreover have "mm_approval_status m' = OBSOLETE" if "mm_approval_status m = OBSOLETE"
    using m'(2) that by (cases "mm_approval_status m'") (simp_all add: lifecycle_rank_def)
  ultimately show ?thesis by blast
qed

section \<open>Imported approvals\<close>

lemma coerce_status_iff: "coerce_status v = Inr st \<longleftrightarrow> approval_status_value st = v"
proof -
  have "find (\<lambda>s. approval_status_value s = v) approval_statuses = Some st \<longleftrightarrow> approval_status_value st = v"
    by (cases st) (auto simp: approval_statuses_def)
  then show ?thesis by (auto simp: coerce_status_def split: option.splits)
qed

lemma coerce_status_refused: "coerce_status v = Inl e \<longleftrightarrow> e = ValueError \<and> (\<forall>st. approval_status_value st \<noteq> v)"
proof (cases "coerce_status v")
  case (Inl e')
  then have "e' = ValueError" by (auto simp: coerce_status_def split: option.splits)
  with Inl show ?thesis using coerce_status_iff [of v] by auto
next
  case (Inr st)
  then show ?thesis using coerce_status_iff [of v st] by auto
qed

text \<open>Whether an import states a decision that may be applied to a document with this status.\<close>

definition import_admissible :: "pydict \<Rightarrow> mfg_metadata \<Rightarrow> bool" where
  "import_admissible external m \<longleftrightarrow>
     (\<exists>v st. dget external ''approval_status'' = Some v \<and> approval_status_value st = py_str v \<and>
       (mm_approval_status m = OBSOLETE \<and> st = APPROVED \<longrightarrow> dget external ''effective_date'' \<noteq> None))"

lemma require_meta_present: "get_mfg_meta env t d s = Inr (Some m) \<Longrightarrow> require_meta env t d s = Inr m"
  by (simp add: require_meta_def)

lemma import_external_cases:
  assumes "get_mfg_meta env t d s = Inr (Some m)"
  shows "\<not> import_admissible external m \<and> import_external env t d external actor s = (s, Inl ValueError) \<or>
    import_admissible external m \<and> (\<exists>v st. dget external ''approval_status'' = Some v \<and> approval_status_value st = py_str v \<and>
      (let updated = imported env st external m in
       import_external env t d external actor s = persist_and_audit env t d updated
         (approval_entry env t d ''approval.import_external'' updated actor (approval_source_value (mm_approval_source updated)) [d]) s))"
proof (cases "dget external ''approval_status''")
  case None
  then show ?thesis by (simp add: import_external_def require_meta_present [OF assms] import_admissible_def)
next
  case (Some v)
  show ?thesis
  proof (cases "coerce_status (py_str v)")
    case (Inl e)
    then have "e = ValueError" "\<forall>st. approval_status_value st \<noteq> py_str v" using coerce_status_refused by blast+
    with Some Inl show ?thesis by (simp add: import_external_def require_meta_present [OF assms] import_admissible_def)
  next
    case (Inr st)
    then have st: "approval_status_value st = py_str v" using coerce_status_iff by blast
    then have adm: "import_admissible external m \<longleftrightarrow>
        (mm_approval_status m = OBSOLETE \<and> st = APPROVED \<longrightarrow> dget external ''effective_date'' \<noteq> None)"
      using Some unfolding import_admissible_def by (metis approval_status_value_inj option.inject)
    show ?thesis
      using Some Inr st adm by (auto simp: import_external_def require_meta_present [OF assms] Let_def)
  qed
qed

lemma persist_result:
  assumes "persist_and_audit env t d meta entry s = (s', r)"
  shows "r = Inl TenantIsolationError \<or> r = Inr (to_state meta) \<and> s' \<noteq> s \<or> r = Inr (to_state meta) \<and> mm_tenant_id meta \<in> {[], t}"
  using assms by (auto simp: persist_and_audit_def attach_def audit_record_def Let_def split: if_splits sum.splits)

text \<open>An import overrides the workflow only with an explicit decision: without a stated approval status, with an
  unknown one, or when an obsolete document is approved without a new effective date, the import is refused and
  nothing changes; an import that approves takes its expiry from the import alone and clears every trace of
  obsolescence.\<close>

theorem import_needs_decision:
  assumes "import_external env t d external actor s = (s', r)" and "get_mfg_meta env t d s = Inr (Some m)"
    and "keyed_registry (fs_registry s)"
  shows "(r = Inl ValueError \<longleftrightarrow> \<not> import_admissible external m) \<and> (r = Inl ValueError \<longrightarrow> s' = s) \<and>
    (case r of Inl _ \<Rightarrow> True | Inr st \<Rightarrow>
      \<exists>m'. get_mfg_meta env t d s' = Inr (Some m') \<and> st = to_state m' \<and> mm_approval_source m' = IMPORTED \<and>
        (mm_approval_status m' = APPROVED \<longrightarrow>
           mm_valid_until m' = py_get external ''valid_until'' \<and> mm_obsolete_at m' = PNone \<and> mm_superseded_by m' = PNone))"
  using import_external_cases [OF assms(2), of external actor]
proof (elim disjE conjE exE)
  assume "import_external env t d external actor s = (s, Inl ValueError)" "\<not> import_admissible external m"
  then have "s' = s" "r = Inl ValueError" using assms(1) by simp_all
  with \<open>\<not> import_admissible external m\<close> show ?thesis by simp
next
  fix v st
  let ?u = "imported env st external m"
  assume adm: "import_admissible external m" and
    i: "let updated = imported env st external m in
       import_external env t d external actor s = persist_and_audit env t d updated
         (approval_entry env t d ''approval.import_external'' updated actor (approval_source_value (mm_approval_source updated)) [d]) s"
  have c: "0 \<le> mm_review_cycle_days ?u"
    using require_meta_cases [OF require_meta_present [OF assms(2)]] by (simp add: imported_def Let_def)
  from i assms(1) have p: "persist_and_audit env t d ?u (approval_entry env t d ''approval.import_external'' ?u actor
      (approval_source_value (mm_approval_source ?u)) [d]) s = (s', r)" by (simp add: Let_def)
  have stored: "get_mfg_meta env t d s' = Inr (Some ?u)" if "r = Inr (to_state ?u)"
    using persist_effect [OF p assms(3) c, of env] that get_mfg_meta_live [OF assms(2)] by auto
  have "mm_approval_source ?u = IMPORTED" "mm_approval_status ?u = APPROVED \<longrightarrow>
      mm_valid_until ?u = py_get external ''valid_until'' \<and> mm_obsolete_at ?u = PNone \<and> mm_superseded_by ?u = PNone"
    by (simp_all add: imported_def Let_def)
  with stored adm persist_result [OF p] show ?thesis by (cases r) auto
qed

section \<open>Batch approval\<close>

lemma requested_distinct: "distinct (requested_ids raw) \<and> [] \<notin> set (requested_ids raw)"
  by (induction raw rule: rev_induct) (auto simp: requested_ids_def add_requested_def Let_def)

text \<open>What a batch may approve.\<close>

definition approvable :: "mfg_env \<Rightarrow> string \<Rightarrow> string \<Rightarrow> identity_claims \<Rightarrow> mfg_state \<Rightarrow> bool" where
  "approvable env t i actor s \<longleftrightarrow>
     (\<exists>doc. registry_get t i (fs_registry s) = Some doc \<and> \<not> d_tombstone doc \<and> can_read_document (fe_acl env) actor doc) \<and>
     chunk_count_of t i s > 0 \<and>
     (\<exists>m. get_mfg_meta env t i s = Inr m \<and> map_option mm_approval_status m \<notin> {Some APPROVED, Some OBSOLETE})"

definition approved_by_actor :: "mfg_env \<Rightarrow> string \<Rightarrow> string \<Rightarrow> identity_claims \<Rightarrow> mfg_state \<Rightarrow> bool" where
  "approved_by_actor env t i actor s \<longleftrightarrow>
     (\<exists>m. get_mfg_meta env t i s = Inr (Some m) \<and> mm_approval_status m = APPROVED \<and>
        mm_approved_by m = PStr (id_user_id actor))"

definition untouched :: "mfg_env \<Rightarrow> string \<Rightarrow> string \<Rightarrow> mfg_state \<Rightarrow> mfg_state \<Rightarrow> bool" where
  "untouched env t i s s' \<longleftrightarrow> get_mfg_meta env t i s' = get_mfg_meta env t i s"

lemma approval_transition_refused:
  assumes "approval_transition env t d to_status actor s = (s', Inl ValueError)"
  shows "s' = s"
  using assms persist_result by (fastforce simp: approval_transition_def split: sum.splits)

lemma approval_transition_done:
  assumes "approval_transition env t d ''approved'' actor s = (s', r)" and "keyed_registry (fs_registry s)"
  shows "same_documents s s' \<and> keyed_registry (fs_registry s') \<and>
    (\<forall>u i. (u, i) \<noteq> (t, d) \<longrightarrow> get_mfg_meta env u i s' = get_mfg_meta env u i s) \<and>
    (\<not> raises r \<longrightarrow> live_document t d s \<longrightarrow> approved_by_actor env t d actor s')"
proof -
  have st: "coerce_status ''approved'' = Inr APPROVED" by (simp add: coerce_status_iff)
  show ?thesis
  proof (cases "s' = s \<and> raises r")
    case False
    then obtain updated meta where u: "require_meta env t d s = Inr meta" "updated = transitioned env APPROVED actor meta"
      and p: "persist_and_audit env t d updated (approval_entry env t d ''approval.transition'' updated (Some actor)
        (approval_source_value (mm_approval_source updated)) [d]) s = (s', r)"
      using assms(1) by (auto simp: approval_transition_def st rbind_Inr_iff rbind_Inl_iff split: sum.splits)
    have c: "0 \<le> mm_review_cycle_days updated" using require_meta_cases [OF u(1)] u(2) by (simp add: transitioned_def)
    have a: "mm_approval_status updated = APPROVED" "mm_approved_by updated = PStr (id_user_id actor)"
      using u(2) by (simp_all add: transitioned_def)
    have d: "raises (Inl e)" "\<not> raises (Inr x)" for e x by simp_all
    show ?thesis
      using persist_effect [OF p assms(2) c, of env] False assms(2) a unfolding approved_by_actor_def by auto
  qed (use assms(2) in auto)
qed

lemma batch_one_cases:
  assumes one: "batch_one env t i actor s = (s', Inr r)" and keyed: "keyed_registry (fs_registry s)"
  shows "(case r of Inl reason \<Rightarrow> s' = s
    | Inr st \<Rightarrow> approvable env t i actor s \<and> approved_by_actor env t i actor s' \<and> same_documents s s' \<and>
        keyed_registry (fs_registry s') \<and> (\<forall>u j. (u, j) \<noteq> (t, i) \<longrightarrow> get_mfg_meta env u j s' = get_mfg_meta env u j s))"
proof (cases r)
  case (Inl reason)
  have "s' = s"
    using one Inl approval_transition_refused
    by (fastforce simp: batch_one_def transition_approval_def Let_def split: if_splits sum.splits py_exc.splits prod.splits)
  with Inl show ?thesis by simp
next
  case (Inr st)
  then have ok: "\<not> (case registry_get t i (fs_registry s) of None \<Rightarrow> True
        | Some doc \<Rightarrow> d_tombstone doc \<or> \<not> can_read_document (fe_acl env) actor doc)"
      "su_approval_ready (document_processing_summary env t i s)"
      "\<exists>m. get_mfg_meta env t i s = Inr m \<and> map_option mm_approval_status m \<notin> {Some APPROVED, Some OBSOLETE}"
      "approval_transition env t i ''approved'' actor s = (s', Inr st)"
    using one by (auto simp: batch_one_def transition_approval_def Let_def split: if_splits sum.splits py_exc.splits prod.splits)
  have chunks: "chunk_count_of t i s > 0"
    using ok(2) by (simp add: document_processing_summary_def Let_def)
  have doc: "\<exists>doc. registry_get t i (fs_registry s) = Some doc \<and> \<not> d_tombstone doc \<and> can_read_document (fe_acl env) actor doc"
    using ok(1) by (cases "registry_get t i (fs_registry s)") auto
  then have "live_document t i s" by (auto simp: live_document_def)
  then show ?thesis
    using Inr approval_transition_done [OF ok(4) keyed] ok(3) chunks doc unfolding approvable_def by simp
qed

lemma approvable_frame:
  assumes "same_documents s s1" and "get_mfg_meta env t i s1 = get_mfg_meta env t i s" and "approvable env t i actor s1"
  shows "approvable env t i actor s"
proof -
  have sym: "same_documents s1 s" using assms(1) by (simp add: same_documents_def)
  from assms(3) obtain doc where doc: "dget (fs_registry s1) (t, i) = Some doc" "\<not> d_tombstone doc"
      "can_read_document (fe_acl env) actor doc" by (auto simp: approvable_def registry_get_def)
  from same_document_fields [OF sym doc(1), of "fe_acl env" actor] doc(2,3)
  have "\<exists>doc. registry_get t i (fs_registry s) = Some doc \<and> \<not> d_tombstone doc \<and> can_read_document (fe_acl env) actor doc"
    by (auto simp: registry_get_def)
  moreover have "chunk_count_of t i s = chunk_count_of t i s1" using assms(1) by (simp add: same_documents_def)
  ultimately show ?thesis using assms(2,3) unfolding approvable_def by simp
qed

lemma batch_loop_sound:
  assumes "batch_loop env t actor is s = (s', Inr (approved, skipped))" and "distinct is" and "keyed_registry (fs_registry s)"
  shows "mset (map fst approved) + mset (map fst skipped) = mset is \<and>
    (\<forall>i\<in>fst ` set approved. approvable env t i actor s \<and> approved_by_actor env t i actor s') \<and>
    (\<forall>u i. u \<noteq> t \<or> i \<notin> fst ` set approved \<longrightarrow> untouched env u i s s')"
  using assms
proof (induction "is" arbitrary: s approved skipped)
  case Nil
  then show ?case by (simp add: untouched_def)
next
  case (Cons i "is")
  obtain s1 r where one: "batch_one env t i actor s = (s1, Inr r)"
    using Cons.prems(1) by (auto split: prod.splits sum.splits)
  obtain ap sk where rest: "batch_loop env t actor is s1 = (s', Inr (ap, sk))"
    and res: "approved = (case r of Inl _ \<Rightarrow> ap | Inr st \<Rightarrow> (i, st) # ap)" "skipped = (case r of Inl reason \<Rightarrow> (i, reason) # sk | Inr _ \<Rightarrow> sk)"
    using Cons.prems(1) one by (auto split: prod.splits sum.splits)
  note eff = batch_one_cases [OF one Cons.prems(3)]
  have keyed: "keyed_registry (fs_registry s1)" using eff Cons.prems(3) by (auto split: sum.splits)
  have frame: "same_documents s s1" using eff by (auto split: sum.splits)
  have other: "get_mfg_meta env u j s1 = get_mfg_meta env u j s" if "u \<noteq> t \<or> j \<noteq> i" for u j
    using eff that by (auto split: sum.splits)
  have dist: "distinct is" and "i \<notin> set is" using Cons.prems(2) by simp_all
  note IH = Cons.IH [OF rest dist keyed]
  have sub: "fst ` set ap \<subseteq> set is" using arg_cong [OF conjunct1 [OF IH], of set_mset] by auto
  then have "i \<notin> fst ` set ap" using \<open>i \<notin> set is\<close> by blast
  then have i_kept: "untouched env t i s1 s'" using IH by blast
  have count: "mset (map fst approved) + mset (map fst skipped) = mset (i # is)"
    using conjunct1 [OF IH] res by (cases r) auto
  have later: "approvable env t j actor s \<and> approved_by_actor env t j actor s'" if "j \<in> fst ` set ap" for j
  proof -
    have "j \<noteq> i" using that sub \<open>i \<notin> set is\<close> by blast
    then show ?thesis using IH that approvable_frame [OF frame other [of t j]] by blast
  qed
  have now: "approvable env t i actor s \<and> approved_by_actor env t i actor s'" if "r = Inr st" for st
    using eff i_kept that by (auto simp: approved_by_actor_def untouched_def)
  have "untouched env u j s s'" if "u \<noteq> t \<or> j \<notin> fst ` set approved" for u j
  proof (cases "u = t \<and> j = i")
    case True
    with that res have "s1 = s" using eff by (cases r) auto
    with i_kept True show ?thesis by (simp add: untouched_def)
  next
    case False
    then have "untouched env u j s1 s'" using IH that res by (cases r) auto
    with other [of u j] False show ?thesis by (auto simp: untouched_def)
  qed
  moreover have "\<forall>j\<in>fst ` set approved. approvable env t j actor s \<and> approved_by_actor env t j actor s'"
    using later now res(1) by (cases r) auto
  ultimately show ?case using count by blast
qed

text \<open>A batch approves only what it may: the requested ids are distinct, each one is either approved or skipped
  with a reason and never both, an approved document was live, readable by the reviewer, indexed, and neither
  approved nor obsolete before, and is approved in the reviewer's name afterwards; the approval state of every
  other document of every tenant is untouched.\<close>

theorem batch_approves_only_ready:
  assumes "batch_transition_approval env t ids to_status actor s = (s', Inr r)" and "keyed_registry (fs_registry s)"
  shows "distinct (br_requested r) \<and>
    mset (map fst (br_approved r)) + mset (map fst (br_skipped r)) = mset (br_requested r) \<and>
    (\<forall>i\<in>fst ` set (br_approved r). approvable env t i actor s \<and> approved_by_actor env t i actor s') \<and>
    (\<forall>u i. u \<noteq> t \<or> i \<notin> fst ` set (br_approved r) \<longrightarrow> untouched env u i s s')"
proof -
  obtain approved skipped where loop: "batch_loop env t actor (requested_ids ids) s = (s', Inr (approved, skipped))"
      "r = \<lparr>br_requested = requested_ids ids, br_approved = approved, br_skipped = skipped\<rparr>"
    using assms(1) by (auto simp: batch_transition_approval_def Let_def split: if_splits prod.splits sum.splits)
  show ?thesis
    using batch_loop_sound [OF loop(1) conjunct1 [OF requested_distinct] assms(2)] requested_distinct [of ids]
    by (simp add: loop(2))
qed

section \<open>Withdrawn documents\<close>

text \<open>A transition on a withdrawn document overwrites its metadata: for a tombstoned document, obsolete or
  approved as its stored metadata may say, moving to pending review succeeds, and what the registry holds
  afterwards is a blank record pending review. The forward-only guard sees a fresh draft there.\<close>

theorem withdrawn_metadata_overwritten:
  assumes "registry_get t d (fs_registry s) = Some doc" and "d_tombstone doc" and "t \<noteq> []"
    and "keyed_registry (fs_registry s)"
  shows "\<exists>s' st doc'. transition_approval env t d ''pending_review'' actor s = (s', Inr st) \<and>
    registry_get t d (fs_registry s') = Some doc' \<and>
    py_get (d_metadata doc') mfg_meta_key = PDict (to_mapping ((new_metadata t d)\<lparr>mm_approval_status := PENDING_REVIEW\<rparr>))"
proof -
  let ?m = "(new_metadata t d)\<lparr>mm_approval_status := PENDING_REVIEW\<rparr>"
  have m: "transitioned env PENDING_REVIEW actor (new_metadata t d) = ?m"
    by (simp add: transitioned_def new_metadata_def)
  have req: "require_meta env t d s = Inr (new_metadata t d)"
    using assms(1,2) by (simp add: require_meta_def get_mfg_meta_def)
  have st: "coerce_status ''pending_review'' = Inr PENDING_REVIEW" by (simp add: coerce_status_iff)
  have draft: "mm_approval_status (new_metadata t d) = DRAFT" "mm_tenant_id ?m = t" by (simp_all add: new_metadata_def)
  let ?entry = "approval_entry env t d ''approval.transition'' ?m (Some actor) (approval_source_value (mm_approval_source ?m)) [d]"
  obtain s' r where p: "persist_and_audit env t d ?m ?entry s = (s', r)" by fastforce
  have tr: "transition_approval env t d ''pending_review'' actor s = (s', r)"
    using p by (simp add: transition_approval_def approval_transition_def st req draft assert_legal_transition_def lifecycle_rank_def m)
  have r: "r = Inr (to_state ?m)"
    using p assms(3) draft by (auto simp: persist_and_audit_def attach_def audit_record_def approval_entry_def Let_def split: if_splits sum.splits)
  have "0 \<le> mm_review_cycle_days ?m" by (simp add: new_metadata_def)
  from persist_effect [OF p assms(4) this, of env] r assms(1)
  obtain doc' where "dget (fs_registry s') (t, d) = Some doc'" "py_get (d_metadata doc') mfg_meta_key = PDict (to_mapping ?m)"
    by (auto simp: registry_get_def)
  with tr r show ?thesis unfolding registry_get_def by blast
qed

section \<open>Concrete runs\<close>

definition sample_mfg_env :: mfg_env where
  "sample_mfg_env =
     \<lparr>fe_now = ''2026-01-01T00:00:00+00:00'', fe_today = ''2026-01-01'', fe_parse_int = (\<lambda>_. None), fe_sha = (\<lambda>s. s),
      fe_redact = (\<lambda>s. s), fe_acl = \<lparr>p_grants = []\<rparr>, fe_processing_state = (\<lambda>_ _. None)\<rparr>"

definition sample_actor :: identity_claims where
  "sample_actor = \<lparr>id_tenant_id = ''t'', id_user_id = ''u'', id_groups = [], id_roles = []\<rparr>"

definition sample_mfg_meta :: "approval_status \<Rightarrow> mfg_metadata" where
  "sample_mfg_meta status = (new_metadata ''t'' ''d'')\<lparr>mm_approval_status := status\<rparr>"

definition sample_mfg_state :: "approval_status \<Rightarrow> bool \<Rightarrow> mfg_state" where
  "sample_mfg_state status tombstone =
     \<lparr>fs_registry = [((''t'', ''d''),
        \<lparr>d_tenant_id = ''t'', d_collection_id = ''c'', d_document_id = ''d'', d_source_id = ''src'', d_version = 1,
         d_checksum = ''x'', d_metadata = with_mfg_meta (sample_mfg_meta status) [], d_created_at = [], d_updated_at = [],
         d_indexed_at = [], d_tombstone = tombstone\<rparr>)],
      fs_store = new_store, fs_mfg_meta = [], fs_audit = []\<rparr>"

lemma sample_mfg_state_keyed: "keyed_registry (fs_registry (sample_mfg_state status b))"
  by (simp add: sample_mfg_state_def keyed_registry_def)

lemma sample_mfg_state_meta:
  "get_mfg_meta sample_mfg_env ''t'' ''d'' (sample_mfg_state status False) = Inr (Some (sample_mfg_meta status))"
proof -
  have "0 \<le> mm_review_cycle_days (sample_mfg_meta status)" by (simp add: sample_mfg_meta_def new_metadata_def)
  from from_mapping_to_mapping_id [OF this] show ?thesis
    by (simp add: get_mfg_meta_def sample_mfg_state_def registry_get_def)
qed

theorem approval_forward_only_witness:
  "\<exists>m'. get_mfg_meta sample_mfg_env ''t'' ''d''
      (fst (transition_approval sample_mfg_env ''t'' ''d'' ''draft'' sample_actor (sample_mfg_state OBSOLETE False))) = Inr (Some m') \<and>
    mm_approval_status m' = OBSOLETE"
proof -
  have step: "(workflow_step (fe_parse_int sample_mfg_env))\<^sup>*\<^sup>* (sample_mfg_state OBSOLETE False)
      (fst (transition_approval sample_mfg_env ''t'' ''d'' ''draft'' sample_actor (sample_mfg_state OBSOLETE False)))"
    by (rule r_into_rtranclp, rule step_transition, rule refl)
  from approval_forward_only [OF step sample_mfg_state_keyed sample_mfg_state_meta] show ?thesis
    by (auto simp: sample_mfg_meta_def)
qed

theorem import_needs_decision_witness:
  "import_external sample_mfg_env ''t'' ''d'' [(''approval_status'', PStr ''approved'')] None (sample_mfg_state OBSOLETE False) =
     (sample_mfg_state OBSOLETE False, Inl ValueError)"
proof -
  obtain s' r where i: "import_external sample_mfg_env ''t'' ''d'' [(''approval_status'', PStr ''approved'')] None (sample_mfg_state OBSOLETE False)
      = (s', r)" by fastforce
  have "approval_status_value st = ''approved'' \<longleftrightarrow> st = APPROVED" for st by (cases st) simp_all
  then have "\<not> import_admissible [(''approval_status'', PStr ''approved'')] (sample_mfg_meta OBSOLETE)"
    by (auto simp: import_admissible_def sample_mfg_meta_def)
  with import_needs_decision [OF i sample_mfg_state_meta sample_mfg_state_keyed] i show ?thesis by blast
qed

theorem batch_approves_only_ready_witness:
  "\<exists>r. batch_transition_approval sample_mfg_env ''t'' [PStr ''d'', PStr ''d''] ''approved'' sample_actor (sample_mfg_state DRAFT False) =
      (sample_mfg_state DRAFT False, Inr r) \<and> distinct (br_requested r) \<and> map fst (br_skipped r) = [''d'']"
proof -
  have strip: "py_strip ''d'' = ''d''" by (rule py_strip_plain) (simp_all add: plain_char_def)
  have ids: "requested_ids [PStr ''d'', PStr ''d''] = [''d'']" by (simp add: requested_ids_def add_requested_def strip Let_def)
  have "can_read_document (fe_acl sample_mfg_env) sample_actor doc = False" for doc
    by (simp add: can_read_document_def can_read_def sample_mfg_env_def)
  then have one: "batch_one sample_mfg_env ''t'' ''d'' sample_actor (sample_mfg_state DRAFT False) =
      (sample_mfg_state DRAFT False, Inr (Inl ''not_available''))"
    by (simp add: batch_one_def split: option.split)
  let ?r = "\<lparr>br_requested = [''d''], br_approved = [], br_skipped = [(''d'', ''not_available'')]\<rparr>"
  have b: "batch_transition_approval sample_mfg_env ''t'' [PStr ''d'', PStr ''d''] ''approved'' sample_actor (sample_mfg_state DRAFT False) =
      (sample_mfg_state DRAFT False, Inr ?r)"
    by (simp add: batch_transition_approval_def ids one)
  from batch_approves_only_ready [OF b sample_mfg_state_keyed] b show ?thesis by auto
qed

theorem withdrawn_metadata_overwritten_witness:
  "\<exists>s' st. transition_approval sample_mfg_env ''t'' ''d'' ''pending_review'' sample_actor (sample_mfg_state OBSOLETE True) = (s', Inr st)"
proof -
  let ?s = "sample_mfg_state OBSOLETE True"
  obtain doc where "registry_get ''t'' ''d'' (fs_registry ?s) = Some doc" "d_tombstone doc"
    by (simp add: sample_mfg_state_def registry_get_def)
  from withdrawn_metadata_overwritten [OF this _ sample_mfg_state_keyed] show ?thesis by blast
qed

end
