(* ===== verification/Drafts.thy ===== *)
theory Drafts
  imports SafetyGate Approval
begin

text \<open>
  Generated drafts and their review: \<open>manufacturing/domain/draft.py\<close>, \<open>manufacturing/drafts/generator.py\<close>,
  \<open>manufacturing/drafts/review.py\<close>, \<open>manufacturing/drafts/render.py\<close>, \<open>manufacturing/api/draft_store.py\<close> (the
  in-memory store) and \<open>manufacturing/api/drafts.py\<close>. The ingestion seam of publishing is an argument that
  accepts or raises; the documents it accepted are part of the state.
\<close>

section \<open>Artifacts\<close>

datatype draft_type = DtCHECKLIST | DtTROUBLE_REPORT | DtQUALITY_REPORT | DtTRAINING | DtFAQ

fun draft_type_value :: "draft_type \<Rightarrow> string" where
  "draft_type_value DtCHECKLIST = ''checklist''"
| "draft_type_value DtTROUBLE_REPORT = ''trouble_report''"
| "draft_type_value DtQUALITY_REPORT = ''quality_report''"
| "draft_type_value DtTRAINING = ''training''"
| "draft_type_value DtFAQ = ''faq''"

datatype draft_status = DsDRAFT | DsIN_REVIEW | DsAPPROVED | DsREJECTED | DsARCHIVED

fun draft_status_value :: "draft_status \<Rightarrow> string" where
  "draft_status_value DsDRAFT = ''draft''"
| "draft_status_value DsIN_REVIEW = ''in_review''"
| "draft_status_value DsAPPROVED = ''approved''"
| "draft_status_value DsREJECTED = ''rejected''"
| "draft_status_value DsARCHIVED = ''archived''"

datatype created_by = ByAI | ByUSER

fun created_by_value :: "created_by \<Rightarrow> string" where
  "created_by_value ByAI = ''ai''"
| "created_by_value ByUSER = ''user''"

record draft_artifact =
  da_tenant_id :: string
  da_artifact_id :: string
  da_type :: draft_type
  da_collection_id :: "string option"
  da_status :: draft_status
  da_source_citations :: "string list"
  da_source_document_ids :: "string list"
  da_template_id :: "string option"
  da_created_by :: "created_by option"
  da_created_at :: "string option"
  da_audit_log_ref :: "string option"
  da_reviewer_id :: "string option"
  da_reviewer_role :: "string option"
  da_reviewer_group :: "string option"
  da_assigned_at :: "string option"
  da_reviewed_at :: "string option"
  da_review_comment :: "string option"
  da_approval_decision :: "string option"
  da_review_status :: "string option"
  da_published_document_id :: "string option"
  da_published_by :: "string option"
  da_published_at :: "string option"
  da_content :: pydict

section \<open>State and environment\<close>

record ingested_draft =
  in_tenant_id :: string
  in_collection_id :: "string option"
  in_document_id :: string
  in_text :: string
  in_metadata :: mfg_metadata

record draft_state =
  dr_store :: "(string \<times> string, draft_artifact) dict"
  dr_next :: nat
  dr_audit :: audit_store
  dr_ingested :: "ingested_draft list"

record draft_env =
  de_now :: string
  de_today :: int
  de_sha :: "string \<Rightarrow> string"
  de_redact :: "string \<Rightarrow> string"
  de_get_mfg_meta :: "(string \<Rightarrow> string \<Rightarrow> mfg_metadata option result) option"
  de_can_use_source :: "(identity_claims \<Rightarrow> string \<Rightarrow> bool) option"
  de_ingest :: "ingested_draft \<Rightarrow> unit result"

type_synonym 'a draft_outcome = "draft_state \<times> 'a result"

definition new_drafts :: draft_state where
  "new_drafts = \<lparr>dr_store = [], dr_next = 1, dr_audit = [], dr_ingested = []\<rparr>"

definition draft_get :: "string \<Rightarrow> string \<Rightarrow> draft_state \<Rightarrow> draft_artifact option" where
  "draft_get tenant_id artifact_id s = dget (dr_store s) (tenant_id, artifact_id)"

definition draft_save :: "draft_artifact \<Rightarrow> draft_state \<Rightarrow> draft_state" where
  "draft_save a s = s\<lparr>dr_store := dset (da_tenant_id a, da_artifact_id a) a (dr_store s)\<rparr>"

text \<open>\<open>items.sort(key=created_at, reverse=True)\<close> is stable for equal keys.\<close>

definition draft_list :: "string \<Rightarrow> string option \<Rightarrow> string option \<Rightarrow> draft_state \<Rightarrow> draft_artifact list" where
  "draft_list tenant_id status reviewer_id s =
     (let items = map snd (filter (\<lambda>((t, i), a).
            t = tenant_id \<and>
            (case status of Some (c # cs) \<Rightarrow> draft_status_value (da_status a) = c # cs | _ \<Rightarrow> True) \<and>
            (case reviewer_id of Some (c # cs) \<Rightarrow> da_reviewer_id a = Some (c # cs) | _ \<Rightarrow> True)) (dr_store s))
      in rev (sort_key (\<lambda>a. case da_created_at a of None \<Rightarrow> [] | Some d \<Rightarrow> d) (rev items)))"

section \<open>Generation\<close>

definition citation_doc_ids :: "citation list \<Rightarrow> string list" where
  "citation_doc_ids cs =
     foldl (\<lambda>seen c. if ci_document_id c \<noteq> [] \<and> ci_document_id c \<notin> set seen then seen @ [ci_document_id c] else seen) [] cs"

definition citation_ref_of :: "citation \<Rightarrow> string" where
  "citation_ref_of c =
     (case ci_chunk_id c of Some (x # xs) \<Rightarrow> x # xs | _ \<Rightarrow> ci_document_id c @ ''#0'')"

definition coerce_kind :: "string \<Rightarrow> draft_type result" where
  "coerce_kind kind =
     (case find (\<lambda>k. draft_type_value k = kind) [DtCHECKLIST, DtTROUBLE_REPORT, DtQUALITY_REPORT, DtTRAINING, DtFAQ] of
        None \<Rightarrow> Inl ValueError
      | Some k \<Rightarrow> Inr k)"

fun any_approved_effective ::
  "(string \<Rightarrow> string \<Rightarrow> mfg_metadata option result) \<Rightarrow> int \<Rightarrow> string \<Rightarrow> citation list \<Rightarrow> bool result" where
  "any_approved_effective get today tenant_id [] = Inr False"
| "any_approved_effective get today tenant_id (c # cs) =
     rbind (get tenant_id (ci_document_id c)) (\<lambda>meta.
       if is_approved_effective meta today then Inr True
       else any_approved_effective get today tenant_id cs)"

definition has_approved_effective_evidence :: "draft_env \<Rightarrow> string \<Rightarrow> citation list \<Rightarrow> bool result" where
  "has_approved_effective_evidence env tenant_id cs =
     (case de_get_mfg_meta env of
        None \<Rightarrow> Inr False
      | Some get \<Rightarrow> any_approved_effective get (de_today env) tenant_id cs)"

definition unconfirmed_status :: string where
  "unconfirmed_status = ''needs_review''"

definition draft_notice :: string where
  "draft_notice = utf8 [0xE6, 0x9C, 0xAC, 0xE3, 0x83, 0x89, 0xE3, 0x83, 0xA9, 0xE3, 0x83, 0x95, 0xE3, 0x83, 0x88, 0xE3, 0x81, 0xAF, 0xE3, 0x83, 0xAC, 0xE3, 0x83, 0x93, 0xE3, 0x83, 0xA5, 0xE3, 0x83, 0xBC, 0xE5, 0xBF, 0x85, 0xE9, 0xA0, 0x88, 0xE3, 0x81, 0xA7, 0xE3, 0x81, 0x99, 0xE3, 0x80, 0x82, 0x72, 0x65, 0x76, 0x69, 0x65, 0x77, 0x65, 0x72, 0x20, 0xE3, 0x81, 0xAE, 0x20, 0x61, 0x70, 0x70, 0x72, 0x6F, 0x76, 0x65, 0x20, 0xE3, 0x81, 0xBE, 0xE3, 0x81, 0xA7, 0xE6, 0xAD, 0xA3, 0xE5, 0xBC, 0x8F, 0xE5, 0x85, 0xAC, 0xE9, 0x96, 0x8B, 0xE7, 0x89, 0xA9, 0xE3, 0x81, 0xA7, 0xE3, 0x81, 0xAF, 0xE3, 0x81, 0x82, 0xE3, 0x82, 0x8A, 0xE3, 0x81, 0xBE, 0xE3, 0x81, 0x9B, 0xE3, 0x82, 0x93, 0xE3, 0x80, 0x82]"

definition unconfirmed_item :: "pyval \<Rightarrow> pyval" where
  "unconfirmed_item t =
     PDict [(''kind'', PStr ''unconfirmed''), (''text'', t), (''confirmed'', PBool False), (''status'', PStr unconfirmed_status)]"

definition safety_item :: "bool \<Rightarrow> pyval \<Rightarrow> pyval" where
  "safety_item backed t =
     PDict ([(''kind'', PStr ''safety''), (''text'', t), (''confirmed'', PBool backed)] @
       (if backed then [] else [(''status'', PStr unconfirmed_status), (''requires_approved_evidence'', PBool True)]))"

definition build_content ::
  "draft_env \<Rightarrow> draft_type \<Rightarrow> string \<Rightarrow> citation list \<Rightarrow> pydict \<Rightarrow> pydict result" where
  "build_content env kind tenant_id cs filters =
     rbind (tuple_of (py_get filters ''unconfirmed_items'')) (\<lambda>unconfirmed.
     rbind (if py_truthy (py_get filters ''safety_items'')
            then rbind (has_approved_effective_evidence env tenant_id cs) (\<lambda>backed.
                 rbind (py_iter (py_get filters ''safety_items'')) (\<lambda>texts.
                   Inr (map (safety_item backed) texts)))
            else Inr []) (\<lambda>safety.
       Inr [(''kind'', PStr (draft_type_value kind)), (''notice'', PStr draft_notice),
            (''evidence_citations'', PList (map (\<lambda>c. PStr (citation_ref_of c)) cs)),
            (''items'', PList (map unconfirmed_item unconfirmed @ safety))]))"

definition all_document_ids :: "citation list \<Rightarrow> string list \<Rightarrow> string list" where
  "all_document_ids cs ids =
     foldl (\<lambda>seen d. if d \<noteq> [] \<and> d \<notin> set seen then seen @ [d] else seen) (citation_doc_ids cs) ids"

definition generate ::
  "draft_env \<Rightarrow> string \<Rightarrow> string \<Rightarrow> draft_type \<Rightarrow> string \<Rightarrow> citation list \<Rightarrow> string list \<Rightarrow> string option \<Rightarrow> string option \<Rightarrow>
     pydict \<Rightarrow> draft_artifact result" where
  "generate env artifact_id tenant_id kind created_at cs ids template_id collection_id filters =
     rbind (build_content env kind tenant_id cs filters) (\<lambda>content.
       Inr \<lparr>da_tenant_id = tenant_id, da_artifact_id = artifact_id, da_type = kind, da_collection_id = collection_id,
         da_status = DsDRAFT, da_source_citations = map citation_ref_of cs,
         da_source_document_ids = all_document_ids cs ids, da_template_id = template_id,
         da_created_by = Some ByAI, da_created_at = Some created_at, da_audit_log_ref = None,
         da_reviewer_id = None, da_reviewer_role = None, da_reviewer_group = None, da_assigned_at = None,
         da_reviewed_at = None, da_review_comment = None, da_approval_decision = None, da_review_status = None,
         da_published_document_id = None, da_published_by = None, da_published_at = None, da_content = content\<rparr>)"

section \<open>Review\<close>

definition decision_sources :: "string \<Rightarrow> draft_status list" where
  "decision_sources decision =
     (if decision = ''approved'' then [DsIN_REVIEW]
      else if decision = ''rejected'' then [DsIN_REVIEW]
      else [DsDRAFT, DsIN_REVIEW])"

definition assign_sources :: "draft_status list" where
  "assign_sources = [DsDRAFT, DsIN_REVIEW]"

definition assign_artifact ::
  "string \<Rightarrow> string option \<Rightarrow> string option \<Rightarrow> string option \<Rightarrow> draft_artifact \<Rightarrow> draft_artifact result" where
  "assign_artifact now reviewer_id reviewer_group reviewer_role a =
     (if reviewer_id = None \<and> reviewer_group = None then Inl ValueError
      else if da_status a \<notin> set assign_sources then Inl InvalidTransitionError
      else Inr (a\<lparr>da_status := DsIN_REVIEW, da_reviewer_id := reviewer_id, da_reviewer_group := reviewer_group,
                  da_reviewer_role := reviewer_role, da_assigned_at := Some now\<rparr>))"

definition fallback_reviewer :: "identity_claims option \<Rightarrow> draft_artifact \<Rightarrow> string option" where
  "fallback_reviewer reviewer a =
     (case reviewer of
        Some p \<Rightarrow> if id_user_id p \<noteq> [] then Some (id_user_id p) else da_reviewer_id a
      | None \<Rightarrow> da_reviewer_id a)"

definition reviewer_role_of :: "identity_claims \<Rightarrow> string option" where
  "reviewer_role_of p = (case id_roles p of [] \<Rightarrow> None | r # rs \<Rightarrow> Some r)"

definition decide ::
  "string \<Rightarrow> identity_claims option \<Rightarrow> string \<Rightarrow> string option \<Rightarrow> draft_artifact \<Rightarrow> draft_artifact result" where
  "decide now reviewer decision comment a =
     (if decision \<notin> {''approved'', ''rejected'', ''archived''} then Inl ValueError
      else if decision \<noteq> ''approved'' \<and> da_status a \<notin> set (decision_sources decision) then Inl InvalidTransitionError
      else
        rbind
          (if decision = ''approved'' then
             (case reviewer of
                None \<Rightarrow> Inl PermissionError
              | Some p \<Rightarrow>
                  if id_user_id p = [] then Inl PermissionError
                  else if da_status a \<notin> set (decision_sources ''approved'') then Inl InvalidTransitionError
                  else Inr (a\<lparr>da_status := DsAPPROVED, da_reviewer_id := Some (id_user_id p),
                              da_reviewer_role := reviewer_role_of p\<rparr>))
           else if decision = ''rejected''
           then Inr (a\<lparr>da_status := DsREJECTED, da_reviewer_id := fallback_reviewer reviewer a\<rparr>)
           else Inr (a\<lparr>da_status := DsARCHIVED, da_reviewer_id := fallback_reviewer reviewer a\<rparr>))
          (\<lambda>b. Inr (b\<lparr>da_reviewed_at := Some now, da_approval_decision := Some decision,
                     da_review_status := Some decision, da_review_comment := comment\<rparr>)))"

section \<open>Rendering\<close>

fun kind_title :: "draft_type \<Rightarrow> string" where
  "kind_title DtCHECKLIST = utf8 [0xE7, 0x82, 0xB9, 0xE6, 0xA4, 0x9C, 0xE3, 0x83, 0x81, 0xE3, 0x82, 0xA7, 0xE3, 0x83, 0x83, 0xE3, 0x82, 0xAF, 0xE3, 0x83, 0xAA, 0xE3, 0x82, 0xB9, 0xE3, 0x83, 0x88]"
| "kind_title DtTROUBLE_REPORT = utf8 [0xE3, 0x83, 0x88, 0xE3, 0x83, 0xA9, 0xE3, 0x83, 0x96, 0xE3, 0x83, 0xAB, 0xE5, 0xA0, 0xB1, 0xE5, 0x91, 0x8A]"
| "kind_title DtQUALITY_REPORT = utf8 [0xE5, 0x93, 0x81, 0xE8, 0xB3, 0xAA, 0xE5, 0xA0, 0xB1, 0xE5, 0x91, 0x8A]"
| "kind_title DtTRAINING = utf8 [0xE6, 0x95, 0x99, 0xE8, 0x82, 0xB2, 0xE8, 0xB3, 0x87, 0xE6, 0x96, 0x99]"
| "kind_title DtFAQ = ''FAQ''"

definition unconfirmed_marker :: string where
  "unconfirmed_marker = utf8 [0xE3, 0x80, 0x90, 0xE6, 0x9C, 0xAA, 0xE7, 0xA2, 0xBA, 0xE5, 0xAE, 0x9A, 0xE3, 0x83, 0xBB, 0xE8, 0xA6, 0x81, 0xE7, 0xA2, 0xBA, 0xE8, 0xAA, 0x8D, 0xE3, 0x80, 0x91]"

definition py_rstrip :: "string \<Rightarrow> string" where
  "py_rstrip s = rev (lstrip_with (map rev ws_encodings) (rev s))"

definition item_line :: "pyval \<Rightarrow> string" where
  "item_line item =
     (case item of
        PStr s \<Rightarrow> ''- '' @ s
      | PDict d \<Rightarrow>
          (let t = py_get_str d ''text'';
               confirmed = py_truthy (py_get d ''confirmed'');
               unconfirmed = (\<not> confirmed \<or> py_get_str d ''status'' = unconfirmed_status);
               prefix = (if unconfirmed then unconfirmed_marker @ '' '' else [])
           in py_rstrip (''- '' @ prefix @ t))
      | v \<Rightarrow> ''- '' @ py_repr v)"

definition newline :: string where
  "newline = [CHR 0x0A]"

definition render_draft_markdown :: "draft_artifact \<Rightarrow> string result" where
  "render_draft_markdown a =
     (let items = py_get (da_content a) ''items'';
          heading = [''# '' @ kind_title (da_type a) @ ''('' @ da_artifact_id a @ '')'', []];
          sources =
            (if da_source_document_ids a \<noteq> [] \<or> da_source_citations a \<noteq> []
             then [utf8 [0x23, 0x23, 0x20, 0xE6, 0xA0, 0xB9, 0xE6, 0x8B, 0xA0]] @ map (\<lambda>d. utf8 [0x2D, 0x20, 0xE6, 0xA0, 0xB9, 0xE6, 0x8B, 0xA0, 0xE3, 0x83, 0x89, 0xE3, 0x82, 0xAD, 0xE3, 0x83, 0xA5, 0xE3, 0x83, 0xA1, 0xE3, 0x83, 0xB3, 0xE3, 0x83, 0x88, 0x3A, 0x20] @ d) (da_source_document_ids a) @
                  map (\<lambda>r. utf8 [0x2D, 0x20, 0xE5, 0xBC, 0x95, 0xE7, 0x94, 0xA8, 0x3A, 0x20] @ r) (da_source_citations a) @ [[]]
             else [])
      in rbind (if py_truthy items then rbind (py_iter items) (\<lambda>vs. Inr (map item_line vs))
                else Inr [utf8 [0x28, 0xE9, 0xA0, 0x85, 0xE7, 0x9B, 0xAE, 0xE3, 0x81, 0xAA, 0xE3, 0x81, 0x97, 0x29]]) (\<lambda>body.
           Inr (py_rstrip (str_join newline
             (heading @ body @ [[]] @ sources @ [utf8 [0x28, 0xE6, 0x89, 0xBF, 0xE8, 0xAA, 0x8D, 0xE6, 0xB8, 0x88, 0xE3, 0x81, 0xBF, 0xE3, 0x83, 0x89, 0xE3, 0x83, 0xA9, 0xE3, 0x83, 0x95, 0xE3, 0x83, 0x88, 0x20] @ da_artifact_id a @ utf8 [0x20, 0xE3, 0x81, 0x8B, 0xE3, 0x82, 0x89, 0xE5, 0x85, 0xAC, 0xE9, 0x96, 0x8B, 0x29]])) @ newline)))"

section \<open>The service\<close>

definition draft_require :: "string \<Rightarrow> string \<Rightarrow> draft_state \<Rightarrow> draft_artifact result" where
  "draft_require tenant_id artifact_id s =
     (case draft_get tenant_id artifact_id s of None \<Rightarrow> Inl ValueError | Some a \<Rightarrow> Inr a)"

text \<open>Recording an entry and answering with the artifact; a refused entry raises after the artifact was saved.\<close>

definition recorded :: "draft_env \<Rightarrow> audit_log_entry \<Rightarrow> draft_state \<Rightarrow> 'a \<Rightarrow> 'a draft_outcome" where
  "recorded env entry s a =
     (case audit_record (de_sha env) (de_redact env) entry (dr_audit s) of
        Inl e \<Rightarrow> (s, Inl e)
      | Inr entries \<Rightarrow> (s\<lparr>dr_audit := entries\<rparr>, Inr a))"

definition opt_py :: "string option \<Rightarrow> pyval" where
  "opt_py v = (case v of None \<Rightarrow> PNone | Some t \<Rightarrow> PStr t)"

definition generation_log_id :: "draft_artifact \<Rightarrow> string \<Rightarrow> string" where
  "generation_log_id a ts = ''draft.generate:'' @ da_artifact_id a @ '':'' @ ts"

definition generation_entry :: "draft_artifact \<Rightarrow> string \<Rightarrow> string \<Rightarrow> audit_log_entry" where
  "generation_entry a actor_id ts =
     (audit_entry (da_tenant_id a) (generation_log_id a ts) ts)
       \<lparr>al_actor_id := Some actor_id, al_action := ''draft.generate'', al_resource_type := Some ''draft_artifact'',
        al_resource_id := Some (da_artifact_id a), al_decision := Some (draft_status_value (da_status a)),
        al_reason := Some (draft_type_value (da_type a)), al_document_ids_used := da_source_document_ids a,
        al_client_metadata :=
          [(''created_by'', case da_created_by a of None \<Rightarrow> PNone | Some b \<Rightarrow> PStr (created_by_value b)),
           (''template_id'', opt_py (da_template_id a))]\<rparr>"

definition transition_entry :: "draft_artifact \<Rightarrow> string \<Rightarrow> string option \<Rightarrow> string option \<Rightarrow> string \<Rightarrow> audit_log_entry" where
  "transition_entry a action actor_id decision ts =
     (audit_entry (da_tenant_id a) (action @ '':'' @ da_artifact_id a @ '':'' @ ts) ts)
       \<lparr>al_actor_id := actor_id, al_action := action, al_resource_type := Some ''draft_artifact'',
        al_resource_id := Some (da_artifact_id a), al_decision := decision,
        al_reason := Some (draft_type_value (da_type a)),
        al_client_metadata :=
          [(''status'', PStr (draft_status_value (da_status a))), (''reviewer_role'', opt_py (da_reviewer_role a)),
           (''reviewer_group'', opt_py (da_reviewer_group a))]\<rparr>"

definition publish_entry :: "draft_artifact \<Rightarrow> string \<Rightarrow> string \<Rightarrow> audit_log_entry" where
  "publish_entry a actor_id ts =
     (audit_entry (da_tenant_id a) (''draft.published:'' @ da_artifact_id a @ '':'' @ ts) ts)
       \<lparr>al_actor_id := Some actor_id, al_action := ''draft.published'', al_resource_type := Some ''draft_artifact'',
        al_resource_id := Some (da_artifact_id a), al_decision := Some ''published'',
        al_reason := Some (draft_type_value (da_type a)),
        al_document_ids_used :=
          (case da_published_document_id a of None \<Rightarrow> [] | Some d \<Rightarrow> [d]) @ da_source_document_ids a,
        al_client_metadata :=
          [(''published_document_id'', opt_py (da_published_document_id a)), (''reviewer_id'', opt_py (da_reviewer_id a))]\<rparr>"

definition art_id :: "nat \<Rightarrow> string" where
  "art_id n = ''art_'' @ nat_str n"

lemma art_id_inj [simp]: "art_id m = art_id n \<longleftrightarrow> m = n"
  by (simp add: art_id_def)

definition usable_citations :: "draft_env \<Rightarrow> identity_claims \<Rightarrow> citation list \<Rightarrow> citation list" where
  "usable_citations env p cs =
     (case de_can_use_source env of None \<Rightarrow> cs | Some ok \<Rightarrow> filter (\<lambda>c. ok p (ci_document_id c)) cs)"

definition usable_ids :: "draft_env \<Rightarrow> identity_claims \<Rightarrow> string list \<Rightarrow> string list" where
  "usable_ids env p ids =
     (case de_can_use_source env of None \<Rightarrow> ids | Some ok \<Rightarrow> filter (ok p) ids)"

definition create_draft ::
  "draft_env \<Rightarrow> identity_claims \<Rightarrow> string \<Rightarrow> citation list \<Rightarrow> string list \<Rightarrow> string option \<Rightarrow> string option \<Rightarrow> pydict \<Rightarrow>
     draft_state \<Rightarrow> draft_artifact draft_outcome" where
  "create_draft env p kind cs ids template_id collection_id filters s =
     (case coerce_kind kind of
        Inl e \<Rightarrow> (s, Inl e)
      | Inr k \<Rightarrow>
          (let artifact_id = art_id (dr_next s);
               s = s\<lparr>dr_next := Suc (dr_next s)\<rparr>
           in case generate env artifact_id (id_tenant_id p) k (de_now env) (usable_citations env p cs)
                     (usable_ids env p ids) template_id collection_id filters of
                Inl e \<Rightarrow> (s, Inl e)
              | Inr a \<Rightarrow>
                  (case recorded env (generation_entry a (id_user_id p) (de_now env)) s
                          (a\<lparr>da_audit_log_ref := Some (generation_log_id a (de_now env))\<rparr>) of
                     (s, Inl e) \<Rightarrow> (s, Inl e)
                   | (s, Inr a) \<Rightarrow> (draft_save a s, Inr a))))"

definition assign_draft ::
  "draft_env \<Rightarrow> string \<Rightarrow> string \<Rightarrow> string option \<Rightarrow> string option \<Rightarrow> string option \<Rightarrow> draft_state \<Rightarrow> draft_artifact draft_outcome" where
  "assign_draft env tenant_id artifact_id reviewer_id reviewer_group reviewer_role s =
     (case rbind (draft_require tenant_id artifact_id s)
             (assign_artifact (de_now env) reviewer_id reviewer_group reviewer_role) of
        Inl e \<Rightarrow> (s, Inl e)
      | Inr a \<Rightarrow>
          recorded env (transition_entry a ''draft.assign'' reviewer_id (Some (draft_status_value (da_status a))) (de_now env))
            (draft_save a s) a)"

definition review_draft ::
  "draft_env \<Rightarrow> string \<Rightarrow> string \<Rightarrow> identity_claims option \<Rightarrow> string \<Rightarrow> string option \<Rightarrow> draft_state \<Rightarrow> draft_artifact draft_outcome" where
  "review_draft env tenant_id artifact_id reviewer decision comment s =
     (case rbind (draft_require tenant_id artifact_id s) (decide (de_now env) reviewer decision comment) of
        Inl e \<Rightarrow> (s, Inl e)
      | Inr a \<Rightarrow>
          recorded env (transition_entry a ''draft.review'' (da_reviewer_id a)
              (case da_approval_decision a of
                 Some (c # cs) \<Rightarrow> Some (c # cs)
               | _ \<Rightarrow> Some (draft_status_value (da_status a))) (de_now env))
            (draft_save a s) a)"

fun publish_document_kind :: "draft_type \<Rightarrow> document_kind option" where
  "publish_document_kind DtCHECKLIST = Some INSPECTION"
| "publish_document_kind DtTROUBLE_REPORT = Some TROUBLE_REPORT"
| "publish_document_kind DtQUALITY_REPORT = Some QUALITY_REPORT"
| "publish_document_kind DtTRAINING = Some TRAINING"
| "publish_document_kind DtFAQ = None"

definition published_metadata :: "draft_env \<Rightarrow> string \<Rightarrow> string \<Rightarrow> draft_artifact \<Rightarrow> mfg_metadata" where
  "published_metadata env tenant_id user_id a =
     (new_metadata tenant_id (''pub_'' @ da_artifact_id a))
       \<lparr>mm_document_kind := publish_document_kind (da_type a), mm_approval_status := APPROVED,
        mm_approval_source := WORKFLOW, mm_effective_date := PStr (date_isoformat (de_today env)),
        mm_approved_by := PStr (case da_reviewer_id a of Some (c # cs) \<Rightarrow> c # cs | _ \<Rightarrow> user_id),
        mm_approved_at := opt_py (da_reviewed_at a),
        mm_extra :=
          [(''approval_source_detail'', PStr ''draft_publish''), (''published_from_draft_id'', PStr (da_artifact_id a)),
           (''draft_kind'', PStr (draft_type_value (da_type a))),
           (''source_document_ids'', PList (map PStr (da_source_document_ids a))),
           (''source_citations'', PList (map PStr (da_source_citations a)))]\<rparr>"

definition published_artifact :: "draft_env \<Rightarrow> string \<Rightarrow> draft_artifact \<Rightarrow> draft_artifact" where
  "published_artifact env user_id a =
     a\<lparr>da_published_document_id := Some (''pub_'' @ da_artifact_id a), da_published_by := Some user_id,
       da_published_at := Some (de_now env)\<rparr>"

definition publish_draft ::
  "draft_env \<Rightarrow> string \<Rightarrow> string \<Rightarrow> identity_claims option \<Rightarrow> draft_state \<Rightarrow> draft_artifact draft_outcome" where
  "publish_draft env tenant_id artifact_id actor s =
     (case actor of
        None \<Rightarrow> (s, Inl PermissionError)
      | Some p \<Rightarrow>
          if id_user_id p = [] then (s, Inl PermissionError)
          else case draft_require tenant_id artifact_id s of
            Inl e \<Rightarrow> (s, Inl e)
          | Inr a \<Rightarrow>
              if (case da_published_document_id a of Some (c # cs) \<Rightarrow> True | _ \<Rightarrow> False) then (s, Inl InvalidTransitionError)
              else if da_status a \<noteq> DsAPPROVED then (s, Inl InvalidTransitionError)
              else case rbind (render_draft_markdown a) (\<lambda>md.
                     let doc = \<lparr>in_tenant_id = tenant_id, in_collection_id = da_collection_id a,
                       in_document_id = ''pub_'' @ da_artifact_id a, in_text = md,
                       in_metadata = published_metadata env tenant_id (id_user_id p) a\<rparr>
                     in rbind (de_ingest env doc) (\<lambda>_. Inr doc)) of
                Inl e \<Rightarrow> (s, Inl e)
              | Inr doc \<Rightarrow>
                  (let a = published_artifact env (id_user_id p) a;
                       s = draft_save a (s\<lparr>dr_ingested := dr_ingested s @ [doc]\<rparr>)
                   in recorded env (publish_entry a (id_user_id p) (de_now env)) s a))"

text \<open>The guard on sources that the manufacturing system wires in.\<close>

definition can_use_draft_source :: "registry \<Rightarrow> acl_policy \<Rightarrow> identity_claims \<Rightarrow> string \<Rightarrow> bool" where
  "can_use_draft_source reg acl p document_id =
     (case registry_get (id_tenant_id p) document_id reg of
        None \<Rightarrow> True
      | Some doc \<Rightarrow> if d_tombstone doc then False else can_read_document acl p doc)"

section \<open>Reachable states\<close>

inductive draft_step :: "draft_state \<Rightarrow> draft_state \<Rightarrow> bool" where
  draft_step_create: "draft_step s (fst (create_draft env p kind cs ids template_id collection_id filters s))"
| draft_step_assign: "draft_step s (fst (assign_draft env t i reviewer_id reviewer_group reviewer_role s))"
| draft_step_review: "draft_step s (fst (review_draft env t i reviewer decision comment s))"
| draft_step_publish: "draft_step s (fst (publish_draft env t i actor s))"

inductive draft_reachable :: "draft_state \<Rightarrow> bool" where
  draft_init: "draft_reachable new_drafts"
| draft_next: "draft_reachable s \<Longrightarrow> draft_step s s' \<Longrightarrow> draft_reachable s'"

inductive_cases draft_stepE: "draft_step s s'"

section \<open>What every stored draft satisfies\<close>

text \<open>A human decision stands behind each approval.\<close>

definition human_approved :: "draft_artifact \<Rightarrow> bool" where
  "human_approved a \<longleftrightarrow>
     (\<exists>u. u \<noteq> [] \<and> da_reviewer_id a = Some u) \<and> da_approval_decision a = Some ''approved'' \<and>
     da_reviewed_at a \<noteq> None \<and> (da_assigned_at a \<noteq> None)"

definition artifact_ok :: "draft_artifact \<Rightarrow> bool" where
  "artifact_ok a \<longleftrightarrow>
     da_created_by a = Some ByAI \<and> da_audit_log_ref a \<noteq> None \<and>
     (da_status a = DsIN_REVIEW \<longrightarrow> da_assigned_at a \<noteq> None) \<and>
     (da_status a = DsAPPROVED \<longrightarrow> human_approved a) \<and>
     (da_published_document_id a \<noteq> None \<longrightarrow>
        da_status a = DsAPPROVED \<and> da_published_document_id a = Some (''pub_'' @ da_artifact_id a) \<and>
        (\<exists>u. u \<noteq> [] \<and> da_published_by a = Some u))"

text \<open>The document a published draft became: its rendering, approved in the reviewer's name.\<close>

definition published_as :: "draft_artifact \<Rightarrow> ingested_draft \<Rightarrow> bool" where
  "published_as a doc \<longleftrightarrow>
     in_tenant_id doc = da_tenant_id a \<and> in_collection_id doc = da_collection_id a \<and>
     da_published_document_id a = Some (in_document_id doc) \<and> render_draft_markdown a = Inr (in_text doc) \<and>
     mm_tenant_id (in_metadata doc) = da_tenant_id a \<and> mm_document_id (in_metadata doc) = in_document_id doc \<and>
     mm_approval_status (in_metadata doc) = APPROVED \<and>
     da_reviewer_id a = (case mm_approved_by (in_metadata doc) of PStr u \<Rightarrow> Some u | _ \<Rightarrow> None)"

definition drafts_ok :: "draft_state \<Rightarrow> bool" where
  "drafts_ok s \<longleftrightarrow>
     wf_dict (dr_store s) \<and>
     (\<forall>k a. dget (dr_store s) k = Some a \<longrightarrow>
        k = (da_tenant_id a, da_artifact_id a) \<and> artifact_ok a \<and>
        (\<exists>n < dr_next s. da_artifact_id a = art_id n)) \<and>
     distinct (map (\<lambda>d. (in_tenant_id d, in_document_id d)) (dr_ingested s)) \<and>
     (\<forall>doc\<in>set (dr_ingested s). \<exists>k a. dget (dr_store s) k = Some a \<and> published_as a doc) \<and>
     (\<forall>k a. dget (dr_store s) k = Some a \<longrightarrow> da_published_document_id a \<noteq> None \<longrightarrow>
        (\<exists>doc\<in>set (dr_ingested s). published_as a doc))"

section \<open>Every operation keeps it\<close>

lemma dget_draft_save [dict_simps]:
  "dget (dr_store (draft_save a s)) k = (if k = (da_tenant_id a, da_artifact_id a) then Some a else dget (dr_store s) k)"
  by (simp add: draft_save_def dget_dset)

lemma draft_save_frame [frame_simps]:
  "dr_next (draft_save a s) = dr_next s" "dr_ingested (draft_save a s) = dr_ingested s" "dr_audit (draft_save a s) = dr_audit s"
  by (simp_all add: draft_save_def)

lemma recorded_frame [frame_simps]:
  "dr_store (fst (recorded env e s a)) = dr_store s" "dr_next (fst (recorded env e s a)) = dr_next s"
  "dr_ingested (fst (recorded env e s a)) = dr_ingested s"
  by (simp_all add: recorded_def split: sum.split)

lemma drafts_ok_cong:
  "dr_store s' = dr_store s \<Longrightarrow> dr_next s' = dr_next s \<Longrightarrow> dr_ingested s' = dr_ingested s \<Longrightarrow> drafts_ok s' = drafts_ok s"
  by (simp add: drafts_ok_def)

lemma drafts_ok_mono:
  assumes "drafts_ok s" and "dr_store s' = dr_store s" "dr_ingested s' = dr_ingested s" "dr_next s \<le> dr_next s'"
  shows "drafts_ok s'"
proof -
  have "\<exists>n < dr_next s'. x = art_id n" if "\<exists>n < dr_next s. x = art_id n" for x
    using that assms(4) less_le_trans by blast
  then show ?thesis using assms(1) unfolding drafts_ok_def assms(2,3) by blast
qed

lemma drafts_okD:
  assumes "drafts_ok s" and "dget (dr_store s) (t, i) = Some a"
  shows "da_tenant_id a = t" "da_artifact_id a = i" "artifact_ok a" "\<exists>n < dr_next s. i = art_id n"
  using assms unfolding drafts_ok_def by (blast, blast, blast, metis prod.inject)

lemma drafts_ok_published:
  "drafts_ok s \<Longrightarrow> doc \<in> set (dr_ingested s) \<Longrightarrow> \<exists>k a. dget (dr_store s) k = Some a \<and> published_as a doc"
  by (simp add: drafts_ok_def)

lemma published_asD: "published_as a doc \<Longrightarrow> da_published_document_id a \<noteq> None"
  by (simp add: published_as_def)

text \<open>Replacing a draft that is not published by one that is not.\<close>

lemma drafts_ok_save:
  assumes ok: "drafts_ok s" and old: "dget (dr_store s) (t, i) = Some a \<or> (dget (dr_store s) (t, i) = None \<and> (\<exists>n < dr_next s. i = art_id n))"
    and key: "da_tenant_id b = t" "da_artifact_id b = i" and b: "artifact_ok b" "da_published_document_id b = None"
    and unpublished: "dget (dr_store s) (t, i) = Some a \<Longrightarrow> da_published_document_id a = None"
  shows "drafts_ok (draft_save b s)"
proof -
  have st: "dget (dr_store (draft_save b s)) k = (if k = (t, i) then Some b else dget (dr_store s) k)" for k
    using key by (simp add: dget_draft_save)
  have wf: "wf_dict (dr_store (draft_save b s))"
    using ok by (simp add: drafts_ok_def draft_save_def wf_dict_dset)
  have fresh: "\<exists>n < dr_next s. i = art_id n"
    using old drafts_okD(4) [OF ok] by blast
  have docs: "\<exists>k c. dget (dr_store (draft_save b s)) k = Some c \<and> published_as c doc" if doc: "doc \<in> set (dr_ingested s)" for doc
  proof -
    from drafts_ok_published [OF ok doc] obtain k c where c: "dget (dr_store s) k = Some c" "published_as c doc" by blast
    from c(1) have "k \<noteq> (t, i)" using old unpublished published_asD [OF c(2)] by auto
    with c(1) have "dget (dr_store (draft_save b s)) k = Some c" by (simp add: st)
    with c(2) show ?thesis by blast
  qed
  have "artifact_ok c \<and> k = (da_tenant_id c, da_artifact_id c) \<and> (\<exists>n < dr_next s. da_artifact_id c = art_id n)"
    if c: "dget (dr_store (draft_save b s)) k = Some c" for k c
  proof (cases "k = (t, i)")
    case True
    with c st have "c = b" by simp
    with True key b fresh show ?thesis by simp
  next
    case False
    with c st have "dget (dr_store s) k = Some c" by simp
    with ok show ?thesis unfolding drafts_ok_def by blast
  qed
  moreover have "\<exists>doc\<in>set (dr_ingested s). published_as c doc"
    if c: "dget (dr_store (draft_save b s)) k = Some c" "da_published_document_id c \<noteq> None" for k c
  proof -
    have "k \<noteq> (t, i)" using c b(2) st by auto
    with c(1) st have "dget (dr_store s) k = Some c" by simp
    with ok c(2) show ?thesis unfolding drafts_ok_def by blast
  qed
  moreover have "distinct (map (\<lambda>d. (in_tenant_id d, in_document_id d)) (dr_ingested s))"
    using ok by (simp add: drafts_ok_def)
  ultimately show ?thesis
    using wf docs unfolding drafts_ok_def frame_simps by blast
qed

lemma generate_fields:
  assumes "generate env i t k now cs ids template_id collection_id filters = Inr a"
  shows "da_tenant_id a = t \<and> da_artifact_id a = i \<and> da_status a = DsDRAFT \<and> da_created_by a = Some ByAI \<and>
    da_published_document_id a = None \<and> da_source_document_ids a = all_document_ids cs ids \<and>
    da_source_citations a = map citation_ref_of cs \<and> build_content env k t cs filters = Inr (da_content a)"
  using assms by (auto simp: generate_def rbind_Inr_iff)

lemma drafts_ok_create:
  assumes "drafts_ok s"
  shows "drafts_ok (fst (create_draft env p kind cs ids template_id collection_id filters s))"
proof (cases "coerce_kind kind")
  case (Inl e)
  with assms show ?thesis by (simp add: create_draft_def)
next
  case (Inr k)
  let ?i = "art_id (dr_next s)" and ?s = "s\<lparr>dr_next := Suc (dr_next s)\<rparr>"
  let ?g = "generate env ?i (id_tenant_id p) k (de_now env) (usable_citations env p cs) (usable_ids env p ids) template_id collection_id filters"
  have ok: "drafts_ok ?s" by (rule drafts_ok_mono [OF assms]) simp_all
  show ?thesis
  proof (cases ?g)
    case (Inl e)
    with Inr ok show ?thesis by (simp add: create_draft_def Let_def)
  next
    case (Inr a)
    let ?b = "a\<lparr>da_audit_log_ref := Some (generation_log_id a (de_now env))\<rparr>"
    obtain s1 r where rec: "recorded env (generation_entry a (id_user_id p) (de_now env)) ?s ?b = (s1, r)" by fastforce
    have f: "dr_store s1 = dr_store ?s" "dr_next s1 = dr_next ?s" "dr_ingested s1 = dr_ingested ?s"
      using recorded_frame [of env "generation_entry a (id_user_id p) (de_now env)" ?s ?b] unfolding rec by simp_all
    have ok1: "drafts_ok s1" using ok drafts_ok_cong [OF f] by simp
    have r: "r = Inr ?b \<or> raises r" using rec by (auto simp: recorded_def split: sum.splits)
    have new: "dget (dr_store s1) (id_tenant_id p, ?i) = None"
      using drafts_okD(4) [OF assms, of "id_tenant_id p" ?i] f by (cases "dget (dr_store s) (id_tenant_id p, ?i)") auto
    note g = generate_fields [OF Inr]
    have "drafts_ok (draft_save ?b s1)"
      by (rule drafts_ok_save [OF ok1, of "id_tenant_id p" ?i])
        (use new g f in \<open>simp_all add: artifact_ok_def\<close>)
    then show ?thesis
      using \<open>coerce_kind kind = Inr k\<close> Inr ok1 r rec by (cases r) (simp_all add: create_draft_def Let_def)
  qed
qed

lemma assign_artifact_ok:
  assumes "assign_artifact now x g r a = Inr b" and "artifact_ok a"
  shows "artifact_ok b \<and> da_published_document_id a = None \<and> da_published_document_id b = None \<and>
    da_tenant_id b = da_tenant_id a \<and> da_artifact_id b = da_artifact_id a"
  using assms by (auto simp: assign_artifact_def artifact_ok_def assign_sources_def split: if_splits)

lemma decide_cases:
  assumes "decide now reviewer decision comment a = Inr b"
  shows "da_status a \<in> {DsDRAFT, DsIN_REVIEW} \<and> da_tenant_id b = da_tenant_id a \<and> da_artifact_id b = da_artifact_id a \<and>
    da_published_document_id b = da_published_document_id a \<and> da_created_by b = da_created_by a \<and>
    da_audit_log_ref b = da_audit_log_ref a \<and> da_assigned_at b = da_assigned_at a \<and> da_reviewed_at b = Some now \<and>
    da_approval_decision b = Some decision \<and> da_content b = da_content a \<and>
    (decision = ''approved'' \<and> da_status b = DsAPPROVED \<and> da_status a = DsIN_REVIEW \<and>
       (\<exists>p. reviewer = Some p \<and> id_user_id p \<noteq> [] \<and> da_reviewer_id b = Some (id_user_id p)) \<or>
     decision \<noteq> ''approved'' \<and> da_status b \<in> {DsREJECTED, DsARCHIVED})"
proof -
  have known: "decision \<in> {''approved'', ''rejected'', ''archived''}"
    using assms by (simp add: decide_def split: if_splits)
  then consider "decision = ''approved''" | "decision = ''rejected''" | "decision = ''archived''" by blast
  then show ?thesis
  proof cases
    case 1
    with assms show ?thesis by (auto simp: decide_def decision_sources_def split: if_splits option.splits)
  next
    case 2
    with assms show ?thesis by (auto simp: decide_def decision_sources_def split: if_splits)
  next
    case 3
    with assms show ?thesis by (auto simp: decide_def decision_sources_def split: if_splits)
  qed
qed

lemma decide_ok:
  assumes "decide now reviewer decision comment a = Inr b" and "artifact_ok a"
  shows "artifact_ok b \<and> da_published_document_id a = None \<and> da_published_document_id b = None \<and>
    da_tenant_id b = da_tenant_id a \<and> da_artifact_id b = da_artifact_id a"
  using decide_cases [OF assms(1)] assms(2) unfolding artifact_ok_def human_approved_def
  by (elim conjE disjE) auto

lemma drafts_ok_replace:
  assumes "drafts_ok s" and "draft_require t i s = Inr a"
    and "artifact_ok a \<Longrightarrow> artifact_ok b \<and> da_published_document_id a = None \<and> da_published_document_id b = None \<and>
      da_tenant_id b = da_tenant_id a \<and> da_artifact_id b = da_artifact_id a"
  shows "drafts_ok (fst (recorded env e (draft_save b s) b))"
proof -
  have a: "dget (dr_store s) (t, i) = Some a"
    using assms(2) by (simp add: draft_require_def draft_get_def split: option.splits)
  note d = drafts_okD [OF assms(1) a]
  note b = assms(3) [OF d(3)]
  have key: "da_tenant_id b = t" "da_artifact_id b = i" and ok: "artifact_ok b"
    and none: "da_published_document_id b = None" "da_published_document_id a = None"
    using b d(1,2) by simp_all
  have "drafts_ok (draft_save b s)" by (rule drafts_ok_save [OF assms(1) disjI1 [OF a] key ok none])
  then show ?thesis by (simp only: drafts_ok_cong [OF recorded_frame])
qed

lemma drafts_ok_assign:
  assumes "drafts_ok s"
  shows "drafts_ok (fst (assign_draft env t i x g r s))"
proof (cases "rbind (draft_require t i s) (assign_artifact (de_now env) x g r)")
  case (Inl e)
  with assms show ?thesis by (simp add: assign_draft_def)
next
  case (Inr b)
  then obtain a where "draft_require t i s = Inr a" "assign_artifact (de_now env) x g r a = Inr b" by (auto simp: rbind_Inr_iff)
  from drafts_ok_replace [OF assms this(1) assign_artifact_ok [OF this(2)]] show ?thesis using Inr by (simp add: assign_draft_def)
qed

lemma drafts_ok_review:
  assumes "drafts_ok s"
  shows "drafts_ok (fst (review_draft env t i reviewer decision comment s))"
proof (cases "rbind (draft_require t i s) (decide (de_now env) reviewer decision comment)")
  case (Inl e)
  with assms show ?thesis by (simp add: review_draft_def)
next
  case (Inr b)
  then obtain a where "draft_require t i s = Inr a" "decide (de_now env) reviewer decision comment a = Inr b" by (auto simp: rbind_Inr_iff)
  from drafts_ok_replace [OF assms this(1) decide_ok [OF this(2)]] show ?thesis using Inr by (simp add: review_draft_def)
qed

lemma render_published [simp]: "render_draft_markdown (published_artifact env u a) = render_draft_markdown a"
  by (simp add: render_draft_markdown_def published_artifact_def Let_def)

lemma published_artifact_fields [simp]:
  "da_tenant_id (published_artifact env u a) = da_tenant_id a" "da_artifact_id (published_artifact env u a) = da_artifact_id a"
  "da_status (published_artifact env u a) = da_status a" "da_reviewer_id (published_artifact env u a) = da_reviewer_id a"
  "da_collection_id (published_artifact env u a) = da_collection_id a"
  "da_published_document_id (published_artifact env u a) = Some (''pub_'' @ da_artifact_id a)"
  "human_approved (published_artifact env u a) = human_approved a"
  by (simp_all add: published_artifact_def human_approved_def)

definition published_doc :: "draft_env \<Rightarrow> string \<Rightarrow> string \<Rightarrow> draft_artifact \<Rightarrow> string \<Rightarrow> ingested_draft" where
  "published_doc env t u a md =
     \<lparr>in_tenant_id = t, in_collection_id = da_collection_id a, in_document_id = ''pub_'' @ da_artifact_id a, in_text = md,
      in_metadata = published_metadata env t u a\<rparr>"

lemma publish_cases:
  assumes "publish_draft env t i actor s = (s', r)"
  shows "s' = s \<and> raises r \<or>
    (\<exists>p a md entry. actor = Some p \<and> id_user_id p \<noteq> [] \<and> draft_get t i s = Some a \<and>
       (da_published_document_id a = None \<or> da_published_document_id a = Some []) \<and> da_status a = DsAPPROVED \<and>
       render_draft_markdown a = Inr md \<and>
       (s', r) = recorded env entry (draft_save (published_artifact env (id_user_id p) a)
         (s\<lparr>dr_ingested := dr_ingested s @ [published_doc env t (id_user_id p) a md]\<rparr>)) (published_artifact env (id_user_id p) a))"
proof (cases "s' = s \<and> raises r")
  case False
  with assms obtain p where p: "actor = Some p" "id_user_id p \<noteq> []"
    by (auto simp: publish_draft_def split: option.splits if_splits)
  with assms False obtain a where a: "draft_get t i s = Some a"
    by (auto simp: publish_draft_def draft_require_def split: option.splits)
  then have req: "draft_require t i s = Inr a" by (simp add: draft_require_def)
  have st: "\<not> (case da_published_document_id a of Some (c # cs) \<Rightarrow> True | _ \<Rightarrow> False)" "da_status a = DsAPPROVED"
    using assms False p by (auto simp: publish_draft_def req split: if_splits)
  let ?ingest = "rbind (render_draft_markdown a) (\<lambda>md. let doc = published_doc env t (id_user_id p) a md
     in rbind (de_ingest env doc) (\<lambda>_. Inr doc))"
  have pub: "publish_draft env t i actor s = (case ?ingest of
        Inl e \<Rightarrow> (s, Inl e)
      | Inr doc \<Rightarrow>
          (let a = published_artifact env (id_user_id p) a; s = draft_save a (s\<lparr>dr_ingested := dr_ingested s @ [doc]\<rparr>)
           in recorded env (publish_entry a (id_user_id p) (de_now env)) s a))"
    unfolding publish_draft_def p(1) option.case req sum.case published_doc_def using p(2) st by simp
  obtain doc where doc: "?ingest = Inr doc" using pub assms False by (cases ?ingest) auto
  then obtain md where md: "render_draft_markdown a = Inr md" "doc = published_doc env t (id_user_id p) a md"
    by (auto simp: rbind_Inr_iff Let_def)
  have none: "da_published_document_id a = None \<or> da_published_document_id a = Some []"
    using st(1) by (auto split: option.splits list.splits)
  have "(s', r) = recorded env (publish_entry (published_artifact env (id_user_id p) a) (id_user_id p) (de_now env))
      (draft_save (published_artifact env (id_user_id p) a) (s\<lparr>dr_ingested := dr_ingested s @ [doc]\<rparr>)) (published_artifact env (id_user_id p) a)"
    using assms pub doc by (simp add: Let_def)
  with p a none st(2) md show ?thesis by blast
qed simp

lemma drafts_ok_publish:
  assumes ok: "drafts_ok s"
  shows "drafts_ok (fst (publish_draft env t i actor s))"
proof -
  obtain s' r where p: "publish_draft env t i actor s = (s', r)" by fastforce
  show ?thesis
  proof (cases "s' = s")
    case True
    with ok p show ?thesis by simp
  next
    case False
    with publish_cases [OF p] obtain u a md entry where a: "draft_get t i s = Some a" and u: "u \<noteq> []"
      and none: "da_published_document_id a = None \<or> da_published_document_id a = Some []" and st: "da_status a = DsAPPROVED"
      and md: "render_draft_markdown a = Inr md"
      and rec: "(s', r) = recorded env entry (draft_save (published_artifact env u a)
         (s\<lparr>dr_ingested := dr_ingested s @ [published_doc env t u a md]\<rparr>)) (published_artifact env u a)" by blast
    let ?a = "published_artifact env u a" and ?doc = "published_doc env t u a md"
    let ?s = "draft_save ?a (s\<lparr>dr_ingested := dr_ingested s @ [?doc]\<rparr>)"
    from a have a': "dget (dr_store s) (t, i) = Some a" by (simp add: draft_get_def)
    note old = drafts_okD [OF ok a']
    have a_none: "da_published_document_id a = None"
      using none old(3) by (auto simp: artifact_ok_def)
    have human: "human_approved a" using old(3) st by (simp add: artifact_ok_def)
    have new_ok: "artifact_ok ?a"
      using old(3) st u human by (auto simp: artifact_ok_def published_artifact_def human_approved_def)
    have new_pub: "published_as ?a ?doc"
      using human md old(1,2)
      by (auto simp: published_as_def published_doc_def published_metadata_def new_metadata_def human_approved_def split: list.splits)
    have get: "dget (dr_store ?s) k = (if k = (t, i) then Some ?a else dget (dr_store s) k)" for k
      using old(1,2) by (simp add: dget_draft_save)
    have ing: "dr_ingested ?s = dr_ingested s @ [?doc]" "dr_next ?s = dr_next s" by (simp_all add: frame_simps)
    have other: "\<exists>k c. k \<noteq> (t, i) \<and> dget (dr_store s) k = Some c \<and> published_as c doc" if "doc \<in> set (dr_ingested s)" for doc
    proof -
      from drafts_ok_published [OF ok that] obtain k c where c: "dget (dr_store s) k = Some c" "published_as c doc" by blast
      then have "k \<noteq> (t, i)" using a' a_none published_asD [OF c(2)] by auto
      with c show ?thesis by blast
    qed
    have fresh: "(in_tenant_id doc, in_document_id doc) \<noteq> (in_tenant_id ?doc, in_document_id ?doc)"
      if doc: "doc \<in> set (dr_ingested s)" for doc
    proof
      assume same: "(in_tenant_id doc, in_document_id doc) = (in_tenant_id ?doc, in_document_id ?doc)"
      from other [OF doc] obtain k c where c: "k \<noteq> (t, i)" "dget (dr_store s) k = Some c" "published_as c doc" by blast
      have ids: "da_tenant_id c = fst k" "da_artifact_id c = snd k" "artifact_ok c"
        using drafts_okD [OF ok, of "fst k" "snd k" c] c(2) by simp_all
      then have "k = (t, i)"
        using c(3) same old(1,2) by (cases k) (auto simp: published_as_def published_doc_def artifact_ok_def)
      with c(1) show False by simp
    qed
    have "drafts_ok ?s"
      unfolding drafts_ok_def ing
    proof (intro conjI allI impI ballI)
      show "wf_dict (dr_store ?s)" using ok by (simp add: drafts_ok_def draft_save_def wf_dict_dset)
      show "distinct (map (\<lambda>d. (in_tenant_id d, in_document_id d)) (dr_ingested s @ [?doc]))"
      proof -
        have "(in_tenant_id ?doc, in_document_id ?doc) \<notin> (\<lambda>d. (in_tenant_id d, in_document_id d)) ` set (dr_ingested s)"
          by (rule not_in_imageI) (use fresh in blast)
        moreover have "distinct (map (\<lambda>d. (in_tenant_id d, in_document_id d)) (dr_ingested s))"
          using ok by (simp only: drafts_ok_def)
        ultimately show ?thesis by simp
      qed
    next
      fix doc assume "doc \<in> set (dr_ingested s @ [?doc])"
      then consider "doc \<in> set (dr_ingested s)" | "doc = ?doc" by auto
      then show "\<exists>k c. dget (dr_store ?s) k = Some c \<and> published_as c doc"
      proof cases
        case 1
        with other get show ?thesis by metis
      next
        case 2
        have "dget (dr_store ?s) (t, i) = Some ?a" unfolding get by simp
        with new_pub 2 show ?thesis by blast
      qed
    next
      fix k c assume c: "dget (dr_store ?s) k = Some c" "da_published_document_id c \<noteq> None"
      show "\<exists>doc\<in>set (dr_ingested s @ [?doc]). published_as c doc"
      proof (cases "k = (t, i)")
        case True
        with c(1) get new_pub show ?thesis by simp
      next
        case False
        with c get have "dget (dr_store s) k = Some c" by simp
        with ok c(2) have "\<exists>doc\<in>set (dr_ingested s). published_as c doc" unfolding drafts_ok_def by blast
        then show ?thesis by auto
      qed
    next
      fix k c assume c: "dget (dr_store ?s) k = Some c"
      have d: "k = (da_tenant_id c, da_artifact_id c) \<and> artifact_ok c \<and> (\<exists>n<dr_next s. da_artifact_id c = art_id n)"
      proof (cases "k = (t, i)")
        case True
        with c get have "c = ?a" by simp
        with True old new_ok show ?thesis by simp
      next
        case False
        with c get have "dget (dr_store s) k = Some c" by simp
        with ok show ?thesis unfolding drafts_ok_def by blast
      qed
      then show "k = (da_tenant_id c, da_artifact_id c)" "artifact_ok c" "\<exists>n<dr_next s. da_artifact_id c = art_id n" by blast+
    qed
    then have "drafts_ok (fst (recorded env entry ?s ?a))" by (simp only: drafts_ok_cong [OF recorded_frame])
    moreover have "fst (publish_draft env t i actor s) = fst (recorded env entry ?s ?a)" using p rec by (metis fst_conv)
    ultimately show ?thesis by simp
  qed
qed

lemma drafts_ok_step: "draft_step s s' \<Longrightarrow> drafts_ok s \<Longrightarrow> drafts_ok s'"
  by (elim draft_stepE) (simp_all only: drafts_ok_create drafts_ok_assign drafts_ok_review drafts_ok_publish)

lemma drafts_ok_reachable: "draft_reachable s \<Longrightarrow> drafts_ok s"
proof (induction rule: draft_reachable.induct)
  case draft_init
  show ?case by (simp add: drafts_ok_def new_drafts_def)
qed (rule drafts_ok_step)

section \<open>Approval\<close>

lemma create_keeps:
  assumes "drafts_ok s" and "draft_get t i s = Some a"
  shows "draft_get t i (fst (create_draft env p kind cs ids template_id collection_id filters s)) = Some a"
proof -
  let ?s = "s\<lparr>dr_next := Suc (dr_next s)\<rparr>"
  have old: "dget (dr_store s) (t, i) = Some a" using assms(2) by (simp add: draft_get_def)
  have "i \<noteq> art_id (dr_next s)" using drafts_okD(4) [OF assms(1) old] by auto
  moreover have "dr_store (fst (create_draft env p kind cs ids template_id collection_id filters s)) = dr_store s \<or>
    (\<exists>b. da_artifact_id b = art_id (dr_next s) \<and>
      dr_store (fst (create_draft env p kind cs ids template_id collection_id filters s)) = dr_store (draft_save b s))"
  proof (cases "coerce_kind kind")
    case (Inr k)
    let ?g = "generate env (art_id (dr_next s)) (id_tenant_id p) k (de_now env) (usable_citations env p cs) (usable_ids env p ids)
       template_id collection_id filters"
    show ?thesis
    proof (cases ?g)
      case (Inr c)
      let ?b = "c\<lparr>da_audit_log_ref := Some (generation_log_id c (de_now env))\<rparr>"
      obtain s1 r where rec: "recorded env (generation_entry c (id_user_id p) (de_now env)) ?s ?b = (s1, r)" by fastforce
      have "dr_store s1 = dr_store s"
        using recorded_frame(1) [of env "generation_entry c (id_user_id p) (de_now env)" ?s ?b] rec by simp
      moreover have "r = Inr ?b \<or> raises r" using rec by (auto simp: recorded_def split: sum.splits)
      moreover have "da_artifact_id ?b = art_id (dr_next s)" using generate_fields [OF Inr] by simp
      moreover have "fst (create_draft env p kind cs ids template_id collection_id filters s) = (if raises r then s1 else draft_save ?b s1)"
        using \<open>coerce_kind kind = Inr k\<close> Inr rec calculation(2) by (cases r) (simp_all add: create_draft_def Let_def)
      ultimately show ?thesis
        by (cases "raises r") (simp, intro disjI2 exI [of _ ?b], simp add: draft_save_def)
    qed (simp add: create_draft_def Inr Let_def)
  qed (simp add: create_draft_def)
  ultimately show ?thesis using old by (auto simp: draft_get_def dget_draft_save)
qed

lemma recorded_get [simp]: "draft_get t i (fst (recorded env e s a)) = draft_get t i s"
  by (simp add: draft_get_def frame_simps)

text \<open>C11: Only a person approves: in every reachable state, a draft that was not approved and is approved after a step
  was in review, and the step was a review with the decision "approved" by a reviewer with a user id; no creation,
  assignment or publication approves anything, and an approved draft stays authored by the AI and attributed to
  its reviewer.\<close>

theorem only_people_approve:
  assumes "draft_reachable s" and "draft_step s s'" and "draft_get t i s = Some a" and "draft_get t i s' = Some b"
    and "da_status a \<noteq> DsAPPROVED" and "da_status b = DsAPPROVED"
  shows "\<exists>env p comment. s' = fst (review_draft env t i (Some p) ''approved'' comment s) \<and> id_user_id p \<noteq> [] \<and>
    da_status a = DsIN_REVIEW \<and> da_reviewer_id b = Some (id_user_id p) \<and> da_created_by b = Some ByAI"
  using assms(2)
proof cases
  case (draft_step_create env p kind cs ids template_id collection_id filters)
  with create_keeps [OF drafts_ok_reachable [OF assms(1)] assms(3)] assms(4-6) show ?thesis by simp
next
  case (draft_step_assign env u j x g r)
  show ?thesis
  proof (cases "rbind (draft_require u j s) (assign_artifact (de_now env) x g r)")
    case (Inl e)
    with draft_step_assign assms show ?thesis by (simp add: assign_draft_def)
  next
    case (Inr c)
    then have "da_status c = DsIN_REVIEW" by (auto simp: rbind_Inr_iff assign_artifact_def split: if_splits)
    moreover have "draft_get t i s' = draft_get t i (draft_save c s)" using draft_step_assign Inr by (simp add: assign_draft_def)
    ultimately show ?thesis using assms(3-6) by (auto simp: draft_get_def dget_draft_save split: if_splits)
  qed
next
  case (draft_step_review env u j reviewer decision comment)
  show ?thesis
  proof (cases "rbind (draft_require u j s) (decide (de_now env) reviewer decision comment)")
    case (Inl e)
    with draft_step_review assms show ?thesis by (simp add: review_draft_def)
  next
    case (Inr c)
    then obtain d where d: "draft_get u j s = Some d" "decide (de_now env) reviewer decision comment d = Inr c"
      by (auto simp: rbind_Inr_iff draft_require_def split: option.splits)
    have ok: "da_tenant_id d = u" "da_artifact_id d = j" "artifact_ok d"
      using drafts_okD [OF drafts_ok_reachable [OF assms(1)], of u j d] d(1) by (simp_all add: draft_get_def)
    note dec = decide_cases [OF d(2)]
    have get: "draft_get t i s' = (if (t, i) = (u, j) then Some c else draft_get t i s)"
    proof -
      have "\<exists>e. s' = fst (recorded env e (draft_save c s) c)"
        unfolding draft_step_review(1) review_draft_def Inr sum.case by blast
      moreover have "da_tenant_id c = u" "da_artifact_id c = j" using dec ok(1,2) by simp_all
      ultimately show ?thesis by (auto simp: draft_get_def frame_simps dget_draft_save)
    qed
    have same: "(t, i) = (u, j)" "c = b" "d = a"
    proof -
      show "(t, i) = (u, j)"
      proof (rule ccontr)
        assume "(t, i) \<noteq> (u, j)"
        then have "draft_get t i s' = draft_get t i s" using get by (simp only: if_False)
        with assms(3-6) show False by simp
      qed
      then show "c = b" "d = a" using get assms(3,4) d(1) by simp_all
    qed
    have appr: "decision = ''approved''"
    proof (rule ccontr)
      assume "decision \<noteq> ''approved''"
      then have "da_status c \<in> {DsREJECTED, DsARCHIVED}" using dec by blast
      with same assms(6) show False by auto
    qed
    from dec appr obtain p where p: "reviewer = Some p" "id_user_id p \<noteq> []" "da_reviewer_id c = Some (id_user_id p)"
        "da_status d = DsIN_REVIEW" by blast
    moreover have "da_created_by c = Some ByAI" using dec ok(3) by (simp add: artifact_ok_def)
    ultimately show ?thesis using draft_step_review same appr by (intro exI [of _ env] exI [of _ p] exI [of _ comment]) simp
  qed
next
  case (draft_step_publish env u j actor)
  obtain s2 r where p: "publish_draft env u j actor s = (s2, r)" by fastforce
  with draft_step_publish have "s2 = s'" by simp
  show ?thesis
  proof (cases "s' = s")
    case True
    with assms show ?thesis by simp
  next
    case False
    with publish_cases [OF p] \<open>s2 = s'\<close> obtain w c md entry where c: "draft_get u j s = Some c" "da_status c = DsAPPROVED"
      and rec: "(s', r) = recorded env entry (draft_save (published_artifact env w c)
         (s\<lparr>dr_ingested := dr_ingested s @ [published_doc env u w c md]\<rparr>)) (published_artifact env w c)" by blast
    have ids: "da_tenant_id c = u" "da_artifact_id c = j"
      using drafts_okD [OF drafts_ok_reachable [OF assms(1)], of u j c] c(1) by (simp_all add: draft_get_def)
    have "s' = fst (recorded env entry (draft_save (published_artifact env w c)
         (s\<lparr>dr_ingested := dr_ingested s @ [published_doc env u w c md]\<rparr>)) (published_artifact env w c))"
      using rec by (metis fst_conv)
    then have "draft_get t i s' = (if (t, i) = (u, j) then Some (published_artifact env w c) else draft_get t i s)"
      using ids by (simp add: draft_get_def frame_simps dget_draft_save)
    moreover have "draft_get t i s' \<noteq> draft_get t i s" using assms(3-6) by auto
    ultimately have "(t, i) = (u, j)" "draft_get t i s' = Some (published_artifact env w c)" by (metis (full_types))+
    with assms(3-6) c show ?thesis by simp
  qed
qed

text \<open>C29: What is published is what a person approved, once: in every reachable state the documents handed to ingestion
  have distinct tenant and document ids, each one is the rendering of a stored, human-approved draft with
  approved metadata in the name of its reviewer, and every draft marked as published has its document there.\<close>

theorem published_is_approved:
  assumes "draft_reachable s"
  shows "distinct (map (\<lambda>d. (in_tenant_id d, in_document_id d)) (dr_ingested s)) \<and>
    (\<forall>doc\<in>set (dr_ingested s). \<exists>i a. draft_get (in_tenant_id doc) i s = Some a \<and> published_as a doc \<and> human_approved a) \<and>
    (\<forall>t i a. draft_get t i s = Some a \<longrightarrow> da_published_document_id a \<noteq> None \<longrightarrow> (\<exists>doc\<in>set (dr_ingested s). published_as a doc))"
proof -
  note ok = drafts_ok_reachable [OF assms]
  have "\<exists>i a. draft_get (in_tenant_id doc) i s = Some a \<and> published_as a doc \<and> human_approved a" if "doc \<in> set (dr_ingested s)" for doc
  proof -
    from drafts_ok_published [OF ok that] obtain t i a where a: "dget (dr_store s) (t, i) = Some a" "published_as a doc" by fastforce
    note f = drafts_okD [OF ok a(1)]
    have "in_tenant_id doc = t" using a(2) f(1) by (simp add: published_as_def)
    moreover have "human_approved a" using f(3) published_asD [OF a(2)] by (auto simp: artifact_ok_def)
    ultimately show ?thesis using a by (auto simp: draft_get_def)
  qed
  then show ?thesis using ok unfolding drafts_ok_def draft_get_def by blast
qed

section \<open>The provenance of a draft\<close>

lemma rbind_recorded: "recorded env e s a = (s', Inr b) \<Longrightarrow> b = a"
  by (auto simp: recorded_def split: sum.splits)

lemma create_draft_Inr:
  assumes "create_draft env p kind cs ids template_id collection_id filters s = (s', Inr a)"
  obtains k b where "coerce_kind kind = Inr k"
    "generate env (art_id (dr_next s)) (id_tenant_id p) k (de_now env) (usable_citations env p cs) (usable_ids env p ids)
       template_id collection_id filters = Inr b"
    "a = b\<lparr>da_audit_log_ref := Some (generation_log_id b (de_now env))\<rparr>"
    "draft_get (id_tenant_id p) (art_id (dr_next s)) s' = Some a"
proof (cases "coerce_kind kind")
  case (Inr k)
  let ?g = "generate env (art_id (dr_next s)) (id_tenant_id p) k (de_now env) (usable_citations env p cs) (usable_ids env p ids)
       template_id collection_id filters"
  show ?thesis
  proof (cases ?g)
    case (Inl e)
    with assms Inr show ?thesis by (simp add: create_draft_def Let_def)
  next
    case b: (Inr b)
    let ?b = "b\<lparr>da_audit_log_ref := Some (generation_log_id b (de_now env))\<rparr>"
    obtain s1 r where rec: "recorded env (generation_entry b (id_user_id p) (de_now env)) (s\<lparr>dr_next := Suc (dr_next s)\<rparr>) ?b = (s1, r)"
      by fastforce
    show ?thesis
    proof (cases r)
      case r: (Inl e)
      have "create_draft env p kind cs ids template_id collection_id filters s = (s1, Inl e)"
        unfolding create_draft_def Inr Let_def sum.case b rec prod.case r by (rule refl)
      with assms show ?thesis by (metis prod.inject sum.distinct(1))
    next
      case r: (Inr c)
      have c: "c = ?b" by (rule rbind_recorded [OF rec [unfolded r]])
      have "create_draft env p kind cs ids template_id collection_id filters s = (draft_save ?b s1, Inr ?b)"
        unfolding create_draft_def Inr Let_def sum.case b rec prod.case r c by (rule refl)
      then have a: "a = ?b" "s' = draft_save ?b s1" using assms by (metis prod.inject sum.inject(2))+
      have "da_tenant_id ?b = id_tenant_id p" "da_artifact_id ?b = art_id (dr_next s)" using generate_fields [OF b] by simp_all
      with a have "draft_get (id_tenant_id p) (art_id (dr_next s)) s' = Some a"
        by (simp add: draft_get_def dget_draft_save)
      with that Inr b a(1) show ?thesis by blast
    qed
  qed
qed (use assms in \<open>simp add: create_draft_def\<close>)

lemma create_other:
  assumes "create_draft env p kind cs ids template_id collection_id filters s = (s', Inr a)"
    and "k \<noteq> (id_tenant_id p, art_id (dr_next s))"
  shows "dget (dr_store s') k = dget (dr_store s) k"
proof (cases "coerce_kind kind")
  case (Inr kd)
  let ?g = "generate env (art_id (dr_next s)) (id_tenant_id p) kd (de_now env) (usable_citations env p cs) (usable_ids env p ids)
       template_id collection_id filters"
  show ?thesis
  proof (cases ?g)
    case (Inl e)
    with assms(1) Inr show ?thesis by (simp add: create_draft_def Let_def)
  next
    case b: (Inr b)
    let ?b = "b\<lparr>da_audit_log_ref := Some (generation_log_id b (de_now env))\<rparr>"
    obtain s1 r where rec: "recorded env (generation_entry b (id_user_id p) (de_now env)) (s\<lparr>dr_next := Suc (dr_next s)\<rparr>) ?b = (s1, r)"
      by fastforce
    have st: "dr_store s1 = dr_store s"
      using recorded_frame(1) [of env "generation_entry b (id_user_id p) (de_now env)" "s\<lparr>dr_next := Suc (dr_next s)\<rparr>" ?b]
      unfolding rec by simp
    have cr: "create_draft env p kind cs ids template_id collection_id filters s =
        (case r of Inl e \<Rightarrow> (s1, Inl e) | Inr a \<Rightarrow> (draft_save a s1, Inr a))"
      unfolding create_draft_def Inr Let_def sum.case b rec prod.case by (rule refl)
    show ?thesis
    proof (cases r)
      case r: (Inr c)
      have c: "c = ?b" by (rule rbind_recorded [OF rec [unfolded r]])
      have s': "s' = draft_save c s1" using assms(1) cr unfolding r sum.case by (metis prod.inject)
      have "da_tenant_id c = id_tenant_id p" "da_artifact_id c = art_id (dr_next s)" unfolding c using generate_fields [OF b] by simp_all
      with assms(2) st show ?thesis by (simp add: s' dget_draft_save)
    qed (use assms(1) cr in simp)
  qed
qed (use assms(1) in \<open>simp add: create_draft_def\<close>)

lemma draft_provenance_facts:
  assumes "create_draft env p kind cs ids template_id collection_id filters s = (s', Inr a)"
  shows "da_status a = DsDRAFT \<and> da_created_by a = Some ByAI \<and> da_published_document_id a = None"
proof -
  from create_draft_Inr [OF assms] obtain k b where
    "generate env (art_id (dr_next s)) (id_tenant_id p) k (de_now env) (usable_citations env p cs) (usable_ids env p ids)
       template_id collection_id filters = Inr b"
    and a: "a = b\<lparr>da_audit_log_ref := Some (generation_log_id b (de_now env))\<rparr>" by metis
  from generate_fields [OF this(1)] show ?thesis by (simp add: a)
qed

lemma set_dedup_foldl:
  "set (foldl (\<lambda>seen d. if f d \<noteq> [] \<and> f d \<notin> set seen then seen @ [f d] else seen) acc ds) = set acc \<union> (f ` set ds - {[]})"
  by (induction ds arbitrary: acc) auto

lemma distinct_dedup_foldl:
  "distinct acc \<Longrightarrow> distinct (foldl (\<lambda>seen d. if f d \<noteq> [] \<and> f d \<notin> set seen then seen @ [f d] else seen) acc ds)"
  by (induction ds arbitrary: acc) auto

lemma all_document_ids_set:
  "set (all_document_ids cs ids) = (ci_document_id ` set cs \<union> set ids) - {[]}" "distinct (all_document_ids cs ids)"
proof -
  have "set (citation_doc_ids cs) = ci_document_id ` set cs - {[]}" "distinct (citation_doc_ids cs)"
    using set_dedup_foldl [of ci_document_id "[]" cs] distinct_dedup_foldl [of "[]" ci_document_id cs]
    by (simp_all only: citation_doc_ids_def) simp_all
  then show "set (all_document_ids cs ids) = (ci_document_id ` set cs \<union> set ids) - {[]}" "distinct (all_document_ids cs ids)"
    using set_dedup_foldl [of "\<lambda>d. d" "citation_doc_ids cs" ids] distinct_dedup_foldl [of "citation_doc_ids cs" "\<lambda>d. d" ids]
    by (simp_all only: all_document_ids_def) auto
qed

lemma any_approved_effective_True:
  "any_approved_effective get today t cs = Inr True \<Longrightarrow>
    \<exists>c\<in>set cs. \<exists>meta. get t (ci_document_id c) = Inr meta \<and> is_approved_effective meta today"
  by (induction cs) (auto simp: rbind_Inr_iff split: if_splits)

text \<open>The item a draft states as confirmed.\<close>

definition confirmed_item :: "pyval \<Rightarrow> bool" where
  "confirmed_item v = (case v of PDict d \<Rightarrow> py_truthy (py_get d ''confirmed'') | _ \<Rightarrow> False)"

lemma confirmed_items [simp]: "\<not> confirmed_item (unconfirmed_item t)" "confirmed_item (safety_item b t) = b"
  by (simp_all add: confirmed_item_def unconfirmed_item_def safety_item_def py_get_def)

definition draft_items :: "draft_artifact \<Rightarrow> pyval list" where
  "draft_items a = (case py_get (da_content a) ''items'' of PList vs \<Rightarrow> vs | _ \<Rightarrow> [])"

lemma build_content_shape:
  assumes "build_content env kind t cs filters = Inr c"
  obtains us backed ss where
    "c = [(''kind'', PStr (draft_type_value kind)), (''notice'', PStr draft_notice),
            (''evidence_citations'', PList (map (\<lambda>c. PStr (citation_ref_of c)) cs)),
            (''items'', PList (map unconfirmed_item us @ map (safety_item backed) ss))]"
    "ss = [] \<or> has_approved_effective_evidence env t cs = Inr backed"
proof -
  from assms obtain us ss where us: "tuple_of (py_get filters ''unconfirmed_items'') = Inr us"
    and ss: "(if py_truthy (py_get filters ''safety_items'')
            then rbind (has_approved_effective_evidence env t cs) (\<lambda>backed.
                 rbind (py_iter (py_get filters ''safety_items'')) (\<lambda>texts.
                   Inr (map (safety_item backed) texts)))
            else Inr []) = Inr ss"
    and c: "c = [(''kind'', PStr (draft_type_value kind)), (''notice'', PStr draft_notice),
            (''evidence_citations'', PList (map (\<lambda>c. PStr (citation_ref_of c)) cs)),
            (''items'', PList (map unconfirmed_item us @ ss))]"
    by (auto simp: build_content_def rbind_Inr_iff)
  from ss have "(\<exists>backed xs. ss = map (safety_item backed) xs \<and> (xs = [] \<or> has_approved_effective_evidence env t cs = Inr backed))"
    by (fastforce simp: rbind_Inr_iff split: if_splits)
  with c that show ?thesis by blast
qed

text \<open>C30: A draft says what its sources support: a created draft is a stored AI draft whose source ids are distinct, not
  empty and usable by its author, whose citations come from usable documents, and it holds an item as confirmed
  only when a usable cited document has approved, effective metadata.\<close>

theorem draft_provenance:
  assumes "create_draft env p kind cs ids template_id collection_id filters s = (s', Inr a)"
    and "de_can_use_source env = Some can_use" and "de_get_mfg_meta env = Some get_meta"
  shows "draft_get (id_tenant_id p) (da_artifact_id a) s' = Some a \<and> da_status a = DsDRAFT \<and> da_created_by a = Some ByAI \<and>
    distinct (da_source_document_ids a) \<and>
    set (da_source_document_ids a) = {d \<in> ci_document_id ` set cs \<union> set ids. d \<noteq> [] \<and> can_use p d} \<and>
    da_source_citations a = map citation_ref_of (filter (\<lambda>c. can_use p (ci_document_id c)) cs) \<and>
    (\<forall>v\<in>set (draft_items a). confirmed_item v \<longrightarrow>
      (\<exists>c\<in>set cs. can_use p (ci_document_id c) \<and>
        (\<exists>meta. get_meta (id_tenant_id p) (ci_document_id c) = Inr meta \<and> is_approved_effective meta (de_today env))))"
proof -
  let ?cs = "filter (\<lambda>c. can_use p (ci_document_id c)) cs"
  from assms(2) have use: "usable_citations env p cs = ?cs" "usable_ids env p ids = filter (can_use p) ids"
    by (simp_all add: usable_citations_def usable_ids_def)
  from create_draft_Inr [OF assms(1)] obtain k b where
    g: "generate env (art_id (dr_next s)) (id_tenant_id p) k (de_now env) ?cs (filter (can_use p) ids) template_id collection_id filters = Inr b"
    and a: "a = b\<lparr>da_audit_log_ref := Some (generation_log_id b (de_now env))\<rparr>"
    and st: "draft_get (id_tenant_id p) (art_id (dr_next s)) s' = Some a" unfolding use by metis
  note f = generate_fields [OF g]
  have ids: "da_source_document_ids a = all_document_ids ?cs (filter (can_use p) ids)" using f a by simp
  have confirmed: "\<exists>c\<in>set cs. can_use p (ci_document_id c) \<and>
        (\<exists>meta. get_meta (id_tenant_id p) (ci_document_id c) = Inr meta \<and> is_approved_effective meta (de_today env))"
    if v: "v \<in> set (draft_items a)" "confirmed_item v" for v
  proof -
    from f have "build_content env k (id_tenant_id p) ?cs filters = Inr (da_content b)" by blast
    then obtain us backed ss where c: "draft_items a = map unconfirmed_item us @ map (safety_item backed) ss"
      and backed: "ss = [] \<or> has_approved_effective_evidence env (id_tenant_id p) ?cs = Inr backed"
    proof (rule build_content_shape)
      fix us backed ss assume c: "da_content b = [(''kind'', PStr (draft_type_value k)), (''notice'', PStr draft_notice),
            (''evidence_citations'', PList (map (\<lambda>c. PStr (citation_ref_of c)) ?cs)),
            (''items'', PList (map unconfirmed_item us @ map (safety_item backed) ss))]"
        and backed: "ss = [] \<or> has_approved_effective_evidence env (id_tenant_id p) ?cs = Inr backed"
      have "draft_items a = map unconfirmed_item us @ map (safety_item backed) ss" by (simp add: draft_items_def a c py_get_def)
      with that backed show thesis by blast
    qed
    from v c have "backed" "ss \<noteq> []" by auto
    with backed assms(3) have "any_approved_effective get_meta (de_today env) (id_tenant_id p) ?cs = Inr True"
      by (simp add: has_approved_effective_evidence_def)
    from any_approved_effective_True [OF this] show ?thesis by auto
  qed
  have "distinct (da_source_document_ids a)" unfolding ids by (rule all_document_ids_set(2))
  moreover have "set (da_source_document_ids a) = {d \<in> ci_document_id ` set cs \<union> set ids. d \<noteq> [] \<and> can_use p d}"
    unfolding ids all_document_ids_set(1) by auto
  moreover have "draft_get (id_tenant_id p) (da_artifact_id a) s' = Some a" using st f a by simp
  moreover have "da_status a = DsDRAFT" "da_created_by a = Some ByAI" "da_source_citations a = map citation_ref_of ?cs"
    using f a by simp_all
  ultimately show ?thesis using confirmed by blast
qed

section \<open>The shape of a draft's content\<close>

definition typed_item :: "pyval \<Rightarrow> bool" where
  "typed_item v =
     (case v of
        PDict d \<Rightarrow>
          distinct (map fst d) \<and>
          (dget d ''kind'' = Some (PStr ''unconfirmed'') \<and> dget d ''confirmed'' = Some (PBool False) \<or>
           dget d ''kind'' = Some (PStr ''safety'') \<and> dget d ''confirmed'' \<in> {Some (PBool True), Some (PBool False)}) \<and>
          (if dget d ''confirmed'' = Some (PBool True) then dget d ''status'' = None
           else dget d ''status'' = Some (PStr unconfirmed_status)) \<and>
          dget d ''text'' \<noteq> None
      | _ \<Rightarrow> False)"

definition typed_content :: "pydict \<Rightarrow> bool" where
  "typed_content d \<longleftrightarrow>
     map fst d = [''kind'', ''notice'', ''evidence_citations'', ''items''] \<and>
     (\<exists>k. dget d ''kind'' = Some (PStr (draft_type_value k))) \<and> dget d ''notice'' = Some (PStr draft_notice) \<and>
     (\<exists>refs. dget d ''evidence_citations'' = Some (PList (map PStr refs))) \<and>
     (\<exists>vs. dget d ''items'' = Some (PList vs) \<and> (\<forall>v\<in>set vs. typed_item v))"

lemma typed_generated: "typed_item (unconfirmed_item t)" "typed_item (safety_item b t)"
  by (simp_all add: typed_item_def unconfirmed_item_def safety_item_def)

lemma typed_build_content:
  assumes "build_content env kind t cs filters = Inr c"
  shows "typed_content c"
  using assms
proof (rule build_content_shape)
  fix us backed ss assume c: "c = [(''kind'', PStr (draft_type_value kind)), (''notice'', PStr draft_notice),
            (''evidence_citations'', PList (map (\<lambda>c. PStr (citation_ref_of c)) cs)),
            (''items'', PList (map unconfirmed_item us @ map (safety_item backed) ss))]"
  have "\<exists>refs. map (\<lambda>c. PStr (citation_ref_of c)) cs = map PStr refs" by (rule exI [of _ "map citation_ref_of cs"]) simp
  moreover have "\<forall>v\<in>set (map unconfirmed_item us @ map (safety_item backed) ss). typed_item v" by (auto simp: typed_generated)
  ultimately show ?thesis by (auto simp: typed_content_def c)
qed

lemma content_saved:
  assumes "dget (dr_store s) j = Some a" "da_content c = da_content a" "dr_store s' = dr_store (draft_save c s)"
    and "dget (dr_store s') k = Some b"
  shows "\<exists>j a. dget (dr_store s) j = Some a \<and> da_content b = da_content a"
proof (cases "k = (da_tenant_id c, da_artifact_id c)")
  case True
  with assms have "b = c" by (simp add: dget_draft_save)
  with assms(1,2) show ?thesis by metis
next
  case False
  with assms(3,4) have "dget (dr_store s) k = Some b" by (simp only: dget_draft_save if_False)
  then show ?thesis by metis
qed

lemma draft_step_content:
  assumes "draft_step s s'" and "drafts_ok s" and "dget (dr_store s') k = Some b"
  shows "(\<exists>j a. dget (dr_store s) j = Some a \<and> da_content b = da_content a) \<or> typed_content (da_content b)"
  using assms(1)
proof cases
  case (draft_step_create env p kind cs ids template_id collection_id filters)
  show ?thesis
  proof (cases "snd (create_draft env p kind cs ids template_id collection_id filters s)")
    case (Inl e)
    then have "dr_store s' = dr_store s"
      unfolding draft_step_create create_draft_def
      by (auto simp: Let_def recorded_def split: sum.splits prod.splits)
    with assms(3) show ?thesis by metis
  next
    case (Inr a)
    then have c: "create_draft env p kind cs ids template_id collection_id filters s = (s', Inr a)"
      using draft_step_create by (cases "create_draft env p kind cs ids template_id collection_id filters s") simp
    from create_draft_Inr [OF c] obtain kd g where
      g: "generate env (art_id (dr_next s)) (id_tenant_id p) kd (de_now env) (usable_citations env p cs) (usable_ids env p ids)
         template_id collection_id filters = Inr g"
      and a: "a = g\<lparr>da_audit_log_ref := Some (generation_log_id g (de_now env))\<rparr>" by metis
    have typed: "typed_content (da_content a)" using generate_fields [OF g] typed_build_content a by auto
    show ?thesis
    proof (cases "k = (id_tenant_id p, art_id (dr_next s))")
      case True
      have "draft_get (id_tenant_id p) (art_id (dr_next s)) s' = Some a" using create_draft_Inr [OF c] by metis
      with True assms(3) typed show ?thesis by (simp add: draft_get_def)
    next
      case False
      have "dget (dr_store s') k = dget (dr_store s) k"
        using create_other [OF c False] .
      with assms(3) show ?thesis by metis
    qed
  qed
next
  case (draft_step_assign env u j x g r)
  show ?thesis
  proof (cases "rbind (draft_require u j s) (assign_artifact (de_now env) x g r)")
    case (Inl e)
    then have "s' = s" by (simp add: draft_step_assign assign_draft_def)
    with assms(3) show ?thesis by metis
  next
    case (Inr c)
    then obtain a where a: "dget (dr_store s) (u, j) = Some a" "da_content c = da_content a"
      by (auto simp: rbind_Inr_iff draft_require_def draft_get_def assign_artifact_def split: option.splits if_splits)
    have st: "dr_store s' = dr_store (draft_save c s)" using draft_step_assign Inr by (simp add: assign_draft_def frame_simps)
    show ?thesis by (rule disjI1, rule content_saved [OF a st assms(3)])
  qed
next
  case (draft_step_review env u j reviewer decision comment)
  show ?thesis
  proof (cases "rbind (draft_require u j s) (decide (de_now env) reviewer decision comment)")
    case (Inl e)
    then have "s' = s" by (simp add: draft_step_review review_draft_def)
    with assms(3) show ?thesis by metis
  next
    case (Inr c)
    then obtain a where a: "dget (dr_store s) (u, j) = Some a" "decide (de_now env) reviewer decision comment a = Inr c"
      by (auto simp: rbind_Inr_iff draft_require_def draft_get_def split: option.splits)
    have same: "da_content c = da_content a" using decide_cases [OF a(2)] by blast
    have "\<exists>e. s' = fst (recorded env e (draft_save c s) c)"
      unfolding draft_step_review(1) review_draft_def Inr sum.case by blast
    then have st: "dr_store s' = dr_store (draft_save c s)" by (auto simp: frame_simps)
    show ?thesis by (rule disjI1, rule content_saved [OF a(1) same st assms(3)])
  qed
next
  case (draft_step_publish env u j actor)
  obtain s2 r where p: "publish_draft env u j actor s = (s2, r)" by fastforce
  with draft_step_publish have s2: "s2 = s'" by simp
  show ?thesis
  proof (cases "s' = s")
    case True
    with assms(3) show ?thesis by blast
  next
    case False
    with publish_cases [OF p] s2 obtain w c md entry where c: "draft_get u j s = Some c"
      and rec: "(s', r) = recorded env entry (draft_save (published_artifact env w c)
         (s\<lparr>dr_ingested := dr_ingested s @ [published_doc env u w c md]\<rparr>)) (published_artifact env w c)" by blast
    let ?w = "published_artifact env w c"
    have "s' = fst (recorded env entry (draft_save ?w (s\<lparr>dr_ingested := dr_ingested s @ [published_doc env u w c md]\<rparr>)) ?w)"
      unfolding rec [symmetric] by simp
    then have "dr_store s' = dr_store (draft_save ?w (s\<lparr>dr_ingested := dr_ingested s @ [published_doc env u w c md]\<rparr>))"
      by (simp only: recorded_frame)
    then have st: "dr_store s' = dr_store (draft_save ?w s)" by (simp add: draft_save_def)
    have same: "da_content ?w = da_content c" by (simp add: published_artifact_def)
    show ?thesis by (rule disjI1, rule content_saved [OF c [unfolded draft_get_def] same st assms(3)])
  qed
qed

lemma typed_reachable:
  "draft_reachable s \<Longrightarrow> dget (dr_store s) k = Some a \<Longrightarrow> typed_content (da_content a)"
proof (induction arbitrary: k a rule: draft_reachable.induct)
  case draft_init
  then show ?case by (simp add: new_drafts_def)
next
  case (draft_next s s')
  from draft_step_content [OF draft_next(2) drafts_ok_reachable [OF draft_next(1)] draft_next(4)]
  show ?case using draft_next.IH by metis
qed

section \<open>Rendering keeps the markers\<close>

lemma first_stripped_sound: "first_stripped ws s = Some r \<Longrightarrow> \<exists>w\<in>set ws. s = w @ r"
proof (induction ws)
  case (Cons w ws)
  have "strip_prefix p s = Some r \<Longrightarrow> s = p @ r" for p s r
    by (induction p s rule: strip_prefix.induct) (auto split: if_splits)
  with Cons show ?case by (auto split: option.splits)
qed simp

lemma lstrip_with_stops:
  "(\<And>w. w \<in> set ws \<Longrightarrow> c \<notin> set w) \<Longrightarrow> \<exists>y'. lstrip_with ws (y @ c # z) = y' @ c # z"
proof (induction "length y" arbitrary: y rule: less_induct)
  case less
  show ?case
  proof (cases "[] \<in> set ws \<or> first_stripped ws (y @ c # z) = None")
    case True
    then show ?thesis by (subst lstrip_with.simps) auto
  next
    case False
    then obtain r where r: "first_stripped ws (y @ c # z) = Some r" by auto
    from first_stripped_sound [OF r] obtain w where w: "w \<in> set ws" "y @ c # z = w @ r" by blast
    with less.prems False have "c \<notin> set w" "w \<noteq> []" by auto
    then obtain y2 where y: "y = w @ y2" "r = y2 @ c # z"
      using w(2) by (auto simp: append_eq_append_conv2 Cons_eq_append_conv)
    with \<open>w \<noteq> []\<close> less.hyps [of y2] less.prems obtain y' where "lstrip_with ws r = y' @ c # z" by auto
    with False r show ?thesis by (subst lstrip_with.simps) simp
  qed
qed

lemma py_rstrip_keeps:
  assumes "\<forall>w\<in>set ws_encodings. c \<notin> set w"
  shows "\<exists>y. py_rstrip (p @ c # z) = p @ c # y"
proof -
  have "\<exists>y. lstrip_with (map rev ws_encodings) (rev z @ c # rev p) = y @ c # rev p"
    by (rule lstrip_with_stops) (use assms in auto)
  then obtain y where "lstrip_with (map rev ws_encodings) (rev z @ c # rev p) = y @ c # rev p" by auto
  then have "py_rstrip (p @ c # z) = p @ c # rev y" by (simp add: py_rstrip_def)
  then show ?thesis by blast
qed

lemma marker_last: "\<exists>p. ''- '' @ unconfirmed_marker = p @ [CHR 0x91]"
  by (rule exI [of _ "butlast (''- '' @ unconfirmed_marker)"]) (simp add: unconfirmed_marker_def utf8_def, code_simp)

lemma marker_byte_not_ws: "\<forall>w\<in>set ws_encodings. CHR 0x91 \<notin> set w"
  by code_simp

definition opens_with :: "string \<Rightarrow> string \<Rightarrow> bool" where
  "opens_with p s \<longleftrightarrow> take (length p) s = p"

lemma unconfirmed_line:
  assumes "typed_item v" and "\<not> confirmed_item v"
  shows "opens_with (''- '' @ unconfirmed_marker) (item_line v)"
proof -
  from assms(1) obtain d where v: "v = PDict d" by (auto simp: typed_item_def split: pyval.splits)
  obtain q where q: "''- '' @ unconfirmed_marker = q @ [CHR 0x91]" using marker_last by blast
  have "\<not> py_truthy (py_get d ''confirmed'')" using assms(2) v by (simp add: confirmed_item_def)
  then have line: "item_line v = py_rstrip (q @ CHR 0x91 # '' '' @ py_get_str d ''text'')"
    using q by (simp add: item_line_def v Let_def) (metis append.assoc append_Cons append_Nil)
  from py_rstrip_keeps [OF marker_byte_not_ws] obtain y where "item_line v = q @ CHR 0x91 # y" unfolding line by blast
  then have "item_line v = (''- '' @ unconfirmed_marker) @ y" unfolding q by simp
  then show ?thesis unfolding opens_with_def by simp
qed

lemma typed_renders:
  assumes "typed_content (da_content a)"
  shows "\<exists>md. render_draft_markdown a = Inr md" "py_get (da_content a) ''items'' = PList (draft_items a)"
    "\<forall>v\<in>set (draft_items a). typed_item v"
proof -
  from assms obtain vs where vs: "dget (da_content a) ''items'' = Some (PList vs)" "\<forall>v\<in>set vs. typed_item v"
    by (auto simp: typed_content_def)
  then have items: "py_get (da_content a) ''items'' = PList vs" "draft_items a = vs" by (simp_all add: py_get_def draft_items_def)
  show "\<exists>md. render_draft_markdown a = Inr md" by (simp add: render_draft_markdown_def items Let_def)
  show "py_get (da_content a) ''items'' = PList (draft_items a)" "\<forall>v\<in>set (draft_items a). typed_item v" using items vs(2) by simp_all
qed


section \<open>A concrete run\<close>

definition sample_source_meta :: mfg_metadata where
  "sample_source_meta =
     (new_metadata ''t'' ''d'')\<lparr>mm_approval_status := APPROVED, mm_effective_date := PStr ''2024-02-29''\<rparr>"

definition sample_draft_env :: draft_env where
  "sample_draft_env =
     \<lparr>de_now = ''2024-03-01T00:00:00+00:00'', de_today = 738946, de_sha = (\<lambda>s. s), de_redact = (\<lambda>s. s),
      de_get_mfg_meta = Some (\<lambda>_ _. Inr (Some sample_source_meta)),
      de_can_use_source = Some (\<lambda>_ d. d = ''d''), de_ingest = (\<lambda>_. Inr ())\<rparr>"

definition sample_filters :: pydict where
  "sample_filters = [(''safety_items'', PList [PStr ''x''])]"

lemma recorded_ok:
  "al_tenant_id e \<noteq> [] \<Longrightarrow> \<exists>au. recorded env e s a = (s\<lparr>dr_audit := au\<rparr>, Inr a)"
  by (simp add: recorded_def audit_record_def Let_def) (rule exI, rule refl)

lemma create_succeeds:
  assumes "coerce_kind kind = Inr k" and "id_tenant_id p \<noteq> []"
    and "build_content env k (id_tenant_id p) (usable_citations env p cs) filters = Inr content"
  shows "\<exists>s' a. create_draft env p kind cs ids template_id collection_id filters s = (s', Inr a) \<and> da_content a = content"
proof -
  let ?g = "generate env (art_id (dr_next s)) (id_tenant_id p) k (de_now env) (usable_citations env p cs) (usable_ids env p ids)
       template_id collection_id filters"
  obtain b where b: "?g = Inr b" by (simp add: generate_def assms(3))
  let ?b = "b\<lparr>da_audit_log_ref := Some (generation_log_id b (de_now env))\<rparr>"
  note f = generate_fields [OF b]
  have "al_tenant_id (generation_entry b (id_user_id p) (de_now env)) \<noteq> []"
    using f assms(2) by (simp add: generation_entry_def)
  from recorded_ok [OF this, of env "s\<lparr>dr_next := Suc (dr_next s)\<rparr>" ?b] obtain s1 where
    rec: "recorded env (generation_entry b (id_user_id p) (de_now env)) (s\<lparr>dr_next := Suc (dr_next s)\<rparr>) ?b = (s1, Inr ?b)" by blast
  have "create_draft env p kind cs ids template_id collection_id filters s = (draft_save ?b s1, Inr ?b)"
    unfolding create_draft_def assms(1) Let_def sum.case b rec prod.case by (rule refl)
  moreover have "da_content ?b = content" using f assms(3) by simp
  ultimately show ?thesis by blast
qed

lemma assign_succeeds:
  assumes "draft_get t i s = Some a" and "da_tenant_id a = t" "da_artifact_id a = i" and "da_status a = DsDRAFT" and "t \<noteq> []"
  shows "\<exists>s' b. assign_draft env t i (Some u) g r s = (s', Inr b) \<and> draft_get t i s' = Some b \<and> da_status b = DsIN_REVIEW \<and>
    da_tenant_id b = t \<and> da_artifact_id b = i \<and> da_published_document_id b = da_published_document_id a"
proof -
  obtain b where b: "assign_artifact (de_now env) (Some u) g r a = Inr b" "da_status b = DsIN_REVIEW" "da_tenant_id b = t" "da_artifact_id b = i"
    "da_published_document_id b = da_published_document_id a"
    using assms by (simp add: assign_artifact_def assign_sources_def)
  let ?e = "transition_entry b ''draft.assign'' (Some u) (Some (draft_status_value (da_status b))) (de_now env)"
  have "al_tenant_id ?e \<noteq> []" using b(3) assms(5) by (simp add: transition_entry_def)
  from recorded_ok [OF this, of env "draft_save b s" b] obtain au where rec: "recorded env ?e (draft_save b s) b = ((draft_save b s)\<lparr>dr_audit := au\<rparr>, Inr b)" by blast
  have "assign_draft env t i (Some u) g r s = ((draft_save b s)\<lparr>dr_audit := au\<rparr>, Inr b)"
    by (simp add: assign_draft_def draft_require_def assms(1) b(1) rec del: transition_entry_def)
  with b show ?thesis by (simp add: draft_get_def dget_draft_save)
qed

lemma approve_succeeds:
  assumes "draft_get t i s = Some a" and "da_tenant_id a = t" "da_artifact_id a = i" and "da_status a = DsIN_REVIEW" and "t \<noteq> []"
    and "id_user_id p \<noteq> []"
  shows "\<exists>s' b. review_draft env t i (Some p) ''approved'' c s = (s', Inr b) \<and> draft_get t i s' = Some b \<and> da_status b = DsAPPROVED \<and>
    da_tenant_id b = t \<and> da_artifact_id b = i \<and> da_published_document_id b = da_published_document_id a"
proof -
  obtain b where b: "decide (de_now env) (Some p) ''approved'' c a = Inr b" "da_status b = DsAPPROVED" "da_tenant_id b = t" "da_artifact_id b = i"
      "da_published_document_id b = da_published_document_id a"
    using assms by (simp add: decide_def decision_sources_def)
  have tenant: "al_tenant_id (transition_entry b x y z w) \<noteq> []" for x y z w using b(3) assms(5) by (simp add: transition_entry_def)
  obtain e where e: "al_tenant_id e \<noteq> []" "review_draft env t i (Some p) ''approved'' c s = recorded env e (draft_save b s) b"
    using tenant by (simp add: review_draft_def draft_require_def assms(1) b(1)) metis
  from recorded_ok [OF e(1), of env "draft_save b s" b] obtain au where "recorded env e (draft_save b s) b = ((draft_save b s)\<lparr>dr_audit := au\<rparr>, Inr b)" by blast
  with b e(2) show ?thesis by (simp add: draft_get_def dget_draft_save)
qed

lemma publish_succeeds:
  assumes "draft_get t i s = Some a" and "da_tenant_id a = t" "da_artifact_id a = i" and "da_status a = DsAPPROVED" and "t \<noteq> []"
    and "id_user_id p \<noteq> []" and "da_published_document_id a = None" and "render_draft_markdown a = Inr md" and "\<And>d. de_ingest env d = Inr ()"
  shows "\<exists>d b. draft_get t i (fst (publish_draft env t i (Some p) s)) = Some b \<and> da_published_document_id b = Some (''pub_'' @ i) \<and>
    dr_ingested (fst (publish_draft env t i (Some p) s)) = dr_ingested s @ [d]"
proof -
  let ?a = "published_artifact env (id_user_id p) a"
  have e: "al_tenant_id (publish_entry ?a x y) \<noteq> []" for x y using assms(2,5) by (simp add: publish_entry_def)
  obtain d entry where "publish_draft env t i (Some p) s = recorded env entry (draft_save ?a (s\<lparr>dr_ingested := dr_ingested s @ [d]\<rparr>)) ?a"
    using assms(6-9) by (simp add: publish_draft_def draft_require_def assms(1,4) Let_def)
  then have "dr_store (fst (publish_draft env t i (Some p) s)) = dr_store (draft_save ?a s)"
    "dr_ingested (fst (publish_draft env t i (Some p) s)) = dr_ingested s @ [d]"
    by (simp_all add: frame_simps) (simp add: draft_save_def)
  moreover have "dget (dr_store (draft_save ?a s)) (t, i) = Some ?a" using assms(2,3) by (simp add: dget_draft_save)
  ultimately show ?thesis using assms(3) by (simp add: draft_get_def)
qed

lemma sample_content:
  "\<exists>content. build_content sample_draft_env DtCHECKLIST (id_tenant_id sample_actor)
     (usable_citations sample_draft_env sample_actor [new_citation ''text'' ''d'' ''src'' 1 1]) sample_filters = Inr content \<and>
   py_get content ''items'' = PList [safety_item True (PStr ''x'')]"
proof -
  have "date_fromisoformat ''2024-02-29'' = Some 738945" by code_simp
  then have date: "date_prefix (PStr ''2024-02-29'') = Some 738945" by (simp add: date_prefix_def utf8_start_def)
  have "is_approved_effective (Some sample_source_meta) 738946"
    by (simp add: is_approved_effective_def is_effective_def sample_source_meta_def new_metadata_def date)
  then show ?thesis
    by (simp add: build_content_def sample_draft_env_def usable_citations_def new_citation_def sample_filters_def py_get_def
        has_approved_effective_evidence_def tuple_of_def)
qed

lemma sample_created:
  "\<exists>s a. create_draft sample_draft_env sample_actor ''checklist'' [new_citation ''text'' ''d'' ''src'' 1 1] [] None None sample_filters new_drafts
     = (s, Inr a) \<and> draft_items a = [safety_item True (PStr ''x'')]"
proof -
  have kind: "coerce_kind ''checklist'' = Inr DtCHECKLIST" by (simp add: coerce_kind_def)
  have tenant: "id_tenant_id sample_actor \<noteq> []" by (simp add: sample_actor_def)
  from sample_content obtain c where c: "build_content sample_draft_env DtCHECKLIST (id_tenant_id sample_actor)
     (usable_citations sample_draft_env sample_actor [new_citation ''text'' ''d'' ''src'' 1 1]) sample_filters = Inr c"
    "py_get c ''items'' = PList [safety_item True (PStr ''x'')]" by blast
  from create_succeeds [OF kind tenant c(1), of "[]" None None new_drafts] c(2) show ?thesis by (auto simp: draft_items_def)
qed

theorem draft_provenance_witness:
  "\<exists>s a. create_draft sample_draft_env sample_actor ''checklist'' [new_citation ''text'' ''d'' ''src'' 1 1] [] None None sample_filters new_drafts
     = (s, Inr a) \<and> da_status a = DsDRAFT \<and> set (da_source_document_ids a) = {''d''}"
proof -
  from sample_created obtain s a where
    c: "create_draft sample_draft_env sample_actor ''checklist'' [new_citation ''text'' ''d'' ''src'' 1 1] [] None None sample_filters new_drafts
     = (s, Inr a)" by blast
  have e: "de_can_use_source sample_draft_env = Some (\<lambda>_ d. d = ''d'')"
    "de_get_mfg_meta sample_draft_env = Some (\<lambda>_ _. Inr (Some sample_source_meta))" by (simp_all add: sample_draft_env_def)
  from draft_provenance [OF c e] c show ?thesis by (auto simp: new_citation_def)
qed

text \<open>A stored draft, in review, approved and published.\<close>

lemma sample_run:
  "\<exists>s0 s1 s2 i a0 a1 a2.
     draft_reachable s0 \<and> draft_reachable s1 \<and> draft_step s1 s2 \<and>
     draft_get ''t'' i s0 = Some a0 \<and> draft_items a0 = [safety_item True (PStr ''x'')] \<and>
     draft_get ''t'' i s1 = Some a1 \<and> da_status a1 = DsIN_REVIEW \<and>
     draft_get ''t'' i s2 = Some a2 \<and> da_status a2 = DsAPPROVED \<and> da_published_document_id a2 = None"
proof -
  let ?p = sample_actor and ?env = sample_draft_env
  let ?create = "create_draft ?env ?p ''checklist'' [new_citation ''text'' ''d'' ''src'' 1 1] [] None None sample_filters new_drafts"
  have p: "id_tenant_id ?p = ''t''" "id_user_id ?p \<noteq> []" by (simp_all add: sample_actor_def)
  obtain s0 a0 where c: "?create = (s0, Inr a0)" and items: "draft_items a0 = [safety_item True (PStr ''x'')]"
    by (rule exE [OF sample_created], erule exE, erule conjE)
  let ?i = "art_id (dr_next new_drafts)"
  from create_draft_Inr [OF c] have g0: "draft_get ''t'' ?i s0 = Some a0" unfolding p by metis
  have "s0 = fst ?create" using c by simp
  then have r0: "draft_reachable s0" by (simp only: draft_next [OF draft_init draft_step_create])
  have "da_status a0 = DsDRAFT" "da_published_document_id a0 = None" using draft_provenance_facts [OF c] by blast+
  have k0: "da_tenant_id a0 = ''t''" "da_artifact_id a0 = ?i"
    using drafts_okD(1,2) [OF drafts_ok_reachable [OF r0]] g0 by (auto simp: draft_get_def)
  from assign_succeeds [OF g0 k0 \<open>da_status a0 = DsDRAFT\<close>, of ?env "''u''" None None] obtain s1 a1 where
    a: "assign_draft ?env ''t'' ?i (Some ''u'') None None s0 = (s1, Inr a1)" "draft_get ''t'' ?i s1 = Some a1"
      "da_status a1 = DsIN_REVIEW" "da_tenant_id a1 = ''t''" "da_artifact_id a1 = ?i"
      "da_published_document_id a1 = da_published_document_id a0" by auto
  have "s1 = fst (assign_draft ?env ''t'' ?i (Some ''u'') None None s0)" using a by simp
  then have r1: "draft_reachable s1" by (simp only: draft_next [OF r0 draft_step_assign])
  from approve_succeeds [OF a(2,4,5,3) _ p(2), of ?env None] obtain s2 a2 where
    b: "review_draft ?env ''t'' ?i (Some ?p) ''approved'' None s1 = (s2, Inr a2)" "draft_get ''t'' ?i s2 = Some a2"
      "da_status a2 = DsAPPROVED" "da_published_document_id a2 = da_published_document_id a1" by auto
  have "s2 = fst (review_draft ?env ''t'' ?i (Some ?p) ''approved'' None s1)" using b by simp
  then have "draft_step s1 s2" by (simp only: draft_step_review)
  with r0 r1 g0 items a(2,3,6) b(2-4) \<open>da_published_document_id a0 = None\<close> show ?thesis by (metis (no_types))
qed

theorem only_people_approve_witness:
  "\<exists>s i b. \<exists>p :: identity_claims. draft_get ''t'' i s = Some b \<and> da_status b = DsAPPROVED \<and> da_reviewer_id b = Some (id_user_id p) \<and> id_user_id p \<noteq> []"
proof -
  obtain s1 s2 i a1 a2 where r: "draft_reachable s1" "draft_step s1 s2" "draft_get ''t'' i s1 = Some a1"
    "draft_get ''t'' i s2 = Some a2" "da_status a1 = DsIN_REVIEW" "da_status a2 = DsAPPROVED" using sample_run by (elim exE conjE) (rule that)
  have "da_status a1 \<noteq> DsAPPROVED" using r(5) by simp
  from only_people_approve [OF r(1-4) this r(6)] r(4,6) show ?thesis by blast
qed


theorem published_is_approved_witness:
  "\<exists>s doc i a. doc \<in> set (dr_ingested s) \<and> draft_get (in_tenant_id doc) i s = Some a \<and> published_as a doc \<and> human_approved a"
proof -
  obtain s1 s i a where r: "draft_reachable s1" "draft_step s1 s" "draft_get ''t'' i s = Some a" "da_status a = DsAPPROVED"
      "da_published_document_id a = None"
    using sample_run by (elim exE conjE) (rule that)
  have rs: "draft_reachable s" by (rule draft_next [OF r(1,2)])
  have k: "da_tenant_id a = ''t''" "da_artifact_id a = i"
    using drafts_okD(1,2) [OF drafts_ok_reachable [OF rs]] r(3) by (auto simp: draft_get_def)
  have "typed_content (da_content a)" using typed_reachable [OF rs] r(3) by (simp add: draft_get_def)
  then obtain md where md: "render_draft_markdown a = Inr md" using typed_renders(1) by blast
  let ?s = "fst (publish_draft sample_draft_env ''t'' i (Some sample_actor) s)"
  have reach: "draft_reachable ?s" by (rule draft_next [OF rs draft_step_publish])
  have "\<exists>d b. draft_get ''t'' i ?s = Some b \<and> da_published_document_id b = Some (''pub_'' @ i) \<and> dr_ingested ?s = dr_ingested s @ [d]"
    by (rule publish_succeeds [OF r(3) k r(4) _ _ r(5) md]) (simp_all add: sample_actor_def sample_draft_env_def)
  then obtain d where "dr_ingested ?s = dr_ingested s @ [d]" by blast
  then have "d \<in> set (dr_ingested ?s)" by simp
  with published_is_approved [OF reach] show ?thesis by blast
qed

end
