(* ===== verification/PyUrl.thy ===== *)
theory PyUrl
  imports PyStr
begin

text \<open>
  What the program uses of \<open>urllib.parse\<close>: \<open>urlparse\<close> with the \<open>hostname\<close> and \<open>port\<close> of its result, \<open>urljoin\<close>,
  \<open>urlencode\<close>, and of the standard library beside it \<open>html.escape\<close>, \<open>base64.b64encode\<close> and splitting by a
  character. The two checks of a network location that need tables of the library (the normalisation of non-ASCII
  names and the parser of bracketed addresses) are one argument, \<open>netloc_ok\<close>.
\<close>

section \<open>Splitting strings\<close>

fun split_on :: "char \<Rightarrow> string \<Rightarrow> string list" where
  "split_on c [] = [[]]"
| "split_on c (x # xs) =
     (if x = c then [] # split_on c xs
      else case split_on c xs of [] \<Rightarrow> [[x]] | w # ws \<Rightarrow> (x # w) # ws)"

lemma split_on_not_Nil [simp]: "split_on c s \<noteq> []"
  by (induction s) (auto split: list.splits)

lemma split_on_none: "c \<notin> set s \<Longrightarrow> split_on c s = [s]"
  by (induction s) auto

text \<open>\<open>s.partition(c)\<close>: what is before the first \<open>c\<close> and what is after it.\<close>

definition before :: "char \<Rightarrow> string \<Rightarrow> string" where
  "before c s = takeWhile (\<lambda>x. x \<noteq> c) s"

definition after :: "char \<Rightarrow> string \<Rightarrow> string" where
  "after c s = drop 1 (dropWhile (\<lambda>x. x \<noteq> c) s)"

text \<open>\<open>s.rpartition(c)[2]\<close>: what is after the last \<open>c\<close>.\<close>

definition after_last :: "char \<Rightarrow> string \<Rightarrow> string" where
  "after_last c s = rev (takeWhile (\<lambda>x. x \<noteq> c) (rev s))"

definition ends_with :: "string \<Rightarrow> string \<Rightarrow> bool" where
  "ends_with s p \<longleftrightarrow> strip_prefix (rev p) (rev s) \<noteq> None"

definition lstrip_chars :: "string \<Rightarrow> string \<Rightarrow> string" where
  "lstrip_chars cs s = dropWhile (\<lambda>c. c \<in> set cs) s"

definition rstrip_chars :: "string \<Rightarrow> string \<Rightarrow> string" where
  "rstrip_chars cs s = rev (lstrip_chars cs (rev s))"

definition is_alpha :: "char \<Rightarrow> bool" where
  "is_alpha c \<longleftrightarrow> (let n = (of_char c :: nat) in 65 \<le> n \<and> n \<le> 90 \<or> 97 \<le> n \<and> n \<le> 122)"

definition is_alnum :: "char \<Rightarrow> bool" where
  "is_alnum c \<longleftrightarrow> is_alpha c \<or> is_digit c"

section \<open>urlparse\<close>

record url_parts =
  up_scheme :: string
  up_netloc :: string
  up_path :: string
  up_params :: string
  up_query :: string
  up_fragment :: string

definition scheme_char :: "char \<Rightarrow> bool" where
  "scheme_char c \<longleftrightarrow> is_alnum c \<or> c \<in> set ''+-.''"

definition url_cleaned :: "string \<Rightarrow> string" where
  "url_cleaned url =
     filter (\<lambda>c. (of_char c :: nat) \<notin> {9, 10, 13}) (dropWhile (\<lambda>c. (of_char c :: nat) \<le> 32) url)"

definition split_scheme :: "string \<Rightarrow> string \<Rightarrow> string \<times> string" where
  "split_scheme scheme url =
     (let s = before (CHR '':'') url
      in if CHR '':'' \<in> set url \<and> s \<noteq> [] \<and> is_alpha (hd s) \<and> list_all scheme_char s
         then (py_lower s, after (CHR '':'') url) else (scheme, url))"

definition split_netloc :: "string \<Rightarrow> string \<times> string" where
  "split_netloc url =
     (if starts_with url ''//''
      then (takeWhile (\<lambda>c. c \<notin> set ''/?#'') (drop 2 url), dropWhile (\<lambda>c. c \<notin> set ''/?#'') (drop 2 url))
      else ([], url))"

definition uses_params :: "string list" where
  "uses_params = [[], ''ftp'', ''hdl'', ''prospero'', ''http'', ''https'', ''shttp'', ''rtsp'', ''rtsps'', ''rtspu'', ''sip'',
     ''sips'', ''mms'', ''sftp'', ''tel'']"

text \<open>The parameters of the last path segment.\<close>

definition split_params :: "string \<Rightarrow> string \<times> string" where
  "split_params url =
     (let seg = after_last (CHR ''/'') url; dir = take (length url - length seg) url
      in if CHR '';'' \<in> set seg then (dir @ before (CHR '';'') seg, after (CHR '';'') seg) else (url, []))"

definition urlparse_with :: "(string \<Rightarrow> bool) \<Rightarrow> string \<Rightarrow> string \<Rightarrow> url_parts result" where
  "urlparse_with netloc_ok default_scheme url =
     (let (scheme, rest) = split_scheme default_scheme (url_cleaned url);
          (netloc, rest) = split_netloc rest;
          fragment = after (CHR ''#'') rest; rest = before (CHR ''#'') rest;
          query = after (CHR ''?'') rest; rest = before (CHR ''?'') rest;
          (path, params) = (if scheme \<in> set uses_params then split_params rest else (rest, []))
      in if (CHR ''['' \<in> set netloc) \<noteq> (CHR '']'' \<in> set netloc) then Inl ValueError
         else if (CHR ''['' \<in> set netloc \<or> list_ex (\<lambda>c. 128 \<le> (of_char c :: nat)) netloc) \<and> \<not> netloc_ok netloc
         then Inl ValueError
         else Inr \<lparr>up_scheme = scheme, up_netloc = netloc, up_path = path, up_params = params, up_query = query,
                  up_fragment = fragment\<rparr>)"

definition urlparse :: "(string \<Rightarrow> bool) \<Rightarrow> string \<Rightarrow> url_parts result" where
  "urlparse netloc_ok url = urlparse_with netloc_ok [] url"

definition host_and_port :: "url_parts \<Rightarrow> string \<times> string" where
  "host_and_port u =
     (let info = after_last (CHR ''@'') (up_netloc u)
      in if CHR ''['' \<in> set info
         then (let br = after (CHR ''['') info in (before (CHR '']'') br, after (CHR '':'') (after (CHR '']'') br)))
         else (before (CHR '':'') info, after (CHR '':'') info))"

text \<open>The host name is lowered but for the zone of a scoped address; the empty string stands for \<open>None\<close>, which every
  reader treats alike.\<close>

definition url_hostname :: "url_parts \<Rightarrow> string" where
  "url_hostname u =
     (let h = fst (host_and_port u)
      in py_lower (takeWhile (\<lambda>c. c \<noteq> CHR ''%'') h) @ dropWhile (\<lambda>c. c \<noteq> CHR ''%'') h)"

definition url_port :: "url_parts \<Rightarrow> nat option result" where
  "url_port u =
     (let p = snd (host_and_port u)
      in if p = [] then Inr None
         else if list_all is_digit p then (if str_nat p \<le> 65535 then Inr (Some (str_nat p)) else Inl ValueError)
         else Inl ValueError)"

section \<open>urljoin\<close>

definition uses_relative :: "string list" where
  "uses_relative = [[], ''ftp'', ''http'', ''gopher'', ''nntp'', ''imap'', ''wais'', ''file'', ''https'', ''shttp'', ''mms'',
     ''prospero'', ''rtsp'', ''rtsps'', ''rtspu'', ''sftp'', ''svn'', ''svn+ssh'', ''ws'', ''wss'']"

definition uses_netloc :: "string list" where
  "uses_netloc = [[], ''ftp'', ''http'', ''gopher'', ''nntp'', ''telnet'', ''imap'', ''wais'', ''file'', ''mms'', ''https'', ''shttp'',
     ''snews'', ''prospero'', ''rtsp'', ''rtsps'', ''rtspu'', ''rsync'', ''svn'', ''svn+ssh'', ''sftp'', ''nfs'', ''git'', ''git+ssh'',
     ''ws'', ''wss'']"

definition urlunparse :: "url_parts \<Rightarrow> string" where
  "urlunparse u =
     (let path = up_path u @ (if up_params u = [] then [] else '';'' @ up_params u);
          url = (if up_netloc u \<noteq> [] \<or> (up_scheme u \<noteq> [] \<and> up_scheme u \<in> set uses_netloc \<and> take 2 path \<noteq> ''//'')
                 then ''//'' @ up_netloc u @ (if path \<noteq> [] \<and> hd path \<noteq> CHR ''/'' then ''/'' @ path else path) else path);
          url = (if up_scheme u = [] then url else up_scheme u @ '':'' @ url);
          url = (if up_query u = [] then url else url @ ''?'' @ up_query u)
      in if up_fragment u = [] then url else url @ ''#'' @ up_fragment u)"

definition resolve_step :: "string \<Rightarrow> string list \<Rightarrow> string list" where
  "resolve_step seg acc = (if seg = ''..'' then butlast acc else if seg = ''.'' then acc else acc @ [seg])"

definition resolve_segments :: "string list \<Rightarrow> string list" where
  "resolve_segments segs =
     fold resolve_step segs [] @ (if segs \<noteq> [] \<and> last segs \<in> {''.'', ''..''} then [[]] else [])"

text \<open>\<open>segments[1:-1] = filter(None, segments[1:-1])\<close>.\<close>

definition drop_inner_empty :: "string list \<Rightarrow> string list" where
  "drop_inner_empty segs =
     (if length segs \<le> 2 then segs else hd segs # filter (\<lambda>s. s \<noteq> []) (butlast (tl segs)) @ [last segs])"

definition join_paths :: "string \<Rightarrow> string \<Rightarrow> string" where
  "join_paths base path =
     (let base_parts = (let ps = split_on (CHR ''/'') base in if last ps \<noteq> [] then butlast ps else ps);
          segs = (if take 1 path = ''/'' then split_on (CHR ''/'') path
                  else drop_inner_empty (base_parts @ split_on (CHR ''/'') path));
          r = str_join ''/'' (resolve_segments segs)
      in if r = [] then ''/'' else r)"

definition urljoin :: "(string \<Rightarrow> bool) \<Rightarrow> string \<Rightarrow> string \<Rightarrow> string result" where
  "urljoin netloc_ok base url =
     (if base = [] then Inr url
      else if url = [] then Inr base
      else rbind (urlparse netloc_ok base) (\<lambda>b.
           rbind (urlparse_with netloc_ok (up_scheme b) url) (\<lambda>u.
             if up_scheme u \<noteq> up_scheme b \<or> up_scheme u \<notin> set uses_relative then Inr url
             else if up_scheme u \<in> set uses_netloc \<and> up_netloc u \<noteq> [] then Inr (urlunparse u)
             else
               (let u = (if up_scheme u \<in> set uses_netloc then u\<lparr>up_netloc := up_netloc b\<rparr> else u)
                in if up_path u = [] \<and> up_params u = []
                   then Inr (urlunparse (u\<lparr>up_path := up_path b, up_params := up_params b,
                               up_query := (if up_query u = [] then up_query b else up_query u)\<rparr>))
                   else Inr (urlunparse (u\<lparr>up_path := join_paths (up_path b) (up_path u)\<rparr>))))))"

section \<open>Encoders\<close>

definition upper_hex :: "nat \<Rightarrow> char" where
  "upper_hex d = (if d < 10 then char_of (48 + d) else char_of (55 + d))"

definition quote_plus_char :: "char \<Rightarrow> string" where
  "quote_plus_char c =
     (if is_alnum c \<or> c \<in> set ''_.-~'' then [c]
      else if c = CHR '' '' then ''+''
      else [CHR ''%'', upper_hex ((of_char c :: nat) div 16), upper_hex ((of_char c :: nat) mod 16)])"

definition quote_plus :: "string \<Rightarrow> string" where
  "quote_plus s = concat (map quote_plus_char s)"

definition urlencode :: "(string \<times> string) list \<Rightarrow> string" where
  "urlencode kvs = str_join ''&'' (map (\<lambda>(k, v). quote_plus k @ ''='' @ quote_plus v) kvs)"

definition html_escape :: "string \<Rightarrow> string" where
  "html_escape s =
     concat (map (\<lambda>c. if c = CHR ''&'' then ''&amp;'' else if c = CHR ''<'' then ''&lt;'' else if c = CHR ''>'' then ''&gt;''
       else if c = CHR 0x22 then ''&quot;'' else if c = CHR 0x27 then ''&#x27;'' else [c]) s)"

definition b64_char :: "nat \<Rightarrow> char" where
  "b64_char n =
     (if n < 26 then char_of (65 + n) else if n < 52 then char_of (71 + n) else if n < 62 then char_of (n - 4)
      else if n = 62 then CHR ''+'' else CHR ''/'')"

fun b64encode :: "string \<Rightarrow> string" where
  "b64encode [] = []"
| "b64encode [a] =
     (let n = (of_char a :: nat) * 16 in map b64_char [n div 64, n mod 64] @ ''=='')"
| "b64encode [a, b] =
     (let n = ((of_char a :: nat) * 256 + of_char b) * 4 in map b64_char [n div 4096, n div 64 mod 64, n mod 64] @ ''='')"
| "b64encode (a # b # c # s) =
     (let n = ((of_char a :: nat) * 256 + of_char b) * 256 + of_char c
      in map b64_char [n div 262144, n div 4096 mod 64, n div 64 mod 64, n mod 64] @ b64encode s)"

section \<open>Facts and sample evaluations\<close>

lemma py_lower_idem [simp]: "py_lower (py_lower s) = py_lower s"
  by (simp add: py_lower_def lower_char_def Let_def o_def)

lemma sample_urlparse:
  "urlparse (\<lambda>_. True) ''HTTPS://u:p@Example.com:8443/a/b;v=1?q=2#f'' =
     Inr \<lparr>up_scheme = ''https'', up_netloc = ''u:p@Example.com:8443'', up_path = ''/a/b'', up_params = ''v=1'',
       up_query = ''q=2'', up_fragment = ''f''\<rparr>"
  by code_simp

lemma sample_hosts:
  "url_hostname \<lparr>up_scheme = ''https'', up_netloc = ''u:p@Example.com:8443'', up_path = [], up_params = [], up_query = [], up_fragment = []\<rparr>
     = ''example.com''"
  "url_port \<lparr>up_scheme = ''https'', up_netloc = ''u:p@[::1]:80'', up_path = [], up_params = [], up_query = [], up_fragment = []\<rparr>
     = Inr (Some 80)"
  by (simp_all add: url_hostname_def url_port_def host_and_port_def before_def after_def after_last_def py_lower_def lower_char_def
      is_digit_def str_nat_def digit_val_def, code_simp)

lemma sample_joins:
  "urljoin (\<lambda>_. True) ''http://h/a/b/c'' ''../d?x'' = Inr ''http://h/a/d?x''"
  "urljoin (\<lambda>_. True) ''http://h/a'' ''//other/z'' = Inr ''http://other/z''"
  "urljoin (\<lambda>_. True) ''http://h/a'' ''http://[::1'' = Inl ValueError"
  by code_simp+

lemma sample_encoders:
  "urlencode [(''app'', ''7''), (''query'', ''limit 5'')] = ''app=7&query=limit+5''" "b64encode ''ab:c'' = ''YWI6Yw==''"
  by (simp_all add: urlencode_def quote_plus_def quote_plus_char_def is_alnum_def is_alpha_def is_digit_def b64_char_def, code_simp)

end
