(* ===== verification/Egress.thy ===== *)
theory Egress
  imports PyUrl "HOL-Library.Word"
begin

text \<open>
  The guarded network egress of \<open>services/datasource_sync.py\<close>: the checks of hosts and addresses, one validated
  request, and the fetch that follows redirects itself. Name resolution, the classification of addresses by
  \<open>ipaddress\<close> and the answers of the network are arguments that may depend on everything sent before, so that a
  name may resolve differently each time; what is sent is kept as a list of events.
\<close>

section \<open>Addresses\<close>

datatype ip_address = IPv4 "32 word" | IPv6 "128 word"

record ip_flags =
  ip_private :: bool
  ip_loopback :: bool
  ip_link_local :: bool
  ip_reserved :: bool
  ip_multicast :: bool
  ip_unspecified :: bool

text \<open>\<open>100.64.0.0/10\<close>.\<close>

definition cgnat_net :: "32 word" where
  "cgnat_net = 0x64400000"

definition in_cgnat :: "32 word \<Rightarrow> bool" where
  "in_cgnat a \<longleftrightarrow> drop_bit 22 a = drop_bit 22 cgnat_net"

definition is_blocked_ip :: "(ip_address \<Rightarrow> ip_flags) \<Rightarrow> ip_address \<Rightarrow> bool" where
  "is_blocked_ip flags ip \<longleftrightarrow>
     (let f = flags ip
      in ip_private f \<or> ip_loopback f \<or> ip_link_local f \<or> ip_reserved f \<or> ip_multicast f \<or> ip_unspecified f \<or>
         (case ip of IPv4 a \<Rightarrow> in_cgnat a | IPv6 _ \<Rightarrow> False))"

section \<open>What leaves the process\<close>

type_synonym headers = "(string, string) dict"

record wire_request =
  wq_scheme :: string
  wq_host :: string
  wq_port :: nat
  wq_ip :: ip_address
  wq_method :: string
  wq_target :: string
  wq_headers :: headers
  wq_body :: "string option"

text \<open>A database connection is recorded with its DSN and the host handed to the driver (\<open>None\<close> when the driver reads the
  DSN itself), an object store client with its endpoint and whether it has credentials of its own.\<close>

datatype egress =
    Wire wire_request
  | DbConnect string "string option"
  | S3Connect string bool

record wire_response =
  wp_status :: int
  wp_location :: "string option"
  wp_content_type :: string
  wp_body :: string

record net_env =
  ne_netloc_ok :: "string \<Rightarrow> bool"
  ne_resolve :: "egress list \<Rightarrow> string \<Rightarrow> nat option \<Rightarrow> ip_address list option"
  ne_flags :: "ip_address \<Rightarrow> ip_flags"
  ne_respond :: "egress list \<Rightarrow> wire_request \<Rightarrow> wire_response result"

type_synonym 'a net = "egress list \<Rightarrow> egress list \<times> 'a result"

section \<open>Host checks\<close>

definition suffix_allows :: "string \<Rightarrow> string \<Rightarrow> bool" where
  "suffix_allows host suffix \<longleftrightarrow>
     (let suffix = lstrip_chars ''.'' (py_lower suffix) in host = suffix \<or> ends_with host (''.'' @ suffix))"

definition host_allowed :: "string \<Rightarrow> string list \<Rightarrow> bool" where
  "host_allowed host allow_hosts \<longleftrightarrow>
     (let host = rstrip_chars ''.'' (py_lower host) in list_ex (suffix_allows host) allow_hosts)"

definition host_permitted :: "string list option \<Rightarrow> string \<Rightarrow> bool" where
  "host_permitted allow_hosts host \<longleftrightarrow> (case allow_hosts of None \<Rightarrow> True | Some hs \<Rightarrow> host_allowed host hs)"

definition url_default_port :: "url_parts \<Rightarrow> nat option \<Rightarrow> nat" where
  "url_default_port u p =
     (case p of Some (Suc n) \<Rightarrow> Suc n | _ \<Rightarrow> if up_scheme u = ''https'' then 443 else 80)"

text \<open>Every resolved address is checked, and the first one is pinned.\<close>

fun pin_public :: "(ip_address \<Rightarrow> ip_flags) \<Rightarrow> ip_address option \<Rightarrow> ip_address list \<Rightarrow> ip_address result" where
  "pin_public flags pinned [] = (case pinned of None \<Rightarrow> Inl ValueError | Some ip \<Rightarrow> Inr ip)"
| "pin_public flags pinned (ip # ips) =
     (if is_blocked_ip flags ip then Inl ValueError
      else pin_public flags (case pinned of None \<Rightarrow> Some ip | Some p \<Rightarrow> Some p) ips)"

definition assert_public_host ::
  "net_env \<Rightarrow> string list option \<Rightarrow> string \<Rightarrow> egress list \<Rightarrow> ip_address result" where
  "assert_public_host env allow_hosts url tr =
     rbind (urlparse (ne_netloc_ok env) url) (\<lambda>u.
       if up_scheme u \<notin> {''http'', ''https''} then Inl ValueError
       else if url_hostname u = [] then Inl ValueError
       else if \<not> host_permitted allow_hosts (url_hostname u) then Inl ValueError
       else rbind (url_port u) (\<lambda>p.
         case ne_resolve env tr (url_hostname u) (Some (url_default_port u p)) of
           None \<Rightarrow> Inl ValueError
         | Some ips \<Rightarrow> pin_public (ne_flags env) None ips))"

definition assert_public_db_host :: "net_env \<Rightarrow> string \<Rightarrow> bool \<Rightarrow> egress list \<Rightarrow> unit result" where
  "assert_public_db_host env host allow_private tr =
     (if allow_private then Inr ()
      else if host = [] then Inl ValueError
      else case ne_resolve env tr host None of
        None \<Rightarrow> Inl ValueError
      | Some ips \<Rightarrow> if list_ex (is_blocked_ip (ne_flags env)) ips then Inl ValueError else Inr ())"

section \<open>One request\<close>

definition wire_target :: "url_parts \<Rightarrow> string" where
  "wire_target u =
     (let path = (if up_path u = [] then ''/'' else up_path u)
      in if up_query u = [] then path else path @ ''?'' @ up_query u)"

definition open_validated ::
  "net_env \<Rightarrow> string \<Rightarrow> headers \<Rightarrow> string option \<Rightarrow> string \<Rightarrow> string list option \<Rightarrow> wire_response net" where
  "open_validated env url headers data verb allow_hosts tr =
     (case rbind (assert_public_host env allow_hosts url tr) (\<lambda>ip.
             rbind (urlparse (ne_netloc_ok env) url) (\<lambda>u.
             rbind (url_port u) (\<lambda>p.
               Inr \<lparr>wq_scheme = up_scheme u, wq_host = url_hostname u, wq_port = url_default_port u p, wq_ip = ip,
                    wq_method = verb, wq_target = wire_target u, wq_headers = headers, wq_body = data\<rparr>))) of
        Inl e \<Rightarrow> (tr, Inl e)
      | Inr w \<Rightarrow> (tr @ [Wire w], ne_respond env tr w))"

section \<open>The fetch\<close>

record fetch_request =
  fr_url :: string
  fr_headers :: headers
  fr_data :: "string option"
  fr_method :: "string option"
  fr_allow_hosts :: "string list option"

definition plain_get :: "string \<Rightarrow> fetch_request" where
  "plain_get url = \<lparr>fr_url = url, fr_headers = [], fr_data = None, fr_method = None, fr_allow_hosts = None\<rparr>"

type_synonym fetcher = "fetch_request \<Rightarrow> (string \<times> string) net"

definition text_content_types :: "string list" where
  "text_content_types = [''text/html'', ''text/plain'', ''text/markdown'', ''text/csv'']"

definition without_authorization :: "headers \<Rightarrow> headers" where
  "without_authorization hs = filter (\<lambda>(k, v). py_lower k \<noteq> ''authorization'') hs"

fun fetch_hops ::
  "net_env \<Rightarrow> string list option \<Rightarrow> nat \<Rightarrow> string \<Rightarrow> string \<Rightarrow> headers \<Rightarrow> string option \<Rightarrow> string \<Rightarrow> (string \<times> string) net" where
  "fetch_hops env allow_hosts 0 current current_host headers data verb tr = (tr, Inl ValueError)"
| "fetch_hops env allow_hosts (Suc hops) current current_host headers data verb tr =
     (case open_validated env current headers data verb allow_hosts tr of
        (tr, Inl e) \<Rightarrow> (tr, Inl e)
      | (tr, Inr resp) \<Rightarrow>
          if wp_status resp \<in> {301, 302, 303, 307, 308} then
            (case wp_location resp of
               Some (c # cs) \<Rightarrow>
                 (case rbind (urljoin (ne_netloc_ok env) current (c # cs)) (\<lambda>next.
                         rbind (urlparse (ne_netloc_ok env) next) (\<lambda>u. Inr (next, py_lower (url_hostname u)))) of
                    Inl e \<Rightarrow> (tr, Inl e)
                  | Inr (next, next_host) \<Rightarrow>
                      (let headers = (if next_host \<noteq> current_host then without_authorization headers else headers);
                           reset = wp_status resp \<in> {301, 302, 303}
                       in fetch_hops env allow_hosts hops next next_host headers (if reset then None else data)
                            (if reset then ''GET'' else verb) tr))
             | _ \<Rightarrow> (tr, Inl ValueError))
          else if 400 \<le> wp_status resp then (tr, Inl ValueError)
          else
            (tr, Inr (wp_body resp,
               if wp_content_type resp \<in> set text_content_types then wp_content_type resp else ''text/plain'')))"

definition max_redirects :: nat where
  "max_redirects = 4"

definition fetch_url :: "net_env \<Rightarrow> fetcher" where
  "fetch_url env req tr =
     (let verb = (case fr_method req of Some (c # cs) \<Rightarrow> c # cs | _ \<Rightarrow> if fr_data req = None then ''GET'' else ''POST'');
          headers = py_update [(''User-Agent'', ''raku-rag-source-sync/0.1'')] (fr_headers req)
      in case urlparse (ne_netloc_ok env) (fr_url req) of
           Inl e \<Rightarrow> (tr, Inl e)
         | Inr u \<Rightarrow>
             fetch_hops env (fr_allow_hosts req) (max_redirects + 1) (fr_url req) (py_lower (url_hostname u)) headers
               (fr_data req) verb tr)"

section \<open>What a guarded request is\<close>

definition public_answer :: "net_env \<Rightarrow> ip_address list option \<Rightarrow> bool" where
  "public_answer env ans \<longleftrightarrow> (case ans of None \<Rightarrow> False | Some ips \<Rightarrow> \<not> list_ex (is_blocked_ip (ne_flags env)) ips)"

definition guarded_wire :: "net_env \<Rightarrow> string list option \<Rightarrow> egress list \<Rightarrow> wire_request \<Rightarrow> bool" where
  "guarded_wire env allow_hosts tr w \<longleftrightarrow>
     wq_scheme w \<in> {''http'', ''https''} \<and> wq_host w \<noteq> [] \<and>
     host_permitted allow_hosts (wq_host w) \<and>
     (case ne_resolve env tr (wq_host w) (Some (wq_port w)) of
        Some (ip # ips) \<Rightarrow> wq_ip w = ip \<and> \<not> list_ex (is_blocked_ip (ne_flags env)) (ip # ips)
      | _ \<Rightarrow> False)"

fun guarded_from :: "(egress list \<Rightarrow> egress \<Rightarrow> bool) \<Rightarrow> egress list \<Rightarrow> egress list \<Rightarrow> bool" where
  "guarded_from ok tr [] = True"
| "guarded_from ok tr (e # es) = (ok tr e \<and> guarded_from ok (tr @ [e]) es)"

lemma guarded_from_append: "guarded_from ok tr (xs @ ys) \<longleftrightarrow> guarded_from ok tr xs \<and> guarded_from ok (tr @ xs) ys"
  by (induction xs arbitrary: tr) simp_all

lemma guarded_from_mono:
  "(\<And>tr e. ok tr e \<Longrightarrow> ok' tr e) \<Longrightarrow> guarded_from ok tr es \<Longrightarrow> guarded_from ok' tr es"
  by (induction es arbitrary: tr) simp_all

text \<open>A computation that only appends events of a kind.\<close>

definition emits :: "(egress list \<Rightarrow> egress \<Rightarrow> bool) \<Rightarrow> 'a net \<Rightarrow> bool" where
  "emits ok m \<longleftrightarrow> (\<forall>tr. \<exists>new. fst (m tr) = tr @ new \<and> guarded_from ok tr new)"

fun wire_ok :: "net_env \<Rightarrow> string list option \<Rightarrow> egress list \<Rightarrow> egress \<Rightarrow> bool" where
  "wire_ok env allow_hosts tr (Wire w) = guarded_wire env allow_hosts tr w"
| "wire_ok env allow_hosts tr _ = False"

lemma pin_public_Inr:
  "pin_public flags pinned ips = Inr ip \<Longrightarrow>
     \<not> list_ex (is_blocked_ip flags) ips \<and> (case pinned of Some p \<Rightarrow> ip = p | None \<Rightarrow> \<exists>rest. ips = ip # rest)"
proof (induction flags pinned ips rule: pin_public.induct)
  case (2 flags pinned ip' ips)
  then show ?case by (cases pinned) (auto split: if_splits)
qed (auto split: option.splits)

lemma assert_public_host_Inr:
  assumes "assert_public_host env allow_hosts url tr = Inr ip"
  obtains u p rest where "urlparse (ne_netloc_ok env) url = Inr u" "up_scheme u \<in> {''http'', ''https''}" "url_hostname u \<noteq> []"
    "host_permitted allow_hosts (url_hostname u)" "url_port u = Inr p"
    "ne_resolve env tr (url_hostname u) (Some (url_default_port u p)) = Some (ip # rest)"
    "\<not> list_ex (is_blocked_ip (ne_flags env)) (ip # rest)"
proof -
  from assms obtain u where u: "urlparse (ne_netloc_ok env) url = Inr u" and
    1: "(if up_scheme u \<notin> {''http'', ''https''} then Inl ValueError
       else if url_hostname u = [] then Inl ValueError
       else if \<not> host_permitted allow_hosts (url_hostname u) then Inl ValueError
       else rbind (url_port u) (\<lambda>p.
         case ne_resolve env tr (url_hostname u) (Some (url_default_port u p)) of
           None \<Rightarrow> Inl ValueError
         | Some ips \<Rightarrow> pin_public (ne_flags env) None ips)) = Inr ip"
    unfolding assert_public_host_def rbind_Inr_iff by blast
  then have s: "up_scheme u \<in> {''http'', ''https''}" "url_hostname u \<noteq> []" "host_permitted allow_hosts (url_hostname u)"
    by (simp_all split: if_splits)
  with 1 obtain p where p: "url_port u = Inr p" and
    2: "(case ne_resolve env tr (url_hostname u) (Some (url_default_port u p)) of
           None \<Rightarrow> Inl ValueError
         | Some ips \<Rightarrow> pin_public (ne_flags env) None ips) = Inr ip" by (auto simp: rbind_Inr_iff)
  then obtain ips where ips: "ne_resolve env tr (url_hostname u) (Some (url_default_port u p)) = Some ips"
    "pin_public (ne_flags env) None ips = Inr ip" by (auto split: option.splits)
  from pin_public_Inr [OF ips(2)] obtain rest where "ips = ip # rest" "\<not> list_ex (is_blocked_ip (ne_flags env)) ips" by auto
  with that u s p ips(1) show ?thesis by simp
qed

lemma open_validated_cases:
  "(\<exists>e. open_validated env url headers data verb allow_hosts tr = (tr, Inl e)) \<or>
   (\<exists>w u. open_validated env url headers data verb allow_hosts tr = (tr @ [Wire w], ne_respond env tr w) \<and>
      guarded_wire env allow_hosts tr w \<and> urlparse (ne_netloc_ok env) url = Inr u \<and> wq_host w = url_hostname u \<and>
      wq_headers w = headers \<and> wq_body w = data)"
proof (cases "assert_public_host env allow_hosts url tr")
  case (Inl e)
  then show ?thesis by (simp add: open_validated_def)
next
  case (Inr ip)
  from assert_public_host_Inr [OF Inr] obtain u p rest where
    u: "urlparse (ne_netloc_ok env) url = Inr u" "up_scheme u \<in> {''http'', ''https''}" "url_hostname u \<noteq> []"
      "host_permitted allow_hosts (url_hostname u)" "url_port u = Inr p"
      "ne_resolve env tr (url_hostname u) (Some (url_default_port u p)) = Some (ip # rest)"
      "\<not> list_ex (is_blocked_ip (ne_flags env)) (ip # rest)" by metis
  let ?w = "\<lparr>wq_scheme = up_scheme u, wq_host = url_hostname u, wq_port = url_default_port u p, wq_ip = ip,
                    wq_method = verb, wq_target = wire_target u, wq_headers = headers, wq_body = data\<rparr>"
  have "open_validated env url headers data verb allow_hosts tr = (tr @ [Wire ?w], ne_respond env tr ?w)"
    by (simp add: open_validated_def Inr u(1,5))
  moreover have "guarded_wire env allow_hosts tr ?w" using u(2-4,6,7) unfolding guarded_wire_def by simp
  ultimately show ?thesis using u(1) by (intro disjI2 exI [of _ ?w] exI [of _ u]) simp
qed

section \<open>Every hop of a fetch\<close>

definition has_authorization :: "headers \<Rightarrow> bool" where
  "has_authorization hs \<longleftrightarrow> list_ex (\<lambda>(k, v). py_lower k = ''authorization'') hs"

lemma without_authorization_sub: "set (without_authorization hs) \<subseteq> set hs" "\<not> has_authorization (without_authorization hs)"
  by (auto simp: without_authorization_def has_authorization_def list_ex_iff)

lemma has_authorization_sub: "set hs \<subseteq> set hs' \<Longrightarrow> has_authorization hs \<Longrightarrow> has_authorization hs'"
  by (auto simp: has_authorization_def list_ex_iff)

text \<open>What a sent event shows of the request that caused it: its headers are among those given, the ones besides the
  authorization are all there, and an authorization only goes home.\<close>

fun event_of :: "headers \<Rightarrow> string \<Rightarrow> egress \<Rightarrow> bool" where
  "event_of headers home (Wire w) =
     (set (wq_headers w) \<subseteq> set headers \<and> set (without_authorization headers) \<subseteq> set (wq_headers w) \<and>
      (has_authorization (wq_headers w) \<longrightarrow> py_lower (wq_host w) = home))"
| "event_of headers home _ = False"

lemma without_authorization_idem [simp]: "without_authorization (without_authorization hs) = without_authorization hs"
  by (simp add: without_authorization_def)

lemma event_of_dropped:
  assumes "event_of (without_authorization headers) next e"
  shows "event_of headers home e"
proof -
  from assms obtain w where w: "e = Wire w" by (cases e) auto
  with assms have sub: "set (wq_headers w) \<subseteq> set (without_authorization headers)" "set (without_authorization headers) \<subseteq> set (wq_headers w)"
    by simp_all
  then have "\<not> has_authorization (wq_headers w)" using has_authorization_sub without_authorization_sub(2) by blast
  with sub without_authorization_sub(1) w show ?thesis by auto
qed

lemma fetch_hops_run:
  assumes "urlparse (ne_netloc_ok env) current = Inr u" and "home = py_lower (url_hostname u)"
  shows "\<exists>new. fst (fetch_hops env allow_hosts hops current home headers data verb tr) = tr @ new \<and>
    guarded_from (wire_ok env allow_hosts) tr new \<and> length new \<le> hops \<and> list_all (event_of headers home) new"
  using assms
proof (induction hops arbitrary: current home headers data verb tr u)
  case (Suc hops)
  let ?run = "fetch_hops env allow_hosts (Suc hops) current home headers data verb tr"
  have done': ?case if "fst ?run = tr" using that by (intro exI [of _ "[]"]) simp
  from open_validated_cases [of env current headers data verb allow_hosts tr]
  consider (raised) e where "open_validated env current headers data verb allow_hosts tr = (tr, Inl e)"
    | (sent) w v where "open_validated env current headers data verb allow_hosts tr = (tr @ [Wire w], ne_respond env tr w)"
        "guarded_wire env allow_hosts tr w" "urlparse (ne_netloc_ok env) current = Inr v" "wq_host w = url_hostname v" "wq_headers w = headers"
    by blast
  then show ?case
  proof cases
    case raised
    then show ?thesis by (intro done') simp
  next
    case sent
    have w: "wire_ok env allow_hosts tr (Wire w)" "event_of headers home (Wire w)"
      using sent(2-5) Suc.prems without_authorization_sub(1) by auto
    have one: ?thesis if "fst ?run = tr @ [Wire w]" using that w by (intro exI [of _ "[Wire w]"]) simp
    show ?thesis
    proof (cases "ne_respond env tr w")
      case (Inl e)
      with sent(1) show ?thesis by (intro one) simp
    next
      case resp: (Inr resp)
      let ?next = "\<lambda>loc. rbind (urljoin (ne_netloc_ok env) current loc) (\<lambda>next.
                         rbind (urlparse (ne_netloc_ok env) next) (\<lambda>u. Inr (next, py_lower (url_hostname u))))"
      show ?thesis
      proof (cases "wp_status resp \<in> {301, 302, 303, 307, 308} \<and> (\<exists>c cs nx. wp_location resp = Some (c # cs) \<and> ?next (c # cs) = Inr nx)")
        case False
        then show ?thesis using sent(1) resp
          by (intro one) (auto split: option.splits list.splits sum.splits simp: Let_def simp del: rbind.simps)
      next
        case True
        then obtain c cs nx where loc: "wp_location resp = Some (c # cs)" "?next (c # cs) = Inr nx" by blast
        obtain nxt nh where nx: "nx = (nxt, nh)" by (cases nx)
        with loc(2) obtain v where v: "urlparse (ne_netloc_ok env) nxt = Inr v" "nh = py_lower (url_hostname v)"
          by (auto simp: rbind_Inr_iff)
        let ?headers = "if nh \<noteq> home then without_authorization headers else headers"
        let ?reset = "wp_status resp \<in> {301, 302, 303}"
        have run: "?run = fetch_hops env allow_hosts hops nxt nh ?headers (if ?reset then None else data)
            (if ?reset then ''GET'' else verb) (tr @ [Wire w])"
          using sent(1) resp True loc nx by (simp add: Let_def del: rbind.simps)
        from Suc.IH [OF v, of ?headers "if ?reset then None else data" "if ?reset then ''GET'' else verb" "tr @ [Wire w]"]
        obtain new where new: "fst ?run = (tr @ [Wire w]) @ new" "guarded_from (wire_ok env allow_hosts) (tr @ [Wire w]) new"
            "length new \<le> hops" "list_all (event_of ?headers nh) new" unfolding run by blast
        have "list_all (event_of headers home) new"
          using new(4) event_of_dropped by (cases "nh = home") (auto simp: list_all_iff)
        with new w show ?thesis by (intro exI [of _ "Wire w # new"]) simp
      qed
    qed
  qed
qed simp

lemma fetch_url_run:
  "\<exists>new. fst (fetch_url env req tr) = tr @ new \<and> guarded_from (wire_ok env (fr_allow_hosts req)) tr new \<and> length new \<le> max_redirects + 1 \<and>
    (case urlparse (ne_netloc_ok env) (fr_url req) of Inl e \<Rightarrow> new = []
     | Inr u \<Rightarrow> list_all (event_of (py_update [(''User-Agent'', ''raku-rag-source-sync/0.1'')] (fr_headers req))
         (py_lower (url_hostname u))) new)"
proof (cases "urlparse (ne_netloc_ok env) (fr_url req)")
  case (Inl e)
  then show ?thesis by (simp add: fetch_url_def Let_def)
next
  case (Inr u)
  show ?thesis unfolding fetch_url_def Let_def Inr sum.case by (rule fetch_hops_run [OF Inr refl])
qed

text \<open>C15: No request leaves unchecked: a fetch sends at most five requests, one per hop, and each of them, redirects
  included, goes by http or https to the first address its host resolved to in that very moment, at a host the
  connector allows, when no address the host resolved to is private, loopback, link-local, reserved, multicast,
  unspecified or of the carrier-grade range.\<close>

theorem fetch_egress_guarded:
  "\<exists>new. fst (fetch_url env req tr) = tr @ new \<and> length new \<le> 5 \<and> guarded_from (wire_ok env (fr_allow_hosts req)) tr new"
  using fetch_url_run [of env req tr] by (auto simp: max_redirects_def)

text \<open>C32: An Authorization header never leaves home: of the requests a fetch sends, only those to the host of the given
  URL carry it, whatever the servers answer. Every other header of the caller, an API token under its own name
  included, is sent to every host the redirects lead to.\<close>

theorem credentials_stay_home:
  assumes "urlparse (ne_netloc_ok env) (fr_url req) = Inr u"
  shows "\<exists>new. fst (fetch_url env req tr) = tr @ new \<and>
    list_all (\<lambda>e. case e of
        Wire w \<Rightarrow> (has_authorization (wq_headers w) \<longrightarrow> py_lower (wq_host w) = py_lower (url_hostname u)) \<and>
          set (without_authorization (py_update [(''User-Agent'', ''raku-rag-source-sync/0.1'')] (fr_headers req))) \<subseteq> set (wq_headers w)
      | _ \<Rightarrow> False) new"
proof -
  from fetch_url_run [of env req tr] assms obtain new where "fst (fetch_url env req tr) = tr @ new"
    "list_all (event_of (py_update [(''User-Agent'', ''raku-rag-source-sync/0.1'')] (fr_headers req)) (py_lower (url_hostname u))) new" by auto
  moreover have "case e of
        Wire w \<Rightarrow> (has_authorization (wq_headers w) \<longrightarrow> py_lower (wq_host w) = home) \<and> set (without_authorization hs) \<subseteq> set (wq_headers w)
      | _ \<Rightarrow> False" if "event_of hs home e" for e hs home
    using that by (cases e) simp_all
  ultimately show ?thesis by (intro exI [of _ new]) (simp add: list_all_iff)
qed

text \<open>A server that answers from one customer's host with a redirect to another's.\<close>

definition sample_net_env :: net_env where
  "sample_net_env =
     \<lparr>ne_netloc_ok = (\<lambda>_. True), ne_resolve = (\<lambda>_ _ _. Some [IPv6 0]),
      ne_flags = (\<lambda>_. \<lparr>ip_private = False, ip_loopback = False, ip_link_local = False, ip_reserved = False,
        ip_multicast = False, ip_unspecified = False\<rparr>),
      ne_respond = (\<lambda>_ w. Inr (if wq_host w = ''a.cybozu.com''
        then \<lparr>wp_status = 302, wp_location = Some ''//b.cybozu.com/x'', wp_content_type = ''text/plain'', wp_body = []\<rparr>
        else \<lparr>wp_status = 200, wp_location = None, wp_content_type = ''text/plain'', wp_body = []\<rparr>))\<rparr>"

definition sample_fetch :: fetch_request where
  "sample_fetch =
     \<lparr>fr_url = ''https://a.cybozu.com/k/v1/records.json'', fr_headers = [(''X-Cybozu-API-Token'', ''secret''), (''Authorization'', ''Basic x'')],
      fr_data = None, fr_method = None, fr_allow_hosts = Some [''cybozu.com'']\<rparr>"

lemma sample_fetch_hosts:
  "map (\<lambda>e. case e of Wire w \<Rightarrow> wq_host w | _ \<Rightarrow> []) (fst (fetch_url sample_net_env sample_fetch [])) = [''a.cybozu.com'', ''b.cybozu.com'']"
  by code_simp

theorem credentials_stay_home_witness:
  "\<exists>w1 w2. fst (fetch_url sample_net_env sample_fetch []) = [Wire w1, Wire w2] \<and> wq_host w2 = ''b.cybozu.com'' \<and>
    \<not> has_authorization (wq_headers w2) \<and> (''X-Cybozu-API-Token'', ''secret'') \<in> set (wq_headers w2)"
proof -
  have u: "\<exists>u. urlparse (ne_netloc_ok sample_net_env) (fr_url sample_fetch) = Inr u \<and> py_lower (url_hostname u) = ''a.cybozu.com''"
    by (rule exI [of _ "\<lparr>up_scheme = ''https'', up_netloc = ''a.cybozu.com'', up_path = ''/k/v1/records.json'', up_params = [],
        up_query = [], up_fragment = []\<rparr>"]) code_simp
  then obtain u where u: "urlparse (ne_netloc_ok sample_net_env) (fr_url sample_fetch) = Inr u" "py_lower (url_hostname u) = ''a.cybozu.com''"
    by blast
  from credentials_stay_home [OF u(1), of "[]"] obtain new where new: "fst (fetch_url sample_net_env sample_fetch []) = new"
    "list_all (\<lambda>e. case e of
        Wire w \<Rightarrow> (has_authorization (wq_headers w) \<longrightarrow> py_lower (wq_host w) = ''a.cybozu.com'') \<and>
          set (without_authorization (py_update [(''User-Agent'', ''raku-rag-source-sync/0.1'')] (fr_headers sample_fetch))) \<subseteq> set (wq_headers w)
      | _ \<Rightarrow> False) new" unfolding u(2) by auto
  have token: "(''X-Cybozu-API-Token'', ''secret'') \<in>
      set (without_authorization (py_update [(''User-Agent'', ''raku-rag-source-sync/0.1'')] (fr_headers sample_fetch)))"
    by code_simp
  have other: "py_lower ''b.cybozu.com'' \<noteq> ''a.cybozu.com''" by code_simp
  from sample_fetch_hosts new(1) have "map (\<lambda>e. case e of Wire w \<Rightarrow> wq_host w | _ \<Rightarrow> []) new = [''a.cybozu.com'', ''b.cybozu.com'']" by simp
  then obtain e1 e2 where e: "new = [e1, e2]" "(case e2 of Wire w \<Rightarrow> wq_host w | _ \<Rightarrow> []) = ''b.cybozu.com''" by auto
  with new(2) obtain w1 w2 where w: "e1 = Wire w1" "e2 = Wire w2" by (cases e1; cases e2) auto
  with e new token other show ?thesis by (intro exI [of _ w1] exI [of _ w2]) auto
qed

end
