(* ===== verification/SourceText.thy ===== *)
theory SourceText
  imports PyUrl
begin

text \<open>
  The pure half of \<open>services/datasource_sync.py\<close>: how a saved configuration is read, how identifiers, content types
  and SQL names are made, and how rows and Notion blocks become text. \<open>int\<close> of a string, SHA-1 and the JSON
  printer are arguments.
\<close>

section \<open>Reading a configuration\<close>

definition as_mapping :: "pyval \<Rightarrow> pydict" where
  "as_mapping v = (case v of PDict d \<Rightarrow> d | _ \<Rightarrow> [])"

definition str_value :: "pydict \<Rightarrow> pydict \<Rightarrow> string list \<Rightarrow> string \<Rightarrow> string" where
  "str_value body config keys dflt =
     (case find (\<lambda>v. v \<noteq> PNone \<and> py_strip (py_str v) \<noteq> []) (map (py_get body) keys @ map (py_get config) keys) of
        None \<Rightarrow> dflt
      | Some v \<Rightarrow> py_strip (py_str v))"

definition int_value :: "(string \<Rightarrow> int option) \<Rightarrow> pydict \<Rightarrow> pydict \<Rightarrow> string list \<Rightarrow> int \<Rightarrow> int" where
  "int_value parse_int body config keys dflt =
     (case parse_int (str_value body config keys (int_str dflt)) of None \<Rightarrow> dflt | Some i \<Rightarrow> i)"

definition bool_value :: "pydict \<Rightarrow> pydict \<Rightarrow> string list \<Rightarrow> bool" where
  "bool_value body config keys \<longleftrightarrow> py_lower (py_strip (str_value body config keys [])) \<in> {''1'', ''true'', ''yes'', ''on''}"

section \<open>Identifiers and content types\<close>

definition parseable_content_types :: "string list" where
  "parseable_content_types =
     [''text/plain'', ''text/markdown'', ''text/html'', ''text/csv'',
      ''application/vnd.openxmlformats-officedocument.wordprocessingml.document'',
      ''application/vnd.openxmlformats-officedocument.spreadsheetml.sheet'']"

definition parseable_extensions :: "string list" where
  "parseable_extensions = [''.txt'', ''.md'', ''.markdown'', ''.csv'', ''.html'', ''.htm'', ''.docx'', ''.xlsx'']"

definition has_parseable_extension :: "string \<Rightarrow> bool" where
  "has_parseable_extension name = list_ex (ends_with (py_lower name)) parseable_extensions"

definition content_type_for_path :: "string \<Rightarrow> string" where
  "content_type_for_path path =
     (if ends_with path ''.html'' \<or> ends_with path ''.htm'' then ''text/html''
      else if ends_with path ''.md'' \<or> ends_with path ''.markdown'' then ''text/markdown''
      else if ends_with path ''.csv'' then ''text/csv''
      else if ends_with path ''.docx'' then ''application/vnd.openxmlformats-officedocument.wordprocessingml.document''
      else if ends_with path ''.xlsx'' then ''application/vnd.openxmlformats-officedocument.spreadsheetml.sheet''
      else ''text/plain'')"

definition content_type_for_name :: "string \<Rightarrow> string" where
  "content_type_for_name name = content_type_for_path (py_lower name)"

definition content_type_for_ref :: "(string \<Rightarrow> bool) \<Rightarrow> string \<Rightarrow> string result" where
  "content_type_for_ref netloc_ok ref =
     rbind (urlparse netloc_ok ref) (\<lambda>u. Inr (content_type_for_path (py_lower (up_path u))))"

definition safe_id_char :: "char \<Rightarrow> bool" where
  "safe_id_char c \<longleftrightarrow> is_alnum c \<or> c \<in> set ''._-''"

text \<open>\<open>re.sub(r"[^A-Za-z0-9._-]+", "-", s)\<close>.\<close>

fun dash_runs :: "bool \<Rightarrow> string \<Rightarrow> string" where
  "dash_runs in_run [] = []"
| "dash_runs in_run (c # s) =
     (if safe_id_char c then c # dash_runs False s
      else if in_run then dash_runs True s else CHR ''-'' # dash_runs True s)"

definition document_id :: "(string \<Rightarrow> string) \<Rightarrow> string \<Rightarrow> string \<Rightarrow> string" where
  "document_id sha1 source_id ref =
     (let digest = take 10 (sha1 ref);
          name = after_last (CHR ''/'') ref;
          stem = dash_runs False (if name = [] then source_id else name);
          stem = take 48 (rstrip_chars ''-._'' (lstrip_chars ''-._'' stem))
      in source_id @ ''-'' @ (if stem = [] then ''document'' else stem) @ ''-'' @ digest)"

lemma content_type_parseable [simp]: "content_type_for_path path \<in> set parseable_content_types"
  by (simp add: content_type_for_path_def parseable_content_types_def)

section \<open>SQL names\<close>

definition ident_start :: "char \<Rightarrow> bool" where
  "ident_start c \<longleftrightarrow> is_alpha c \<or> c = CHR ''_''"

definition is_sql_ident :: "string \<Rightarrow> bool" where
  "is_sql_ident name \<longleftrightarrow> name \<noteq> [] \<and> ident_start (hd name) \<and> list_all (\<lambda>c. ident_start c \<or> is_digit c) (tl name)"

definition quote_ident :: "string \<Rightarrow> string \<Rightarrow> string result" where
  "quote_ident quote name = (if is_sql_ident name then Inr (quote @ name @ quote) else Inl ValueError)"

definition quote_table :: "string \<Rightarrow> string \<Rightarrow> string result" where
  "quote_table quote name =
     (let parts = map py_strip (filter (\<lambda>p. py_strip p \<noteq> []) (split_on (CHR ''.'') name))
      in if parts = [] \<or> 2 < length parts then Inl ValueError
         else rbind (rmap (quote_ident quote) parts) (\<lambda>qs. Inr (str_join ''.'' qs)))"

definition postgres_query :: "string \<Rightarrow> string \<Rightarrow> string result" where
  "postgres_query table_name updated_column =
     rbind (quote_table [CHR 0x22] table_name) (\<lambda>table.
     rbind (if updated_column = [] then Inr []
            else rbind (quote_ident [CHR 0x22] updated_column) (\<lambda>c. Inr ('' ORDER BY '' @ c @ '' DESC NULLS LAST''))) (\<lambda>order.
       Inr (''SELECT * FROM '' @ table @ order @ '' LIMIT %s'')))"

definition mysql_query :: "string \<Rightarrow> string \<Rightarrow> string result" where
  "mysql_query table_name updated_column =
     rbind (quote_table ''`'' table_name) (\<lambda>table.
     rbind (if updated_column = [] then Inr []
            else rbind (quote_ident ''`'' updated_column) (\<lambda>c. Inr ('' ORDER BY ('' @ c @ '' IS NULL), '' @ c @ '' DESC''))) (\<lambda>order.
       Inr (''SELECT * FROM '' @ table @ order @ '' LIMIT %s'')))"

section \<open>The host a DSN names\<close>

function until_ws :: "string \<Rightarrow> string" where
  "until_ws [] = []"
| "until_ws (c # s) = (if first_stripped ws_encodings (c # s) \<noteq> None then [] else c # until_ws s)"
  by pat_completeness auto
termination by (relation "measure length") auto

text \<open>\<open>re.search(r"(?:^|\s)host=([^\s]+)", dsn)\<close>; \<open>at_start\<close> says that a match may begin here.\<close>

function host_token :: "bool \<Rightarrow> string \<Rightarrow> string" where
  "host_token at_start s =
     (if at_start \<and> starts_with s ''host='' \<and> until_ws (drop 5 s) \<noteq> [] then until_ws (drop 5 s)
      else case s of
        [] \<Rightarrow> []
      | c # r \<Rightarrow>
          (case first_stripped ws_encodings s of
             None \<Rightarrow> host_token False r
           | Some q \<Rightarrow> if length q < length s then host_token True q else []))"
  by pat_completeness auto
termination by (relation "measure (\<lambda>(b, s). length s)") auto

declare host_token.simps [simp del]

definition db_host :: "(string \<Rightarrow> bool) \<Rightarrow> string \<Rightarrow> string result" where
  "db_host netloc_ok dsn =
     rbind (urlparse netloc_ok dsn) (\<lambda>u.
       if up_scheme u \<noteq> [] \<and> url_hostname u \<noteq> [] then Inr (url_hostname u) else Inr (host_token True dsn))"

definition db_engine :: "(string \<Rightarrow> bool) \<Rightarrow> pydict \<Rightarrow> pydict \<Rightarrow> string \<Rightarrow> string result" where
  "db_engine netloc_ok body config dsn =
     (let explicit = py_lower (str_value body config [''db_engine'', ''engine'', ''driver''] [])
      in if explicit \<in> {''mysql'', ''mariadb''} then Inr ''mysql''
         else if explicit \<in> {''postgres'', ''postgresql'', ''pg''} then Inr ''postgres''
         else rbind (urlparse netloc_ok dsn) (\<lambda>u.
           let scheme = py_lower (up_scheme u)
           in Inr (if starts_with scheme ''mysql'' \<or> starts_with scheme ''mariadb'' then ''mysql'' else ''postgres'')))"

text \<open>The host and port \<open>_mysql_connect\<close> hands to the driver.\<close>

definition mysql_target :: "(string \<Rightarrow> bool) \<Rightarrow> string \<Rightarrow> (string \<times> nat) result" where
  "mysql_target netloc_ok dsn =
     rbind (urlparse netloc_ok dsn) (\<lambda>u.
     rbind (url_port u) (\<lambda>p.
       Inr (if url_hostname u = [] then ''127.0.0.1'' else url_hostname u, case p of Some (Suc n) \<Rightarrow> Suc n | _ \<Rightarrow> 3306)))"

section \<open>Rows and records as text\<close>

definition nl :: string where
  "nl = [CHR 0x0A]"

definition json_value :: "(pyval \<Rightarrow> string) \<Rightarrow> pyval \<Rightarrow> string" where
  "json_value dumps v = (case v of PNone \<Rightarrow> [] | PList _ \<Rightarrow> dumps v | PDict _ \<Rightarrow> dumps v | _ \<Rightarrow> py_str v)"

definition row_lines :: "(pyval \<Rightarrow> string) \<Rightarrow> nat \<Rightarrow> pydict \<Rightarrow> string list" where
  "row_lines dumps index row =
     (''## row '' @ nat_str index) # map (\<lambda>(k, v). k @ '': '' @ json_value dumps v) row @ [[]]"

definition rows_to_text :: "(pyval \<Rightarrow> string) \<Rightarrow> string \<Rightarrow> pydict list \<Rightarrow> string" where
  "rows_to_text dumps title rows =
     (let lines = [''# '' @ title, []] @ concat (map (\<lambda>(i, r). row_lines dumps i r) (enumerate 1 rows));
          lines = (if length lines = 2 then lines @ [''(no rows)''] else lines)
      in py_strip (str_join nl lines))"

definition kintone_value :: "pyval \<Rightarrow> pyval" where
  "kintone_value v = (case v of PDict d \<Rightarrow> (case dget d ''value'' of Some w \<Rightarrow> w | None \<Rightarrow> v) | _ \<Rightarrow> v)"

definition kintone_row :: "pyval \<Rightarrow> pydict list" where
  "kintone_row v =
     (case v of
        PDict d \<Rightarrow> [map (\<lambda>(k, v). (k, kintone_value v)) (filter (\<lambda>(k, v). \<not> starts_with k ''$'') d)]
      | _ \<Rightarrow> [])"

section \<open>Notion\<close>

definition span_text :: "pyval \<Rightarrow> string" where
  "span_text v =
     (case v of
        PDict d \<Rightarrow>
          (let t = (case py_get d ''plain_text'' of
                      PNone \<Rightarrow> (case py_get d ''text'' of PDict inner \<Rightarrow> py_get inner ''content'' | _ \<Rightarrow> PNone)
                    | w \<Rightarrow> w)
           in if py_truthy t then py_str t else [])
      | _ \<Rightarrow> [])"

definition notion_rich_text :: "pyval \<Rightarrow> string" where
  "notion_rich_text v = (case v of PList spans \<Rightarrow> concat (map span_text spans) | _ \<Rightarrow> [])"

definition notion_page_title :: "pydict \<Rightarrow> string" where
  "notion_page_title page =
     (case py_get page ''properties'' of
        PDict props \<Rightarrow>
          (case find (\<lambda>(k, v). case v of PDict d \<Rightarrow> py_get d ''type'' = PStr ''title'' | _ \<Rightarrow> False) props of
             Some (k, PDict d) \<Rightarrow> notion_rich_text (py_get d ''title'')
           | _ \<Rightarrow> [])
      | _ \<Rightarrow> [])"

definition notion_block_lines :: "pyval \<Rightarrow> string list" where
  "notion_block_lines block =
     (case block of
        PDict d \<Rightarrow>
          (let kind = py_get_str d ''type'';
               payload = py_get d kind;
               fields = as_mapping payload;
               t = notion_rich_text (py_get fields ''rich_text'')
           in if kind = ''heading_1'' then [''# '' @ t]
              else if kind = ''heading_2'' then [''## '' @ t]
              else if kind = ''heading_3'' then [''### '' @ t]
              else if kind = ''bulleted_list_item'' then [''- '' @ t]
              else if kind = ''numbered_list_item'' then [''1. '' @ t]
              else if kind = ''to_do'' then [''- ['' @ (if py_truthy (py_get fields ''checked'') then ''x'' else '' '') @ ''] '' @ t]
              else if kind \<in> {''quote'', ''callout''} then [''> '' @ t]
              else if kind = ''code''
              then [''```'' @ py_get_str fields ''language'' @ nl @ t @ nl @ ''```'']
              else if t \<noteq> [] then [t] else [])
      | _ \<Rightarrow> [])"

definition notion_blocks_to_markdown :: "pyval list \<Rightarrow> string" where
  "notion_blocks_to_markdown blocks = py_strip (str_join nl (concat (map notion_block_lines blocks)))"

section \<open>Google Drive\<close>

definition gdrive_folder_id :: "string \<Rightarrow> string" where
  "gdrive_folder_id raw =
     (let raw = py_strip raw
      in if raw = [] then ''root''
         else if str_contains ''drive.google.com'' raw \<and> str_contains ''/folders/'' raw then
           (let tail = (case dropWhile (\<lambda>n. \<not> starts_with (drop n raw) ''/folders/'') [0..<length raw] of
                          [] \<Rightarrow> [] | n # _ \<Rightarrow> drop (n + 9) raw);
                f = before (CHR ''/'') (before (CHR ''?'') tail)
            in if f = [] then ''root'' else f)
         else raw)"

definition gdrive_export :: "(string \<times> string) list" where
  "gdrive_export =
     [(''application/vnd.google-apps.document'', ''text/html''),
      (''application/vnd.google-apps.spreadsheet'', ''text/csv''),
      (''application/vnd.google-apps.presentation'', ''text/plain'')]"

section \<open>SQL text is built of plain identifiers\<close>

lemma quote_ident_Inr: "quote_ident q n = Inr s \<longleftrightarrow> is_sql_ident n \<and> s = q @ n @ q"
  by (auto simp: quote_ident_def)

lemma rmap_Inr_iff: "rmap f xs = Inr ys \<longleftrightarrow> list_all2 (\<lambda>x y. f x = Inr y) xs ys"
  by (induction xs arbitrary: ys) (auto simp: rbind_Inr_iff list_all2_Cons1)

lemma quote_table_Inr:
  assumes "quote_table q name = Inr s"
  shows "\<exists>parts. parts \<noteq> [] \<and> length parts \<le> 2 \<and> list_all is_sql_ident parts \<and> s = str_join ''.'' (map (\<lambda>p. q @ p @ q) parts)"
proof -
  let ?parts = "map py_strip (filter (\<lambda>p. py_strip p \<noteq> []) (split_on (CHR ''.'') name))"
  from assms obtain qs where qs: "rmap (quote_ident q) ?parts = Inr qs" "s = str_join ''.'' qs" "?parts \<noteq> []" "length ?parts \<le> 2"
    by (auto simp: quote_table_def Let_def rbind_Inr_iff split: if_splits)
  have "list_all is_sql_ident parts \<and> qs = map (\<lambda>p. q @ p @ q) parts" if "rmap (quote_ident q) parts = Inr qs" for parts qs
    using that by (induction parts arbitrary: qs) (auto simp: rbind_Inr_iff quote_ident_Inr)
  with qs show ?thesis by blast
qed

end
