(* ===== verification/SourceSync.thy ===== *)
theory SourceSync
  imports Egress SourceText "HOL-Library.While_Combinator"
begin

text \<open>
  Building documents from configured data sources: the connectors and the dispatch of
  \<open>services/datasource_sync.py\<close>. JSON decoding, SHA-1, the tags an HTML page opens, the rows a database driver
  answers and the objects of an S3 client are arguments; the fetch is the seam \<open>fetch_url\<close> of the code. Connecting
  to a database or an object store is an event beside the requests of the wire.
\<close>

section \<open>Computations that fetch\<close>

definition nret :: "'a \<Rightarrow> 'a net" where
  "nret a tr = (tr, Inr a)"

definition nlift :: "'a result \<Rightarrow> 'a net" where
  "nlift r tr = (tr, r)"

definition nbind :: "'a net \<Rightarrow> ('a \<Rightarrow> 'b net) \<Rightarrow> 'b net" where
  "nbind m f tr = (case m tr of (tr, Inl e) \<Rightarrow> (tr, Inl e) | (tr, Inr a) \<Rightarrow> f a tr)"

fun nmap :: "('a \<Rightarrow> 'b net) \<Rightarrow> 'a list \<Rightarrow> 'b list net" where
  "nmap f [] = nret []"
| "nmap f (x # xs) = nbind (f x) (\<lambda>y. nbind (nmap f xs) (\<lambda>ys. nret (y # ys)))"

section \<open>Documents and environment\<close>

record sync_document =
  sd_document_id :: string
  sd_document_ref :: string
  sd_raw :: string
  sd_content_type :: string

record s3_config =
  s3_bucket :: string
  s3_endpoint_url :: string
  s3_region_name :: string
  s3_access_key_id :: string
  s3_secret_access_key :: string

record sync_env =
  sy_net :: net_env
  sy_sha1 :: "string \<Rightarrow> string"
  sy_parse_int :: "string \<Rightarrow> int option"
  sy_json :: "string \<Rightarrow> pyval result"
  sy_dumps :: "pyval \<Rightarrow> string"
  sy_tags :: "string \<Rightarrow> (string \<times> (string \<times> string option) list) list"
  sy_rows :: "egress list \<Rightarrow> string \<Rightarrow> string \<Rightarrow> string \<Rightarrow> int \<Rightarrow> pydict list result"
  sy_s3_list :: "egress list \<Rightarrow> s3_config \<Rightarrow> string \<Rightarrow> int \<Rightarrow> string list result"
  sy_s3_get :: "egress list \<Rightarrow> s3_config \<Rightarrow> string \<Rightarrow> string result"

definition sync_doc :: "sync_env \<Rightarrow> string \<Rightarrow> string \<Rightarrow> string \<Rightarrow> string \<Rightarrow> sync_document" where
  "sync_doc env source_id ref raw content_type =
     \<lparr>sd_document_id = document_id (sy_sha1 env) source_id ref, sd_document_ref = ref, sd_raw = raw, sd_content_type = content_type\<rparr>"

section \<open>S3\<close>

definition s3_refs :: "sync_env \<Rightarrow> pydict \<Rightarrow> pydict \<Rightarrow> int \<Rightarrow> s3_config \<Rightarrow> egress list \<Rightarrow> string list result" where
  "s3_refs env config body limit c tr =
     (let ref = str_value body config [''document_ref'', ''ref'', ''s3_uri''] [];
          object_key = str_value body config [''object_key'', ''key''] []
      in if ref \<noteq> [] then Inr [ref]
         else if object_key \<noteq> [] then Inr [''s3://'' @ s3_bucket c @ ''/'' @ lstrip_chars ''/'' object_key]
         else sy_s3_list env tr c (str_value body config [''prefix''] []) limit)"

definition s3_settings :: "pydict \<Rightarrow> pydict \<Rightarrow> s3_config" where
  "s3_settings config body =
     \<lparr>s3_bucket = str_value body config [''bucket'', ''bucket_name''] [],
      s3_endpoint_url = str_value body config [''endpoint_url'', ''s3_endpoint_url''] [],
      s3_region_name = str_value body config [''region'', ''region_name''] [],
      s3_access_key_id = str_value body config [''access_key_id'', ''access_key''] [],
      s3_secret_access_key = str_value body config [''secret_access_key'', ''secret_key''] []\<rparr>"

definition own_credentials :: "s3_config \<Rightarrow> bool" where
  "own_credentials c \<longleftrightarrow> s3_access_key_id c \<noteq> [] \<and> s3_secret_access_key c \<noteq> []"

definition s3_checked :: "net_env \<Rightarrow> s3_config \<Rightarrow> bool \<Rightarrow> egress list \<Rightarrow> unit result" where
  "s3_checked net c allow_private tr =
     (if s3_endpoint_url c = [] then Inr ()
      else if \<not> own_credentials c then Inl ValueError
      else if allow_private then Inr ()
      else rbind (assert_public_host net None (s3_endpoint_url c) tr) (\<lambda>_. Inr ()))"

definition s3_documents :: "sync_env \<Rightarrow> string \<Rightarrow> pydict \<Rightarrow> pydict \<Rightarrow> int \<Rightarrow> sync_document list net" where
  "s3_documents env source_id config body limit tr =
     (let c = s3_settings config body
      in if s3_bucket c = [] then (tr, Inl ValueError)
         else case s3_checked (sy_net env) c (bool_value body config [''allow_private_host'', ''allow_private'']) tr of
           Inl e \<Rightarrow> (tr, Inl e)
         | Inr _ \<Rightarrow>
             (let tr = tr @ [S3Connect (s3_endpoint_url c) (own_credentials c)]
              in (tr,
                  rbind (s3_refs env config body limit c tr) (\<lambda>refs.
                    if refs = [] then Inl ValueError
                    else rmap (\<lambda>ref.
                      rbind (sy_s3_get env tr c ref) (\<lambda>raw.
                      rbind (content_type_for_ref (ne_netloc_ok (sy_net env)) ref) (\<lambda>ct.
                        Inr (sync_doc env source_id ref raw ct)))) (py_take limit refs)))))"

section \<open>The crawl\<close>

definition link_hrefs :: "(string \<times> (string \<times> string option) list) list \<Rightarrow> string list" where
  "link_hrefs tags =
     concat (map (\<lambda>(tag, attrs).
       if py_lower tag \<noteq> ''a'' then []
       else concat (map (\<lambda>(k, v). case v of Some (c # cs) \<Rightarrow> if py_lower k = ''href'' then [c # cs] else [] | _ \<Rightarrow> []) attrs)) tags)"

definition extract_links :: "sync_env \<Rightarrow> string \<Rightarrow> string \<Rightarrow> string list result" where
  "extract_links env raw base_url =
     rmap (\<lambda>href. rbind (urljoin (ne_netloc_ok (sy_net env)) base_url href) (\<lambda>u. Inr (before (CHR ''#'') u)))
       (link_hrefs (sy_tags env raw))"

record crawl_state =
  cw_queue :: "(string \<times> int) list"
  cw_seen :: "string list"
  cw_docs :: "sync_document list"
  cw_net :: "egress list"
  cw_failed :: "py_exc option"

definition crawl_more :: "int \<Rightarrow> crawl_state \<Rightarrow> bool" where
  "crawl_more limit s \<longleftrightarrow> cw_failed s = None \<and> cw_queue s \<noteq> [] \<and> int (length (cw_docs s)) < limit"

definition crawl_fetched ::
  "sync_env \<Rightarrow> string \<Rightarrow> int \<Rightarrow> string \<Rightarrow> int \<Rightarrow> string \<Rightarrow> string \<Rightarrow> crawl_state \<Rightarrow> crawl_state" where
  "crawl_fetched env source_id depth url current_depth raw content_type s =
     (let s = s\<lparr>cw_docs := cw_docs s @ [sync_doc env source_id url raw
               (if content_type \<in> set parseable_content_types then content_type else ''text/plain'')]\<rparr>
      in if current_depth < depth \<and> str_contains ''html'' content_type then
           (case extract_links env raw url of
              Inl e \<Rightarrow> s\<lparr>cw_failed := Some e\<rparr>
            | Inr links \<Rightarrow>
                s\<lparr>cw_queue := cw_queue s @ map (\<lambda>l. (l, current_depth + 1)) (filter (\<lambda>l. l \<notin> set (cw_seen s)) links)\<rparr>)
         else s)"

definition crawl_visit ::
  "sync_env \<Rightarrow> fetcher \<Rightarrow> string \<Rightarrow> string \<Rightarrow> int \<Rightarrow> string \<Rightarrow> int \<Rightarrow> crawl_state \<Rightarrow> crawl_state" where
  "crawl_visit env fetch source_id start_host depth url current_depth s =
     (case urlparse (ne_netloc_ok (sy_net env)) url of
        Inl e \<Rightarrow> s\<lparr>cw_failed := Some e\<rparr>
      | Inr u \<Rightarrow>
          if up_scheme u \<notin> {''http'', ''https''} \<or> url \<in> set (cw_seen s) then s
          else if up_netloc u \<noteq> start_host then s
          else
            (case fetch (plain_get url) (cw_net s) of
               (tr, Inl e) \<Rightarrow> s\<lparr>cw_seen := cw_seen s @ [url], cw_net := tr, cw_failed := Some e\<rparr>
             | (tr, Inr (raw, content_type)) \<Rightarrow>
                 crawl_fetched env source_id depth url current_depth raw content_type
                   (s\<lparr>cw_seen := cw_seen s @ [url], cw_net := tr\<rparr>)))"

definition crawl_step :: "sync_env \<Rightarrow> fetcher \<Rightarrow> string \<Rightarrow> string \<Rightarrow> int \<Rightarrow> crawl_state \<Rightarrow> crawl_state" where
  "crawl_step env fetch source_id start_host depth s =
     (case cw_queue s of
        [] \<Rightarrow> s
      | (url, current_depth) # rest \<Rightarrow>
          crawl_visit env fetch source_id start_host depth url current_depth (s\<lparr>cw_queue := rest\<rparr>))"

definition crawl_start :: "string \<Rightarrow> egress list \<Rightarrow> crawl_state" where
  "crawl_start start_url tr = \<lparr>cw_queue = [(start_url, 0)], cw_seen = [], cw_docs = [], cw_net = tr, cw_failed = None\<rparr>"

definition crawl_depth :: "sync_env \<Rightarrow> pydict \<Rightarrow> pydict \<Rightarrow> int" where
  "crawl_depth env config body = max 0 (min (int_value (sy_parse_int env) body config [''crawl_depth'', ''depth''] 0) 2)"

definition url_documents :: "sync_env \<Rightarrow> fetcher \<Rightarrow> string \<Rightarrow> pydict \<Rightarrow> pydict \<Rightarrow> int \<Rightarrow> sync_document list net" where
  "url_documents env fetch source_id config body limit tr =
     (let start_url = str_value body config [''target_url'', ''url''] []
      in if start_url = [] then (tr, Inl ValueError)
         else case urlparse (ne_netloc_ok (sy_net env)) start_url of
           Inl e \<Rightarrow> (tr, Inl e)
         | Inr u \<Rightarrow>
             (let s = while (crawl_more limit) (crawl_step env fetch source_id (up_netloc u) (crawl_depth env config body))
                        (crawl_start start_url tr)
              in (cw_net s,
                  case cw_failed s of
                    Some e \<Rightarrow> Inl e
                  | None \<Rightarrow> if cw_docs s = [] then Inl ValueError else Inr (cw_docs s))))"

section \<open>Databases\<close>

text \<open>Everything that is decided before the driver connects: the engine, the query and the host handed to the driver.\<close>

definition db_plan ::
  "net_env \<Rightarrow> pydict \<Rightarrow> pydict \<Rightarrow> string \<Rightarrow> string \<Rightarrow> string \<Rightarrow> egress list \<Rightarrow> (string \<times> string \<times> string option) result" where
  "db_plan net config body dsn table_name updated_column tr =
     rbind (db_host (ne_netloc_ok net) dsn) (\<lambda>host.
     rbind (assert_public_db_host net host (bool_value body config [''allow_private_host'', ''allow_private'']) tr) (\<lambda>_.
     rbind (db_engine (ne_netloc_ok net) body config dsn) (\<lambda>engine.
       if engine = ''mysql'' then
         rbind (mysql_query table_name updated_column) (\<lambda>query.
         rbind (mysql_target (ne_netloc_ok net) dsn) (\<lambda>target. Inr (engine, query, Some (fst target))))
       else rbind (postgres_query table_name updated_column) (\<lambda>query. Inr (engine, query, None)))))"

definition db_documents :: "sync_env \<Rightarrow> string \<Rightarrow> pydict \<Rightarrow> pydict \<Rightarrow> int \<Rightarrow> sync_document list net" where
  "db_documents env source_id config body limit tr =
     (let dsn = str_value body config [''connection_string'', ''dsn''] [];
          table_name = str_value body config [''table_name'', ''table''] [];
          updated_column = str_value body config [''updated_column''] []
      in if dsn = [] \<or> table_name = [] then (tr, Inl ValueError)
         else case db_plan (sy_net env) config body dsn table_name updated_column tr of
           Inl e \<Rightarrow> (tr, Inl e)
         | Inr (engine, query, host) \<Rightarrow>
             (tr @ [DbConnect dsn host],
              rbind (sy_rows env tr engine dsn query limit) (\<lambda>rows.
                let (ref, title) = (if engine = ''mysql'' then (''mysql://'' @ table_name, ''MySQL '' @ table_name)
                                    else (''postgres://'' @ table_name, ''PostgreSQL '' @ table_name))
                in Inr [sync_doc env source_id ref (rows_to_text (sy_dumps env) title rows) ''text/plain''])))"

section \<open>SaaS connectors\<close>

definition kintone_hosts :: "string list" where
  "kintone_hosts = [''cybozu.com'', ''kintone.com'']"

definition confluence_hosts :: "string list" where
  "confluence_hosts = [''atlassian.net'']"

definition notion_hosts :: "string list" where
  "notion_hosts = [''api.notion.com'']"

definition box_hosts :: "string list" where
  "box_hosts = [''box.com'', ''boxcloud.com'']"

definition gdrive_hosts :: "string list" where
  "gdrive_hosts = [''googleapis.com'', ''googleusercontent.com'', ''docs.google.com'']"

definition get_request :: "string \<Rightarrow> headers \<Rightarrow> string list \<Rightarrow> fetch_request" where
  "get_request url headers hosts =
     \<lparr>fr_url = url, fr_headers = headers, fr_data = None, fr_method = None, fr_allow_hosts = Some hosts\<rparr>"

definition bearer :: "string \<Rightarrow> headers" where
  "bearer token = [(''Authorization'', ''Bearer '' @ token)]"

text \<open>\<open>v.get(k)\<close> on a decoded body.\<close>

definition json_get :: "pyval \<Rightarrow> string \<Rightarrow> pyval result" where
  "json_get v k = (case v of PDict d \<Rightarrow> Inr (py_get d k) | _ \<Rightarrow> Inl AttributeError)"

definition api_results :: "pyval \<Rightarrow> string \<Rightarrow> pyval list result" where
  "api_results payload key =
     (case payload of
        PDict d \<Rightarrow>
          (case py_get d key of
             PList vs \<Rightarrow> Inr vs
           | _ \<Rightarrow> if py_truthy (py_or (py_get d ''message'') (py_get d ''error'')) then Inl ValueError else Inr [])
      | _ \<Rightarrow> Inr [])"

text \<open>\<open>(payload.get("records") or [])[:limit]\<close>; what is not a list has no element that is a dictionary.\<close>

definition kintone_records :: "pyval \<Rightarrow> int \<Rightarrow> pyval list result" where
  "kintone_records payload limit =
     rbind (json_get payload ''records'') (\<lambda>v.
       if \<not> py_truthy v then Inr []
       else case v of PList vs \<Rightarrow> Inr (py_take limit vs) | PStr _ \<Rightarrow> Inr [] | _ \<Rightarrow> Inl TypeError)"

definition kintone_document :: "sync_env \<Rightarrow> fetcher \<Rightarrow> string \<Rightarrow> pydict \<Rightarrow> pydict \<Rightarrow> int \<Rightarrow> sync_document net" where
  "kintone_document env fetch source_id config body limit =
     (let subdomain = str_value body config [''subdomain'', ''domain'', ''base_url''] [];
          api_token = str_value body config [''api_token'', ''token''] [];
          app_id = str_value body config [''app_id'', ''app''] [];
          base_url = (if starts_with subdomain ''http://'' \<or> starts_with subdomain ''https://'' then subdomain
                      else ''https://'' @ subdomain);
          records = rstrip_chars ''/'' base_url @ ''/k/v1/records.json?'';
          ref = records @ ''app='' @ app_id
      in if subdomain = [] \<or> api_token = [] \<or> app_id = [] then nlift (Inl ValueError)
         else nbind (fetch (get_request
                  (records @ urlencode [(''app'', app_id), (''query'', ''limit '' @ int_str limit)])
                  [(''X-Cybozu-API-Token'', api_token)] kintone_hosts)) (\<lambda>(raw, ct).
                nlift (rbind (sy_json env raw) (\<lambda>payload.
                  rbind (kintone_records payload limit) (\<lambda>records.
                    Inr (sync_doc env source_id ref
                      (rows_to_text (sy_dumps env) (''kintone app '' @ app_id) (concat (map kintone_row records)))
                      ''text/plain''))))))"

definition confluence_storage :: "pydict \<Rightarrow> string" where
  "confluence_storage page =
     (let v = (case py_or (py_get page ''body'') (PDict []) of PDict d \<Rightarrow> py_get d ''storage'' | _ \<Rightarrow> PDict [])
      in case v of PDict d \<Rightarrow> py_get_str d ''value'' | _ \<Rightarrow> [])"

definition confluence_page :: "sync_env \<Rightarrow> string \<Rightarrow> string \<Rightarrow> pyval \<Rightarrow> sync_document list result" where
  "confluence_page env source_id base page =
     (case page of
        PDict d \<Rightarrow>
          (let page_id = py_get_str d ''id'';
               title = (if py_truthy (py_get d ''title'') then py_str (py_get d ''title'')
                        else if page_id \<noteq> [] then page_id else ''page'');
               webui = (case py_get d ''_links'' of PDict l \<Rightarrow> py_get l ''webui'' | _ \<Rightarrow> PStr []);
               html = ''<h1>'' @ html_escape title @ ''</h1>'' @ nl @ confluence_storage d
           in case py_or webui (PStr (''/pages/'' @ page_id)) of
                PStr w \<Rightarrow> Inr [sync_doc env source_id (if starts_with w ''/'' then base @ w else w) html ''text/html'']
              | _ \<Rightarrow> Inl AttributeError)
      | _ \<Rightarrow> Inr [])"

definition confluence_documents :: "sync_env \<Rightarrow> fetcher \<Rightarrow> string \<Rightarrow> pydict \<Rightarrow> pydict \<Rightarrow> int \<Rightarrow> sync_document list net" where
  "confluence_documents env fetch source_id config body limit =
     (let site_url = str_value body config [''site_url'', ''base_url'', ''url''] [];
          space_key = str_value body config [''space_key'', ''space''] [];
          email = str_value body config [''email'', ''username'', ''user''] [];
          api_token = str_value body config [''api_token'', ''token''] [];
          base = rstrip_chars ''/'' site_url;
          query = urlencode [(''spaceKey'', space_key), (''limit'', int_str limit), (''status'', ''current''),
                    (''expand'', ''body.storage,version'')]
      in if site_url = [] \<or> space_key = [] \<or> email = [] \<or> api_token = [] then nlift (Inl ValueError)
         else nbind (fetch (get_request (base @ ''/rest/api/content?'' @ query)
                  [(''Authorization'', ''Basic '' @ b64encode (email @ '':'' @ api_token)), (''Accept'', ''application/json'')]
                  confluence_hosts)) (\<lambda>(raw, ct).
                nlift (rbind (sy_json env raw) (\<lambda>payload.
                  rbind (api_results payload ''results'') (\<lambda>pages.
                  rbind (rmap (confluence_page env source_id base) (py_take limit pages)) (\<lambda>docs.
                    if concat docs = [] then Inl ValueError else Inr (concat docs)))))))"

definition notion_headers :: "string \<Rightarrow> headers" where
  "notion_headers token = bearer token @ [(''Notion-Version'', ''2022-06-28''), (''Accept'', ''application/json'')]"

definition notion_entry :: "pyval \<Rightarrow> (string \<times> string) list" where
  "notion_entry v =
     (case v of
        PDict d \<Rightarrow> if py_truthy (py_get d ''id'') then [(py_str (py_get d ''id''), notion_page_title d)] else []
      | _ \<Rightarrow> [])"

definition notion_pages :: "sync_env \<Rightarrow> fetcher \<Rightarrow> string \<Rightarrow> string \<Rightarrow> string \<Rightarrow> int \<Rightarrow> (string \<times> string) list net" where
  "notion_pages env fetch token database_id page_id limit =
     (if database_id = [] then nret [(page_id, [])]
      else nbind (fetch
             \<lparr>fr_url = ''https://api.notion.com/v1/databases/'' @ database_id @ ''/query'',
              fr_headers = notion_headers token @ [(''Content-Type'', ''application/json'')],
              fr_data = Some (''{'' @ [CHR 0x22] @ ''page_size'' @ [CHR 0x22] @ '': '' @ int_str (min limit 100) @ ''}''),
              fr_method = Some ''POST'', fr_allow_hosts = Some notion_hosts\<rparr>) (\<lambda>(raw, ct).
           nlift (rbind (sy_json env raw) (\<lambda>payload.
             rbind (api_results payload ''results'') (\<lambda>results. Inr (concat (map notion_entry (py_take limit results))))))))"

definition notion_page :: "sync_env \<Rightarrow> fetcher \<Rightarrow> string \<Rightarrow> string \<Rightarrow> string \<times> string \<Rightarrow> sync_document net" where
  "notion_page env fetch source_id token page =
     (let (pid, title) = page
      in nbind (fetch (get_request (''https://api.notion.com/v1/blocks/'' @ pid @ ''/children?page_size=100'')
             (notion_headers token) notion_hosts)) (\<lambda>(raw, ct).
           nlift (rbind (sy_json env raw) (\<lambda>payload.
             rbind (api_results payload ''results'') (\<lambda>blocks.
               let heading = (if title = [] then [] else ''# '' @ title @ nl @ nl);
                   body = py_strip (heading @ notion_blocks_to_markdown blocks)
               in Inr (sync_doc env source_id (''https://www.notion.so/'' @ filter (\<lambda>c. c \<noteq> CHR ''-'') pid)
                    (if body \<noteq> [] then body else if title \<noteq> [] then title else pid) ''text/markdown''))))))"

definition notion_documents :: "sync_env \<Rightarrow> fetcher \<Rightarrow> string \<Rightarrow> pydict \<Rightarrow> pydict \<Rightarrow> int \<Rightarrow> sync_document list net" where
  "notion_documents env fetch source_id config body limit =
     (let token = str_value body config [''integration_token'', ''api_token'', ''token''] [];
          database_id = str_value body config [''database_id'', ''target_database'', ''database''] [];
          page_id = str_value body config [''page_id'', ''page''] []
      in if token = [] \<or> (database_id = [] \<and> page_id = []) then nlift (Inl ValueError)
         else nbind (notion_pages env fetch token database_id page_id limit) (\<lambda>pages.
              nbind (nmap (notion_page env fetch source_id token) (py_take limit pages)) (\<lambda>docs.
                nlift (if docs = [] then Inl ValueError else Inr docs))))"

section \<open>Files of a folder\<close>

text \<open>The loop over listed entries: what is worth fetching becomes a document until the limit is reached.\<close>

fun file_loop ::
  "sync_env \<Rightarrow> fetcher \<Rightarrow> string \<Rightarrow> (pyval \<Rightarrow> (fetch_request \<times> string \<times> string) option) \<Rightarrow> int \<Rightarrow> pyval list \<Rightarrow>
     sync_document list \<Rightarrow> sync_document list net" where
  "file_loop env fetch source_id plan limit [] docs = nret docs"
| "file_loop env fetch source_id plan limit (e # es) docs =
     (case plan e of
        None \<Rightarrow> file_loop env fetch source_id plan limit es docs
      | Some (req, ref, content_type) \<Rightarrow>
          nbind (fetch req) (\<lambda>(raw, ct).
            let docs = docs @ [sync_doc env source_id ref raw content_type]
            in if limit \<le> int (length docs) then nret docs
               else file_loop env fetch source_id plan limit es docs))"

definition box_file :: "string \<Rightarrow> string \<Rightarrow> pyval \<Rightarrow> (fetch_request \<times> string \<times> string) option" where
  "box_file token folder_id entry =
     (case entry of
        PDict d \<Rightarrow>
          (let name = py_get_str d ''name''; file_id = py_get_str d ''id''
           in if py_get d ''type'' \<noteq> PStr ''file'' \<or> name = [] \<or> file_id = [] \<or> \<not> has_parseable_extension name then None
              else Some (get_request (''https://api.box.com/2.0/files/'' @ file_id @ ''/content'') (bearer token) box_hosts,
                     ''box://'' @ folder_id @ ''/'' @ name, content_type_for_name name))
      | _ \<Rightarrow> None)"

definition box_documents :: "sync_env \<Rightarrow> fetcher \<Rightarrow> string \<Rightarrow> pydict \<Rightarrow> pydict \<Rightarrow> int \<Rightarrow> sync_document list net" where
  "box_documents env fetch source_id config body limit =
     (let token = str_value body config [''access_token'', ''developer_token'', ''token'', ''api_token''] [];
          folder = str_value body config [''folder_id'', ''folder''] [];
          folder_id = (if folder = [] then ''0'' else folder);
          query = urlencode [(''limit'', int_str (min (max limit 1 * 4) 1000)), (''fields'', ''id,name,type'')]
      in if token = [] then nlift (Inl ValueError)
         else nbind (fetch (get_request (''https://api.box.com/2.0/folders/'' @ folder_id @ ''/items?'' @ query)
                  (bearer token @ [(''Accept'', ''application/json'')]) box_hosts)) (\<lambda>(raw, ct).
              nbind (nlift (rbind (sy_json env raw) (\<lambda>payload. api_results payload ''entries''))) (\<lambda>entries.
              nbind (file_loop env fetch source_id (box_file token folder_id) limit entries []) (\<lambda>docs.
                nlift (if docs = [] then Inl ValueError else Inr docs)))))"

definition gdrive_file :: "string \<Rightarrow> string \<Rightarrow> pyval \<Rightarrow> (fetch_request \<times> string \<times> string) option" where
  "gdrive_file token folder_id entry =
     (case entry of
        PDict d \<Rightarrow>
          (let name = py_get_str d ''name''; file_id = py_get_str d ''id''; mime = py_get_str d ''mimeType'';
               ref = ''gdrive://'' @ folder_id @ ''/'' @ name;
               file = ''https://www.googleapis.com/drive/v3/files/'' @ file_id
           in if name = [] \<or> file_id = [] then None
              else case dget gdrive_export mime of
                Some export_mime \<Rightarrow>
                  Some (get_request (file @ ''/export?'' @ urlencode [(''mimeType'', export_mime)]) (bearer token) gdrive_hosts,
                    ref, export_mime)
              | None \<Rightarrow>
                  if starts_with mime ''application/vnd.google-apps'' \<or> \<not> has_parseable_extension name then None
                  else Some (get_request (file @ ''?'' @ urlencode [(''alt'', ''media''), (''supportsAllDrives'', ''true'')])
                         (bearer token) gdrive_hosts, ref, content_type_for_name name))
      | _ \<Rightarrow> None)"

definition gdrive_list_request :: "string \<Rightarrow> string \<Rightarrow> int \<Rightarrow> pyval \<Rightarrow> fetch_request" where
  "gdrive_list_request token folder_id limit page_token =
     get_request (''https://www.googleapis.com/drive/v3/files?'' @
         urlencode ([(''q'', [CHR 0x27] @ folder_id @ [CHR 0x27] @ '' in parents and trashed = false''),
             (''fields'', ''nextPageToken,files(id,name,mimeType)''), (''pageSize'', int_str (min (max limit 1 * 2) 1000)),
             (''supportsAllDrives'', ''true''), (''includeItemsFromAllDrives'', ''true'')] @
             (if py_truthy page_token then [(''pageToken'', py_str page_token)] else [])))
       (bearer token @ [(''Accept'', ''application/json'')]) gdrive_hosts"

definition gdrive_listing :: "sync_env \<Rightarrow> string \<Rightarrow> (pyval list \<times> pyval) result" where
  "gdrive_listing env raw =
     rbind (sy_json env raw) (\<lambda>payload.
       if (case payload of PDict d \<Rightarrow> (case py_get d ''error'' of PDict _ \<Rightarrow> True | _ \<Rightarrow> False) | _ \<Rightarrow> False) then Inl ValueError
       else rbind (api_results payload ''files'') (\<lambda>entries.
         Inr (entries, case payload of PDict d \<Rightarrow> py_get d ''nextPageToken'' | _ \<Rightarrow> PStr [])))"

fun gdrive_pages ::
  "sync_env \<Rightarrow> fetcher \<Rightarrow> string \<Rightarrow> string \<Rightarrow> string \<Rightarrow> int \<Rightarrow> nat \<Rightarrow> pyval \<Rightarrow> sync_document list \<Rightarrow> sync_document list net" where
  "gdrive_pages env fetch source_id token folder_id limit 0 page_token docs = nret docs"
| "gdrive_pages env fetch source_id token folder_id limit (Suc n) page_token docs =
     nbind (fetch (gdrive_list_request token folder_id limit page_token)) (\<lambda>(raw, ct).
     nbind (nlift (gdrive_listing env raw)) (\<lambda>(entries, page_token).
     nbind (file_loop env fetch source_id (gdrive_file token folder_id) limit entries docs) (\<lambda>docs.
       if \<not> py_truthy page_token \<or> limit \<le> int (length docs) then nret docs
       else gdrive_pages env fetch source_id token folder_id limit n page_token docs)))"

definition gdrive_documents :: "sync_env \<Rightarrow> fetcher \<Rightarrow> string \<Rightarrow> pydict \<Rightarrow> pydict \<Rightarrow> int \<Rightarrow> sync_document list net" where
  "gdrive_documents env fetch source_id config body limit =
     (let t = py_or (py_or (py_get body ''fresh_access_token'') (py_get body ''access_token'')) (PStr []);
          token = py_strip (py_str t);
          folder_id = gdrive_folder_id (str_value body config [''folder_id'', ''folder'', ''target_folder''] [])
      in if token = [] then nlift (Inl ValueError)
         else nbind (gdrive_pages env fetch source_id token folder_id limit 50 (PStr []) []) (\<lambda>docs.
                nlift (if docs = [] then Inl ValueError else Inr docs)))"

section \<open>Dispatch\<close>

definition source_type_of :: "pydict \<Rightarrow> string" where
  "source_type_of datasource =
     (let config = as_mapping (py_get datasource ''config'');
          v = py_or (py_or (py_get config ''source_type'') (py_get datasource ''type'')) (PStr [])
      in py_lower (py_str v))"

definition effective_limit :: "sync_env \<Rightarrow> pydict \<Rightarrow> pydict \<Rightarrow> int \<Rightarrow> int" where
  "effective_limit env config body limit =
     max 1 (min (int_value (sy_parse_int env) body config [''limit'', ''max_documents''] limit) 100)"

definition db_source_types :: "string list" where
  "db_source_types = [''db'', ''mysql'', ''postgres'', ''postgresql'', ''database'']"

definition build_sync_documents ::
  "sync_env \<Rightarrow> fetcher \<Rightarrow> string \<Rightarrow> pydict \<Rightarrow> pydict \<Rightarrow> int \<Rightarrow> sync_document list net" where
  "build_sync_documents env fetch source_id datasource body limit =
     (let config = as_mapping (py_get datasource ''config'');
          source_type = source_type_of datasource;
          limit = effective_limit env config body limit
      in if source_type = ''s3'' then s3_documents env source_id config body limit
         else if source_type = ''url'' then url_documents env fetch source_id config body limit
         else if source_type \<in> set db_source_types then db_documents env source_id config body limit
         else if source_type = ''kintone''
         then nbind (kintone_document env fetch source_id config body limit) (\<lambda>doc. nret [doc])
         else if source_type = ''confluence'' then confluence_documents env fetch source_id config body limit
         else if source_type = ''notion'' then notion_documents env fetch source_id config body limit
         else if source_type = ''box'' then box_documents env fetch source_id config body limit
         else if source_type = ''google_drive'' then gdrive_documents env fetch source_id config body limit
         else nlift (Inl ValueError))"

section \<open>Clients of a guarded fetch\<close>

lemma emits_nret [simp, intro]: "emits ok (nret a)"
  unfolding emits_def nret_def by (intro allI exI [of _ "[]"]) simp

lemma emits_nlift [simp, intro]: "emits ok (nlift r)"
  unfolding emits_def nlift_def by (intro allI exI [of _ "[]"]) simp

lemma emits_nbind [intro]:
  assumes "emits ok m" and "\<And>a. emits ok (f a)"
  shows "emits ok (nbind m f)"
  unfolding emits_def
proof
  fix tr
  from assms(1) obtain new where new: "fst (m tr) = tr @ new" "guarded_from ok tr new" unfolding emits_def by blast
  show "\<exists>new. fst (nbind m f tr) = tr @ new \<and> guarded_from ok tr new"
  proof (cases "snd (m tr)")
    case (Inl e)
    with new show ?thesis by (intro exI [of _ new]) (cases "m tr", simp add: nbind_def)
  next
    case (Inr a)
    from assms(2) obtain new2 where "fst (f a (tr @ new)) = (tr @ new) @ new2" "guarded_from ok (tr @ new) new2"
      unfolding emits_def by blast
    with Inr new show ?thesis
      by (intro exI [of _ "new @ new2"]) (cases "m tr", simp add: nbind_def guarded_from_append)
  qed
qed

lemma emits_nmap: "(\<And>x. emits ok (f x)) \<Longrightarrow> emits ok (nmap f xs)"
  by (induction xs) auto

text \<open>What the connectors rely on: a fetch sends guarded requests only, under the hosts it was given.\<close>

locale guarded_fetcher =
  fixes net :: net_env
    and fetch :: fetcher
  assumes fetch_emits: "emits (wire_ok net (fr_allow_hosts req)) (fetch req)"
begin

lemma get_emits: "emits (wire_ok net (Some hosts)) (fetch (get_request url headers hosts))"
  using fetch_emits [of "get_request url headers hosts"] by (simp add: get_request_def)

lemma kintone_emits: "emits (wire_ok net (Some kintone_hosts)) (kintone_document env fetch source_id config body limit)"
  by (auto simp: kintone_document_def Let_def intro!: emits_nbind get_emits split: prod.split)

lemma confluence_emits: "emits (wire_ok net (Some confluence_hosts)) (confluence_documents env fetch source_id config body limit)"
  by (auto simp: confluence_documents_def Let_def intro!: emits_nbind get_emits split: prod.split)

lemma notion_emits: "emits (wire_ok net (Some notion_hosts)) (notion_documents env fetch source_id config body limit)"
proof -
  have "emits (wire_ok net (Some notion_hosts)) (notion_pages env fetch token database_id page_id limit)" for token database_id page_id
  proof -
    let ?req = "\<lparr>fr_url = ''https://api.notion.com/v1/databases/'' @ database_id @ ''/query'',
              fr_headers = notion_headers token @ [(''Content-Type'', ''application/json'')],
              fr_data = Some (''{'' @ [CHR 0x22] @ ''page_size'' @ [CHR 0x22] @ '': '' @ int_str (min limit 100) @ ''}''),
              fr_method = Some ''POST'', fr_allow_hosts = Some notion_hosts\<rparr>"
    have "emits (wire_ok net (Some notion_hosts)) (fetch ?req)" using fetch_emits [of ?req] by simp
    then show ?thesis unfolding notion_pages_def by (auto intro!: emits_nbind split: prod.split)
  qed
  moreover have "emits (wire_ok net (Some notion_hosts)) (notion_page env fetch source_id token page)" for token page
    by (auto simp: notion_page_def Let_def intro!: emits_nbind get_emits split: prod.split)
  ultimately show ?thesis by (auto simp: notion_documents_def Let_def intro!: emits_nbind emits_nmap)
qed

lemma file_loop_emits:
  assumes "\<And>e req ref ct. plan e = Some (req, ref, ct) \<Longrightarrow> fr_allow_hosts req = hosts"
  shows "emits (wire_ok net hosts) (file_loop env fetch source_id plan limit es docs)"
proof (induction es arbitrary: docs)
  case (Cons e es)
  show ?case
  proof (cases "plan e")
    case None
    with Cons show ?thesis by simp
  next
    case (Some p)
    obtain req ref ct where p: "p = (req, ref, ct)" by (cases p)
    have "emits (wire_ok net hosts) (fetch req)" using fetch_emits [of req] assms Some p by simp
    with Some p Cons show ?thesis by (auto simp: Let_def intro!: emits_nbind split: prod.split)
  qed
qed simp

lemma box_emits: "emits (wire_ok net (Some box_hosts)) (box_documents env fetch source_id config body limit)"
proof -
  have "emits (wire_ok net (Some box_hosts)) (file_loop env fetch source_id (box_file token folder_id) limit es docs)" for token folder_id es docs
    by (rule file_loop_emits) (auto simp: box_file_def Let_def get_request_def split: pyval.splits if_splits)
  then show ?thesis by (auto simp: box_documents_def Let_def intro!: emits_nbind get_emits split: prod.split)
qed

lemma gdrive_emits: "emits (wire_ok net (Some gdrive_hosts)) (gdrive_documents env fetch source_id config body limit)"
proof -
  have files: "emits (wire_ok net (Some gdrive_hosts)) (file_loop env fetch source_id (gdrive_file token folder_id) limit es docs)"
    for token folder_id es docs
    by (rule file_loop_emits) (auto simp: gdrive_file_def Let_def get_request_def split: pyval.splits if_splits option.splits)
  have "emits (wire_ok net (Some gdrive_hosts)) (gdrive_pages env fetch source_id token folder_id limit n page_token docs)"
    for token folder_id n page_token docs
    by (induction n arbitrary: page_token docs)
      (auto simp: gdrive_list_request_def intro!: emits_nbind get_emits files split: prod.split)
  then show ?thesis by (auto simp: gdrive_documents_def Let_def intro!: emits_nbind)
qed

end

interpretation fetched: guarded_fetcher net "fetch_url net" for net
proof
  show "emits (wire_ok net (fr_allow_hosts req)) (fetch_url net req)" for req
    unfolding emits_def using fetch_url_run [of net req] by blast
qed

section \<open>The crawl ends\<close>

text \<open>Either a document is added or the queue gets shorter.\<close>

definition crawl_order :: "int \<Rightarrow> (crawl_state \<times> crawl_state) set" where
  "crawl_order limit = inv_image (less_than <*lex*> less_than) (\<lambda>s. (nat (limit - int (length (cw_docs s))), length (cw_queue s)))"

lemma wf_crawl_order: "wf (crawl_order limit)"
  by (simp add: crawl_order_def wf_inv_image wf_lex_prod)

lemma crawl_visit_progress:
  assumes "int (length (cw_docs s)) < limit" and "length (cw_queue s) < n"
  shows "let s' = crawl_visit env fetch source_id start_host depth url d s in
    nat (limit - int (length (cw_docs s'))) < nat (limit - int (length (cw_docs s))) \<or>
    (length (cw_docs s') = length (cw_docs s) \<and> length (cw_queue s') < n)"
  using assms by (auto simp: crawl_visit_def crawl_fetched_def Let_def split: sum.splits prod.splits)

lemma crawl_step_decreases:
  assumes "crawl_more limit s"
  shows "(crawl_step env fetch source_id start_host depth s, s) \<in> crawl_order limit"
proof -
  obtain url d rest where q: "cw_queue s = (url, d) # rest" using assms by (cases "cw_queue s") (auto simp: crawl_more_def)
  have "int (length (cw_docs (s\<lparr>cw_queue := rest\<rparr>))) < limit" "length (cw_queue (s\<lparr>cw_queue := rest\<rparr>)) < length (cw_queue s)"
    using assms q by (simp_all add: crawl_more_def)
  from crawl_visit_progress [OF this, of env fetch source_id start_host depth url d] q show ?thesis
    by (auto simp: crawl_order_def crawl_step_def Let_def)
qed

lemma crawl_returns: "\<exists>s'. while_option (crawl_more limit) (crawl_step env fetch source_id start_host depth) s = Some s'"
proof (rule wf_while_option_Some [where P = "\<lambda>_. True"])
  show "wf {(t, s). (True \<and> crawl_more limit s) \<and> t = crawl_step env fetch source_id start_host depth s}"
    by (rule wf_subset [OF wf_crawl_order [of limit]]) (auto intro: crawl_step_decreases)
qed simp_all

text \<open>What holds of a crawl at every moment.\<close>

definition crawl_url_ok :: "sync_env \<Rightarrow> string \<Rightarrow> string \<Rightarrow> bool" where
  "crawl_url_ok env start_host url \<longleftrightarrow>
     (case urlparse (ne_netloc_ok (sy_net env)) url of
        Inl e \<Rightarrow> False
      | Inr u \<Rightarrow> up_scheme u \<in> {''http'', ''https''} \<and> up_netloc u = start_host)"

definition crawl_inv :: "sync_env \<Rightarrow> string \<Rightarrow> int \<Rightarrow> int \<Rightarrow> string \<Rightarrow> crawl_state \<Rightarrow> bool" where
  "crawl_inv env start_host depth limit source_id s \<longleftrightarrow>
     distinct (cw_seen s) \<and> list_all (crawl_url_ok env start_host) (cw_seen s) \<and>
     int (length (cw_seen s)) \<le> max limit 0 \<and> length (cw_docs s) \<le> length (cw_seen s) \<and>
     (cw_failed s = None \<longrightarrow> map sd_document_ref (cw_docs s) = cw_seen s) \<and>
     list_all (\<lambda>d. sd_document_id d = document_id (sy_sha1 env) source_id (sd_document_ref d) \<and>
        sd_content_type d \<in> set parseable_content_types) (cw_docs s) \<and>
     list_all (\<lambda>(url, d). 0 \<le> d \<and> d \<le> max depth 0) (cw_queue s)"

lemma crawl_visit_inv:
  assumes inv: "crawl_inv env start_host depth limit source_id s" and more: "cw_failed s = None" "int (length (cw_docs s)) < limit"
    and d: "0 \<le> d" "d \<le> max depth 0"
  shows "crawl_inv env start_host depth limit source_id (crawl_visit env fetch source_id start_host depth url d s)"
proof (cases "urlparse (ne_netloc_ok (sy_net env)) url")
  case (Inl e)
  with inv show ?thesis by (simp add: crawl_visit_def crawl_inv_def)
next
  case (Inr u)
  have refs: "map sd_document_ref (cw_docs s) = cw_seen s" using inv more by (simp add: crawl_inv_def)
  then have len: "length (cw_docs s) = length (cw_seen s)" by (metis length_map)
  show ?thesis
  proof (cases "up_scheme u \<notin> {''http'', ''https''} \<or> url \<in> set (cw_seen s) \<or> up_netloc u \<noteq> start_host")
    case True
    then have "crawl_visit env fetch source_id start_host depth url d s = s"
      unfolding crawl_visit_def Inr sum.case by (cases "up_netloc u = start_host") (simp_all, blast?)
    with inv show ?thesis by simp
  next
    case False
    then have ok: "crawl_url_ok env start_host url" "url \<notin> set (cw_seen s)" unfolding crawl_url_ok_def Inr by simp_all
    let ?s = "\<lambda>tr. s\<lparr>cw_seen := cw_seen s @ [url], cw_net := tr\<rparr>"
    have visit: "crawl_visit env fetch source_id start_host depth url d s =
        (case fetch (plain_get url) (cw_net s) of
               (tr, Inl e) \<Rightarrow> (?s tr)\<lparr>cw_failed := Some e\<rparr>
             | (tr, Inr (raw, content_type)) \<Rightarrow> crawl_fetched env source_id depth url d raw content_type (?s tr))"
      using False unfolding crawl_visit_def Inr sum.case by (simp split: prod.split sum.split)
    obtain tr r where f: "fetch (plain_get url) (cw_net s) = (tr, r)" by fastforce
    show ?thesis
    proof (cases r)
      case (Inl e)
      with f visit inv ok len more(2) show ?thesis by (simp add: crawl_inv_def)
    next
      case r: (Inr x)
      obtain raw ct where x: "x = (raw, ct)" by (cases x)
      let ?doc = "sync_doc env source_id url raw (if ct \<in> set parseable_content_types then ct else ''text/plain'')"
      let ?t = "(?s tr)\<lparr>cw_docs := cw_docs s @ [?doc]\<rparr>"
      have doc: "sd_document_ref ?doc = url" "sd_document_id ?doc = document_id (sy_sha1 env) source_id url"
        "sd_content_type ?doc \<in> set parseable_content_types" by (simp_all add: sync_doc_def parseable_content_types_def)
      have base: "crawl_inv env start_host depth limit source_id ?t"
        using inv ok len more(2) refs doc by (simp add: crawl_inv_def)
      have fetched: "crawl_visit env fetch source_id start_host depth url d s =
         (if d < depth \<and> str_contains ''html'' ct then
           (case extract_links env raw url of
              Inl e \<Rightarrow> ?t\<lparr>cw_failed := Some e\<rparr>
            | Inr links \<Rightarrow> ?t\<lparr>cw_queue := cw_queue s @ map (\<lambda>l. (l, d + 1)) (filter (\<lambda>l. l \<notin> set (cw_seen s @ [url])) links)\<rparr>)
         else ?t)"
        unfolding visit f r x prod.case sum.case crawl_fetched_def Let_def by (simp cong: if_cong split: sum.split)
      have failed: "crawl_inv env start_host depth limit source_id (?t\<lparr>cw_failed := Some e\<rparr>)" for e
        using base by (simp add: crawl_inv_def)
      have queued: "crawl_inv env start_host depth limit source_id (?t\<lparr>cw_queue := cw_queue s @ map (\<lambda>l. (l, d + 1)) ls\<rparr>)"
        if "d < depth" for ls
        using base that d by (auto simp: crawl_inv_def list_all_iff)
      show ?thesis
      proof (cases "d < depth \<and> str_contains ''html'' ct")
        case True
        then have "d < depth" by blast
        with True failed queued show ?thesis
          unfolding fetched by (cases "extract_links env raw url") (simp_all only: simp_thms if_True sum.case)
      next
        case False
        with base show ?thesis unfolding fetched by (simp only: if_False)
      qed
    qed
  qed
qed

lemma crawl_step_inv:
  assumes "crawl_inv env start_host depth limit source_id s" and "crawl_more limit s"
  shows "crawl_inv env start_host depth limit source_id (crawl_step env fetch source_id start_host depth s)"
proof -
  obtain url d rest where q: "cw_queue s = (url, d) # rest" using assms by (cases "cw_queue s") (auto simp: crawl_more_def)
  have "crawl_inv env start_host depth limit source_id (s\<lparr>cw_queue := rest\<rparr>)" using assms(1) q by (simp add: crawl_inv_def)
  from crawl_visit_inv [OF this, of d] assms q show ?thesis by (simp add: crawl_step_def crawl_more_def crawl_inv_def)
qed

lemma crawl_start_inv: "0 \<le> depth \<Longrightarrow> crawl_inv env start_host depth limit source_id (crawl_start url tr)"
  by (simp add: crawl_inv_def crawl_start_def)

lemma crawl_result:
  assumes "0 \<le> depth"
  shows "\<exists>s'. while_option (crawl_more limit) (crawl_step env fetch source_id start_host depth) (crawl_start url tr) = Some s' \<and>
    while (crawl_more limit) (crawl_step env fetch source_id start_host depth) (crawl_start url tr) = s' \<and>
    crawl_inv env start_host depth limit source_id s' \<and> \<not> crawl_more limit s'"
proof -
  obtain s' where s: "while_option (crawl_more limit) (crawl_step env fetch source_id start_host depth) (crawl_start url tr) = Some s'"
    using crawl_returns by blast
  have "crawl_inv env start_host depth limit source_id s'"
    by (rule while_option_rule [OF _ s]) (simp_all add: crawl_step_inv crawl_start_inv assms)
  with while_option_stop [OF s] s show ?thesis by (auto simp: while_def)
qed

context guarded_fetcher
begin

lemma crawl_visit_emits:
  "\<exists>new. cw_net (crawl_visit env fetch source_id start_host depth url d s) = cw_net s @ new \<and> guarded_from (wire_ok net None) (cw_net s) new"
proof -
  obtain tr r where f: "fetch (plain_get url) (cw_net s) = (tr, r)" by fastforce
  have "emits (wire_ok net None) (fetch (plain_get url))" using fetch_emits [of "plain_get url"] by (simp add: plain_get_def)
  then obtain new where new: "tr = cw_net s @ new" "guarded_from (wire_ok net None) (cw_net s) new"
    using f unfolding emits_def by (metis fst_conv)
  have "cw_net (crawl_fetched env source_id depth url d raw ct t) = cw_net t" for raw ct t
    by (simp add: crawl_fetched_def Let_def split: sum.split)
  then have "cw_net (crawl_visit env fetch source_id start_host depth url d s) \<in> {cw_net s, tr}"
    by (simp add: crawl_visit_def f split: sum.split prod.split)
  with new show ?thesis by (elim insertE emptyE) (intro exI [of _ "[]"], simp, intro exI [of _ new], simp)
qed

lemma url_emits: "emits (wire_ok net None) (url_documents env fetch source_id config body limit)"
  unfolding emits_def
proof
  fix tr
  let ?P = "\<lambda>s. \<exists>new. cw_net s = tr @ new \<and> guarded_from (wire_ok net None) tr new"
  have step: "?P (crawl_step env fetch source_id h depth s)" if "?P s" for h depth s
  proof (cases "cw_queue s")
    case (Cons q rest)
    obtain url d where q: "q = (url, d)" by (cases q)
    from that obtain new where new: "cw_net s = tr @ new" "guarded_from (wire_ok net None) tr new" by blast
    from crawl_visit_emits [of env source_id h depth url d "s\<lparr>cw_queue := rest\<rparr>"] new obtain new2 where
      "cw_net (crawl_step env fetch source_id h depth s) = (tr @ new) @ new2" "guarded_from (wire_ok net None) (tr @ new) new2"
      by (auto simp: crawl_step_def Cons q)
    with new show ?thesis by (intro exI [of _ "new @ new2"]) (simp add: guarded_from_append)
  qed (simp add: crawl_step_def that)
  have start: "?P (crawl_start u tr)" for u by (intro exI [of _ "[]"]) (simp add: crawl_start_def)
  have loop: "?P (while (crawl_more limit) (crawl_step env fetch source_id h depth) (crawl_start u tr))" for h depth u
  proof -
    obtain s' where s: "while_option (crawl_more limit) (crawl_step env fetch source_id h depth) (crawl_start u tr) = Some s'"
      using crawl_returns by blast
    have "?P s'" by (rule while_option_rule [where P = ?P, OF _ s]) (use step start in blast)+
    with s show ?thesis by (simp add: while_def)
  qed
  show "\<exists>new. fst (url_documents env fetch source_id config body limit tr) = tr @ new \<and> guarded_from (wire_ok net None) tr new"
    unfolding url_documents_def Let_def using loop by (auto split: sum.split intro: exI [of _ "[]"])
qed

end


section \<open>Everything a sync sends is guarded\<close>

definition connector_hosts :: "string \<Rightarrow> string list option" where
  "connector_hosts source_type =
     dget [(''kintone'', kintone_hosts), (''confluence'', confluence_hosts), (''notion'', notion_hosts), (''box'', box_hosts),
       (''google_drive'', gdrive_hosts)] source_type"

fun sync_event_ok :: "net_env \<Rightarrow> bool \<Rightarrow> string list option \<Rightarrow> egress list \<Rightarrow> egress \<Rightarrow> bool" where
  "sync_event_ok net allow_private hosts tr (Wire w) = guarded_wire net hosts tr w"
| "sync_event_ok net allow_private hosts tr (DbConnect dsn host) =
     (allow_private \<or>
      (case db_host (ne_netloc_ok net) dsn of Inl e \<Rightarrow> False
       | Inr h \<Rightarrow> h \<noteq> [] \<and> public_answer net (ne_resolve net tr h None)))"
| "sync_event_ok net allow_private hosts tr (S3Connect endpoint explicit) =
     (endpoint = [] \<or> explicit \<and> (allow_private \<or> \<not> raises (assert_public_host net None endpoint tr)))"

lemma wire_sync_ok: "emits (wire_ok net hosts) m \<Longrightarrow> emits (sync_event_ok net allow_private hosts) m"
proof -
  assume m: "emits (wire_ok net hosts) m"
  have mono: "wire_ok net hosts tr e \<Longrightarrow> sync_event_ok net allow_private hosts tr e" for tr e by (cases e) simp_all
  show ?thesis unfolding emits_def
  proof
    fix tr
    from m obtain new where new: "fst (m tr) = tr @ new" "guarded_from (wire_ok net hosts) tr new" unfolding emits_def by blast
    have "guarded_from (sync_event_ok net allow_private hosts) tr new" by (rule guarded_from_mono [OF mono new(2)])
    with new(1) show "\<exists>new. fst (m tr) = tr @ new \<and> guarded_from (sync_event_ok net allow_private hosts) tr new"
      by (intro exI conjI)
  qed
qed

lemma emits_one:
  assumes "\<And>tr. fst (m tr) = tr \<or> (\<exists>e. fst (m tr) = tr @ [e] \<and> ok tr e)"
  shows "emits ok m"
  unfolding emits_def
proof
  fix tr
  from assms [of tr] show "\<exists>new. fst (m tr) = tr @ new \<and> guarded_from ok tr new"
    by (elim disjE exE conjE) (intro exI [of _ "[]"], simp, rule exI, erule conjI, simp)
qed

lemma s3_checked_ok:
  "s3_checked net c allow_private tr = Inr u \<Longrightarrow>
     sync_event_ok net allow_private hosts tr (S3Connect (s3_endpoint_url c) (own_credentials c))"
  by (cases "assert_public_host net None (s3_endpoint_url c) tr") (auto simp: s3_checked_def split: if_splits)

lemma s3_emits:
  "emits (sync_event_ok (sy_net env) (bool_value body config [''allow_private_host'', ''allow_private'']) hosts)
     (s3_documents env source_id config body limit)"
proof (rule emits_one)
  fix tr
  let ?private = "bool_value body config [''allow_private_host'', ''allow_private'']" and ?c = "s3_settings config body"
  show "fst (s3_documents env source_id config body limit tr) = tr \<or>
    (\<exists>e. fst (s3_documents env source_id config body limit tr) = tr @ [e] \<and> sync_event_ok (sy_net env) ?private hosts tr e)"
  proof (cases "s3_checked (sy_net env) ?c ?private tr")
    case (Inr u)
    from s3_checked_ok [OF Inr] Inr show ?thesis by (simp add: s3_documents_def Let_def)
  qed (simp add: s3_documents_def Let_def)
qed

lemma db_plan_ok:
  assumes "db_plan net config body dsn table_name updated_column tr = Inr (engine, query, host)"
  shows "sync_event_ok net (bool_value body config [''allow_private_host'', ''allow_private'']) hosts tr (DbConnect dsn host)"
proof -
  let ?private = "bool_value body config [''allow_private_host'', ''allow_private'']"
  from assms obtain h where h: "db_host (ne_netloc_ok net) dsn = Inr h" "assert_public_db_host net h ?private tr = Inr ()"
    unfolding db_plan_def rbind_Inr_iff by auto
  then show ?thesis
    by (cases "ne_resolve net tr h None") (auto simp: assert_public_db_host_def public_answer_def split: if_splits)
qed

lemma db_emits:
  "emits (sync_event_ok (sy_net env) (bool_value body config [''allow_private_host'', ''allow_private'']) hosts)
     (db_documents env source_id config body limit)"
proof (rule emits_one)
  fix tr
  let ?dsn = "str_value body config [''connection_string'', ''dsn''] []"
  let ?plan = "db_plan (sy_net env) config body ?dsn (str_value body config [''table_name'', ''table''] [])
    (str_value body config [''updated_column''] []) tr"
  let ?private = "bool_value body config [''allow_private_host'', ''allow_private'']"
  show "fst (db_documents env source_id config body limit tr) = tr \<or>
    (\<exists>e. fst (db_documents env source_id config body limit tr) = tr @ [e] \<and> sync_event_ok (sy_net env) ?private hosts tr e)"
  proof (cases ?plan)
    case (Inr p)
    obtain engine query host where p: "p = (engine, query, host)" by (cases p)
    from db_plan_ok [OF Inr [unfolded p]] Inr p show ?thesis by (simp add: db_documents_def Let_def)
  qed (simp add: db_documents_def Let_def)
qed

lemma emits_if: "(c \<Longrightarrow> emits ok a) \<Longrightarrow> (\<not> c \<Longrightarrow> emits ok b) \<Longrightarrow> emits ok (if c then a else b)"
  by simp


section \<open>The documents of a sync\<close>

definition doc_ok :: "sync_env \<Rightarrow> string \<Rightarrow> sync_document \<Rightarrow> bool" where
  "doc_ok env source_id d \<longleftrightarrow>
     sd_document_id d = document_id (sy_sha1 env) source_id (sd_document_ref d) \<and> sd_content_type d \<in> set parseable_content_types"

definition docs_ok :: "sync_env \<Rightarrow> string \<Rightarrow> int \<Rightarrow> sync_document list \<Rightarrow> bool" where
  "docs_ok env source_id limit docs \<longleftrightarrow> docs \<noteq> [] \<and> int (length docs) \<le> limit \<and> list_all (doc_ok env source_id) docs"

lemma doc_ok_sync_doc [simp]: "ct \<in> set parseable_content_types \<Longrightarrow> doc_ok env source_id (sync_doc env source_id ref raw ct)"
  by (simp add: doc_ok_def sync_doc_def)

lemma common_parseable [simp]:
  "''text/plain'' \<in> set parseable_content_types" "''text/html'' \<in> set parseable_content_types"
  "''text/markdown'' \<in> set parseable_content_types" "''text/csv'' \<in> set parseable_content_types" "content_type_for_name name \<in> set parseable_content_types"
  by (simp_all add: parseable_content_types_def content_type_for_name_def content_type_for_path_def)

lemma nbind_Inr:
  assumes "snd (nbind m f tr) = Inr b"
  obtains tr' a where "m tr = (tr', Inr a)" "snd (f a tr') = Inr b"
  using assms by (auto simp: nbind_def split: prod.splits sum.splits)

lemma snd_nlift [simp]: "snd (nlift r tr) = r" and snd_nret [simp]: "snd (nret a tr) = Inr a"
  by (simp_all add: nlift_def nret_def)

lemma py_take_length: "0 \<le> limit \<Longrightarrow> int (length (py_take limit xs)) \<le> limit"
  by (simp add: py_take_def)

lemma rmap_docs_ok:
  assumes "rmap f xs = Inr docs" and "\<And>x d. f x = Inr d \<Longrightarrow> doc_ok env source_id d"
  shows "list_all (doc_ok env source_id) docs \<and> length docs = length xs"
  using assms(1) by (induction xs arbitrary: docs) (auto simp: rbind_Inr_iff assms(2))

lemma nmap_docs_ok:
  assumes "snd (nmap f xs tr) = Inr docs" and "\<And>x d tr. snd (f x tr) = Inr d \<Longrightarrow> doc_ok env source_id d"
  shows "list_all (doc_ok env source_id) docs \<and> length docs = length xs"
  using assms(1)
proof (induction xs arbitrary: docs tr)
  case (Cons x xs)
  from Cons.prems obtain tr1 d where d: "f x tr = (tr1, Inr d)" "snd (nbind (nmap f xs) (\<lambda>ys. nret (d # ys)) tr1) = Inr docs"
    by (auto elim: nbind_Inr)
  then obtain tr2 ds where "nmap f xs tr1 = (tr2, Inr ds)" "docs = d # ds" by (auto elim: nbind_Inr)
  with Cons.IH [of tr1 ds] assms(2) [of x tr d] d(1) show ?case by simp
qed simp

lemma s3_docs_ok:
  assumes "snd (s3_documents env source_id config body limit tr) = Inr docs" and "1 \<le> limit"
  shows "docs_ok env source_id limit docs"
proof -
  let ?c = "s3_settings config body"
  let ?tr = "tr @ [S3Connect (s3_endpoint_url ?c) (own_credentials ?c)]"
  from assms(1) obtain refs where refs: "refs \<noteq> []" and docs: "rmap (\<lambda>ref.
      rbind (sy_s3_get env ?tr ?c ref) (\<lambda>raw. rbind (content_type_for_ref (ne_netloc_ok (sy_net env)) ref) (\<lambda>ct.
        Inr (sync_doc env source_id ref raw ct)))) (py_take limit refs) = Inr docs"
    by (auto simp: s3_documents_def Let_def rbind_Inr_iff split: if_splits sum.splits)
  have one: "doc_ok env source_id d" if "rbind (sy_s3_get env ?tr ?c ref) (\<lambda>raw. rbind (content_type_for_ref (ne_netloc_ok (sy_net env)) ref) (\<lambda>ct.
        Inr (sync_doc env source_id ref raw ct))) = Inr d" for ref d
    using that by (auto simp: rbind_Inr_iff content_type_for_ref_def)
  have "list_all (doc_ok env source_id) docs \<and> length docs = length (py_take limit refs)"
    by (rule rmap_docs_ok [OF docs]) (rule one)
  moreover have "py_take limit refs \<noteq> []" using refs assms(2) by (simp add: py_take_def)
  ultimately show ?thesis using py_take_length [of limit refs] assms(2) by (auto simp: docs_ok_def)
qed

lemma url_docs_ok:
  assumes "snd (url_documents env fetch source_id config body limit tr) = Inr docs" and "1 \<le> limit"
  shows "docs_ok env source_id limit docs"
proof -
  let ?depth = "crawl_depth env config body" and ?start = "crawl_start (str_value body config [''target_url'', ''url''] []) tr"
  obtain u where p: "urlparse (ne_netloc_ok (sy_net env)) (str_value body config [''target_url'', ''url''] []) = Inr u"
    using assms(1) by (cases "urlparse (ne_netloc_ok (sy_net env)) (str_value body config [''target_url'', ''url''] [])")
      (simp_all add: url_documents_def Let_def split: if_splits)
  with assms(1) have u: "cw_docs (while (crawl_more limit) (crawl_step env fetch source_id (up_netloc u) ?depth) ?start) = docs" "docs \<noteq> []"
    by (auto simp: url_documents_def Let_def split: if_splits option.splits)
  have "0 \<le> ?depth" by (simp add: crawl_depth_def)
  from crawl_result [OF this, of limit env fetch source_id "up_netloc u" "str_value body config [''target_url'', ''url''] []" tr] u(1)
  obtain s where "cw_docs s = docs" "crawl_inv env (up_netloc u) ?depth limit source_id s" by auto
  with u(2) assms(2) show ?thesis
    by (auto simp: crawl_inv_def docs_ok_def doc_ok_def list_all_iff)
qed

lemma db_docs_ok:
  assumes "snd (db_documents env source_id config body limit tr) = Inr docs" and "1 \<le> limit"
  shows "docs_ok env source_id limit docs"
  using assms by (auto simp: db_documents_def Let_def rbind_Inr_iff docs_ok_def split: if_splits sum.splits prod.splits)

lemma kintone_doc_ok:
  assumes "snd (kintone_document env fetch source_id config body limit tr) = Inr d"
  shows "doc_ok env source_id d"
  using assms by (auto simp: kintone_document_def Let_def rbind_Inr_iff split: if_splits elim!: nbind_Inr)

lemma kintone_docs_ok:
  assumes "snd (nbind (kintone_document env fetch source_id config body limit) (\<lambda>doc. nret [doc]) tr) = Inr docs" and "1 \<le> limit"
  shows "docs_ok env source_id limit docs"
  using assms(1)
proof (rule nbind_Inr)
  fix tr1 d assume "kintone_document env fetch source_id config body limit tr = (tr1, Inr d)" "snd (nret [d] tr1) = Inr docs"
  with kintone_doc_ok [of env fetch source_id config body limit tr d] assms(2) show ?thesis by (auto simp: docs_ok_def)
qed

lemma confluence_docs_ok:
  assumes "snd (confluence_documents env fetch source_id config body limit tr) = Inr docs" and "1 \<le> limit"
  shows "docs_ok env source_id limit docs"
proof -
  from assms(1) obtain base pages dss where dss: "rmap (confluence_page env source_id base) (py_take limit pages) = Inr dss"
    and docs: "docs = concat dss" "docs \<noteq> []"
    by (fastforce simp: confluence_documents_def Let_def rbind_Inr_iff split: if_splits elim!: nbind_Inr)
  have page: "length ds \<le> 1 \<and> list_all (doc_ok env source_id) ds" if "confluence_page env source_id base p = Inr ds" for p ds
    using that by (auto simp: confluence_page_def Let_def split: pyval.splits)
  have "length (concat dss) \<le> length xs \<and> list_all (doc_ok env source_id) (concat dss)"
    if "rmap (confluence_page env source_id base) xs = Inr dss" for xs dss
    using that
  proof (induction xs arbitrary: dss)
    case (Cons x xs)
    then obtain ds rest where r: "confluence_page env source_id base x = Inr ds" "rmap (confluence_page env source_id base) xs = Inr rest" "dss = ds # rest"
      by (auto simp: rbind_Inr_iff)
    from Cons.IH [OF r(2)] page [OF r(1)] r(3) show ?case by simp
  qed simp
  from this [OF dss] docs py_take_length [of limit pages] assms(2) show ?thesis by (auto simp: docs_ok_def)
qed

lemma notion_docs_ok:
  assumes "snd (notion_documents env fetch source_id config body limit tr) = Inr docs" and "1 \<le> limit"
  shows "docs_ok env source_id limit docs"
proof -
  from assms(1) obtain token pages tr1 tr2 where n: "nmap (notion_page env fetch source_id token) (py_take limit pages) tr1 = (tr2, Inr docs)"
    and ne: "docs \<noteq> []"
    by (auto simp: notion_documents_def Let_def split: if_splits elim!: nbind_Inr)
  have page: "doc_ok env source_id d" if "snd (notion_page env fetch source_id token p tr) = Inr d" for p d tr
    using that by (auto simp: notion_page_def Let_def rbind_Inr_iff split: prod.splits elim!: nbind_Inr)
  have "snd (nmap (notion_page env fetch source_id token) (py_take limit pages) tr1) = Inr docs" using n by simp
  then have "list_all (doc_ok env source_id) docs \<and> length docs = length (py_take limit pages)"
    by (rule nmap_docs_ok) (rule page)
  with ne py_take_length [of limit pages] assms(2) show ?thesis by (auto simp: docs_ok_def)
qed

lemma file_loop_ok:
  assumes "snd (file_loop env fetch source_id plan limit es docs tr) = Inr r"
    and "list_all (doc_ok env source_id) docs" and "int (length docs) < limit"
    and "\<And>e req ref ct. plan e = Some (req, ref, ct) \<Longrightarrow> ct \<in> set parseable_content_types"
  shows "list_all (doc_ok env source_id) r \<and> int (length r) \<le> limit"
  using assms(1-3)
proof (induction es arbitrary: docs tr)
  case (Cons e es)
  show ?case
  proof (cases "plan e")
    case None
    with Cons show ?thesis by simp
  next
    case (Some p)
    obtain req ref ct where p: "p = (req, ref, ct)" by (cases p)
    from assms(4) Some p have ct: "ct \<in> set parseable_content_types" by blast
    from Cons.prems(1) Some p obtain tr1 raw where
      "snd ((let docs = docs @ [sync_doc env source_id ref raw ct] in if limit \<le> int (length docs) then nret docs
         else file_loop env fetch source_id plan limit es docs) tr1) = Inr r" by (auto elim!: nbind_Inr)
    with Cons.prems(2,3) ct Cons.IH [of "docs @ [sync_doc env source_id ref raw ct]" tr1] show ?thesis
      by (auto simp: Let_def split: if_splits)
  qed
qed simp

lemma box_docs_ok:
  assumes "snd (box_documents env fetch source_id config body limit tr) = Inr docs" and "1 \<le> limit"
  shows "docs_ok env source_id limit docs"
proof -
  from assms(1) obtain token folder es tr1 tr2 where f: "file_loop env fetch source_id (box_file token folder) limit es [] tr1 = (tr2, Inr docs)"
    and ne: "docs \<noteq> []"
    by (auto simp: box_documents_def Let_def split: if_splits elim!: nbind_Inr)
  have "snd (file_loop env fetch source_id (box_file token folder) limit es [] tr1) = Inr docs" using f by simp
  then have "list_all (doc_ok env source_id) docs \<and> int (length docs) \<le> limit"
    by (rule file_loop_ok) (use assms(2) in \<open>auto simp: box_file_def Let_def split: pyval.splits if_splits\<close>)
  with ne show ?thesis by (simp add: docs_ok_def)
qed

lemma gdrive_plan_parseable:
  "gdrive_file token folder e = Some (req, ref, ct) \<Longrightarrow> ct \<in> set parseable_content_types"
  by (auto simp: gdrive_file_def gdrive_export_def Let_def split: pyval.splits if_splits option.splits)

lemma gdrive_docs_ok:
  assumes "snd (gdrive_documents env fetch source_id config body limit tr) = Inr docs" and "1 \<le> limit"
  shows "docs_ok env source_id limit docs"
proof -
  from assms(1) obtain token folder tr1 tr2 where
    g: "gdrive_pages env fetch source_id token folder limit 50 (PStr []) [] tr1 = (tr2, Inr docs)" and ne: "docs \<noteq> []"
    by (auto simp: gdrive_documents_def Let_def split: if_splits elim!: nbind_Inr)
  have "list_all (doc_ok env source_id) r \<and> int (length r) \<le> limit"
    if "snd (gdrive_pages env fetch source_id token folder limit n pt ds tr) = Inr r" "list_all (doc_ok env source_id) ds" "int (length ds) < limit"
    for n pt ds tr r
    using that
  proof (induction n arbitrary: pt ds tr)
    case (Suc n)
    from Suc.prems(1) obtain tr1 tr2 es pt2 ds2 where
      l: "file_loop env fetch source_id (gdrive_file token folder) limit es ds tr1 = (tr2, Inr ds2)"
        "snd ((if \<not> py_truthy pt2 \<or> limit \<le> int (length ds2) then nret ds2
         else gdrive_pages env fetch source_id token folder limit n pt2 ds2) tr2) = Inr r"
      by (auto elim!: nbind_Inr)
    have "snd (file_loop env fetch source_id (gdrive_file token folder) limit es ds tr1) = Inr ds2" using l(1) by simp
    then have ds2: "list_all (doc_ok env source_id) ds2 \<and> int (length ds2) \<le> limit"
      by (rule file_loop_ok [OF _ Suc.prems(2,3)]) (rule gdrive_plan_parseable)
    show ?case
    proof (cases "\<not> py_truthy pt2 \<or> limit \<le> int (length ds2)")
      case True
      with l(2) ds2 show ?thesis by simp
    next
      case False
      with l(2) ds2 Suc.IH [of pt2 ds2 tr2] show ?thesis by simp
    qed
  qed simp
  from this [of 50 "PStr []" "[]" tr1 docs] g ne assms(2) show ?thesis by (simp add: docs_ok_def)
qed

text \<open>C35: A sync hands over what the pipeline can ingest: when it succeeds, for whatever fetch, it gives at least one
  document and at most the effective limit, which lies between one and a hundred whatever the request asks for;
  every document has a type the parser reads and the id that its source and its reference determine.\<close>

theorem sync_documents_wellformed:
  assumes "snd (build_sync_documents env fetch source_id datasource body limit tr) = Inr docs"
  shows "docs \<noteq> [] \<and> int (length docs) \<le> effective_limit env (as_mapping (py_get datasource ''config'')) body limit \<and>
    effective_limit env (as_mapping (py_get datasource ''config'')) body limit \<in> {1..100} \<and>
    list_all (\<lambda>d. sd_document_id d = document_id (sy_sha1 env) source_id (sd_document_ref d) \<and>
      sd_content_type d \<in> set parseable_content_types) docs"
proof -
  let ?config = "as_mapping (py_get datasource ''config'')"
  let ?l = "effective_limit env ?config body limit"
  have l: "1 \<le> ?l" "?l \<le> 100" by (simp_all add: effective_limit_def)
  note run = assms [unfolded build_sync_documents_def Let_def]
  have "docs_ok env source_id ?l docs"
    using run s3_docs_ok [OF _ l(1)] url_docs_ok [OF _ l(1)] db_docs_ok [OF _ l(1)] confluence_docs_ok [OF _ l(1)]
      notion_docs_ok [OF _ l(1)] box_docs_ok [OF _ l(1)] gdrive_docs_ok [OF _ l(1)]
      kintone_docs_ok [OF _ l(1)]
    by (auto split: if_splits)
  with l show ?thesis by (simp add: docs_ok_def doc_ok_def [abs_def])
qed

definition sample_sync_env :: sync_env where
  "sample_sync_env =
     \<lparr>sy_net = sample_net_env, sy_sha1 = (\<lambda>s. s), sy_parse_int = (\<lambda>_. None), sy_json = (\<lambda>_. Inr (PDict [])), sy_dumps = (\<lambda>_. []),
      sy_tags = (\<lambda>_. []), sy_rows = (\<lambda>_ _ _ _ _. Inr []), sy_s3_list = (\<lambda>_ _ _ _. Inr []), sy_s3_get = (\<lambda>_ _ _. Inr [])\<rparr>"


definition sample_s3 :: pydict where
  "sample_s3 = [(''config'', PDict [(''source_type'', PStr ''s3''), (''bucket'', PStr ''b''), (''key'', PStr ''k'')])]"

lemma find_none_first: "\<not> P PNone \<Longrightarrow> find P (map (py_get []) ks @ vs) = find P vs"
  by (induction ks) (simp_all add: py_get_def)

lemma str_value_config:
  "str_value [] config [] d = d"
  "str_value [] config (k # ks) d =
     (if py_get config k \<noteq> PNone \<and> py_strip (py_str (py_get config k)) \<noteq> [] then py_strip (py_str (py_get config k))
      else str_value [] config ks d)"
proof -
  have s: "str_value [] config ks d = (case find (\<lambda>v. v \<noteq> PNone \<and> py_strip (py_str v) \<noteq> []) (map (py_get config) ks) of
        None \<Rightarrow> d | Some v \<Rightarrow> py_strip (py_str v))" for ks
    unfolding str_value_def by (subst find_none_first) simp_all
  show "str_value [] config [] d = d" by (simp add: s)
  show "str_value [] config (k # ks) d =
     (if py_get config k \<noteq> PNone \<and> py_strip (py_str (py_get config k)) \<noteq> [] then py_strip (py_str (py_get config k))
      else str_value [] config ks d)" unfolding s by simp
qed

lemma plain_strip: "plain_char c \<Longrightarrow> py_strip [c] = [c]"
  by (rule py_strip_plain) simp_all

theorem sync_documents_wellformed_witness:
  "\<exists>docs. snd (build_sync_documents sample_sync_env (\<lambda>req tr. (tr, Inr ([], []))) ''src'' sample_s3 [] 25 []) = Inr docs \<and>
    docs \<noteq> [] \<and> list_all (\<lambda>d. sd_content_type d \<in> set parseable_content_types) docs"
proof -
  have "\<not> raises (snd (build_sync_documents sample_sync_env (\<lambda>req tr. (tr, Inr ([], []))) ''src'' sample_s3 [] 25 []))"
  proof -
    have strip: "py_strip ''b'' = ''b''" "py_strip ''k'' = ''k''" by (rule plain_strip, simp add: plain_char_def)+
    have kind: "source_type_of sample_s3 = ''s3''"
      by (simp add: source_type_of_def sample_s3_def as_mapping_def py_get_def py_or_def py_lower_def lower_char_def)
    have "\<not> raises (urlparse (\<lambda>_. True) ''s3://b/k'')" by code_simp
    then obtain ct where ct: "content_type_for_ref (\<lambda>_. True) ''s3://b/k'' = Inr ct"
      by (cases "urlparse (\<lambda>_. True) ''s3://b/k''") (simp_all add: content_type_for_ref_def)
    define config where "config = as_mapping (py_get sample_s3 ''config'')"
    have get: "py_get config k = (if k = ''source_type'' then PStr ''s3'' else if k = ''bucket'' then PStr ''b'' else if k = ''key'' then PStr ''k'' else PNone)"
      for k by (simp add: config_def sample_s3_def as_mapping_def py_get_def)
    have limit: "effective_limit sample_sync_env config [] 25 = 25"
      by (simp add: effective_limit_def int_value_def sample_sync_env_def)
    show ?thesis
      unfolding build_sync_documents_def Let_def kind config_def [symmetric] limit
      by (simp add: s3_documents_def s3_settings_def s3_checked_def s3_refs_def str_value_config get strip lstrip_chars_def
          sample_sync_env_def sample_net_env_def ct py_take_def)
  qed
  then obtain docs where d: "snd (build_sync_documents sample_sync_env (\<lambda>req tr. (tr, Inr ([], []))) ''src'' sample_s3 [] 25 []) = Inr docs"
    by (cases "snd (build_sync_documents sample_sync_env (\<lambda>req tr. (tr, Inr ([], []))) ''src'' sample_s3 [] 25 [])") auto
  from sync_documents_wellformed [OF d] d show ?thesis by (auto simp: list_all_iff)
qed

text \<open>The check of a database host reads the token \<open>host=\<close> of a DSN that is not a URL, while \<open>_mysql_connect\<close> only reads the
  URL: such a DSN is checked for the host it names and connected to the local one.\<close>

lemma mysql_connects_elsewhere:
  assumes "db_plan net config body dsn table_name updated_column tr = Inr (''mysql'', query, host)"
    and "urlparse (ne_netloc_ok net) dsn = Inr u" and "url_hostname u = []"
  shows "host = Some ''127.0.0.1'' \<and> db_host (ne_netloc_ok net) dsn = Inr (host_token True dsn)"
  using assms by (auto simp: db_plan_def rbind_Inr_iff mysql_target_def db_host_def split: if_splits)

end
