(* ===== verification/Cost.thy ===== *)
theory Cost
  imports PyVal
begin

text \<open>
  The cost service of \<open>services/cost.py\<close>: the running total and the budget of each tenant and the log of
  cost records. Amounts are exact rationals; the clock is the argument \<open>now\<close>, the optional durable sink
  answers whether it stored a record.
\<close>

section \<open>State\<close>

record cost_record =
  cr_tenant_id :: string
  cr_kind :: string
  cr_amount :: rat
  cr_trace_id :: string
  cr_collection_id :: string
  cr_query_id :: string
  cr_job_id :: string
  cr_quantity :: int
  cr_unit :: string
  cr_billable :: bool
  cr_created_at :: string
  cr_metadata :: pydict

record cost_service =
  co_spent :: "(string, rat) dict"
  co_budgets :: "(string, rat) dict"
  co_records :: "cost_record list"
  co_sink :: "(cost_record \<Rightarrow> bool) option"
  co_sink_failures :: nat

definition new_costs :: "(cost_record \<Rightarrow> bool) option \<Rightarrow> cost_service" where
  "new_costs sink = \<lparr>co_spent = [], co_budgets = [], co_records = [], co_sink = sink, co_sink_failures = 0\<rparr>"

text \<open>\<open>CostRecord(tenant_id, kind, amount)\<close> with every default.\<close>

definition cost_entry :: "string \<Rightarrow> string \<Rightarrow> string \<Rightarrow> rat \<Rightarrow> cost_record" where
  "cost_entry now tenant_id kind amount =
     \<lparr>cr_tenant_id = tenant_id, cr_kind = kind, cr_amount = amount, cr_trace_id = [], cr_collection_id = [],
      cr_query_id = [], cr_job_id = [], cr_quantity = 0, cr_unit = [], cr_billable = True, cr_created_at = now,
      cr_metadata = []\<rparr>"

definition visual_cost_kinds :: "string list" where
  "visual_cost_kinds =
     [''ocr_cost'', ''layout_extraction_cost'', ''captioning_cost'', ''visual_embedding_cost'', ''vlm_image_tokens'',
      ''thumbnail_crop_generation_cost'', ''visual_storage_cost'']"

section \<open>Operations\<close>

definition set_budget :: "string \<Rightarrow> rat option \<Rightarrow> cost_service \<Rightarrow> cost_service" where
  "set_budget tenant_id budget cs =
     (case budget of
        None \<Rightarrow> cs\<lparr>co_budgets := ddel tenant_id (co_budgets cs)\<rparr>
      | Some b \<Rightarrow> cs\<lparr>co_budgets := dset tenant_id b (co_budgets cs)\<rparr>)"

definition tenant_spent :: "cost_service \<Rightarrow> string \<Rightarrow> rat" where
  "tenant_spent cs tenant_id = dcount (co_spent cs) tenant_id"

definition would_exceed :: "string \<Rightarrow> rat \<Rightarrow> cost_service \<Rightarrow> bool" where
  "would_exceed tenant_id estimated cs =
     (case dget (co_budgets cs) tenant_id of
        None \<Rightarrow> False
      | Some budget \<Rightarrow> tenant_spent cs tenant_id + estimated > budget)"

record cost_summary =
  csum_kind :: string
  csum_amount :: rat
  csum_tenant_total :: rat

definition cost_log :: "cost_record \<Rightarrow> cost_service \<Rightarrow> cost_service \<times> cost_summary" where
  "cost_log r cs =
     (let t = cr_tenant_id r;
          spent = (if cr_billable r then dset t (tenant_spent cs t + cr_amount r) (co_spent cs)
                   else case dget (co_spent cs) t of
                          None \<Rightarrow> dset t (tenant_spent cs t) (co_spent cs)
                        | Some _ \<Rightarrow> co_spent cs);
          failures = (case co_sink cs of
                        None \<Rightarrow> co_sink_failures cs
                      | Some store \<Rightarrow> if store r then co_sink_failures cs else Suc (co_sink_failures cs));
          cs' = cs\<lparr>co_spent := spent, co_records := co_records cs @ [r], co_sink_failures := failures\<rparr>
      in (cs', \<lparr>csum_kind = cr_kind r, csum_amount = cr_amount r, csum_tenant_total = tenant_spent cs' t\<rparr>))"

definition record_tokens ::
  "string \<Rightarrow> string \<Rightarrow> string \<Rightarrow> int \<Rightarrow> string \<Rightarrow> string \<Rightarrow> pydict \<Rightarrow> cost_service \<Rightarrow> cost_service" where
  "record_tokens now tenant_id kind tokens trace_id query_id metadata cs =
     fst (cost_log ((cost_entry now tenant_id kind 0)
       \<lparr>cr_trace_id := trace_id, cr_query_id := query_id, cr_quantity := max 0 tokens, cr_unit := ''tokens'',
        cr_billable := False, cr_metadata := metadata\<rparr>) cs)"

definition record_visual_cost ::
  "string \<Rightarrow> string \<Rightarrow> string \<Rightarrow> rat \<Rightarrow> string \<Rightarrow> string \<Rightarrow> int \<Rightarrow> string \<Rightarrow> bool \<Rightarrow> pydict \<Rightarrow>
     cost_service \<Rightarrow> cost_service result" where
  "record_visual_cost now tenant_id kind amount trace_id query_id quantity unit billable metadata cs =
     (if kind \<notin> set visual_cost_kinds then Inl ValueError
      else Inr (fst (cost_log ((cost_entry now tenant_id kind (max 0 amount))
        \<lparr>cr_trace_id := trace_id, cr_query_id := query_id, cr_quantity := max 0 quantity, cr_unit := unit,
         cr_billable := billable, cr_metadata := metadata\<rparr>) cs)))"

definition cost_records :: "string option \<Rightarrow> string \<Rightarrow> cost_service \<Rightarrow> cost_record list" where
  "cost_records tenant_id kind cs =
     filter (\<lambda>r. (case tenant_id of None \<Rightarrow> True | Some t \<Rightarrow> cr_tenant_id r = t) \<and> (kind \<noteq> [] \<longrightarrow> cr_kind r = kind))
       (co_records cs)"

section \<open>The ledger balances\<close>

definition billed :: "string \<Rightarrow> cost_record list \<Rightarrow> rat" where
  "billed t rs = sum_list (map cr_amount (filter (\<lambda>r. cr_tenant_id r = t \<and> cr_billable r) rs))"

definition ledger_ok :: "cost_service \<Rightarrow> bool" where
  "ledger_ok cs \<longleftrightarrow> wf_dict (co_spent cs) \<and> (\<forall>t. tenant_spent cs t = billed t (co_records cs))"

inductive costs_reachable :: "cost_service \<Rightarrow> bool" where
  cost_new: "costs_reachable (new_costs sink)"
| cost_budget: "costs_reachable cs \<Longrightarrow> costs_reachable (set_budget t b cs)"
| cost_logged: "costs_reachable cs \<Longrightarrow> costs_reachable (fst (cost_log r cs))"

lemma costs_reachable_tokens: "costs_reachable cs \<Longrightarrow> costs_reachable (record_tokens now t k n tr q m cs)"
  by (simp add: record_tokens_def cost_logged)

lemma costs_reachable_visual:
  "costs_reachable cs \<Longrightarrow> record_visual_cost now t k a tr q n u b m cs = Inr cs' \<Longrightarrow> costs_reachable cs'"
  by (auto simp: record_visual_cost_def cost_logged split: if_splits)

lemma tenant_spent_log:
  "tenant_spent (fst (cost_log r cs)) t =
     tenant_spent cs t + (if cr_tenant_id r = t \<and> cr_billable r then cr_amount r else 0)"
  by (auto simp: cost_log_def Let_def tenant_spent_def dcount_def dict_simps split: option.splits)

lemma billed_snoc:
  "billed t (rs @ [r]) = billed t rs + (if cr_tenant_id r = t \<and> cr_billable r then cr_amount r else 0)"
  by (simp add: billed_def)

lemma records_log: "co_records (fst (cost_log r cs)) = co_records cs @ [r]"
  by (simp add: cost_log_def Let_def)

lemma budgets_log [frame_simps]: "co_budgets (fst (cost_log r cs)) = co_budgets cs"
  by (simp add: cost_log_def Let_def)

lemma wf_spent_log: "wf_dict (co_spent cs) \<Longrightarrow> wf_dict (co_spent (fst (cost_log r cs)))"
  by (auto simp: cost_log_def Let_def wf_intros split: option.splits)

lemma ledger_reachable: "costs_reachable cs \<Longrightarrow> ledger_ok cs"
proof (induction rule: costs_reachable.induct)
  case (cost_new sink)
  then show ?case by (simp add: ledger_ok_def new_costs_def tenant_spent_def billed_def)
next
  case (cost_budget cs t b)
  then show ?case by (cases b) (auto simp: ledger_ok_def set_budget_def tenant_spent_def)
next
  case (cost_logged cs r)
  then show ?case by (simp add: ledger_ok_def wf_spent_log tenant_spent_log billed_snoc records_log)
qed

lemma would_exceed_tokens [frame_simps]:
  "would_exceed t e (record_tokens now u k n tr q m cs) = would_exceed t e cs"
  by (simp add: would_exceed_def record_tokens_def tenant_spent_log frame_simps split: option.split)

text \<open>A charge that passed the budget check leaves the tenant within its budget.\<close>

lemma budget_respected:
  "\<not> would_exceed t a cs \<Longrightarrow> cr_tenant_id r = t \<Longrightarrow> cr_amount r = a \<Longrightarrow> cr_billable r \<Longrightarrow>
     dget (co_budgets cs) t = Some b \<Longrightarrow> tenant_spent (fst (cost_log r cs)) t \<le> b"
  by (simp add: would_exceed_def tenant_spent_log)

text \<open>In every reachable state of the cost service the running total of each tenant, which the budget
  check reads, is the sum of the billable amounts of that tenant's records: unbillable token counts and the
  charges of other tenants never move it, whatever the durable sink does.
\<close>

theorem cost_ledger_balances:
  assumes "costs_reachable cs"
  shows "\<forall>t. tenant_spent cs t = billed t (co_records cs)"
  using ledger_reachable [OF assms] by (simp add: ledger_ok_def)

theorem cost_ledger_balances_witness:
  "let cs = fst (cost_log (cost_entry ''now'' ''t1'' ''answer'' 1)
       (record_tokens ''now'' ''t1'' ''llm_prompt_tokens'' 40 ''c'' ''p'' [] (new_costs (Some (\<lambda>r. False)))))
   in (\<forall>t. tenant_spent cs t = billed t (co_records cs)) \<and> tenant_spent cs ''t1'' = 1 \<and> co_sink_failures cs = 2"
proof -
  let ?cs = "fst (cost_log (cost_entry ''now'' ''t1'' ''answer'' 1)
       (record_tokens ''now'' ''t1'' ''llm_prompt_tokens'' 40 ''c'' ''p'' [] (new_costs (Some (\<lambda>r. False)))))"
  have "costs_reachable ?cs" by (intro cost_logged costs_reachable_tokens cost_new)
  from cost_ledger_balances [OF this]
  have "\<forall>t. tenant_spent ?cs t = billed t (co_records ?cs)" .
  moreover have "tenant_spent ?cs ''t1'' = 1 \<and> co_sink_failures ?cs = 2"
    by (simp add: cost_log_def record_tokens_def cost_entry_def new_costs_def tenant_spent_def dcount_def Let_def)
  ultimately show ?thesis by (simp add: Let_def)
qed

end
