(* ===== verification/Regex.thy ===== *)
theory Regex
  imports PyStr
begin

text \<open>
  The part of Python's \<open>re\<close> that the services use. A pattern is a value of \<open>rx\<close> over code points; its
  meaning \<open>rx_ends r s i\<close> is the list of the positions where a match that starts at \<open>i\<close> can end, in the
  order in which the backtracking matcher of CPython tries them (greedy repetition, alternatives from the
  left), so that the head of the list is the match \<open>re\<close> reports. \<open>rx_finditer\<close> is the scan of
  \<open>finditer\<close>, \<open>findall\<close>, \<open>sub\<close> and \<open>split\<close>. The Unicode tables (\<open>\w\<close>, \<open>\d\<close> and the digit test of
  \<open>str.isdigit\<close>) are the record \<open>ucd\<close>, which the definitions that read them take as an argument.
\<close>

section \<open>Code points\<close>

definition cp :: "string \<Rightarrow> int" where
  "cp w = (case map (of_char :: char \<Rightarrow> int) w of
       [a, b] \<Rightarrow> (a mod 32) * 64 + b mod 64
     | [a, b, c] \<Rightarrow> (a mod 16) * 4096 + (b mod 64) * 64 + c mod 64
     | [a, b, c, d] \<Rightarrow> (a mod 8) * 262144 + (b mod 64) * 4096 + (c mod 64) * 64 + d mod 64
     | ns \<Rightarrow> (case ns of [] \<Rightarrow> 0 | a # _ \<Rightarrow> a))"

definition cps :: "string \<Rightarrow> int list" where
  "cps s = map cp (utf8_chars s)"

lemma utf8_start_code [code]: "utf8_start (Char b0 b1 b2 b3 b4 b5 b6 b7) \<longleftrightarrow> (b7 \<longrightarrow> b6)"
  by (cases b0; cases b1; cases b2; cases b3; cases b4; cases b5; cases b6; cases b7) (simp_all add: utf8_start_def)

lemma ws_encodings_code [code]:
  "ws_encodings =
     [[CHR 0x09], [CHR 0x0A], [CHR 0x0B], [CHR 0x0C],
      [CHR 0x0D], [CHR 0x1C], [CHR 0x1D], [CHR 0x1E],
      [CHR 0x1F], [CHR 0x20], [CHR 0xC2, CHR 0x85], [CHR 0xC2, CHR 0xA0],
      [CHR 0xE1, CHR 0x9A, CHR 0x80], [CHR 0xE2, CHR 0x80, CHR 0xA8], [CHR 0xE2, CHR 0x80, CHR 0xA9], [CHR 0xE2, CHR 0x80, CHR 0xAF],
      [CHR 0xE2, CHR 0x81, CHR 0x9F], [CHR 0xE3, CHR 0x80, CHR 0x80], [CHR 0xE2, CHR 0x80, CHR 0x80], [CHR 0xE2, CHR 0x80, CHR 0x81],
      [CHR 0xE2, CHR 0x80, CHR 0x82], [CHR 0xE2, CHR 0x80, CHR 0x83], [CHR 0xE2, CHR 0x80, CHR 0x84], [CHR 0xE2, CHR 0x80, CHR 0x85],
      [CHR 0xE2, CHR 0x80, CHR 0x86], [CHR 0xE2, CHR 0x80, CHR 0x87], [CHR 0xE2, CHR 0x80, CHR 0x88], [CHR 0xE2, CHR 0x80, CHR 0x89],
      [CHR 0xE2, CHR 0x80, CHR 0x8A]]"
  by code_simp

lemma concat_utf8_chars: "concat (utf8_chars s) = s"
  by (induction s) (auto split: list.splits)

lemma length_cps: "length (cps s) = length (utf8_chars s)"
  by (simp add: cps_def)

record ucd =
  u_word :: "int \<Rightarrow> bool"
  u_decimal :: "int \<Rightarrow> bool"
  u_digit :: "int \<Rightarrow> bool"

definition ascii_digit :: "int \<Rightarrow> bool" where
  "ascii_digit n \<longleftrightarrow> 48 \<le> n \<and> n \<le> 57"

definition ascii_alpha :: "int \<Rightarrow> bool" where
  "ascii_alpha n \<longleftrightarrow> (65 \<le> n \<and> n \<le> 90) \<or> (97 \<le> n \<and> n \<le> 122)"

definition ascii_lower :: "int \<Rightarrow> bool" where
  "ascii_lower n \<longleftrightarrow> 97 \<le> n \<and> n \<le> 122"

definition ascii_upper :: "int \<Rightarrow> bool" where
  "ascii_upper n \<longleftrightarrow> 65 \<le> n \<and> n \<le> 90"

definition ascii_alnum :: "int \<Rightarrow> bool" where
  "ascii_alnum n \<longleftrightarrow> ascii_alpha n \<or> ascii_digit n"

text \<open>The table of a text in ASCII, kana and kanji.\<close>

definition ucd_jp :: ucd where
  "ucd_jp = \<lparr>u_word = \<lambda>n. ascii_alnum n \<or> n = 95 \<or> (0x3041 \<le> n \<and> n \<le> 0x30FF \<and> n \<noteq> 0x30FB) \<or> (0x4E00 \<le> n \<and> n \<le> 0x9FFF),
     u_decimal = ascii_digit, u_digit = ascii_digit\<rparr>"

definition is_space_cp :: "int \<Rightarrow> bool" where
  "is_space_cp n \<longleftrightarrow> (9 \<le> n \<and> n \<le> 13) \<or> (28 \<le> n \<and> n \<le> 32) \<or>
     n \<in> {0x85, 0xA0, 0x1680, 0x2028, 0x2029, 0x202F, 0x205F, 0x3000} \<or> (0x2000 \<le> n \<and> n \<le> 0x200A)"

text \<open>
  The folding of \<open>IGNORECASE\<close> on ASCII letters; four characters outside ASCII match one: the dotted and
  the dotless I, the long s and the Kelvin sign.
\<close>

definition fold_cp :: "int \<Rightarrow> int" where
  "fold_cp n =
     (if ascii_upper n then n + 32
      else if n = 0x130 \<or> n = 0x131 then 105
      else if n = 0x17F then 115
      else if n = 0x212A then 107
      else n)"

section \<open>Patterns\<close>

datatype rx =
    Eps
  | Cls "int \<Rightarrow> bool"
  | Cat rx rx
  | Alt rx rx
  | Rep nat "nat option" rx
  | Edge "int \<Rightarrow> bool"
  | NotBehind "int \<Rightarrow> bool"
  | Behind "int \<Rightarrow> bool"
  | NotAhead rx
  | BOS
  | Never

definition before :: "int list \<Rightarrow> nat \<Rightarrow> (int \<Rightarrow> bool) \<Rightarrow> bool" where
  "before s i p \<longleftrightarrow> 0 < i \<and> i \<le> length s \<and> p (s ! (i - 1))"

definition here :: "int list \<Rightarrow> nat \<Rightarrow> (int \<Rightarrow> bool) \<Rightarrow> bool" where
  "here s i p \<longleftrightarrow> i < length s \<and> p (s ! i)"

text \<open>
  \<open>r{m,k}\<close>: one more round first, then stopping here when enough rounds are done. A round that consumes
  nothing ends the repetition.
\<close>

fun reps :: "(nat \<Rightarrow> nat list) \<Rightarrow> nat \<Rightarrow> nat \<Rightarrow> nat \<Rightarrow> nat list" where
  "reps f m 0 i = (if m = 0 then [i] else [])"
| "reps f m (Suc k) i =
     concat (map (\<lambda>j. if j \<le> i then [] else reps f (m - 1) k j) (f i)) @ (if m = 0 then [i] else [])"

primrec rx_ends :: "rx \<Rightarrow> int list \<Rightarrow> nat \<Rightarrow> nat list" where
  "rx_ends Eps s i = [i]"
| "rx_ends (Cls p) s i = (if here s i p then [Suc i] else [])"
| "rx_ends (Cat a b) s i = concat (map (rx_ends b s) (rx_ends a s i))"
| "rx_ends (Alt a b) s i = rx_ends a s i @ rx_ends b s i"
| "rx_ends (Rep m k a) s i =
     reps (rx_ends a s) m (case k of None \<Rightarrow> length s - i | Some n \<Rightarrow> n) i"
| "rx_ends (Edge w) s i = (if before s i w \<noteq> here s i w then [i] else [])"
| "rx_ends (NotBehind p) s i = (if before s i p then [] else [i])"
| "rx_ends (Behind p) s i = (if before s i p then [i] else [])"
| "rx_ends (NotAhead a) s i = (if rx_ends a s i = [] then [i] else [])"
| "rx_ends BOS s i = (if i = 0 then [i] else [])"
| "rx_ends Never s i = []"

fun rx_seq :: "rx list \<Rightarrow> rx" where
  "rx_seq [] = Eps"
| "rx_seq [r] = r"
| "rx_seq (r # rs) = Cat r (rx_seq rs)"

fun rx_any :: "rx list \<Rightarrow> rx" where
  "rx_any [] = Never"
| "rx_any [r] = r"
| "rx_any (r # rs) = Alt r (rx_any rs)"

definition rx_opt :: "rx \<Rightarrow> rx" where "rx_opt r = Rep 0 (Some 1) r"
definition rx_star :: "rx \<Rightarrow> rx" where "rx_star r = Rep 0 None r"
definition rx_plus :: "rx \<Rightarrow> rx" where "rx_plus r = Rep 1 None r"
definition rx_upto :: "nat \<Rightarrow> nat \<Rightarrow> rx \<Rightarrow> rx" where "rx_upto m k r = Rep m (Some k) r"

definition rx_chr :: "int \<Rightarrow> rx" where "rx_chr n = Cls (\<lambda>c. c = n)"
definition rx_in :: "int list \<Rightarrow> rx" where "rx_in ns = Cls (\<lambda>c. c \<in> set ns)"
definition rx_ws :: rx where "rx_ws = Cls is_space_cp"
definition rx_ws1 :: rx where "rx_ws1 = rx_plus rx_ws"

text \<open>A literal, and a literal under \<open>IGNORECASE\<close> (written in lower case).\<close>

definition rx_lit :: "int list \<Rightarrow> rx" where "rx_lit ns = rx_seq (map rx_chr ns)"

definition rx_word :: "string \<Rightarrow> rx" where "rx_word s = rx_lit (map of_char s)"

definition rx_ci :: "string \<Rightarrow> rx" where
  "rx_ci s = rx_seq (map (\<lambda>x. Cls (\<lambda>c. fold_cp c = of_char x)) s)"

definition rx_words :: "string list \<Rightarrow> rx" where "rx_words ss = rx_any (map rx_ci ss)"

section \<open>Scanning\<close>

lemma in_reps_Suc:
  "j \<in> set (reps f m (Suc k) i) \<longleftrightarrow>
     (\<exists>i'\<in>set (f i). i < i' \<and> j \<in> set (reps f (m - 1) k i')) \<or> (m = 0 \<and> j = i)"
  by (auto simp: not_le)

declare reps.simps(2) [simp del]

lemma reps_ge: "j \<in> set (reps f m k i) \<Longrightarrow> i \<le> j"
proof (induction k arbitrary: m i)
  case (Suc k)
  from Suc.prems obtain i' where "(i < i' \<and> j \<in> set (reps f (m - 1) k i')) \<or> j = i"
    unfolding in_reps_Suc by auto
  with Suc.IH [of "m - 1" i'] show ?case by auto
qed (simp split: if_splits)

lemma reps_le:
  assumes step: "\<And>i j. i \<le> n \<Longrightarrow> j \<in> set (f i) \<Longrightarrow> j \<le> n"
  shows "i \<le> n \<Longrightarrow> j \<in> set (reps f m k i) \<Longrightarrow> j \<le> n"
proof (induction k arbitrary: m i)
  case (Suc k)
  from Suc.prems(2) obtain i' where "(i' \<in> set (f i) \<and> j \<in> set (reps f (m - 1) k i')) \<or> j = i"
    unfolding in_reps_Suc by auto
  with Suc.IH [of i' "m - 1"] step [OF Suc.prems(1), of i'] Suc.prems(1) show ?case by auto
qed (simp split: if_splits)

lemma rx_ends_bounds: "i \<le> length s \<Longrightarrow> j \<in> set (rx_ends r s i) \<Longrightarrow> i \<le> j \<and> j \<le> length s"
proof (induction r arbitrary: i j)
  case (Cat a b)
  from Cat.prems(2) obtain k where k: "k \<in> set (rx_ends a s i)" "j \<in> set (rx_ends b s k)" by auto
  from Cat.IH(1) [OF Cat.prems(1) k(1)] have "i \<le> k" "k \<le> length s" by simp_all
  with Cat.IH(2) [OF this(2) k(2)] show ?case by simp
next
  case (Rep m k a)
  have "i \<le> j" using Rep.prems(2) reps_ge by fastforce
  moreover have "j \<le> length s"
    using Rep.prems(2) unfolding rx_ends.simps by (rule reps_le [OF _ Rep.prems(1), rotated]) (use Rep.IH in blast)
  ultimately show ?case by simp
next
  case (Alt a b)
  then show ?case by (metis UnE rx_ends.simps(4) set_append)
next
  case (Cls p)
  then show ?case by (cases "here s i p") (simp_all add: here_def)
next
  case (NotAhead a)
  from NotAhead.prems show ?case by (simp split: if_splits)
qed (simp_all split: if_splits)

text \<open>\<open>finditer\<close> over the rest of the text: the leftmost match, and then on from its end.\<close>

function rx_scan :: "rx \<Rightarrow> int list \<Rightarrow> nat \<Rightarrow> (nat \<times> nat) list" where
  "rx_scan r s i =
     (if length s < i then []
      else case rx_ends r s i of
             [] \<Rightarrow> rx_scan r s (Suc i)
           | j # _ \<Rightarrow> (if i < j then (i, j) # rx_scan r s j else (i, i) # rx_scan r s (Suc i)))"
  by pat_completeness auto
termination
  by (relation "measure (\<lambda>(r, s, i). Suc (length s) - i)") auto

declare rx_scan.simps [simp del]

definition rx_finditer :: "rx \<Rightarrow> string \<Rightarrow> (nat \<times> nat) list" where
  "rx_finditer r s = rx_scan r (cps s) 0"

definition rx_search :: "rx \<Rightarrow> string \<Rightarrow> bool" where
  "rx_search r s \<longleftrightarrow> (\<exists>i\<in>set [0..<Suc (length (cps s))]. rx_ends r (cps s) i \<noteq> [])"

definition rx_text :: "string \<Rightarrow> nat \<times> nat \<Rightarrow> string" where
  "rx_text s = (\<lambda>(i, j). concat (take (j - i) (drop i (utf8_chars s))))"

definition rx_findall :: "rx \<Rightarrow> string \<Rightarrow> string list" where
  "rx_findall r s = map (rx_text s) (rx_finditer r s)"

text \<open>\<open>r.sub(repl, s)\<close> for a literal \<open>repl\<close>, and \<open>r.split(s)\<close> for a pattern without groups.\<close>

fun sub_spans :: "string \<Rightarrow> string list \<Rightarrow> nat \<Rightarrow> (nat \<times> nat) list \<Rightarrow> string" where
  "sub_spans repl ws k [] = concat (drop k ws)"
| "sub_spans repl ws k ((i, j) # ms) =
     concat (take (i - k) (drop k ws)) @ repl @ sub_spans repl ws j ms"

definition rx_sub :: "rx \<Rightarrow> string \<Rightarrow> string \<Rightarrow> string" where
  "rx_sub r repl s = sub_spans repl (utf8_chars s) 0 (rx_finditer r s)"

fun split_spans :: "string list \<Rightarrow> nat \<Rightarrow> (nat \<times> nat) list \<Rightarrow> string list" where
  "split_spans ws k [] = [concat (drop k ws)]"
| "split_spans ws k ((i, j) # ms) = concat (take (i - k) (drop k ws)) # split_spans ws j ms"

definition rx_split :: "rx \<Rightarrow> string \<Rightarrow> string list" where
  "rx_split r s = split_spans (utf8_chars s) 0 (rx_finditer r s)"

section \<open>What a scan reports\<close>

text \<open>The spans lie in the text, one after the other.\<close>

fun spans_ok :: "nat \<Rightarrow> nat \<Rightarrow> (nat \<times> nat) list \<Rightarrow> bool" where
  "spans_ok k n [] = True"
| "spans_ok k n ((i, j) # ms) \<longleftrightarrow> k \<le> i \<and> i \<le> j \<and> j \<le> n \<and> spans_ok j n ms"

lemma spans_ok_mono: "spans_ok k n ms \<Longrightarrow> k' \<le> k \<Longrightarrow> spans_ok k' n ms"
  by (cases ms) auto

lemma rx_scan_ok: "spans_ok i (length s) (rx_scan r s i)"
proof (induction r s i rule: rx_scan.induct)
  case (1 r s i)
  show ?case
  proof (cases "length s < i")
    case True
    then show ?thesis by (simp add: rx_scan.simps [of r s i])
  next
    case False
    note le = False
    show ?thesis
    proof (cases "rx_ends r s i")
      case Nil
      with 1(1) [OF le Nil] le show ?thesis
        by (auto simp: rx_scan.simps [of r s i] intro: spans_ok_mono)
    next
      case (Cons j js)
      then have j: "i \<le> j" "j \<le> length s" using rx_ends_bounds [of i s j r] le by simp_all
      show ?thesis
      proof (cases "i < j")
        case True
        with 1(2) [OF le Cons True] j le Cons show ?thesis by (simp add: rx_scan.simps [of r s i])
      next
        case False
        then have scan: "rx_scan r s i = (i, i) # rx_scan r s (Suc i)"
          using le Cons by (simp add: rx_scan.simps [of r s i])
        show ?thesis unfolding scan using 1(3) [OF le Cons False] j False
          by (auto intro: spans_ok_mono)
      qed
    qed
  qed
qed

lemma rx_finditer_ok: "spans_ok 0 (length (utf8_chars s)) (rx_finditer r s)"
  using rx_scan_ok [of 0 "cps s" r] by (simp add: rx_finditer_def length_cps)

text \<open>The scan is empty exactly when no position has a match.\<close>

lemma rx_scan_Nil_iff:
  "rx_scan r s i = [] \<longleftrightarrow> (\<forall>k. i \<le> k \<and> k \<le> length s \<longrightarrow> rx_ends r s k = [])"
proof (induction r s i rule: rx_scan.induct)
  case (1 r s i)
  show ?case
  proof (cases "length s < i")
    case True
    then have "rx_scan r s i = []" by (simp add: rx_scan.simps [of r s i])
    with True show ?thesis by (auto dest: order_trans)
  next
    case False
    note le = False
    show ?thesis
    proof (cases "rx_ends r s i")
      case Nil
      have "(\<forall>k. i \<le> k \<and> k \<le> length s \<longrightarrow> rx_ends r s k = []) \<longleftrightarrow>
          (\<forall>k. Suc i \<le> k \<and> k \<le> length s \<longrightarrow> rx_ends r s k = [])"
        using Nil by (metis Suc_leI le_neq_implies_less Suc_leD)
      with 1(1) [OF le Nil] le Nil show ?thesis by (simp add: rx_scan.simps [of r s i])
    next
      case (Cons j js)
      then show ?thesis using le by (auto simp: rx_scan.simps [of r s i] intro!: exI [of _ i])
    qed
  qed
qed

lemma rx_search_iff: "rx_search r s \<longleftrightarrow> rx_finditer r s \<noteq> []"
proof -
  have "rx_search r s \<longleftrightarrow> (\<exists>k\<le>length (cps s). rx_ends r (cps s) k \<noteq> [])"
    unfolding rx_search_def by (metis atLeast0LessThan atLeast_upt lessThan_iff less_Suc_eq_le set_upt)
  then show ?thesis by (simp add: rx_finditer_def rx_scan_Nil_iff)
qed

lemma sub_spans_Nil: "rx_finditer r s = [] \<Longrightarrow> rx_sub r repl s = s"
  by (simp add: rx_sub_def concat_utf8_chars)

lemma rx_any_ends: "set (rx_ends (rx_any rs) s i) = (\<Union>r\<in>set rs. set (rx_ends r s i))"
  by (induction rs rule: rx_any.induct) auto

lemma rx_any_empty: "rx_ends (rx_any rs) s i = [] \<longleftrightarrow> (\<forall>r\<in>set rs. rx_ends r s i = [])"
  using rx_any_ends [of rs s i] by (metis (no_types, lifting) SUP_bot_conv(1) set_empty)

end
