(* ===== verification/StructuredQuery.thy ===== *)
theory StructuredQuery
  imports Regex Domain
begin

text \<open>
  The routing guard of \<open>services/structured_query.py\<close>: questions that need a database (aggregation, ranking,
  latest values, numeric filters, periods) leave the retrieval path, and the read-only SQL boundary that
  a structured tool has to pass.
\<close>

section \<open>Classification\<close>

record structured_query_decision =
  sqd_route :: string
  sqd_reason :: string

definition requires_tool :: "structured_query_decision \<Rightarrow> bool" where
  "requires_tool d \<longleftrightarrow> sqd_route d = ''refused_structured_tool_required''"

definition aggregation_rx :: "ucd \<Rightarrow> rx" where
  "aggregation_rx U =
     rx_seq [Edge (u_word U), rx_words [''sum'', ''average'', ''avg'', ''median'', ''percentile''],
      Edge (u_word U)]"

definition total_or_count_rx :: "ucd \<Rightarrow> rx" where
  "total_or_count_rx U =
     rx_seq [Edge (u_word U), rx_words [''total'', ''count''], Edge (u_word U)]"

definition aggregation_context_rx :: "ucd \<Rightarrow> rx" where
  "aggregation_context_rx U =
     rx_seq [Edge (u_word U), rx_any [rx_ci ''by'', rx_ci ''per'', rx_ci ''across'', rx_ci ''overall'',
      rx_ci ''all'', rx_ci ''each'', rx_seq [rx_ci ''grouped'', rx_ws1, rx_ci ''by''], rx_seq [rx_ci ''record'',
      rx_opt (rx_ci ''s'')], rx_seq [rx_ci ''row'', rx_opt (rx_ci ''s'')], rx_seq [rx_ci ''defect'',
      rx_opt (rx_ci ''s'')], rx_seq [rx_ci ''incident'', rx_opt (rx_ci ''s'')], rx_seq [rx_ci ''ticket'',
      rx_opt (rx_ci ''s'')], rx_seq [rx_ci ''order'', rx_opt (rx_ci ''s'')], rx_ci ''downtime'',
      rx_seq [rx_ci ''amount'', rx_opt (rx_ci ''s'')], rx_seq [rx_ci ''cost'', rx_opt (rx_ci ''s'')],
      rx_ci ''sales''], Edge (u_word U)]"

definition ranking_rx :: "ucd \<Rightarrow> rx" where
  "ranking_rx U =
     rx_seq [Edge (u_word U), rx_any [rx_seq [rx_ci ''top'', rx_ws1, rx_plus (Cls (u_decimal U))],
      rx_ci ''highest'', rx_ci ''lowest'', rx_ci ''rank'', rx_ci ''ranking'', rx_ci ''most'', rx_ci ''least''],
      Edge (u_word U)]"

definition latest_value_rx :: "ucd \<Rightarrow> rx" where
  "latest_value_rx U =
     rx_seq [Edge (u_word U), rx_any [rx_ci ''latest'', rx_ci ''newest'', rx_ci ''current value'',
      rx_seq [rx_ci ''last'', rx_ws1, rx_plus (Cls (u_decimal U)), rx_ws1, rx_ci ''days'']], Edge (u_word U)]"

definition numeric_comparison_rx :: "ucd \<Rightarrow> rx" where
  "numeric_comparison_rx U =
     rx_any [rx_seq [Cls (\<lambda>c. c \<in> {60, 62}), rx_opt (rx_chr 61), rx_star rx_ws, Cls (u_decimal U)],
      rx_seq [Edge (u_word U), rx_words [''greater'', ''less'', ''above'', ''below'', ''between''],
      Edge (u_word U)]]"

definition period_filter_rx :: "ucd \<Rightarrow> rx" where
  "period_filter_rx U =
     rx_seq [Edge (u_word U), rx_words [''from'', ''between'', ''during'', ''since'', ''until''], rx_ws1,
      rx_upto 4 4 (Cls (u_decimal U)), rx_opt (rx_seq [Cls (\<lambda>c. c \<in> {45, 47}),
      rx_upto 1 2 (Cls (u_decimal U))])]"

definition aggregation_ja_rx :: "rx" where
  "aggregation_ja_rx =
     rx_any [rx_lit [0x5408, 0x8a08], rx_lit [0x5e73, 0x5747], rx_lit [0x4ef6, 0x6570], rx_lit [0x96c6,
      0x8a08], rx_lit [0x4e2d, 0x592e, 0x5024], rx_lit [0x4f55, 0x4ef6]]"

definition ranking_ja_rx :: "rx" where
  "ranking_ja_rx =
     rx_any [rx_lit [0x30e9, 0x30f3, 0x30ad, 0x30f3, 0x30b0], rx_lit [0x4e0a, 0x4f4d], rx_lit [0x4e0b, 0x4f4d],
      rx_lit [0x6700, 0x5927], rx_lit [0x6700, 0x5c0f], rx_lit [0x6700, 0x3082, 0x591a, 0x3044], rx_lit [0x6700,
      0x3082, 0x5c11, 0x306a, 0x3044]]"

definition latest_ja_rx :: "rx" where
  "latest_ja_rx =
     rx_any [rx_lit [0x6700, 0x65b0, 0x5024], rx_lit [0x6700, 0x65b0, 0x306e, 0x5024], rx_lit [0x76f4, 0x8fd1],
      rx_lit [0x73fe, 0x5728, 0x5024]]"

definition numeric_comparison_ja_rx :: "ucd \<Rightarrow> rx" where
  "numeric_comparison_ja_rx U =
     rx_seq [rx_plus (Cls (u_decimal U)), rx_star rx_ws, rx_any [rx_lit [0x4ee5, 0x4e0a], rx_lit [0x4ee5,
      0x4e0b], rx_lit [0x8d85], rx_lit [0x672a, 0x6e80], rx_lit [0x3088, 0x308a, 0x5927, 0x304d, 0x3044],
      rx_lit [0x3088, 0x308a, 0x5c0f, 0x3055, 0x3044]]]"

definition period_filter_ja_rx :: "ucd \<Rightarrow> rx" where
  "period_filter_ja_rx U =
     rx_seq [rx_any [rx_lit [0x671f, 0x9593], rx_lit [0x4ee5, 0x964d], rx_lit [0x4ee5, 0x524d], rx_lit [0x304b,
      0x3089], rx_lit [0x307e, 0x3067]], rx_star (Cls (\<lambda>c. c \<noteq> 10)),
      rx_upto 4 4 (Cls (u_decimal U))]"

definition structured_patterns :: "ucd \<Rightarrow> (string \<times> rx) list" where
  "structured_patterns U =
     [(''ranking'', ranking_rx U),
      (''latest_value'', latest_value_rx U),
      (''numeric_comparison'', numeric_comparison_rx U),
      (''period_filter'', period_filter_rx U),
      (''aggregation_ja'', aggregation_ja_rx),
      (''ranking_ja'', ranking_ja_rx),
      (''latest_ja'', latest_ja_rx),
      (''numeric_comparison_ja'', numeric_comparison_ja_rx U),
      (''period_filter_ja'', period_filter_ja_rx U)]"

definition is_aggregation_request :: "ucd \<Rightarrow> string \<Rightarrow> bool" where
  "is_aggregation_request U query \<longleftrightarrow>
     (if rx_search (aggregation_rx U) query then True
      else rx_search (total_or_count_rx U) query \<and> rx_search (aggregation_context_rx U) query)"

definition tool_route :: "bool \<Rightarrow> string \<Rightarrow> structured_query_decision" where
  "tool_route tool_available reason =
     \<lparr>sqd_route = (if tool_available then ''structured_tool'' else ''refused_structured_tool_required''),
      sqd_reason = reason\<rparr>"

definition rag_route :: structured_query_decision where
  "rag_route = \<lparr>sqd_route = ''rag'', sqd_reason = []\<rparr>"

fun first_pattern :: "(string \<times> rx) list \<Rightarrow> string \<Rightarrow> string option" where
  "first_pattern [] q = None"
| "first_pattern ((reason, r) # ps) q = (if rx_search r q then Some reason else first_pattern ps q)"

definition classify_structured_query :: "ucd \<Rightarrow> string \<Rightarrow> bool \<Rightarrow> structured_query_decision" where
  "classify_structured_query U query tool_available =
     (let q = py_strip query
      in if q = [] then rag_route
         else if is_aggregation_request U q then tool_route tool_available ''aggregation''
         else case first_pattern (structured_patterns U) q of
                Some reason \<Rightarrow> tool_route tool_available reason
              | None \<Rightarrow> rag_route)"

lemma classify_routes:
  "sqd_route (classify_structured_query U q b) \<in> {''rag'', ''structured_tool'', ''refused_structured_tool_required''}"
  by (auto simp: classify_structured_query_def tool_route_def rag_route_def Let_def split: option.splits)

text \<open>Without a tool a structured question is refused, with one it is never refused.\<close>

lemma requires_tool_iff:
  "requires_tool (classify_structured_query U q b) \<longleftrightarrow>
     \<not> b \<and> sqd_route (classify_structured_query U q True) = ''structured_tool''"
  by (auto simp: classify_structured_query_def tool_route_def rag_route_def requires_tool_def Let_def
      split: option.splits)

section \<open>The read-only SQL boundary\<close>

text \<open>The outcome of \<open>execute\<close>: the code of a \<open>PermissionError\<close>, an exception of the executor, or rows.\<close>

datatype sql_outcome = Refused string | Raised py_exc | Rows "pydict list"

type_synonym sql_executor = "string \<Rightarrow> pydict \<Rightarrow> rat \<Rightarrow> int \<Rightarrow> pydict list result"

record sql_tool =
  st_executors :: "(string, sql_executor) dict"
  st_timeout_seconds :: rat
  st_row_limit :: int

definition select_rx :: "ucd \<Rightarrow> rx" where
  "select_rx U =
     rx_seq [BOS, rx_ci ''select'', Edge (u_word U)]"

definition tenant_scope_rx :: "rx" where
  "tenant_scope_rx =
     rx_any [rx_word '':tenant_id'', rx_word ''%(tenant_id)s'', rx_word ''$tenant_id'']"

definition rx_match :: "rx \<Rightarrow> string \<Rightarrow> bool" where
  "rx_match r s \<longleftrightarrow> rx_ends r (cps s) 0 \<noteq> []"

definition rstrip_semicolons :: "string \<Rightarrow> string" where
  "rstrip_semicolons s = rev (dropWhile (\<lambda>c. c = CHR '';'') (rev s))"

definition scoped_params :: "string \<Rightarrow> pydict option \<Rightarrow> pydict" where
  "scoped_params tenant_id params =
     dset ''tenant_id'' (PStr tenant_id) (case params of None \<Rightarrow> [] | Some m \<Rightarrow> m)"

definition execute ::
  "ucd \<Rightarrow> identity_claims \<Rightarrow> string \<Rightarrow> string \<Rightarrow> pydict option \<Rightarrow> string \<Rightarrow> sql_tool \<Rightarrow> sql_outcome" where
  "execute U p datasource_id sql params trusted_template_id tool =
     (case dget (st_executors tool) datasource_id of
        None \<Rightarrow> Refused ''datasource_not_allowlisted''
      | Some run \<Rightarrow>
          if trusted_template_id = [] then Refused ''trusted_template_required''
          else
            let statement = py_strip sql
            in if \<not> rx_match (select_rx U) statement then Refused ''select_only''
               else if CHR '';'' \<in> set (rstrip_semicolons statement) then Refused ''single_statement_only''
               else if \<not> rx_search tenant_scope_rx statement then Refused ''tenant_scope_required''
               else
                 (case run statement (scoped_params (id_tenant_id p) params) (st_timeout_seconds tool) (st_row_limit tool) of
                    Inl e \<Rightarrow> Raised e
                  | Inr rows \<Rightarrow> Rows (py_take (st_row_limit tool) rows)))"

lemma scoped_params_tenant: "dget (scoped_params t params) ''tenant_id'' = Some (PStr t)"
  by (simp add: scoped_params_def dict_simps)

text \<open>C36: The SQL boundary hands rows back only for a statement that is a single \<open>SELECT\<close> naming the tenant
  parameter, run from a trusted template on an allowlisted data source with the caller's own tenant as the
  value of that parameter (whatever the parameters of the request said), and never more of them than the
  row limit allows.
\<close>

theorem sql_boundary_scoped:
  assumes "execute U p ds sql params tid tool = Rows rows" and "0 \<le> st_row_limit tool"
  shows "\<exists>run all ps. dget (st_executors tool) ds = Some run \<and> tid \<noteq> [] \<and>
      rx_match (select_rx U) (py_strip sql) \<and> CHR '';'' \<notin> set (rstrip_semicolons (py_strip sql)) \<and>
      rx_search tenant_scope_rx (py_strip sql) \<and>
      dget ps ''tenant_id'' = Some (PStr (id_tenant_id p)) \<and>
      run (py_strip sql) ps (st_timeout_seconds tool) (st_row_limit tool) = Inr all \<and>
      rows = py_take (st_row_limit tool) all \<and> length rows \<le> nat (st_row_limit tool)"
proof -
  let ?ps = "scoped_params (id_tenant_id p) params"
  from assms(1) obtain run all where
      "dget (st_executors tool) ds = Some run" "tid \<noteq> []" "rx_match (select_rx U) (py_strip sql)"
      "CHR '';'' \<notin> set (rstrip_semicolons (py_strip sql))" "rx_search tenant_scope_rx (py_strip sql)"
      "run (py_strip sql) ?ps (st_timeout_seconds tool) (st_row_limit tool) = Inr all"
      "rows = py_take (st_row_limit tool) all"
    by (auto simp: execute_def Let_def split: option.splits if_splits sum.splits)
  moreover have "length rows \<le> nat (st_row_limit tool)"
    using \<open>rows = _\<close> assms(2) py_take_le by blast
  ultimately show ?thesis using scoped_params_tenant [of "id_tenant_id p" params] by blast
qed

definition demo_sql_tool :: sql_tool where
  "demo_sql_tool =
     \<lparr>st_executors = [(''erp'', \<lambda>stmt ps timeout limit. Inr [[(''n'', PInt 1)], [(''n'', PInt 2)]])],
      st_timeout_seconds = 2, st_row_limit = 1\<rparr>"

definition sql_caller :: identity_claims where
  "sql_caller = \<lparr>id_tenant_id = ''t1'', id_user_id = ''ann'', id_groups = [], id_roles = []\<rparr>"

definition demo_statement :: string where
  "demo_statement = ''select n from t where t = :tenant_id;''"

lemma demo_statement_accepted:
  "py_strip demo_statement = demo_statement" "rx_match (select_rx ucd_jp) demo_statement"
  "CHR '';'' \<notin> set (rstrip_semicolons demo_statement)" "rx_search tenant_scope_rx demo_statement"
  by code_simp+

theorem sql_boundary_scoped_witness:
  "\<exists>run all ps. dget (st_executors demo_sql_tool) ''erp'' = Some run \<and> dget ps ''tenant_id'' = Some (PStr ''t1'') \<and>
     run demo_statement ps 2 1 = Inr all \<and> py_take 1 all = [[(''n'', PInt 1)]]"
proof -
  have run: "execute ucd_jp sql_caller ''erp'' demo_statement (Some [(''tenant_id'', PStr ''t2'')]) ''tpl'' demo_sql_tool =
      Rows [[(''n'', PInt 1)]]"
    unfolding execute_def Let_def demo_statement_accepted
    by (simp add: demo_sql_tool_def py_take_def demo_statement_accepted)
  have "0 \<le> st_row_limit demo_sql_tool" by (simp add: demo_sql_tool_def)
  from sql_boundary_scoped [OF run this] show ?thesis
    by (simp add: demo_statement_accepted sql_caller_def) (auto simp: demo_sql_tool_def)
qed

end
