(* ===== verification/Redaction.thy ===== *)
theory Redaction
  imports Regex
begin

text \<open>
  The redactor of \<open>observability/redaction.py\<close>: the patterns of personal data and secrets, in the order of
  the dictionary, and the substitution of each by its label. \<open>redact_exif\<close> drops the image metadata that
  identifies a place, a device or an owner.
\<close>

definition email_rx :: "rx" where
  "email_rx =
     rx_seq [rx_plus (Cls (\<lambda>c. ascii_alnum c \<or> c \<in> {46, 95, 37, 43, 45})), rx_chr 64,
      rx_plus (Cls (\<lambda>c. ascii_alnum c \<or> c \<in> {46, 45})), rx_chr 46, Rep 2 None (Cls ascii_alpha)]"

definition employee_id_rx :: "ucd \<Rightarrow> rx" where
  "employee_id_rx U =
     rx_seq [Edge (u_word U), rx_words [''employee'', ''staff'', ''worker'', ''operator''],
      rx_opt (Cls (\<lambda>c. c \<in> {32, 95, 45})), rx_ci ''id'', rx_star rx_ws,
      rx_opt (Cls (\<lambda>c. c \<in> {58, 35})), rx_star rx_ws, Cls (\<lambda>c. ascii_alnum (fold_cp c)),
      Rep 3 None (Cls (\<lambda>c. ascii_alnum (fold_cp c) \<or> c \<in> {95, 45})), Edge (u_word U)]"

definition name_rx :: "ucd \<Rightarrow> rx" where
  "name_rx U =
     rx_any [rx_seq [Edge (u_word U), rx_words [''name'', ''full name'', ''contact name''], rx_star rx_ws,
      Cls (\<lambda>c. c \<in> {58, 35}), rx_star rx_ws, Cls (\<lambda>c. ascii_alpha (fold_cp c)),
      rx_plus (Cls (\<lambda>c. ascii_alpha (fold_cp c))), rx_upto 1 3 (rx_seq [rx_ws1,
      Cls (\<lambda>c. ascii_alpha (fold_cp c)), rx_plus (Cls (\<lambda>c. ascii_alpha (fold_cp c)))]),
      Edge (u_word U)], rx_seq [rx_any [rx_lit [0x6c0f, 0x540d], rx_lit [0x540d, 0x524d]], rx_star rx_ws,
      Cls (\<lambda>c. c \<in> {58, 0xff1a}), rx_star rx_ws,
      rx_upto 2 12 (Cls (\<lambda>c. (0x3040 \<le> c \<and> c \<le> 0x30ff) \<or> (0x3400 \<le> c \<and> c \<le> 0x9fff)))]]"

definition street_address_rx :: "ucd \<Rightarrow> rx" where
  "street_address_rx U =
     rx_seq [Edge (u_word U), rx_upto 1 6 (Cls (u_decimal U)), rx_ws1,
      rx_upto 0 6 (rx_seq [rx_plus (Cls (\<lambda>c. ascii_alnum (fold_cp c) \<or> c \<in> {39, 46, 45})),
      rx_ws1]), rx_any [rx_ci ''street'', rx_seq [rx_ci ''st'', rx_opt (rx_chr 46)], rx_ci ''avenue'',
      rx_seq [rx_ci ''ave'', rx_opt (rx_chr 46)], rx_ci ''road'', rx_seq [rx_ci ''rd'', rx_opt (rx_chr 46)],
      rx_ci ''boulevard'', rx_seq [rx_ci ''blvd'', rx_opt (rx_chr 46)], rx_ci ''drive'', rx_seq [rx_ci ''dr'',
      rx_opt (rx_chr 46)], rx_ci ''lane'', rx_seq [rx_ci ''ln'', rx_opt (rx_chr 46)], rx_ci ''way'',
      rx_ci ''court'', rx_seq [rx_ci ''ct'', rx_opt (rx_chr 46)], rx_ci ''place'', rx_seq [rx_ci ''pl'',
      rx_opt (rx_chr 46)]], Edge (u_word U)]"

definition jp_postal_code_rx :: "ucd \<Rightarrow> rx" where
  "jp_postal_code_rx U =
     rx_seq [Edge (u_word U), rx_upto 3 3 (Cls (u_decimal U)), rx_chr 45, rx_upto 4 4 (Cls (u_decimal U)),
      Edge (u_word U)]"

definition us_ssn_rx :: "ucd \<Rightarrow> rx" where
  "us_ssn_rx U =
     rx_seq [Edge (u_word U), rx_upto 3 3 (Cls (u_decimal U)), rx_chr 45, rx_upto 2 2 (Cls (u_decimal U)),
      rx_chr 45, rx_upto 4 4 (Cls (u_decimal U)), Edge (u_word U)]"

definition credit_card_rx :: "ucd \<Rightarrow> rx" where
  "credit_card_rx U =
     rx_seq [Edge (u_word U), rx_upto 13 16 (rx_seq [Cls (u_decimal U), rx_opt (Cls (\<lambda>c. c \<in> {32,
      45}))]), Edge (u_word U)]"

definition api_key_rx :: "ucd \<Rightarrow> rx" where
  "api_key_rx U =
     rx_seq [Edge (u_word U), rx_words [''sk'', ''api'', ''key'', ''secret''], Cls (\<lambda>c. c \<in> {45,
      95}), Rep 12 None (Cls (\<lambda>c. ascii_alnum (fold_cp c))), Edge (u_word U)]"

definition jp_phone_rx :: "ucd \<Rightarrow> rx" where
  "jp_phone_rx U =
     rx_seq [Edge (u_word U), rx_chr 48, rx_upto 1 4 (Cls (u_decimal U)), rx_chr 45,
      rx_upto 1 4 (Cls (u_decimal U)), rx_chr 45, rx_upto 3 4 (Cls (u_decimal U)), Edge (u_word U)]"

definition pii_patterns :: "ucd \<Rightarrow> (string \<times> rx) list" where
  "pii_patterns U =
     [(''email'', email_rx), (''employee_id'', employee_id_rx U), (''name'', name_rx U),
      (''street_address'', street_address_rx U), (''jp_postal_code'', jp_postal_code_rx U),
      (''us_ssn'', us_ssn_rx U), (''credit_card'', credit_card_rx U), (''api_key'', api_key_rx U),
      (''jp_phone'', jp_phone_rx U)]"

definition pii_classify :: "ucd \<Rightarrow> string \<Rightarrow> (string \<times> nat \<times> nat) list" where
  "pii_classify U text =
     concat (map (\<lambda>(label, r). map (\<lambda>(i, j). (label, i, j)) (rx_finditer r text)) (pii_patterns U))"

definition pii_redact :: "ucd \<Rightarrow> string \<Rightarrow> string" where
  "pii_redact U text =
     fold (\<lambda>(label, r) out. rx_sub r (''[REDACTED:'' @ label @ '']'') out) (pii_patterns U) text"

definition has_sensitive :: "ucd \<Rightarrow> string \<Rightarrow> bool" where
  "has_sensitive U text \<longleftrightarrow> pii_classify U text \<noteq> []"

definition redact_visual_text :: "ucd \<Rightarrow> string \<Rightarrow> string" where
  "redact_visual_text U text = pii_redact U text"

definition high_risk_exif_keys :: "string list" where
  "high_risk_exif_keys =
     [''gps'', ''gpslatitude'', ''gpslongitude'', ''gpsaltitude'', ''make'', ''model'', ''serial'', ''owner'',
      ''datetimeoriginal'', ''createdate'']"

definition exif_key :: "string \<Rightarrow> string" where
  "exif_key k = filter (\<lambda>c. c \<noteq> CHR ''_'' \<and> c \<noteq> CHR ''-'') (py_lower k)"

record exif_redaction_result =
  er_metadata :: pydict
  er_removed_keys :: "string list"

definition exif_removed :: "string set \<Rightarrow> string \<Rightarrow> bool" where
  "exif_removed retained k \<longleftrightarrow>
     exif_key k \<notin> retained \<and> (\<exists>tok\<in>set high_risk_exif_keys. str_contains tok (exif_key k))"

definition redact_exif :: "ucd \<Rightarrow> pydict \<Rightarrow> string list \<Rightarrow> exif_redaction_result" where
  "redact_exif U metadata retain_keys =
     (let retained = set (map py_lower retain_keys)
      in \<lparr>er_metadata =
            map (\<lambda>(k, v). (k, case v of PStr s \<Rightarrow> PStr (pii_redact U s) | _ \<Rightarrow> v))
              (filter (\<lambda>(k, v). \<not> exif_removed retained k) metadata),
          er_removed_keys = map fst (filter (\<lambda>(k, v). exif_removed retained k) metadata)\<rparr>)"

section \<open>What is left of a text\<close>

lemma fold_sub_clean:
  "(\<And>l r. (l, r) \<in> set ps \<Longrightarrow> rx_finditer r text = []) \<Longrightarrow>
     fold (\<lambda>(label, r) out. rx_sub r (f label) out) ps text = text"
proof (induction ps)
  case (Cons p ps)
  then have "rx_finditer (snd p) text = []" by (metis list.set_intros(1) prod.collapse)
  moreover have "fold (\<lambda>(label, r) out. rx_sub r (f label) out) ps text = text"
    by (rule Cons.IH) (meson Cons.prems list.set_intros(2))
  ultimately show ?case by (simp add: split_def sub_spans_Nil)
qed simp

lemma redact_clean: "\<not> has_sensitive U text \<Longrightarrow> pii_redact U text = text"
  unfolding pii_redact_def
  by (rule fold_sub_clean) (auto simp: has_sensitive_def pii_classify_def)

lemma redact_exif_partition:
  "k \<in> fst ` set metadata \<Longrightarrow>
     (k \<in> set (er_removed_keys (redact_exif U metadata keep))) =
       exif_removed (set (map py_lower keep)) k \<and>
     (k \<in> fst ` set (er_metadata (redact_exif U metadata keep))) =
       (\<not> exif_removed (set (map py_lower keep)) k)"
  by (force simp: redact_exif_def Let_def)

text \<open>
  The patterns run in the order of the dictionary, and the postal code comes before the telephone number:
  the first two groups of a mobile number are taken for a postal code, and the last group stays readable.
\<close>

lemma redact_mobile_number_leaks:
  "pii_redact ucd_jp ''call 090-1234-5678'' = ''call [REDACTED:jp_postal_code]-5678'' \<and>
   rx_search (jp_phone_rx ucd_jp) ''call 090-1234-5678''"
  by code_simp

lemma redact_email_example:
  "pii_redact ucd_jp ''ask ann@ex.org now'' = ''ask [REDACTED:email] now''"
  by code_simp

end
