(* ===== verification/TextTokens.thy ===== *)
theory TextTokens
  imports Regex
begin

text \<open>
  The tokenizers of \<open>core/text.py\<close>: content tokens (words without stop words), retrieval tokens (character
  bigrams for runs that hold kana or kanji) and their union, the content terms of grounding.
\<close>

definition word_rx :: "ucd \<Rightarrow> rx" where
  "word_rx U =
     rx_plus (Cls (u_word U))"

definition cjk_rx :: "rx" where
  "cjk_rx =
     Cls (\<lambda>c. (0x3040 \<le> c \<and> c \<le> 0x30ff) \<or> (0x3400 \<le> c \<and> c \<le> 0x9fff) \<or> (0x8c48 \<le> c \<and> c \<le> 0xfaff))"

definition stopwords :: "string list" where
  "stopwords =
     [''a'', ''an'', ''the'', ''is'', ''are'', ''was'', ''were'', ''be'', ''been'', ''being'', ''to'', ''of'', ''for'', ''and'', ''or'', ''in'',
      ''on'', ''at'', ''by'', ''with'', ''as'', ''that'', ''this'', ''these'', ''those'', ''it'', ''its'', ''from'', ''into'', ''about'',
      ''what'', ''when'', ''where'', ''how'', ''why'', ''who'', ''which'', ''do'', ''does'', ''did'', ''i'', ''you'', ''he'', ''she'',
      ''they'', ''we'', ''me'', ''my'', ''your'', ''their'', ''per'', ''than'', ''then'', ''so'', ''not'', ''no'', ''yes'', ''can'',
      ''will'', ''would'', ''should'', ''could'', ''have'', ''has'', ''had'', ''but'', ''if'', ''out'', ''up'', ''down'']"

definition content_tokens :: "ucd \<Rightarrow> string \<Rightarrow> string list" where
  "content_tokens U text = filter (\<lambda>t. t \<notin> set stopwords) (rx_findall (word_rx U) (py_lower text))"

text \<open>The bigrams of a run; a single character stands for itself.\<close>

definition bigrams :: "string \<Rightarrow> string list" where
  "bigrams tok =
     (let chars = utf8_chars tok
      in if length chars = 1 then chars else map (\<lambda>(a, b). a @ b) (zip chars (tl chars)))"

definition token_terms :: "string \<Rightarrow> string list" where
  "token_terms tok =
     (if rx_search cjk_rx tok then bigrams tok else if tok \<notin> set stopwords then [tok] else [])"

definition retrieval_tokens :: "ucd \<Rightarrow> string \<Rightarrow> string list" where
  "retrieval_tokens U text = concat (map token_terms (rx_findall (word_rx U) (py_lower text)))"

definition content_terms :: "ucd \<Rightarrow> string \<Rightarrow> string set" where
  "content_terms U text = set (content_tokens U text) \<union> set (retrieval_tokens U text)"

text \<open>\<open>len(text.split())\<close>: the runs of characters that are not white space.\<close>

definition nonspace_rx :: "rx" where
  "nonspace_rx =
     rx_plus (Cls (\<lambda>c. \<not> is_space_cp c))"

definition py_split_ws :: "string \<Rightarrow> string list" where
  "py_split_ws text = rx_findall nonspace_rx text"

definition word_count :: "string \<Rightarrow> int" where
  "word_count text = int (length (py_split_ws text))"

lemma word_count_nonneg [simp]: "0 \<le> word_count text"
  by (simp add: word_count_def)

lemma finite_content_terms [simp]: "finite (content_terms U text)"
  by (simp add: content_terms_def)

lemma content_terms_no_stopwords: "t \<in> set (content_tokens U text) \<Longrightarrow> t \<notin> set stopwords"
  by (simp add: content_tokens_def)

lemma content_terms_Nil [simp]: "content_terms U [] = {}"
  by (simp add: content_terms_def content_tokens_def retrieval_tokens_def rx_findall_def rx_finditer_def
      py_lower_def cps_def rx_scan.simps word_rx_def rx_plus_def here_def numeral_eq_Suc)

lemma content_terms_example:
  "content_terms ucd_jp ''The pump P-12 is hot'' = {''pump'', ''p'', ''12'', ''hot''}"
  by code_simp

end
