(* ===== verification/HybridRetrieval.thy ===== *)
theory HybridRetrieval
  imports TextTokens Lexicon VectorStore
begin

text \<open>
  The identifier and lexical helpers of \<open>core/hybrid_retrieval.py\<close> and the query planner of
  \<open>core/query_planner.py\<close>. \<open>seconds\<close> reads an ISO timestamp into seconds (a naive one as UTC) and
  \<open>now\<close> is the clock; both are arguments. \<open>casefold\<close> is \<open>py_lower\<close> (ASCII, see \<open>PyStr\<close>). The token
  hashes, which only the Postgres store reads, are left out.
\<close>

abbreviation py_casefold :: "string \<Rightarrow> string" where
  "py_casefold \<equiv> py_lower"

section \<open>Constants\<close>

definition hot_identifier_fields :: "string list" where
  "hot_identifier_fields =
     [''equipment_id'', ''alarm_code'', ''part_no'', ''property_id'', ''room_number'', ''contract_id'', ''fund_id'',
      ''isin'', ''invoice_id'']"

definition nested_metadata_keys :: "string list" where
  "nested_metadata_keys = [''_mfg_meta'', ''manufacturing_metadata'', ''manufacturing'', ''industry_metadata'']"

definition lexical_match_base_score :: rat where "lexical_match_base_score = 70 / 100"
definition lexical_match_max_score :: rat where "lexical_match_max_score = 120 / 100"
definition lexical_recency_boost_max :: rat where "lexical_recency_boost_max = 2 / 100"
definition lexical_identifier_match_weight :: rat where "lexical_identifier_match_weight = 18 / 100"
definition synonym_coverage_weight :: rat where "synonym_coverage_weight = 9 / 10"

section \<open>Identifiers\<close>

definition hybrid_identifier_rx :: "ucd \<Rightarrow> rx" where
  "hybrid_identifier_rx U =
     rx_seq [NotBehind ascii_alnum, rx_any [rx_seq [rx_upto 1 16 (Cls ascii_alpha),
      rx_plus (rx_seq [Cls (\<lambda>c. c \<in> {45, 95}), rx_upto 1 24 (Cls ascii_alnum)])],
      rx_seq [rx_upto 2 2 (Cls ascii_upper), rx_upto 9 9 (Cls (\<lambda>c. ascii_upper c \<or> ascii_digit c)),
      Cls (u_decimal U)], rx_seq [rx_upto 2 24 (Cls ascii_alnum), Cls (u_decimal U),
      rx_upto 1 24 (Cls ascii_alnum)]], NotAhead (Cls ascii_alnum)]"

definition non_identifier_rx :: "rx" where
  "non_identifier_rx =
     rx_plus (Cls (\<lambda>c. \<not> (ascii_lower c \<or> ascii_digit c)))"

definition strip_dashes :: "string \<Rightarrow> string" where
  "strip_dashes s = rev (dropWhile (\<lambda>c. c = CHR ''-'') (rev (dropWhile (\<lambda>c. c = CHR ''-'') s)))"

definition drop_dashes :: "string \<Rightarrow> string" where
  "drop_dashes s = filter (\<lambda>c. c \<noteq> CHR ''-'') s"

definition normalize_identifier_str :: "string \<Rightarrow> string" where
  "normalize_identifier_str s =
     strip_dashes (rx_sub non_identifier_rx ''-'' (py_casefold (py_strip s)))"

definition normalize_identifier :: "pyval \<Rightarrow> string" where
  "normalize_identifier v = normalize_identifier_str (if py_truthy v then py_str v else [])"

definition compact_identifier :: "pyval \<Rightarrow> string" where
  "compact_identifier v = drop_dashes (normalize_identifier v)"

definition identifier_forms :: "ucd \<Rightarrow> string \<Rightarrow> string list" where
  "identifier_forms U raw =
     (let normalized = normalize_identifier_str raw; compact = drop_dashes normalized
      in if utf8_len compact < 3 then []
         else if CHR ''-'' \<notin> set normalized \<and> \<not> (\<exists>n\<in>set (cps compact). u_digit U n) then []
         else [normalized, compact])"

definition query_identifiers :: "ucd \<Rightarrow> string \<Rightarrow> string list" where
  "query_identifiers U query =
     sort (remdups (concat (map (identifier_forms U) (rx_findall (hybrid_identifier_rx U) query))))"

text \<open>\<open>_metadata_mappings\<close>: the mapping and the ones nested in it, four levels deep.\<close>

fun metadata_mappings :: "nat \<Rightarrow> pyval \<Rightarrow> pydict list" where
  "metadata_mappings 0 v = []"
| "metadata_mappings (Suc n) v =
     (case v of
        PDict m \<Rightarrow> m # concat (map (\<lambda>key. metadata_mappings n (py_get m key)) nested_metadata_keys)
      | _ \<Rightarrow> [])"

fun value_matches :: "pyval \<Rightarrow> string list \<Rightarrow> bool" where
  "value_matches PNone ids = False"
| "value_matches (PList vs) ids = (\<exists>v\<in>set vs. value_matches v ids)"
| "value_matches v ids =
     (let normalized = normalize_identifier v
      in normalized \<noteq> [] \<and> (normalized \<in> set ids \<or> drop_dashes normalized \<in> set ids))"

definition metadata_identifier_matches :: "pydict \<Rightarrow> string list \<Rightarrow> bool" where
  "metadata_identifier_matches metadata ids \<longleftrightarrow>
     ids \<noteq> [] \<and> (\<exists>m\<in>set (metadata_mappings 4 (PDict metadata)).
        \<exists>field\<in>set hot_identifier_fields. value_matches (py_get m field) ids)"

definition matched_identifier_compacts :: "pydict \<Rightarrow> string list \<Rightarrow> string list" where
  "matched_identifier_compacts metadata ids =
     remdups (map drop_dashes (filter (\<lambda>identifier.
        \<exists>m\<in>set (metadata_mappings 4 (PDict metadata)).
          \<exists>field\<in>set hot_identifier_fields. value_matches (py_get m field) [identifier]) ids))"

definition metadata_identifier_match_count :: "pydict \<Rightarrow> string list \<Rightarrow> int" where
  "metadata_identifier_match_count metadata ids = int (length (matched_identifier_compacts metadata ids))"

fun field_items :: "pyval \<Rightarrow> pyval list" where
  "field_items PNone = []"
| "field_items (PList vs) = vs"
| "field_items v = [v]"

definition metadata_hot_identifier_compacts :: "pydict \<Rightarrow> string list" where
  "metadata_hot_identifier_compacts metadata =
     sort (remdups (filter (\<lambda>c. c \<noteq> [])
       (concat (map (\<lambda>m. concat (map (\<lambda>field. map compact_identifier (field_items (py_get m field)))
          hot_identifier_fields)) (metadata_mappings 4 (PDict metadata))))))"

section \<open>Lexical terms\<close>

definition contains_cjk :: "string \<Rightarrow> bool" where
  "contains_cjk term \<longleftrightarrow> (\<exists>n\<in>set (cps term). (0x3040 \<le> n \<and> n \<le> 0x30FF) \<or> (0x3400 \<le> n \<and> n \<le> 0x9FFF))"

definition lexical_term_is_signal :: "ucd \<Rightarrow> string \<Rightarrow> bool" where
  "lexical_term_is_signal U term \<longleftrightarrow>
     3 \<le> utf8_len term \<or> contains_cjk term \<or> (2 \<le> utf8_len term \<and> (\<exists>n\<in>set (cps term). u_digit U n))"

definition lexical_query_terms :: "ucd \<Rightarrow> string \<Rightarrow> string list" where
  "lexical_query_terms U query =
     sort (remdups (map py_casefold (filter (lexical_term_is_signal U) (retrieval_tokens U query))))"

record synonym_expansion =
  se_source_terms :: "string list"
  se_alternatives :: "string list"

definition phrase_present :: "ucd \<Rightarrow> string \<Rightarrow> string \<Rightarrow> string set \<Rightarrow> bool" where
  "phrase_present U phrase haystack_cf haystack_token_set \<longleftrightarrow>
     (if contains_cjk phrase then str_contains phrase haystack_cf
      else let tokens = retrieval_tokens U phrase
           in tokens \<noteq> [] \<and> (\<forall>t\<in>set tokens. t \<in> haystack_token_set))"

definition group_members :: "string \<Rightarrow> string list \<Rightarrow> string list" where
  "group_members key vals =
     fromkeys (map (\<lambda>m. py_casefold (py_strip m)) (filter (\<lambda>m. m \<noteq> [] \<and> py_strip m \<noteq> []) (key # vals)))"

definition group_expansion ::
  "ucd \<Rightarrow> string \<Rightarrow> string list \<Rightarrow> string set \<Rightarrow> string \<Rightarrow> string list \<Rightarrow> synonym_expansion list" where
  "group_expansion U query_cf query_terms query_token_set key vals =
     (let members = group_members key vals
      in if length members < 2 then []
         else
           let matched = filter (\<lambda>m. phrase_present U m query_cf query_token_set) members
           in if matched = [] \<or> length matched = length members then []
              else
                let source_terms = sort (remdups (filter (\<lambda>term. \<exists>m\<in>set matched. str_contains term m) query_terms))
                in if source_terms = [] then []
                   else [\<lparr>se_source_terms = source_terms,
                          se_alternatives = filter (\<lambda>m. m \<notin> set matched) members\<rparr>])"

definition synonym_expansions :: "ucd \<Rightarrow> string \<Rightarrow> words \<Rightarrow> synonym_expansion list" where
  "synonym_expansions U query groups =
     (let query_cf = py_casefold query
      in if py_strip query_cf = [] \<or> groups = [] then []
         else
           let query_terms = lexical_query_terms U query
           in if query_terms = [] then []
              else
                concat (map (\<lambda>key. group_expansion U query_cf query_terms (set (retrieval_tokens U query)) key
                    (word_list groups key)) (sort (map fst groups))))"

definition lexical_candidate_tokens :: "ucd \<Rightarrow> synonym_expansion list \<Rightarrow> string list \<Rightarrow> string set" where
  "lexical_candidate_tokens U expansions terms =
     set (filter (\<lambda>t. t \<noteq> []) terms) \<union>
     set (concat (map (\<lambda>e. concat (map (retrieval_tokens U) (se_alternatives e))) expansions))"

definition lexical_direct_match_count :: "string list \<Rightarrow> string set \<Rightarrow> int" where
  "lexical_direct_match_count terms text_term_set = int (length (filter (\<lambda>t. t \<in> text_term_set) terms))"

section \<open>The lexical score\<close>

definition query_identifier_compacts :: "ucd \<Rightarrow> string \<Rightarrow> string list" where
  "query_identifier_compacts U text = remdups (map drop_dashes (query_identifiers U text))"

definition text_identifier_match_count :: "ucd \<Rightarrow> string \<Rightarrow> string \<Rightarrow> int" where
  "text_identifier_match_count U query text =
     int (length (filter (\<lambda>c. c \<in> set (query_identifier_compacts U text)) (query_identifier_compacts U query)))"

definition metadata_date_value :: "pydict \<Rightarrow> pyval" where
  "metadata_date_value metadata =
     (case find py_truthy (concat (map (\<lambda>m. map (py_get m)
          [''effective_date'', ''updated_at'', ''indexed_at'', ''created_at'', ''revision_date''])
          (metadata_mappings 4 (PDict metadata)))) of
        None \<Rightarrow> PNone | Some v \<Rightarrow> v)"

definition recency_boost :: "(string \<Rightarrow> rat option) \<Rightarrow> rat \<Rightarrow> pydict \<Rightarrow> rat" where
  "recency_boost seconds now metadata =
     (let date_value = metadata_date_value metadata
      in if \<not> py_truthy date_value then 0
         else case seconds (py_str date_value) of
                None \<Rightarrow> 0
              | Some t \<Rightarrow>
                  let age_days = max 0 ((now - t) / 86400)
                  in max 0 (1 - age_days / 3650) * lexical_recency_boost_max)"

text \<open>The loop over the expansions: the query terms covered through a synonym.\<close>

definition cover_step ::
  "ucd \<Rightarrow> string \<Rightarrow> string set \<Rightarrow> string list \<Rightarrow> synonym_expansion \<Rightarrow> string list \<Rightarrow> string list" where
  "cover_step U text_cf text_term_set unmatched e covered =
     (let coverable = filter (\<lambda>t. t \<in> set (se_source_terms e) \<and> t \<notin> set covered) unmatched
      in if coverable \<noteq> [] \<and> (\<exists>alt\<in>set (se_alternatives e). phrase_present U alt text_cf text_term_set)
         then covered @ coverable else covered)"

definition synonym_covered ::
  "ucd \<Rightarrow> synonym_expansion list \<Rightarrow> string \<Rightarrow> string set \<Rightarrow> string list \<Rightarrow> string list" where
  "synonym_covered U expansions text text_term_set query_terms =
     fold (cover_step U (py_casefold text) text_term_set (filter (\<lambda>t. t \<notin> text_term_set) query_terms)) expansions []"

definition lexical_match_score ::
  "ucd \<Rightarrow> (string \<Rightarrow> rat option) \<Rightarrow> rat \<Rightarrow> synonym_expansion list \<Rightarrow> string \<Rightarrow> string \<Rightarrow> pydict \<Rightarrow> rat" where
  "lexical_match_score U seconds now expansions query text metadata =
     (let query_terms = lexical_query_terms U query; text_terms = retrieval_tokens U text
      in if query_terms = [] \<or> text_terms = [] then 0
         else
           let matched = filter (\<lambda>t. t \<in> set text_terms) query_terms;
               covered = synonym_covered U expansions text (set text_terms) query_terms
           in if matched = [] \<and> covered = [] then 0
              else
                let coverage = (of_nat (length matched) + synonym_coverage_weight * of_nat (length covered)) /
                      of_nat (length query_terms);
                    frequency = sum_list (map (\<lambda>t. min (count_list text_terms t) 3) matched);
                    density = min 1 (of_nat frequency / of_nat (max 1 (length text_terms)));
                    score = lexical_match_base_score + 35 / 100 * coverage + 6 / 100 * density +
                      recency_boost seconds now metadata +
                      lexical_identifier_match_weight * of_int (text_identifier_match_count U query text)
                in min lexical_match_max_score score)"

section \<open>The query plan\<close>

record query_plan =
  qp_intent :: string
  qp_identifiers :: "string list"
  qp_lexical_terms :: "string list"
  qp_filter_hints :: "(string, string list) dict"
  qp_rewrite_hints :: "string list"

definition plan_high_risk_terms :: "string list" where
  "plan_high_risk_terms =
     [''loto'', ''lockout'', ''tagout'', ''electric shock'', ''live wire'', ''pressure test'',
      [CHR 0xE3, CHR 0x83, CHR 0xAD, CHR 0xE3, CHR 0x83, CHR 0x83, CHR 0xE3, CHR 0x82, CHR 0xAF, CHR 0xE3, CHR 0x82, CHR 0xA2, CHR 0xE3, CHR 0x82, CHR 0xA6, CHR 0xE3, CHR 0x83, CHR 0x88],
      [CHR 0xE3, CHR 0x82, CHR 0xBF, CHR 0xE3, CHR 0x82, CHR 0xB0, CHR 0xE3, CHR 0x82, CHR 0xA2, CHR 0xE3, CHR 0x82, CHR 0xA6, CHR 0xE3, CHR 0x83, CHR 0x88],
      [CHR 0xE6, CHR 0x84, CHR 0x9F, CHR 0xE9, CHR 0x9B, CHR 0xBB],
      [CHR 0xE6, CHR 0xB4, CHR 0xBB, CHR 0xE7, CHR 0xB7, CHR 0x9A],
      [CHR 0xE9, CHR 0xAB, CHR 0x98, CHR 0xE5, CHR 0x9C, CHR 0xA7],
      [CHR 0xE8, CHR 0x80, CHR 0x90, CHR 0xE5, CHR 0x9C, CHR 0xA7],
      [CHR 0xE5, CHR 0x9C, CHR 0xA7, CHR 0xE5, CHR 0x8A, CHR 0x9B, CHR 0xE5, CHR 0xAE, CHR 0xB9, CHR 0xE5, CHR 0x99, CHR 0xA8],
      [CHR 0xE8, CHR 0x96, CHR 0xAC, CHR 0xE6, CHR 0xB6, CHR 0xB2],
      [CHR 0xE8, CHR 0x8B, CHR 0x9B, CHR 0xE6, CHR 0x80, CHR 0xA7], ''naoh'',
      [CHR 0xE9, CHR 0x9D, CHR 0x9E, CHR 0xE5, CHR 0xB8, CHR 0xB8, CHR 0xE5, CHR 0x81, CHR 0x9C, CHR 0xE6, CHR 0xAD, CHR 0xA2],
      [CHR 0xE5, CHR 0xAE, CHR 0x89, CHR 0xE5, CHR 0x85, CHR 0xA8, CHR 0xE3, CHR 0x83, CHR 0xAA, CHR 0xE3, CHR 0x83, CHR 0xAC, CHR 0xE3, CHR 0x83, CHR 0xBC],
      ''pwht'', [CHR 0xE7, CHR 0x86, CHR 0xB1, CHR 0xE5, CHR 0x87, CHR 0xA6, CHR 0xE7, CHR 0x90, CHR 0x86]]"

definition troubleshooting_terms :: "string list" where
  "troubleshooting_terms =
     [''cause'', ''countermeasure'', ''failure'', ''noise'', ''overheat'', ''leak'', ''crack'',
      [CHR 0xE5, CHR 0x8E, CHR 0x9F, CHR 0xE5, CHR 0x9B, CHR 0xA0],
      [CHR 0xE5, CHR 0xAF, CHR 0xBE, CHR 0xE7, CHR 0xAD, CHR 0x96],
      [CHR 0xE7, CHR 0x95, CHR 0xB0, CHR 0xE9, CHR 0x9F, CHR 0xB3],
      [CHR 0xE7, CHR 0x99, CHR 0xBA, CHR 0xE7, CHR 0x86, CHR 0xB1],
      [CHR 0xE6, CHR 0xBC, CHR 0x8F, CHR 0xE3, CHR 0x82, CHR 0x8C],
      [CHR 0xE5, CHR 0x89, CHR 0xB2, CHR 0xE3, CHR 0x82, CHR 0x8C],
      [CHR 0xE4, CHR 0xB8, CHR 0x8D, CHR 0xE8, CHR 0x89, CHR 0xAF],
      [CHR 0xE6, CHR 0x95, CHR 0x85, CHR 0xE9, CHR 0x9A, CHR 0x9C],
      [CHR 0xE3, CHR 0x83, CHR 0x88, CHR 0xE3, CHR 0x83, CHR 0xA9, CHR 0xE3, CHR 0x83, CHR 0x96, CHR 0xE3, CHR 0x83, CHR 0xAB],
      [CHR 0xE3, CHR 0x83, CHR 0x94, CHR 0xE3, CHR 0x83, CHR 0xB3, CHR 0xE3, CHR 0x83, CHR 0x9B, CHR 0xE3, CHR 0x83, CHR 0xBC, CHR 0xE3, CHR 0x83, CHR 0xAB],
      [CHR 0xE3, CHR 0x83, CHR 0x92, CHR 0xE3, CHR 0x82, CHR 0xB1],
      [CHR 0xE3, CHR 0x83, CHR 0x9C, CHR 0xE3, CHR 0x82, CHR 0xA4, CHR 0xE3, CHR 0x83, CHR 0x89],
      [CHR 0xE6, CHR 0x91, CHR 0xA9, CHR 0xE8, CHR 0x80, CHR 0x97]]"

definition procedure_terms :: "string list" where
  "procedure_terms =
     [''procedure'', ''step'', ''steps'', ''check'', ''inspect'', ''replace'', ''adjust'',
      [CHR 0xE6, CHR 0x89, CHR 0x8B, CHR 0xE9, CHR 0xA0, CHR 0x86],
      [CHR 0xE3, CHR 0x82, CHR 0x84, CHR 0xE3, CHR 0x82, CHR 0x8A, CHR 0xE6, CHR 0x96, CHR 0xB9],
      [CHR 0xE6, CHR 0x96, CHR 0xB9, CHR 0xE6, CHR 0xB3, CHR 0x95],
      [CHR 0xE9, CHR 0xA0, CHR 0x86, CHR 0xE7, CHR 0x95, CHR 0xAA],
      [CHR 0xE4, CHR 0xBD, CHR 0x9C, CHR 0xE6, CHR 0xA5, CHR 0xAD],
      [CHR 0xE7, CHR 0x82, CHR 0xB9, CHR 0xE6, CHR 0xA4, CHR 0x9C],
      [CHR 0xE4, CHR 0xBA, CHR 0xA4, CHR 0xE6, CHR 0x8F, CHR 0x9B],
      [CHR 0xE8, CHR 0xAA, CHR 0xBF, CHR 0xE6, CHR 0x95, CHR 0xB4],
      [CHR 0xE7, CHR 0xA2, CHR 0xBA, CHR 0xE8, CHR 0xAA, CHR 0x8D]]"

definition comparison_terms :: "string list" where
  "comparison_terms =
     [[CHR 0xE6, CHR 0xAF, CHR 0x94, CHR 0xE8, CHR 0xBC, CHR 0x83],
      [CHR 0xE9, CHR 0x81, CHR 0x95, CHR 0xE3, CHR 0x81, CHR 0x84],
      [CHR 0xE5, CHR 0xB7, CHR 0xAE, CHR 0xE5, CHR 0x88, CHR 0x86],
      [CHR 0xE3, CHR 0x81, CHR 0xA9, CHR 0xE3, CHR 0x81, CHR 0xA1, CHR 0xE3, CHR 0x82, CHR 0x89], ''vs'',
      ''versus'']"

definition ambiguous_referents :: "string list" where
  "ambiguous_referents =
     [[CHR 0xE3, CHR 0x81, CHR 0x93, CHR 0xE3, CHR 0x82, CHR 0x8C],
      [CHR 0xE3, CHR 0x81, CHR 0x9D, CHR 0xE3, CHR 0x82, CHR 0x8C],
      [CHR 0xE3, CHR 0x81, CHR 0x82, CHR 0xE3, CHR 0x82, CHR 0x8C],
      [CHR 0xE3, CHR 0x81, CHR 0x93, CHR 0xE3, CHR 0x81, CHR 0xAE, CHR 0xE4, CHR 0xBB, CHR 0xB6],
      [CHR 0xE3, CHR 0x81, CHR 0x9D, CHR 0xE3, CHR 0x81, CHR 0xAE, CHR 0xE4, CHR 0xBB, CHR 0xB6]]"


definition contains_any :: "string \<Rightarrow> string list \<Rightarrow> bool" where
  "contains_any text terms \<longleftrightarrow> (\<exists>t\<in>set terms. str_contains (py_casefold t) text)"

definition plan_normalize :: "string \<Rightarrow> string" where
  "plan_normalize query = str_join '' '' (py_split_ws (py_casefold query))"

definition plan_intent :: "string \<Rightarrow> string list \<Rightarrow> string" where
  "plan_intent normalized identifiers =
     (if contains_any normalized ambiguous_referents \<and> identifiers = [] \<and> utf8_len normalized < 24
      then ''clarification''
      else if contains_any normalized plan_high_risk_terms then ''safety_procedure''
      else if contains_any normalized troubleshooting_terms then ''troubleshooting''
      else if contains_any normalized comparison_terms then ''comparison''
      else if contains_any normalized procedure_terms then ''procedure''
      else ''lookup'')"

definition equipment_code_rx :: "ucd \<Rightarrow> rx" where
  "equipment_code_rx U =
     rx_seq [Edge (u_word U), rx_upto 1 4 (Cls (\<lambda>c. ascii_alpha (fold_cp c))), rx_opt (rx_chr 45),
      rx_upto 1 4 (Cls (u_decimal U)), Edge (u_word U)]"

definition plan_filter_hints ::
  "ucd \<Rightarrow> string \<Rightarrow> string list \<Rightarrow> string \<Rightarrow> (string, string list) dict" where
  "plan_filter_hints U intent identifiers normalized =
     [(''approval_state'', [''approved_effective''])] @
     (if identifiers \<noteq> [] then [(''business_identifiers'', identifiers)] else []) @
     (if intent = ''troubleshooting'' then
        [(''document_kind'', [''trouble_case'', ''trouble_report'', ''quality_report''])]
      else if intent = ''safety_procedure'' then
        [(''document_kind'', [''safety'', ''work_instruction'', ''standard'']), (''safety_scope'', [''high_risk''])]
      else if intent = ''procedure'' then
        [(''document_kind'', [''work_instruction'', ''standard'', ''inspection''])]
      else if intent = ''comparison'' then
        [(''document_kind'', [''standard'', ''inspection'', ''work_instruction''])]
      else []) @
     (if rx_search (equipment_code_rx U) normalized then [(''identifier_type'', [''equipment_or_alarm_code''])] else [])"

definition plan_rewrite_hints :: "string list \<Rightarrow> string list \<Rightarrow> string list" where
  "plan_rewrite_hints identifiers terms =
     take 24 (identifiers @ filter (\<lambda>t. t \<notin> set identifiers) terms)"

definition plan_query :: "ucd \<Rightarrow> string \<Rightarrow> query_plan" where
  "plan_query U query =
     (let normalized = plan_normalize query;
          identifiers = query_identifiers U query;
          terms = lexical_query_terms U query;
          intent = plan_intent normalized identifiers
      in \<lparr>qp_intent = intent, qp_identifiers = identifiers, qp_lexical_terms = terms,
          qp_filter_hints = plan_filter_hints U intent identifiers normalized,
          qp_rewrite_hints = plan_rewrite_hints identifiers terms\<rparr>)"

section \<open>Identifier matching\<close>

lemma drop_dashes_idem [simp]: "drop_dashes (drop_dashes s) = drop_dashes s"
  by (simp add: drop_dashes_def)

lemma drop_dashes_Nil_iff: "drop_dashes s = [] \<longleftrightarrow> set s \<subseteq> {CHR ''-''}"
  by (auto simp: drop_dashes_def filter_empty_conv)

lemma strip_dashes_Nil: "drop_dashes (strip_dashes s) = [] \<longleftrightarrow> strip_dashes s = []"
proof
  let ?d = "\<lambda>c. c = CHR ''-''"
  assume "drop_dashes (strip_dashes s) = []"
  then have all: "\<forall>c\<in>set (strip_dashes s). ?d c" by (auto simp: drop_dashes_Nil_iff)
  show "strip_dashes s = []"
  proof (rule ccontr)
    assume ne: "strip_dashes s \<noteq> []"
    let ?t = "dropWhile ?d (rev (dropWhile ?d s))"
    from ne have t: "?t \<noteq> []" by (simp add: strip_dashes_def)
    then have "\<not> ?d (hd ?t)" by (rule hd_dropWhile)
    moreover have "hd ?t \<in> set (strip_dashes s)" using t by (simp add: strip_dashes_def)
    ultimately show False using all by blast
  qed
qed (simp add: drop_dashes_def)

lemma compact_Nil_iff: "compact_identifier v = [] \<longleftrightarrow> normalize_identifier v = []"
  by (simp add: compact_identifier_def normalize_identifier_def normalize_identifier_str_def strip_dashes_Nil)

lemma query_identifiers_closed:
  "i \<in> set (query_identifiers U q) \<Longrightarrow> drop_dashes i \<in> set (query_identifiers U q)"
  by (auto simp: query_identifiers_def identifier_forms_def Let_def split: if_splits)

lemma matches_scalar_iff:
  assumes "\<And>i. i \<in> set ids \<Longrightarrow> drop_dashes i \<in> set ids"
  shows "(let n = normalize_identifier v in n \<noteq> [] \<and> (n \<in> set ids \<or> drop_dashes n \<in> set ids)) \<longleftrightarrow>
      compact_identifier v \<noteq> [] \<and> compact_identifier v \<in> drop_dashes ` set ids"
proof -
  let ?n = "normalize_identifier v"
  have "?n \<in> set ids \<or> drop_dashes ?n \<in> set ids \<longleftrightarrow> drop_dashes ?n \<in> drop_dashes ` set ids"
  proof
    assume "?n \<in> set ids \<or> drop_dashes ?n \<in> set ids"
    then show "drop_dashes ?n \<in> drop_dashes ` set ids" by (metis drop_dashes_idem imageI)
  next
    assume "drop_dashes ?n \<in> drop_dashes ` set ids"
    then obtain i where "i \<in> set ids" "drop_dashes ?n = drop_dashes i" by blast
    then show "?n \<in> set ids \<or> drop_dashes ?n \<in> set ids" using assms [of i] by simp
  qed
  then show ?thesis unfolding Let_def compact_Nil_iff by (simp add: compact_identifier_def)
qed

definition flat_value :: "pyval \<Rightarrow> bool" where
  "flat_value v \<longleftrightarrow> (case v of PList vs \<Rightarrow> \<forall>x\<in>set vs. \<forall>ys. x \<noteq> PList ys | _ \<Rightarrow> True)"

lemma value_matches_scalar:
  "\<forall>ys. v \<noteq> PList ys \<Longrightarrow> v \<noteq> PNone \<Longrightarrow>
     value_matches v ids = (let n = normalize_identifier v in n \<noteq> [] \<and> (n \<in> set ids \<or> drop_dashes n \<in> set ids))"
  by (cases v) auto

lemma compact_identifier_None: "compact_identifier PNone = []"
proof -
  have "normalize_identifier_str [] = []" by code_simp
  then show ?thesis by (simp add: compact_identifier_def normalize_identifier_def drop_dashes_def)
qed

lemma value_matches_compacts:
  assumes closed: "\<And>i. i \<in> set ids \<Longrightarrow> drop_dashes i \<in> set ids" and flat: "flat_value v"
  shows "value_matches v ids \<longleftrightarrow>
     (\<exists>x\<in>set (field_items v). compact_identifier x \<noteq> [] \<and> compact_identifier x \<in> drop_dashes ` set ids)"
proof -
  have scalar: "value_matches x ids \<longleftrightarrow> compact_identifier x \<noteq> [] \<and> compact_identifier x \<in> drop_dashes ` set ids"
    if "\<forall>ys. x \<noteq> PList ys" "x \<noteq> PNone" for x
    using value_matches_scalar [OF that] matches_scalar_iff [OF closed] by metis
  show ?thesis
  proof (cases v)
    case (PList vs)
    have "value_matches x ids \<longleftrightarrow> compact_identifier x \<noteq> [] \<and> compact_identifier x \<in> drop_dashes ` set ids"
      if "x \<in> set vs" for x
      using scalar [of x] flat PList that by (cases "x = PNone") (auto simp: flat_value_def compact_identifier_None)
    then show ?thesis using PList by auto
  qed (simp_all only: value_matches.simps field_items.simps matches_scalar_iff [OF closed] list.set Un_empty_right bex_simps simp_thms empty_iff)
qed



section \<open>The lexical score\<close>

lemma recency_boost_bounds: "0 \<le> recency_boost seconds now m \<and> recency_boost seconds now m \<le> 2 / 100"
proof -
  have "max 0 (1 - max 0 a / 3650) \<le> (1 :: rat)" for a by simp
  then show ?thesis
    by (auto simp: recency_boost_def lexical_recency_boost_max_def Let_def split: option.splits)
qed

lemma text_identifier_match_count_nonneg: "0 \<le> text_identifier_match_count U q t"
  by (simp add: text_identifier_match_count_def)

definition lexical_terms_hit :: "ucd \<Rightarrow> synonym_expansion list \<Rightarrow> string \<Rightarrow> string \<Rightarrow> bool" where
  "lexical_terms_hit U expansions query text \<longleftrightarrow>
     (\<exists>t\<in>set (lexical_query_terms U query). t \<in> set (retrieval_tokens U text)) \<or>
     (lexical_query_terms U query \<noteq> [] \<and> retrieval_tokens U text \<noteq> [] \<and>
      synonym_covered U expansions text (set (retrieval_tokens U text)) (lexical_query_terms U query) \<noteq> [])"

lemma lexical_score_cases:
  "(lexical_terms_hit U ex q t \<and> lexical_match_base_score \<le> lexical_match_score U seconds now ex q t m \<and>
      lexical_match_score U seconds now ex q t m \<le> lexical_match_max_score) \<or>
   (\<not> lexical_terms_hit U ex q t \<and> lexical_match_score U seconds now ex q t m = 0)"
proof (cases "lexical_terms_hit U ex q t")
  case False
  then show ?thesis
    by (auto simp: lexical_terms_hit_def lexical_match_score_def Let_def filter_empty_conv)
next
  case True
  let ?qt = "lexical_query_terms U q" and ?tt = "retrieval_tokens U t"
  let ?m = "filter (\<lambda>x. x \<in> set ?tt) ?qt" and ?c = "synonym_covered U ex t (set ?tt) ?qt"
  let ?cov = "(of_nat (length ?m) + synonym_coverage_weight * of_nat (length ?c)) / (of_nat (length ?qt) :: rat)"
  let ?den = "min 1 (of_nat (sum_list (map (\<lambda>x. min (count_list ?tt x) 3) ?m)) / (of_nat (max 1 (length ?tt)) :: rat))"
  let ?s = "lexical_match_base_score + 35 / 100 * ?cov + 6 / 100 * ?den + recency_boost seconds now m +
      lexical_identifier_match_weight * of_int (text_identifier_match_count U q t)"
  from True have ne: "?qt \<noteq> []" "?tt \<noteq> []" "\<not> (?m = [] \<and> ?c = [])"
    by (auto simp: lexical_terms_hit_def filter_empty_conv)
  have score: "lexical_match_score U seconds now ex q t m = min lexical_match_max_score ?s"
    using ne unfolding lexical_match_score_def Let_def by (simp only: if_False de_Morgan_disj simp_thms)
  have "0 \<le> ?cov" "0 \<le> ?den" by (simp_all add: synonym_coverage_weight_def)
  moreover have "0 \<le> lexical_identifier_match_weight * (of_int (text_identifier_match_count U q t) :: rat)"
    by (simp add: lexical_identifier_match_weight_def text_identifier_match_count_nonneg)
  ultimately have "lexical_match_base_score \<le> ?s"
    using recency_boost_bounds [of seconds now m] by linarith
  moreover have "lexical_match_base_score \<le> lexical_match_max_score"
    by (simp add: lexical_match_base_score_def lexical_match_max_score_def)
  ultimately show ?thesis using True score by simp
qed

lemma lexical_score_pos_iff: "0 < lexical_match_score U seconds now ex q t m \<longleftrightarrow> lexical_terms_hit U ex q t"
  using lexical_score_cases [of U ex q t seconds now m] by (auto simp: lexical_match_base_score_def)

lemma lexical_below_exact: "lexical_match_score U seconds now ex q t m < metadata_exact_match_score"
  using lexical_score_cases [of U ex q t seconds now m]
  by (auto simp: lexical_match_max_score_def metadata_exact_match_score_def)

lemma synonym_covered_no_expansions [simp]: "synonym_covered U [] t s qt = []"
  by (simp add: synonym_covered_def)

text \<open>Without synonyms the candidate filter of the lexical leg loses nothing that could score.\<close>

lemma candidates_necessary:
  assumes "0 < lexical_match_score U seconds now [] q t m"
  shows "lexical_candidate_tokens U [] (lexical_query_terms U q) \<inter> set (retrieval_tokens U t) \<noteq> {}"
proof -
  from assms obtain x where x: "x \<in> set (lexical_query_terms U q)" "x \<in> set (retrieval_tokens U t)"
    by (auto simp: lexical_score_pos_iff lexical_terms_hit_def)
  from x(1) have "x \<noteq> []"
    by (auto simp: lexical_query_terms_def lexical_term_is_signal_def utf8_len_def contains_cjk_def cps_def py_lower_def)
  with x show ?thesis by (auto simp: lexical_candidate_tokens_def)
qed

text \<open>
  With synonyms it does: an alternative of one kanji is found in the text as a substring, so the text scores,
  but the only token of the alternative is the character itself, and the tokens of the text are its bigrams.
\<close>

definition valve_jp :: string where
  "valve_jp = [CHR 0xE5, CHR 0xBC, CHR 0x81]"

definition safety_valve_jp :: string where
  "safety_valve_jp = [CHR 0xE5, CHR 0xAE, CHR 0x89, CHR 0xE5, CHR 0x85, CHR 0xA8, CHR 0xE5, CHR 0xBC, CHR 0x81]"

lemma candidates_miss_synonym:
  "let ex = [\<lparr>se_source_terms = [''valve''], se_alternatives = [valve_jp]\<rparr>]
   in lexical_terms_hit ucd_jp ex ''valve'' safety_valve_jp \<and>
      lexical_candidate_tokens ucd_jp ex (lexical_query_terms ucd_jp ''valve'') \<inter>
        set (retrieval_tokens ucd_jp safety_valve_jp) = {}"
  by code_simp

text \<open>
  A synonym can outrank a direct hit at equal coverage: the first text holds both terms of the query, the
  second holds one of them and a synonym of the other and is shorter, and the density component decides.
\<close>

definition pto_expansion :: "synonym_expansion list" where
  "pto_expansion = [\<lparr>se_source_terms = [''leave''], se_alternatives = [''pto'']\<rparr>]"

lemma outrank_tokens:
  "lexical_query_terms ucd_jp ''annual leave'' = [''annual'', ''leave'']"
  "retrieval_tokens ucd_jp ''annual leave b c d e f g h j'' =
     [''annual'', ''leave'', ''b'', ''c'', ''d'', ''e'', ''f'', ''g'', ''h'', ''j'']"
  "retrieval_tokens ucd_jp ''annual pto'' = [''annual'', ''pto'']"
  by code_simp+

lemma outrank_identifiers:
  "query_identifiers ucd_jp ''annual leave'' = []"
  by code_simp

lemma outrank_covered:
  "synonym_covered ucd_jp pto_expansion ''annual leave b c d e f g h j''
     {''annual'', ''leave'', ''b'', ''c'', ''d'', ''e'', ''f'', ''g'', ''h'', ''j''} [''annual'', ''leave''] = []"
  "synonym_covered ucd_jp pto_expansion ''annual pto'' {''annual'', ''pto''} [''annual'', ''leave''] = [''leave'']"
  by code_simp+

lemma no_recency: "recency_boost seconds now [] = 0"
proof -
  have "metadata_date_value [] = PNone" by code_simp
  then show ?thesis by (simp add: recency_boost_def)
qed

lemma synonym_outranks_direct:
  "lexical_match_score ucd_jp seconds now pto_expansion ''annual leave'' ''annual leave b c d e f g h j'' [] <
   lexical_match_score ucd_jp seconds now pto_expansion ''annual leave'' ''annual pto'' []"
  by (simp add: lexical_match_score_def Let_def outrank_tokens outrank_covered no_recency
      text_identifier_match_count_def query_identifier_compacts_def outrank_identifiers
      lexical_match_base_score_def lexical_match_max_score_def synonym_coverage_weight_def)

end
