(* ===== verification/Retrieval.thy ===== *)
theory Retrieval
  imports HybridRetrieval Cost Cache IngestionQuality
begin

text \<open>
  The retrieval service of \<open>services/retrieval.py\<close> over the in-memory store, with the rerankers of
  \<open>providers/rerankers.py\<close>: three legs (vector, metadata-exact, lexical) under one tenant, tombstone and
  visibility filter, the quality filter, rank fusion, query-plan boosts, the second visibility check, and
  the fail-safe rerank. The embedding model, SHA-256, the reranking service and the tenant lexicon are
  arguments; metrics, traces and log lines are not modelled.
\<close>

section \<open>Profiles and environment\<close>

record query_profile =
  pr_profile_id :: string
  pr_score_threshold :: rat
  pr_top_k :: int
  pr_minimum_evidence_count :: int
  pr_rerank_enabled :: bool
  pr_rerank_top_n :: int
  pr_query_rewrite_enabled :: bool
  pr_max_context_tokens :: int
  pr_max_context_chunks :: int
  pr_max_synchronous_llm_calls :: int
  pr_self_eval_enabled :: bool
  pr_llm_model :: string
  pr_min_question_coverage :: rat
  pr_salient_coverage_enabled :: bool

definition default_llm_model :: string where
  "default_llm_model = ''extractive-mvp''"

definition default_profile :: query_profile where
  "default_profile =
     \<lparr>pr_profile_id = ''default'', pr_score_threshold = 10 / 100, pr_top_k = 5, pr_minimum_evidence_count = 1,
      pr_rerank_enabled = True, pr_rerank_top_n = 20, pr_query_rewrite_enabled = False,
      pr_max_context_tokens = 8000, pr_max_context_chunks = 8, pr_max_synchronous_llm_calls = 1,
      pr_self_eval_enabled = True, pr_llm_model = default_llm_model, pr_min_question_coverage = 0,
      pr_salient_coverage_enabled = True\<rparr>"

text \<open>The two rerankers; the second one has an optional invoker, whose answer is a list of relevances.\<close>

type_synonym rerank_invoker = "string \<Rightarrow> string list \<Rightarrow> rat list result"

datatype reranker = ScoreOrder | BedrockCohere "rerank_invoker option"

definition score_order :: "scored_chunk list \<Rightarrow> scored_chunk list" where
  "score_order xs = sort_key (\<lambda>s. - sc_retrieval_score s) xs"

fun rerank :: "reranker \<Rightarrow> string \<Rightarrow> scored_chunk list \<Rightarrow> int \<Rightarrow> scored_chunk list" where
  "rerank ScoreOrder query scored top_n = py_take top_n scored"
| "rerank (BedrockCohere invoker) query scored top_n =
     (let ordered = score_order scored
      in case invoker of
           None \<Rightarrow> py_take top_n ordered
         | Some invoke \<Rightarrow>
             if ordered = [] then py_take top_n ordered
             else
               (case invoke query (map (\<lambda>s. c_text (sc_chunk s)) ordered) of
                  Inl e \<Rightarrow> py_take top_n ordered
                | Inr relevances \<Rightarrow>
                    if length relevances \<noteq> length ordered then py_take top_n ordered
                    else py_take top_n (map snd (sort_key (\<lambda>t. - fst t) (zip relevances ordered)))))"

record retrieval_env =
  re_ucd :: ucd
  re_seconds :: "string \<Rightarrow> rat option"
  re_now :: rat
  re_time :: string
  re_acl :: acl_policy
  re_embed :: "string \<Rightarrow> vector result"
  re_cache_identity :: string
  re_sha256 :: "string \<Rightarrow> string"
  re_reranker :: "reranker option"
  re_lexicon :: "(string \<Rightarrow> words result) option"

record retrieval_state =
  rs_store :: vector_store
  rs_cache :: "vector cache_service option"
  rs_cost :: "cost_service option"

section \<open>Fusion of the legs\<close>

definition max_rerank_candidates :: int where "max_rerank_candidates = 80"
definition rrf_k :: int where "rrf_k = 60"
definition no_meta_rank :: int where "no_meta_rank = 10 ^ 9"

definition rerank_candidate_limit :: "query_profile \<Rightarrow> int" where
  "rerank_candidate_limit pr = max 0 (min (pr_rerank_top_n pr) max_rerank_candidates)"

definition filter_quality_eligible :: "scored_chunk list \<Rightarrow> scored_chunk list" where
  "filter_quality_eligible scored = filter (\<lambda>s. is_retrieval_eligible (c_metadata (sc_chunk s))) scored"

record hybrid_ranks =
  hr_meta_rank :: "(string, int) dict"
  hr_rrf :: "(string, rat) dict"

definition rank_key :: "hybrid_ranks \<Rightarrow> scored_chunk \<Rightarrow> rat \<times> int \<times> rat \<times> string" where
  "rank_key hr s =
     (let cid = c_chunk_id (sc_chunk s)
      in (- sc_retrieval_score s,
          (case dget (hr_meta_rank hr) cid of None \<Rightarrow> no_meta_rank | Some r \<Rightarrow> r),
          - dcount (hr_rrf hr) cid, cid))"

text \<open>The inner loop over one leg; \<open>rank\<close> starts at 1.\<close>

fun merge_leg ::
  "bool \<Rightarrow> int \<Rightarrow> scored_chunk list \<Rightarrow> (string, scored_chunk) dict \<times> hybrid_ranks \<Rightarrow>
     (string, scored_chunk) dict \<times> hybrid_ranks" where
  "merge_leg first rank [] acc = acc"
| "merge_leg first rank (s # ss) (best, hr) =
     (let cid = c_chunk_id (sc_chunk s);
          hr1 = hr\<lparr>hr_rrf := dset cid (dcount (hr_rrf hr) cid + 1 / of_int (rrf_k + rank)) (hr_rrf hr)\<rparr>;
          hr2 = (if first then hr1\<lparr>hr_meta_rank := dset cid rank (hr_meta_rank hr1)\<rparr> else hr1);
          best' = (case dget best cid of
                     None \<Rightarrow> dset cid s best
                   | Some cur \<Rightarrow> if sc_retrieval_score s > sc_retrieval_score cur then dset cid s best else best)
      in merge_leg first (rank + 1) ss (best', hr2))"

definition merge_hybrid_results ::
  "scored_chunk list \<Rightarrow> scored_chunk list \<Rightarrow> scored_chunk list \<Rightarrow> scored_chunk list \<times> hybrid_ranks" where
  "merge_hybrid_results metadata_results lexical_results vector_results =
     (let acc = merge_leg True 1 metadata_results ([], \<lparr>hr_meta_rank = [], hr_rrf = []\<rparr>);
          acc = merge_leg False 1 lexical_results acc;
          (best, hr) = merge_leg False 1 vector_results acc
      in (sort_key (rank_key hr) (map snd best), hr))"

section \<open>Query-plan boosts\<close>

definition boost_nested_keys :: "string list" where
  "boost_nested_keys = [''_mfg_meta'', ''manufacturing'', ''manufacturing_metadata'', ''industry_metadata'']"

text \<open>
  \<open>_metadata_values\<close>: the value under the key, in \<open>extra\<close> and in the nested mappings. The recursion follows
  the nesting of the value, so its size is enough fuel.
\<close>

fun nested_values :: "nat \<Rightarrow> pyval \<Rightarrow> string \<Rightarrow> pyval list" where
  "nested_values 0 v key = []"
| "nested_values (Suc n) v key =
     (case v of
        PDict m \<Rightarrow>
          (case py_get m key of
             PList vs \<Rightarrow> vs
           | x \<Rightarrow> if x = PNone \<or> x = PStr [] then [] else [x]) @
          (case py_get m ''extra'' of PDict e \<Rightarrow> nested_values n (PDict e) key | _ \<Rightarrow> []) @
          concat (map (\<lambda>k. nested_values n (py_get m k) key) boost_nested_keys)
      | _ \<Rightarrow> [])"

definition boost_values :: "pydict \<Rightarrow> string \<Rightarrow> pyval list" where
  "boost_values metadata key = nested_values (size (PDict metadata)) (PDict metadata) key"

definition metadata_has_any :: "pydict \<Rightarrow> string \<Rightarrow> string list \<Rightarrow> bool" where
  "metadata_has_any metadata key accepted =
     (let accepted_values = map (\<lambda>v. py_casefold (py_strip v)) (filter (\<lambda>v. py_strip v \<noteq> []) accepted)
      in if accepted_values = [] then False
         else \<exists>v\<in>set (boost_values metadata key). py_casefold (py_strip (py_str v)) \<in> set accepted_values)"

definition metadata_has_identifier :: "pydict \<Rightarrow> string list \<Rightarrow> bool" where
  "metadata_has_identifier metadata identifiers =
     (let identifier_values = map (\<lambda>v. py_casefold (drop_dashes v)) identifiers
      in \<exists>key\<in>set [''equipment_id'', ''alarm_code'']. \<exists>v\<in>set (boost_values metadata key).
           let normalized = py_casefold (drop_dashes (py_str v))
           in normalized \<noteq> [] \<and> normalized \<in> set identifier_values)"

definition query_plan_document_kind_boost :: rat where "query_plan_document_kind_boost = 6 / 100"
definition query_plan_safety_scope_boost :: rat where "query_plan_safety_scope_boost = 6 / 100"
definition query_plan_identifier_boost :: rat where "query_plan_identifier_boost = 2 / 100"

definition query_plan_boost :: "chunk \<Rightarrow> query_plan \<Rightarrow> rat" where
  "query_plan_boost c plan =
     (let kinds = word_list (qp_filter_hints plan) ''document_kind''
      in (if kinds \<noteq> [] \<and> metadata_has_any (c_metadata c) ''document_kind'' kinds
          then query_plan_document_kind_boost else 0) +
         (if word_list (qp_filter_hints plan) ''safety_scope'' \<noteq> [] \<and>
             metadata_has_any (c_metadata c) ''safety_category'' [''high_risk'']
          then query_plan_safety_scope_boost else 0) +
         (if qp_identifiers plan \<noteq> [] \<and> metadata_has_identifier (c_metadata c) (qp_identifiers plan)
          then query_plan_identifier_boost else 0))"

definition boosted :: "query_plan \<Rightarrow> scored_chunk \<Rightarrow> scored_chunk" where
  "boosted plan s = s\<lparr>sc_retrieval_score := sc_retrieval_score s + query_plan_boost (sc_chunk s) plan\<rparr>"

definition apply_query_plan_boosts ::
  "scored_chunk list \<Rightarrow> query_plan \<Rightarrow> hybrid_ranks option \<Rightarrow> scored_chunk list" where
  "apply_query_plan_boosts scored plan ranks =
     (if scored = [] \<or> qp_intent plan = ''clarification'' then scored
      else
        let bs = map (boosted plan) scored
        in case ranks of
             None \<Rightarrow> score_order bs
           | Some hr \<Rightarrow> sort_key (rank_key hr) bs)"

section \<open>Embedding and synonyms\<close>

definition embed_key :: "retrieval_env \<Rightarrow> string \<Rightarrow> string" where
  "embed_key env query = ''embed:'' @ re_cache_identity env @ '':'' @ re_sha256 env query"

text \<open>The vector of the query and whether it came from the tenant's cache.\<close>

definition embed_query ::
  "retrieval_env \<Rightarrow> string \<Rightarrow> string \<Rightarrow> vector cache_service option \<Rightarrow>
     vector cache_service option \<times> (vector \<times> bool) result" where
  "embed_query env tenant_id query cache =
     (case cache of
        None \<Rightarrow> (None, rbind (re_embed env query) (\<lambda>v. Inr (v, False)))
      | Some cs \<Rightarrow>
          let (cs1, cached) = cache_get tenant_id (embed_key env query) cs
          in case cached of
               Some v \<Rightarrow> (Some cs1, Inr (v, True))
             | None \<Rightarrow>
                 (case re_embed env query of
                    Inl e \<Rightarrow> (Some cs1, Inl e)
                  | Inr v \<Rightarrow> (Some (cache_put tenant_id (embed_key env query) v {} None None cs1), Inr (v, False))))"

definition lexical_synonym_expansions :: "retrieval_env \<Rightarrow> string \<Rightarrow> string \<Rightarrow> synonym_expansion list" where
  "lexical_synonym_expansions env tenant_id query =
     (case re_lexicon env of
        None \<Rightarrow> []
      | Some entries \<Rightarrow>
          (case entries tenant_id of
             Inl e \<Rightarrow> []
           | Inr groups \<Rightarrow> if groups = [] then [] else synonym_expansions (re_ucd env) query groups))"

section \<open>Retrieval\<close>

definition metadata_leg :: "retrieval_env \<Rightarrow> identity_claims \<Rightarrow> string \<Rightarrow> int \<Rightarrow> vector_store \<Rightarrow> scored_chunk list" where
  "metadata_leg env p query k st =
     metadata_exact_matches (query_identifiers (re_ucd env)) metadata_identifier_match_count
       (id_tenant_id p) query (visibility (re_acl env) p) k st"

definition lexical_leg :: "retrieval_env \<Rightarrow> identity_claims \<Rightarrow> string \<Rightarrow> int \<Rightarrow> vector_store \<Rightarrow> scored_chunk list" where
  "lexical_leg env p query k st =
     (let U = re_ucd env; ex = lexical_synonym_expansions env (id_tenant_id p) query
      in lexical_matches (lexical_query_terms U) (lexical_candidate_tokens U ex) (\<lambda>t. set (retrieval_tokens U t))
           lexical_direct_match_count (lexical_match_score U (re_seconds env) (re_now env) ex)
           (id_tenant_id p) query (visibility (re_acl env) p) k st)"

definition fused_legs ::
  "scored_chunk list \<Rightarrow> scored_chunk list \<Rightarrow> scored_chunk list \<Rightarrow> scored_chunk list \<times> hybrid_ranks option" where
  "fused_legs meta lexical scored =
     (if meta \<noteq> [] \<or> lexical \<noteq> [] then
        (let (merged, hr) = merge_hybrid_results meta lexical scored in (merged, Some hr))
      else (scored, None))"

definition ranked_candidates ::
  "retrieval_env \<Rightarrow> identity_claims \<Rightarrow> string \<Rightarrow> int \<Rightarrow> vector \<Rightarrow> vector_store \<Rightarrow> scored_chunk list" where
  "ranked_candidates env p query k v st =
     (let scored = filter_quality_eligible (snd (search (id_tenant_id p) v (visibility (re_acl env) p) k st));
          meta = filter_quality_eligible (metadata_leg env p query k st);
          lexical = filter_quality_eligible (lexical_leg env p query k st);
          (scored, ranks) = fused_legs meta lexical scored
      in apply_query_plan_boosts scored (plan_query (re_ucd env) query) ranks)"

definition rerank_stage ::
  "retrieval_env \<Rightarrow> query_profile \<Rightarrow> string \<Rightarrow> scored_chunk list \<Rightarrow> scored_chunk list" where
  "rerank_stage env pr query scored =
     (let limit = rerank_candidate_limit pr
      in if pr_rerank_enabled pr \<and> 0 < limit then
           (case re_reranker env of
              None \<Rightarrow> scored
            | Some r \<Rightarrow> rerank r query (py_take limit scored) limit)
         else scored)"

definition search_top_k :: "query_profile \<Rightarrow> int" where
  "search_top_k pr = max 1 (max (pr_top_k pr) (rerank_candidate_limit pr))"

definition charge_embedding ::
  "retrieval_env \<Rightarrow> identity_claims \<Rightarrow> string \<Rightarrow> query_profile \<Rightarrow> string \<Rightarrow> bool \<Rightarrow>
     cost_service option \<Rightarrow> cost_service option" where
  "charge_embedding env p query pr cid hit cost =
     (case cost of
        None \<Rightarrow> None
      | Some cs \<Rightarrow>
          if hit then Some cs
          else Some (record_tokens (re_time env) (id_tenant_id p) ''embedding_tokens'' (word_count query) cid
                 (pr_profile_id pr) [(''target'', PStr ''query'')] cs))"

definition retrieve ::
  "retrieval_env \<Rightarrow> identity_claims \<Rightarrow> string \<Rightarrow> query_profile \<Rightarrow> string \<Rightarrow> retrieval_state \<Rightarrow>
     retrieval_state \<times> scored_chunk list result" where
  "retrieve env p query pr cid rs =
     (let (cache, embedded) = embed_query env (id_tenant_id p) query (rs_cache rs);
          rs = rs\<lparr>rs_cache := cache\<rparr>
      in case embedded of
           Inl e \<Rightarrow> (rs, Inl e)
         | Inr (v, hit) \<Rightarrow>
             let k = search_top_k pr;
                 st = rs_store rs;
                 rs = rs\<lparr>rs_cost := charge_embedding env p query pr cid hit (rs_cost rs),
                         rs_store := fst (search (id_tenant_id p) v (visibility (re_acl env) p) k st)\<rparr>;
                 scored = ranked_candidates env p query k v st
             in if \<exists>s\<in>set scored. \<not> visibility (re_acl env) p (sc_chunk s) then (rs, Inl AclDenied)
                else (rs, Inr (py_take (pr_top_k pr) (rerank_stage env pr query scored))))"

definition is_visible :: "acl_policy \<Rightarrow> identity_claims \<Rightarrow> chunk \<Rightarrow> bool" where
  "is_visible acl p c =
     (if c_tenant_id c \<noteq> id_tenant_id p then False
      else if c_tombstone c then False
      else if \<not> is_retrieval_eligible (c_metadata c) then False
      else \<not> raises (assert_visible acl p c))"

section \<open>What a leg may return\<close>

lemma py_take_Nil [simp]: "py_take k [] = []"
  by (simp add: py_take_def)

definition servable :: "acl_policy \<Rightarrow> identity_claims \<Rightarrow> vector_store \<Rightarrow> chunk \<Rightarrow> bool" where
  "servable acl p st c \<longleftrightarrow>
     prefilter (id_tenant_id p) (visibility acl p) c \<and> is_retrieval_eligible (c_metadata c) \<and>
     (\<exists>cid v. (cid, (c, v)) \<in> set (vs_items st))"

lemma servable_visible: "servable acl p st c \<Longrightarrow> visibility acl p c"
  by (simp add: servable_def prefilter_def)

lemma servableD:
  assumes "servable acl p st c"
  shows "\<exists>k v. (k, (c, v)) \<in> set (vs_items st)" "c_tenant_id c = id_tenant_id p" "\<not> c_tombstone c"
    "\<exists>g\<in>set (p_grants acl). grant_covers (subjects_of p) (id_tenant_id p) (c_collection_id c) (c_document_id c) g"
    "is_retrieval_eligible (c_metadata c)"
proof -
  have pre: "prefilter (id_tenant_id p) (visibility acl p) c"
    and rest: "is_retrieval_eligible (c_metadata c)" "\<exists>k v. (k, (c, v)) \<in> set (vs_items st)"
    using assms unfolding servable_def by blast+
  then show "c_tenant_id c = id_tenant_id p" "\<not> c_tombstone c" unfolding prefilter_def by blast+
  have "can_read acl p (c_tenant_id c) (c_collection_id c) (c_document_id c)"
    using pre unfolding prefilter_def visibility_def by blast
  then show "\<exists>g\<in>set (p_grants acl). grant_covers (subjects_of p) (id_tenant_id p) (c_collection_id c) (c_document_id c) g"
    unfolding can_read_iff by metis
  show "is_retrieval_eligible (c_metadata c)" "\<exists>k v. (k, (c, v)) \<in> set (vs_items st)" by (fact rest)+
qed

lemma eligible_hits:
  "s \<in> set (filter_quality_eligible xs) \<longleftrightarrow> s \<in> set xs \<and> is_retrieval_eligible (c_metadata (sc_chunk s))"
  by (simp add: filter_quality_eligible_def)

lemma vector_leg_servable:
  "s \<in> set (filter_quality_eligible (snd (search (id_tenant_id p) v (visibility acl p) k st))) \<Longrightarrow>
     servable acl p st (sc_chunk s)"
  unfolding eligible_hits servable_def by (blast dest: search_hits)

lemma metadata_leg_servable:
  "s \<in> set (filter_quality_eligible (metadata_leg env p q k st)) \<Longrightarrow> servable (re_acl env) p st (sc_chunk s)"
  unfolding eligible_hits servable_def metadata_leg_def by (blast dest: metadata_hits)

lemma lexical_leg_servable:
  "s \<in> set (filter_quality_eligible (lexical_leg env p q k st)) \<Longrightarrow> servable (re_acl env) p st (sc_chunk s)"
  unfolding eligible_hits servable_def lexical_leg_def Let_def by (blast dest: lexical_hits)

section \<open>Fusion\<close>

text \<open>What the dictionary of best hits holds after the hits of a list.\<close>

definition top_hit :: "scored_chunk list \<Rightarrow> string \<Rightarrow> scored_chunk \<Rightarrow> bool" where
  "top_hit seen cid s \<longleftrightarrow>
     s \<in> set seen \<and> c_chunk_id (sc_chunk s) = cid \<and>
     (\<forall>t\<in>set seen. c_chunk_id (sc_chunk t) = cid \<longrightarrow> sc_retrieval_score t \<le> sc_retrieval_score s)"

definition best_of :: "scored_chunk list \<Rightarrow> (string, scored_chunk) dict \<Rightarrow> bool" where
  "best_of seen best \<longleftrightarrow>
     wf_dict best \<and> fst ` set best = (\<lambda>s. c_chunk_id (sc_chunk s)) ` set seen \<and>
     (\<forall>p\<in>set best. top_hit seen (fst p) (snd p))"

lemma top_hit_keep:
  "top_hit seen cid x \<Longrightarrow> c_chunk_id (sc_chunk s) \<noteq> cid \<or> sc_retrieval_score s \<le> sc_retrieval_score x \<Longrightarrow>
     top_hit (seen @ [s]) cid x"
  by (auto simp: top_hit_def)

lemma top_hit_raise:
  "top_hit seen (c_chunk_id (sc_chunk s)) x \<Longrightarrow> sc_retrieval_score x \<le> sc_retrieval_score s \<Longrightarrow>
     top_hit (seen @ [s]) (c_chunk_id (sc_chunk s)) s"
  by (auto simp: top_hit_def intro: order_trans)

lemma top_hit_fresh:
  "c_chunk_id (sc_chunk s) \<notin> (\<lambda>s. c_chunk_id (sc_chunk s)) ` set seen \<Longrightarrow>
     top_hit (seen @ [s]) (c_chunk_id (sc_chunk s)) s"
  by (auto simp: top_hit_def image_iff)

lemma best_of_dset:
  assumes ok: "best_of seen best" and k: "k = c_chunk_id (sc_chunk s)" and top: "top_hit (seen @ [s]) k s"
  shows "best_of (seen @ [s]) (dset k s best)"
proof -
  have wf: "wf_dict best" using ok by (simp add: best_of_def)
  have "top_hit (seen @ [s]) (fst p) (snd p)" if "p \<in> set (dset k s best)" for p
  proof (cases "p = (k, s)")
    case False
    with that have "p \<in> set best" "fst p \<noteq> k" by (auto simp: set_dset [OF wf])
    with ok k show ?thesis by (auto simp: best_of_def intro: top_hit_keep)
  qed (simp add: top)
  moreover have "fst ` set (dset k s best) = (\<lambda>s. c_chunk_id (sc_chunk s)) ` set (seen @ [s])"
    using ok k by (simp add: keys_dset best_of_def)
  ultimately show ?thesis using wf by (simp add: best_of_def wf_intros)
qed

lemma best_of_keep:
  assumes ok: "best_of seen best" and cur: "dget best (c_chunk_id (sc_chunk s)) = Some cur"
    and le: "sc_retrieval_score s \<le> sc_retrieval_score cur"
  shows "best_of (seen @ [s]) best"
proof -
  let ?k = "c_chunk_id (sc_chunk s)"
  have wf: "wf_dict best" using ok by (simp add: best_of_def)
  have "(?k, cur) \<in> set best" using cur by (rule dget_Some_in)
  then have "?k \<in> fst ` set best" by force
  then have "fst ` set best = (\<lambda>s. c_chunk_id (sc_chunk s)) ` set (seen @ [s])"
    using ok by (auto simp: best_of_def)
  moreover have "top_hit (seen @ [s]) (fst p) (snd p)" if p: "p \<in> set best" for p
  proof (rule top_hit_keep)
    show "top_hit seen (fst p) (snd p)" using ok p by (simp add: best_of_def)
    have "snd p = cur" if "fst p = ?k"
      using in_dget_Some [OF wf, of "fst p" "snd p"] p cur that by (cases p) simp
    with le show "?k \<noteq> fst p \<or> sc_retrieval_score s \<le> sc_retrieval_score (snd p)" by metis
  qed
  ultimately show ?thesis using wf by (simp add: best_of_def)
qed

lemma best_of_step:
  assumes ok: "best_of seen best"
  shows "best_of (seen @ [s]) (case dget best (c_chunk_id (sc_chunk s)) of
      None \<Rightarrow> dset (c_chunk_id (sc_chunk s)) s best
    | Some cur \<Rightarrow> if sc_retrieval_score s > sc_retrieval_score cur
        then dset (c_chunk_id (sc_chunk s)) s best else best)"
proof (cases "dget best (c_chunk_id (sc_chunk s))")
  case None
  then have "c_chunk_id (sc_chunk s) \<notin> (\<lambda>s. c_chunk_id (sc_chunk s)) ` set seen"
    using ok by (metis best_of_def map_of_eq_None_iff)
  with None show ?thesis by (simp add: best_of_dset [OF ok] top_hit_fresh)
next
  case (Some cur)
  then have "top_hit seen (c_chunk_id (sc_chunk s)) cur"
    using ok dget_Some_in [OF Some] by (auto simp: best_of_def)
  then have "sc_retrieval_score s > sc_retrieval_score cur \<Longrightarrow> top_hit (seen @ [s]) (c_chunk_id (sc_chunk s)) s"
    by (rule top_hit_raise) simp
  with Some show ?thesis by (simp add: best_of_dset [OF ok] best_of_keep [OF ok Some])
qed

lemma merge_leg_best:
  "best_of seen best \<Longrightarrow> best_of (seen @ ss) (fst (merge_leg f r ss (best, hr)))"
proof (induction ss arbitrary: seen best r hr)
  case (Cons s ss)
  from Cons.IH [OF best_of_step [OF Cons.prems, of s]] show ?case by (simp add: Let_def)
qed simp

lemma merge_hybrid_best:
  obtains best hr where "merge_hybrid_results m l v = (sort_key (rank_key hr) (map snd best), hr)"
    "best_of (m @ l @ v) best"
proof -
  let ?h0 = "\<lparr>hr_meta_rank = [], hr_rrf = []\<rparr>"
  obtain b1 h1 where 1: "merge_leg True 1 m ([], ?h0) = (b1, h1)" by fastforce
  obtain b2 h2 where 2: "merge_leg False 1 l (b1, h1) = (b2, h2)" by fastforce
  obtain b3 h3 where 3: "merge_leg False 1 v (b2, h2) = (b3, h3)" by fastforce
  have "best_of [] []" by (simp add: best_of_def)
  from merge_leg_best [OF this, of m True 1 ?h0] have "best_of m b1" by (simp add: 1)
  from merge_leg_best [OF this, of l False 1 h1] have "best_of (m @ l) b2" by (simp add: 2)
  from merge_leg_best [OF this, of v False 1 h2] have "best_of (m @ l @ v) b3" by (simp add: 3)
  moreover have "merge_hybrid_results m l v = (sort_key (rank_key h3) (map snd b3), h3)"
    by (simp add: merge_hybrid_results_def 1 2 3)
  ultimately show ?thesis by (rule that [rotated])
qed

lemma merge_hybrid_subset: "s \<in> set (fst (merge_hybrid_results m l v)) \<Longrightarrow> s \<in> set (m @ l @ v)"
  by (rule merge_hybrid_best [of m l v]) (auto simp: best_of_def top_hit_def)

lemma sorted_wrt_sort_key_le: "sorted_wrt (\<lambda>x y. f x \<le> f y) (sort_key f xs)"
  using sorted_sort_key [of f xs] by (simp add: sorted_wrt_map)


section \<open>Boosts and reranking keep the chunks\<close>

lemma boosted_chunk [simp]: "sc_chunk (boosted plan s) = sc_chunk s"
  by (simp add: boosted_def)

lemma apply_boosts_chunks: "sc_chunk ` set (apply_query_plan_boosts xs plan hr) = sc_chunk ` set xs"
  by (cases hr) (simp_all add: apply_query_plan_boosts_def score_order_def image_image)

lemma fused_legs_subset: "set (fst (fused_legs m l v)) \<subseteq> set (m @ l @ v)"
  using merge_hybrid_subset [of _ m l v] by (auto simp: fused_legs_def split_def Let_def)

lemma ranked_candidates_servable:
  assumes "s \<in> set (ranked_candidates env p q k v st)"
  shows "servable (re_acl env) p st (sc_chunk s)"
proof -
  let ?vec = "filter_quality_eligible (snd (search (id_tenant_id p) v (visibility (re_acl env) p) k st))"
  let ?meta = "filter_quality_eligible (metadata_leg env p q k st)"
  let ?lex = "filter_quality_eligible (lexical_leg env p q k st)"
  let ?f = "fused_legs ?meta ?lex ?vec"
  have "sc_chunk s \<in> sc_chunk ` set (apply_query_plan_boosts (fst ?f) (plan_query (re_ucd env) q) (snd ?f))"
    using assms unfolding ranked_candidates_def Let_def split_def by (rule imageI)
  then obtain x where "x \<in> set (fst ?f)" and c: "sc_chunk s = sc_chunk x"
    unfolding apply_boosts_chunks by blast
  then have "x \<in> set (?meta @ ?lex @ ?vec)" using fused_legs_subset by blast
  then show ?thesis unfolding c set_append Un_iff
    by (elim disjE) (rule metadata_leg_servable lexical_leg_servable vector_leg_servable, assumption)+
qed

text \<open>The contract of a reranker: it orders and drops candidates, and returns at most the number asked for.\<close>

locale reranking =
  fixes rr :: "string \<Rightarrow> scored_chunk list \<Rightarrow> int \<Rightarrow> scored_chunk list"
  assumes rr_subset: "set (rr q xs n) \<subseteq> set xs"
    and rr_bound: "0 \<le> n \<Longrightarrow> length (rr q xs n) \<le> nat n"
begin

lemma rr_keeps: "\<forall>s\<in>set xs. P s \<Longrightarrow> s \<in> set (rr q xs n) \<Longrightarrow> P s"
  using rr_subset by blast

lemma rr_nothing: "rr q [] n = []"
  using rr_subset [of q "[]" n] by simp

end

lemma set_score_order [simp]: "set (score_order xs) = set xs"
  by (simp add: score_order_def)

lemma rerank_subset: "set (rerank r q xs n) \<subseteq> set xs"
proof (cases r)
  case ScoreOrder
  then show ?thesis by (simp add: set_py_take)
next
  case (BedrockCohere service)
  have zip: "set (map snd (sort_key f (zip rs ys))) \<subseteq> set ys" for f :: "rat \<times> scored_chunk \<Rightarrow> rat" and rs ys
    by (auto dest: set_zip_rightD)
  show ?thesis
  proof (cases service)
    case None
    with BedrockCohere set_py_take [of n "score_order xs"] show ?thesis by simp
  next
    case (Some f)
    show ?thesis
    proof (cases "f q (map (\<lambda>s. c_text (sc_chunk s)) (score_order xs))")
      case (Inl e)
      with BedrockCohere Some set_py_take [of n "score_order xs"] show ?thesis by (simp add: Let_def)
    next
      case (Inr rs)
      have "set (py_take n (map snd (sort_key (\<lambda>t. - fst t) (zip rs (score_order xs))))) \<subseteq> set (score_order xs)"
        by (rule subset_trans [OF set_py_take zip])
      with Inr BedrockCohere Some set_py_take [of n "score_order xs"] show ?thesis by (simp add: Let_def)
    qed
  qed
qed

lemma rerank_bound: "0 \<le> n \<Longrightarrow> length (rerank r q xs n) \<le> nat n"
  by (cases r) (auto simp: Let_def py_take_le split: option.splits sum.splits)

interpretation rerankers: reranking "rerank r" for r
  by unfold_locales (rule rerank_subset, rule rerank_bound)

text \<open>A failing reranking service leaves the order of the scores.\<close>

lemma rerank_fail_safe: "svc = (\<lambda>_ _. Inl e) \<Longrightarrow> rerank (BedrockCohere (Some svc)) q xs n = rerank (BedrockCohere None) q xs n"
  by (simp add: Let_def)

lemma rerank_stage_subset: "set (rerank_stage env pr q xs) \<subseteq> set xs"
proof -
  have "set (rerank r q (py_take k xs) n) \<subseteq> set xs" for r k n
    using rerankers.rr_subset [of r q "py_take k xs" n] set_py_take [of k xs] by blast
  then show ?thesis by (simp add: rerank_stage_def Let_def split: option.split)
qed

section \<open>Retrieval as a whole\<close>

lemma retrieve_outcome:
  "snd (retrieve env p q pr cid rs) =
     (case snd (embed_query env (id_tenant_id p) q (rs_cache rs)) of
        Inl e \<Rightarrow> Inl e
      | Inr (v, hit) \<Rightarrow> Inr (py_take (pr_top_k pr)
          (rerank_stage env pr q (ranked_candidates env p q (search_top_k pr) v (rs_store rs)))))"
proof -
  have "\<not> (\<exists>s\<in>set (ranked_candidates env p q k v st). \<not> visibility (re_acl env) p (sc_chunk s))" for k v st
    using ranked_candidates_servable servable_visible by blast
  then show ?thesis
    by (simp add: retrieve_def Let_def split_def del: bex_simps split: sum.split)
qed

lemma retrieve_servable:
  assumes "snd (retrieve env p q pr cid rs) = Inr hits" and "s \<in> set hits"
  shows "servable (re_acl env) p (rs_store rs) (sc_chunk s)"
proof -
  from assms(1) obtain v hit where "hits = py_take (pr_top_k pr)
      (rerank_stage env pr q (ranked_candidates env p q (search_top_k pr) v (rs_store rs)))"
    unfolding retrieve_outcome by (auto split: sum.splits)
  with assms(2) have "s \<in> set (rerank_stage env pr q (ranked_candidates env p q (search_top_k pr) v (rs_store rs)))"
    using subsetD [OF set_py_take] by simp
  then have "s \<in> set (ranked_candidates env p q (search_top_k pr) v (rs_store rs))"
    by (rule subsetD [OF rerank_stage_subset])
  then show ?thesis by (rule ranked_candidates_servable)
qed

lemma retrieve_bound:
  assumes "snd (retrieve env p q pr cid rs) = Inr hits" and "0 \<le> pr_top_k pr"
  shows "length hits \<le> nat (pr_top_k pr)"
proof -
  from assms(1) obtain xs where "hits = py_take (pr_top_k pr) xs"
    unfolding retrieve_outcome by (auto split: sum.splits)
  with assms(2) show ?thesis by (simp add: py_take_le)
qed

lemma embed_query_error: "snd (embed_query env t q cache) = Inl e \<Longrightarrow> re_embed env q = Inl e"
  by (cases "re_embed env q") (auto simp: embed_query_def Let_def split: option.splits prod.splits)

lemma retrieve_error: "snd (retrieve env p q pr cid rs) = Inl e \<Longrightarrow> re_embed env q = Inl e"
  unfolding retrieve_outcome by (rule embed_query_error) (simp split: sum.splits prod.splits)

text \<open>C4: Whatever the query, the synonyms of the tenant, the cached vectors and the reranking service say,
  every chunk a retrieval returns is in the primary index (never only in the quarantine), belongs to the
  caller's tenant, is not tombstoned, is covered by a read grant of the caller and has a quality status that
  allows retrieval; there are at most \<open>top_k\<close> of them; and the only way a retrieval fails is that the
  embedding model does.
\<close>

theorem retrieved_chunks_authorized:
  "(\<forall>hits s. snd (retrieve env p q pr cid rs) = Inr hits \<and> s \<in> set hits \<longrightarrow>
      (\<exists>k v. (k, (sc_chunk s, v)) \<in> set (vs_items (rs_store rs))) \<and>
      c_tenant_id (sc_chunk s) = id_tenant_id p \<and> \<not> c_tombstone (sc_chunk s) \<and>
      (\<exists>g\<in>set (p_grants (re_acl env)). grant_covers (subjects_of p) (id_tenant_id p)
         (c_collection_id (sc_chunk s)) (c_document_id (sc_chunk s)) g) \<and>
      is_retrieval_eligible (c_metadata (sc_chunk s))) \<and>
   (\<forall>hits. snd (retrieve env p q pr cid rs) = Inr hits \<and> 0 \<le> pr_top_k pr \<longrightarrow> length hits \<le> nat (pr_top_k pr)) \<and>
   (\<forall>e. snd (retrieve env p q pr cid rs) = Inl e \<longrightarrow> re_embed env q = Inl e)"
proof (intro conjI allI impI; (elim conjE)?)
  fix hits s assume h: "snd (retrieve env p q pr cid rs) = Inr hits" "s \<in> set hits"
  note sv = servableD [OF retrieve_servable [OF h]]
  show "\<exists>k v. (k, (sc_chunk s, v)) \<in> set (vs_items (rs_store rs))" by (rule sv(1))
  show "c_tenant_id (sc_chunk s) = id_tenant_id p" by (rule sv(2))
  show "\<not> c_tombstone (sc_chunk s)" by (rule sv(3))
  show "\<exists>g\<in>set (p_grants (re_acl env)). grant_covers (subjects_of p) (id_tenant_id p)
      (c_collection_id (sc_chunk s)) (c_document_id (sc_chunk s)) g" by (rule sv(4))
  show "is_retrieval_eligible (c_metadata (sc_chunk s))" by (rule sv(5))
next
  fix hits assume "snd (retrieve env p q pr cid rs) = Inr hits" "0 \<le> pr_top_k pr"
  then show "length hits \<le> nat (pr_top_k pr)" by (rule retrieve_bound)
next
  fix e assume "snd (retrieve env p q pr cid rs) = Inl e"
  then show "re_embed env q = Inl e" by (rule retrieve_error)
qed

section \<open>The fuel of the nested lookup\<close>

lemma size_py_get: "py_get m key = PDict e \<Longrightarrow> size (PDict e) < size (PDict m)"
proof -
  assume "py_get m key = PDict e"
  then have "(key, PDict e) \<in> set m"
    by (auto simp: py_get_def split: option.splits dest: dget_Some_in)
  then show ?thesis by (induction m) auto
qed

lemma nested_values_fuel:
  "size v \<le> n \<Longrightarrow> size v \<le> n' \<Longrightarrow> nested_values n v key = nested_values n' v key"
proof (induction n arbitrary: n' v)
  case 0
  then show ?case by (cases v; cases n') auto
next
  case (Suc n)
  show ?case
  proof (cases v)
    case (PDict m)
    then obtain k where k: "n' = Suc k" using Suc.prems(2) by (cases n') auto
    have sub: "nested_values n (py_get m j) key = nested_values k (py_get m j) key" for j
    proof (cases "py_get m j")
      case (PDict e)
      from size_py_get [OF this] have "size (PDict e) \<le> n" "size (PDict e) \<le> k"
        using Suc.prems \<open>v = PDict m\<close> k by simp_all
      then show ?thesis unfolding PDict by (rule Suc.IH)
    qed (cases n; cases k; simp)+
    have extra: "(case py_get m ''extra'' of PDict e \<Rightarrow> nested_values n (PDict e) key | _ \<Rightarrow> []) =
        (case py_get m ''extra'' of PDict e \<Rightarrow> nested_values k (PDict e) key | _ \<Rightarrow> [])"
      using sub [of "''extra''"] by (cases "py_get m ''extra''") simp_all
    show ?thesis unfolding PDict k nested_values.simps pyval.case using extra by (simp add: sub)
  qed (cases n'; simp)+
qed

section \<open>The lexical leg against an exhaustive scan\<close>

text \<open>Every chunk the caller may see is scored; the positive scores are ordered and cut.\<close>

definition lexical_reference ::
  "retrieval_env \<Rightarrow> identity_claims \<Rightarrow> string \<Rightarrow> int \<Rightarrow> vector_store \<Rightarrow> scored_chunk list" where
  "lexical_reference env p query k st =
     py_take k (sort_key (\<lambda>s. (- sc_retrieval_score s, c_position (sc_chunk s), c_chunk_id (sc_chunk s)))
       (filter (\<lambda>s. 0 < sc_retrieval_score s)
         (map (\<lambda>c. \<lparr>sc_chunk = c, sc_retrieval_score =
              lexical_match_score (re_ucd env) (re_seconds env) (re_now env) [] query (c_text c) (c_metadata c)\<rparr>)
           (filter (prefilter (id_tenant_id p) (visibility (re_acl env) p)) (map fst (iter_items st))))))"

lemma filter_map_needless:
  "(\<And>c. Q (f c) \<Longrightarrow> B c) \<Longrightarrow> filter Q (map f (filter (\<lambda>c. A c \<and> B c) xs)) = filter Q (map f (filter A xs))"
  by (induction xs) auto

lemma sort_key_same:
  assumes "mset xs = mset ys" and "inj_on f (set xs)"
  shows "sort_key f xs = sort_key f ys"
  by (rule sort_key_inj_key_eq) (use assms in simp_all)

lemma distinct_chunk_ids: "store_ok st \<Longrightarrow> distinct (map c_chunk_id (map fst (iter_items st)))"
proof -
  assume ok: "store_ok st"
  then have "map c_chunk_id (map fst (iter_items st)) = map fst (vs_items st)"
    by (auto simp: iter_items_def store_ok_def keyed_def)
  with ok show ?thesis by (simp add: store_ok_def wf_dict_def)
qed


section \<open>A corpus of one chunk\<close>

definition sample_chunk :: chunk where
  "sample_chunk =
     \<lparr>c_tenant_id = ''t1'', c_chunk_id = ''d1:0'', c_document_id = ''d1'', c_collection_id = ''col'',
      c_text = ''pump ok'', c_position = 0, c_token_count = 2, c_heading_path = [], c_modality = TEXT,
      c_embedding_model_version = ''m'', c_offset_mapping = None, c_metadata = [], c_tombstone = False\<rparr>"

definition sample_policy :: acl_policy where
  "sample_policy = \<lparr>p_grants = [\<lparr>g_tenant_id = ''t1'', g_scope_type = COLLECTION, g_scope_id = ''col'',
     g_subject_type = USER, g_subject_id = ''ann'', g_permission = ''read''\<rparr>]\<rparr>"

definition sample_caller :: identity_claims where
  "sample_caller = \<lparr>id_tenant_id = ''t1'', id_user_id = ''ann'', id_groups = [], id_roles = []\<rparr>"

definition sample_env :: retrieval_env where
  "sample_env =
     \<lparr>re_ucd = ucd_jp, re_seconds = (\<lambda>_. None), re_now = 0, re_time = ''now'', re_acl = sample_policy,
      re_embed = (\<lambda>_. Inr [1]), re_cache_identity = ''m'', re_sha256 = (\<lambda>q. q), re_reranker = Some ScoreOrder,
      re_lexicon = None\<rparr>"

definition sample_retrieval :: retrieval_state where
  "sample_retrieval =
     \<lparr>rs_store = upsert [(sample_chunk, [1]), (sample_chunk\<lparr>c_tenant_id := ''t2'', c_chunk_id := ''d2:0''\<rparr>, [1])] new_store,
      rs_cache = None, rs_cost = Some (new_costs None)\<rparr>"

lemma sample_words:
  "query_identifiers ucd_jp ''state'' = []" "lexical_query_terms ucd_jp ''state'' = [''state'']"
  "retrieval_tokens ucd_jp ''pump ok'' = [''pump'', ''ok'']"
  by code_simp+

lemma sample_plan:
  "plan_query ucd_jp ''state'' = \<lparr>qp_intent = ''lookup'', qp_identifiers = [], qp_lexical_terms = [''state''],
     qp_filter_hints = [(''approval_state'', [''approved_effective''])], qp_rewrite_hints = [''state'']\<rparr>"
  by code_simp

lemma sample_eligible: "is_retrieval_eligible []"
  by code_simp

lemma sample_boost: "query_plan_boost c (plan_query ucd_jp ''state'') = 0"
  by (simp add: sample_plan query_plan_boost_def word_list_def)

lemma sample_hits:
  "snd (retrieve sample_env sample_caller ''state'' default_profile ''c'' sample_retrieval) =
     Inr [\<lparr>sc_chunk = sample_chunk, sc_retrieval_score = 1\<rparr>]"
  by (simp add: retrieve_outcome embed_query_def sample_env_def sample_retrieval_def upsert_def new_store_def
      ranked_candidates_def metadata_leg_def metadata_exact_matches_def lexical_leg_def lexical_matches_def
      lexical_synonym_expansions_def sample_words search_def iter_items_def prefilter_def cosine_def
      sample_caller_def sample_policy_def visibility_def can_read_def subjects_of_def sample_chunk_def
      lexical_candidate_tokens_def default_profile_def search_top_k_def rerank_candidate_limit_def
      max_rerank_candidates_def py_take_def filter_quality_eligible_def sample_eligible fused_legs_def
      apply_query_plan_boosts_def sample_boost boosted_def score_order_def rerank_stage_def Let_def)


theorem retrieved_chunks_authorized_witness:
  "c_tenant_id sample_chunk = id_tenant_id sample_caller \<and> is_retrieval_eligible (c_metadata sample_chunk)"
  using retrieved_chunks_authorized [of sample_env sample_caller "''state''" default_profile "''c''" sample_retrieval,
      THEN conjunct1, rule_format, OF conjI [OF sample_hits list.set_intros(1)]] by simp


end
