(* ===== verification/Groundedness.thy ===== *)
theory Groundedness
  imports Retrieval Redaction
begin

text \<open>
  The groundedness gate of \<open>services/groundedness.py\<close>: the score gate before generation, the support check
  after it, the two checks that the evidence answers the question, and the per-claim span check.
\<close>

record gate_decision =
  gd_passed :: bool
  gd_reason :: string
  gd_evidence :: "scored_chunk list"

definition gate_ok :: gate_decision where
  "gate_ok = \<lparr>gd_passed = True, gd_reason = ''ok'', gd_evidence = []\<rparr>"

definition gate_refused :: "string \<Rightarrow> gate_decision" where
  "gate_refused reason = \<lparr>gd_passed = False, gd_reason = reason, gd_evidence = []\<rparr>"

section \<open>Before generation\<close>

definition pre_gate :: "scored_chunk list \<Rightarrow> query_profile \<Rightarrow> gate_decision" where
  "pre_gate scored pr =
     (let strong = filter (\<lambda>s. pr_score_threshold pr \<le> sc_retrieval_score s) scored
      in if int (length strong) < pr_minimum_evidence_count pr
         then gate_refused ''insufficient_evidence: below score/evidence threshold''
         else \<lparr>gd_passed = True, gd_reason = ''ok'', gd_evidence = strong\<rparr>)"

section \<open>Support of the answer\<close>

definition post_check :: "ucd \<Rightarrow> string \<Rightarrow> chunk list \<Rightarrow> gate_decision" where
  "post_check U answer_text evidence =
     (if py_strip answer_text = [] then gate_refused ''insufficient_evidence: empty/unsupported generation''
      else if \<not> (\<exists>c\<in>set evidence. content_terms U answer_text \<inter> content_terms U (c_text c) \<noteq> {})
        then gate_refused ''insufficient_evidence: answer not supported by evidence''
      else gate_ok)"

section \<open>Coverage of the question\<close>

text \<open>\<open>f"{x:.2f}"\<close> of a number that is not negative.\<close>

definition fmt2 :: "rat \<Rightarrow> string" where
  "fmt2 x = (let n = nat (py_round_int (x * 100))
     in nat_str (n div 100) @ ''.'' @ [digit_char (n mod 100 div 10), digit_char (n mod 10)])"

definition coverage_reason :: "string \<Rightarrow> rat \<Rightarrow> rat \<Rightarrow> string" where
  "coverage_reason label coverage threshold =
     ''insufficient_evidence: evidence does not cover the question ('' @ label @ fmt2 coverage @ '' < '' @
       fmt2 threshold @ '')''"

definition question_coverage_check :: "ucd \<Rightarrow> string \<Rightarrow> chunk list \<Rightarrow> rat \<Rightarrow> gate_decision" where
  "question_coverage_check U query evidence threshold =
     (if threshold \<le> 0 then gate_ok
      else
        let question_terms = content_terms U query
        in if question_terms = {} then gate_ok
           else
             let evidence_terms = (\<Union>c\<in>set evidence. content_terms U (c_text c));
                 coverage = of_nat (card (question_terms \<inter> evidence_terms)) / of_nat (card question_terms)
             in if coverage < threshold then gate_refused (coverage_reason ''coverage='' coverage threshold)
                else gate_ok)"

definition salient_lexical_coverage_threshold :: rat where
  "salient_lexical_coverage_threshold = 1 / 2"

definition strong_cjk_run_rx :: "rx" where
  "strong_cjk_run_rx =
     Rep 2 None (Cls (\<lambda>c. (0x3400 \<le> c \<and> c \<le> 0x9fff) \<or> (0x8c48 \<le> c \<and> c \<le> 0xfaff) \<or> (0x30a1 \<le> c \<and> c \<le> 0x30f6) \<or> c = 0x30fc))"

definition pii_placeholder_rx :: "rx" where
  "pii_placeholder_rx =
     rx_seq [rx_word ''[REDACTED:'', rx_plus (Cls (\<lambda>c. ascii_lower c \<or> c = 95)), rx_chr 93]"

definition ascii_term :: "string \<Rightarrow> bool" where
  "ascii_term t \<longleftrightarrow> t \<noteq> [] \<and> (\<forall>n\<in>set (cps t). ascii_lower n \<or> ascii_digit n)"

definition strip_pii :: "ucd \<Rightarrow> string \<Rightarrow> string" where
  "strip_pii U query = rx_sub pii_placeholder_rx '' '' (pii_redact U query)"

definition char_pairs :: "string \<Rightarrow> string list" where
  "char_pairs run = map (\<lambda>(a, b). a @ b) (zip (utf8_chars run) (tl (utf8_chars run)))"

definition salient_query_terms :: "ucd \<Rightarrow> string \<Rightarrow> string list \<times> string list" where
  "salient_query_terms U query =
     (let query = strip_pii U query;
          identifiers = query_identifiers U query;
          fragment = (\<lambda>t. \<exists>i\<in>set identifiers. str_contains t i \<or> str_contains t (drop_dashes i));
          ascii = filter (\<lambda>t. ascii_term t \<and> \<not> fragment t) (lexical_query_terms U query);
          runs = concat (map char_pairs (rx_findall strong_cjk_run_rx query))
      in (identifiers, sort (remdups (ascii @ runs))))"

definition identifier_covered :: "chunk list \<Rightarrow> string \<Rightarrow> string \<Rightarrow> bool" where
  "identifier_covered evidence normalized_haystack identifier \<longleftrightarrow>
     str_contains identifier normalized_haystack \<or>
     str_contains (drop_dashes identifier) (drop_dashes normalized_haystack) \<or>
     (\<exists>c\<in>set evidence. metadata_identifier_matches (c_metadata c) [identifier])"

definition salient_coverage_check :: "ucd \<Rightarrow> string \<Rightarrow> chunk list \<Rightarrow> gate_decision" where
  "salient_coverage_check U query evidence =
     (let (identifiers, lexical) = salient_query_terms U query;
          evidence_text = py_casefold (str_join '' '' (map c_text evidence));
          haystack = normalize_identifier_str (str_join '' '' (evidence_text # map c_document_id evidence));
          missing = find (\<lambda>i. \<not> identifier_covered evidence haystack i) identifiers;
          covered = length (filter (\<lambda>t. str_contains t evidence_text) lexical);
          coverage = of_nat covered / of_nat (length lexical)
      in if identifiers = [] \<and> lexical = [] then gate_ok
         else case missing of
                Some i \<Rightarrow> gate_refused (''insufficient_evidence: evidence does not cover the question (identifier '' @
                   repr_str i @ '' not in evidence)'')
              | None \<Rightarrow>
                  if lexical \<noteq> [] \<and> coverage < salient_lexical_coverage_threshold
                  then gate_refused (coverage_reason ''salient coverage='' coverage salient_lexical_coverage_threshold)
                  else gate_ok)"

section \<open>Claims\<close>

definition numeric_token_rx :: "ucd \<Rightarrow> rx" where
  "numeric_token_rx U =
     rx_seq [Cls (u_decimal U), rx_star (Cls (\<lambda>c. u_decimal U c \<or> c \<in> {44, 46})),
      rx_upto 0 6 (rx_seq [NotAhead (rx_any [rx_lit [0x8d85], rx_lit [0x4ee5, 0x4e0a], rx_lit [0x4ee5, 0x4e0b],
      rx_lit [0x672a, 0x6e80], rx_lit [0x4ee5, 0x5185], rx_lit [0x3054, 0x3068], rx_lit [0x5f8c],
      rx_lit [0x3078], rx_lit [0x3067], rx_lit [0x3092], rx_lit [0x306b], rx_lit [0x306f], rx_lit [0x3068],
      rx_lit [0x304c], rx_lit [0x3082]]),
      Cls (\<lambda>c. ascii_alpha c \<or> (0x3040 \<le> c \<and> c \<le> 0x30ff) \<or> (0x4e00 \<le> c \<and> c \<le> 0x9fff) \<or> c \<in> {37,
      0xb0, 0x2103, 0x3bc, 0x3a9, 0xb7})])]"

definition identifier_like_rx :: "rx" where
  "identifier_like_rx =
     rx_seq [NotBehind ascii_alnum, rx_any [rx_seq [rx_upto 1 20 (Cls ascii_alpha),
      rx_plus (rx_seq [Cls (\<lambda>c. c \<in> {95, 58, 45}), rx_upto 1 20 (Cls ascii_alnum)])],
      rx_seq [rx_upto 1 20 (Cls ascii_alpha), rx_upto 1 20 (Cls ascii_digit),
      rx_star (rx_seq [Cls (\<lambda>c. c \<in> {95, 58, 45}), rx_upto 1 20 (Cls ascii_alnum)])]],
      NotAhead (Cls ascii_alnum)]"

text \<open>\<open>raw.lower()\<close> with the degree sign and the letter replaced by the one character for both.\<close>

fun join_degrees :: "string list \<Rightarrow> string" where
  "join_degrees (a # b # ws) =
     (if a = [CHR 0xC2, CHR 0xB0] \<and> b = ''c'' then [CHR 0xE2, CHR 0x84, CHR 0x83] @ join_degrees ws
      else a @ join_degrees (b # ws))"
| "join_degrees ws = concat ws"

definition normalize_span :: "string \<Rightarrow> string" where
  "normalize_span raw = join_degrees (utf8_chars (py_lower raw))"

definition claim_spans :: "ucd \<Rightarrow> string \<Rightarrow> string set" where
  "claim_spans U s =
     set (map normalize_span (rx_findall (numeric_token_rx U) s)) \<union>
     set (map normalize_span (rx_findall identifier_like_rx s))"

definition claim_check :: "ucd \<Rightarrow> string \<Rightarrow> chunk list \<Rightarrow> gate_decision" where
  "claim_check U answer_text evidence =
     (let claimed = claim_spans U answer_text
      in if claimed = {} then gate_ok
         else if \<not> claimed \<subseteq> claim_spans U (str_join '' '' (map c_text evidence))
           then gate_refused ''insufficient_evidence: unsupported claim span''
         else gate_ok)"

section \<open>What a decision says\<close>

lemma gate_simps [simp]: "gd_passed gate_ok" "\<not> gd_passed (gate_refused r)" "gd_reason (gate_refused r) = r"
  "gd_evidence gate_ok = []"
  by (simp_all add: gate_ok_def gate_refused_def)

lemma pre_gate_passed:
  "gd_passed (pre_gate scored pr) \<Longrightarrow>
     gd_evidence (pre_gate scored pr) = filter (\<lambda>s. pr_score_threshold pr \<le> sc_retrieval_score s) scored \<and>
     pr_minimum_evidence_count pr \<le> int (length (gd_evidence (pre_gate scored pr)))"
  by (auto simp: pre_gate_def Let_def split: if_splits)

lemma post_check_iff:
  "gd_passed (post_check U a ev) \<longleftrightarrow>
     py_strip a \<noteq> [] \<and> (\<exists>c\<in>set ev. content_terms U a \<inter> content_terms U (c_text c) \<noteq> {})"
  by (auto simp: post_check_def)

lemma salient_coverage_iff:
  assumes "salient_query_terms U q = (ids, terms)"
  shows "gd_passed (salient_coverage_check U q ev) \<longleftrightarrow>
     (\<forall>i\<in>set ids. identifier_covered ev (normalize_identifier_str
        (str_join '' '' (py_casefold (str_join '' '' (map c_text ev)) # map c_document_id ev))) i) \<and>
     length terms \<le> 2 * length (filter (\<lambda>t. str_contains t (py_casefold (str_join '' '' (map c_text ev)))) terms)"
proof -
  have half: "terms \<noteq> [] \<Longrightarrow> (of_nat n / of_nat (length terms) < (1 / 2 :: rat)) = (2 * n < length terms)" for n
    by (simp add: divide_less_eq) (metis of_nat_less_iff of_nat_mult of_nat_numeral mult.commute)
  show ?thesis
  proof (cases "find (\<lambda>i. \<not> identifier_covered ev (normalize_identifier_str
        (str_join '' '' (py_casefold (str_join '' '' (map c_text ev)) # map c_document_id ev))) i) ids")
    case (Some i)
    from find_SomeD [OF Some] Some assms show ?thesis
      by (auto simp: salient_coverage_check_def Let_def)
  next
    case None
    then have "\<forall>i\<in>set ids. identifier_covered ev (normalize_identifier_str
        (str_join '' '' (py_casefold (str_join '' '' (map c_text ev)) # map c_document_id ev))) i"
      by (simp add: find_None_iff)
    with None assms half show ?thesis
      by (cases "terms = []") (simp_all add: salient_coverage_check_def Let_def salient_lexical_coverage_threshold_def not_less)
  qed
qed

end
