(* ===== verification/VisualVerify.thy ===== *)
theory VisualVerify
  imports TextTokens Domain
begin

text \<open>
  Promotion of visual evidence (\<open>manufacturing/safety/visual_verify.py\<close>): the deterministic OCR subset check,
  the Bedrock verifier and the quorum. \<open>nfkc\<close> is Unicode normalisation; fetching a crop, invoking the model
  and decoding its JSON are arguments.
\<close>

section \<open>Data\<close>

record layout_region =
  lr_tenant_id :: string
  lr_collection_id :: string
  lr_document_id :: string
  lr_asset_id :: string
  lr_region_id :: string
  lr_bbox :: bounding_box
  lr_page_number :: int
  lr_region_type :: string
  lr_heading_path :: "string list"
  lr_ocr_text :: string
  lr_generated_caption_text :: string
  lr_crop_uri :: string
  lr_metadata :: pydict
  lr_tombstone :: bool

record verifier_verdict =
  ve_verifier_id :: string
  ve_passed :: bool
  ve_reason_code :: string
  ve_confidence :: rat
  ve_provider_family :: string
  ve_model_id :: string
  ve_verifier_kind :: string

text \<open>\<open>VerifierVerdict(verifier_id, passed, reason_code, verifier_kind="policy")\<close> with the other defaults.\<close>

definition policy_verdict :: "string \<Rightarrow> bool \<Rightarrow> string \<Rightarrow> verifier_verdict" where
  "policy_verdict vid passed reason =
     \<lparr>ve_verifier_id = vid, ve_passed = passed, ve_reason_code = reason, ve_confidence = 0,
      ve_provider_family = [], ve_model_id = [], ve_verifier_kind = ''policy''\<rparr>"

record visual_verifier =
  vv_verifier_id :: string
  vv_provider_family :: string
  vv_model_id :: string
  vv_verify :: "string \<Rightarrow> layout_region \<Rightarrow> verifier_verdict result"

record visual_settings =
  vs_visual_evidence_promotion :: bool
  vs_visual_evidence_verifier_quorum :: int
  vs_visual_verifier_allow_same_family :: bool
  vs_max_regions_verified_per_answer :: int

section \<open>The deterministic verifier\<close>

definition ocr_identifier_rx :: "ucd \<Rightarrow> rx" where
  "ocr_identifier_rx U =
     rx_seq [Edge (u_word U), Cls ascii_alnum, rx_star (Cls (\<lambda>c. ascii_alnum c \<or> c \<in> {46, 95,
      47, 45})), Edge (u_word U)]"

definition ocr_normalize :: "(string \<Rightarrow> string) \<Rightarrow> string \<Rightarrow> string" where
  "ocr_normalize nfkc text = str_join '' '' (py_split_ws (py_lower (nfkc text)))"

definition ocr_anchors :: "ucd \<Rightarrow> string \<Rightarrow> string list" where
  "ocr_anchors U text =
     map py_lower (filter (\<lambda>w. \<exists>n\<in>set (cps w). u_digit U n) (rx_findall (ocr_identifier_rx U) text))"

definition ocr_verdict :: "bool \<Rightarrow> string \<Rightarrow> rat \<Rightarrow> verifier_verdict" where
  "ocr_verdict passed reason confidence =
     \<lparr>ve_verifier_id = ''lexical_ocr_subset'', ve_passed = passed, ve_reason_code = reason,
      ve_confidence = confidence, ve_provider_family = ''deterministic'', ve_model_id = ''ocr-subset-v1'',
      ve_verifier_kind = ''lexical''\<rparr>"

definition ocr_subset_verify :: "ucd \<Rightarrow> (string \<Rightarrow> string) \<Rightarrow> string \<Rightarrow> layout_region \<Rightarrow> verifier_verdict" where
  "ocr_subset_verify U nfkc assertion region =
     (let asserted = ocr_normalize nfkc assertion; ocr = ocr_normalize nfkc (lr_ocr_text region)
      in if asserted = [] then ocr_verdict False ''assertion_empty'' 0
         else if ocr = [] then ocr_verdict False ''ocr_empty'' 0
         else if str_contains asserted ocr then ocr_verdict True ''substring_match'' 1
         else
           let assertion_terms = content_terms U assertion; ocr_terms = content_terms U (lr_ocr_text region)
           in if assertion_terms = {} then ocr_verdict False ''assertion_terms_empty'' 0
              else if \<not> assertion_terms \<subseteq> ocr_terms then ocr_verdict False ''ocr_subset_missing_terms'' 0
              else if \<not> (\<forall>a\<in>set (ocr_anchors U assertion). str_contains a ocr)
                then ocr_verdict False ''identifier_anchor_missing'' 0
              else ocr_verdict True ''term_subset_match'' (95 / 100))"

section \<open>The Bedrock verifier\<close>

definition bedrock_verdict :: "string \<Rightarrow> string \<Rightarrow> bool \<Rightarrow> string \<Rightarrow> rat \<Rightarrow> verifier_verdict" where
  "bedrock_verdict vid model passed reason confidence =
     \<lparr>ve_verifier_id = vid, ve_passed = passed, ve_reason_code = reason, ve_confidence = confidence,
      ve_provider_family = ''aws'', ve_model_id = model, ve_verifier_kind = ''vlm''\<rparr>"

definition verify_prompt :: "string \<Rightarrow> layout_region \<Rightarrow> string" where
  "verify_prompt assertion region =
     ''You are verifying a manufacturing visual citation. Return only JSON with keys '' @
     ''passed, reason_code, confidence. passed must be true only when the assertion is '' @
     ''directly supported by the visible image region and OCR text. Do not infer hidden state.'' @ [CHR 0x0A, CHR 0x0A] @
     ''Assertion: '' @ assertion @ [CHR 0x0A] @ ''OCR text: '' @ lr_ocr_text region @ [CHR 0x0A]"

text \<open>From the first opening to the last closing brace.\<close>

definition parse_verifier_json :: "(string \<Rightarrow> pyval option) \<Rightarrow> string \<Rightarrow> pydict" where
  "parse_verifier_json loads s =
     (let front = dropWhile (\<lambda>c. c \<noteq> CHR ''{'') s;
          body = rev (dropWhile (\<lambda>c. c \<noteq> CHR ''}'') (rev front))
      in if front = [] \<or> body = [] then []
         else case loads body of Some (PDict m) \<Rightarrow> m | _ \<Rightarrow> [])"

definition bounded_confidence :: "(pyval \<Rightarrow> rat option) \<Rightarrow> pyval \<Rightarrow> rat \<Rightarrow> rat" where
  "bounded_confidence as_float v dflt = (case as_float v of None \<Rightarrow> dflt | Some r \<Rightarrow> max 0 (min r 1))"

definition bedrock_verify ::
  "(string \<Rightarrow> string result) \<Rightarrow> (string \<Rightarrow> string \<Rightarrow> string \<Rightarrow> string result) \<Rightarrow> (string \<Rightarrow> pyval option) \<Rightarrow>
     (pyval \<Rightarrow> rat option) \<Rightarrow> string \<Rightarrow> string \<Rightarrow> string \<Rightarrow> layout_region \<Rightarrow> verifier_verdict" where
  "bedrock_verify fetch invoke loads as_float vid model assertion region =
     (if \<not> starts_with (lr_crop_uri region) ''s3://'' then bedrock_verdict vid model False ''real_crop_required'' 0
      else case fetch (lr_crop_uri region) of
             Inl e \<Rightarrow> bedrock_verdict vid model False ''crop_fetch_failed'' 0
           | Inr raw \<Rightarrow>
               let ctype = py_get_str (lr_metadata region) ''crop_content_type'';
                   media = (if ctype = [] then ''image/png'' else ctype)
               in (case invoke (verify_prompt assertion region) raw media of
                     Inl e \<Rightarrow> bedrock_verdict vid model False ''verifier_error'' 0
                   | Inr response \<Rightarrow>
                       let payload = parse_verifier_json loads response;
                           passed = py_truthy (py_get payload ''passed'');
                           code = py_get_str payload ''reason_code'';
                           reason = (if code = [] then (if passed then ''match'' else ''no_match'') else code)
                       in bedrock_verdict vid model passed reason
                            (bounded_confidence as_float (py_get payload ''confidence'') (if passed then 1 else 0))))"

section \<open>The quorum\<close>

definition verifier_error :: "visual_verifier \<Rightarrow> verifier_verdict" where
  "verifier_error v =
     \<lparr>ve_verifier_id = vv_verifier_id v, ve_passed = False, ve_reason_code = ''verifier_error'', ve_confidence = 0,
      ve_provider_family = vv_provider_family v, ve_model_id = vv_model_id v, ve_verifier_kind = ''vlm''\<rparr>"

definition asked_verdict :: "string \<Rightarrow> layout_region \<Rightarrow> visual_verifier \<Rightarrow> verifier_verdict" where
  "asked_verdict assertion region v =
     (let verdict = (case vv_verify v assertion region of Inl e \<Rightarrow> verifier_error v | Inr w \<Rightarrow> w);
          verdict = (if ve_provider_family verdict = [] then verdict\<lparr>ve_provider_family := vv_provider_family v\<rparr> else verdict)
      in if ve_model_id verdict = [] then verdict\<lparr>ve_model_id := vv_model_id v\<rparr> else verdict)"

text \<open>The loop: the verdicts to report and, of those, the ones of distinct models.\<close>

fun ask_verifiers ::
  "string \<Rightarrow> layout_region \<Rightarrow> (string \<times> string) set \<Rightarrow> visual_verifier list \<Rightarrow>
     verifier_verdict list \<times> verifier_verdict list" where
  "ask_verifiers assertion region seen [] = ([], [])"
| "ask_verifiers assertion region seen (v # vs) =
     (let verdict = asked_verdict assertion region v;
          key = (ve_provider_family verdict, ve_model_id verdict)
      in if key \<in> seen then
           (let (reported, counted) = ask_verifiers assertion region seen vs
            in (\<lparr>ve_verifier_id = ve_verifier_id verdict, ve_passed = False, ve_reason_code = ''duplicate_verifier_model'',
                 ve_confidence = 0, ve_provider_family = ve_provider_family verdict, ve_model_id = ve_model_id verdict,
                 ve_verifier_kind = ''policy''\<rparr> # reported, counted))
         else
           (let (reported, counted) = ask_verifiers assertion region (insert key seen) vs
            in (verdict # reported, verdict # counted)))"

definition family_or_id :: "verifier_verdict \<Rightarrow> string" where
  "family_or_id v = (if ve_provider_family v = [] then ve_verifier_id v else ve_provider_family v)"

definition quorum_of :: "visual_settings \<Rightarrow> int" where
  "quorum_of settings = max 1 (vs_visual_evidence_verifier_quorum settings)"

definition verify_visual_primary_evidence ::
  "ucd \<Rightarrow> (string \<Rightarrow> string) \<Rightarrow> visual_settings \<Rightarrow> visual_verifier list \<Rightarrow> string \<Rightarrow> layout_region \<Rightarrow>
     bool \<times> verifier_verdict list" where
  "verify_visual_primary_evidence U nfkc settings verifiers assertion region =
     (if \<not> vs_visual_evidence_promotion settings then
        (False, [policy_verdict ''visual_promotion'' False ''promotion_disabled''])
      else
        let lexical = ocr_subset_verify U nfkc assertion region
        in if \<not> ve_passed lexical then (False, [lexical])
           else if \<not> starts_with (lr_crop_uri region) ''s3://'' then
             (False, [lexical, policy_verdict ''crop_resolver'' False ''real_crop_required''])
           else
             let quorum = quorum_of settings;
                 (reported, counted) = ask_verifiers assertion region {} verifiers;
                 verdicts = lexical # reported;
                 passed = filter ve_passed counted;
                 families = remdups (map family_or_id passed)
             in if int (length passed) < quorum then
                  (False, verdicts @ [(policy_verdict ''visual_verifier_quorum'' False ''verifier_quorum_not_met'')
                     \<lparr>ve_confidence := of_nat (length passed)\<rparr>])
                else if \<not> vs_visual_verifier_allow_same_family settings \<and> int (length families) < quorum then
                  (False, verdicts @ [(policy_verdict ''visual_verifier_quorum'' False ''distinct_provider_quorum_not_met'')
                     \<lparr>ve_confidence := of_nat (length families)\<rparr>])
                else if \<exists>v\<in>set counted. \<not> ve_passed v then (False, verdicts)
                else (True, verdicts))"

definition verdict_mapping :: "(rat \<Rightarrow> string) \<Rightarrow> verifier_verdict \<Rightarrow> pydict" where
  "verdict_mapping frepr v =
     [(''verifier_id'', PStr (ve_verifier_id v)), (''verifier_kind'', PStr (ve_verifier_kind v)),
      (''provider_family'', PStr (ve_provider_family v)), (''model_id'', PStr (ve_model_id v)),
      (''passed'', PBool (ve_passed v)), (''reason_code'', PStr (ve_reason_code v)),
      (''confidence'', PFloat (ve_confidence v) (frepr (ve_confidence v)))]"

section \<open>What a promotion takes\<close>

lemma ask_verifiers_spec:
  "(reported, counted) = ask_verifiers assertion region seen vs \<Longrightarrow>
     set counted \<subseteq> asked_verdict assertion region ` set vs \<and>
     distinct (map (\<lambda>w. (ve_provider_family w, ve_model_id w)) counted) \<and>
     (\<forall>w\<in>set counted. (ve_provider_family w, ve_model_id w) \<notin> seen)"
proof (induction vs arbitrary: seen reported counted)
  case (Cons v vs)
  let ?w = "asked_verdict assertion region v"
  let ?k = "(ve_provider_family ?w, ve_model_id ?w)"
  show ?case
  proof (cases "?k \<in> seen")
    case True
    obtain r c where rc: "ask_verifiers assertion region seen vs = (r, c)" by fastforce
    with Cons.prems True have "counted = c" by (simp add: Let_def)
    with Cons.IH [OF rc [symmetric]] show ?thesis by auto
  next
    case False
    obtain r c where rc: "ask_verifiers assertion region (insert ?k seen) vs = (r, c)" by fastforce
    with Cons.prems False have "counted = ?w # c" by (simp add: Let_def)
    with Cons.IH [OF rc [symmetric]] False show ?thesis by auto
  qed
qed simp


definition sample_region :: layout_region where
  "sample_region =
     \<lparr>lr_tenant_id = ''t1'', lr_collection_id = ''col'', lr_document_id = ''d1'', lr_asset_id = ''a'', lr_region_id = ''r'',
      lr_bbox = \<lparr>bb_x = 0, bb_y = 0, bb_width = 1, bb_height = 1\<rparr>, lr_page_number = 1, lr_region_type = ''text'',
      lr_heading_path = [], lr_ocr_text = ''valve open'', lr_generated_caption_text = [], lr_crop_uri = ''s3://b/k'',
      lr_metadata = [], lr_tombstone = False\<rparr>"

definition sample_verifier :: "string \<Rightarrow> visual_verifier" where
  "sample_verifier family =
     \<lparr>vv_verifier_id = family, vv_provider_family = family, vv_model_id = ''m'',
      vv_verify = (\<lambda>a r. Inr \<lparr>ve_verifier_id = family, ve_passed = True, ve_reason_code = ''match'', ve_confidence = 1,
         ve_provider_family = family, ve_model_id = ''m'', ve_verifier_kind = ''vlm''\<rparr>)\<rparr>"

definition sample_settings :: visual_settings where
  "sample_settings =
     \<lparr>vs_visual_evidence_promotion = True, vs_visual_evidence_verifier_quorum = 2,
      vs_visual_verifier_allow_same_family = False, vs_max_regions_verified_per_answer = 3\<rparr>"


end
