(* ===== verification/AnswerParts.thy ===== *)
theory AnswerParts
  imports Groundedness Injection StructuredQuery VisualVerify AuditSink
begin

text \<open>
  The parts of \<open>services/answer.py\<close> that the answer flow is built from: identifier anchors, the context
  budget, the re-check of visibility, narrowing to the identifiers of the query, what the model is shown,
  and the choice of what to cite. The document registry and the access policy can change while an answer is
  computed, so both are read through a \<open>world_view\<close>: one for the moment the evidence is re-checked and one
  for the moment it is cited.
\<close>

section \<open>Reading metadata\<close>

definition get_or :: "pydict \<Rightarrow> string \<Rightarrow> pyval \<Rightarrow> pyval" where
  "get_or m k d = (case dget m k of None \<Rightarrow> d | Some v \<Rightarrow> v)"

text \<open>\<open>str(m.get(k, ""))\<close>.\<close>

definition meta_str :: "pydict \<Rightarrow> string \<Rightarrow> string" where
  "meta_str m k = py_str (get_or m k (PStr []))"

definition int_of :: "(string \<Rightarrow> int option) \<Rightarrow> pyval \<Rightarrow> int result" where
  "int_of parse_int v =
     (case py_int parse_int v of
        Some i \<Rightarrow> Inr i
      | None \<Rightarrow> Inl (case v of PStr s \<Rightarrow> ValueError | _ \<Rightarrow> TypeError))"

definition float_of :: "(string \<Rightarrow> rat option) \<Rightarrow> pyval \<Rightarrow> rat result" where
  "float_of parse_float v =
     (case v of
        PStr s \<Rightarrow> (case parse_float s of None \<Rightarrow> Inl ValueError | Some r \<Rightarrow> Inr r)
      | _ \<Rightarrow> (case py_number v of None \<Rightarrow> Inl TypeError | Some r \<Rightarrow> Inr r))"

fun metadata_strings :: "pyval \<Rightarrow> string list" where
  "metadata_strings (PStr s) = [s]"
| "metadata_strings (PDict kvs) = concat (map (\<lambda>(k, v). metadata_strings v) kvs)"
| "metadata_strings (PList vs) = concat (map metadata_strings vs)"
| "metadata_strings PNone = []"
| "metadata_strings v = [py_str v]"

section \<open>Identifiers\<close>

definition answer_identifier_rx :: "rx" where
  "answer_identifier_rx =
     rx_seq [NotBehind ascii_alnum, rx_any [rx_seq [rx_upto 1 12 (Cls ascii_alpha),
      rx_plus (rx_seq [Cls (\<lambda>c. c \<in> {45, 95}), rx_upto 1 16 (Cls ascii_alnum)])],
      rx_seq [rx_upto 2 12 (Cls ascii_alpha), Rep 2 None (Cls ascii_digit),
      rx_star (rx_seq [Cls (\<lambda>c. c \<in> {45, 95}), rx_upto 1 16 (Cls ascii_alnum)])]],
      NotAhead (Cls ascii_alnum)]"

definition sentence_split_rx :: "rx" where
  "sentence_split_rx =
     rx_any [rx_seq [Behind (\<lambda>c. c \<in> {46, 33, 63, 0x3002, 0xff01, 0xff1f}), rx_ws1],
      rx_plus (Cls (\<lambda>c. c \<in> {13, 10}))]"

definition has_digit :: "ucd \<Rightarrow> string \<Rightarrow> bool" where
  "has_digit U s \<longleftrightarrow> (\<exists>n\<in>set (cps s). u_digit U n)"

definition identifier_anchors :: "ucd \<Rightarrow> string \<Rightarrow> string list" where
  "identifier_anchors U s = remdups (map py_lower (filter (has_digit U) (rx_findall answer_identifier_rx s)))"

definition has_identifier :: "string \<Rightarrow> string list \<Rightarrow> bool" where
  "has_identifier s ids \<longleftrightarrow> (\<exists>i\<in>set ids. str_contains i (py_lower s))"

definition identifier_hit_count :: "string \<Rightarrow> string list \<Rightarrow> nat" where
  "identifier_hit_count s ids = length (filter (\<lambda>i. str_contains i (py_lower s)) ids)"

definition identifier_surface :: "chunk \<Rightarrow> string" where
  "identifier_surface c =
     str_join '' '' (filter (\<lambda>s. s \<noteq> []) (c_text c # metadata_strings (PDict (c_metadata c))))"

definition nat_max :: "nat list \<Rightarrow> nat" where
  "nat_max ns = foldr max ns 0"

definition narrow_to_identifiers :: "ucd \<Rightarrow> string \<Rightarrow> scored_chunk list \<Rightarrow> scored_chunk list" where
  "narrow_to_identifiers U query evidence =
     (let ids = identifier_anchors U query
      in if ids = [] then evidence
         else
           let hits = (\<lambda>s. identifier_hit_count (identifier_surface (sc_chunk s)) ids);
               best = nat_max (map hits evidence)
           in if best = 0 then evidence
              else
                let docs = map (\<lambda>s. c_document_id (sc_chunk s)) (filter (\<lambda>s. hits s = best) evidence)
                in filter (\<lambda>s. c_document_id (sc_chunk s) \<in> set docs \<or> hits s = best) evidence)"

section \<open>The context budget\<close>

definition chunk_cost :: "scored_chunk \<Rightarrow> int" where
  "chunk_cost s =
     (let n = word_count (c_text (sc_chunk s))
      in if n \<le> 0 then (if c_token_count (sc_chunk s) > 0 then c_token_count (sc_chunk s) else 0) else n)"

fun cap_loop :: "int \<Rightarrow> int \<Rightarrow> int \<Rightarrow> int \<Rightarrow> scored_chunk list \<Rightarrow> scored_chunk list" where
  "cap_loop chunk_limit token_limit n used [] = []"
| "cap_loop chunk_limit token_limit n used (s # ss) =
     (if chunk_limit \<le> n then []
      else if token_limit < used + chunk_cost s then cap_loop chunk_limit token_limit n used ss
      else s # cap_loop chunk_limit token_limit (n + 1) (used + chunk_cost s) ss)"

definition cap_evidence :: "query_profile \<Rightarrow> scored_chunk list \<Rightarrow> scored_chunk list" where
  "cap_evidence pr evidence =
     (let chunk_limit = max 0 (pr_max_context_chunks pr); token_limit = max 0 (pr_max_context_tokens pr)
      in if chunk_limit = 0 \<or> token_limit = 0 then [] else cap_loop chunk_limit token_limit 0 0 evidence)"

section \<open>The re-check of visibility\<close>

record world_view =
  wv_get_document :: "string \<Rightarrow> string \<Rightarrow> document option"
  wv_acl :: acl_policy

definition citation_still_visible ::
  "acl_policy \<Rightarrow> identity_claims \<Rightarrow> chunk \<Rightarrow> document option \<Rightarrow> bool" where
  "citation_still_visible acl p c doc =
     (case doc of
        None \<Rightarrow> False
      | Some d \<Rightarrow>
          if d_tenant_id d \<noteq> id_tenant_id p then False
          else if d_document_id d \<noteq> c_document_id c then False
          else if d_tombstone d then False
          else if c_tombstone c then False
          else if \<not> is_retrieval_eligible (c_metadata c) then False
          else is_visible acl p c)"

definition document_of :: "world_view \<Rightarrow> chunk \<Rightarrow> document option" where
  "document_of w c = wv_get_document w (c_tenant_id c) (c_document_id c)"

definition revalidate_evidence :: "world_view \<Rightarrow> identity_claims \<Rightarrow> scored_chunk list \<Rightarrow> scored_chunk list" where
  "revalidate_evidence w p evidence =
     filter (\<lambda>s. citation_still_visible (wv_acl w) p (sc_chunk s) (document_of w (sc_chunk s))) evidence"

text \<open>The evidence of an answer, or the audit reason of the refusal.\<close>

definition evidence_stage ::
  "ucd \<Rightarrow> world_view \<Rightarrow> identity_claims \<Rightarrow> string \<Rightarrow> query_profile \<Rightarrow> scored_chunk list \<Rightarrow>
     string + scored_chunk list" where
  "evidence_stage U w p query pr scored =
     (let few = (\<lambda>ev. int (length ev) < pr_minimum_evidence_count pr); pre = pre_gate scored pr
      in if \<not> gd_passed pre then Inl (gd_reason pre)
         else
           let ev = cap_evidence pr (gd_evidence pre)
           in if few ev then Inl ''context_budget''
              else
                let ev = revalidate_evidence w p ev
                in if few ev then Inl ''citation_revalidation''
                   else
                     let ev = narrow_to_identifiers U query ev
                     in if few ev then Inl ''identifier_evidence'' else Inr ev)"

section \<open>What the model is shown\<close>

definition primary_text :: "chunk \<Rightarrow> string" where
  "primary_text c =
     (let primary = py_get_str (c_metadata c) ''primary_evidence_text''
      in if py_truthy (py_get (c_metadata c) ''primary_evidence_text'') then primary
         else py_get_str (c_metadata c) ''ocr_text'')"

definition chunk_for_generation :: "visual_settings \<Rightarrow> chunk \<Rightarrow> chunk" where
  "chunk_for_generation settings c =
     (if \<not> vs_visual_evidence_promotion settings \<or> c_modality c \<noteq> VISUAL then c
      else
        let primary = py_strip (primary_text c)
        in if primary = [] then c else c\<lparr>c_text := primary, c_token_count := word_count primary\<rparr>)"

text \<open>A chunk of the context and the number of instructions neutralised in it.\<close>

definition context_chunk :: "ucd \<Rightarrow> visual_settings \<Rightarrow> chunk \<Rightarrow> chunk \<times> nat" where
  "context_chunk U settings c =
     (let g = chunk_for_generation settings c;
          (sanitized, neutralized) = neutralize U (c_text g)
      in (if neutralized \<noteq> 0 then g\<lparr>c_text := sanitized\<rparr> else g, neutralized))"

definition generation_context :: "ucd \<Rightarrow> visual_settings \<Rightarrow> scored_chunk list \<Rightarrow> chunk list" where
  "generation_context U settings evidence = map (\<lambda>s. fst (context_chunk U settings (sc_chunk s))) evidence"

definition context_injections :: "ucd \<Rightarrow> visual_settings \<Rightarrow> scored_chunk list \<Rightarrow> nat" where
  "context_injections U settings evidence = sum_list (map (\<lambda>s. snd (context_chunk U settings (sc_chunk s))) evidence)"

record number_parsers =
  np_int :: "string \<Rightarrow> int option"
  np_float :: "string \<Rightarrow> rat option"
  np_repr :: "rat \<Rightarrow> string"

definition bbox_from_metadata :: "number_parsers \<Rightarrow> chunk \<Rightarrow> bounding_box option result" where
  "bbox_from_metadata np c =
     (case py_get (c_metadata c) ''bbox'' of
        PDict raw \<Rightarrow>
          rbind (float_of (np_float np) (get_or raw ''x'' (PFloat 0 ''0.0''))) (\<lambda>x.
          rbind (float_of (np_float np) (get_or raw ''y'' (PFloat 0 ''0.0''))) (\<lambda>y.
          rbind (float_of (np_float np) (get_or raw ''width'' (PFloat 0 ''0.0''))) (\<lambda>w.
          rbind (float_of (np_float np) (get_or raw ''height'' (PFloat 0 ''0.0''))) (\<lambda>h.
          Inr (Some \<lparr>bb_x = x, bb_y = y, bb_width = w, bb_height = h\<rparr>)))))
      | _ \<Rightarrow> Inr None)"

definition full_page :: bounding_box where
  "full_page = \<lparr>bb_x = 0, bb_y = 0, bb_width = 1, bb_height = 1\<rparr>"

definition layout_region_from_chunk :: "number_parsers \<Rightarrow> chunk \<Rightarrow> layout_region result" where
  "layout_region_from_chunk np c =
     rbind (bbox_from_metadata np c) (\<lambda>bbox.
     rbind (int_of (np_int np) (py_or (py_get (c_metadata c) ''page_number'') (PInt 1))) (\<lambda>page.
     Inr \<lparr>lr_tenant_id = c_tenant_id c, lr_collection_id = c_collection_id c, lr_document_id = c_document_id c,
          lr_asset_id = meta_str (c_metadata c) ''asset_id'',
          lr_region_id = py_str (get_or (c_metadata c) ''region_id'' (PStr (c_chunk_id c))),
          lr_bbox = (case bbox of None \<Rightarrow> full_page | Some b \<Rightarrow> b), lr_page_number = page,
          lr_region_type = py_str (get_or (c_metadata c) ''region_type'' (PStr ''text'')),
          lr_heading_path = c_heading_path c, lr_ocr_text = primary_text c,
          lr_generated_caption_text = py_get_str (c_metadata c) ''generated_caption_text'',
          lr_crop_uri = py_get_str (c_metadata c) ''crop_uri'', lr_metadata = c_metadata c,
          lr_tombstone = c_tombstone c\<rparr>))"

definition visual_regions :: "number_parsers \<Rightarrow> chunk list \<Rightarrow> layout_region list result" where
  "visual_regions np context = rmap (layout_region_from_chunk np) (filter (\<lambda>c. c_modality c = VISUAL) context)"

section \<open>Attribution\<close>

definition citation_overlap_threshold :: "ucd \<Rightarrow> string set \<Rightarrow> scored_chunk list \<Rightarrow> nat" where
  "citation_overlap_threshold U answer_terms evidence =
     (let best = nat_max (map (\<lambda>s. card (answer_terms \<inter> content_terms U (c_text (sc_chunk s)))) evidence)
      in if best \<le> 1 then 1 else max 2 (best div 3))"

definition digit_terms :: "ucd \<Rightarrow> string set \<Rightarrow> string set" where
  "digit_terms U terms = Set.filter (has_digit U) terms"

definition anchor_hits :: "ucd \<Rightarrow> string set \<Rightarrow> scored_chunk list \<Rightarrow> nat" where
  "anchor_hits U anchors evidence =
     (if anchors = {} then 0
      else nat_max (map (\<lambda>s. card (anchors \<inter> content_terms U (c_text (sc_chunk s)))) evidence))"

text \<open>An object kept in the metadata is the dictionary of its fields, an enum member its value.\<close>

definition metadata_value :: "pyval \<Rightarrow> string \<Rightarrow> string" where
  "metadata_value m key =
     (case m of
        PDict d \<Rightarrow> (case py_get d key of PStr s \<Rightarrow> py_lower (py_strip s) | _ \<Rightarrow> [])
      | _ \<Rightarrow> [])"

definition registry_approval_status :: "document option \<Rightarrow> string" where
  "registry_approval_status doc =
     (case doc of
        None \<Rightarrow> []
      | Some d \<Rightarrow>
          (case filter (\<lambda>v. v \<noteq> []) (map (\<lambda>m. metadata_value m ''approval_status'')
             [py_get (d_metadata d) ''_mfg_meta'', py_get (d_metadata d) ''manufacturing'', PDict (d_metadata d)]) of
             [] \<Rightarrow> [] | v # vs \<Rightarrow> v))"

definition must_expose_for_approval_gate :: "document option \<Rightarrow> bool" where
  "must_expose_for_approval_gate doc \<longleftrightarrow> registry_approval_status doc \<in> {''draft'', ''pending_review'', ''obsolete''}"

record attribution =
  at_answer_terms :: "string set"
  at_threshold :: nat
  at_query_anchors :: "string set"
  at_query_identifiers :: "string list"
  at_identifier_required :: bool
  at_anchor_threshold :: nat
  at_answer_anchors :: "string set"
  at_best_answer_anchor_hits :: nat

definition attribution_of :: "ucd \<Rightarrow> string \<Rightarrow> string \<Rightarrow> scored_chunk list \<Rightarrow> attribution" where
  "attribution_of U query answer_text evidence =
     (let terms = content_terms U answer_text;
          qanchors = digit_terms U (content_terms U query);
          ids = identifier_anchors U query;
          aanchors = digit_terms U terms
      in \<lparr>at_answer_terms = terms, at_threshold = citation_overlap_threshold U terms evidence,
          at_query_anchors = qanchors, at_query_identifiers = ids,
          at_identifier_required = (ids \<noteq> [] \<and> (\<exists>s\<in>set evidence. has_identifier (c_text (sc_chunk s)) ids)),
          at_anchor_threshold = anchor_hits U qanchors evidence,
          at_answer_anchors = aanchors, at_best_answer_anchor_hits = anchor_hits U aanchors evidence\<rparr>)"

text \<open>Does the chunk support the answer, and does it belong to what the query names?\<close>

definition supports_answer :: "ucd \<Rightarrow> attribution \<Rightarrow> chunk \<Rightarrow> document option \<Rightarrow> bool" where
  "supports_answer U a c doc =
     (let terms = content_terms U (c_text c);
          hits = (if at_answer_anchors a = {} then 0 else card (at_answer_anchors a \<inter> terms));
          carries_numbers = (0 < at_best_answer_anchor_hits a \<and> hits = at_best_answer_anchor_hits a)
      in if card (at_answer_terms a \<inter> terms) < at_threshold a \<and> \<not> carries_numbers then False
         else if at_identifier_required a \<and> \<not> has_identifier (c_text c) (at_query_identifiers a) \<and>
             \<not> must_expose_for_approval_gate doc then False
         else if at_anchor_threshold a \<noteq> 0 \<and> card (at_query_anchors a \<inter> terms) < at_anchor_threshold a \<and>
             \<not> must_expose_for_approval_gate doc then False
         else True)"

text \<open>The sentences of the answer that share a term with a visual chunk.\<close>

definition attributed_text :: "ucd \<Rightarrow> string \<Rightarrow> chunk \<Rightarrow> string" where
  "attributed_text U answer_text c =
     (let primary = py_get_str (c_metadata c) ''primary_evidence_text'';
          evidence_terms = content_terms U (if py_truthy (py_get (c_metadata c) ''primary_evidence_text'') then primary else c_text c);
          sentences = filter (\<lambda>s. s \<noteq> []) (map py_strip (rx_split sentence_split_rx answer_text));
          attributed = filter (\<lambda>s. content_terms U s \<inter> evidence_terms \<noteq> {}) sentences
      in if sentences = [] \<or> evidence_terms = {} then answer_text
         else if attributed = [] then answer_text else str_join '' '' attributed)"

section \<open>What the evidence stage keeps\<close>

lemma chunk_cost_nonneg [simp]: "0 \<le> chunk_cost s"
  by (simp add: chunk_cost_def word_count_def Let_def)

lemma cap_loop_subset: "set (cap_loop cl tok n used ss) \<subseteq> set ss"
  by (induction cl tok n used ss rule: cap_loop.induct) auto

lemma cap_loop_chunks: "n \<le> cl \<Longrightarrow> n + int (length (cap_loop cl tok n used ss)) \<le> cl"
  by (induction cl tok n used ss rule: cap_loop.induct) auto

lemma cap_loop_tokens: "used \<le> tok \<Longrightarrow> used + sum_list (map chunk_cost (cap_loop cl tok n used ss)) \<le> tok"
  by (induction cl tok n used ss rule: cap_loop.induct) auto

lemma cap_evidence_bounds:
  "set (cap_evidence pr ev) \<subseteq> set ev"
  "int (length (cap_evidence pr ev)) \<le> max 0 (pr_max_context_chunks pr)"
  "sum_list (map chunk_cost (cap_evidence pr ev)) \<le> max 0 (pr_max_context_tokens pr)"
  using cap_loop_subset [of "max 0 (pr_max_context_chunks pr)" "max 0 (pr_max_context_tokens pr)" 0 0 ev]
    cap_loop_chunks [of 0 "max 0 (pr_max_context_chunks pr)" "max 0 (pr_max_context_tokens pr)" 0 ev]
    cap_loop_tokens [of 0 "max 0 (pr_max_context_tokens pr)" "max 0 (pr_max_context_chunks pr)" 0 ev]
  by (auto simp: cap_evidence_def Let_def)

lemma narrow_filters: "\<exists>P. narrow_to_identifiers U q ev = filter P ev"
  by (auto simp: narrow_to_identifiers_def Let_def intro: exI [of _ "\<lambda>_. True"])

lemma sum_cost_filter: "sum_list (map chunk_cost (filter P ss)) \<le> sum_list (map chunk_cost ss)"
  by (induction ss) (auto simp: add_increasing)

lemma evidence_stage_sound:
  assumes "evidence_stage U w p q pr scored = Inr ev"
  shows "s \<in> set ev \<Longrightarrow> s \<in> set scored \<and> pr_score_threshold pr \<le> sc_retrieval_score s \<and>
           citation_still_visible (wv_acl w) p (sc_chunk s) (document_of w (sc_chunk s))"
    and "int (length ev) \<le> max 0 (pr_max_context_chunks pr)"
    and "sum_list (map chunk_cost ev) \<le> max 0 (pr_max_context_tokens pr)"
    and "pr_minimum_evidence_count pr \<le> int (length ev)"
proof -
  let ?pre = "pre_gate scored pr"
  let ?cap = "cap_evidence pr (gd_evidence ?pre)"
  let ?vis = "revalidate_evidence w p ?cap"
  have pass: "gd_passed ?pre" and ev: "ev = narrow_to_identifiers U q ?vis"
    and min: "pr_minimum_evidence_count pr \<le> int (length ev)"
    using assms by (auto simp: evidence_stage_def Let_def split: if_splits)
  obtain P where P: "ev = filter P ?vis" using narrow_filters [of U q ?vis] ev by blast
  note strong = pre_gate_passed [OF pass] and cap = cap_evidence_bounds [of pr "gd_evidence ?pre"]
  show "s \<in> set ev \<Longrightarrow> s \<in> set scored \<and> pr_score_threshold pr \<le> sc_retrieval_score s \<and>
      citation_still_visible (wv_acl w) p (sc_chunk s) (document_of w (sc_chunk s))"
    using P strong cap(1) by (auto simp: revalidate_evidence_def)
  have "length ev \<le> length ?vis" using P by simp
  also have "\<dots> \<le> length ?cap" by (simp add: revalidate_evidence_def)
  finally show "int (length ev) \<le> max 0 (pr_max_context_chunks pr)" using cap(2) by linarith
  have "sum_list (map chunk_cost ev) \<le> sum_list (map chunk_cost ?vis)" unfolding P by (rule sum_cost_filter)
  also have "\<dots> \<le> sum_list (map chunk_cost ?cap)" unfolding revalidate_evidence_def by (rule sum_cost_filter)
  finally show "sum_list (map chunk_cost ev) \<le> max 0 (pr_max_context_tokens pr)" using cap(3) by linarith
  show "pr_minimum_evidence_count pr \<le> int (length ev)" by (rule min)
qed

lemma citation_still_visibleD:
  assumes "citation_still_visible acl p c doc"
  shows "\<exists>d. doc = Some d \<and> d_tenant_id d = id_tenant_id p \<and> d_document_id d = c_document_id c \<and> \<not> d_tombstone d"
    "c_tenant_id c = id_tenant_id p" "\<not> c_tombstone c" "is_retrieval_eligible (c_metadata c)" "is_visible acl p c"
  using assms by (auto simp: citation_still_visible_def is_visible_def split: option.splits if_splits)

text \<open>Asking for more than the budget loses nothing that came before the limit.\<close>

lemma cap_loop_all:
  "n + int (length ss) \<le> cl \<Longrightarrow> used + sum_list (map chunk_cost ss) \<le> tok \<Longrightarrow> cap_loop cl tok n used ss = ss"
proof (induction cl tok n used ss rule: cap_loop.induct)
  case (2 cl tok n used s ss)
  have "0 \<le> sum_list (map chunk_cost ss)" by (rule sum_list_nonneg) auto
  with 2 show ?case by auto
qed simp

end
