(* ===== verification/Answer.thy ===== *)
theory Answer
  imports AnswerParts
begin

text \<open>
  The answer flow of \<open>services/answer.py\<close> with the guardrail of \<open>providers/guardrails.py\<close>: routing, the budget
  gate, retrieval, the evidence stages, injection defence, generation by the text or the visual model,
  the checks after it, the citation loop and the charge. The models, the guardrail and the structured tool
  are arguments; the registry and the access policy are read through two views (\<open>ax_recheck\<close> when the
  evidence is re-checked, \<open>ax_citing\<close> when it is cited). \<open>an_calls\<close> is a ghost log of what the models were
  shown. Metrics, traces, log lines and the hot-path record are left out.
\<close>

section \<open>Answers\<close>

record freshness =
  fr_indexed_at :: string
  fr_document_version :: int
  fr_source_freshness :: string

record answer_record =
  ans_status :: string
  ans_text :: "string option"
  ans_confidence :: "rat option"
  ans_citations :: "citation list"
  ans_used_chunks :: "string list"
  ans_used_modalities :: "string list"
  ans_freshness :: "freshness list"
  ans_cost :: "cost_summary option"
  ans_correlation_id :: string
  ans_route :: string

definition status_ok :: string where "status_ok = ''ok''"
definition insufficient_evidence :: string where "insufficient_evidence = ''insufficient_evidence''"
definition budget_exceeded :: string where "budget_exceeded = ''budget_exceeded''"
definition temporarily_unavailable :: string where "temporarily_unavailable = ''temporarily_unavailable''"

text \<open>\<open>Answer(status, used_chunks, correlation_id, route)\<close> with every other default.\<close>

definition refusal_answer :: "string \<Rightarrow> string list \<Rightarrow> string \<Rightarrow> string \<Rightarrow> answer_record" where
  "refusal_answer status used cid route =
     \<lparr>ans_status = status, ans_text = None, ans_confidence = None, ans_citations = [], ans_used_chunks = used,
      ans_used_modalities = [], ans_freshness = [], ans_cost = None, ans_correlation_id = cid, ans_route = route\<rparr>"

section \<open>The guardrail\<close>

record guardrail_verdict =
  gv_action :: string
  gv_reason :: pyval

definition gv_blocked :: "guardrail_verdict \<Rightarrow> bool" where
  "gv_blocked v \<longleftrightarrow> py_upper (gv_action v) = ''BLOCK''"

text \<open>The Bedrock provider: no invoker is an error, a failing invoker a block. The invoker returns a dictionary.\<close>

definition bedrock_guardrail_check :: "(string \<Rightarrow> pydict result) option \<Rightarrow> string \<Rightarrow> guardrail_verdict result" where
  "bedrock_guardrail_check invoker text =
     (case invoker of
        None \<Rightarrow> Inl ProviderError
      | Some invoke \<Rightarrow>
          (case invoke text of
             Inl e \<Rightarrow> Inr \<lparr>gv_action = ''BLOCK'', gv_reason = PStr ''guardrail_error''\<rparr>
           | Inr m \<Rightarrow> Inr \<lparr>gv_action = py_upper (py_str (py_or (py_get m ''action'') (PStr ''ALLOW''))),
               gv_reason = py_get m ''reason''\<rparr>))"

text \<open>\<open>Some reason\<close> when the text is blocked: by a verdict or because the check failed.\<close>

definition guardrail_block :: "(string \<Rightarrow> guardrail_verdict result) option \<Rightarrow> string \<Rightarrow> string option" where
  "guardrail_block guardrail text =
     (case guardrail of
        None \<Rightarrow> None
      | Some check \<Rightarrow>
          (case check text of
             Inl e \<Rightarrow> Some ''output_guardrail_unavailable''
           | Inr v \<Rightarrow>
               if gv_blocked v then Some (py_str (py_or (gv_reason v) (PStr ''output_guardrail''))) else None))"

section \<open>Environment and state\<close>

record llm_provider =
  lp_ident :: nat
  lp_model :: string
  lp_generate :: "string \<Rightarrow> chunk list \<Rightarrow> string result"

text \<open>A visual provider with a policy resolver is also given the tenant, collection and document.\<close>

type_synonym visual_scope = "(string \<times> string \<times> string) option"

record vlm_provider =
  vp_model :: string
  vp_policy_resolver :: bool
  vp_generate :: "string \<Rightarrow> layout_region list \<Rightarrow> visual_scope \<Rightarrow> string result"

datatype generation_call =
    TextCall string "chunk list"
  | VisualCall string "layout_region list" visual_scope

type_synonym structured_answer =
  "identity_claims \<Rightarrow> string \<Rightarrow> string option \<Rightarrow> string \<Rightarrow> string \<Rightarrow> answer_record result"

record answer_env =
  ax_retrieval :: retrieval_env
  ax_preselected :: "scored_chunk list option"
  ax_charges_embedding :: bool
  ax_llm :: llm_provider
  ax_llm_by_model :: "(string, llm_provider) dict"
  ax_vlm :: "vlm_provider option"
  ax_guardrail :: "(string \<Rightarrow> guardrail_verdict result) option"
  ax_structured_tool :: "structured_answer option option"
  ax_settings :: visual_settings
  ax_verifiers :: "visual_verifier list"
  ax_parsers :: number_parsers
  ax_nfkc :: "string \<Rightarrow> string"
  ax_recheck :: world_view
  ax_citing :: world_view

record answer_state =
  an_retrieval :: retrieval_state
  an_cost :: cost_service
  an_audit :: "audit_sink option"
  an_calls :: "generation_call list"

definition ax_ucd :: "answer_env \<Rightarrow> ucd" where
  "ax_ucd env = re_ucd (ax_retrieval env)"

definition ax_time :: "answer_env \<Rightarrow> string" where
  "ax_time env = re_time (ax_retrieval env)"

datatype llm_routing = DefaultModel | Routed | Fallback

definition resolve_llm :: "answer_env \<Rightarrow> query_profile \<Rightarrow> llm_provider \<times> llm_routing" where
  "resolve_llm env pr =
     (let requested = py_strip (pr_llm_model pr)
      in if ax_llm_by_model env = [] \<or> requested = [] \<or> requested = default_llm_model then (ax_llm env, DefaultModel)
         else case dget (ax_llm_by_model env) requested of
                Some provider \<Rightarrow>
                  (provider, if lp_ident provider = lp_ident (ax_llm env) then DefaultModel else Routed)
              | None \<Rightarrow>
                  if requested = lp_model (ax_llm env) then (ax_llm env, DefaultModel) else (ax_llm env, Fallback))"

definition audit_answer ::
  "answer_env \<Rightarrow> identity_claims \<Rightarrow> string \<Rightarrow> string \<Rightarrow> string \<Rightarrow> string list \<Rightarrow> string list \<Rightarrow>
     answer_state \<Rightarrow> answer_state" where
  "audit_answer env p cid decision reason docs chunks st =
     (case an_audit st of
        None \<Rightarrow> st
      | Some sink \<Rightarrow> st\<lparr>an_audit := Some (fst (sink_record (pii_redact (ax_ucd env))
          \<lparr>ae_tenant_id = id_tenant_id p, ae_correlation_id = cid, ae_action = ''answer'', ae_decision = decision,
           ae_actor_id = id_user_id p, ae_resource_type = ''query'', ae_resource_id = [], ae_document_ids = docs,
           ae_chunk_ids = chunks, ae_reason = reason, ae_created_at = ax_time env, ae_metadata = []\<rparr> sink))\<rparr>)"

text \<open>A refusal: the audit event and the empty answer.\<close>

definition refuse_answer ::
  "answer_env \<Rightarrow> identity_claims \<Rightarrow> string \<Rightarrow> string \<Rightarrow> string \<Rightarrow> string \<Rightarrow> answer_state \<Rightarrow>
     answer_state \<times> answer_record result" where
  "refuse_answer env p cid status reason route st =
     (audit_answer env p cid status reason [] [] st, Inr (refusal_answer status [] cid route))"

section \<open>Citations\<close>

text \<open>The verdicts stored with the chunk; iterating over what is not iterable raises.\<close>

definition stored_verdicts :: "pydict \<Rightarrow> pydict list result" where
  "stored_verdicts m =
     (case dget m ''visual_verifier_verdicts'' of
        None \<Rightarrow> Inr []
      | Some (PList vs) \<Rightarrow> Inr (concat (map (\<lambda>v. case v of PDict d \<Rightarrow> [d] | _ \<Rightarrow> []) vs))
      | Some (PStr s) \<Rightarrow> Inr []
      | Some (PDict d) \<Rightarrow> Inr []
      | Some v \<Rightarrow> Inl TypeError)"

definition budget_verdict :: pydict where
  "budget_verdict =
     [(''verifier_id'', PStr ''visual_verifier_budget''), (''verifier_kind'', PStr ''policy''),
      (''passed'', PBool False), (''reason_code'', PStr ''max_regions_verified_per_answer_exceeded'')]"

text \<open>
  Whether the pixels of a chunk count as verified, the verdicts to cite, and the number of verifications
  used up: with promotion switched on the stored flags of a visual chunk are never trusted.
\<close>

definition visual_check ::
  "answer_env \<Rightarrow> string \<Rightarrow> int \<Rightarrow> chunk \<Rightarrow> (int \<times> bool \<times> pydict list) result" where
  "visual_check env answer_text attempted c =
     rbind (stored_verdicts (c_metadata c)) (\<lambda>stored.
       if c_modality c = VISUAL \<and> vs_visual_evidence_promotion (ax_settings env) then
         if attempted < max 0 (vs_max_regions_verified_per_answer (ax_settings env)) then
           rbind (layout_region_from_chunk (ax_parsers env) c) (\<lambda>region.
             let (verified, verdicts) = verify_visual_primary_evidence (ax_ucd env) (ax_nfkc env) (ax_settings env)
                   (ax_verifiers env) (attributed_text (ax_ucd env) answer_text c) region
             in Inr (attempted + 1, verified, map (verdict_mapping (np_repr (ax_parsers env))) verdicts))
         else Inr (attempted, False, [budget_verdict])
       else Inr (attempted, py_truthy (py_get (c_metadata c) ''visual_evidence_verified''), stored))"

definition citation_of ::
  "number_parsers \<Rightarrow> scored_chunk \<Rightarrow> document option \<Rightarrow> bool \<Rightarrow> pydict list \<Rightarrow> citation result" where
  "citation_of np s doc verified verdicts =
     (let c = sc_chunk s; m = c_metadata c; visual = (c_modality c = VISUAL);
          if_visual = (\<lambda>k. if visual then meta_str m k else [])
      in rbind (if visual then int_of (np_int np) (py_or (py_get m ''page_number'') (PInt 0)) else Inr 0) (\<lambda>page.
         rbind (if visual then bbox_from_metadata np c else Inr None) (\<lambda>bbox.
         rbind (int_of (np_int np) (py_or (get_or m ''point_index'' (PInt (- 1))) (PInt (- 1)))) (\<lambda>point.
         Inr \<lparr>ci_kind = (if visual then ''visual'' else ''text''), ci_document_id = c_document_id c,
              ci_source_id = (case doc of None \<Rightarrow> [] | Some d \<Rightarrow> d_source_id d),
              ci_version = (case doc of None \<Rightarrow> 0 | Some d \<Rightarrow> d_version d),
              ci_retrieval_score = sc_retrieval_score s, ci_chunk_id = Some (c_chunk_id c),
              ci_text_range = (if visual then None else Some (0, int (length (utf8_chars (c_text c))))),
              ci_asset_id = if_visual ''asset_id'', ci_page_number = page, ci_region_id = if_visual ''region_id'',
              ci_bbox = bbox, ci_crop_uri = if_visual ''crop_uri'', ci_sheet_name = [], ci_cell_range = [],
              ci_row_id = [], ci_table_id = meta_str m ''table_id'', ci_form_id = meta_str m ''form_id'',
              ci_field_name = meta_str m ''field_name'', ci_chart_id = meta_str m ''chart_id'',
              ci_series_name = meta_str m ''series_name'', ci_point_index = point,
              ci_column_name = meta_str m ''column_name'', ci_pixel_derived = visual,
              ci_visual_evidence_verified = verified, ci_visual_verifier_verdicts = verdicts, ci_metadata = m\<rparr>))))"

record cited =
  cd_citation :: citation
  cd_used :: string
  cd_freshness :: "freshness option"

definition freshness_of :: "document option \<Rightarrow> freshness option" where
  "freshness_of doc =
     map_option (\<lambda>d. \<lparr>fr_indexed_at = d_indexed_at d, fr_document_version = d_version d, fr_source_freshness = []\<rparr>) doc"

text \<open>The loop over the evidence; \<open>attempted\<close> counts the visual verifications of this answer.\<close>

fun cite_loop ::
  "answer_env \<Rightarrow> identity_claims \<Rightarrow> string \<Rightarrow> attribution \<Rightarrow> int \<Rightarrow> scored_chunk list \<Rightarrow> cited list result" where
  "cite_loop env p answer_text a attempted [] = Inr []"
| "cite_loop env p answer_text a attempted (s # ss) =
     (let c = sc_chunk s; doc = document_of (ax_citing env) c
      in if \<not> supports_answer (ax_ucd env) a c doc then cite_loop env p answer_text a attempted ss
         else if \<not> citation_still_visible (wv_acl (ax_citing env)) p c doc
           then cite_loop env p answer_text a attempted ss
         else
           rbind (visual_check env answer_text attempted c) (\<lambda>(attempted, verified, verdicts).
           rbind (citation_of (ax_parsers env) s doc verified verdicts) (\<lambda>citation.
           rbind (cite_loop env p answer_text a attempted ss) (\<lambda>cs.
             Inr (\<lparr>cd_citation = citation, cd_used = c_chunk_id c, cd_freshness = freshness_of doc\<rparr> # cs)))))"

definition modality_value :: "modality \<Rightarrow> string" where
  "modality_value m = (case m of TEXT \<Rightarrow> ''text'' | VISUAL \<Rightarrow> ''visual'')"

definition used_modalities :: "scored_chunk list \<Rightarrow> string list \<Rightarrow> string list" where
  "used_modalities evidence used =
     (let ms = fold (\<lambda>s ms. let m = modality_value (c_modality (sc_chunk s))
                in if c_chunk_id (sc_chunk s) \<notin> set used \<or> m \<in> set ms then ms else ms @ [m]) evidence []
      in if ms = [] then [''text''] else ms)"

definition best_score :: "scored_chunk list \<Rightarrow> rat" where
  "best_score evidence =
     (case map sc_retrieval_score evidence of [] \<Rightarrow> 0 | r # rs \<Rightarrow> fold max rs r)"

section \<open>Generation\<close>

definition visual_scope_of :: "layout_region list \<Rightarrow> visual_scope" where
  "visual_scope_of regions =
     (case regions of
        [] \<Rightarrow> None
      | r # rs \<Rightarrow> Some (lr_tenant_id r, lr_collection_id r, lr_document_id r))"

text \<open>The visual model is used when there are regions, it is wired, and promotion is switched off.\<close>

definition visual_model :: "answer_env \<Rightarrow> layout_region list \<Rightarrow> vlm_provider option" where
  "visual_model env regions =
     (if regions = [] \<or> vs_visual_evidence_promotion (ax_settings env) then None else ax_vlm env)"

definition generate_text ::
  "answer_env \<Rightarrow> query_profile \<Rightarrow> string \<Rightarrow> chunk list \<Rightarrow> layout_region list \<Rightarrow>
     generation_call \<times> string result" where
  "generate_text env pr query context regions =
     (case visual_model env regions of
        Some vlm \<Rightarrow>
          let scope = (if vp_policy_resolver vlm then visual_scope_of regions else None)
          in (VisualCall query regions scope, vp_generate vlm query regions scope)
      | None \<Rightarrow> (TextCall query context, lp_generate (fst (resolve_llm env pr)) query context))"

definition prompt_tokens :: "string \<Rightarrow> chunk list \<Rightarrow> int" where
  "prompt_tokens query context = word_count query + sum_list (map (\<lambda>c. word_count (c_text c)) context)"

text \<open>The token records of a generation; the image tokens are recorded without a charge.\<close>

definition charge_generation ::
  "answer_env \<Rightarrow> identity_claims \<Rightarrow> string \<Rightarrow> query_profile \<Rightarrow> string \<Rightarrow> chunk list \<Rightarrow> layout_region list \<Rightarrow>
     string \<Rightarrow> cost_service \<Rightarrow> cost_service result" where
  "charge_generation env p cid pr query context regions generated cs =
     (let t = id_tenant_id p; model = [(''model'', PStr (lp_model (fst (resolve_llm env pr))))];
          cs = record_tokens (ax_time env) t ''llm_prompt_tokens'' (prompt_tokens query context) cid (pr_profile_id pr) model cs;
          cs = record_tokens (ax_time env) t ''llm_completion_tokens'' (word_count generated) cid (pr_profile_id pr) model cs
      in case visual_model env regions of
           None \<Rightarrow> Inr cs
         | Some vlm \<Rightarrow>
             record_visual_cost (ax_time env) t ''vlm_image_tokens'' 0 cid (pr_profile_id pr)
               (word_count query + sum_list (map (\<lambda>r. word_count (lr_ocr_text r)) regions)) ''tokens'' False
               [(''model'', PStr (vp_model vlm))] cs)"

section \<open>Judging the generated text\<close>

definition coverage_decision :: "answer_env \<Rightarrow> query_profile \<Rightarrow> string \<Rightarrow> chunk list \<Rightarrow> gate_decision" where
  "coverage_decision env pr coverage_query context =
     (let salient = (if pr_salient_coverage_enabled pr then salient_coverage_check (ax_ucd env) coverage_query context
                     else gate_ok)
      in if gd_passed salient
         then question_coverage_check (ax_ucd env) coverage_query context (pr_min_question_coverage pr)
         else salient)"

text \<open>The status and reason of the refusal, when the text is refused.\<close>

definition text_refusal ::
  "answer_env \<Rightarrow> query_profile \<Rightarrow> bool \<Rightarrow> string \<Rightarrow> chunk list \<Rightarrow> string \<Rightarrow> (string \<times> string) option" where
  "text_refusal env pr visual coverage_query context generated =
     (let post = post_check (ax_ucd env) generated context;
          coverage = (if visual \<or> context = [] then gate_ok else coverage_decision env pr coverage_query context)
      in if \<not> gd_passed post then Some (insufficient_evidence, gd_reason post)
         else if \<not> gd_passed coverage then Some (insufficient_evidence, gd_reason coverage)
         else map_option (\<lambda>reason. (temporarily_unavailable, reason)) (guardrail_block (ax_guardrail env) generated))"

section \<open>The answer\<close>

text \<open>From the citations to the answer: too few refuse it, otherwise the query is charged.\<close>

definition finish_answer ::
  "answer_env \<Rightarrow> identity_claims \<Rightarrow> string \<Rightarrow> query_profile \<Rightarrow> scored_chunk list \<Rightarrow> string \<Rightarrow> cited list \<Rightarrow>
     answer_state \<Rightarrow> answer_state \<times> answer_record" where
  "finish_answer env p cid pr evidence generated cited st =
     (let citations = map cd_citation cited; used = map cd_used cited; docs = map ci_document_id citations
      in if int (length used) < pr_minimum_evidence_count pr then
           (audit_answer env p cid insufficient_evidence ''citation_revalidation'' docs used st,
            refusal_answer insufficient_evidence used cid ''rag'')
         else
           let (costs, summary) = cost_log ((cost_entry (ax_time env) (id_tenant_id p) ''answer'' 1)
                 \<lparr>cr_trace_id := cid\<rparr>) (an_cost st)
           in (audit_answer env p cid status_ok [] docs used (st\<lparr>an_cost := costs\<rparr>),
               \<lparr>ans_status = status_ok, ans_text = Some generated, ans_confidence = Some (best_score evidence),
                ans_citations = citations, ans_used_chunks = used,
                ans_used_modalities = used_modalities evidence used,
                ans_freshness = List.map_filter cd_freshness cited, ans_cost = Some summary,
                ans_correlation_id = cid, ans_route = ''rag''\<rparr>))"

definition judge_and_cite ::
  "answer_env \<Rightarrow> identity_claims \<Rightarrow> string \<Rightarrow> query_profile \<Rightarrow> string \<Rightarrow> string option \<Rightarrow> scored_chunk list \<Rightarrow>
     chunk list \<Rightarrow> bool \<Rightarrow> string \<Rightarrow> answer_state \<Rightarrow> answer_state \<times> answer_record result" where
  "judge_and_cite env p cid pr query intent_query evidence context visual generated st =
     (let coverage_query = (case intent_query of Some i \<Rightarrow> if i = [] then query else i | None \<Rightarrow> query)
      in case text_refusal env pr visual coverage_query context generated of
           Some (status, reason) \<Rightarrow> refuse_answer env p cid status reason ''rag'' st
         | None \<Rightarrow>
             (case cite_loop env p generated (attribution_of (ax_ucd env) query generated evidence) 0 evidence of
                Inl e \<Rightarrow> (st, Inl e)
              | Inr cited \<Rightarrow> (case finish_answer env p cid pr evidence generated cited st of (st, ans) \<Rightarrow> (st, Inr ans))))"

definition generate_and_judge ::
  "answer_env \<Rightarrow> identity_claims \<Rightarrow> string \<Rightarrow> query_profile \<Rightarrow> string \<Rightarrow> string option \<Rightarrow> scored_chunk list \<Rightarrow>
     answer_state \<Rightarrow> answer_state \<times> answer_record result" where
  "generate_and_judge env p cid pr query intent_query evidence st =
     (let U = ax_ucd env; context = generation_context U (ax_settings env) evidence;
          st = (if context_injections U (ax_settings env) evidence = 0 then st
                else audit_answer env p cid ''prompt_injection_context_neutralized'' ''prompt_injection_context'' [] [] st)
      in case visual_regions (ax_parsers env) context of
           Inl e \<Rightarrow> (st, Inl e)
         | Inr regions \<Rightarrow>
             let (call, outcome) = generate_text env pr query context regions;
                 st = st\<lparr>an_calls := an_calls st @ [call]\<rparr>
             in case outcome of
                  Inl e \<Rightarrow> (audit_answer env p cid ''failed'' ''llm_unavailable'' [] [] st, Inl ProviderUnavailable)
                | Inr generated \<Rightarrow>
                    (case charge_generation env p cid pr query context regions generated (an_cost st) of
                       Inl e \<Rightarrow> (st, Inl e)
                     | Inr costs \<Rightarrow> judge_and_cite env p cid pr query intent_query evidence context
                         (visual_model env regions \<noteq> None) generated (st\<lparr>an_cost := costs\<rparr>)))"

text \<open>
  Retrieval with the cost service of the answer flow, when the two share it. A service built over preselected
  evidence (\<open>_PreselectedRetrieval\<close> of \<open>manufacturing/api/answer_ext.py\<close>) returns that evidence.
\<close>

definition retrieve_for_answer ::
  "answer_env \<Rightarrow> identity_claims \<Rightarrow> string \<Rightarrow> query_profile \<Rightarrow> string \<Rightarrow> answer_state \<Rightarrow>
     answer_state \<times> scored_chunk list result" where
  "retrieve_for_answer env p query pr cid st =
     (case ax_preselected env of
        Some scored \<Rightarrow> (st, Inr scored)
      | None \<Rightarrow>
          let rs = (an_retrieval st)\<lparr>rs_cost := (if ax_charges_embedding env then Some (an_cost st) else None)\<rparr>;
              (rs, hits) = retrieve (ax_retrieval env) p query pr cid rs
          in (st\<lparr>an_retrieval := rs\<lparr>rs_cost := None\<rparr>,
                 an_cost := (case rs_cost rs of None \<Rightarrow> an_cost st | Some cs \<Rightarrow> cs)\<rparr>, hits))"

definition answer_with_rag ::
  "answer_env \<Rightarrow> identity_claims \<Rightarrow> string \<Rightarrow> query_profile \<Rightarrow> string \<Rightarrow> string option \<Rightarrow>
     answer_state \<Rightarrow> answer_state \<times> answer_record result" where
  "answer_with_rag env p cid pr query intent_query st =
     (if would_exceed (id_tenant_id p) 1 (an_cost st)
      then refuse_answer env p cid budget_exceeded ''budget'' ''rag'' st
      else case retrieve_for_answer env p query pr cid st of
             (st, Inl e) \<Rightarrow> (st, Inl e)
           | (st, Inr scored) \<Rightarrow>
               (case evidence_stage (ax_ucd env) (ax_recheck env) p query pr scored of
                  Inl reason \<Rightarrow> refuse_answer env p cid insufficient_evidence reason ''rag'' st
                | Inr evidence \<Rightarrow>
                    if iv_detected (inspect (ax_ucd env) query)
                    then refuse_answer env p cid insufficient_evidence ''prompt_injection'' ''rag'' st
                    else generate_and_judge env p cid pr query intent_query evidence st))"

text \<open>\<open>_answer_with_structured_tool\<close>; a tool without an \<open>answer\<close> operation gives \<open>None\<close>.\<close>

definition answer_with_structured_tool ::
  "answer_env \<Rightarrow> identity_claims \<Rightarrow> string \<Rightarrow> string \<Rightarrow> string option \<Rightarrow> string \<Rightarrow>
     answer_state \<Rightarrow> (answer_state \<times> answer_record result) option" where
  "answer_with_structured_tool env p cid query collection_id reason st =
     (case ax_structured_tool env of
        Some (Some tool) \<Rightarrow> Some (case tool p query collection_id reason cid of
            Inl e \<Rightarrow> refuse_answer env p cid temporarily_unavailable ''structured_tool_unavailable'' ''structured_tool'' st
          | Inr ans \<Rightarrow> (audit_answer env p cid (ans_status ans) reason (map ci_document_id (ans_citations ans))
              (ans_used_chunks ans) st, Inr ans))
      | _ \<Rightarrow> None)"

definition answer ::
  "answer_env \<Rightarrow> identity_claims \<Rightarrow> string \<Rightarrow> query_profile \<Rightarrow> string \<Rightarrow> string option \<Rightarrow> string option \<Rightarrow>
     answer_state \<Rightarrow> answer_state \<times> answer_record result" where
  "answer env p cid pr query collection_id intent_query st =
     (let route = classify_structured_query (ax_ucd env) query (ax_structured_tool env \<noteq> None);
          by_tool = (if sqd_route route = ''structured_tool''
                     then answer_with_structured_tool env p cid query collection_id (sqd_reason route) st else None)
      in case by_tool of
           Some outcome \<Rightarrow> outcome
         | None \<Rightarrow>
             if requires_tool route
             then refuse_answer env p cid temporarily_unavailable (sqd_reason route) (sqd_route route) st
             else answer_with_rag env p cid pr query intent_query st)"

section \<open>What a stage leaves alone\<close>

lemma audit_frames [simp]:
  "an_calls (audit_answer env p cid d r docs cs st) = an_calls st"
  "an_cost (audit_answer env p cid d r docs cs st) = an_cost st"
  "an_retrieval (audit_answer env p cid d r docs cs st) = an_retrieval st"
  by (simp_all add: audit_answer_def split: option.split)

lemma retrieve_frames:
  assumes "retrieve_for_answer env p q pr cid st = (st', out)"
  shows "an_calls st' = an_calls st" "an_audit st' = an_audit st"
  using assms by (auto simp: retrieve_for_answer_def Let_def split: prod.splits option.splits)

text \<open>Where the evidence comes from.\<close>

definition admitted :: "answer_env \<Rightarrow> identity_claims \<Rightarrow> answer_state \<Rightarrow> scored_chunk \<Rightarrow> bool" where
  "admitted env p st s \<longleftrightarrow>
     (case ax_preselected env of
        None \<Rightarrow> servable (re_acl (ax_retrieval env)) p (rs_store (an_retrieval st)) (sc_chunk s)
      | Some scored \<Rightarrow> s \<in> set scored)"

lemma retrieved_for_answer:
  assumes "retrieve_for_answer env p q pr cid st = (st', Inr hits)" and "s \<in> set hits"
  shows "admitted env p st s"
proof (cases "ax_preselected env")
  case None
  let ?rs = "(an_retrieval st)\<lparr>rs_cost := (if ax_charges_embedding env then Some (an_cost st) else None)\<rparr>"
  from assms(1) None have "snd (retrieve (ax_retrieval env) p q pr cid ?rs) = Inr hits"
    by (auto simp: retrieve_for_answer_def Let_def split: prod.splits split del: if_split)
  from retrieve_servable [OF this assms(2)] None show ?thesis by (simp add: admitted_def)
next
  case (Some scored)
  with assms show ?thesis by (simp add: retrieve_for_answer_def admitted_def)
qed

section \<open>Charges\<close>

lemma tokens_unbilled [simp]: "tenant_spent (record_tokens now u k n tr q m cs) t = tenant_spent cs t"
  by (simp add: record_tokens_def tenant_spent_log)

lemma tokens_budgets [simp]: "co_budgets (record_tokens now u k n tr q m cs) = co_budgets cs"
  by (simp add: record_tokens_def budgets_log)

lemma visual_tokens_unbilled:
  "record_visual_cost now u k a tr q n un False m cs = Inr cs' \<Longrightarrow>
     tenant_spent cs' t = tenant_spent cs t \<and> co_budgets cs' = co_budgets cs"
  by (auto simp: record_visual_cost_def tenant_spent_log budgets_log split: if_splits)

lemma charge_generation_unbilled:
  assumes "charge_generation env p cid pr q ctx regions g cs = Inr cs'"
  shows "tenant_spent cs' t = tenant_spent cs t \<and> co_budgets cs' = co_budgets cs"
  using assms visual_tokens_unbilled [where t = t]
  by (auto simp: charge_generation_def Let_def split: option.splits dest!: visual_tokens_unbilled [where t = t])

lemma charge_generation_total: "\<exists>cs'. charge_generation env p cid pr q ctx regions g cs = Inr cs'"
  by (simp add: charge_generation_def record_visual_cost_def visual_cost_kinds_def Let_def split: option.split)

lemma charge_embedding_unbilled:
  "charge_embedding env p q pr cid hit (Some cs) = Some cs' \<Longrightarrow>
     tenant_spent cs' t = tenant_spent cs t \<and> co_budgets cs' = co_budgets cs"
  by (auto simp: charge_embedding_def split: if_splits)

lemma charge_embedding_None [simp]: "charge_embedding env p q pr cid hit None = None"
  by (simp add: charge_embedding_def)

lemma charge_embedding_Some: "\<exists>cs'. charge_embedding env p q pr cid hit (Some cs) = Some cs'"
  by (simp add: charge_embedding_def)

lemma retrieve_cost:
  "rs_cost (fst (retrieve env p q pr cid rs)) = rs_cost rs \<or>
   (\<exists>hit. rs_cost (fst (retrieve env p q pr cid rs)) = charge_embedding env p q pr cid hit (rs_cost rs))"
  by (auto simp: retrieve_def Let_def split: prod.splits sum.splits)

lemma retrieve_for_answer_unbilled:
  assumes "retrieve_for_answer env p q pr cid st = (st', out)"
  shows "tenant_spent (an_cost st') t = tenant_spent (an_cost st) t \<and> co_budgets (an_cost st') = co_budgets (an_cost st)"
proof (cases "ax_preselected env")
  case (Some scored)
  with assms show ?thesis by (auto simp: retrieve_for_answer_def)
next
  case None
  let ?rs = "(an_retrieval st)\<lparr>rs_cost := (if ax_charges_embedding env then Some (an_cost st) else None)\<rparr>"
  let ?out = "retrieve (ax_retrieval env) p q pr cid ?rs"
  have cost: "an_cost st' = (case rs_cost (fst ?out) of None \<Rightarrow> an_cost st | Some cs \<Rightarrow> cs)"
    using assms None by (auto simp: retrieve_for_answer_def Let_def split: prod.splits)
  show ?thesis
  proof (cases "ax_charges_embedding env")
    case True
    then consider "rs_cost (fst ?out) = Some (an_cost st)"
      | hit where "rs_cost (fst ?out) = charge_embedding (ax_retrieval env) p q pr cid hit (Some (an_cost st))"
      using retrieve_cost [of "ax_retrieval env" p q pr cid ?rs] by auto
    then show ?thesis
    proof cases
      case 1
      with cost show ?thesis by simp
    next
      case 2
      obtain cs where cs: "charge_embedding (ax_retrieval env) p q pr cid hit (Some (an_cost st)) = Some cs"
        using charge_embedding_Some by blast
      with 2 cost have "an_cost st' = cs" by simp
      with charge_embedding_unbilled [OF cs] show ?thesis by simp
    qed
  next
    case False
    then have "rs_cost (fst ?out) = None"
      using retrieve_cost [of "ax_retrieval env" p q pr cid ?rs] by auto
    with cost show ?thesis by simp
  qed
qed

section \<open>Citations\<close>

text \<open>Where a citation comes from.\<close>

definition cites :: "answer_env \<Rightarrow> identity_claims \<Rightarrow> scored_chunk \<Rightarrow> document \<Rightarrow> citation \<Rightarrow> bool" where
  "cites env p s d ct \<longleftrightarrow>
     document_of (ax_citing env) (sc_chunk s) = Some d \<and>
     citation_still_visible (wv_acl (ax_citing env)) p (sc_chunk s) (Some d) \<and>
     ci_document_id ct = c_document_id (sc_chunk s) \<and> ci_chunk_id ct = Some (c_chunk_id (sc_chunk s)) \<and>
     ci_source_id ct = d_source_id d \<and> ci_version ct = d_version d \<and>
     ci_retrieval_score ct = sc_retrieval_score s \<and> ci_metadata ct = c_metadata (sc_chunk s)"

lemma citation_of_fields:
  assumes "citation_of np s doc verified verdicts = Inr ct"
  shows "ci_document_id ct = c_document_id (sc_chunk s)" "ci_chunk_id ct = Some (c_chunk_id (sc_chunk s))"
    "ci_source_id ct = (case doc of None \<Rightarrow> [] | Some d \<Rightarrow> d_source_id d)"
    "ci_version ct = (case doc of None \<Rightarrow> 0 | Some d \<Rightarrow> d_version d)"
    "ci_retrieval_score ct = sc_retrieval_score s" "ci_metadata ct = c_metadata (sc_chunk s)"
    "ci_pixel_derived ct = (c_modality (sc_chunk s) = VISUAL)" "ci_visual_evidence_verified ct = verified"
  using assms by (auto simp: citation_of_def Let_def rbind_Inr_iff)

lemma cite_loop_ConsE:
  assumes "cite_loop env p g a n (s # ss) = Inr cs"
  obtains (skip) "cite_loop env p g a n ss = Inr cs"
  | (cite) d n' v vs ct rest where
      "document_of (ax_citing env) (sc_chunk s) = Some d" "supports_answer (ax_ucd env) a (sc_chunk s) (Some d)"
      "citation_still_visible (wv_acl (ax_citing env)) p (sc_chunk s) (Some d)"
      "visual_check env g n (sc_chunk s) = Inr (n', v, vs)"
      "citation_of (ax_parsers env) s (Some d) v vs = Inr ct" "cite_loop env p g a n' ss = Inr rest"
      "cs = \<lparr>cd_citation = ct, cd_used = c_chunk_id (sc_chunk s), cd_freshness = freshness_of (Some d)\<rparr> # rest"
proof -
  let ?c = "sc_chunk s" and ?doc = "document_of (ax_citing env) (sc_chunk s)"
  show thesis
  proof (cases "\<not> supports_answer (ax_ucd env) a ?c ?doc \<or> \<not> citation_still_visible (wv_acl (ax_citing env)) p ?c ?doc")
    case True
    with assms show thesis by (intro skip) (auto simp: Let_def split: if_splits)
  next
    case False
    then obtain d where d: "?doc = Some d" using citation_still_visibleD(1) by blast
    from False assms obtain n' v vs ct rest where "visual_check env g n ?c = Inr (n', v, vs)"
      "citation_of (ax_parsers env) s ?doc v vs = Inr ct" "cite_loop env p g a n' ss = Inr rest"
      "cs = \<lparr>cd_citation = ct, cd_used = c_chunk_id ?c, cd_freshness = freshness_of ?doc\<rparr> # rest"
      by (auto simp: Let_def rbind_Inr_iff)
    with False d show thesis by (intro cite [of d n' v vs ct rest]) simp_all
  qed
qed

lemma cite_loop_sound:
  "cite_loop env p g a n ss = Inr cs \<Longrightarrow> x \<in> set cs \<Longrightarrow>
     \<exists>s\<in>set ss. \<exists>d. cites env p s d (cd_citation x) \<and> cd_used x = c_chunk_id (sc_chunk s) \<and>
       supports_answer (ax_ucd env) a (sc_chunk s) (Some d)"
proof (induction ss arbitrary: n cs)
  case (Cons s ss)
  from Cons.prems(1) show ?case
  proof (cases rule: cite_loop_ConsE)
    case skip
    from Cons.IH [OF this Cons.prems(2)] show ?thesis by auto
  next
    case (cite d n' v vs ct rest)
    have "cites env p s d ct" using citation_of_fields [OF cite(5)] cite(1,3) by (simp add: cites_def)
    with Cons.IH [OF cite(6)] Cons.prems(2) cite(2,7) show ?thesis by auto
  qed
qed simp

text \<open>The verifications counted by \<open>attempted\<close> bound the visual citations that promotion verified.\<close>

lemma visual_check_counts:
  assumes "visual_check env g n c = Inr (n', verified, vs)" "vs_visual_evidence_promotion (ax_settings env)"
    "n \<le> max 0 (vs_max_regions_verified_per_answer (ax_settings env))"
  shows "n \<le> n'" "n' \<le> max 0 (vs_max_regions_verified_per_answer (ax_settings env))"
    "c_modality c = VISUAL \<and> verified \<Longrightarrow> n' = n + 1"
  using assms by (auto simp: visual_check_def rbind_Inr_iff Let_def split_def split: if_splits)

lemma cite_loop_budget:
  "cite_loop env p g a n ss = Inr cs \<Longrightarrow> vs_visual_evidence_promotion (ax_settings env) \<Longrightarrow>
     n \<le> max 0 (vs_max_regions_verified_per_answer (ax_settings env)) \<Longrightarrow>
     n + int (length (filter (\<lambda>x. ci_pixel_derived (cd_citation x) \<and> ci_visual_evidence_verified (cd_citation x)) cs)) \<le>
       max 0 (vs_max_regions_verified_per_answer (ax_settings env))"
proof (induction ss arbitrary: n cs)
  case (Cons s ss)
  from Cons.prems(1) show ?case
  proof (cases rule: cite_loop_ConsE)
    case skip
    from Cons.IH [OF this Cons.prems(2,3)] show ?thesis .
  next
    case (cite d n' v vs ct rest)
    note counts = visual_check_counts [OF cite(4) Cons.prems(2,3)]
    from Cons.IH [OF cite(6) Cons.prems(2) counts(2)] counts(1,3) citation_of_fields(7,8) [OF cite(5)] show ?thesis
      by (auto simp: cite(7))
  qed
qed simp

section \<open>The path to an answer\<close>

lemma status_simps [simp]:
  "insufficient_evidence \<noteq> status_ok" "budget_exceeded \<noteq> status_ok" "temporarily_unavailable \<noteq> status_ok"
  "ans_status (refusal_answer s u c r) = s" "ans_citations (refusal_answer s u c r) = []"
  "ans_text (refusal_answer s u c r) = None" "ans_confidence (refusal_answer s u c r) = None"
  "ans_freshness (refusal_answer s u c r) = []" "ans_used_chunks (refusal_answer s u c r) = u"
  "ans_cost (refusal_answer s u c r) = None" "ans_correlation_id (refusal_answer s u c r) = c"
  by (simp_all add: insufficient_evidence_def budget_exceeded_def temporarily_unavailable_def status_ok_def
      refusal_answer_def)

lemma text_refusal_status: "text_refusal env pr v q ctx g = Some (status, reason) \<Longrightarrow> status \<noteq> status_ok"
  by (auto simp: text_refusal_def Let_def split: if_splits)

definition asked_question :: "string \<Rightarrow> string option \<Rightarrow> string" where
  "asked_question q iq = (case iq of Some i \<Rightarrow> if i = [] then q else i | None \<Rightarrow> q)"

lemma judge_and_cite_cases:
  assumes "judge_and_cite env p cid pr q iq ev ctx v g st = (st', out)"
  obtains (refused) status reason where "status \<noteq> status_ok"
      "st' = audit_answer env p cid status reason [] [] st" "out = Inr (refusal_answer status [] cid ''rag'')"
  | (raised) e where "st' = st" "out = Inl e"
  | (finished) cited a where "text_refusal env pr v (asked_question q iq) ctx g = None"
      "cite_loop env p g (attribution_of (ax_ucd env) q g ev) 0 ev = Inr cited"
      "finish_answer env p cid pr ev g cited st = (st', a)" "out = Inr a"
proof (cases "text_refusal env pr v (asked_question q iq) ctx g")
  case None
  show thesis
  proof (cases "cite_loop env p g (attribution_of (ax_ucd env) q g ev) 0 ev")
    case (Inl e)
    with assms None show thesis
      by (intro raised) (auto simp: judge_and_cite_def asked_question_def Let_def)
  next
    case (Inr cited)
    obtain st2 a where fin: "finish_answer env p cid pr ev g cited st = (st2, a)" by fastforce
    with assms None Inr have "st' = st2" "out = Inr a"
      by (auto simp: judge_and_cite_def asked_question_def Let_def)
    with fin None Inr show thesis by (intro finished) simp_all
  qed
next
  case (Some sr)
  obtain status reason where sr: "sr = (status, reason)" by fastforce
  with assms Some have "st' = audit_answer env p cid status reason [] [] st" "out = Inr (refusal_answer status [] cid ''rag'')"
    by (auto simp: judge_and_cite_def asked_question_def refuse_answer_def Let_def)
  with text_refusal_status [OF Some [unfolded sr]] show thesis by (rule refused)
qed

lemma finish_cases:
  assumes "finish_answer env p cid pr ev g cited st = (st', a)"
  obtains (few) "st' = audit_answer env p cid insufficient_evidence ''citation_revalidation''
        (map ci_document_id (map cd_citation cited)) (map cd_used cited) st"
      "a = refusal_answer insufficient_evidence (map cd_used cited) cid ''rag''"
  | (ok) "pr_minimum_evidence_count pr \<le> int (length cited)" "ans_status a = status_ok"
      "ans_citations a = map cd_citation cited" "ans_used_chunks a = map cd_used cited" "ans_text a = Some g"
      "ans_confidence a = Some (best_score ev)" "ans_correlation_id a = cid"
      "st' = audit_answer env p cid status_ok [] (map ci_document_id (map cd_citation cited)) (map cd_used cited)
        (st\<lparr>an_cost := fst (cost_log ((cost_entry (ax_time env) (id_tenant_id p) ''answer'' 1)\<lparr>cr_trace_id := cid\<rparr>)
           (an_cost st))\<rparr>)"
proof (cases "int (length cited) < pr_minimum_evidence_count pr")
  case True
  with assms show thesis by (intro few) (auto simp: finish_answer_def Let_def)
next
  case False
  with assms show thesis by (intro ok) (auto simp: finish_answer_def Let_def split: prod.splits)
qed


lemma generate_and_judge_cases:
  assumes "generate_and_judge env p cid pr q iq ev st = (st', out)"
  obtains (unreadable) e where "an_calls st' = an_calls st" "an_cost st' = an_cost st" "out = Inl e"
  | (failed) regions where
      "visual_regions (ax_parsers env) (generation_context (ax_ucd env) (ax_settings env) ev) = Inr regions"
      "an_calls st' = an_calls st @
         [fst (generate_text env pr q (generation_context (ax_ucd env) (ax_settings env) ev) regions)]"
      "an_cost st' = an_cost st" "out = Inl ProviderUnavailable"
  | (generated) regions g costs st2 where
      "visual_regions (ax_parsers env) (generation_context (ax_ucd env) (ax_settings env) ev) = Inr regions"
      "snd (generate_text env pr q (generation_context (ax_ucd env) (ax_settings env) ev) regions) = Inr g"
      "charge_generation env p cid pr q (generation_context (ax_ucd env) (ax_settings env) ev) regions g (an_cost st) =
         Inr costs"
      "an_calls st2 = an_calls st @
         [fst (generate_text env pr q (generation_context (ax_ucd env) (ax_settings env) ev) regions)]"
      "an_cost st2 = costs" "an_audit st2 = an_audit st \<or> (\<exists>d r. an_audit st2 = an_audit (audit_answer env p cid d r [] [] st))"
      "judge_and_cite env p cid pr q iq ev (generation_context (ax_ucd env) (ax_settings env) ev)
         (visual_model env regions \<noteq> None) g st2 = (st', out)"
proof -
  let ?ctx = "generation_context (ax_ucd env) (ax_settings env) ev"
  let ?st1 = "if context_injections (ax_ucd env) (ax_settings env) ev = 0 then st
      else audit_answer env p cid ''prompt_injection_context_neutralized'' ''prompt_injection_context'' [] [] st"
  have st1: "an_calls ?st1 = an_calls st" "an_cost ?st1 = an_cost st"
    "an_audit ?st1 = an_audit st \<or> (\<exists>d r. an_audit ?st1 = an_audit (audit_answer env p cid d r [] [] st))"
    by auto
  note flow = assms [unfolded generate_and_judge_def Let_def]
  show thesis
  proof (cases "visual_regions (ax_parsers env) ?ctx")
    case (Inl e)
    with flow have "st' = ?st1" "out = Inl e" by simp_all
    with st1 show thesis by (intro unreadable) simp_all
  next
    case (Inr regions)
    obtain call res where gen: "generate_text env pr q ?ctx regions = (call, res)" by fastforce
    let ?st2 = "?st1\<lparr>an_calls := an_calls ?st1 @ [call]\<rparr>"
    show thesis
    proof (cases res)
      case (Inl e)
      with flow Inr gen have "st' = audit_answer env p cid ''failed'' ''llm_unavailable'' [] [] ?st2"
        "out = Inl ProviderUnavailable" by simp_all
      with st1 gen Inr \<open>visual_regions (ax_parsers env) ?ctx = Inr regions\<close> show thesis
        by (intro failed [of regions]) simp_all
    next
      case (Inr g)
      obtain costs where costs: "charge_generation env p cid pr q ?ctx regions g (an_cost st) = Inr costs"
        using charge_generation_total by blast
      have "charge_generation env p cid pr q ?ctx regions g (an_cost ?st2) = Inr costs"
        using costs st1(2) by simp
      with flow \<open>visual_regions (ax_parsers env) ?ctx = Inr regions\<close> gen Inr
      have "judge_and_cite env p cid pr q iq ev ?ctx (visual_model env regions \<noteq> None) g (?st2\<lparr>an_cost := costs\<rparr>) = (st', out)"
        by simp
      with st1 costs gen Inr \<open>visual_regions (ax_parsers env) ?ctx = Inr regions\<close> show thesis
        by (intro generated [of regions g costs "?st2\<lparr>an_cost := costs\<rparr>"]) simp_all
    qed
  qed
qed

lemma answer_with_rag_cases:
  assumes "answer_with_rag env p cid pr q iq st = (st', out)"
  obtains (budget) "would_exceed (id_tenant_id p) 1 (an_cost st)"
      "st' = audit_answer env p cid budget_exceeded ''budget'' [] [] st"
      "out = Inr (refusal_answer budget_exceeded [] cid ''rag'')"
  | (unretrieved) e where "retrieve_for_answer env p q pr cid st = (st', Inl e)" "out = Inl e"
  | (refused) st1 scored reason where "retrieve_for_answer env p q pr cid st = (st1, Inr scored)"
      "st' = audit_answer env p cid insufficient_evidence reason [] [] st1"
      "out = Inr (refusal_answer insufficient_evidence [] cid ''rag'')"
  | (generating) st1 scored ev where "\<not> would_exceed (id_tenant_id p) 1 (an_cost st)"
      "retrieve_for_answer env p q pr cid st = (st1, Inr scored)"
      "evidence_stage (ax_ucd env) (ax_recheck env) p q pr scored = Inr ev" "\<not> iv_detected (inspect (ax_ucd env) q)"
      "generate_and_judge env p cid pr q iq ev st1 = (st', out)"
proof (cases "would_exceed (id_tenant_id p) 1 (an_cost st)")
  case True
  with assms show thesis by (intro budget) (auto simp: answer_with_rag_def refuse_answer_def)
next
  case False
  note flow = assms [unfolded answer_with_rag_def refuse_answer_def if_not_P [OF False]]
  obtain st1 res where res: "retrieve_for_answer env p q pr cid st = (st1, res)" by fastforce
  show thesis
  proof (cases res)
    case (Inl e)
    with flow res show thesis by (intro unretrieved) auto
  next
    case (Inr scored)
    show thesis
    proof (cases "evidence_stage (ax_ucd env) (ax_recheck env) p q pr scored")
      case (Inl reason)
      with flow res Inr show thesis by (intro refused [of st1 scored reason]) auto
    next
      case stage: (Inr ev)
      show thesis
      proof (cases "iv_detected (inspect (ax_ucd env) q)")
        case True
        with flow res Inr stage show thesis
          by (intro refused [of st1 scored "''prompt_injection''"]) auto
      next
        case free: False
        with flow res Inr stage False show thesis by (intro generating [of st1 scored ev]) simp_all
      qed
    qed
  qed
qed

lemma answer_cases:
  assumes "answer env p cid pr q col iq st = (st', out)"
  obtains (tool) tool ans reason where "ax_structured_tool env = Some (Some tool)" "out = Inr ans"
      "st' = audit_answer env p cid (ans_status ans) reason (map ci_document_id (ans_citations ans)) (ans_used_chunks ans) st"
  | (refused) status reason route where "status \<noteq> status_ok" "st' = audit_answer env p cid status reason [] [] st"
      "out = Inr (refusal_answer status [] cid route)"
  | (rag) "answer_with_rag env p cid pr q iq st = (st', out)"
proof -
  let ?route = "classify_structured_query (ax_ucd env) q (ax_structured_tool env \<noteq> None)"
  show thesis
  proof (cases "if sqd_route ?route = ''structured_tool''
      then answer_with_structured_tool env p cid q col (sqd_reason ?route) st else None")
    case None
    note flow = assms [unfolded answer_def Let_def None option.case]
    show thesis
    proof (cases "requires_tool ?route")
      case True
      from flow [unfolded if_P [OF True]] show thesis
        by (intro refused [of temporarily_unavailable]) (auto simp: refuse_answer_def)
    next
      case False
      from flow [unfolded if_not_P [OF False]] show thesis by (rule rag)
    qed
  next
    case (Some outcome)
    from assms [unfolded answer_def Let_def Some option.case]
    have by_tool: "answer_with_structured_tool env p cid q col (sqd_reason ?route) st = Some (st', out)"
      using Some by (cases "sqd_route ?route = ''structured_tool''") simp_all
    then obtain t where wired: "ax_structured_tool env = Some (Some t)"
      by (auto simp: answer_with_structured_tool_def split: option.splits)
    show thesis
    proof (cases "t p q col (sqd_reason ?route) cid")
      case (Inl e)
      with by_tool wired show thesis
        by (intro refused [of temporarily_unavailable]) (auto simp: answer_with_structured_tool_def refuse_answer_def)
    next
      case (Inr ans)
      with by_tool wired show thesis by (intro tool) (auto simp: answer_with_structured_tool_def)
    qed
  qed
qed

text \<open>Without a structured tool: a call that answers nothing costs nothing, one that answers went all the way.\<close>

definition unanswered :: "answer_record result \<Rightarrow> bool" where
  "unanswered out \<longleftrightarrow>
     (case out of
        Inl e \<Rightarrow> True
      | Inr a \<Rightarrow> ans_status a \<noteq> status_ok \<and> ans_text a = None \<and> ans_confidence a = None \<and> ans_citations a = [] \<and>
          ans_freshness a = [] \<and> ans_cost a = None)"

lemma unanswered_refusal [simp]: "unanswered (Inr (refusal_answer s u c r)) = (s \<noteq> status_ok)"
  by (simp add: unanswered_def)

lemma unanswered_error [simp]: "unanswered (Inl e)"
  by (simp add: unanswered_def)

lemma rag_outcome:
  assumes "answer env p cid pr q col iq st = (st', out)" and "ax_structured_tool env = None"
  obtains (unanswered) "unanswered out" "\<forall>t. tenant_spent (an_cost st') t = tenant_spent (an_cost st) t"
  | (answered) st1 scored ev regions g and st2 :: answer_state and cited a where "\<not> would_exceed (id_tenant_id p) 1 (an_cost st)"
      "retrieve_for_answer env p q pr cid st = (st1, Inr scored)"
      "evidence_stage (ax_ucd env) (ax_recheck env) p q pr scored = Inr ev"
      "visual_regions (ax_parsers env) (generation_context (ax_ucd env) (ax_settings env) ev) = Inr regions"
      "text_refusal env pr (visual_model env regions \<noteq> None) (asked_question q iq)
         (generation_context (ax_ucd env) (ax_settings env) ev) g = None"
      "cite_loop env p g (attribution_of (ax_ucd env) q g ev) 0 ev = Inr cited"
      "pr_minimum_evidence_count pr \<le> int (length cited)" "out = Inr a" "ans_status a = status_ok"
      "ans_citations a = map cd_citation cited" "ans_used_chunks a = map cd_used cited" "ans_text a = Some g"
      "\<forall>t. tenant_spent (an_cost st2) t = tenant_spent (an_cost st) t" "co_budgets (an_cost st2) = co_budgets (an_cost st)"
      "an_cost st' = fst (cost_log ((cost_entry (ax_time env) (id_tenant_id p) ''answer'' 1)\<lparr>cr_trace_id := cid\<rparr>) (an_cost st2))"
  using assms(1)
proof (cases rule: answer_cases)
  case (tool t ans reason)
  with assms(2) show thesis by simp
next
  case (refused status reason route)
  then show thesis by (intro unanswered) simp_all
next
  case rag
  then show thesis
  proof (cases rule: answer_with_rag_cases)
    case budget
    then show thesis by (intro unanswered) simp_all
  next
    case (unretrieved e)
    with retrieve_for_answer_unbilled [OF unretrieved(1)] show thesis by (intro unanswered) simp_all
  next
    case (refused st1 scored reason)
    with retrieve_for_answer_unbilled [OF refused(1)] show thesis by (intro unanswered) simp_all
  next
    case (generating st1 scored ev)
    note spent1 = retrieve_for_answer_unbilled [OF generating(2)]
    from generating(5) show thesis
    proof (cases rule: generate_and_judge_cases)
      case (unreadable e)
      with spent1 show thesis by (intro unanswered) simp_all
    next
      case (failed regions)
      with spent1 show thesis by (intro unanswered) simp_all
    next
      case (generated regions g costs st2)
      note spent2 = charge_generation_unbilled [OF generated(3)]
      from generated(7) show thesis
      proof (cases rule: judge_and_cite_cases)
        case (refused status reason)
        with spent1 spent2 generated(5) show thesis by (intro unanswered) simp_all
      next
        case (raised e)
        with spent1 spent2 generated(5) show thesis by (intro unanswered) simp_all
      next
        case (finished cited a)
        from finished(3) show thesis
        proof (cases rule: finish_cases)
          case few
          with finished(4) spent1 spent2 generated(5) show thesis by (intro unanswered) simp_all
        next
          case ok
          show thesis
            by (rule answered [OF generating(1,2,3) generated(1) finished(1,2) ok(1) finished(4) ok(2,3,4,5), of st2])
              (use ok(8) spent1 spent2 generated(5) in simp_all)
        qed
      qed
    qed
  qed
qed

section \<open>What an answer promises\<close>


lemma model_sees_evidence:
  assumes "answer env p cid pr q col iq st = (st', out)"
  shows "an_calls st' = an_calls st \<or>
     (\<exists>ev call. an_calls st' = an_calls st @ [call] \<and>
        (\<forall>s\<in>set ev. admitted env p st s \<and>
           pr_score_threshold pr \<le> sc_retrieval_score s \<and>
           citation_still_visible (wv_acl (ax_recheck env)) p (sc_chunk s) (document_of (ax_recheck env) (sc_chunk s))) \<and>
        int (length ev) \<le> max 0 (pr_max_context_chunks pr) \<and>
        sum_list (map chunk_cost ev) \<le> max 0 (pr_max_context_tokens pr) \<and>
        \<not> would_exceed (id_tenant_id p) 1 (an_cost st) \<and> \<not> iv_detected (inspect (ax_ucd env) q) \<and>
        (call = TextCall q (generation_context (ax_ucd env) (ax_settings env) ev) \<or>
         (\<exists>regions scope. call = VisualCall q regions scope \<and>
            visual_regions (ax_parsers env) (generation_context (ax_ucd env) (ax_settings env) ev) = Inr regions)))"
  (is "?same \<or> ?called")
  using assms
proof (cases rule: answer_cases)
  case rag
  then show ?thesis
  proof (cases rule: answer_with_rag_cases)
    case (generating st1 scored ev)
    note frame = retrieve_frames(1) [OF generating(2)]
    let ?ctx = "generation_context (ax_ucd env) (ax_settings env) ev"
    have called: ?called
      if calls: "an_calls st' = an_calls st1 @ [fst (generate_text env pr q ?ctx regions)]"
        and regions: "visual_regions (ax_parsers env) ?ctx = Inr regions" for regions
    proof (intro exI [of _ ev] exI [of _ "fst (generate_text env pr q ?ctx regions)"] conjI ballI)
      show "an_calls st' = an_calls st @ [fst (generate_text env pr q ?ctx regions)]" using calls frame by simp
      fix s assume s: "s \<in> set ev"
      note stage = evidence_stage_sound(1) [OF generating(3) s]
      from stage retrieved_for_answer [OF generating(2)]
      show "admitted env p st s" by blast
      from stage show "pr_score_threshold pr \<le> sc_retrieval_score s"
        "citation_still_visible (wv_acl (ax_recheck env)) p (sc_chunk s) (document_of (ax_recheck env) (sc_chunk s))"
        by blast+
    next
      show "fst (generate_text env pr q ?ctx regions) = TextCall q ?ctx \<or>
         (\<exists>regions' scope. fst (generate_text env pr q ?ctx regions) = VisualCall q regions' scope \<and>
            visual_regions (ax_parsers env) ?ctx = Inr regions')"
        using regions by (auto simp: generate_text_def Let_def split: option.split)
    qed (rule evidence_stage_sound(2,3) [OF generating(3)] generating(1,4))+
    from generating(5) show ?thesis
    proof (cases rule: generate_and_judge_cases)
      case (unreadable e)
      with frame show ?thesis by simp
    next
      case (failed regions)
      with called show ?thesis by blast
    next
      case (generated regions g costs st2)
      from generated(7) have "an_calls st' = an_calls st2"
      proof (cases rule: judge_and_cite_cases)
        case (finished cited a)
        from finished(3) show ?thesis by (cases rule: finish_cases) simp_all
      qed simp_all
      with generated(1,4) called show ?thesis by metis
    qed
  qed (use retrieve_frames(1) in auto)
qed simp_all




section \<open>Audit\<close>

definition audited :: "ucd \<Rightarrow> identity_claims \<Rightarrow> string \<Rightarrow> answer_record \<Rightarrow> audit_event \<Rightarrow> bool" where
  "audited U p cid a e \<longleftrightarrow>
     ae_tenant_id e = id_tenant_id p \<and> ae_actor_id e = id_user_id p \<and> ae_correlation_id e = cid \<and>
     ae_action e = ''answer'' \<and> ae_decision e = pii_redact U (ans_status a) \<and> ae_chunk_ids e = ans_used_chunks a"

lemma audit_appends:
  assumes "an_audit st = Some sink"
  shows "\<exists>e. an_audit (audit_answer env p cid d r docs cs st) = Some (sink @ [e]) \<and> ae_tenant_id e = id_tenant_id p \<and>
     ae_actor_id e = id_user_id p \<and> ae_correlation_id e = cid \<and> ae_action e = ''answer'' \<and>
     ae_decision e = pii_redact (ax_ucd env) d \<and> ae_chunk_ids e = cs"
  using assms by (auto simp: audit_answer_def sink_record_def sanitize_audit_event_def Let_def)

definition audited_since :: "ucd \<Rightarrow> identity_claims \<Rightarrow> string \<Rightarrow> answer_record \<Rightarrow> audit_sink \<Rightarrow> answer_state \<Rightarrow> bool" where
  "audited_since U p cid a sink st \<longleftrightarrow> (\<exists>mid e. an_audit st = Some (sink @ mid @ [e]) \<and> audited U p cid a e)"

lemma audited_sinceI:
  assumes "an_audit st = Some (sink @ mid)" "st' = audit_answer env p cid (ans_status a) r docs (ans_used_chunks a) st"
  shows "audited_since (ax_ucd env) p cid a sink st'"
  using audit_appends [OF assms(1), of env p cid "ans_status a" r docs "ans_used_chunks a"] assms(2)
  by (auto simp: audited_since_def audited_def)

text \<open>C18: Every answer leaves a trace: when an audit sink is wired, an outcome that is an answer, refusals and those of
  the structured tool included, appends events to the sink, keeps the earlier ones, and the last event names
  the caller, the correlation id, the chunks of the answer and its status (redacted like every stored text).\<close>

theorem every_answer_audited:
  assumes "answer env p cid pr q col iq st = (st', Inr a)" and sink: "an_audit st = Some sink"
  shows "audited_since (ax_ucd env) p cid a sink st'"
  using assms(1)
proof (cases rule: answer_cases)
  case (tool tool ans reason)
  with sink show ?thesis by (intro audited_sinceI [of st sink "[]"]) auto
next
  case (refused status reason route)
  with sink show ?thesis by (intro audited_sinceI [of st sink "[]"]) (auto simp: refusal_answer_def)
next
  case rag
  then show ?thesis
  proof (cases rule: answer_with_rag_cases)
    case budget
    with sink show ?thesis by (intro audited_sinceI [of st sink "[]"]) (auto simp: refusal_answer_def)
  next
    case (unretrieved e)
    then show ?thesis by simp
  next
    case (refused st1 scored reason)
    with sink retrieve_frames(2) [OF refused(1)] show ?thesis
      by (intro audited_sinceI [of st1 sink "[]"]) (auto simp: refusal_answer_def)
  next
    case (generating st1 scored ev)
    from sink retrieve_frames(2) [OF generating(2)] have sink1: "an_audit st1 = Some sink" by simp
    from generating(5) show ?thesis
    proof (cases rule: generate_and_judge_cases)
      case (generated regions g costs st2)
      from generated(6) sink1 audit_appends [OF sink1, of env p cid] obtain mid where
        sink2: "an_audit st2 = Some (sink @ mid)" by (metis append_Nil2)
      from generated(7) show ?thesis
      proof (cases rule: judge_and_cite_cases)
        case (refused status reason)
        with sink2 show ?thesis by (intro audited_sinceI [of st2 sink mid]) (auto simp: refusal_answer_def)
      next
        case (finished cited b)
        from finished(3) show ?thesis
        proof (cases rule: finish_cases)
          case few
          with finished(4) sink2 show ?thesis by (intro audited_sinceI [of st2 sink mid]) (auto simp: refusal_answer_def)
        next
          case ok
          have "a = b" using finished(4) by simp
          from ok(8) [folded ok(2,4), folded this] sink2 show ?thesis
            by (elim audited_sinceI [rotated]) simp
        qed
      qed simp
    qed simp_all
  qed
qed

text \<open>A stored point index of 0 is cited as -1, "no point": 0 is falsy.\<close>

lemma point_index_zero_lost:
  "citation_of np s doc verified verdicts = Inr ct \<Longrightarrow> dget (c_metadata (sc_chunk s)) ''point_index'' = Some (PInt 0) \<Longrightarrow>
     ci_point_index ct = - 1"
  by (auto simp: citation_of_def Let_def rbind_Inr_iff get_or_def py_or_def int_of_def split: option.splits)

text \<open>With promotion, at most the configured number of visual citations of an answer count as verified.\<close>

lemma verified_citations_bounded:
  "cite_loop env p g a 0 ev = Inr cs \<Longrightarrow> vs_visual_evidence_promotion (ax_settings env) \<Longrightarrow>
     int (length (filter (\<lambda>x. ci_pixel_derived (cd_citation x) \<and> ci_visual_evidence_verified (cd_citation x)) cs)) \<le>
       max 0 (vs_max_regions_verified_per_answer (ax_settings env))"
  using cite_loop_budget [where n = 0] by simp

section \<open>One answer, from the question to the citation\<close>

definition sample_document :: document where
  "sample_document =
     \<lparr>d_tenant_id = ''t1'', d_collection_id = ''col'', d_document_id = ''d1'', d_source_id = ''src'', d_version = 3,
      d_checksum = [], d_metadata = [], d_created_at = [], d_updated_at = [], d_indexed_at = ''now'',
      d_tombstone = False\<rparr>"

definition sample_world :: world_view where
  "sample_world =
     \<lparr>wv_get_document = (\<lambda>t d. if d = ''d1'' then Some sample_document else None), wv_acl = sample_policy\<rparr>"

definition sample_parsers :: number_parsers where
  "sample_parsers = \<lparr>np_int = (\<lambda>_. None), np_float = (\<lambda>_. None), np_repr = (\<lambda>_. [])\<rparr>"

definition sample_llm :: llm_provider where
  "sample_llm = \<lparr>lp_ident = 0, lp_model = ''m'', lp_generate = (\<lambda>q ctx. Inr ''pump ok'')\<rparr>"

definition sample_answer_env :: answer_env where
  "sample_answer_env =
     \<lparr>ax_retrieval = sample_env, ax_preselected = None, ax_charges_embedding = True, ax_llm = sample_llm, ax_llm_by_model = [],
      ax_vlm = None, ax_guardrail = Some (\<lambda>t. Inr \<lparr>gv_action = ''ALLOW'', gv_reason = PNone\<rparr>),
      ax_structured_tool = None, ax_settings = sample_settings, ax_verifiers = [], ax_parsers = sample_parsers,
      ax_nfkc = (\<lambda>s. s), ax_recheck = sample_world, ax_citing = sample_world\<rparr>"

definition sample_answer_state :: answer_state where
  "sample_answer_state =
     \<lparr>an_retrieval = sample_retrieval, an_cost = set_budget ''t1'' (Some 5) (new_costs None), an_audit = Some [],
      an_calls = []\<rparr>"

definition sample_hit :: scored_chunk where
  "sample_hit = \<lparr>sc_chunk = sample_chunk, sc_retrieval_score = 1\<rparr>"

lemma sample_route: "classify_structured_query ucd_jp ''state'' False = rag_route"
  by code_simp

lemma sample_inspected: "\<not> iv_detected (inspect ucd_jp ''state'')"
  by code_simp

lemma sample_stage:
  "evidence_stage ucd_jp sample_world sample_caller ''state'' default_profile [sample_hit] = Inr [sample_hit]"
  by code_simp

lemma sample_clean: "\<not> iv_detected (inspect ucd_jp ''pump ok'')"
  by code_simp

lemma sample_neutral: "neutralize ucd_jp ''pump ok'' = (''pump ok'', 0)"
proof -
  have zero: "snd (neutralize ucd_jp ''pump ok'') = 0"
    using neutralize_count [of ucd_jp "''pump ok''"] sample_clean by simp
  then show ?thesis by (auto simp: neutralize_def Let_def split: if_splits)
qed

lemma sample_context:
  "generation_context ucd_jp sample_settings [sample_hit] = [sample_chunk]"
  "context_injections ucd_jp sample_settings [sample_hit] = 0"
  by (simp_all add: generation_context_def context_injections_def context_chunk_def chunk_for_generation_def
      sample_hit_def sample_chunk_def sample_neutral Let_def)

lemma sample_regions: "visual_regions sample_parsers [sample_chunk] = Inr []"
  by code_simp

text \<open>The service of the sample, over the stored corpus or over preselected evidence.\<close>

definition sample_service :: "scored_chunk list option \<Rightarrow> answer_env" where
  "sample_service pre = sample_answer_env\<lparr>ax_preselected := pre\<rparr>"

lemma sample_service_None: "sample_service None = sample_answer_env"
  by (simp add: sample_service_def sample_answer_env_def)

lemma sample_refusal:
  "text_refusal (sample_service pre) default_profile False ''pump'' [sample_chunk] ''pump ok'' = None"
  by code_simp

lemma sample_cited:
  "case cite_loop (sample_service pre) sample_caller ''pump ok'' (attribution_of ucd_jp ''state'' ''pump ok'' [sample_hit])
     0 [sample_hit] of Inl e \<Rightarrow> False
   | Inr cs \<Rightarrow> map (\<lambda>x. let c = cd_citation x in (ci_kind c, ci_document_id c, ci_metadata c)) cs = [(''text'', ''d1'', [])]"
  by code_simp

lemma retrieve_ignores_cost:
  "snd (retrieve env p q pr cid (rs\<lparr>rs_cost := c\<rparr>)) = snd (retrieve env p q pr cid' rs)"
  by (simp add: retrieve_outcome split: sum.split)

lemma sample_retrieved:
  "\<exists>st1. retrieve_for_answer sample_answer_env sample_caller ''state'' default_profile cid sample_answer_state =
     (st1, Inr [sample_hit])"
  using sample_hits retrieve_ignores_cost [where rs = sample_retrieval and cid' = "''c''"]
  by (simp add: retrieve_for_answer_def sample_answer_env_def sample_answer_state_def sample_hit_def Let_def split_def)

lemma sample_answer_run:
  assumes st1: "retrieve_for_answer (sample_service pre) sample_caller ''state'' default_profile cid st = (st1, Inr [sample_hit])"
    and budget: "\<not> would_exceed ''t1'' 1 (an_cost st)"
  shows "\<exists>st' a. answer (sample_service pre) sample_caller cid default_profile ''state'' None (Some ''pump'') st =
     (st', Inr a) \<and> ans_status a = status_ok \<and>
     map (\<lambda>c. (ci_kind c, ci_document_id c, ci_metadata c)) (ans_citations a) = [(''text'', ''d1'', [])]"
proof -
  have env: "ax_ucd (sample_service pre) = ucd_jp" "ax_structured_tool (sample_service pre) = None"
    "ax_recheck (sample_service pre) = sample_world" "ax_settings (sample_service pre) = sample_settings"
    "ax_parsers (sample_service pre) = sample_parsers" "ax_vlm (sample_service pre) = None"
    by (simp_all add: sample_service_def sample_answer_env_def ax_ucd_def sample_env_def)
  have tenant: "id_tenant_id sample_caller = ''t1''" by (simp add: sample_caller_def)
  have gen: "generate_text (sample_service pre) default_profile ''state'' [sample_chunk] [] =
      (TextCall ''state'' [sample_chunk], Inr ''pump ok'')"
    by (simp add: generate_text_def visual_model_def resolve_llm_def sample_service_def sample_answer_env_def sample_llm_def)
  obtain costs where costs: "charge_generation (sample_service pre) sample_caller cid default_profile ''state'' [sample_chunk]
      [] ''pump ok'' (an_cost st1) = Inr costs" using charge_generation_total by blast
  obtain cs where cs: "cite_loop (sample_service pre) sample_caller ''pump ok''
      (attribution_of ucd_jp ''state'' ''pump ok'' [sample_hit]) 0 [sample_hit] = Inr cs"
      "map (\<lambda>x. let c = cd_citation x in (ci_kind c, ci_document_id c, ci_metadata c)) cs = [(''text'', ''d1'', [])]"
    using sample_cited [of pre] by (auto split: sum.splits)
  have count: "length cs = 1" using cs(2) by (auto simp: map_eq_Cons_conv)
  have min: "pr_minimum_evidence_count default_profile = 1" by (simp add: default_profile_def)
  obtain st2 where st2: "generate_and_judge (sample_service pre) sample_caller cid default_profile ''state'' (Some ''pump'')
      [sample_hit] st1 = judge_and_cite (sample_service pre) sample_caller cid default_profile ''state'' (Some ''pump'')
      [sample_hit] [sample_chunk] False ''pump ok'' st2"
    using gen costs by (simp add: generate_and_judge_def env sample_context sample_regions visual_model_def Let_def)
  obtain st' a where fin: "finish_answer (sample_service pre) sample_caller cid default_profile [sample_hit] ''pump ok'' cs st2 =
      (st', a)" by fastforce
  have "ans_status a = status_ok \<and>
      map (\<lambda>c. (ci_kind c, ci_document_id c, ci_metadata c)) (ans_citations a) = [(''text'', ''d1'', [])]"
    using fin cs(2) count min by (auto simp: finish_answer_def Let_def split: prod.splits if_splits)
  moreover have "answer (sample_service pre) sample_caller cid default_profile ''state'' None (Some ''pump'')
      st = (st', Inr a)"
    using st1 st2 fin cs(1) budget
    by (simp add: answer_def env tenant sample_route rag_route_def requires_tool_def answer_with_rag_def sample_stage
        sample_inspected judge_and_cite_def sample_refusal Let_def)
  ultimately show ?thesis by (intro exI [of _ st'] exI [of _ a]) simp
qed

lemma sample_budget: "\<not> would_exceed ''t1'' 1 (an_cost sample_answer_state)"
  by (simp add: would_exceed_def sample_answer_state_def set_budget_def new_costs_def tenant_spent_def)

lemma sample_answered:
  "\<exists>st' a. answer sample_answer_env sample_caller ''c'' default_profile ''state'' None (Some ''pump'') sample_answer_state =
     (st', Inr a) \<and> ans_status a = status_ok \<and> length (ans_citations a) = 1"
proof -
  obtain st1 where "retrieve_for_answer sample_answer_env sample_caller ''state'' default_profile ''c''
      sample_answer_state = (st1, Inr [sample_hit])" using sample_retrieved by blast
  from sample_answer_run [of None, unfolded sample_service_None, OF this sample_budget] show ?thesis
    by (metis (no_types, lifting) length_map length_Cons list.size(3) One_nat_def)
qed





theorem every_answer_audited_witness:
  "\<exists>a st'. answer sample_answer_env sample_caller ''c'' default_profile ''state'' None (Some ''pump'') sample_answer_state =
     (st', Inr a) \<and> audited_since ucd_jp sample_caller ''c'' a [] st'"
proof -
  obtain st' a where a: "answer sample_answer_env sample_caller ''c'' default_profile ''state'' None (Some ''pump'')
      sample_answer_state = (st', Inr a)" using sample_answered by blast
  have "an_audit sample_answer_state = Some []" "ax_ucd sample_answer_env = ucd_jp"
    by (simp_all add: sample_answer_state_def sample_answer_env_def ax_ucd_def sample_env_def)
  with every_answer_audited [OF a] a show ?thesis by auto
qed

end
