(* ===== verification/HighRisk.thy ===== *)
theory HighRisk
  imports TextTokens MfgMetadata AuditLog
begin

text \<open>
  The danger classifier of \<open>manufacturing/safety/classifier.py\<close>: metadata tags, keywords (with the
  vocabulary a tenant adds), the semantic classifier of the production profile, and the fail-safe for terse
  queries. The language model, the semantic classifier and JSON decoding are arguments.
\<close>

section \<open>Vocabulary\<close>

definition danger_keywords :: "(string \<times> string list) list" where
  "danger_keywords =
     [(''equipment_stop'',
       [''stop the'', ''stop line'', ''stop machine'', ''shut down'', ''shutdown'', ''halt'',
        [CHR 0xE5, CHR 0x81, CHR 0x9C, CHR 0xE6, CHR 0xAD, CHR 0xA2],
        [CHR 0xE6, CHR 0xAD, CHR 0xA2, CHR 0xE3, CHR 0x82, CHR 0x81], ''non-stop'', ''clear a jam'',
        ''clear the jam'']),
      (''disassembly'',
       [''disassemble'', ''dismantle'', ''take apart'', ''remove the guard'', ''removing any guard'',
        ''remove guard'', [CHR 0xE5, CHR 0x88, CHR 0x86, CHR 0xE8, CHR 0xA7, CHR 0xA3],
        [CHR 0xE5, CHR 0x8F, CHR 0x96, CHR 0xE3, CHR 0x82, CHR 0x8A, CHR 0xE5, CHR 0xA4, CHR 0x96],
        [CHR 0xE5, CHR 0x8F, CHR 0x96, CHR 0xE5, CHR 0xA4, CHR 0x96]]),
      (''electric_shock'',
       [''electrocut'', ''electric shock'', ''live wire'', ''energized'', ''electrical panel'',
        ''electric panel'', ''energized panel'', ''400v'', ''200v'',
        [CHR 0xE9, CHR 0xAB, CHR 0x98, CHR 0xE9, CHR 0x9B, CHR 0xBB, CHR 0xE5, CHR 0x9C, CHR 0xA7],
        [CHR 0xE6, CHR 0x84, CHR 0x9F, CHR 0xE9, CHR 0x9B, CHR 0xBB],
        [CHR 0xE9, CHR 0x80, CHR 0x9A, CHR 0xE9, CHR 0x9B, CHR 0xBB],
        [CHR 0xE5, CHR 0x85, CHR 0x85, CHR 0xE9, CHR 0x9B, CHR 0xBB, CHR 0xE9, CHR 0x83, CHR 0xA8],
        ''voltage panel'', ''v panel'']),
      (''high_temp'',
       [''hot'', ''furnace'', ''high temp'', ''high-temp'', ''molten'', ''burn'',
        [CHR 0xE9, CHR 0xAB, CHR 0x98, CHR 0xE6, CHR 0xB8, CHR 0xA9],
        [CHR 0xE3, CHR 0x82, CHR 0x84, CHR 0xE3, CHR 0x81, CHR 0x91, CHR 0xE3, CHR 0x81, CHR 0xA9],
        [CHR 0xE7, CHR 0x82, CHR 0x89]]),
      (''pressure'',
       [''pressure'', ''hydraulic'', ''pneumatic'', ''accumulator'', ''compressed'',
        [CHR 0xE9, CHR 0xAB, CHR 0x98, CHR 0xE5, CHR 0x9C, CHR 0xA7],
        [CHR 0xE5, CHR 0x9C, CHR 0xA7, CHR 0xE5, CHR 0x8A, CHR 0x9B],
        [CHR 0xE8, CHR 0x93, CHR 0x84, CHR 0xE5, CHR 0x9C, CHR 0xA7]]),
      (''chemical'',
       [''chemical'', ''solvent'', ''acid'', ''corros'', ''toxic'', ''spill'',
        [CHR 0xE8, CHR 0x96, CHR 0xAC, CHR 0xE5, CHR 0x93, CHR 0x81],
        [CHR 0xE5, CHR 0x8C, CHR 0x96, CHR 0xE5, CHR 0xAD, CHR 0xA6],
        [CHR 0xE6, CHR 0xBA, CHR 0xB6, CHR 0xE5, CHR 0x89, CHR 0xA4],
        [CHR 0xE8, CHR 0x85, CHR 0x90, CHR 0xE9, CHR 0xA3, CHR 0x9F]]),
      (''heavy_object'',
       [''heavy'', ''crane'', ''hoist'', ''lift the'', ''lifting'', ''die with the crane'',
        [CHR 0xE9, CHR 0x87, CHR 0x8D, CHR 0xE9, CHR 0x87, CHR 0x8F, CHR 0xE7, CHR 0x89, CHR 0xA9],
        [CHR 0xE5, CHR 0x90, CHR 0x8A, CHR 0xE3, CHR 0x82, CHR 0x8A],
        [CHR 0xE7, CHR 0x8E, CHR 0x89, CHR 0xE6, CHR 0x8E, CHR 0x9B],
        [CHR 0xE3, CHR 0x82, CHR 0xAF, CHR 0xE3, CHR 0x83, CHR 0xAC, CHR 0xE3, CHR 0x83, CHR 0xBC, CHR 0xE3, CHR 0x83, CHR 0xB3]]),
      (''safety_device'',
       [''safety interlock'', ''interlock'', ''light curtain'', ''bypass the safety'', ''bypass safety'',
        ''guard'', ''emergency stop'', ''e-stop'',
        [CHR 0xE5, CHR 0xAE, CHR 0x89, CHR 0xE5, CHR 0x85, CHR 0xA8, CHR 0xE8, CHR 0xA3, CHR 0x85, CHR 0xE7, CHR 0xBD, CHR 0xAE],
        [CHR 0xE3, CHR 0x82, CHR 0xA4, CHR 0xE3, CHR 0x83, CHR 0xB3, CHR 0xE3, CHR 0x82, CHR 0xBF, CHR 0xE3, CHR 0x83, CHR 0xBC, CHR 0xE3, CHR 0x83, CHR 0xAD, CHR 0xE3, CHR 0x83, CHR 0x83, CHR 0xE3, CHR 0x82, CHR 0xAF],
        [CHR 0xE3, CHR 0x83, CHR 0xA9, CHR 0xE3, CHR 0x82, CHR 0xA4, CHR 0xE3, CHR 0x83, CHR 0x88, CHR 0xE3, CHR 0x82, CHR 0xAB, CHR 0xE3, CHR 0x83, CHR 0xBC, CHR 0xE3, CHR 0x83, CHR 0x86, CHR 0xE3, CHR 0x83, CHR 0xB3],
        [CHR 0xE9, CHR 0x9D, CHR 0x9E, CHR 0xE5, CHR 0xB8, CHR 0xB8, CHR 0xE5, CHR 0x81, CHR 0x9C, CHR 0xE6, CHR 0xAD, CHR 0xA2],
        ''bypass'']),
      (''quality_judgment'',
       [''judge this'', ''quality pass'', ''quality judgement'', ''quality judgment'', ''defect'',
        ''out of spec'', ''tolerance'', [CHR 0xE5, CHR 0x90, CHR 0x88, CHR 0xE5, CHR 0x90, CHR 0xA6],
        [CHR 0xE8, CHR 0x89, CHR 0xAF, CHR 0xE5, CHR 0x90, CHR 0xA6],
        [CHR 0xE5, CHR 0x93, CHR 0x81, CHR 0xE8, CHR 0xB3, CHR 0xAA, CHR 0xE5, CHR 0x88, CHR 0xA4, CHR 0xE5, CHR 0xAE, CHR 0x9A],
        [CHR 0xE8, CHR 0xA6, CHR 0x8F, CHR 0xE6, CHR 0xA0, CHR 0xBC, CHR 0xE5, CHR 0xA4, CHR 0x96],
        [CHR 0xE4, CHR 0xB8, CHR 0x8D, CHR 0xE8, CHR 0x89, CHR 0xAF]]),
      (''shipment_decision'',
       [''ship this'', ''ship the'', ''shipment'', ''deviation'', ''release to customer'',
        [CHR 0xE5, CHR 0x87, CHR 0xBA, CHR 0xE8, CHR 0x8D, CHR 0xB7],
        [CHR 0xE5, CHR 0xAE, CHR 0xA2, CHR 0xE5, CHR 0x85, CHR 0x88], ''deviate'']),
      (''customer_impact'',
       [''customer impact'', ''customer complaint'', ''recall'',
        [CHR 0xE9, CHR 0xA1, CHR 0xA7, CHR 0xE5, CHR 0xAE, CHR 0xA2, CHR 0xE5, CHR 0xBD, CHR 0xB1, CHR 0xE9, CHR 0x9F, CHR 0xBF],
        [CHR 0xE3, CHR 0x82, CHR 0xAF, CHR 0xE3, CHR 0x83, CHR 0xAC, CHR 0xE3, CHR 0x83, CHR 0xBC, CHR 0xE3, CHR 0x83, CHR 0xA0],
        [CHR 0xE3, CHR 0x83, CHR 0xAA, CHR 0xE3, CHR 0x82, CHR 0xB3, CHR 0xE3, CHR 0x83, CHR 0xBC, CHR 0xE3, CHR 0x83, CHR 0xAB]]),
      (''corrective_action'',
       [''corrective action'', ''corrective'', ''after the safety incident'', ''incident'', ''root cause'',
        [CHR 0xE6, CHR 0x98, CHR 0xAF, CHR 0xE6, CHR 0xAD, CHR 0xA3],
        [CHR 0xE5, CHR 0x86, CHR 0x8D, CHR 0xE7, CHR 0x99, CHR 0xBA, CHR 0xE9, CHR 0x98, CHR 0xB2, CHR 0xE6, CHR 0xAD, CHR 0xA2],
        [CHR 0xE5, CHR 0xAF, CHR 0xBE, CHR 0xE7, CHR 0xAD, CHR 0x96],
        [CHR 0xE4, CHR 0xBA, CHR 0x8B, CHR 0xE6, CHR 0x95, CHR 0x85, CHR 0xE5, CHR 0xBE, CHR 0x8C]]),
      (''physical_intervention'',
       [''reach into'', ''reach in to'', ''by hand'', ''bare hand'', ''with bare hands'', ''manually'',
        ''inner housing'', ''open the housing'', ''open the inner'', ''remove the cover'',
        ''without the cover'', ''without cover'', ''without the guard'', ''without a guard'', ''moving roller'',
        ''moving part'', ''while running'', ''while in motion'', ''in motion'', ''clear the blockage'',
        ''run the cycle'', ''restart the cycle'', ''start the cycle'', ''run the machine'',
        ''start the machine'', [CHR 0xE6, CHR 0x89, CHR 0x8B, CHR 0xE3, CHR 0x81, CHR 0xA7],
        [CHR 0xE7, CHR 0xB4, CHR 0xA0, CHR 0xE6, CHR 0x89, CHR 0x8B],
        [CHR 0xE6, CHR 0x89, CHR 0x8B, CHR 0xE5, CHR 0x8B, CHR 0x95],
        [CHR 0xE3, CHR 0x82, CHR 0xAB, CHR 0xE3, CHR 0x83, CHR 0x90, CHR 0xE3, CHR 0x83, CHR 0xBC, CHR 0xE3, CHR 0x82, CHR 0x92, CHR 0xE5, CHR 0xA4, CHR 0x96],
        [CHR 0xE3, CHR 0x82, CHR 0xAC, CHR 0xE3, CHR 0x83, CHR 0xBC, CHR 0xE3, CHR 0x83, CHR 0x89, CHR 0xE3, CHR 0x82, CHR 0x92, CHR 0xE5, CHR 0xA4, CHR 0x96],
        [CHR 0xE7, CHR 0xA8, CHR 0xBC, CHR 0xE5, CHR 0x83, CHR 0x8D, CHR 0xE4, CHR 0xB8, CHR 0xAD],
        [CHR 0xE5, CHR 0x8F, CHR 0xAF, CHR 0xE5, CHR 0x8B, CHR 0x95, CHR 0xE9, CHR 0x83, CHR 0xA8],
        [CHR 0xE5, CHR 0x9B, CHR 0x9E, CHR 0xE8, CHR 0xBB, CHR 0xA2, CHR 0xE4, CHR 0xB8, CHR 0xAD]])]"

definition high_risk_metadata_fields :: "string list" where
  "high_risk_metadata_fields =
     [''safety_category'', ''quality_category'', ''equipment_operation_category'', ''process_id'',
      ''equipment_id'']"

definition ambiguous_min_tokens :: nat where "ambiguous_min_tokens = 3"

definition semantic_confidence_threshold :: rat where "semantic_confidence_threshold = 80 / 100"

section \<open>The metadata stage\<close>

text \<open>\<open>getattr(meta, field)\<close> for the fields of the list.\<close>

definition category_field :: "mfg_metadata \<Rightarrow> string \<Rightarrow> pyval" where
  "category_field m f = py_get (to_mapping m) f"

text \<open>\<open>if code not in codes: codes.append(code)\<close>.\<close>

definition add_code :: "string \<Rightarrow> string list \<Rightarrow> string list" where
  "add_code code codes = (if code \<in> set codes then codes else codes @ [code])"

definition metadata_codes_of :: "mfg_metadata \<Rightarrow> string list" where
  "metadata_codes_of m =
     (if mm_hazard_tags m = [] then [] else [''hazard_tag'']) @
     map (\<lambda>f. ''metadata:'' @ f) (filter (\<lambda>f. py_truthy (category_field m f)) high_risk_metadata_fields)"

definition metadata_reason_codes :: "mfg_metadata list \<Rightarrow> string list" where
  "metadata_reason_codes metas = fold add_code (concat (map metadata_codes_of metas)) []"

section \<open>The keyword stage\<close>

text \<open>A tenant's words are appended to the built-in ones of the same code.\<close>

definition merge_keywords :: "string \<times> string list \<Rightarrow> (string, string list) dict \<Rightarrow> (string, string list) dict" where
  "merge_keywords e d =
     dset (fst e) ((case dget d (fst e) of None \<Rightarrow> [] | Some ks \<Rightarrow> ks) @ map py_lower (filter (\<lambda>k. k \<noteq> []) (snd e))) d"

definition merged_keywords :: "(string, string list) dict \<Rightarrow> (string, string list) dict" where
  "merged_keywords extra = fold merge_keywords extra danger_keywords"

definition intent_reason_codes :: "string \<Rightarrow> (string, string list) dict \<Rightarrow> string list" where
  "intent_reason_codes haystack extra =
     map fst (filter (\<lambda>(code, ks). \<exists>k\<in>set ks. str_contains k haystack) (merged_keywords extra))"

definition intent_haystack :: "string \<Rightarrow> string option \<Rightarrow> string" where
  "intent_haystack query hint = py_lower (query @ '' '' @ (case hint of None \<Rightarrow> [] | Some h \<Rightarrow> h))"

section \<open>The semantic stage\<close>

datatype semantic_answer = Verdict high_risk_classification | Answered pydict | Unreadable

type_synonym semantic_classifier = "string \<Rightarrow> mfg_metadata list \<Rightarrow> string option \<Rightarrow> semantic_answer result"

definition high_risk_by :: "classification_source \<Rightarrow> string list \<Rightarrow> high_risk_classification" where
  "high_risk_by src codes =
     \<lparr>hr_is_high_risk = True, hr_reason_codes = codes, hr_classification_source = Some src\<rparr>"

text \<open>\<open>tuple(str(code) for code in raw.get("reason_codes") or ())\<close>; what is not iterable raises.\<close>

definition listed_codes :: "pyval \<Rightarrow> string list result" where
  "listed_codes v =
     (if \<not> py_truthy v then Inr []
      else case v of
             PList vs \<Rightarrow> Inr (map py_str vs)
           | PStr s \<Rightarrow> Inr (utf8_chars s)
           | PDict d \<Rightarrow> Inr (map fst d)
           | _ \<Rightarrow> Inl TypeError)"

text \<open>\<open>_float\<close>: 0 for what cannot be read.\<close>

definition float_or_zero :: "(string \<Rightarrow> rat option) \<Rightarrow> pyval \<Rightarrow> rat" where
  "float_or_zero parse_float v =
     (case v of
        PStr s \<Rightarrow> (case parse_float s of None \<Rightarrow> 0 | Some r \<Rightarrow> r)
      | _ \<Rightarrow> (case py_number v of None \<Rightarrow> 0 | Some r \<Rightarrow> r))"

definition semantic_decision ::
  "(string \<Rightarrow> rat option) \<Rightarrow> rat \<Rightarrow> semantic_answer result \<Rightarrow> high_risk_classification result" where
  "semantic_decision parse_float threshold answered =
     (case answered of
        Inl e \<Rightarrow> Inr (high_risk_by SrcLLM [''semantic_classifier_error''])
      | Inr (Verdict v) \<Rightarrow> Inr v
      | Inr Unreadable \<Rightarrow> Inr (high_risk_by SrcLLM [''semantic_classifier_ambiguous''])
      | Inr (Answered m) \<Rightarrow>
          rbind (listed_codes (py_get m ''reason_codes'')) (\<lambda>codes. Inr (
            if py_get m ''is_high_risk'' = PBool True
            then high_risk_by SrcLLM (if codes = [] then [''semantic_danger''] else codes)
            else if py_get m ''is_high_risk'' = PBool False \<and> threshold \<le> float_or_zero parse_float (py_get m ''confidence'')
            then \<lparr>hr_is_high_risk = False, hr_reason_codes = [], hr_classification_source = Some SrcLLM\<rparr>
            else high_risk_by SrcLLM [''semantic_low_confidence''])))"

text \<open>\<open>LLMSemanticDangerClassifier\<close>: the model is asked for JSON; \<open>dumps\<close> and \<open>loads\<close> are the JSON codec.\<close>

definition meta_summary :: "mfg_metadata list \<Rightarrow> pyval" where
  "meta_summary metas =
     PList (map (\<lambda>m. PDict [(''safety_category'', mm_safety_category m), (''quality_category'', mm_quality_category m),
       (''equipment_id'', mm_equipment_id m), (''hazard_tags'', PList (mm_hazard_tags m))]) metas)"

definition semantic_prompt :: "(pyval \<Rightarrow> string) \<Rightarrow> string \<Rightarrow> mfg_metadata list \<Rightarrow> string option \<Rightarrow> string" where
  "semantic_prompt dumps query metas hint =
     ''Classify whether this manufacturing field request is dangerous/high-risk. '' @
     ''Return ONLY JSON with keys is_high_risk:boolean|null, confidence:number 0..1, '' @
     ''reason_codes:string[]. Treat ambiguous or hands-on equipment work as high-risk.'' @ [CHR 0x0A] @
     ''Query: '' @ query @ [CHR 0x0A] @ ''Intent hint: '' @ (case hint of None \<Rightarrow> [] | Some h \<Rightarrow> h) @ [CHR 0x0A] @
     ''Metadata: '' @ dumps (meta_summary metas)"

definition llm_semantic_classifier ::
  "(string \<Rightarrow> string result) \<Rightarrow> (pyval \<Rightarrow> string) \<Rightarrow> (string \<Rightarrow> pyval option) \<Rightarrow> semantic_classifier" where
  "llm_semantic_classifier ask dumps loads query metas hint =
     rbind (ask (semantic_prompt dumps query metas hint)) (\<lambda>raw.
       case loads raw of
         None \<Rightarrow> Inl ValueError
       | Some (PDict m) \<Rightarrow> Inr (Answered m)
       | Some v \<Rightarrow> Inr Unreadable)"

section \<open>The cascade\<close>

record risk_classifier =
  rk_llm :: "(string \<Rightarrow> string result) option"
  rk_semantic :: "semantic_classifier option"
  rk_threshold :: rat
  rk_parse_float :: "string \<Rightarrow> rat option"

definition is_ambiguous :: "ucd \<Rightarrow> string \<Rightarrow> string option \<Rightarrow> bool" where
  "is_ambiguous U query hint \<longleftrightarrow>
     (case hint of None \<Rightarrow> False | Some h \<Rightarrow> py_lower (py_strip h) = ''ambiguous'') \<or>
     length (content_tokens U query) < ambiguous_min_tokens"

definition tie_break_prompt :: "string \<Rightarrow> string" where
  "tie_break_prompt query =
     ''Is this field-work request clearly NON-dangerous? '' @
     ''Answer SAFE only if certain; otherwise say UNSURE. Query: '' @ query"

definition llm_rules_danger_out :: "risk_classifier \<Rightarrow> string \<Rightarrow> bool" where
  "llm_rules_danger_out k query =
     (case rk_llm k of
        None \<Rightarrow> False
      | Some ask \<Rightarrow>
          (case ask (tie_break_prompt query) of
             Inl e \<Rightarrow> False
           | Inr verdict \<Rightarrow> str_contains ''safe'' (py_lower (py_strip verdict))))"

definition classify ::
  "ucd \<Rightarrow> risk_classifier \<Rightarrow> string \<Rightarrow> mfg_metadata list \<Rightarrow> string option \<Rightarrow> (string, string list) dict \<Rightarrow>
     high_risk_classification result" where
  "classify U k query metas hint extra =
     (let meta_codes = metadata_reason_codes metas;
          intent_codes = intent_reason_codes (intent_haystack query hint) extra;
          codes = fold add_code intent_codes meta_codes
      in if codes \<noteq> [] then Inr (high_risk_by (if meta_codes \<noteq> [] then SrcMETADATA else SrcKEYWORD) codes)
         else case rk_semantic k of
                Some semantic \<Rightarrow> semantic_decision (rk_parse_float k) (rk_threshold k) (semantic query metas hint)
              | None \<Rightarrow>
                  if is_ambiguous U query hint \<and> \<not> llm_rules_danger_out k query
                  then Inr (high_risk_by (if rk_llm k \<noteq> None then SrcLLM else SrcRULE) [''ambiguous''])
                  else Inr \<lparr>hr_is_high_risk = False, hr_reason_codes = [], hr_classification_source = None\<rparr>)"

section \<open>No danger is missed\<close>

lemma set_add_codes: "set (fold add_code xs acc) = set xs \<union> set acc"
  by (induction xs arbitrary: acc) (auto simp: add_code_def)

lemma metadata_reason_codes_Nil:
  "metadata_reason_codes metas = [] \<longleftrightarrow>
     (\<forall>m\<in>set metas. mm_hazard_tags m = [] \<and> (\<forall>f\<in>set high_risk_metadata_fields. \<not> py_truthy (category_field m f)))"
proof -
  have "metadata_reason_codes metas = [] \<longleftrightarrow> set (concat (map metadata_codes_of metas)) = {}"
    by (metis metadata_reason_codes_def set_add_codes set_empty sup_bot.right_neutral)
  also have "\<dots> \<longleftrightarrow> (\<forall>m\<in>set metas. metadata_codes_of m = [])" by auto
  finally show ?thesis by (auto simp: metadata_codes_of_def filter_empty_conv)
qed

text \<open>A word of a code: what a hit looks for.\<close>

definition has_word :: "(string, string list) dict \<Rightarrow> string \<Rightarrow> bool" where
  "has_word d w \<longleftrightarrow> (\<exists>code ks. dget d code = Some ks \<and> w \<in> set ks)"

lemma has_word_merge_keeps: "has_word d w \<Longrightarrow> has_word (merge_keywords e d) w"
proof -
  assume "has_word d w"
  then obtain code ks where "dget d code = Some ks" "w \<in> set ks" unfolding has_word_def by blast
  then show ?thesis
    by (cases "code = fst e") (auto simp: has_word_def merge_keywords_def dget_dset intro!: exI [of _ code])
qed

lemma has_word_merge_adds: "w \<in> set (snd e) \<Longrightarrow> w \<noteq> [] \<Longrightarrow> has_word (merge_keywords e d) (py_lower w)"
  by (auto simp: has_word_def merge_keywords_def dget_dset intro!: exI [of _ "fst e"])

lemma has_word_fold_keeps: "has_word d w \<Longrightarrow> has_word (fold merge_keywords es d) w"
  by (induction es arbitrary: d) (auto simp: has_word_merge_keeps)

lemma has_word_fold_adds:
  "(code, ws) \<in> set es \<Longrightarrow> w \<in> set ws \<Longrightarrow> w \<noteq> [] \<Longrightarrow> has_word (fold merge_keywords es d) (py_lower w)"
proof (induction es arbitrary: d)
  case (Cons e es)
  then show ?case
    using has_word_fold_keeps [OF has_word_merge_adds [of w e d]] by (auto simp: has_word_fold_keeps)
qed simp

lemma wf_merged: "wf_dict d \<Longrightarrow> wf_dict (fold merge_keywords es d)"
  by (induction es arbitrary: d) (auto simp: merge_keywords_def wf_intros)

lemma intent_codes_of_word: "has_word (merged_keywords extra) w \<Longrightarrow> str_contains w h \<Longrightarrow> intent_reason_codes h extra \<noteq> []"
  by (fastforce simp: has_word_def intent_reason_codes_def filter_empty_conv dest: dget_Some_in)

lemma danger_keywords_wf: "wf_dict danger_keywords"
  by code_simp

lemma has_word_builtin: "(code, ks) \<in> set danger_keywords \<Longrightarrow> w \<in> set ks \<Longrightarrow> has_word (merged_keywords extra) w"
  using has_word_fold_keeps [of danger_keywords w extra] in_dget_Some [OF danger_keywords_wf, of code ks]
  by (auto simp: merged_keywords_def has_word_def)

lemma has_word_tenant: "(code, ws) \<in> set extra \<Longrightarrow> w \<in> set ws \<Longrightarrow> w \<noteq> [] \<Longrightarrow> has_word (merged_keywords extra) (py_lower w)"
  by (simp add: merged_keywords_def has_word_fold_adds)

lemma codes_Nil: "fold add_code xs ys = [] \<longleftrightarrow> xs = [] \<and> ys = []"
  by (metis set_add_codes set_empty Un_empty)

text \<open>C13: Whatever is classified as not dangerous was ruled out: no candidate document carries a hazard tag or a safety,
  quality, operation, process or equipment field, neither a built-in keyword nor a keyword of the tenant occurs in
  the query or the hint, and then either the semantic classifier, where one is wired, said so with enough
  confidence, or, where none is, the query is long enough and not hinted ambiguous, or the model answered the
  tie-break with a text that contains "safe". A failing classifier or model never clears a query.\<close>

theorem danger_ruled_out:
  assumes "classify U k query metas hint extra = Inr c" and "\<not> hr_is_high_risk c"
  shows "(\<forall>m\<in>set metas. mm_hazard_tags m = [] \<and>
            (\<forall>f\<in>set high_risk_metadata_fields. \<not> py_truthy (category_field m f))) \<and>
     (\<forall>(code, ks)\<in>set danger_keywords. \<forall>w\<in>set ks. \<not> str_contains w (intent_haystack query hint)) \<and>
     (\<forall>(code, ws)\<in>set extra. \<forall>w\<in>set ws. w \<noteq> [] \<longrightarrow> \<not> str_contains (py_lower w) (intent_haystack query hint)) \<and>
     (case rk_semantic k of
        Some semantic \<Rightarrow>
          (case semantic query metas hint of
             Inr (Verdict v) \<Rightarrow> \<not> hr_is_high_risk v
           | Inr (Answered m) \<Rightarrow> py_get m ''is_high_risk'' = PBool False \<and>
               rk_threshold k \<le> float_or_zero (rk_parse_float k) (py_get m ''confidence'')
           | _ \<Rightarrow> False)
      | None \<Rightarrow> \<not> is_ambiguous U query hint \<or>
          (\<exists>ask v. rk_llm k = Some ask \<and> ask (tie_break_prompt query) = Inr v \<and>
             str_contains ''safe'' (py_lower (py_strip v))))"
proof -
  let ?h = "intent_haystack query hint"
  let ?codes = "fold add_code (intent_reason_codes ?h extra) (metadata_reason_codes metas)"
  have "?codes = []"
    using assms by (auto simp: classify_def Let_def high_risk_by_def split: if_splits)
  then have none: "intent_reason_codes ?h extra = []" "metadata_reason_codes metas = []"
    by (simp_all add: codes_Nil)
  from none(2) have meta: "\<forall>m\<in>set metas. mm_hazard_tags m = [] \<and>
      (\<forall>f\<in>set high_risk_metadata_fields. \<not> py_truthy (category_field m f))"
    by (simp add: metadata_reason_codes_Nil)
  have builtin: "\<forall>(code, ks)\<in>set danger_keywords. \<forall>w\<in>set ks. \<not> str_contains w ?h"
    using intent_codes_of_word [OF has_word_builtin] none(1) by blast
  have tenant: "\<forall>(code, ws)\<in>set extra. \<forall>w\<in>set ws. w \<noteq> [] \<longrightarrow> \<not> str_contains (py_lower w) ?h"
    using intent_codes_of_word [OF has_word_tenant] none(1) by blast
  from assms none have rest: "case rk_semantic k of
        Some semantic \<Rightarrow> semantic_decision (rk_parse_float k) (rk_threshold k) (semantic query metas hint) = Inr c
      | None \<Rightarrow> \<not> (is_ambiguous U query hint \<and> \<not> llm_rules_danger_out k query)"
    by (auto simp: classify_def Let_def high_risk_by_def split: option.splits if_splits)
  have "case rk_semantic k of
        Some semantic \<Rightarrow>
          (case semantic query metas hint of
             Inr (Verdict v) \<Rightarrow> \<not> hr_is_high_risk v
           | Inr (Answered m) \<Rightarrow> py_get m ''is_high_risk'' = PBool False \<and>
               rk_threshold k \<le> float_or_zero (rk_parse_float k) (py_get m ''confidence'')
           | _ \<Rightarrow> False)
      | None \<Rightarrow> \<not> is_ambiguous U query hint \<or>
          (\<exists>ask v. rk_llm k = Some ask \<and> ask (tie_break_prompt query) = Inr v \<and>
             str_contains ''safe'' (py_lower (py_strip v)))"
  proof (cases "rk_semantic k")
    case None
    with rest show ?thesis by (auto simp: llm_rules_danger_out_def split: option.splits sum.splits)
  next
    case (Some semantic)
    with rest assms(2) show ?thesis
      by (auto simp: semantic_decision_def high_risk_by_def rbind_Inr_iff
          split: sum.splits semantic_answer.splits if_splits)
  qed
  with meta builtin tenant show ?thesis by blast
qed

theorem danger_ruled_out_witness:
  "\<not> str_contains ''guard'' (intent_haystack ''parts catalogue revision list'' None) \<and>
   \<not> is_ambiguous ucd_jp ''parts catalogue revision list'' None"
proof -
  let ?k = "\<lparr>rk_llm = None, rk_semantic = None, rk_threshold = semantic_confidence_threshold, rk_parse_float = \<lambda>_. None\<rparr>"
  let ?c = "\<lparr>hr_is_high_risk = False, hr_reason_codes = [], hr_classification_source = None\<rparr>"
  have "classify ucd_jp ?k ''parts catalogue revision list'' [] None [] = Inr ?c" by code_simp
  note ruled = danger_ruled_out [OF this]
  have "(''safety_device'', the (dget danger_keywords ''safety_device'')) \<in> set danger_keywords"
    "''guard'' \<in> set (the (dget danger_keywords ''safety_device''))" by code_simp+
  with ruled show ?thesis by (auto split: option.splits)
qed

section \<open>What the cascade lets through\<close>

text \<open>The tie-break looks for the letters "safe": a model that answers UNSAFE clears the query.\<close>

lemma unsafe_clears_query: "rk_llm k = Some (\<lambda>prompt. Inr ''UNSAFE'') \<Longrightarrow> llm_rules_danger_out k query"
proof -
  have "str_contains ''safe'' (py_lower (py_strip ''UNSAFE''))" by code_simp
  then show "rk_llm k = Some (\<lambda>prompt. Inr ''UNSAFE'') \<Longrightarrow> llm_rules_danger_out k query"
    by (simp add: llm_rules_danger_out_def)
qed

text \<open>Reason codes that are not a sequence escape as an exception instead of failing safe.\<close>

lemma semantic_codes_raise:
  "py_get m ''reason_codes'' = PInt 5 \<Longrightarrow> semantic_decision parse_float t (Inr (Answered m)) = Inl TypeError"
  by (simp add: semantic_decision_def listed_codes_def)

end
