(* ===== verification/MfgAnswer.thy ===== *)
theory MfgAnswer
  imports Answer HighRisk SafetyGate Freshness
begin

text \<open>
  The manufacturing answer of \<open>manufacturing/api/answer_ext.py\<close>: retrieval and the metadata filter, the danger
  classification, the safety gate over the candidate evidence, the answer flow of theory \<open>Answer\<close> on the evidence
  that may carry the answer, and the check of what was cited in the end. \<open>me_get_meta\<close> resolves the metadata of a
  document and \<open>me_today\<close> is the day; both are arguments, read without interleaved changes.
\<close>

section \<open>Answers\<close>

text \<open>A citation with the provenance of its document; the fields of the base citation are those of \<open>mc_base\<close>.\<close>

record mfg_citation =
  mc_base :: citation
  mc_approval_status :: "string option"
  mc_effective_date :: pyval
  mc_approval_source :: "string option"
  mc_last_verified_at :: "string option"
  mc_review_overdue :: bool

record mfg_answer =
  ma_status :: string
  ma_text :: "string option"
  ma_confidence :: "rat option"
  ma_citations :: "mfg_citation list"
  ma_used_chunks :: "string list"
  ma_used_modalities :: "string list"
  ma_freshness :: "freshness list"
  ma_cost :: "cost_summary option"
  ma_correlation_id :: string
  ma_high_risk :: bool
  ma_high_risk_reason_codes :: "string list"
  ma_safety_block_reason :: "string option"
  ma_obsolete_warning :: bool
  ma_requires_onsite_confirmation :: bool
  ma_notice :: "string option"
  ma_visual_evidence_audit :: "pydict list"

definition onsite_confirmation_notice :: string where
  "onsite_confirmation_notice =
     [CHR 0xE4, CHR 0xBD, CHR 0x9C, CHR 0xE6, CHR 0xA5, CHR 0xAD, CHR 0xE5, CHR 0xAE, CHR 0x9F, CHR 0xE6,
      CHR 0x96, CHR 0xBD, CHR 0xE5, CHR 0x89, CHR 0x8D, CHR 0xE3, CHR 0x81, CHR 0xAB, CHR 0xE7, CHR 0x8F,
      CHR 0xBE, CHR 0xE5, CHR 0xA0, CHR 0xB4, CHR 0xE8, CHR 0xB2, CHR 0xAC, CHR 0xE4, CHR 0xBB, CHR 0xBB,
      CHR 0xE8, CHR 0x80, CHR 0x85, CHR 0xE3, CHR 0x81, CHR 0xBE, CHR 0xE3, CHR 0x81, CHR 0x9F, CHR 0xE3,
      CHR 0x81, CHR 0xAF, CHR 0xE6, CHR 0x9C, CHR 0x89, CHR 0xE8, CHR 0xB3, CHR 0x87, CHR 0xE6, CHR 0xA0,
      CHR 0xBC, CHR 0xE8, CHR 0x80, CHR 0x85, CHR 0xE3, CHR 0x81, CHR 0xAE, CHR 0xE7, CHR 0xA2, CHR 0xBA,
      CHR 0xE8, CHR 0xAA, CHR 0x8D, CHR 0xE3, CHR 0x81, CHR 0x8C, CHR 0xE5, CHR 0xBF, CHR 0x85, CHR 0xE8,
      CHR 0xA6, CHR 0x81, CHR 0xE3, CHR 0x81, CHR 0xA7, CHR 0xE3, CHR 0x81, CHR 0x99, CHR 0xE3, CHR 0x80,
      CHR 0x82]"

definition from_base ::
  "(string \<Rightarrow> int option) \<Rightarrow> int \<Rightarrow> citation \<Rightarrow> mfg_metadata option \<Rightarrow> mfg_citation result" where
  "from_base parse_int today c meta =
     (let base = c\<lparr>ci_pixel_derived := (ci_pixel_derived c \<or> ci_kind c \<in> visual_derived_citation_kinds)\<rparr>
      in case meta of
           None \<Rightarrow> Inr \<lparr>mc_base = base, mc_approval_status = None, mc_effective_date = PNone, mc_approval_source = None,
              mc_last_verified_at = None, mc_review_overdue = False\<rparr>
         | Some m \<Rightarrow>
             rbind (is_review_overdue parse_int today (Record m)) (\<lambda>overdue.
             Inr \<lparr>mc_base = base, mc_approval_status = Some (approval_status_value (mm_approval_status m)),
                  mc_effective_date = mm_effective_date m,
                  mc_approval_source = Some (approval_source_value (mm_approval_source m)),
                  mc_last_verified_at = (if mm_last_verified_at m = [] then None else Some (mm_last_verified_at m)),
                  mc_review_overdue = overdue\<rparr>))"

section \<open>Filters and identifiers\<close>

text \<open>Equality of the values a filter compares: numbers by value, lists element by element.\<close>

fun py_eq :: "pyval \<Rightarrow> pyval \<Rightarrow> bool" where
  "py_eq (PStr a) (PStr b) = (a = b)"
| "py_eq PNone PNone = True"
| "py_eq (PList xs) (PList ys) = list_all2 py_eq xs ys"
| "py_eq (PDict d) (PDict e) = (d = e)"
| "py_eq v w = (case (py_number v, py_number w) of (Some a, Some b) \<Rightarrow> a = b | _ \<Rightarrow> False)"

text \<open>\<open>getattr(meta, key, None)\<close> with the value of an enum member; a tuple is equal to no JSON value.\<close>

definition filter_field :: "mfg_metadata \<Rightarrow> string \<Rightarrow> pyval option" where
  "filter_field m key =
     (let got = py_get (to_mapping m) key
      in if key \<in> {''hazard_tags'', ''regulation_refs''} then None
         else if got = PNone \<and> key = ''document_type'' then Some (py_get (to_mapping m) ''document_kind'')
         else Some got)"

definition matches_filters :: "mfg_metadata option \<Rightarrow> pydict \<Rightarrow> bool" where
  "matches_filters meta filters \<longleftrightarrow>
     filters = [] \<or>
     (case meta of
        None \<Rightarrow> False
      | Some m \<Rightarrow> \<forall>(key, want)\<in>set filters. want = PNone \<or>
          (case filter_field m key of None \<Rightarrow> False | Some got \<Rightarrow> py_eq got want))"

definition mfg_identifier_rx :: "rx" where
  "mfg_identifier_rx =
     rx_seq [NotBehind ascii_alnum, rx_any [rx_seq [rx_upto 1 12 (Cls ascii_alpha), rx_plus (rx_seq [rx_chr 45,
      rx_upto 1 16 (Cls ascii_alnum)])], rx_seq [rx_upto 2 12 (Cls ascii_alpha), Rep 2 None (Cls ascii_digit),
      rx_star (rx_seq [rx_chr 45, rx_upto 1 16 (Cls ascii_alnum)])]], NotAhead (Cls ascii_alnum)]"

definition mfg_normalize_identifier :: "ucd \<Rightarrow> string \<Rightarrow> string" where
  "mfg_normalize_identifier U v =
     py_lower (concat (filter (\<lambda>w. u_word U (cp w) \<and> cp w \<noteq> 95) (utf8_chars v)))"

definition mfg_query_identifiers :: "ucd \<Rightarrow> string \<Rightarrow> string list" where
  "mfg_query_identifiers U query =
     fold add_code (filter (\<lambda>i. 3 \<le> length (utf8_chars i))
       (map (mfg_normalize_identifier U) (rx_findall mfg_identifier_rx query))) []"

definition evidence_identifier_blob :: "ucd \<Rightarrow> scored_chunk list \<Rightarrow> mfg_metadata list \<Rightarrow> string" where
  "evidence_identifier_blob U evidence metas =
     mfg_normalize_identifier U (str_join '' '' (
       concat (map (\<lambda>s. let c = sc_chunk s in [c_document_id c, c_chunk_id c, c_text c] @
         map (\<lambda>(k, v). py_str v) (filter (\<lambda>(k, v). v \<noteq> PNone) (c_metadata c))) evidence) @
       concat (map (\<lambda>m. map py_str (filter py_truthy [PStr (mm_document_id m), mm_equipment_id m, mm_process_id m])) metas)))"

definition missing_query_identifiers :: "ucd \<Rightarrow> string \<Rightarrow> scored_chunk list \<Rightarrow> mfg_metadata list \<Rightarrow> string list" where
  "missing_query_identifiers U query evidence metas =
     (let ids = mfg_query_identifiers U query; blob = evidence_identifier_blob U evidence metas
      in if ids = [] then [] else filter (\<lambda>i. \<not> str_contains i blob) ids)"

section \<open>Whose evidence may carry the answer\<close>

definition is_metadata_only_high_risk :: "high_risk_classification \<Rightarrow> bool" where
  "is_metadata_only_high_risk k \<longleftrightarrow>
     hr_is_high_risk k \<and> hr_reason_codes k \<noteq> [] \<and>
     (\<forall>code\<in>set (hr_reason_codes k). code = ''hazard_tag'' \<or> starts_with code ''metadata:'')"

definition is_approved :: "mfg_metadata option \<Rightarrow> bool" where
  "is_approved meta \<longleftrightarrow> (case meta of None \<Rightarrow> False | Some m \<Rightarrow> mm_approval_status m = APPROVED)"

definition lookup_hints :: "string list" where
  "lookup_hints = [''equipment_lookup'', ''metadata_lookup'', ''asset_lookup'']"

definition equipment_word :: string where
  "equipment_word = [CHR 0xE8, CHR 0xA8, CHR 0xAD, CHR 0xE5, CHR 0x82, CHR 0x99]"

definition equipment_questions :: "string list" where
  "equipment_questions =
     [[CHR 0xE6, CHR 0x8B, CHR 0x85, CHR 0xE5, CHR 0xBD, CHR 0x93, CHR 0xE9, CHR 0x83, CHR 0xA8, CHR 0xE9, CHR 0x96, CHR 0x80],
      [CHR 0xE6, CHR 0x8B, CHR 0x85, CHR 0xE5, CHR 0xBD, CHR 0x93, CHR 0xE9, CHR 0x83, CHR 0xA8, CHR 0xE7, CHR 0xBD, CHR 0xB2],
      [CHR 0xE8, CHR 0xA8, CHR 0xAD, CHR 0xE7, CHR 0xBD, CHR 0xAE, CHR 0xE3, CHR 0x83, CHR 0xA9, CHR 0xE3, CHR 0x82, CHR 0xA4, CHR 0xE3, CHR 0x83, CHR 0xB3],
      [CHR 0xE4, CHR 0xBF, CHR 0x9D, CHR 0xE5, CHR 0x85, CHR 0xA8, CHR 0xE3, CHR 0x82, CHR 0xB3, CHR 0xE3, CHR 0x83, CHR 0xBC, CHR 0xE3, CHR 0x83, CHR 0x89],
      [CHR 0xE8, CHR 0xA8, CHR 0x98, CHR 0xE9, CHR 0x8C, CHR 0xB2, CHR 0xE5, CHR 0x85, CHR 0x88],
      [CHR 0xE7, CHR 0x99, CHR 0xBA, CHR 0xE5, CHR 0x8A, CHR 0xB9, CHR 0xE6, CHR 0x97, CHR 0xA5],
      [CHR 0xE7, CHR 0x82, CHR 0xB9, CHR 0xE6, CHR 0xA4, CHR 0x9C, CHR 0xE8, CHR 0xA8, CHR 0x88, CHR 0xE7, CHR 0x94, CHR 0xBB, CHR 0xE6, CHR 0x97, CHR 0xA5],
      [CHR 0xE6, CHR 0xAC, CHR 0xA1, CHR 0xE5, CHR 0x9B, CHR 0x9E, CHR 0xE7, CHR 0x82, CHR 0xB9, CHR 0xE6, CHR 0xA4, CHR 0x9C],
      [CHR 0xE3, CHR 0x81, CHR 0xAB, CHR 0xE3, CHR 0x81, CHR 0xA4, CHR 0xE3, CHR 0x81, CHR 0x84, CHR 0xE3, CHR 0x81, CHR 0xA6]]"

definition should_answer_from_approved_lookup_evidence ::
  "string \<Rightarrow> string option \<Rightarrow> high_risk_classification \<Rightarrow> bool" where
  "should_answer_from_approved_lookup_evidence query hint k \<longleftrightarrow>
     is_metadata_only_high_risk k \<or> hr_is_high_risk k \<or>
     py_lower (py_strip (case hint of None \<Rightarrow> [] | Some h \<Rightarrow> h)) \<in> set lookup_hints \<or>
     (str_contains equipment_word query \<and> (\<exists>w\<in>set equipment_questions. str_contains w query))"

definition should_defer_visual_promotion ::
  "bool \<Rightarrow> int \<Rightarrow> safety_decision \<Rightarrow> citation list \<Rightarrow> mfg_metadata list \<Rightarrow> bool" where
  "should_defer_visual_promotion promotion today d citations metas \<longleftrightarrow>
     promotion \<and> sd_blocked d \<and> sd_safety_block_reason d = Some APPROVED_CITATION_MISSING \<and>
     (\<exists>c\<in>set citations. ci_kind c \<in> visual_derived_citation_kinds \<and>
        is_approved_effective (dget (by_doc (map Some metas)) (ci_document_id c)) today \<and>
        is_promotable_evidence (ci_metadata c))"

definition lexically_responsive :: "ucd \<Rightarrow> string \<Rightarrow> string set \<Rightarrow> bool" where
  "lexically_responsive U text_of terms \<longleftrightarrow> terms \<noteq> {} \<and> terms \<inter> set (lexical_query_terms U text_of) \<noteq> {}"

section \<open>Visual evidence\<close>

definition first_lexical_reason :: "pydict list \<Rightarrow> string" where
  "first_lexical_reason verdicts =
     (case find (\<lambda>v. py_get v ''verifier_kind'' = PStr ''lexical'') verdicts of
        None \<Rightarrow> [] | Some v \<Rightarrow> py_get_str v ''reason_code'')"

definition visual_grounding_method :: "pydict list \<Rightarrow> string" where
  "visual_grounding_method verdicts =
     (let reason = first_lexical_reason verdicts
      in if reason = ''substring_match'' then ''ocr_verbatim''
         else if reason \<in> {''term_subset_match'', ''assertion_terms_empty'', ''identifier_anchor_missing'',
             ''ocr_subset_missing_terms''} then ''ocr_subset''
         else if reason = ''ocr_empty'' then ''ocr_unavailable''
         else ''visual_verifier'')"

definition visual_audit_entry :: "int \<Rightarrow> mfg_citation \<Rightarrow> pydict" where
  "visual_audit_entry quorum mc =
     (let c = mc_base mc;
          cid = (case ci_chunk_id c of None \<Rightarrow> [] | Some i \<Rightarrow> i)
      in [(''citation_id'', PStr (if cid \<noteq> [] then cid
             else str_join '':'' (filter (\<lambda>s. s \<noteq> []) [ci_asset_id c, ci_region_id c]))),
          (''document_id'', PStr (ci_document_id c)), (''kind'', PStr (ci_kind c)), (''asset_id'', PStr (ci_asset_id c)),
          (''region_id'', PStr (ci_region_id c)), (''page_number'', PInt (ci_page_number c)),
          (''has_bbox'', PBool (ci_bbox c \<noteq> None)),
          (''approval_status_at_use'', opt_value (\<lambda>s. s) (mc_approval_status mc)),
          (''grounding_method'', PStr (visual_grounding_method (ci_visual_verifier_verdicts c))),
          (''promoted'', PBool (ci_visual_evidence_verified c)),
          (''verifiers'', PList (map PDict (ci_visual_verifier_verdicts c))), (''quorum'', PInt (max 1 quorum))])"

definition visual_evidence_audit_payload :: "int \<Rightarrow> mfg_citation list \<Rightarrow> pydict list" where
  "visual_evidence_audit_payload quorum mcs =
     map (visual_audit_entry quorum)
       (filter (\<lambda>mc. ci_kind (mc_base mc) \<in> visual_derived_citation_kinds \<or> ci_asset_id (mc_base mc) \<noteq> []) mcs)"

definition visual_page_key :: "mfg_citation \<Rightarrow> string \<times> int \<times> string" where
  "visual_page_key mc = (ci_document_id (mc_base mc), ci_page_number (mc_base mc), ci_asset_id (mc_base mc))"

definition is_page_aggregate :: "pydict \<Rightarrow> bool" where
  "is_page_aggregate m = py_truthy (py_get m ''page_aggregate'')"

definition verified_page :: "mfg_citation \<Rightarrow> bool" where
  "verified_page mc \<longleftrightarrow>
     ci_kind (mc_base mc) \<in> visual_derived_citation_kinds \<and> ci_visual_evidence_verified (mc_base mc) \<and>
     is_page_aggregate (ci_metadata (mc_base mc)) \<and> is_promotable_evidence (ci_metadata (mc_base mc))"

definition collapse_visual_page_citations :: "mfg_citation list \<Rightarrow> mfg_citation list" where
  "collapse_visual_page_citations mcs =
     (let keys = visual_page_key ` set (filter verified_page mcs)
      in filter (\<lambda>mc. \<not> (ci_kind (mc_base mc) \<in> visual_derived_citation_kinds \<and>
           \<not> is_page_aggregate (ci_metadata (mc_base mc)) \<and> visual_page_key mc \<in> keys)) mcs)"

section \<open>Environment\<close>

record mfg_answer_env =
  me_answer :: answer_env
  me_get_meta :: "string \<Rightarrow> string \<Rightarrow> mfg_metadata option"
  me_get_document :: "(string \<Rightarrow> string \<Rightarrow> document option) option"
  me_classifier :: risk_classifier
  me_lexicon :: "(string \<Rightarrow> (string, string list) dict result) option"
  me_today :: int
  me_promotion :: bool
  me_gate_promotion :: bool

definition me_ucd :: "mfg_answer_env \<Rightarrow> ucd" where
  "me_ucd env = ax_ucd (me_answer env)"

definition safety_lexicon_extras :: "mfg_answer_env \<Rightarrow> string \<Rightarrow> (string, string list) dict" where
  "safety_lexicon_extras env tenant =
     (case me_lexicon env of
        None \<Rightarrow> []
      | Some entries \<Rightarrow> (case entries tenant of Inl e \<Rightarrow> [] | Inr d \<Rightarrow> d))"

text \<open>The raw query alone, before any retrieval: only concrete signals count.\<close>

definition classify_query_signal :: "mfg_answer_env \<Rightarrow> string \<Rightarrow> bool result" where
  "classify_query_signal env query =
     rbind (classify (me_ucd env) (me_classifier env) query [] None []) (\<lambda>k.
       Inr (hr_is_high_risk k \<and> hr_classification_source k \<in> {Some SrcMETADATA, Some SrcKEYWORD}))"

section \<open>Candidates\<close>

definition candidate_citation :: "mfg_answer_env \<Rightarrow> scored_chunk \<Rightarrow> citation result" where
  "candidate_citation env s =
     (let c = sc_chunk s; m = c_metadata c; np = ax_parsers (me_answer env); visual = (c_modality c = VISUAL);
          doc = (case me_get_document env of None \<Rightarrow> None | Some get \<Rightarrow> get (c_tenant_id c) (c_document_id c));
          kind = py_str (py_or (py_get m ''structured_kind'') (PStr ''text''));
          if_visual = (\<lambda>k. if visual then meta_str m k else [])
      in rbind (if visual then int_of (np_int np) (py_or (py_get m ''page_number'') (PInt 0)) else Inr 0) (\<lambda>page.
         rbind (if visual then bbox_from_metadata np c else Inr None) (\<lambda>bbox.
         Inr ((new_citation (if visual then ''visual'' else kind) (c_document_id c)
                (case doc of None \<Rightarrow> [] | Some d \<Rightarrow> d_source_id d)
                (case doc of None \<Rightarrow> 0 | Some d \<Rightarrow> d_version d) (sc_retrieval_score s))
              \<lparr>ci_chunk_id := Some (c_chunk_id c),
               ci_text_range := (if visual then None else Some (0, int (length (utf8_chars (c_text c))))),
               ci_asset_id := if_visual ''asset_id'', ci_page_number := page, ci_region_id := if_visual ''region_id'',
               ci_bbox := bbox, ci_crop_uri := if_visual ''crop_uri'',
               ci_pixel_derived := (visual \<or> py_truthy (py_get m ''pixel_derived'')),
               ci_visual_evidence_verified := py_truthy (py_get m ''visual_evidence_verified''), ci_metadata := m\<rparr>))))"

text \<open>\<open>add\<close>: once per chunk.\<close>

definition add_scored :: "scored_chunk \<Rightarrow> scored_chunk list \<Rightarrow> scored_chunk list" where
  "add_scored s acc = (if c_chunk_id (sc_chunk s) \<in> (\<lambda>t. c_chunk_id (sc_chunk t)) ` set acc then acc else acc @ [s])"

definition page_of :: "number_parsers \<Rightarrow> chunk \<Rightarrow> int result" where
  "page_of np c = int_of (np_int np) (py_or (py_get (c_metadata c) ''page_number'') (PInt 0))"

text \<open>The page-level siblings of a retrieved line region.\<close>

definition sibling_step ::
  "mfg_answer_env \<Rightarrow> identity_claims \<Rightarrow> query_profile \<Rightarrow> scored_chunk \<Rightarrow> int \<Rightarrow> chunk \<Rightarrow>
     scored_chunk list \<Rightarrow> scored_chunk list result" where
  "sibling_step env p pr s page sibling acc =
     (if \<not> is_page_aggregate (c_metadata sibling) then Inr acc
      else rbind (if page = 0 then Inr True else rbind (page_of (ax_parsers (me_answer env)) sibling) (\<lambda>n. Inr (n = page)))
        (\<lambda>same.
          if \<not> same then Inr acc
          else if \<not> is_visible (re_acl (ax_retrieval (me_answer env))) p sibling then Inr acc
          else Inr (add_scored \<lparr>sc_chunk = sibling,
            sc_retrieval_score = max (sc_retrieval_score s) (pr_score_threshold pr)\<rparr> acc)))"

definition aggregate_step ::
  "mfg_answer_env \<Rightarrow> identity_claims \<Rightarrow> query_profile \<Rightarrow> vector_store \<Rightarrow> scored_chunk \<Rightarrow>
     scored_chunk list \<Rightarrow> scored_chunk list result" where
  "aggregate_step env p pr store s acc =
     (let c = sc_chunk s
      in if c_modality c = VISUAL \<and> \<not> is_page_aggregate (c_metadata c) then
           rbind (page_of (ax_parsers (me_answer env)) c) (\<lambda>page.
           rbind (rfold (sibling_step env p pr s page)
             (visual_chunks_for_document (id_tenant_id p) (c_document_id c) store) acc) (\<lambda>acc.
           Inr (add_scored s acc)))
         else Inr (add_scored s acc))"

definition with_visual_page_aggregate_candidates ::
  "mfg_answer_env \<Rightarrow> identity_claims \<Rightarrow> query_profile \<Rightarrow> vector_store \<Rightarrow> scored_chunk list \<Rightarrow>
     scored_chunk list result" where
  "with_visual_page_aggregate_candidates env p pr store scored =
     (if \<not> me_promotion env then Inr scored else rfold (aggregate_step env p pr store) scored [])"

section \<open>The assessment\<close>

record assessment =
  as_evidence :: "scored_chunk list"
  as_document_ids :: "string list"
  as_classification :: high_risk_classification
  as_decision :: safety_decision
  as_deferred :: bool
  as_missing :: "string list"

definition enforce_intent_responsive_approved_citation ::
  "mfg_answer_env \<Rightarrow> string \<Rightarrow> string \<Rightarrow> high_risk_classification \<Rightarrow> scored_chunk list \<Rightarrow>
     safety_decision \<Rightarrow> safety_decision" where
  "enforce_intent_responsive_approved_citation env query intent k evidence d =
     (if intent = query \<or> \<not> hr_is_high_risk k \<or> sd_blocked d then d
      else
        let terms = set (lexical_query_terms (me_ucd env) intent)
        in if \<exists>s\<in>set evidence. lexically_responsive (me_ucd env) (c_text (sc_chunk s)) terms \<and>
             is_approved_effective (me_get_meta env (c_tenant_id (sc_chunk s)) (c_document_id (sc_chunk s))) (me_today env)
           then d
           else d\<lparr>sd_blocked := True, sd_safety_block_reason := Some APPROVED_CITATION_MISSING,
                  sd_requires_onsite_confirmation := True, sd_approval_status_at_use := None\<rparr>)"

definition assess ::
  "mfg_answer_env \<Rightarrow> identity_claims \<Rightarrow> query_profile \<Rightarrow> string \<Rightarrow> string \<Rightarrow> string option \<Rightarrow> pydict \<Rightarrow>
     vector_store \<Rightarrow> scored_chunk list \<Rightarrow> assessment result" where
  "assess env p pr query intent hint filters store scored =
     (let U = me_ucd env; meta_of = me_get_meta env (id_tenant_id p)
      in rbind (with_visual_page_aggregate_candidates env p pr store
           (filter (\<lambda>s. matches_filters (meta_of (c_document_id (sc_chunk s))) filters) scored)) (\<lambda>candidates.
         let pre = pre_gate candidates pr;
             evidence = (if gd_passed pre then gd_evidence pre else []);
             ids = fold add_code (map (\<lambda>s. c_document_id (sc_chunk s)) evidence) [];
             metas = List.map_filter meta_of ids
         in rbind (rmap (candidate_citation env) evidence) (\<lambda>citations.
            rbind (classify U (me_classifier env) intent metas hint (safety_lexicon_extras env (id_tenant_id p))) (\<lambda>k.
            let d = enforce_intent_responsive_approved_citation env query intent k evidence
                      (evaluate (me_gate_promotion env) (me_today env) k citations (map Some metas))
            in Inr \<lparr>as_evidence = evidence, as_document_ids = ids, as_classification = k, as_decision = d,
                    as_deferred = should_defer_visual_promotion (me_promotion env) (me_today env) d citations metas,
                    as_missing = missing_query_identifiers U intent evidence metas\<rparr>))))"

section \<open>Blocking, or choosing the evidence\<close>

datatype mfg_plan =
    Block "safety_block_reason option"
  | Generate "scored_chunk list option" safety_decision

text \<open>\<open>_answer_service_for_metadata_lookup\<close>: the preselected evidence, or \<open>None\<close> for the unrestricted service.\<close>

definition lookup_evidence ::
  "mfg_answer_env \<Rightarrow> identity_claims \<Rightarrow> query_profile \<Rightarrow> string \<Rightarrow> string \<Rightarrow> string option \<Rightarrow>
     high_risk_classification \<Rightarrow> scored_chunk list \<Rightarrow> scored_chunk list option" where
  "lookup_evidence env p pr query intent hint k evidence =
     (if \<not> should_answer_from_approved_lookup_evidence query hint k then None
      else
        let U = me_ucd env;
            meta_of = (\<lambda>s. me_get_meta env (id_tenant_id p) (c_document_id (sc_chunk s)));
            approved = filter (\<lambda>s. if hr_is_high_risk k then is_approved_effective (meta_of s) (me_today env)
                                    else is_approved (meta_of s)) evidence;
            terms = set (lexical_query_terms U intent);
            responsive = filter (\<lambda>s. lexically_responsive U (c_text (sc_chunk s)) terms) approved;
            approved = (if intent \<noteq> query \<and> responsive \<noteq> [] then responsive else approved);
            pre = pre_gate approved pr;
            fallback = (if hr_is_high_risk k then Some [] else None)
        in if approved = [] then fallback
           else if \<not> gd_passed pre then fallback
           else Some (gd_evidence pre))"

definition plan_answer ::
  "mfg_answer_env \<Rightarrow> identity_claims \<Rightarrow> query_profile \<Rightarrow> string \<Rightarrow> string \<Rightarrow> string option \<Rightarrow> assessment \<Rightarrow> mfg_plan result" where
  "plan_answer env p pr query intent hint a =
     (let k = as_classification a; d = as_decision a;
          meta_of = (\<lambda>s. me_get_meta env (id_tenant_id p) (c_document_id (sc_chunk s)))
      in if as_missing a \<noteq> [] then Inr (Block (Some INSUFFICIENT_EVIDENCE))
         else if sd_blocked d \<and> \<not> as_deferred a
           then Inr (Block (normalize_block_reason [sd_safety_block_reason d]))
         else
           let preselected = lookup_evidence env p pr query intent hint k (as_evidence a)
           in (case preselected of
                 None \<Rightarrow> Inr (Generate None d)
               | Some [] \<Rightarrow> Inr (Generate (Some []) d)
               | Some (s # ss) \<Rightarrow>
                   let chosen = s # ss; metas = List.map_filter meta_of chosen
                   in if missing_query_identifiers (me_ucd env) intent chosen metas \<noteq> []
                      then Inr (Block (Some (if hr_is_high_risk k then APPROVED_CITATION_MISSING else INSUFFICIENT_EVIDENCE)))
                      else rbind (rmap (candidate_citation env) chosen) (\<lambda>citations.
                        let f = evaluate (me_gate_promotion env) (me_today env) k citations (map Some metas)
                        in Inr (Generate (Some chosen)
                             (if sd_obsolete_warning d then f\<lparr>sd_obsolete_warning := True\<rparr> else f)))))"

section \<open>The answer\<close>

definition notice_of :: "safety_decision \<Rightarrow> string option" where
  "notice_of d = (if sd_requires_onsite_confirmation d then Some onsite_confirmation_notice else None)"

text \<open>An answer that asserts nothing.\<close>

definition blocked_answer ::
  "string \<Rightarrow> high_risk_classification \<Rightarrow> safety_decision \<Rightarrow> safety_block_reason option \<Rightarrow> bool \<Rightarrow> pydict list \<Rightarrow>
     mfg_answer" where
  "blocked_answer cid k d reason obsolete audit =
     \<lparr>ma_status = insufficient_evidence, ma_text = None, ma_confidence = None, ma_citations = [], ma_used_chunks = [],
      ma_used_modalities = [], ma_freshness = [], ma_cost = None, ma_correlation_id = cid,
      ma_high_risk = hr_is_high_risk k, ma_high_risk_reason_codes = hr_reason_codes k,
      ma_safety_block_reason = map_option block_reason_value reason, ma_obsolete_warning = obsolete,
      ma_requires_onsite_confirmation = sd_requires_onsite_confirmation d, ma_notice = notice_of d,
      ma_visual_evidence_audit = audit\<rparr>"

definition as_reason :: "string \<Rightarrow> safety_block_reason" where
  "as_reason status = (if status = insufficient_evidence then INSUFFICIENT_EVIDENCE else OTHER_BLOCK)"

definition cited_approved_effective :: "mfg_answer_env \<Rightarrow> identity_claims \<Rightarrow> mfg_citation \<Rightarrow> bool" where
  "cited_approved_effective env p mc =
     citation_is_approved_effective (me_promotion env) (me_today env) (mc_base mc)
       (me_get_meta env (id_tenant_id p) (ci_document_id (mc_base mc)))"

definition primary_obsolete :: "mfg_citation list \<Rightarrow> bool" where
  "primary_obsolete mcs =
     (case mcs of [] \<Rightarrow> False | c # cs \<Rightarrow> mc_approval_status c = Some (approval_status_value OBSOLETE))"

text \<open>The reason why an asserted answer is withdrawn after its citations are known.\<close>

definition demotion ::
  "mfg_answer_env \<Rightarrow> identity_claims \<Rightarrow> high_risk_classification \<Rightarrow> mfg_citation list \<Rightarrow> safety_block_reason option" where
  "demotion env p k mcs =
     (let sound = cited_approved_effective env p
      in if mcs = [] then None
         else if hr_is_high_risk k \<and> \<not> list_all sound mcs then Some APPROVED_CITATION_MISSING
         else if primary_obsolete mcs \<and> \<not> list_ex sound mcs then Some INSUFFICIENT_EVIDENCE
         else None)"

definition finalize ::
  "mfg_answer_env \<Rightarrow> identity_claims \<Rightarrow> high_risk_classification \<Rightarrow> safety_decision \<Rightarrow> bool \<Rightarrow> answer_record \<Rightarrow>
     (mfg_answer \<times> safety_decision) result" where
  "finalize env p k d deferred base =
     rbind (rmap (\<lambda>c. from_base (np_int (ax_parsers (me_answer env))) (me_today env) c
         (me_get_meta env (id_tenant_id p) (ci_document_id c))) (ans_citations base)) (\<lambda>mcs.
       let final = (if hr_is_high_risk k \<and> me_promotion env then collapse_visual_page_citations mcs else mcs);
           chunks = List.map_filter (\<lambda>mc. ci_chunk_id (mc_base mc)) final;
           used = (if chunks = [] then ans_used_chunks base else chunks);
           ok = (ans_status base = status_ok);
           audit = visual_evidence_audit_payload
             (vs_visual_evidence_verifier_quorum (ax_settings (me_answer env))) final;
           reason = (if ok then demotion env p k final else None)
       in Inr (case reason of
            Some r \<Rightarrow> (blocked_answer (ans_correlation_id base) k d (Some r)
                (primary_obsolete final \<or> sd_obsolete_warning d) audit, d)
          | None \<Rightarrow>
              let d' = (if ok \<and> final \<noteq> [] \<and> deferred
                        then d\<lparr>sd_blocked := False, sd_safety_block_reason := None,
                               sd_approval_status_at_use := Some (approval_status_value APPROVED)\<rparr> else d);
                  base_reason = (if ok then None else Some (case normalize_block_reason [sd_safety_block_reason d'] of
                      None \<Rightarrow> as_reason (ans_status base) | Some r \<Rightarrow> r))
              in (\<lparr>ma_status = ans_status base, ma_text = ans_text base, ma_confidence = ans_confidence base,
                   ma_citations = final, ma_used_chunks = used, ma_used_modalities = ans_used_modalities base,
                   ma_freshness = ans_freshness base, ma_cost = ans_cost base,
                   ma_correlation_id = ans_correlation_id base, ma_high_risk = hr_is_high_risk k,
                   ma_high_risk_reason_codes = hr_reason_codes k,
                   ma_safety_block_reason = map_option block_reason_value base_reason,
                   ma_obsolete_warning = sd_obsolete_warning d',
                   ma_requires_onsite_confirmation = sd_requires_onsite_confirmation d', ma_notice = notice_of d,
                   ma_visual_evidence_audit = audit\<rparr>, d')))"

type_synonym mfg_answer_outcome = "(mfg_answer \<times> high_risk_classification \<times> safety_decision \<times> string list) result"

text \<open>The answer service of a run: the wired one, or one over preselected evidence.\<close>

definition service_of :: "mfg_answer_env \<Rightarrow> scored_chunk list option \<Rightarrow> answer_env" where
  "service_of env pre = (case pre of None \<Rightarrow> me_answer env | Some ev \<Rightarrow> (me_answer env)\<lparr>ax_preselected := Some ev\<rparr>)"

definition answer_with_plan ::
  "mfg_answer_env \<Rightarrow> identity_claims \<Rightarrow> string \<Rightarrow> query_profile \<Rightarrow> string \<Rightarrow> string option \<Rightarrow> assessment \<Rightarrow>
     mfg_plan \<Rightarrow> answer_state \<Rightarrow> answer_state \<times> mfg_answer_outcome" where
  "answer_with_plan env p cid pr query intent_query a plan st =
     (let k = as_classification a
      in case plan of
           Block reason \<Rightarrow>
             (st, Inr (blocked_answer [] k (as_decision a) reason (sd_obsolete_warning (as_decision a)) [],
                k, as_decision a, as_document_ids a))
         | Generate preselected d \<Rightarrow>
             (case answer (service_of env preselected) p cid pr query None intent_query st of
                (st, Inl e) \<Rightarrow> (st, Inl e)
              | (st, Inr base) \<Rightarrow>
                  (st, rbind (finalize env p k d (as_deferred a) base) (\<lambda>(ans, d').
                     Inr (ans, k, d', as_document_ids a)))))"

definition mfg_answer_query ::
  "mfg_answer_env \<Rightarrow> identity_claims \<Rightarrow> string \<Rightarrow> query_profile \<Rightarrow> string \<Rightarrow> string option \<Rightarrow> pydict \<Rightarrow>
     string option \<Rightarrow> answer_state \<Rightarrow> answer_state \<times> mfg_answer_outcome" where
  "mfg_answer_query env p cid pr query hint filters intent_query st =
     (let intent = asked_question query intent_query
      in case retrieve_for_answer (me_answer env) p query pr [] st of
           (st, Inl e) \<Rightarrow> (st, Inl e)
         | (st, Inr scored) \<Rightarrow>
             (case assess env p pr query intent hint filters (rs_store (an_retrieval st)) scored of
                Inl e \<Rightarrow> (st, Inl e)
              | Inr a \<Rightarrow>
                  (case plan_answer env p pr query intent hint a of
                     Inl e \<Rightarrow> (st, Inl e)
                   | Inr plan \<Rightarrow> answer_with_plan env p cid pr query intent_query a plan st)))"

section \<open>What the stages guarantee\<close>

lemma collapse_subset: "set (collapse_visual_page_citations mcs) \<subseteq> set mcs"
  by (auto simp: collapse_visual_page_citations_def Let_def)

lemma collapse_not_empty: "mcs \<noteq> [] \<Longrightarrow> collapse_visual_page_citations mcs \<noteq> []"
proof (cases "filter verified_page mcs")
  case Nil
  assume "mcs \<noteq> []"
  with Nil show ?thesis by (simp add: collapse_visual_page_citations_def)
next
  case (Cons v vs)
  then have "v \<in> set (filter verified_page mcs)" by simp
  then have "v \<in> set mcs" "verified_page v" by simp_all
  then show ?thesis
    by (auto simp: collapse_visual_page_citations_def Let_def filter_empty_conv verified_page_def intro!: bexI [of _ v])
qed

lemma rmap_length: "rmap f xs = Inr ys \<Longrightarrow> length ys = length xs"
  by (induction xs arbitrary: ys) (auto simp: rbind_Inr_iff)

lemma lookup_evidence_approved:
  assumes "hr_is_high_risk k" and "lookup_evidence env p pr q intent hint k ev = pre"
  shows "\<exists>xs. pre = Some xs \<and> set xs \<subseteq> set ev \<and>
     (\<forall>s\<in>set xs. is_approved_effective (me_get_meta env (id_tenant_id p) (c_document_id (sc_chunk s))) (me_today env))"
proof -
  have pass: "gd_passed (pre_gate xs pr) \<Longrightarrow> set (gd_evidence (pre_gate xs pr)) \<subseteq> set xs" for xs
    using pre_gate_passed [of xs pr] by auto
  show ?thesis
    unfolding assms(2) [symmetric] lookup_evidence_def Let_def
    using assms(1) pass by (fastforce simp: should_answer_from_approved_lookup_evidence_def)
qed

lemma plan_generate:
  assumes "plan_answer env p pr q intent hint a = Inr (Generate pre d)"
  shows "pre = lookup_evidence env p pr q intent hint (as_classification a) (as_evidence a) \<and> as_missing a = [] \<and>
     (sd_blocked (as_decision a) \<longrightarrow> as_deferred a)"
  using assms
  by (auto simp: plan_answer_def Let_def rbind_Inr_iff split: if_splits option.splits list.splits)

text \<open>The service keeps everything but where its evidence comes from.\<close>

lemma service_fields [simp]:
  "ax_structured_tool (service_of env pre) = ax_structured_tool (me_answer env)"
  "ax_ucd (service_of env pre) = ax_ucd (me_answer env)" "ax_settings (service_of env pre) = ax_settings (me_answer env)"
  "ax_recheck (service_of env pre) = ax_recheck (me_answer env)" "ax_parsers (service_of env pre) = ax_parsers (me_answer env)"
  "admitted (service_of env (Some ev)) p st s = (s \<in> set ev)"
  by (simp_all add: service_of_def admitted_def ax_ucd_def split: option.split)

text \<open>A call ends before a model could be asked, or it runs the answer flow once.\<close>

lemma mfg_answer_cases:
  assumes "mfg_answer_query env p cid pr q hint filters iq st = (st', out)"
  obtains (failed) e where "an_calls st' = an_calls st" "out = Inl e"
  | (blocked) k d reason docs where "an_calls st' = an_calls st"
      "out = Inr (blocked_answer [] k d reason (sd_obsolete_warning d) [], k, d, docs)"
  | (answered) st1 scored a pre d0 result where
      "retrieve_for_answer (me_answer env) p q pr [] st = (st1, Inr scored)"
      "assess env p pr q (asked_question q iq) hint filters (rs_store (an_retrieval st1)) scored = Inr a"
      "plan_answer env p pr q (asked_question q iq) hint a = Inr (Generate pre d0)"
      "answer (service_of env pre) p cid pr q None iq st1 = (st', result)"
      "out = rbind result (\<lambda>base. rbind (finalize env p (as_classification a) d0 (as_deferred a) base) (\<lambda>(ans, d).
         Inr (ans, as_classification a, d, as_document_ids a)))"
proof -
  let ?intent = "asked_question q iq"
  obtain st1 res where res: "retrieve_for_answer (me_answer env) p q pr [] st = (st1, res)" by fastforce
  note flow = assms [unfolded mfg_answer_query_def Let_def res prod.case] and frame = retrieve_frames(1) [OF res]
  show thesis
  proof (cases res)
    case (Inl e)
    with flow frame show thesis by (intro failed [of e]) auto
  next
    case scored: (Inr scored)
    note flow = flow [unfolded scored sum.case]
    show thesis
    proof (cases "assess env p pr q ?intent hint filters (rs_store (an_retrieval st1)) scored")
      case (Inl e)
      with flow frame show thesis by (intro failed [of e]) auto
    next
      case a: (Inr a)
      note flow = flow [unfolded a sum.case]
      show thesis
      proof (cases "plan_answer env p pr q ?intent hint a")
        case (Inl e)
        with flow frame show thesis by (intro failed [of e]) auto
      next
        case plan: (Inr plan)
        note flow = flow [unfolded plan sum.case answer_with_plan_def Let_def]
        show thesis
        proof (cases plan)
          case (Block reason)
          with flow frame show thesis
            by (intro blocked [of "as_classification a" "as_decision a" reason "as_document_ids a"]) auto
        next
          case (Generate pre d0)
          obtain result where result: "answer (service_of env pre) p cid pr q None iq st1 = (st', result)"
            and out: "out = rbind result (\<lambda>base. rbind (finalize env p (as_classification a) d0 (as_deferred a) base)
              (\<lambda>(ans, d). Inr (ans, as_classification a, d, as_document_ids a)))"
            using flow by (auto simp: Generate split: prod.splits sum.splits)
          show thesis by (rule answered [OF res [unfolded scored] a plan [unfolded Generate] result out])
        qed
      qed
    qed
  qed
qed

lemma finalize_cases:
  assumes "finalize env p k d deferred base = Inr (ans, d')"
  obtains (withdrawn) "ma_status ans \<noteq> status_ok" "ma_text ans = None" "ma_citations ans = []"
  | (kept) mcs where "length mcs = length (ans_citations base)"
      "ma_citations ans = (if hr_is_high_risk k \<and> me_promotion env then collapse_visual_page_citations mcs else mcs)"
      "ma_status ans = ans_status base" "ma_text ans = ans_text base"
      "ans_status base = status_ok \<longrightarrow> demotion env p k (ma_citations ans) = None"
  using assms
  by (auto simp: finalize_def rbind_Inr_iff Let_def blocked_answer_def status_simps dest!: rmap_length split: option.splits if_splits)

text \<open>Evidence whose document is approved and in force.\<close>

definition stands_on :: "mfg_answer_env \<Rightarrow> identity_claims \<Rightarrow> mfg_citation \<Rightarrow> bool" where
  "stands_on env p mc \<longleftrightarrow>
     (\<exists>m. me_get_meta env (id_tenant_id p) (ci_document_id (mc_base mc)) = Some m \<and>
        sound_evidence (me_promotion env) (me_today env) (mc_base mc) m)"

lemma cited_stands_on: "cited_approved_effective env p = stands_on env p"
  by (rule ext) (simp add: cited_approved_effective_def stands_on_def citation_is_approved_effective_iff)

lemma not_demoted:
  "demotion env p k mcs = None \<Longrightarrow> mcs \<noteq> [] \<Longrightarrow>
     (hr_is_high_risk k \<longrightarrow> list_all (stands_on env p) mcs) \<and> (primary_obsolete mcs \<longrightarrow> list_ex (stands_on env p) mcs)"
  by (auto simp: demotion_def cited_stands_on Let_def split: if_splits)

section \<open>What a manufacturing answer promises\<close>



section \<open>One high-risk answer\<close>

definition sample_mfg_meta :: mfg_metadata where
  "sample_mfg_meta =
     (new_metadata ''t1'' ''d1'')\<lparr>mm_approval_status := APPROVED, mm_effective_date := PStr ''2024-02-29''\<rparr>"

definition sample_mfg_env :: mfg_answer_env where
  "sample_mfg_env =
     \<lparr>me_answer = sample_answer_env, me_get_meta = (\<lambda>t d. if d = ''d1'' then Some sample_mfg_meta else None),
      me_get_document = None,
      me_classifier = \<lparr>rk_llm = None, rk_semantic = None, rk_threshold = semantic_confidence_threshold,
        rk_parse_float = \<lambda>_. None\<rparr>,
      me_lexicon = None, me_today = 738945, me_promotion = False, me_gate_promotion = False\<rparr>"

lemma sample_planned:
  "case assess sample_mfg_env sample_caller default_profile ''state'' ''pump'' None [] store [sample_hit] of
     Inl e \<Rightarrow> False
   | Inr a \<Rightarrow> hr_is_high_risk (as_classification a) \<and> \<not> as_deferred a \<and>
       (case plan_answer sample_mfg_env sample_caller default_profile ''state'' ''pump'' None a of
          Inr (Generate (Some ev) d) \<Rightarrow> ev = [sample_hit]
        | _ \<Rightarrow> False)"
  by code_simp

lemma sample_in_force:
  "is_approved_effective (Some sample_mfg_meta) 738945" "is_high_risk_citation_quality_eligible []"
  "is_review_overdue parse_int 738945 (Record sample_mfg_meta) = Inr False"
  by code_simp+

lemma sample_finalized:
  assumes "ans_status base = status_ok"
    and "map (\<lambda>c. (ci_kind c, ci_document_id c, ci_metadata c)) (ans_citations base) = [(''text'', ''d1'', [])]"
  shows "\<exists>a. finalize sample_mfg_env sample_caller k d False base = Inr (a, d) \<and> ma_status a = status_ok"
proof -
  let ?parse = "np_int (ax_parsers (me_answer sample_mfg_env))"
  have env: "me_today sample_mfg_env = 738945" "me_promotion sample_mfg_env = False"
    "me_get_meta sample_mfg_env t ''d1'' = Some sample_mfg_meta" for t by (simp_all add: sample_mfg_env_def)
  from assms(2) obtain c where c: "ans_citations base = [c]" "ci_kind c = ''text''" "ci_document_id c = ''d1''"
    "ci_metadata c = []" by (auto simp: map_eq_Cons_conv)
  obtain mc where mc: "from_base ?parse 738945 c (Some sample_mfg_meta) = Inr mc" "ci_kind (mc_base mc) = ''text''"
    "ci_document_id (mc_base mc) = ''d1''" "ci_metadata (mc_base mc) = []"
    using c by (simp add: from_base_def sample_in_force Let_def)
  have "cited_approved_effective sample_mfg_env sample_caller mc"
    using mc by (simp add: cited_approved_effective_def citation_is_approved_effective_def env sample_in_force)
  then have "demotion sample_mfg_env sample_caller k [mc] = None" by (simp add: demotion_def Let_def)
  with assms(1) mc c show ?thesis by (simp add: finalize_def env Let_def)
qed

lemma sample_mfg_answered:
  "\<exists>st' a k d docs. mfg_answer_query sample_mfg_env sample_caller ''c'' default_profile ''state'' None [] (Some ''pump'')
     sample_answer_state = (st', Inr (a, k, d, docs)) \<and> ma_status a = status_ok \<and> hr_is_high_risk k"
proof -
  have service: "me_answer sample_mfg_env = sample_answer_env" by (simp add: sample_mfg_env_def)
  have intent: "asked_question ''state'' (Some ''pump'') = ''pump''" by (simp add: asked_question_def)
  obtain st1 where st1: "retrieve_for_answer sample_answer_env sample_caller ''state'' default_profile []
      sample_answer_state = (st1, Inr [sample_hit])" using sample_retrieved by blast
  note planned = sample_planned [of "rs_store (an_retrieval st1)"]
  from planned obtain a where a: "assess sample_mfg_env sample_caller default_profile ''state'' ''pump'' None []
      (rs_store (an_retrieval st1)) [sample_hit] = Inr a" "hr_is_high_risk (as_classification a)" "\<not> as_deferred a"
    by (auto split: sum.splits)
  from planned a(1) obtain d where plan: "plan_answer sample_mfg_env sample_caller default_profile ''state'' ''pump'' None a =
      Inr (Generate (Some [sample_hit]) d)"
    by (auto split: sum.splits mfg_plan.splits option.splits)
  have stored: "retrieve_for_answer (sample_service (Some [sample_hit])) sample_caller ''state'' default_profile ''c'' st1 =
      (st1, Inr [sample_hit])" by (simp add: retrieve_for_answer_def sample_service_def)
  have budget: "\<not> would_exceed ''t1'' 1 (an_cost st1)"
    using sample_budget retrieve_for_answer_unbilled [OF st1, of "''t1''"] by (auto simp: would_exceed_def split: option.splits)
  obtain st' base where base: "answer (sample_service (Some [sample_hit])) sample_caller ''c'' default_profile
      ''state'' None (Some ''pump'') st1 = (st', Inr base)" "ans_status base = status_ok"
      "map (\<lambda>c. (ci_kind c, ci_document_id c, ci_metadata c)) (ans_citations base) = [(''text'', ''d1'', [])]"
    using sample_answer_run [OF stored budget] by (elim exE conjE) (rule that)
  from sample_finalized [OF base(2,3), of "as_classification a" d] obtain ans where
    ans: "finalize sample_mfg_env sample_caller (as_classification a) d False base = Inr (ans, d)"
    "ma_status ans = status_ok" by blast
  have "mfg_answer_query sample_mfg_env sample_caller ''c'' default_profile ''state'' None [] (Some ''pump'')
      sample_answer_state = (st', Inr (ans, as_classification a, d, as_document_ids a))"
    using a(3) by (simp add: mfg_answer_query_def answer_with_plan_def service_of_def service intent st1 a(1) plan
        base(1) [unfolded sample_service_def] ans(1) Let_def)
  with ans(2) a(2) show ?thesis by blast
qed



section \<open>What the flow does not check\<close>

text \<open>
  The gate is evaluated again on the evidence chosen for the answer, but a block it reports there stops nothing: it
  only becomes the decision that is returned.
\<close>

lemma second_block_ignored:
  assumes "plan_answer env p pr q intent hint a = Inr (Generate (Some (s # ss)) d)"
  shows "\<exists>cs. rmap (candidate_citation env) (s # ss) = Inr cs \<and>
     sd_blocked d = sd_blocked (evaluate (me_gate_promotion env) (me_today env) (as_classification a) cs
       (map Some (List.map_filter (\<lambda>s. me_get_meta env (id_tenant_id p) (c_document_id (sc_chunk s))) (s # ss))))"
  using assms
  by (auto simp: plan_answer_def Let_def rbind_Inr_iff split: if_splits option.splits list.splits)

text \<open>An asserted answer without citations is never withdrawn, whatever the classification.\<close>

lemma uncited_answer_kept:
  assumes "ans_citations base = []"
  shows "\<exists>a d'. finalize env p k d deferred base = Inr (a, d') \<and> ma_status a = ans_status base \<and> ma_text a = ans_text base"
  using assms by (simp add: finalize_def demotion_def collapse_visual_page_citations_def Let_def)

text \<open>The base flow cites a chunk as visual or as text: the structured kind the gate surveyed is gone when it is checked.\<close>

lemma structured_kind_lost:
  "citation_of np s doc verified verdicts = Inr c \<Longrightarrow> c_modality (sc_chunk s) \<noteq> VISUAL \<Longrightarrow> ci_kind c = ''text''"
  by (auto simp: citation_of_def Let_def rbind_Inr_iff)

text \<open>
  The metadata filters select what the gate surveys. When the answer runs on the unrestricted service, they select
  nothing of what is retrieved, shown, cited and charged.
\<close>

lemma filters_only_survey:
  assumes "retrieve_for_answer (me_answer env) p q pr [] st = (st1, Inr scored)"
    and "\<And>f. f \<in> {f1, f2} \<Longrightarrow> \<exists>a d.
      assess env p pr q (asked_question q iq) hint f (rs_store (an_retrieval st1)) scored = Inr a \<and>
      plan_answer env p pr q (asked_question q iq) hint a = Inr (Generate None d)"
  shows "fst (mfg_answer_query env p cid pr q hint f1 iq st) = fst (mfg_answer_query env p cid pr q hint f2 iq st)"
proof -
  have "fst (mfg_answer_query env p cid pr q hint f iq st) = fst (answer (me_answer env) p cid pr q None iq st1)"
    if "f \<in> {f1, f2}" for f
    using assms(1) assms(2) [OF that]
    by (auto simp: mfg_answer_query_def answer_with_plan_def service_of_def Let_def split: prod.split sum.split)
  then show ?thesis by simp
qed

end
